(* ===== verification/Hal_Prelude.thy ===== *)
theory Hal_Prelude
  imports Main "HOL-Library.Word"
begin

text \<open>
  Shared material of the development: the collections the component proofs feed to the
  simplifier, C++ integer conversions on \<open>int\<close>, the result codes of the HIDL interface and
  the constants of the Android sensors API (\<^verbatim>\<open>hardware/interfaces/sensors/1.0/types.hal\<close>,
  which is not part of this repository) that the code under src/ tests and sets.

  Integers: 32- and 64-bit C++ integers are read as \<open>int\<close>; where the code converts between
  widths, shifts or masks, the conversion is written out with \<open>i32\<close>, \<open>i64\<close>, \<open>u32\<close>,
  \<open>u64\<close> (two's complement truncation).
\<close>

unbundle bit_operations_syntax

named_theorems hal_defs \<open>definitions of the model that automation may unfold\<close>
named_theorems hal_simps \<open>rewrite rules about the operations of the model\<close>
named_theorems hal_inv \<open>preservation lemmas for the invariants of the components\<close>

section \<open>C++ integers\<close>

definition i32 :: "int \<Rightarrow> int" where
  "i32 n = signed_take_bit 31 n"

definition i64 :: "int \<Rightarrow> int" where
  "i64 n = signed_take_bit 63 n"

definition u32 :: "int \<Rightarrow> int" where
  "u32 n = take_bit 32 n"

definition u64 :: "int \<Rightarrow> int" where
  "u64 n = take_bit 64 n"

abbreviation is_i32 :: "int \<Rightarrow> bool" where
  "is_i32 n \<equiv> - (2 ^ 31) \<le> n \<and> n < 2 ^ 31"

abbreviation is_i64 :: "int \<Rightarrow> bool" where
  "is_i64 n \<equiv> - (2 ^ 63) \<le> n \<and> n < 2 ^ 63"

abbreviation is_u32 :: "int \<Rightarrow> bool" where
  "is_u32 n \<equiv> 0 \<le> n \<and> n < 2 ^ 32"

definition INT64_MAX :: int where
  "INT64_MAX = 9223372036854775807"

lemma i32_id [hal_simps]: "is_i32 n \<Longrightarrow> i32 n = n"
  unfolding i32_def by (rule signed_take_bit_int_eq_self) auto

lemma i64_id [hal_simps]: "is_i64 n \<Longrightarrow> i64 n = n"
  unfolding i64_def by (rule signed_take_bit_int_eq_self) auto

lemma u32_id [hal_simps]: "is_u32 n \<Longrightarrow> u32 n = n"
  unfolding u32_def by (rule take_bit_int_eq_self) auto

lemma i32_range: "is_i32 (i32 n)"
  unfolding i32_def
  using signed_take_bit_int_greater_eq_minus_exp [of 31 n] signed_take_bit_int_less_exp [of 31 n]
  by simp

lemma u32_range: "is_u32 (u32 n)"
  unfolding u32_def using take_bit_int_less_exp [of 32 n] by simp

lemma u32_add_u32: "u32 (u32 a + b) = u32 (a + b)"
  by (simp add: u32_def take_bit_eq_mod mod_add_left_eq)

section \<open>Result codes\<close>

text \<open>
  \<^verbatim>\<open>V1_0::Result\<close>. A C++ enum may carry a value outside its enumerators;
  \<open>R_OTHER\<close> stands for those (the code has \<^verbatim>\<open>default\<close> branches for them).
\<close>

datatype hal_result =
    R_OK
  | R_PERMISSION_DENIED
  | R_NO_MEMORY
  | R_BAD_VALUE
  | R_INVALID_OPERATION
  | R_OTHER int

datatype operation_mode = OM_NORMAL | OM_DATA_INJECTION

datatype rate_level = RL_STOP | RL_NORMAL | RL_FAST | RL_VERY_FAST | RL_OTHER int

fun rate_level_int :: "rate_level \<Rightarrow> int" where
  "rate_level_int RL_STOP = 0"
| "rate_level_int RL_NORMAL = 1"
| "rate_level_int RL_FAST = 2"
| "rate_level_int RL_VERY_FAST = 3"
| "rate_level_int (RL_OTHER n) = n"

section \<open>Constants of the sensors API\<close>

definition FLAG_WAKE_UP :: int where "FLAG_WAKE_UP = 1"
definition FLAG_CONTINUOUS_MODE :: int where "FLAG_CONTINUOUS_MODE = 0"
definition FLAG_ON_CHANGE_MODE :: int where "FLAG_ON_CHANGE_MODE = 2"
definition FLAG_ONE_SHOT_MODE :: int where "FLAG_ONE_SHOT_MODE = 4"
definition FLAG_SPECIAL_REPORTING_MODE :: int where "FLAG_SPECIAL_REPORTING_MODE = 6"
definition FLAG_DATA_INJECTION :: int where "FLAG_DATA_INJECTION = 16"
definition FLAG_ADDITIONAL_INFO :: int where "FLAG_ADDITIONAL_INFO = 64"
definition FLAG_DIRECT_CHANNEL_ASHMEM :: int where "FLAG_DIRECT_CHANNEL_ASHMEM = 1024"
definition FLAG_MASK_DIRECT_REPORT :: int where "FLAG_MASK_DIRECT_REPORT = 896"
definition FLAG_MASK_DIRECT_CHANNEL :: int where "FLAG_MASK_DIRECT_CHANNEL = 3072"
definition FLAG_SHIFT_DIRECT_REPORT :: nat where "FLAG_SHIFT_DIRECT_REPORT = 7"

lemmas flag_defs =
  FLAG_WAKE_UP_def FLAG_CONTINUOUS_MODE_def FLAG_ON_CHANGE_MODE_def FLAG_ONE_SHOT_MODE_def
  FLAG_SPECIAL_REPORTING_MODE_def FLAG_DATA_INJECTION_def FLAG_ADDITIONAL_INFO_def
  FLAG_DIRECT_CHANNEL_ASHMEM_def FLAG_MASK_DIRECT_REPORT_def FLAG_MASK_DIRECT_CHANNEL_def
  FLAG_SHIFT_DIRECT_REPORT_def

text \<open>\<^verbatim>\<open>SensorTimeout::WAKE_LOCK_SECONDS\<close> of \<^verbatim>\<open>hardware/interfaces/sensors/2.0/types.hal\<close>.\<close>

definition WAKE_LOCK_SECONDS :: int where "WAKE_LOCK_SECONDS = 1"

definition ST_ACCELEROMETER :: int where "ST_ACCELEROMETER = 1"
definition ST_GYROSCOPE :: int where "ST_GYROSCOPE = 4"
definition ST_AMBIENT_TEMPERATURE :: int where "ST_AMBIENT_TEMPERATURE = 13"
definition ST_GYROSCOPE_UNCALIBRATED :: int where "ST_GYROSCOPE_UNCALIBRATED = 16"
definition ST_ACCELEROMETER_UNCALIBRATED :: int where "ST_ACCELEROMETER_UNCALIBRATED = 35"
definition ST_META_DATA :: int where "ST_META_DATA = 0"
definition ST_DYNAMIC_SENSOR_META :: int where "ST_DYNAMIC_SENSOR_META = 32"
definition ST_ADDITIONAL_INFO :: int where "ST_ADDITIONAL_INFO = 33"
definition ST_HINGE_ANGLE :: int where "ST_HINGE_ANGLE = 36"

lemmas st_defs =
  ST_ACCELEROMETER_def ST_GYROSCOPE_def ST_AMBIENT_TEMPERATURE_def
  ST_GYROSCOPE_UNCALIBRATED_def ST_ACCELEROMETER_UNCALIBRATED_def ST_META_DATA_def
  ST_DYNAMIC_SENSOR_META_def ST_ADDITIONAL_INFO_def ST_HINGE_ANGLE_def

end
