(* ===== verification/Sysfs.thy ===== *)
theory Sysfs
  imports Complex_Main Hal_Prelude "HOL-Library.Sublist"
begin

text \<open>
  The sysfs access layer, \<^verbatim>\<open>sensors/hwctl/FileHandler.{h,cpp}\<close>: \<^verbatim>\<open>ReadHandler\<close>,
  \<^verbatim>\<open>WriteHandler\<close>, \<^verbatim>\<open>RawSysfsHandler\<close> and \<^verbatim>\<open>isSensorAvailable\<close> over an explicit
  file system (contents by path, the paths that can be opened, the log of what was written).
  A C++ exception that leaves a function is a value of \<open>cpp_exception\<close>. The regular
  expression of \<^verbatim>\<open>isValidInteger\<close> is both a language (\<open>number_lang\<close>, the expression
  itself) and the matcher that the model runs; the two are proved equal.
  Single-precision arithmetic on readings goes through a rounding function \<open>rnd\<close>, which is a
  parameter: the target's float rounding.
\<close>

section \<open>The file system\<close>

record sysfs =
  fs_files :: "string \<Rightarrow> string option"
  fs_writable :: "string \<Rightarrow> bool"
  fs_iio_dir :: "string list option"
  fs_log :: "(string \<times> string) list"

datatype cpp_exception = Invalid_argument | Out_of_range | Undefined_behaviour

section \<open>\<^verbatim>\<open>ReadHandler\<close> and \<^verbatim>\<open>WriteHandler\<close>\<close>

text \<open>The stream is opened once, by the constructor; every read seeks back to the start.\<close>

record read_handler =
  rh_path :: string
  rh_is_open :: bool

definition ReadHandler :: "sysfs \<Rightarrow> string \<Rightarrow> string \<Rightarrow> read_handler" where
  "ReadHandler fs path file =
     \<lparr>rh_path = path @ file, rh_is_open = (fs_files fs (path @ file) \<noteq> None)\<rparr>"

text \<open>The status and, when it is 0, the content that was assigned to \<^verbatim>\<open>result\<close>.\<close>

definition ReadHandler_read :: "sysfs \<Rightarrow> read_handler \<Rightarrow> int \<times> string option" where
  "ReadHandler_read fs h =
     (if \<not> rh_is_open h then (-1, None)
      else (0, Some (case fs_files fs (rh_path h) of None \<Rightarrow> [] | Some c \<Rightarrow> c)))"

text \<open>
  \<^verbatim>\<open>WriteHandler handler(path, file, content)\<close>: opens the file for writing and writes the
  content; the status of the write is discarded by the constructor. Nothing happens when the
  file cannot be opened.
\<close>

definition WriteHandler_write :: "string \<Rightarrow> string \<Rightarrow> sysfs \<Rightarrow> int \<times> sysfs" where
  "WriteHandler_write path content fs =
     (if fs_writable fs path
      then (0, fs\<lparr>fs_files := (fs_files fs)(path \<mapsto> content),
                  fs_log := fs_log fs @ [(path, content)]\<rparr>)
      else (-1, fs))"

definition WriteHandler :: "string \<Rightarrow> string \<Rightarrow> string \<Rightarrow> sysfs \<Rightarrow> sysfs" where
  "WriteHandler path file content fs = snd (WriteHandler_write (path @ file) content fs)"

section \<open>\<^verbatim>\<open>isValidInteger\<close>\<close>

definition is_space :: "char \<Rightarrow> bool" where
  "is_space c \<longleftrightarrow> c \<in> {CHR '' '', CHR 0x09, CHR 0x0A, CHR 0x0B, CHR 0x0C, CHR 0x0D}"

definition is_digit :: "char \<Rightarrow> bool" where
  "is_digit c \<longleftrightarrow> c \<in> set ''0123456789''"

definition is_sign :: "char \<Rightarrow> bool" where
  "is_sign c \<longleftrightarrow> c = CHR ''-'' \<or> c = CHR ''+''"

definition is_exp_char :: "char \<Rightarrow> bool" where
  "is_exp_char c \<longleftrightarrow> c = CHR ''e'' \<or> c = CHR ''E''"

text \<open>The expression \<^verbatim>\<open>^\s*[-+]?(?:\d+(?:\.\d*)?|\.\d+)(?:[eE][-+]?\d+)?\s*$\<close>, part by part.\<close>

definition sign_lang :: "string \<Rightarrow> bool" where
  "sign_lang s \<longleftrightarrow> s = [] \<or> (\<exists>c. s = [c] \<and> is_sign c)"

definition digits1_lang :: "string \<Rightarrow> bool" where
  "digits1_lang s \<longleftrightarrow> s \<noteq> [] \<and> list_all is_digit s"

definition mantissa_lang :: "string \<Rightarrow> bool" where
  "mantissa_lang s \<longleftrightarrow>
     (\<exists>d f. s = d @ f \<and> digits1_lang d \<and> (f = [] \<or> (\<exists>g. f = CHR ''.'' # g \<and> list_all is_digit g)))
     \<or> (\<exists>g. s = CHR ''.'' # g \<and> digits1_lang g)"

definition exponent_lang :: "string \<Rightarrow> bool" where
  "exponent_lang s \<longleftrightarrow>
     s = [] \<or> (\<exists>c sg d. s = c # sg @ d \<and> is_exp_char c \<and> sign_lang sg \<and> digits1_lang d)"

definition number_lang :: "string \<Rightarrow> bool" where
  "number_lang s \<longleftrightarrow>
     (\<exists>ws sg m e ws'. s = ws @ sg @ m @ e @ ws' \<and> list_all is_space ws \<and> sign_lang sg
        \<and> mantissa_lang m \<and> exponent_lang e \<and> list_all is_space ws')"

text \<open>The matcher: each part takes as much as it can, and returns what is left.\<close>

fun skip_sign :: "string \<Rightarrow> string" where
  "skip_sign [] = []"
| "skip_sign (c # s) = (if is_sign c then s else c # s)"

definition match_digits1 :: "string \<Rightarrow> string option" where
  "match_digits1 s = (if takeWhile is_digit s = [] then None else Some (dropWhile is_digit s))"

definition match_mantissa :: "string \<Rightarrow> string option" where
  "match_mantissa s =
     (case match_digits1 s of
        Some r \<Rightarrow> (case r of c # r' \<Rightarrow> if c = CHR ''.'' then Some (dropWhile is_digit r') else Some r
                          | [] \<Rightarrow> Some [])
      | None \<Rightarrow> (case s of c # r \<Rightarrow> if c = CHR ''.'' then match_digits1 r else None | [] \<Rightarrow> None))"

definition match_exponent :: "string \<Rightarrow> string" where
  "match_exponent s =
     (case s of [] \<Rightarrow> []
      | c # r \<Rightarrow> if is_exp_char c
                 then (case match_digits1 (skip_sign r) of Some r' \<Rightarrow> r' | None \<Rightarrow> s)
                 else s)"

definition isValidInteger :: "string \<Rightarrow> bool" where
  "isValidInteger s =
     (case match_mantissa (skip_sign (dropWhile is_space s)) of
        None \<Rightarrow> False
      | Some r \<Rightarrow> list_all is_space (match_exponent r))"

subsection \<open>The matcher accepts exactly the language\<close>

text \<open>Every character has one class, so that automation decides disjointness by rewriting.\<close>

datatype char_class = Space | Sign | Digit | Dot | Exp | Other

definition char_class :: "char \<Rightarrow> char_class" where
  "char_class c =
     (if is_space c then Space else if is_sign c then Sign else if is_digit c then Digit
      else if c = CHR ''.'' then Dot else if is_exp_char c then Exp else Other)"

lemma cls:
  "is_space c \<longleftrightarrow> char_class c = Space" "is_sign c \<longleftrightarrow> char_class c = Sign"
  "is_digit c \<longleftrightarrow> char_class c = Digit" "is_exp_char c \<longleftrightarrow> char_class c = Exp"
  by (auto simp: char_class_def is_sign_def is_digit_def is_space_def is_exp_char_def)

lemma cls_dot [simp]: "char_class (CHR ''.'') = Dot"
  by (simp add: char_class_def is_sign_def is_digit_def is_space_def)

lemma not_dot: "char_class c \<noteq> Dot \<Longrightarrow> c \<noteq> CHR ''.''"
  by auto

text \<open>\<open>starts P s\<close>: the first character of \<open>s\<close>, if any, satisfies \<open>P\<close>.\<close>

definition starts :: "(char \<Rightarrow> bool) \<Rightarrow> string \<Rightarrow> bool" where
  "starts P s \<longleftrightarrow> (case s of [] \<Rightarrow> True | c # _ \<Rightarrow> P c)"

lemma starts_simps [simp]: "starts P []" "starts P (c # s) = P c"
  by (simp_all add: starts_def)

lemma starts_append: "starts P (a @ b) = (if a = [] then starts P b else starts P a)"
  by (cases a) auto

lemma starts_all: "list_all P s \<Longrightarrow> starts P s"
  by (cases s) auto

lemma starts_mono: "starts P s \<Longrightarrow> (\<And>c. P c \<Longrightarrow> Q c) \<Longrightarrow> starts Q s"
  by (cases s) auto

lemma dropWhile_prefix:
  "list_all P a \<Longrightarrow> starts (\<lambda>c. \<not> P c) b \<Longrightarrow> dropWhile P (a @ b) = b"
  by (induction a) (auto simp: starts_def split: list.splits)

lemma match_digits1_prefix:
  "digits1_lang d \<Longrightarrow> starts (\<lambda>c. \<not> is_digit c) b \<Longrightarrow> match_digits1 (d @ b) = Some b"
  by (cases d) (auto simp: match_digits1_def digits1_lang_def dropWhile_prefix)

lemma match_digits1_Some:
  assumes "match_digits1 s = Some r"
  shows "\<exists>d. s = d @ r \<and> digits1_lang d"
proof (intro exI conjI)
  show "s = takeWhile is_digit s @ r"
    using assms by (auto simp: match_digits1_def split: if_splits)
  show "digits1_lang (takeWhile is_digit s)"
    using assms by (auto simp: match_digits1_def digits1_lang_def list_all_iff
        dest: set_takeWhileD split: if_splits)
qed

lemma match_digits1_None: "\<not> starts is_digit s \<or> s = [] \<Longrightarrow> match_digits1 s = None"
  by (cases s) (auto simp: match_digits1_def)

lemma mantissa_lang_starts: "mantissa_lang m \<Longrightarrow> m \<noteq> [] \<and> starts (\<lambda>c. \<not> is_sign c \<and> \<not> is_space c) m"
  by (cases m) (auto simp: mantissa_lang_def digits1_lang_def Cons_eq_append_conv cls)

lemma exponent_lang_starts:
  "exponent_lang e \<Longrightarrow> list_all is_space ws \<Longrightarrow>
   starts (\<lambda>c. \<not> is_digit c \<and> c \<noteq> CHR ''.'') (e @ ws)"
  by (cases ws) (auto simp: exponent_lang_def starts_append cls)

lemma match_mantissa_prefix:
  assumes "mantissa_lang m" and b: "starts (\<lambda>c. \<not> is_digit c \<and> c \<noteq> CHR ''.'') b"
  shows "match_mantissa (m @ b) = Some b"
proof -
  have nd: "starts (\<lambda>c. \<not> is_digit c) b" using b by (rule starts_mono) auto
  from assms(1) consider
      (int) "digits1_lang m"
    | (frac) d g where "m = d @ CHR ''.'' # g" "digits1_lang d" "list_all is_digit g"
    | (dot) g where "m = CHR ''.'' # g" "digits1_lang g"
    by (auto simp: mantissa_lang_def)
  then show ?thesis
  proof cases
    case int
    with nd b show ?thesis
      by (auto simp: match_mantissa_def match_digits1_prefix starts_def split: list.splits)
  next
    case frac
    moreover have "starts (\<lambda>c. \<not> is_digit c) (CHR ''.'' # g @ b)" by (simp add: cls)
    ultimately show ?thesis
      by (simp add: match_mantissa_def match_digits1_prefix dropWhile_prefix [OF _ nd])
  next
    case dot
    then show ?thesis
      by (simp add: match_mantissa_def match_digits1_prefix [OF _ nd] match_digits1_None cls)
  qed
qed

lemma match_mantissa_Some:
  assumes "match_mantissa s = Some r"
  shows "\<exists>m. s = m @ r \<and> mantissa_lang m"
proof (cases "match_digits1 s")
  case None
  with assms obtain s' where "s = CHR ''.'' # s'" "match_digits1 s' = Some r"
    by (auto simp: match_mantissa_def split: list.splits if_splits)
  moreover from this obtain d where "s' = d @ r" "digits1_lang d"
    by (auto dest: match_digits1_Some)
  ultimately have "s = (CHR ''.'' # d) @ r" "mantissa_lang (CHR ''.'' # d)"
    by (auto simp: mantissa_lang_def)
  then show ?thesis by blast
next
  case (Some t)
  then obtain d where d: "s = d @ t" "digits1_lang d" by (auto dest: match_digits1_Some)
  show ?thesis
  proof (cases "\<exists>t'. t = CHR ''.'' # t'")
    case True
    then obtain t' where t: "t = CHR ''.'' # t'" by blast
    with assms Some have r: "r = dropWhile is_digit t'" by (simp add: match_mantissa_def)
    have "s = (d @ CHR ''.'' # takeWhile is_digit t') @ r" using d t r by simp
    moreover have "mantissa_lang (d @ CHR ''.'' # takeWhile is_digit t')"
      using d(2) by (auto simp: mantissa_lang_def list_all_iff dest: set_takeWhileD)
    ultimately show ?thesis by blast
  next
    case False
    with assms Some have "r = t" by (auto simp: match_mantissa_def split: list.splits if_splits)
    with d show ?thesis by (auto simp: mantissa_lang_def)
  qed
qed

lemma skip_sign_prefix: "sign_lang sg \<Longrightarrow> starts (\<lambda>c. \<not> is_sign c) b \<Longrightarrow> skip_sign (sg @ b) = b"
  by (cases b) (auto simp: sign_lang_def)

lemma skip_sign_split: "\<exists>sg. s = sg @ skip_sign s \<and> sign_lang sg"
  by (cases s) (auto simp: sign_lang_def)

lemma digits1_starts: "digits1_lang d \<Longrightarrow> starts (\<lambda>c. \<not> is_sign c) (d @ b)"
  by (cases d) (auto simp: digits1_lang_def cls)

lemma match_exponent_prefix:
  assumes e: "exponent_lang e" and ws: "list_all is_space ws"
  shows "match_exponent (e @ ws) = ws"
proof (cases "e = []")
  case True
  with ws show ?thesis by (cases ws) (auto simp: match_exponent_def cls)
next
  case False
  with e obtain c sg d where "e = c # sg @ d" "is_exp_char c" "sign_lang sg" "digits1_lang d"
    by (auto simp: exponent_lang_def)
  moreover have "starts (\<lambda>c. \<not> is_digit c) ws" using ws by (cases ws) (auto simp: cls)
  ultimately show ?thesis
    by (simp add: match_exponent_def skip_sign_prefix digits1_starts match_digits1_prefix)
qed

lemma match_exponent_split:
  "\<exists>e. s = e @ match_exponent s \<and> exponent_lang e"
proof (cases s)
  case Nil
  then show ?thesis by (simp add: match_exponent_def exponent_lang_def)
next
  case (Cons c r)
  show ?thesis
  proof (cases "is_exp_char c \<and> match_digits1 (skip_sign r) \<noteq> None")
    case True
    then obtain r' where r': "match_digits1 (skip_sign r) = Some r'" by auto
    obtain sg where sg: "r = sg @ skip_sign r" "sign_lang sg" using skip_sign_split by blast
    obtain d where d: "skip_sign r = d @ r'" "digits1_lang d" using match_digits1_Some [OF r'] by blast
    have "s = (c # sg @ d) @ match_exponent s"
      using Cons True r' sg(1) d(1) by (simp add: match_exponent_def)
    moreover have "exponent_lang (c # sg @ d)"
      using True sg(2) d(2) by (auto simp: exponent_lang_def)
    ultimately show ?thesis by blast
  next
    case False
    with Cons have "match_exponent s = s" by (auto simp: match_exponent_def split: option.splits)
    then show ?thesis by (auto simp: exponent_lang_def)
  qed
qed

lemma isValidInteger_iff: "isValidInteger s \<longleftrightarrow> number_lang s"
proof
  assume "isValidInteger s"
  then obtain r where r: "match_mantissa (skip_sign (dropWhile is_space s)) = Some r"
    and sp: "list_all is_space (match_exponent r)"
    by (auto simp: isValidInteger_def split: option.splits)
  obtain sg where sg: "dropWhile is_space s = sg @ skip_sign (dropWhile is_space s)" "sign_lang sg"
    using skip_sign_split by blast
  obtain m where m: "skip_sign (dropWhile is_space s) = m @ r" "mantissa_lang m"
    using match_mantissa_Some [OF r] by blast
  obtain e where e: "r = e @ match_exponent r" "exponent_lang e"
    using match_exponent_split by blast
  have "s = takeWhile is_space s @ sg @ m @ e @ match_exponent r"
    using sg(1) m(1) e(1) takeWhile_dropWhile_id [of is_space s] by (metis append.assoc)
  moreover have "list_all is_space (takeWhile is_space s)"
    by (auto simp: list_all_iff dest: set_takeWhileD)
  ultimately show "number_lang s"
    using sg(2) m(2) e(2) sp unfolding number_lang_def by blast
next
  assume "number_lang s"
  then obtain ws sg m e ws' where s: "s = ws @ sg @ m @ e @ ws'" and ws: "list_all is_space ws"
    and sg: "sign_lang sg" and m: "mantissa_lang m" and e: "exponent_lang e"
    and ws': "list_all is_space ws'"
    unfolding number_lang_def by blast
  have "starts (\<lambda>c. \<not> is_space c) (sg @ m @ e @ ws')"
    using sg mantissa_lang_starts [OF m] by (auto simp: sign_lang_def starts_append cls elim: starts_mono)
  then have 1: "dropWhile is_space s = sg @ m @ e @ ws'"
    unfolding s using ws by (rule dropWhile_prefix [rotated])
  have "starts (\<lambda>c. \<not> is_sign c) (m @ e @ ws')"
    using mantissa_lang_starts [OF m] by (auto simp: starts_append elim: starts_mono)
  then have 2: "skip_sign (dropWhile is_space s) = m @ e @ ws'"
    unfolding 1 using sg by (simp add: skip_sign_prefix)
  show "isValidInteger s"
    using match_mantissa_prefix [OF m exponent_lang_starts [OF e ws']]
      match_exponent_prefix [OF e ws'] ws' by (simp add: isValidInteger_def 2)
qed

section \<open>\<^verbatim>\<open>std::stoi\<close> and \<^verbatim>\<open>std::to_string\<close>\<close>

definition digit_value :: "char \<Rightarrow> int" where
  "digit_value c = of_char c - 48"

definition digits_value :: "string \<Rightarrow> int" where
  "digits_value ds = foldl (\<lambda>n c. n * 10 + digit_value c) 0 ds"

definition stoi :: "string \<Rightarrow> cpp_exception + int" where
  "stoi s =
     (let t = dropWhile is_space s;
          d = takeWhile is_digit (skip_sign t);
          v = (if t \<noteq> [] \<and> hd t = CHR ''-'' then - digits_value d else digits_value d)
      in if d = [] then Inl Invalid_argument
         else if is_i32 v then Inr v else Inl Out_of_range)"

definition digit_char :: "nat \<Rightarrow> char" where
  "digit_char d = ''0123456789'' ! d"

fun nat_to_string :: "nat \<Rightarrow> string" where
  "nat_to_string n =
     (if n < 10 then [digit_char n] else nat_to_string (n div 10) @ [digit_char (n mod 10)])"

declare nat_to_string.simps [simp del]

definition to_string :: "int \<Rightarrow> string" where
  "to_string n = (if n < 0 then CHR ''-'' # nat_to_string (nat (- n)) else nat_to_string (nat n))"

lemma digit_char_cases:
  "d < 10 \<Longrightarrow> is_digit (digit_char d) \<and> digit_value (digit_char d) = int d"
proof -
  assume "d < 10"
  then have "d \<in> set [0, 1, 2, 3, 4, 5, 6, 7, 8, 9]" by (simp; arith)
  then show ?thesis by (auto simp: digit_char_def is_digit_def digit_value_def)
qed

lemma digits_value_snoc: "digits_value (ds @ [c]) = digits_value ds * 10 + digit_value c"
  by (simp add: digits_value_def)

lemma nat_to_string_digits: "digits1_lang (nat_to_string n)"
proof (induction n rule: nat_to_string.induct)
  case (1 n)
  then show ?case
    by (subst nat_to_string.simps) (auto simp: digits1_lang_def digit_char_cases)
qed

lemma nat_to_string_value: "digits_value (nat_to_string n) = int n"
proof (induction n rule: nat_to_string.induct)
  case (1 n)
  show ?case
  proof (cases "n < 10")
    case True
    then show ?thesis
      by (subst nat_to_string.simps) (simp add: digits_value_def digit_char_cases)
  next
    case False
    with 1 have "digits_value (nat_to_string (n div 10)) = int (n div 10)" by blast
    moreover have "int (n div 10) * 10 + int (n mod 10) = int n" by presburger
    ultimately show ?thesis using False
      by (subst nat_to_string.simps) (simp add: digits_value_snoc digit_char_cases)
  qed
qed

lemma takeWhile_prefix:
  "list_all P a \<Longrightarrow> starts (\<lambda>c. \<not> P c) b \<Longrightarrow> takeWhile P (a @ b) = a"
  by (induction a) (auto simp: starts_def split: list.splits)

text \<open>What a kernel driver prints: blanks, a decimal number, blanks.\<close>

lemma isValidInteger_to_string:
  assumes "list_all is_space ws" "list_all is_space ws'"
  shows "isValidInteger (ws @ to_string n @ ws')"
proof -
  have m: "mantissa_lang (nat_to_string k)" for k
    using nat_to_string_digits [of k] by (auto simp: mantissa_lang_def)
  have "to_string n = (if n < 0 then ''-'' else []) @ nat_to_string (nat \<bar>n\<bar>)"
    by (simp add: to_string_def)
  moreover have "sign_lang (if n < 0 then ''-'' else [])"
    by (auto simp: sign_lang_def is_sign_def)
  moreover have "exponent_lang []" by (simp add: exponent_lang_def)
  ultimately show ?thesis
    unfolding isValidInteger_iff number_lang_def using assms m by (metis append.assoc append_Nil)
qed

lemma nat_to_string_Cons: "\<exists>c cs. nat_to_string n = c # cs \<and> is_digit c"
  using nat_to_string_digits [of n]
  by (cases "nat_to_string n") (auto simp: digits1_lang_def)

lemma minus_not_digit: "\<not> is_digit CHR ''-''" "\<not> is_space CHR ''-''" "is_sign CHR ''-''"
  by (simp_all add: is_digit_def is_space_def is_sign_def)

lemma stoi_to_string:
  assumes ws: "list_all is_space ws" "list_all is_space ws'" and n: "is_i32 n"
  shows "stoi (ws @ to_string n @ ws') = Inr n"
proof -
  define d where "d = nat_to_string (nat \<bar>n\<bar>)"
  have d: "digits1_lang d" "digits_value d = \<bar>n\<bar>"
    by (simp_all add: d_def nat_to_string_digits nat_to_string_value)
  obtain c cs where c: "d = c # cs" "is_digit c"
    using nat_to_string_Cons [of "nat \<bar>n\<bar>"] by (auto simp: d_def)
  then have c': "\<not> is_space c" "\<not> is_sign c" "c \<noteq> CHR ''-''"
    using minus_not_digit by (auto simp: cls)
  have nd: "starts (\<lambda>c. \<not> is_digit c) ws'"
    using ws(2) by (cases ws') (auto simp: starts_def cls)
  have ts: "to_string n = (if n < 0 then ''-'' else []) @ d"
    by (simp add: to_string_def d_def)
  have st: "starts (\<lambda>c. \<not> is_space c) (to_string n @ ws')"
    using c c' by (simp add: ts starts_def minus_not_digit)
  have 1: "dropWhile is_space (ws @ to_string n @ ws') = to_string n @ ws'"
    using ws(1) st by (rule dropWhile_prefix)
  have 2: "skip_sign (to_string n @ ws') = d @ ws'"
    using c c' by (simp add: ts minus_not_digit)
  have 3: "takeWhile is_digit (d @ ws') = d"
    using d(1) nd by (intro takeWhile_prefix) (auto simp: digits1_lang_def)
  have 4: "(to_string n @ ws' \<noteq> [] \<and> hd (to_string n @ ws') = CHR ''-'') = (n < 0)"
    using c c' by (simp add: ts)
  show ?thesis
    using c d n unfolding stoi_def 1 2 3 4 Let_def by simp
qed

section \<open>\<^verbatim>\<open>RawSysfsHandler\<close>\<close>

text \<open>\<^verbatim>\<open>mFileHandlers\<close>, in the order of the files; the loop stops at the first empty name.\<close>

fun RawSysfsHandler_init :: "sysfs \<Rightarrow> string \<Rightarrow> string list \<Rightarrow> read_handler list \<Rightarrow> read_handler list" where
  "RawSysfsHandler_init fs path [] hs = hs"
| "RawSysfsHandler_init fs path (file # files) hs =
     (if file = [] then hs
      else RawSysfsHandler_init fs path files (hs @ [ReadHandler fs path file]))"

text \<open>
  The status and \<^verbatim>\<open>results\<close>; the readings before a failing file stay in
  \<^verbatim>\<open>results\<close>, and an exception of \<^verbatim>\<open>std::stoi\<close> leaves the function.
\<close>

fun RawSysfsHandler_read ::
  "(real \<Rightarrow> real) \<Rightarrow> sysfs \<Rightarrow> real \<Rightarrow> read_handler list \<Rightarrow> real list \<Rightarrow> cpp_exception + int \<times> real list" where
  "RawSysfsHandler_read rnd fs resolution [] results = Inr (0, results)"
| "RawSysfsHandler_read rnd fs resolution (h # hs) results =
     (case ReadHandler_read fs h of
        (status, content) \<Rightarrow>
          if status \<noteq> 0 then Inr (status, results)
          else if \<not> isValidInteger (the content) then Inr (-1, results)
          else (case stoi (the content) of
                  Inl e \<Rightarrow> Inl e
                | Inr v \<Rightarrow> RawSysfsHandler_read rnd fs resolution hs
                             (results @ [rnd (rnd (of_int v) * resolution)])))"

section \<open>\<^verbatim>\<open>isSensorAvailable\<close>\<close>

definition iioPath :: string where
  "iioPath = ''/sys/bus/iio/devices/''"

text \<open>The expression \<^verbatim>\<open>iio:device\d+\<close>, matched against the whole name.\<close>

definition is_iio_device :: "string \<Rightarrow> bool" where
  "is_iio_device d \<longleftrightarrow>
     take 10 d = ''iio:device'' \<and> drop 10 d \<noteq> [] \<and> list_all is_digit (drop 10 d)"

fun find_device :: "sysfs \<Rightarrow> string \<Rightarrow> string list \<Rightarrow> string option" where
  "find_device fs driverName [] = None"
| "find_device fs driverName (d_name # entries) =
     (if is_iio_device d_name
      then (case ReadHandler_read fs (ReadHandler fs iioPath (d_name @ ''/name'')) of
              (status, name) \<Rightarrow>
                if status = 0 \<and> take (length driverName) (the name) = driverName
                then Some (iioPath @ d_name @ ''/'')
                else find_device fs driverName entries)
      else find_device fs driverName entries)"

text \<open>The result and \<^verbatim>\<open>device\<close>, which is left alone when nothing is found.\<close>

definition isSensorAvailable :: "sysfs \<Rightarrow> string \<Rightarrow> string \<Rightarrow> bool \<times> string" where
  "isSensorAvailable fs driverName device =
     (case fs_iio_dir fs of
        None \<Rightarrow> (False, device)
      | Some entries \<Rightarrow>
          (case find_device fs driverName entries of
             None \<Rightarrow> (False, device)
           | Some dev \<Rightarrow> (True, dev)))"

section \<open>Properties\<close>

lemma RawSysfsHandler_init_eq:
  "RawSysfsHandler_init fs path files hs = hs @ map (ReadHandler fs path) (takeWhile (\<lambda>f. f \<noteq> []) files)"
  by (induction files arbitrary: hs) auto

lemma ReadHandler_read_file:
  "ReadHandler_read fs (ReadHandler fs path f) =
     (case fs_files fs (path @ f) of None \<Rightarrow> (-1, None) | Some c \<Rightarrow> (0, Some c))"
  by (auto simp: ReadHandler_read_def ReadHandler_def split: option.splits)

text \<open>A file that holds one decimal 32-bit number, as an IIO driver prints it.\<close>

definition holds_int :: "sysfs \<Rightarrow> string \<Rightarrow> int \<Rightarrow> bool" where
  "holds_int fs p v \<longleftrightarrow>
     (\<exists>ws ws'. list_all is_space ws \<and> list_all is_space ws' \<and> is_i32 v
        \<and> fs_files fs p = Some (ws @ to_string v @ ws'))"

lemma RawSysfsHandler_read_step:
  "holds_int fs (path @ f) v \<Longrightarrow>
   RawSysfsHandler_read rnd fs res (ReadHandler fs path f # hs) rs =
     RawSysfsHandler_read rnd fs res hs (rs @ [rnd (rnd (of_int v) * res)])"
  by (auto simp: holds_int_def ReadHandler_read_file isValidInteger_to_string stoi_to_string)

lemma RawSysfsHandler_read_values:
  "list_all2 (\<lambda>f v. holds_int fs (path @ f) v) names vs \<Longrightarrow>
   RawSysfsHandler_read rnd fs res (map (ReadHandler fs path) names) rs =
     Inr (0, rs @ map (\<lambda>v. rnd (rnd (of_int v) * res)) vs)"
  by (induction arbitrary: rs rule: list_all2_induct)
     (simp_all add: RawSysfsHandler_read_step del: RawSysfsHandler_read.simps(2))

text \<open>the matcher that \<^verbatim>\<open>RawSysfsHandler::isValidInteger\<close> runs (every part takes as
  much as it can, nothing is given back) accepts exactly the language of the expression.\<close>

theorem isValidInteger_correct: "isValidInteger s = number_lang s"
  by (rule isValidInteger_iff)

text \<open>C33: after \<^verbatim>\<open>init\<close>, \<^verbatim>\<open>read\<close> returns status 0 and the readings of the files up to the
  first empty name, in order and scaled, whenever each file holds a printed 32-bit number
  between blanks.\<close>

theorem RawSysfsHandler_roundtrip:
  assumes "list_all2 (\<lambda>f v. holds_int fs (path @ f) v) (takeWhile (\<lambda>f. f \<noteq> []) files) vs"
  shows "RawSysfsHandler_read rnd fs res (RawSysfsHandler_init fs path files []) [] =
           Inr (0, map (\<lambda>v. rnd (rnd (of_int v) * res)) vs)"
  using RawSysfsHandler_read_values [OF assms] by (simp add: RawSysfsHandler_init_eq)

definition example_fs :: sysfs where
  "example_fs =
     \<lparr>fs_files = [''/d/x'' \<mapsto> ''-981'' @ [CHR 0x0A], ''/d/y'' \<mapsto> ''12'' @ [CHR 0x0A],
                  ''/d/z'' \<mapsto> ''.5'', ''/d/e'' \<mapsto> ''12e5'',
                  ''/sys/bus/iio/devices/iio:device0/name'' \<mapsto> ''smi330'' @ [CHR 0x0A],
                  ''/sys/bus/iio/devices/iio:device1/name'' \<mapsto> ''smi240'' @ [CHR 0x0A]],
      fs_writable = (\<lambda>_. True),
      fs_iio_dir = Some [''.'', ''iio:device0'', ''iio:device1'', ''trigger0''], fs_log = []\<rparr>"

lemma nat_to_string_eval:
  "nat_to_string 981 = ''981''" "nat_to_string 12 = ''12''"
  by (simp_all add: nat_to_string.simps digit_char_def)

lemma holds_int_example:
  "holds_int example_fs ''/d/x'' (-981)" "holds_int example_fs ''/d/y'' 12"
  unfolding holds_int_def
  by (rule exI [of _ "[]"], rule exI [of _ "[CHR 0x0A]"],
      simp add: example_fs_def to_string_def nat_to_string_eval is_space_def)+

theorem RawSysfsHandler_roundtrip_witness:
  "RawSysfsHandler_read id example_fs 2 (RawSysfsHandler_init example_fs ''/d/'' [''x'', ''y'', ''''] []) [] =
     Inr (0, [-1962, 24])"
  using RawSysfsHandler_roundtrip
      [of example_fs "''/d/''" "[''x'', ''y'', '''']" "[-981, 12]" id 2] holds_int_example
  by simp

lemma stoi_dot: "stoi (CHR ''.'' # s) = Inl Invalid_argument"
  by (simp add: stoi_def cls Let_def)

lemma to_string_nonneg: "0 \<le> n \<Longrightarrow> \<exists>c cs. to_string n = c # cs \<and> is_digit c \<and> list_all is_digit cs"
  using nat_to_string_digits [of "nat n"]
  by (cases "to_string n") (auto simp: to_string_def digits1_lang_def)

lemma isValidInteger_dot: "digits1_lang g \<Longrightarrow> isValidInteger (CHR ''.'' # g)"
  unfolding isValidInteger_iff number_lang_def
  by (rule exI [of _ "[]"], rule exI [of _ "[]"], rule exI [of _ "CHR ''.'' # g"],
      rule exI [of _ "[]"], rule exI [of _ "[]"])
     (simp add: sign_lang_def mantissa_lang_def exponent_lang_def)

text \<open>a decimal fraction without integer part (such as \<^verbatim>\<open>.5\<close>) passes
  \<^verbatim>\<open>isValidInteger\<close>, and \<^verbatim>\<open>std::stoi\<close> then throws out of \<^verbatim>\<open>read\<close>;
  an exponent passes too and is cut off silently (\<^verbatim>\<open>12e5\<close> reads as 12).\<close>

theorem RawSysfsHandler_read_fraction_throws:
  assumes "digits1_lang g" "fs_files fs (path @ f) = Some (CHR ''.'' # g)"
  shows "RawSysfsHandler_read rnd fs res (ReadHandler fs path f # hs) rs = Inl Invalid_argument"
  using assms by (simp add: ReadHandler_read_file isValidInteger_dot stoi_dot)

theorem RawSysfsHandler_read_fraction_throws_witness:
  "RawSysfsHandler_read id example_fs 1 [ReadHandler example_fs ''/d/'' ''z''] [] = Inl Invalid_argument"
  by (rule RawSysfsHandler_read_fraction_throws [of "''5''"])
     (simp_all add: digits1_lang_def is_digit_def example_fs_def)

lemma find_device_eq:
  "find_device fs n es =
     map_option (\<lambda>d. iioPath @ d @ ''/'')
       (List.find (\<lambda>d. is_iio_device d \<and> (\<exists>c. fs_files fs (iioPath @ d @ ''/name'') = Some (n @ c))) es)"
proof (induction es)
  case (Cons d es)
  have "take (length n) c = n \<longleftrightarrow> (\<exists>c'. c = n @ c')" for c
    by (metis append_eq_conv_conj append_take_drop_id)
  with Cons show ?case
    by (auto simp: ReadHandler_read_file split: option.splits)
qed simp

text \<open>\<^verbatim>\<open>isSensorAvailable\<close> succeeds exactly when some directory entry is an IIO
  device whose name file starts with the driver's name, and then reports the first such entry;
  otherwise (also when the directory cannot be opened) \<^verbatim>\<open>device\<close> keeps its value.\<close>

theorem isSensorAvailable_first_match:
  "isSensorAvailable fs n dev =
     (case List.find (\<lambda>d. is_iio_device d \<and> (\<exists>c. fs_files fs (iioPath @ d @ ''/name'') = Some (n @ c)))
             (case fs_iio_dir fs of None \<Rightarrow> [] | Some es \<Rightarrow> es) of
        None \<Rightarrow> (False, dev)
      | Some d \<Rightarrow> (True, ''/sys/bus/iio/devices/'' @ d @ ''/''))"
  by (simp add: isSensorAvailable_def find_device_eq iioPath_def split: option.splits)

end
