(* ===== verification/Std_Map.thy ===== *)
theory Std_Map
  imports Hal_Prelude
begin

text \<open>
  \<^verbatim>\<open>std::map\<close> as the code uses it: an association list kept in the order of its keys,
  because the range-based loops of the source visit the entries in key order.
  \<open>sm_find\<close> is \<^verbatim>\<open>find\<close>, \<open>sm_put\<close> is assignment through \<^verbatim>\<open>operator[]\<close>,
  \<open>sm_subscript\<close> is a read through \<^verbatim>\<open>operator[]\<close> (which inserts a value-initialised
  entry when the key is missing), \<open>sm_erase\<close> is \<^verbatim>\<open>erase(key)\<close>.
  The locale \<open>keyed_store\<close> is the interface the components rely on; it is interpreted on
  these definitions at the end of the theory.
\<close>

type_synonym ('k, 'v) stdmap = "('k \<times> 'v) list"

fun sm_put :: "'k::linorder \<Rightarrow> 'v \<Rightarrow> ('k, 'v) stdmap \<Rightarrow> ('k, 'v) stdmap" where
  "sm_put k v [] = [(k, v)]"
| "sm_put k v ((k', v') # m) =
     (if k < k' then (k, v) # (k', v') # m
      else if k = k' then (k, v) # m
      else (k', v') # sm_put k v m)"

definition sm_find :: "'k \<Rightarrow> ('k, 'v) stdmap \<Rightarrow> 'v option" where
  "sm_find k m = map_of m k"

definition sm_erase :: "'k \<Rightarrow> ('k, 'v) stdmap \<Rightarrow> ('k, 'v) stdmap" where
  "sm_erase k m = filter (\<lambda>e. fst e \<noteq> k) m"

definition sm_keys :: "('k, 'v) stdmap \<Rightarrow> 'k list" where
  "sm_keys m = map fst m"

definition sm_values :: "('k, 'v) stdmap \<Rightarrow> 'v list" where
  "sm_values m = map snd m"

definition sm_ok :: "('k::linorder, 'v) stdmap \<Rightarrow> bool" where
  "sm_ok m = sorted_wrt (<) (map fst m)"

text \<open>\<open>sm_subscript d k m\<close>: the value \<^verbatim>\<open>m[k]\<close> and the map afterwards; \<open>d\<close> is the
  value-initialised element.\<close>

definition sm_subscript :: "'v \<Rightarrow> 'k::linorder \<Rightarrow> ('k, 'v) stdmap \<Rightarrow> 'v \<times> ('k, 'v) stdmap" where
  "sm_subscript d k m = (case sm_find k m of Some v \<Rightarrow> (v, m) | None \<Rightarrow> (d, sm_put k d m))"

lemma sm_find_Nil [simp]: "sm_find k [] = None"
  by (simp add: sm_find_def)

lemma sm_find_Cons [simp]: "sm_find k ((k', v) # m) = (if k' = k then Some v else sm_find k m)"
  by (simp add: sm_find_def)

lemma sm_find_put [simp]: "sm_find k' (sm_put k v m) = (if k' = k then Some v else sm_find k' m)"
  by (induction k v m rule: sm_put.induct) auto

lemma sm_find_erase [simp]: "sm_find k' (sm_erase k m) = (if k' = k then None else sm_find k' m)"
  by (induction m) (auto simp: sm_erase_def)

lemma set_keys_put [simp]: "fst ` set (sm_put k v m) = insert k (fst ` set m)"
  by (induction k v m rule: sm_put.induct) auto

lemma sm_ok_Nil [simp]: "sm_ok []"
  by (simp add: sm_ok_def)

lemma sm_ok_Cons: "sm_ok ((k, v) # m) \<longleftrightarrow> (\<forall>k'\<in>fst ` set m. k < k') \<and> sm_ok m"
  by (simp add: sm_ok_def)

lemma sm_ok_put [simp, hal_inv]: "sm_ok m \<Longrightarrow> sm_ok (sm_put k v m)"
  by (induction k v m rule: sm_put.induct) (auto simp: sm_ok_Cons dest: less_trans)

lemma sm_ok_erase [simp, hal_inv]: "sm_ok m \<Longrightarrow> sm_ok (sm_erase k m)"
  by (induction m) (auto simp: sm_erase_def sm_ok_Cons)

lemma sm_find_dom: "(sm_find k m \<noteq> None) = (k \<in> fst ` set m)"
  by (simp add: sm_find_def map_of_eq_None_iff)

lemma sm_find_None_iff: "(sm_find k m = None) = (k \<notin> fst ` set m)"
  by (simp add: sm_find_def map_of_eq_None_iff)

lemma sm_find_in_set: "sm_find k m = Some v \<Longrightarrow> (k, v) \<in> set m"
  by (simp add: sm_find_def map_of_SomeD)

lemma sm_ok_distinct: "sm_ok m \<Longrightarrow> distinct (map fst m)"
  by (simp add: sm_ok_def strict_sorted_iff)

lemma sm_in_set_find: "sm_ok m \<Longrightarrow> (k, v) \<in> set m \<Longrightarrow> sm_find k m = Some v"
  by (simp add: sm_find_def sm_ok_distinct)

lemma set_sm_put: "sm_ok m \<Longrightarrow> set (sm_put k v m) = insert (k, v) {e \<in> set m. fst e \<noteq> k}"
proof (induction k v m rule: sm_put.induct)
  case (2 k v k' v' m)
  then show ?case by (auto simp: sm_ok_Cons)
qed simp

lemma set_sm_erase: "set (sm_erase k m) = {e \<in> set m. fst e \<noteq> k}"
  by (auto simp: sm_erase_def)

lemma sm_put_same: "sm_ok m \<Longrightarrow> sm_find k m = Some v \<Longrightarrow> sm_put k v m = m"
proof (induction k v m rule: sm_put.induct)
  case (2 k v k' v' m)
  then show ?case
    by (auto simp: sm_ok_Cons dest!: sm_find_in_set split: if_splits)
qed simp

lemma sm_subscript_value [simp]: "fst (sm_subscript d k m) = (case sm_find k m of Some v \<Rightarrow> v | None \<Rightarrow> d)"
  by (simp add: sm_subscript_def split: option.splits)

lemma sm_subscript_find:
  "sm_find k' (snd (sm_subscript d k m)) =
     (if k' = k then Some (case sm_find k m of Some v \<Rightarrow> v | None \<Rightarrow> d) else sm_find k' m)"
  by (auto simp: sm_subscript_def split: option.splits)

lemma sm_subscript_ok [hal_inv]: "sm_ok m \<Longrightarrow> sm_ok (snd (sm_subscript d k m))"
  by (auto simp: sm_subscript_def split: option.splits)

text \<open>Updating every value (a loop \<^verbatim>\<open>for (auto& [k, v] : m)\<close> that writes \<^verbatim>\<open>v\<close>).\<close>

definition sm_map :: "('k \<Rightarrow> 'v \<Rightarrow> 'w) \<Rightarrow> ('k, 'v) stdmap \<Rightarrow> ('k, 'w) stdmap" where
  "sm_map f m = map (\<lambda>(k, v). (k, f k v)) m"

lemma sm_keys_map [simp]: "map fst (sm_map f m) = map fst m"
  by (induction m) (auto simp: sm_map_def)

lemma sm_ok_map [simp, hal_inv]: "sm_ok (sm_map f m) = sm_ok m"
  by (simp add: sm_ok_def)

lemma sm_find_map [simp]: "sm_find k (sm_map f m) = map_option (f k) (sm_find k m)"
  by (induction m) (auto simp: sm_map_def)

text \<open>A map is determined by its lookups.\<close>

lemma sm_ok_find_list: "sm_ok m \<Longrightarrow> m = map (\<lambda>k. (k, the (sm_find k m))) (map fst m)"
  by (simp add: list_eq_iff_nth_eq) (metis nth_mem option.sel prod.collapse sm_in_set_find)

lemma sm_ext:
  assumes "sm_ok m" "sm_ok m'" "\<And>k. sm_find k m = sm_find k m'"
  shows "m = m'"
proof -
  have "fst ` set m = fst ` set m'"
    using assms(3) by (metis sm_find_dom subsetI subset_antisym)
  then have "map fst m = map fst m'"
    using assms(1,2) by (intro strict_sorted_equal) (simp_all add: sm_ok_def)
  then show ?thesis
    using sm_ok_find_list [OF assms(1)] sm_ok_find_list [OF assms(2)] assms(3) by simp
qed

section \<open>The interface\<close>

locale keyed_store =
  fixes lookup :: "'k \<Rightarrow> 'm \<Rightarrow> 'v option"
    and store :: "'k \<Rightarrow> 'v \<Rightarrow> 'm \<Rightarrow> 'm"
    and remove :: "'k \<Rightarrow> 'm \<Rightarrow> 'm"
    and ok :: "'m \<Rightarrow> bool"
  assumes lookup_store: "lookup k' (store k v m) = (if k' = k then Some v else lookup k' m)"
    and lookup_remove: "lookup k' (remove k m) = (if k' = k then None else lookup k' m)"
    and ok_store: "ok m \<Longrightarrow> ok (store k v m)"
    and ok_remove: "ok m \<Longrightarrow> ok (remove k m)"
begin

lemma lookup_store_other: "k' \<noteq> k \<Longrightarrow> lookup k' (store k v m) = lookup k' m"
  by (simp add: lookup_store)

lemma lookup_foldr_remove:
  "lookup k' (foldr remove ks m) = (if k' \<in> set ks then None else lookup k' m)"
  by (induction ks) (auto simp: lookup_remove)

lemma ok_fold_store: "ok m \<Longrightarrow> ok (fold (\<lambda>k. store k (f k)) ks m)"
  by (induction ks arbitrary: m) (auto simp: ok_store)

lemma lookup_fold_store:
  "lookup k' (fold (\<lambda>k. store k (f k)) ks m) = (if k' \<in> set ks then Some (f k') else lookup k' m)"
  by (induction ks arbitrary: m) (auto simp: lookup_store)

end

interpretation stdm: keyed_store sm_find sm_put sm_erase sm_ok
  by unfold_locales auto

end
