(* ===== verification/Sensor_Core.thy ===== *)
theory Sensor_Core
  imports Sysfs Std_Map
begin

text \<open>
  \<^verbatim>\<open>sensors/core/ISensorHal.h\<close> and \<^verbatim>\<open>sensors/core/SensorCore.{h,cpp}\<close>: the static
  description of a sensor (\<open>SensorData\<close>), a reading (\<open>SensorValues\<close>), and the base class
  that arbitrates between the sensor types that use one physical device.

  The virtual methods \<^verbatim>\<open>setPowerMode\<close> and \<^verbatim>\<open>setSamplingRate\<close> are a method table
  (\<open>sensor_vtable\<close>) over the world \<open>'w\<close> the overriders act on; the concrete tables are in
  theory \<open>Smi_Devices\<close>. \<^verbatim>\<open>ISensorHal\<close> is the locale \<open>sensor_hal\<close>, interpreted here on
  \<^verbatim>\<open>SensorCore\<close>.
\<close>

section \<open>Data\<close>

text \<open>The rounding of the target's single and double precision arithmetic.\<close>

record float_ops =
  fp32 :: "real \<Rightarrow> real"
  fp64 :: "real \<Rightarrow> real"

text \<open>\<open>BST_NONE\<close> is the value 0 of a value-initialised \<^verbatim>\<open>BoschSensorType\<close>.\<close>

datatype BoschSensorType =
    BST_NONE
  | ACCEL
  | GYRO
  | GRAVITY
  | LINEAR_ACCEL
  | GYRO_UNCALIBRATED
  | ACCEL_UNCALIBRATED

fun bst_int :: "BoschSensorType \<Rightarrow> int" where
  "bst_int BST_NONE = 0"
| "bst_int ACCEL = 1"
| "bst_int GYRO = 4"
| "bst_int GRAVITY = 9"
| "bst_int LINEAR_ACCEL = 10"
| "bst_int GYRO_UNCALIBRATED = 16"
| "bst_int ACCEL_UNCALIBRATED = 35"

lemma bst_int_inj: "bst_int a = bst_int b \<Longrightarrow> a = b"
  by (cases a; cases b) auto

instantiation BoschSensorType :: linorder
begin

definition less_eq_BoschSensorType :: "BoschSensorType \<Rightarrow> BoschSensorType \<Rightarrow> bool" where
  "a \<le> b \<longleftrightarrow> bst_int a \<le> bst_int b"

definition less_BoschSensorType :: "BoschSensorType \<Rightarrow> BoschSensorType \<Rightarrow> bool" where
  "a < b \<longleftrightarrow> bst_int a < bst_int b"

instance
  by standard (auto simp: less_eq_BoschSensorType_def less_BoschSensorType_def intro: bst_int_inj)

end

datatype SensorReportingMode = CONTINUOUS | ON_CHANGE | ONE_SHOT | SPECIAL_REPORTING

fun reporting_mode_int :: "SensorReportingMode \<Rightarrow> int" where
  "reporting_mode_int CONTINUOUS = 0"
| "reporting_mode_int ON_CHANGE = 1"
| "reporting_mode_int ONE_SHOT = 2"
| "reporting_mode_int SPECIAL_REPORTING = 3"

record SensorData =
  sd_vendor :: string
  sd_driverName :: string
  sd_sensorName :: string
  sd_sysfsRaw :: "string list"
  sd_temperatureSysfsRaw :: string
  sd_type :: BoschSensorType
  sd_minDelayUs :: int
  sd_maxDelayUs :: int
  sd_power :: real
  sd_range :: real
  sd_resolution :: real
  sd_temperatureScale :: real
  sd_temperatureOffset :: real
  sd_reportMode :: SensorReportingMode

definition SensorData_init :: SensorData where
  "SensorData_init =
     \<lparr>sd_vendor = ''Robert Bosch GmbH'', sd_driverName = [], sd_sensorName = [],
      sd_sysfsRaw = [[], [], []], sd_temperatureSysfsRaw = [], sd_type = BST_NONE,
      sd_minDelayUs = 0, sd_maxDelayUs = 0, sd_power = 0, sd_range = 0, sd_resolution = 0,
      sd_temperatureScale = 0, sd_temperatureOffset = 0, sd_reportMode = CONTINUOUS\<rparr>"

record SensorValues =
  sv_timestamp :: int
  sv_data :: "real list"

section \<open>\<^verbatim>\<open>SensorCore\<close>\<close>

record SensorCore =
  mDevice :: string
  mSensorData :: SensorData
  mAvailable :: bool
  mIsEnabled :: bool
  mEnableState :: "(BoschSensorType, bool) stdmap"
  mSamplingPeriods :: "(BoschSensorType, int) stdmap"
  mFileHandler :: "read_handler list"

definition SensorCore_init :: SensorCore where
  "SensorCore_init =
     \<lparr>mDevice = [], mSensorData = SensorData_init, mAvailable = False, mIsEnabled = False,
      mEnableState = [], mSamplingPeriods = [], mFileHandler = []\<rparr>"

text \<open>The virtual methods; the first argument is \<^verbatim>\<open>mDevice\<close> of the object.\<close>

record 'w sensor_vtable =
  vt_setPowerMode :: "string \<Rightarrow> bool \<Rightarrow> 'w \<Rightarrow> 'w"
  vt_setSamplingRate :: "string \<Rightarrow> int \<Rightarrow> 'w \<Rightarrow> 'w"

text \<open>The empty bodies of the base class.\<close>

definition SensorCore_vtable :: "'w sensor_vtable" where
  "SensorCore_vtable = \<lparr>vt_setPowerMode = (\<lambda>_ _ w. w), vt_setSamplingRate = (\<lambda>_ _ w. w)\<rparr>"

definition SensorCore_setDevice :: "sysfs \<Rightarrow> string \<Rightarrow> SensorCore \<Rightarrow> SensorCore" where
  "SensorCore_setDevice fs device sc =
     sc\<lparr>mDevice := device,
        mFileHandler := RawSysfsHandler_init fs device (sd_sysfsRaw (mSensorData sc)) (mFileHandler sc)\<rparr>"

text \<open>
  The loop of \<^verbatim>\<open>updateSamplingRate\<close>; \<^verbatim>\<open>mEnableState[...]\<close> inserts \<^verbatim>\<open>false\<close> for a type
  that has a period but was never activated.
\<close>

fun updateSamplingRate_loop ::
  "(BoschSensorType, int) stdmap \<Rightarrow> (BoschSensorType, bool) stdmap \<Rightarrow> int
     \<Rightarrow> (BoschSensorType, bool) stdmap \<times> int" where
  "updateSamplingRate_loop [] enableState used = (enableState, used)"
| "updateSamplingRate_loop ((type, period) # rest) enableState used =
     (case sm_subscript False type enableState of
        (enabled, enableState') \<Rightarrow>
          updateSamplingRate_loop rest enableState'
            (if enabled \<and> period < used then period else used))"

definition SensorCore_updateSamplingRate ::
  "'w sensor_vtable \<Rightarrow> SensorCore \<times> 'w \<Rightarrow> SensorCore \<times> 'w" where
  "SensorCore_updateSamplingRate vt s =
     (case s of (sc, w) \<Rightarrow>
        (case updateSamplingRate_loop (mSamplingPeriods sc) (mEnableState sc)
                (i32 (sd_maxDelayUs (mSensorData sc) * 1000)) of
           (enableState, used) \<Rightarrow>
             (sc\<lparr>mEnableState := enableState\<rparr>, vt_setSamplingRate vt (mDevice sc) used w)))"

definition SensorCore_activateByType ::
  "'w sensor_vtable \<Rightarrow> BoschSensorType \<Rightarrow> bool \<Rightarrow> SensorCore \<times> 'w \<Rightarrow> SensorCore \<times> 'w" where
  "SensorCore_activateByType vt type enable s =
     (case s of (sc, w) \<Rightarrow>
        let sc' = sc\<lparr>mEnableState := sm_put type enable (mEnableState sc)\<rparr>;
            isEnabled = list_ex snd (mEnableState sc')
        in if isEnabled \<noteq> mIsEnabled sc'
           then SensorCore_updateSamplingRate vt
                  (sc'\<lparr>mIsEnabled := isEnabled\<rparr>, vt_setPowerMode vt (mDevice sc') isEnabled w)
           else (sc', w))"

definition SensorCore_activate ::
  "'w sensor_vtable \<Rightarrow> bool \<Rightarrow> SensorCore \<times> 'w \<Rightarrow> SensorCore \<times> 'w" where
  "SensorCore_activate vt enable s =
     SensorCore_activateByType vt (sd_type (mSensorData (fst s))) enable s"

definition SensorCore_batchByType ::
  "'w sensor_vtable \<Rightarrow> BoschSensorType \<Rightarrow> int \<Rightarrow> int \<Rightarrow> SensorCore \<times> 'w \<Rightarrow> SensorCore \<times> 'w" where
  "SensorCore_batchByType vt type samplingPeriodNs maxReportLatencyNs s =
     (case s of (sc, w) \<Rightarrow>
        SensorCore_updateSamplingRate vt
          (sc\<lparr>mSamplingPeriods := sm_put type samplingPeriodNs (mSamplingPeriods sc)\<rparr>, w))"

definition SensorCore_batch ::
  "'w sensor_vtable \<Rightarrow> int \<Rightarrow> int \<Rightarrow> SensorCore \<times> 'w \<Rightarrow> SensorCore \<times> 'w" where
  "SensorCore_batch vt samplingPeriodNs maxReportLatencyNs s =
     SensorCore_batchByType vt (sd_type (mSensorData (fst s))) samplingPeriodNs maxReportLatencyNs s"

subsection \<open>Reading\<close>

text \<open>
  \<^verbatim>\<open>atof\<close> on decimal numerals, before the rounding to \<^verbatim>\<open>double\<close>: the value of the
  longest numeral at the start, 0 when there is none. (Hexadecimal numerals, infinities and
  NaNs, which no IIO driver prints, are not covered.)
\<close>

definition atof_exponent :: "string \<Rightarrow> int" where
  "atof_exponent r =
     (case r of [] \<Rightarrow> 0
      | c # r' \<Rightarrow>
          (let d = takeWhile is_digit (skip_sign r') in
           if is_exp_char c \<and> d \<noteq> []
           then (if hd r' = CHR ''-'' then - digits_value d else digits_value d) else 0))"

definition atof :: "string \<Rightarrow> real" where
  "atof s =
     (let t = dropWhile is_space s;
          u = skip_sign t;
          ip = takeWhile is_digit u;
          r = dropWhile is_digit u;
          has_dot = (r \<noteq> [] \<and> hd r = CHR ''.'');
          fp = (if has_dot then takeWhile is_digit (tl r) else []);
          r' = (if has_dot then dropWhile is_digit (tl r) else r);
          v = of_int (digits_value (ip @ fp)) / 10 ^ length fp * 10 powi atof_exponent r'
      in if ip = [] \<and> fp = [] then 0
         else if t \<noteq> [] \<and> hd t = CHR ''-'' then - v else v)"

text \<open>The result and, when it is true, what was stored through the pointer.\<close>

definition SensorCore_readSensorTemperature ::
  "float_ops \<Rightarrow> sysfs \<Rightarrow> SensorCore \<Rightarrow> bool \<times> real option" where
  "SensorCore_readSensorTemperature fo fs sc =
     (let sd = mSensorData sc in
      if sd_temperatureSysfsRaw sd = [] then (False, None)
      else (case ReadHandler_read fs (ReadHandler fs (mDevice sc) (sd_temperatureSysfsRaw sd)) of
              (status, data) \<Rightarrow>
                if status = 0
                then (True, Some (fp32 fo (fp64 fo (fp64 fo (fp64 fo (atof (the data))
                                   + sd_temperatureOffset sd) * sd_temperatureScale sd))))
                else (False, None)))"

text \<open>\<open>now\<close> is what \<^verbatim>\<open>elapsedRealtimeNano\<close> returns.\<close>

definition SensorCore_readPollingData ::
  "float_ops \<Rightarrow> sysfs \<Rightarrow> int \<Rightarrow> SensorCore \<Rightarrow> SensorValues list \<Rightarrow> cpp_exception + SensorValues list" where
  "SensorCore_readPollingData fo fs now sc values =
     (case RawSysfsHandler_read (fp32 fo) fs (sd_resolution (mSensorData sc)) (mFileHandler sc) [] of
        Inl e \<Rightarrow> Inl e
      | Inr (status, data) \<Rightarrow>
          if status \<noteq> 0 then Inr values
          else Inr (values @ [\<lparr>sv_timestamp = now, sv_data = data\<rparr>]))"

definition SensorCore_readSensorValues ::
  "float_ops \<Rightarrow> sysfs \<Rightarrow> int \<Rightarrow> SensorCore \<Rightarrow> cpp_exception + SensorValues list" where
  "SensorCore_readSensorValues fo fs now sc = SensorCore_readPollingData fo fs now sc []"

section \<open>Arbitration\<close>

text \<open>
  The device is wanted when some type is enabled (\<open>wanted\<close>), and the period it should have is
  the smallest one among the enabled types, at most the slowest the sensor has
  (\<open>wanted_period\<close>).
\<close>

definition wanted :: "SensorCore \<Rightarrow> bool" where
  "wanted sc \<longleftrightarrow> (\<exists>t. sm_find t (mEnableState sc) = Some True)"

definition enabled_periods :: "SensorCore \<Rightarrow> int set" where
  "enabled_periods sc =
     {p. \<exists>t. sm_find t (mSamplingPeriods sc) = Some p \<and> sm_find t (mEnableState sc) = Some True}"

definition wanted_period :: "SensorCore \<Rightarrow> int" where
  "wanted_period sc = Min (insert (i32 (sd_maxDelayUs (mSensorData sc) * 1000)) (enabled_periods sc))"

definition SensorCore_inv :: "SensorCore \<Rightarrow> bool" where
  "SensorCore_inv sc \<longleftrightarrow>
     sm_ok (mEnableState sc) \<and> sm_ok (mSamplingPeriods sc) \<and> mIsEnabled sc = wanted sc"

lemma list_ex_snd_find: "sm_ok m \<Longrightarrow> list_ex snd m = (\<exists>t. sm_find t m = Some True)"
  by (force simp: list_ex_iff dest: sm_in_set_find sm_find_in_set)

lemma loop_subscript:
  "updateSamplingRate_loop ps es used = (es', used') \<Longrightarrow>
   (sm_ok es \<longrightarrow> sm_ok es') \<and> (\<forall>t. sm_find t es' = Some True \<longleftrightarrow> sm_find t es = Some True)"
proof (induction ps es used rule: updateSamplingRate_loop.induct)
  case (2 t p rest es used)
  obtain b es1 where b: "sm_subscript False t es = (b, es1)" by fastforce
  have "\<forall>t'. sm_find t' es1 = Some True \<longleftrightarrow> sm_find t' es = Some True"
    using sm_subscript_find [of _ False t es] b by (auto split: option.splits)
  moreover have "sm_ok es \<longrightarrow> sm_ok es1" using sm_subscript_ok [of es False t] b by simp
  ultimately show ?case using 2 b by simp
qed simp

lemma Min_insert_choice:
  fixes p u :: int
  assumes "finite S"
  shows "Min (insert (if c \<and> p < u then p else u) S) = Min (insert u (if c then insert p S else S))"
  using assms by (cases "S = {}") (auto simp: min_def)

lemma loop_Min:
  "updateSamplingRate_loop ps es used = (es', used') \<Longrightarrow>
   used' = Min (insert used {p. \<exists>t. (t, p) \<in> set ps \<and> sm_find t es = Some True})"
proof (induction ps es used rule: updateSamplingRate_loop.induct)
  case (2 t p rest es used)
  obtain b es1 where b: "sm_subscript False t es = (b, es1)" by fastforce
  then have bt: "b \<longleftrightarrow> sm_find t es = Some True"
    using sm_subscript_value [of False t es] by (auto split: option.splits)
  have eq: "sm_find t' es1 = Some True \<longleftrightarrow> sm_find t' es = Some True" for t'
    using sm_subscript_find [of t' False t es] b by (auto split: option.splits)
  let ?S = "{p. \<exists>t. (t, p) \<in> set rest \<and> sm_find t es = Some True}"
  have fin: "finite ?S" by (rule finite_subset [of _ "snd ` set rest"]) force+
  have set: "{q. \<exists>t'. (t', q) \<in> set ((t, p) # rest) \<and> sm_find t' es = Some True}
               = (if b then insert p ?S else ?S)"
    using bt by auto
  have "used' = Min (insert (if b \<and> p < used then p else used) ?S)"
    using 2 b by (simp add: eq)
  also have "\<dots> = Min (insert used (if b then insert p ?S else ?S))"
    using fin by (rule Min_insert_choice)
  finally show ?case using set by simp
qed simp

text \<open>\<^verbatim>\<open>updateSamplingRate\<close> asks the device for \<open>wanted_period\<close> and changes no state
  that is observable through \<open>wanted\<close>.\<close>

lemma updateSamplingRate_spec:
  assumes "SensorCore_updateSamplingRate vt (sc, w) = (sc', w')" "sm_ok (mSamplingPeriods sc)"
  shows "w' = vt_setSamplingRate vt (mDevice sc) (wanted_period sc) w"
    and "mSensorData sc' = mSensorData sc" "mDevice sc' = mDevice sc" "mIsEnabled sc' = mIsEnabled sc"
    and "mSamplingPeriods sc' = mSamplingPeriods sc"
    and "sm_find t (mEnableState sc') = Some True \<longleftrightarrow> sm_find t (mEnableState sc) = Some True"
    and "wanted sc' = wanted sc" "wanted_period sc' = wanted_period sc"
    and "SensorCore_inv sc \<Longrightarrow> SensorCore_inv sc'"
proof -
  obtain es' used where l: "updateSamplingRate_loop (mSamplingPeriods sc) (mEnableState sc)
                              (i32 (sd_maxDelayUs (mSensorData sc) * 1000)) = (es', used)"
    by fastforce
  have sc': "sc' = sc\<lparr>mEnableState := es'\<rparr>" and w': "w' = vt_setSamplingRate vt (mDevice sc) used w"
    using assms(1) l by (auto simp: SensorCore_updateSamplingRate_def)
  have eq: "\<And>t. sm_find t es' = Some True \<longleftrightarrow> sm_find t (mEnableState sc) = Some True"
    and ok: "sm_ok (mEnableState sc) \<longrightarrow> sm_ok es'"
    using loop_subscript [OF l] by auto
  have "(t, p) \<in> set (mSamplingPeriods sc) \<longleftrightarrow> sm_find t (mSamplingPeriods sc) = Some p" for t p
    using assms(2) by (auto dest: sm_in_set_find sm_find_in_set)
  then have "used = wanted_period sc"
    using loop_Min [OF l] by (simp add: wanted_period_def enabled_periods_def)
  then show "w' = vt_setSamplingRate vt (mDevice sc) (wanted_period sc) w" using w' by simp
  show "mSensorData sc' = mSensorData sc" "mDevice sc' = mDevice sc" "mIsEnabled sc' = mIsEnabled sc"
    "mSamplingPeriods sc' = mSamplingPeriods sc"
    by (simp_all add: sc')
  show "sm_find t (mEnableState sc') = Some True \<longleftrightarrow> sm_find t (mEnableState sc) = Some True"
    by (simp add: sc' eq)
  show w: "wanted sc' = wanted sc" by (simp add: sc' wanted_def eq)
  show "wanted_period sc' = wanted_period sc"
    by (simp add: sc' wanted_period_def enabled_periods_def eq)
  show "SensorCore_inv sc \<Longrightarrow> SensorCore_inv sc'"
    using w ok by (simp add: SensorCore_inv_def sc')
qed

text \<open>\<open>SensorCore_activateByType\<close>, branch by branch.\<close>

definition set_enable :: "BoschSensorType \<Rightarrow> bool \<Rightarrow> SensorCore \<Rightarrow> SensorCore" where
  "set_enable type enable sc =
     (let sc' = sc\<lparr>mEnableState := sm_put type enable (mEnableState sc)\<rparr> in sc'\<lparr>mIsEnabled := wanted sc'\<rparr>)"

lemma set_enable_simps [simp]:
  "mSensorData (set_enable t e sc) = mSensorData sc" "mDevice (set_enable t e sc) = mDevice sc"
  "mSamplingPeriods (set_enable t e sc) = mSamplingPeriods sc"
  "mEnableState (set_enable t e sc) = sm_put t e (mEnableState sc)"
  "mIsEnabled (set_enable t e sc) = wanted (set_enable t e sc)"
  by (simp_all add: set_enable_def wanted_def Let_def)

lemma activateByType_eq:
  assumes "SensorCore_inv sc"
  shows "SensorCore_activateByType vt t e (sc, w) =
           (if wanted (set_enable t e sc) = wanted sc then (set_enable t e sc, w)
            else SensorCore_updateSamplingRate vt
                   (set_enable t e sc, vt_setPowerMode vt (mDevice sc) (wanted (set_enable t e sc)) w))"
proof -
  have "list_ex snd (sm_put t e (mEnableState sc)) = wanted (set_enable t e sc)"
    using assms by (subst list_ex_snd_find) (auto simp: SensorCore_inv_def wanted_def)
  moreover have "set_enable t e sc =
    sc\<lparr>mEnableState := sm_put t e (mEnableState sc), mIsEnabled := wanted (set_enable t e sc)\<rparr>"
    by (simp add: set_enable_def Let_def wanted_def)
  ultimately show ?thesis
    using assms by (auto simp: SensorCore_activateByType_def Let_def SensorCore_inv_def)
qed

lemma set_enable_inv: "SensorCore_inv sc \<Longrightarrow> SensorCore_inv (set_enable t e sc)"
  by (simp add: SensorCore_inv_def)

section \<open>Sequences of calls\<close>

text \<open>The calls \<^verbatim>\<open>activateByType\<close> and \<^verbatim>\<open>batchByType\<close> a sensor object receives.\<close>

datatype core_op = Op_activate BoschSensorType bool | Op_batch BoschSensorType int

fun core_step :: "'w sensor_vtable \<Rightarrow> core_op \<Rightarrow> SensorCore \<times> 'w \<Rightarrow> SensorCore \<times> 'w" where
  "core_step vt (Op_activate t e) s = SensorCore_activateByType vt t e s"
| "core_step vt (Op_batch t p) s = SensorCore_batchByType vt t p 0 s"

definition core_run :: "'w sensor_vtable \<Rightarrow> core_op list \<Rightarrow> SensorCore \<times> 'w \<Rightarrow> SensorCore \<times> 'w" where
  "core_run vt ops s = fold (core_step vt) ops s"

definition SensorCore_new :: "SensorData \<Rightarrow> SensorCore" where
  "SensorCore_new sd = SensorCore_init\<lparr>mSensorData := sd\<rparr>"

text \<open>What a caller asked for last.\<close>

fun last_enable :: "BoschSensorType \<Rightarrow> core_op list \<Rightarrow> bool option" where
  "last_enable t [] = None"
| "last_enable t (op # ops) =
     (case last_enable t ops of
        Some e \<Rightarrow> Some e
      | None \<Rightarrow> (case op of Op_activate t' e \<Rightarrow> if t' = t then Some e else None | Op_batch _ _ \<Rightarrow> None))"

fun last_period :: "BoschSensorType \<Rightarrow> core_op list \<Rightarrow> int option" where
  "last_period t [] = None"
| "last_period t (op # ops) =
     (case last_period t ops of
        Some p \<Rightarrow> Some p
      | None \<Rightarrow> (case op of Op_batch t' p \<Rightarrow> if t' = t then Some p else None | Op_activate _ _ \<Rightarrow> None))"

lemma last_enable_snoc:
  "last_enable t (ops @ [op]) =
     (case op of Op_activate t' e \<Rightarrow> if t' = t then Some e else last_enable t ops
      | Op_batch _ _ \<Rightarrow> last_enable t ops)"
  by (induction ops) (auto split: option.splits core_op.splits)

lemma last_period_snoc:
  "last_period t (ops @ [op]) =
     (case op of Op_batch t' p \<Rightarrow> if t' = t then Some p else last_period t ops
      | Op_activate _ _ \<Rightarrow> last_period t ops)"
  by (induction ops) (auto split: option.splits core_op.splits)

text \<open>A device that remembers the last power mode and the last rate it was given.\<close>

record device_state =
  ds_power :: bool
  ds_rate :: "int option"

definition device_vtable :: "device_state sensor_vtable" where
  "device_vtable =
     \<lparr>vt_setPowerMode = (\<lambda>_ e d. d\<lparr>ds_power := e\<rparr>), vt_setSamplingRate = (\<lambda>_ p d. d\<lparr>ds_rate := Some p\<rparr>)\<rparr>"

definition device_off :: device_state where
  "device_off = \<lparr>ds_power = False, ds_rate = None\<rparr>"

definition core_reach :: "SensorData \<Rightarrow> core_op list \<Rightarrow> SensorCore \<times> device_state" where
  "core_reach sd ops = core_run device_vtable ops (SensorCore_new sd, device_off)"

definition core_rel :: "SensorData \<Rightarrow> core_op list \<Rightarrow> SensorCore \<times> device_state \<Rightarrow> bool" where
  "core_rel sd ops s \<longleftrightarrow>
     (case s of (sc, d) \<Rightarrow>
        SensorCore_inv sc \<and> mSensorData sc = sd \<and> ds_power d = wanted sc
        \<and> (\<forall>t. sm_find t (mEnableState sc) = Some True \<longleftrightarrow> last_enable t ops = Some True)
        \<and> (\<forall>t. sm_find t (mSamplingPeriods sc) = last_period t ops))"

lemma core_rel_update:
  assumes "core_rel sd ops (sc, d)" "SensorCore_updateSamplingRate device_vtable (sc, d) = s'"
  shows "core_rel sd ops s' \<and> ds_rate (snd s') = Some (wanted_period sc)
         \<and> wanted_period (fst s') = wanted_period sc"
proof -
  obtain sc' d' where s': "s' = (sc', d')" by fastforce
  have ok: "sm_ok (mSamplingPeriods sc)"
    using assms(1) by (simp add: core_rel_def SensorCore_inv_def)
  note spec = updateSamplingRate_spec [OF assms(2)[unfolded s'] ok]
  show ?thesis
    using assms(1) spec(1-9) unfolding s' by (simp add: core_rel_def device_vtable_def)
qed

lemma core_rel_set_enable:
  "core_rel sd ops (sc, d) \<Longrightarrow>
   core_rel sd (ops @ [Op_activate t e])
     (set_enable t e sc, d\<lparr>ds_power := wanted (set_enable t e sc)\<rparr>)"
  by (auto simp: core_rel_def set_enable_inv last_enable_snoc last_period_snoc)

lemma core_rel_set_period:
  "core_rel sd ops (sc, d) \<Longrightarrow>
   core_rel sd (ops @ [Op_batch t p]) (sc\<lparr>mSamplingPeriods := sm_put t p (mSamplingPeriods sc)\<rparr>, d)"
  by (auto simp: core_rel_def SensorCore_inv_def wanted_def last_enable_snoc last_period_snoc)

lemma core_rel_step:
  assumes r: "core_rel sd ops (sc, d)"
  shows "core_rel sd (ops @ [op]) (core_step device_vtable op (sc, d))"
proof (cases op)
  case (Op_batch t p)
  then show ?thesis
    using core_rel_update [OF core_rel_set_period [OF r, of t p] refl]
    by (simp add: SensorCore_batchByType_def)
next
  case (Op_activate t e)
  have inv: "SensorCore_inv sc" and p: "ds_power d = wanted sc" using r by (auto simp: core_rel_def)
  show ?thesis
  proof (cases "wanted (set_enable t e sc) = wanted sc")
    case True
    then have "d\<lparr>ds_power := wanted (set_enable t e sc)\<rparr> = d" using p by simp
    with core_rel_set_enable [OF r, of t e] True show ?thesis
      by (simp add: Op_activate activateByType_eq [OF inv])
  next
    case False
    with core_rel_update [OF core_rel_set_enable [OF r, of t e] refl] show ?thesis
      by (simp add: Op_activate activateByType_eq [OF inv] device_vtable_def)
  qed
qed

lemma core_reach_snoc: "core_reach sd (ops @ [op]) = core_step device_vtable op (core_reach sd ops)"
  by (simp add: core_reach_def core_run_def)

lemma core_rel_reach: "core_rel sd ops (core_reach sd ops)"
proof (induction ops rule: rev_induct)
  case Nil
  show ?case
    by (simp add: core_reach_def core_run_def core_rel_def SensorCore_inv_def wanted_def
        SensorCore_new_def SensorCore_init_def device_off_def)
next
  case (snoc op ops)
  then show ?case using core_rel_step by (cases "core_reach sd ops") (simp add: core_reach_snoc)
qed

lemma wanted_reach: "wanted (fst (core_reach sd ops)) = (\<exists>t. last_enable t ops = Some True)"
  using core_rel_reach [of sd ops] by (auto simp: core_rel_def wanted_def split: prod.splits)

text \<open>The period the callers are owed: the fastest one among the types that are enabled.\<close>

definition owed_period :: "SensorData \<Rightarrow> core_op list \<Rightarrow> int" where
  "owed_period sd ops =
     Min (insert (i32 (sd_maxDelayUs sd * 1000))
           {p. \<exists>t. last_enable t ops = Some True \<and> last_period t ops = Some p})"

lemma wanted_period_rel: "core_rel sd ops (sc, d) \<Longrightarrow> wanted_period sc = owed_period sd ops"
proof -
  assume r: "core_rel sd ops (sc, d)"
  have "{p. \<exists>t. sm_find t (mSamplingPeriods sc) = Some p \<and> sm_find t (mEnableState sc) = Some True} =
        {p. \<exists>t. last_enable t ops = Some True \<and> last_period t ops = Some p}"
    using r by (auto simp: core_rel_def)
  then show ?thesis
    using r by (simp add: wanted_period_def owed_period_def enabled_periods_def core_rel_def)
qed

text \<open>C14: whatever calls a \<^verbatim>\<open>SensorCore\<close> has received for whatever types, the device is
  powered exactly when some type was last activated with \<^verbatim>\<open>true\<close>, and \<^verbatim>\<open>mIsEnabled\<close>
  says so.\<close>

theorem SensorCore_power_arbitration:
  "ds_power (snd (core_reach sd ops)) = (\<exists>t. last_enable t ops = Some True)
   \<and> mIsEnabled (fst (core_reach sd ops)) = (\<exists>t. last_enable t ops = Some True)"
  using core_rel_reach [of sd ops] wanted_reach [of sd ops]
  by (auto simp: core_rel_def SensorCore_inv_def split: prod.splits)

lemma core_rate_updated:
  assumes "(\<exists>t p. op = Op_batch t p) \<or>
           (\<exists>t. last_enable t (ops @ [op]) = Some True) \<noteq> (\<exists>t. last_enable t ops = Some True)"
  shows "ds_rate (snd (core_reach sd (ops @ [op]))) = Some (owed_period sd (ops @ [op]))"
proof -
  obtain sc d where s: "core_reach sd ops = (sc, d)" by fastforce
  have r: "core_rel sd ops (sc, d)" using core_rel_reach s by metis
  show ?thesis
  proof (cases op)
    case (Op_batch t p)
    have r': "core_rel sd (ops @ [op]) (sc\<lparr>mSamplingPeriods := sm_put t p (mSamplingPeriods sc)\<rparr>, d)"
      using core_rel_set_period [OF r, of t p] by (simp add: Op_batch)
    show ?thesis
      using core_rel_update [OF r' refl] wanted_period_rel [OF r'] Op_batch
      by (simp add: core_reach_snoc s SensorCore_batchByType_def)
  next
    case (Op_activate t e)
    have inv: "SensorCore_inv sc" using r by (simp add: core_rel_def)
    let ?d = "d\<lparr>ds_power := wanted (set_enable t e sc)\<rparr>"
    have r': "core_rel sd (ops @ [op]) (set_enable t e sc, ?d)"
      using core_rel_set_enable [OF r, of t e] by (simp add: Op_activate)
    have "wanted (set_enable t e sc) \<noteq> wanted sc"
      using assms r r' by (auto simp: Op_activate core_rel_def wanted_def)
    then show ?thesis
      using core_rel_update [OF r' refl] wanted_period_rel [OF r']
      by (simp add: core_reach_snoc s Op_activate activateByType_eq [OF inv] device_vtable_def)
  qed
qed

text \<open>C30: after \<^verbatim>\<open>batchByType\<close>, and after an \<^verbatim>\<open>activateByType\<close> that switches the
  device on or off, the device has been given the smallest period among the enabled types,
  and never one above \<^verbatim>\<open>maxDelayUs * 1000\<close>.\<close>

theorem SensorCore_rate_arbitration:
  assumes "(\<exists>t p. op = Op_batch t p) \<or>
           (\<exists>t. last_enable t (ops @ [op]) = Some True) \<noteq> (\<exists>t. last_enable t ops = Some True)"
  shows "ds_rate (snd (core_reach sd (ops @ [op]))) = Some (owed_period sd (ops @ [op]))"
  using assms by (rule core_rate_updated)

theorem SensorCore_rate_arbitration_witness:
  "ds_rate (snd (core_reach SensorData_init
     ([Op_batch ACCEL (-5), Op_batch GRAVITY (-9), Op_activate ACCEL True] @ [Op_activate GRAVITY False]
       @ [Op_batch ACCEL (-7)]))) =
   Some (owed_period SensorData_init
     ([Op_batch ACCEL (-5), Op_batch GRAVITY (-9), Op_activate ACCEL True] @ [Op_activate GRAVITY False]
       @ [Op_batch ACCEL (-7)]))"
  using SensorCore_rate_arbitration
    [of "Op_batch ACCEL (-7)"
        "[Op_batch ACCEL (-5), Op_batch GRAVITY (-9), Op_activate ACCEL True] @ [Op_activate GRAVITY False]"]
  by simp

lemma core_unchanged:
  assumes "last_enable t ops = Some True"
  shows "snd (core_reach sd (ops @ [Op_activate t' True])) = snd (core_reach sd ops)"
proof -
  obtain sc d where s: "core_reach sd ops = (sc, d)" by fastforce
  have r: "core_rel sd ops (sc, d)" using core_rel_reach s by metis
  have inv: "SensorCore_inv sc" using r by (simp add: core_rel_def)
  have "sm_find t (mEnableState sc) = Some True" using r assms by (simp add: core_rel_def)
  then have "wanted (set_enable t' True sc) = wanted sc" by (auto simp: wanted_def)
  then show ?thesis by (simp add: core_reach_snoc s activateByType_eq [OF inv])
qed

text \<open>when the device is already on for one type, activating a second type that was batched
  with a shorter period does not reach \<^verbatim>\<open>setSamplingRate\<close>: the device stays at the old,
  slower rate (\<^verbatim>\<open>activateByType\<close> updates the rate only when the power mode changes).\<close>

theorem SensorCore_second_activation_keeps_rate:
  assumes "last_enable t ops = Some True"
  shows "snd (core_reach sd (ops @ [Op_activate t' True])) = snd (core_reach sd ops)"
  using assms by (rule core_unchanged)

theorem SensorCore_second_activation_keeps_rate_witness:
  "ds_rate (snd (core_reach (SensorData_init\<lparr>sd_maxDelayUs := 1000000\<rparr>)
     ([Op_batch ACCEL 20000000, Op_activate ACCEL True, Op_batch GRAVITY 5000000]
       @ [Op_activate GRAVITY True]))) = Some 20000000"
  by (subst SensorCore_second_activation_keeps_rate [of ACCEL])
     (simp_all add: core_reach_def core_run_def SensorCore_batchByType_def SensorCore_activateByType_def
       SensorCore_updateSamplingRate_def SensorCore_new_def SensorCore_init_def device_vtable_def
       device_off_def sm_subscript_def Let_def hal_simps less_BoschSensorType_def)

fun op_type :: "core_op \<Rightarrow> BoschSensorType" where
  "op_type (Op_activate t e) = t"
| "op_type (Op_batch t p) = t"

lemma last_other:
  "\<forall>op\<in>set ops. op_type op = t \<Longrightarrow> t' \<noteq> t \<Longrightarrow> last_enable t' ops = None \<and> last_period t' ops = None"
  by (induction ops) (auto split: core_op.splits)

lemma owed_period_single:
  assumes "\<forall>op\<in>set ops. op_type op = t" "last_enable t ops = Some True"
  shows "owed_period sd ops =
           (case last_period t ops of None \<Rightarrow> i32 (sd_maxDelayUs sd * 1000)
            | Some p \<Rightarrow> min p (i32 (sd_maxDelayUs sd * 1000)))"
proof -
  have "(last_enable t' ops = Some True \<and> last_period t' ops = Some p)
          \<longleftrightarrow> t' = t \<and> last_period t ops = Some p" for t' p
    using last_other [OF assms(1), of t'] assms(2) by (cases "t' = t") simp_all
  then have "{p. \<exists>t'. last_enable t' ops = Some True \<and> last_period t' ops = Some p}
               = {p. last_period t ops = Some p}"
    by simp
  then have "owed_period sd ops = Min (insert (i32 (sd_maxDelayUs sd * 1000)) {p. last_period t ops = Some p})"
    unfolding owed_period_def by (rule arg_cong)
  then show ?thesis by (cases "last_period t ops") (simp_all add: min.commute)
qed

lemma core_rate_single:
  assumes "\<forall>op\<in>set ops. op_type op = t" "last_enable t ops = Some True"
  shows "ds_rate (snd (core_reach sd ops)) = Some (owed_period sd ops)"
  using assms
proof (induction ops rule: rev_induct)
  case (snoc op ops)
  show ?case
  proof (cases "(\<exists>t p. op = Op_batch t p) \<or>
     (\<exists>t. last_enable t (ops @ [op]) = Some True) \<noteq> (\<exists>t. last_enable t ops = Some True)")
    case True
    then show ?thesis by (rule core_rate_updated)
  next
    case False
    then obtain e where op: "op = Op_activate t e"
      using snoc.prems(1) by (cases op) auto
    then have e: "e" using snoc.prems(2) by (simp add: last_enable_snoc)
    obtain t' where "last_enable t' ops = Some True" using False snoc.prems(2) by blast
    moreover have all: "\<forall>op\<in>set ops. op_type op = t" using snoc.prems(1) by simp
    ultimately have t: "last_enable t ops = Some True" using last_other [OF all, of t'] by (cases "t' = t") auto
    have "owed_period sd (ops @ [op]) = owed_period sd ops"
      using owed_period_single [OF snoc.prems, of sd] owed_period_single [OF all t, of sd]
      by (simp add: last_period_snoc op)
    moreover have "snd (core_reach sd (ops @ [op])) = snd (core_reach sd ops)"
      using core_unchanged [OF t] e by (simp add: op)
    ultimately show ?thesis using snoc.IH [OF all t] by simp
  qed
qed simp

text \<open>a sensor used through its own type only (what \<^verbatim>\<open>activate\<close> and \<^verbatim>\<open>batch\<close>
  of \<^verbatim>\<open>ISensorHal\<close> do) always has the device at the last batched period, capped at
  \<^verbatim>\<open>maxDelayUs * 1000\<close>, while it is on.\<close>

theorem SensorCore_own_type_rate:
  assumes "\<forall>op\<in>set ops. op_type op = t" "last_enable t ops = Some True"
  shows "ds_rate (snd (core_reach sd ops)) =
           Some (case last_period t ops of None \<Rightarrow> i32 (sd_maxDelayUs sd * 1000)
                 | Some p \<Rightarrow> min p (i32 (sd_maxDelayUs sd * 1000)))"
  using core_rate_single [OF assms] owed_period_single [OF assms] by simp

theorem SensorCore_own_type_rate_witness:
  "ds_rate (snd (core_reach (SensorData_init\<lparr>sd_maxDelayUs := 1000\<rparr>)
     [Op_activate ACCEL True, Op_batch ACCEL 20000, Op_activate ACCEL True])) = Some 20000"
  using SensorCore_own_type_rate
      [of "[Op_activate ACCEL True, Op_batch ACCEL 20000, Op_activate ACCEL True]" ACCEL]
  by (simp add: hal_simps)

section \<open>The interface \<^verbatim>\<open>ISensorHal\<close>\<close>

datatype hal_cmd = Cmd_activate bool | Cmd_batch int int

fun hal_cmd_step :: "(bool \<Rightarrow> 's \<Rightarrow> 's) \<Rightarrow> (int \<Rightarrow> int \<Rightarrow> 's \<Rightarrow> 's) \<Rightarrow> hal_cmd \<Rightarrow> 's \<Rightarrow> 's" where
  "hal_cmd_step activate batch (Cmd_activate e) s = activate e s"
| "hal_cmd_step activate batch (Cmd_batch p l) s = batch p l s"

fun cmds_on :: "bool \<Rightarrow> hal_cmd list \<Rightarrow> bool" where
  "cmds_on b [] = b"
| "cmds_on b (Cmd_activate e # cs) = cmds_on e cs"
| "cmds_on b (Cmd_batch _ _ # cs) = cmds_on b cs"

text \<open>
  What the class \<^verbatim>\<open>Sensor\<close> relies on: \<^verbatim>\<open>activate\<close> and \<^verbatim>\<open>batch\<close> never change what
  \<^verbatim>\<open>getSensorData\<close> returns, \<^verbatim>\<open>activate\<close> sets the client's own activation and
  \<^verbatim>\<open>batch\<close> keeps it.
\<close>

locale sensor_hal =
  fixes activate :: "bool \<Rightarrow> 's \<Rightarrow> 's"
    and batch :: "int \<Rightarrow> int \<Rightarrow> 's \<Rightarrow> 's"
    and getSensorData :: "'s \<Rightarrow> SensorData"
    and is_on :: "'s \<Rightarrow> bool"
    and inv :: "'s \<Rightarrow> bool"
  assumes data_activate: "inv s \<Longrightarrow> getSensorData (activate e s) = getSensorData s"
    and data_batch: "inv s \<Longrightarrow> getSensorData (batch p l s) = getSensorData s"
    and on_activate: "inv s \<Longrightarrow> is_on (activate e s) = e"
    and on_batch: "inv s \<Longrightarrow> is_on (batch p l s) = is_on s"
    and inv_activate: "inv s \<Longrightarrow> inv (activate e s)"
    and inv_batch: "inv s \<Longrightarrow> inv (batch p l s)"
begin

lemma run_inv: "inv s \<Longrightarrow> inv (fold (hal_cmd_step activate batch) cs s)"
proof (induction cs arbitrary: s)
  case (Cons c cs)
  then show ?case by (cases c) (auto simp: inv_activate inv_batch)
qed simp

lemma run_data: "inv s \<Longrightarrow> getSensorData (fold (hal_cmd_step activate batch) cs s) = getSensorData s"
proof (induction cs arbitrary: s)
  case (Cons c cs)
  then show ?case by (cases c) (auto simp: inv_activate inv_batch data_activate data_batch)
qed simp

lemma run_on: "inv s \<Longrightarrow> is_on (fold (hal_cmd_step activate batch) cs s) = cmds_on (is_on s) cs"
proof (induction cs arbitrary: s)
  case (Cons c cs)
  then show ?case by (cases c) (auto simp: inv_activate inv_batch on_activate on_batch)
qed simp

end

definition core_on :: "SensorCore \<times> 'w \<Rightarrow> bool" where
  "core_on s \<longleftrightarrow> sm_find (sd_type (mSensorData (fst s))) (mEnableState (fst s)) = Some True"

lemma activateByType_facts:
  assumes "SensorCore_inv sc" "SensorCore_activateByType vt t e (sc, w) = (sc', w')"
  shows "mSensorData sc' = mSensorData sc" "mDevice sc' = mDevice sc" "SensorCore_inv sc'"
    and "mSamplingPeriods sc' = mSamplingPeriods sc"
    and "sm_find t' (mEnableState sc') = Some True \<longleftrightarrow>
           (if t' = t then e else sm_find t' (mEnableState sc) = Some True)"
proof -
  have ok: "sm_ok (mSamplingPeriods (set_enable t e sc))" using assms(1) by (simp add: SensorCore_inv_def)
  have inv: "SensorCore_inv (set_enable t e sc)" using assms(1) by (rule set_enable_inv)
  consider (same) "sc' = set_enable t e sc"
    | (upd) w1 where "SensorCore_updateSamplingRate vt (set_enable t e sc, w1) = (sc', w')"
    using assms(2) by (auto simp: activateByType_eq [OF assms(1)] split: if_splits)
  then have "mSensorData sc' = mSensorData sc \<and> mDevice sc' = mDevice sc \<and> SensorCore_inv sc'
      \<and> mSamplingPeriods sc' = mSamplingPeriods sc
      \<and> (sm_find t' (mEnableState sc') = Some True \<longleftrightarrow>
           (if t' = t then e else sm_find t' (mEnableState sc) = Some True))"
  proof cases
    case same
    then show ?thesis using inv by auto
  next
    case upd
    note spec = updateSamplingRate_spec [OF upd ok]
    show ?thesis using spec(2,3,5) spec(6) [of t'] spec(9) inv by auto
  qed
  then show "mSensorData sc' = mSensorData sc" "mDevice sc' = mDevice sc" "SensorCore_inv sc'"
    "mSamplingPeriods sc' = mSamplingPeriods sc"
    "sm_find t' (mEnableState sc') = Some True \<longleftrightarrow>
       (if t' = t then e else sm_find t' (mEnableState sc) = Some True)"
    by blast+
qed

lemma batchByType_facts:
  assumes "SensorCore_inv sc" "SensorCore_batchByType vt t p l (sc, w) = (sc', w')"
  shows "mSensorData sc' = mSensorData sc" "mDevice sc' = mDevice sc" "SensorCore_inv sc'"
    and "mSamplingPeriods sc' = sm_put t p (mSamplingPeriods sc)" "mIsEnabled sc' = mIsEnabled sc"
    and "sm_find t' (mEnableState sc') = Some True \<longleftrightarrow> sm_find t' (mEnableState sc) = Some True"
proof -
  let ?sc = "sc\<lparr>mSamplingPeriods := sm_put t p (mSamplingPeriods sc)\<rparr>"
  have ok: "sm_ok (mSamplingPeriods ?sc)" and inv: "SensorCore_inv ?sc"
    using assms(1) by (simp_all add: SensorCore_inv_def wanted_def)
  have "SensorCore_updateSamplingRate vt (?sc, w) = (sc', w')"
    using assms(2) by (simp add: SensorCore_batchByType_def)
  note spec = updateSamplingRate_spec [OF this ok]
  show "mSensorData sc' = mSensorData sc" "mDevice sc' = mDevice sc" "SensorCore_inv sc'"
    "mSamplingPeriods sc' = sm_put t p (mSamplingPeriods sc)" "mIsEnabled sc' = mIsEnabled sc"
    "sm_find t' (mEnableState sc') = Some True \<longleftrightarrow> sm_find t' (mEnableState sc) = Some True"
    using spec(2-5,9) spec(6) [of t'] inv by simp_all
qed

interpretation core_hal: sensor_hal "SensorCore_activate vt" "SensorCore_batch vt"
  "\<lambda>s. mSensorData (fst s)" core_on "\<lambda>s. SensorCore_inv (fst s)" for vt :: "'w sensor_vtable"
proof unfold_locales
  fix s :: "SensorCore \<times> 'w" and e p l
  assume inv: "SensorCore_inv (fst s)"
  obtain sc w where s: "s = (sc, w)" by fastforce
  obtain sc1 w1 where 1: "SensorCore_activateByType vt (sd_type (mSensorData sc)) e (sc, w) = (sc1, w1)"
    by fastforce
  obtain sc2 w2 where 2: "SensorCore_batchByType vt (sd_type (mSensorData sc)) p l (sc, w) = (sc2, w2)"
    by fastforce
  have a: "SensorCore_activate vt e (sc, w) = (sc1, w1)"
    and b: "SensorCore_batch vt p l (sc, w) = (sc2, w2)"
    using 1 2 by (simp_all add: SensorCore_activate_def SensorCore_batch_def)
  have inv': "SensorCore_inv sc" using inv s by simp
  note f = activateByType_facts [OF inv' 1] and g = batchByType_facts [OF inv' 2]
  show "mSensorData (fst (SensorCore_activate vt e s)) = mSensorData (fst s)"
    "mSensorData (fst (SensorCore_batch vt p l s)) = mSensorData (fst s)"
    "core_on (SensorCore_activate vt e s) = e"
    "core_on (SensorCore_batch vt p l s) = core_on s"
    "SensorCore_inv (fst (SensorCore_activate vt e s))" "SensorCore_inv (fst (SensorCore_batch vt p l s))"
    using f(1,3) f(5) [of "sd_type (mSensorData sc)"] g(1,3) g(6) [of "sd_type (mSensorData sc)"]
    by (simp_all add: a b s core_on_def)
qed

text \<open>a \<^verbatim>\<open>SensorCore\<close> driven through \<^verbatim>\<open>ISensorHal\<close> never changes its
  \<^verbatim>\<open>SensorData\<close>, whatever the virtual methods do.\<close>

theorem SensorCore_data_constant:
  "mSensorData (fst (fold (hal_cmd_step (SensorCore_activate vt) (SensorCore_batch vt)) cs
     (SensorCore_new sd, w))) = sd"
  by (subst core_hal.run_data)
     (simp_all add: SensorCore_new_def SensorCore_init_def SensorCore_inv_def wanted_def)

text \<open>a reading has the data of the sysfs files, scaled by the resolution and stamped with
  the time of the call, when every raw file of the sensor holds a number.\<close>

theorem SensorCore_reads_files:
  assumes "list_all2 (\<lambda>f v. holds_int fs (device @ f) v)
             (takeWhile (\<lambda>f. f \<noteq> []) (sd_sysfsRaw sd)) vs"
  shows "SensorCore_readSensorValues fo fs now (SensorCore_setDevice fs device (SensorCore_new sd)) =
           Inr [\<lparr>sv_timestamp = now, sv_data = map (\<lambda>v. fp32 fo (fp32 fo (of_int v) * sd_resolution sd)) vs\<rparr>]"
  using RawSysfsHandler_read_values [OF assms]
  by (simp add: SensorCore_readSensorValues_def SensorCore_readPollingData_def SensorCore_setDevice_def
      SensorCore_new_def SensorCore_init_def RawSysfsHandler_init_eq)

theorem SensorCore_reads_files_witness:
  "SensorCore_readSensorValues \<lparr>fp32 = id, fp64 = id\<rparr> example_fs 77
     (SensorCore_setDevice example_fs ''/d/''
        (SensorCore_new (SensorData_init\<lparr>sd_sysfsRaw := [''x'', ''y'', ''''], sd_resolution := 3\<rparr>))) =
   Inr [\<lparr>sv_timestamp = 77, sv_data = [-2943, 36]\<rparr>]"
  by (subst SensorCore_reads_files [of example_fs "''/d/''" _ "[-981, 12]"])
     (simp_all add: holds_int_example)

end
