(* ===== verification/Smi_Devices.thy ===== *)
theory Smi_Devices
  imports Sensor_Core
begin

text \<open>
  The drivers of the three inertial units, \<^verbatim>\<open>sensors/sensors/SMI230.{h,cpp}\<close>,
  \<^verbatim>\<open>SMI240.{h,cpp}\<close> and \<^verbatim>\<open>SMI330.{h,cpp}\<close>: the description every constructor sets,
  and the overriders of \<^verbatim>\<open>setPowerMode\<close> and \<^verbatim>\<open>setSamplingRate\<close>, which write to sysfs. The
  function-local static \<^verbatim>\<open>Smi330Imu\<close> is part of the world (\<open>hal_world\<close>), next to the
  file system. Floating-point constants keep their roundings, through \<open>float_ops\<close>.
\<close>

section \<open>The world\<close>

datatype imu_index = IMU_ACCEL | IMU_GYRO

record Smi330Imu =
  imu_mIsEnabled :: "imu_index \<Rightarrow> bool"
  imu_mSamplingPeriodNs :: "imu_index \<Rightarrow> int"

record hal_world =
  hw_fs :: sysfs
  hw_imu :: Smi330Imu
  hw_slept_us :: int

definition hw_write :: "string \<Rightarrow> string \<Rightarrow> string \<Rightarrow> hal_world \<Rightarrow> hal_world" where
  "hw_write path file content w = w\<lparr>hw_fs := WriteHandler path file content (hw_fs w)\<rparr>"

definition usleep :: "int \<Rightarrow> hal_world \<Rightarrow> hal_world" where
  "usleep us w = w\<lparr>hw_slept_us := hw_slept_us w + us\<rparr>"

section \<open>\<^verbatim>\<open>Smi330Imu\<close>\<close>

definition mMinSamplingRateNs :: int where "mMinSamplingRateNs = 2500000"
definition mMaxSamplingRateNs :: int where "mMaxSamplingRateNs = 1280000000"
definition imu_mSysfsOdr :: string where "imu_mSysfsOdr = ''in_sampling_frequency''"

fun imu_mSysfsPowerMode :: "imu_index \<Rightarrow> string" where
  "imu_mSysfsPowerMode IMU_ACCEL = ''in_accel_en''"
| "imu_mSysfsPowerMode IMU_GYRO = ''in_anglvel_en''"

definition Smi330Imu_init :: Smi330Imu where
  "Smi330Imu_init =
     \<lparr>imu_mIsEnabled = (\<lambda>_. False), imu_mSamplingPeriodNs = (\<lambda>_. mMaxSamplingRateNs)\<rparr>"

text \<open>\<^verbatim>\<open>1e9 / samplingRate\<close> is a \<^verbatim>\<open>double\<close> quotient that is truncated on assignment to
  \<^verbatim>\<open>int64_t\<close>; for the rates of the loop this is the integer quotient.\<close>

function imu_odr_loop :: "int \<Rightarrow> int \<Rightarrow> int \<Rightarrow> int" where
  "imu_odr_loop samplingPeriodNs samplingRate odr =
     (if samplingRate \<ge> mMinSamplingRateNs
      then (if samplingPeriodNs \<ge> samplingRate then 1000000000 div samplingRate
            else imu_odr_loop samplingPeriodNs (samplingRate div 2) odr)
      else odr)"
  by pat_completeness auto
termination
  by (relation "measure (\<lambda>(_, r, _). nat r)") (auto simp: mMinSamplingRateNs_def)

declare imu_odr_loop.simps [simp del]

definition imu_odr :: "int \<Rightarrow> int" where
  "imu_odr samplingPeriodNs =
     imu_odr_loop samplingPeriodNs mMaxSamplingRateNs (1000000000 div mMaxSamplingRateNs)"

definition imu_updateSamplingRate :: "string \<Rightarrow> hal_world \<Rightarrow> hal_world" where
  "imu_updateSamplingRate device w =
     (let imu = hw_imu w;
          en = imu_mIsEnabled imu;
          period = imu_mSamplingPeriodNs imu;
          choice = (if en IMU_ACCEL \<and> en IMU_GYRO then Some (min (period IMU_ACCEL) (period IMU_GYRO))
                    else if en IMU_ACCEL then Some (period IMU_ACCEL)
                    else if en IMU_GYRO then Some (period IMU_GYRO)
                    else None)
      in case choice of
           None \<Rightarrow> w
         | Some samplingPeriodNs \<Rightarrow>
             hw_write device imu_mSysfsOdr (to_string (imu_odr samplingPeriodNs)) w)"

definition imu_setPowerMode :: "imu_index \<Rightarrow> bool \<Rightarrow> string \<Rightarrow> hal_world \<Rightarrow> hal_world" where
  "imu_setPowerMode idx enable device w =
     (let w1 = w\<lparr>hw_imu := hw_imu w\<lparr>imu_mIsEnabled := (imu_mIsEnabled (hw_imu w))(idx := enable)\<rparr>\<rparr>;
          w2 = imu_updateSamplingRate device w1;
          w3 = hw_write device (imu_mSysfsPowerMode idx) (if enable then ''3'' else ''0'') w2
      in usleep 200000 w3)"

definition imu_setSamplingRate :: "imu_index \<Rightarrow> int \<Rightarrow> string \<Rightarrow> hal_world \<Rightarrow> hal_world" where
  "imu_setSamplingRate idx samplingPeriodNs device w =
     imu_updateSamplingRate device
       (w\<lparr>hw_imu := hw_imu w\<lparr>imu_mSamplingPeriodNs := (imu_mSamplingPeriodNs (hw_imu w))(idx := samplingPeriodNs)\<rparr>\<rparr>)"

section \<open>The overriders\<close>

definition Smi330Acc_vtable :: "hal_world sensor_vtable" where
  "Smi330Acc_vtable =
     \<lparr>vt_setPowerMode = (\<lambda>device enable. imu_setPowerMode IMU_ACCEL enable device),
      vt_setSamplingRate = (\<lambda>device p. imu_setSamplingRate IMU_ACCEL p device)\<rparr>"

definition Smi330Gyro_setScale :: "string \<Rightarrow> hal_world \<Rightarrow> hal_world" where
  "Smi330Gyro_setScale device = hw_write device ''in_anglvel_scale'' ''0.007629395''"

definition Smi330Gyro_vtable :: "hal_world sensor_vtable" where
  "Smi330Gyro_vtable =
     \<lparr>vt_setPowerMode = (\<lambda>device enable w.
        imu_setPowerMode IMU_GYRO enable device (if enable then Smi330Gyro_setScale device w else w)),
      vt_setSamplingRate = (\<lambda>device p. imu_setSamplingRate IMU_GYRO p device)\<rparr>"

definition Smi230Acc_setPowerMode :: "string \<Rightarrow> bool \<Rightarrow> hal_world \<Rightarrow> hal_world" where
  "Smi230Acc_setPowerMode device enable w =
     usleep 200000
       (hw_write device ''pwr'' (if enable then ''normal'' else ''suspend'')
         (hw_write device ''odr'' ''200Hz'' w))"

definition Smi230Gyro_setPowerMode :: "string \<Rightarrow> bool \<Rightarrow> hal_world \<Rightarrow> hal_world" where
  "Smi230Gyro_setPowerMode device enable w =
     usleep 200000
       (hw_write device ''pwr'' (if enable then ''normal'' else ''suspend'')
         (hw_write device ''bw_odr'' ''bw64_odr200'' w))"

definition Smi230Acc_vtable :: "hal_world sensor_vtable" where
  "Smi230Acc_vtable = SensorCore_vtable\<lparr>vt_setPowerMode := Smi230Acc_setPowerMode\<rparr>"

definition Smi230Gyro_vtable :: "hal_world sensor_vtable" where
  "Smi230Gyro_vtable = SensorCore_vtable\<lparr>vt_setPowerMode := Smi230Gyro_setPowerMode\<rparr>"

section \<open>The constructors\<close>

definition gravityToAcceleration :: "float_ops \<Rightarrow> real \<Rightarrow> real" where
  "gravityToAcceleration fo gravity = fp32 fo (gravity * fp32 fo 9.80665)"

definition M_PI :: real where "M_PI = 3.14159265358979323846"

definition degreeToRad :: "float_ops \<Rightarrow> real \<Rightarrow> real" where
  "degreeToRad fo degree = fp32 fo (fp64 fo (fp64 fo (degree * fp64 fo M_PI) / 180))"

definition Smi330Acc :: "float_ops \<Rightarrow> SensorData" where
  "Smi330Acc fo = SensorData_init
     \<lparr>sd_driverName := ''smi330'', sd_sensorName := ''SMI330 BOSCH Accelerometer Sensor'',
      sd_sysfsRaw := [''in_accel_x_raw'', ''in_accel_y_raw'', ''in_accel_z_raw''],
      sd_temperatureSysfsRaw := ''in_temp_object_raw'', sd_type := ACCEL,
      sd_minDelayUs := 5000, sd_maxDelayUs := 1280000, sd_power := fp32 fo 0.4,
      sd_range := gravityToAcceleration fo 8,
      sd_resolution := gravityToAcceleration fo (fp32 fo (1 / 4096)),
      sd_temperatureScale := fp32 fo (1 / 512), sd_temperatureOffset := fp32 fo (23 * 512),
      sd_reportMode := CONTINUOUS\<rparr>"

definition Smi330AccUncalibrated :: "float_ops \<Rightarrow> SensorData" where
  "Smi330AccUncalibrated fo = (Smi330Acc fo)
     \<lparr>sd_sensorName := ''SMI330 BOSCH Accelerometer Uncalibrated Sensor'', sd_type := ACCEL_UNCALIBRATED\<rparr>"

definition Smi330Gyro :: "float_ops \<Rightarrow> SensorData" where
  "Smi330Gyro fo = SensorData_init
     \<lparr>sd_driverName := ''smi330'', sd_sensorName := ''SMI330 BOSCH Gyroscope Sensor'',
      sd_sysfsRaw := [''in_anglvel_x_raw'', ''in_anglvel_y_raw'', ''in_anglvel_z_raw''],
      sd_temperatureSysfsRaw := ''in_temp_object_raw'', sd_type := GYRO,
      sd_minDelayUs := 5000, sd_maxDelayUs := 1280000, sd_power := fp32 fo 0.4,
      sd_range := degreeToRad fo 250,
      sd_resolution := degreeToRad fo (fp32 fo (1 / fp32 fo 131.072)),
      sd_temperatureScale := fp32 fo (1 / 512), sd_temperatureOffset := fp32 fo (23 * 512),
      sd_reportMode := CONTINUOUS\<rparr>"

definition Smi330GyroUncalibrated :: "float_ops \<Rightarrow> SensorData" where
  "Smi330GyroUncalibrated fo = (Smi330Gyro fo)
     \<lparr>sd_sensorName := ''SMI330 BOSCH Gyroscope Uncalibrated Sensor'', sd_type := GYRO_UNCALIBRATED\<rparr>"

definition Smi240Acc :: "float_ops \<Rightarrow> SensorData" where
  "Smi240Acc fo = SensorData_init
     \<lparr>sd_driverName := ''smi240'', sd_sensorName := ''SMI240 BOSCH Accelerometer Sensor'',
      sd_sysfsRaw := [''in_accel_x_raw'', ''in_accel_y_raw'', ''in_accel_z_raw''],
      sd_temperatureSysfsRaw := ''in_temp_object_raw'', sd_type := ACCEL,
      sd_minDelayUs := 5000, sd_maxDelayUs := 2000000, sd_power := fp32 fo 5,
      sd_range := gravityToAcceleration fo 16,
      sd_resolution := gravityToAcceleration fo (fp32 fo (1 / 2000)),
      sd_temperatureScale := fp32 fo (1 / 256), sd_temperatureOffset := fp32 fo (25 * 256),
      sd_reportMode := CONTINUOUS\<rparr>"

definition Smi240AccUncalibrated :: "float_ops \<Rightarrow> SensorData" where
  "Smi240AccUncalibrated fo = (Smi240Acc fo)
     \<lparr>sd_sensorName := ''SMI240 BOSCH Accelerometer Uncalibrated Sensor'', sd_type := ACCEL_UNCALIBRATED\<rparr>"

definition Smi240Gyro :: "float_ops \<Rightarrow> SensorData" where
  "Smi240Gyro fo = SensorData_init
     \<lparr>sd_driverName := ''smi240'', sd_sensorName := ''SMI240 BOSCH Gyroscope Sensor'',
      sd_sysfsRaw := [''in_anglvel_x_raw'', ''in_anglvel_y_raw'', ''in_anglvel_z_raw''],
      sd_temperatureSysfsRaw := ''in_temp_object_raw'', sd_type := GYRO,
      sd_minDelayUs := 5000, sd_maxDelayUs := 2000000, sd_power := fp32 fo 5,
      sd_range := degreeToRad fo 300,
      sd_resolution := degreeToRad fo (fp32 fo (1 / 100)),
      sd_temperatureScale := fp32 fo (1 / 256), sd_temperatureOffset := fp32 fo (25 * 256),
      sd_reportMode := CONTINUOUS\<rparr>"

definition Smi240GyroUncalibrated :: "float_ops \<Rightarrow> SensorData" where
  "Smi240GyroUncalibrated fo = (Smi240Gyro fo)
     \<lparr>sd_sensorName := ''SMI240 BOSCH Gyroscope Uncalibrated Sensor'', sd_type := GYRO_UNCALIBRATED\<rparr>"

definition Smi230Acc :: "float_ops \<Rightarrow> SensorData" where
  "Smi230Acc fo = SensorData_init
     \<lparr>sd_driverName := ''smi230acc'', sd_sensorName := ''SMI230 BOSCH Accelerometer Sensor'',
      sd_sysfsRaw := [''in_accel_x_raw'', ''in_accel_y_raw'', ''in_accel_z_raw''],
      sd_temperatureSysfsRaw := ''in_temp_object_raw'', sd_type := ACCEL,
      sd_minDelayUs := 10000, sd_maxDelayUs := 2000000, sd_power := fp32 fo 0.2,
      sd_range := gravityToAcceleration fo 4,
      sd_resolution := gravityToAcceleration fo (fp32 fo (1 / 8192)),
      sd_temperatureScale := fp32 fo 0.001, sd_temperatureOffset := 0,
      sd_reportMode := CONTINUOUS\<rparr>"

definition Smi230AccUncalibrated :: "float_ops \<Rightarrow> SensorData" where
  "Smi230AccUncalibrated fo = (Smi230Acc fo)
     \<lparr>sd_sensorName := ''SMI230 BOSCH Accelerometer Uncalibrated Sensor'', sd_type := ACCEL_UNCALIBRATED\<rparr>"

definition Smi230Gyro :: "float_ops \<Rightarrow> SensorData" where
  "Smi230Gyro fo = SensorData_init
     \<lparr>sd_driverName := ''smi230gyro'', sd_sensorName := ''SMI230 BOSCH Gyroscope Sensor'',
      sd_sysfsRaw := [''in_anglvel_x_raw'', ''in_anglvel_y_raw'', ''in_anglvel_z_raw''],
      sd_type := GYRO, sd_minDelayUs := 10000, sd_maxDelayUs := 2000000, sd_power := fp32 fo 5,
      sd_range := degreeToRad fo 2000,
      sd_resolution := degreeToRad fo (fp32 fo (1 / fp32 fo 16.38)),
      sd_reportMode := CONTINUOUS\<rparr>"

definition Smi230GyroUncalibrated :: "float_ops \<Rightarrow> SensorData" where
  "Smi230GyroUncalibrated fo = (Smi230Gyro fo)
     \<lparr>sd_sensorName := ''SMI230 BOSCH Gyroscope Uncalibrated Sensor'', sd_type := GYRO_UNCALIBRATED\<rparr>"

section \<open>Properties\<close>

subsection \<open>The output data rate of the SMI330\<close>

text \<open>The rates the loop tries, slowest first.\<close>

definition imu_rates :: "int list" where
  "imu_rates = [1280000000, 640000000, 320000000, 160000000, 80000000, 40000000, 20000000,
                10000000, 5000000, 2500000]"

lemma imu_odr_find:
  "imu_odr p = (case List.find (\<lambda>r. r \<le> p) imu_rates of Some r \<Rightarrow> 1000000000 div r | None \<Rightarrow> 0)"
  by (simp add: imu_odr_def imu_odr_loop.simps imu_rates_def mMinSamplingRateNs_def mMaxSamplingRateNs_def)



text \<open>outside that range, and also at the slowest period the sensors advertise
  (1.28 s, the period \<^verbatim>\<open>SensorCore\<close> falls back to), the frequency that is written is 0.\<close>

theorem imu_odr_zero: "imu_odr p = 0 \<longleftrightarrow> p < 2500000 \<or> 1280000000 \<le> p"
  by (auto simp: imu_odr_find imu_rates_def)

subsection \<open>The shared rate follows the faster half\<close>

datatype imu_op = Imu_power imu_index bool | Imu_rate imu_index int

fun imu_step :: "string \<Rightarrow> imu_op \<Rightarrow> hal_world \<Rightarrow> hal_world" where
  "imu_step device (Imu_power i e) w = imu_setPowerMode i e device w"
| "imu_step device (Imu_rate i p) w = imu_setSamplingRate i p device w"

fun imu_asked_on :: "imu_index \<Rightarrow> bool \<Rightarrow> imu_op list \<Rightarrow> bool" where
  "imu_asked_on i b [] = b"
| "imu_asked_on i b (Imu_power j e # ops) = imu_asked_on i (if i = j then e else b) ops"
| "imu_asked_on i b (Imu_rate j p # ops) = imu_asked_on i b ops"

fun imu_asked_period :: "imu_index \<Rightarrow> int \<Rightarrow> imu_op list \<Rightarrow> int" where
  "imu_asked_period i q [] = q"
| "imu_asked_period i q (Imu_power j e # ops) = imu_asked_period i q ops"
| "imu_asked_period i q (Imu_rate j p # ops) = imu_asked_period i (if i = j then p else q) ops"

text \<open>The file holds the rate for the fastest enabled half, and each power file of an enabled
  half says so.\<close>

definition imu_fastest :: "Smi330Imu \<Rightarrow> int" where
  "imu_fastest imu = Min (imu_mSamplingPeriodNs imu ` {i. imu_mIsEnabled imu i})"

definition imu_inv :: "string \<Rightarrow> hal_world \<Rightarrow> bool" where
  "imu_inv device w \<longleftrightarrow>
     (\<forall>p. fs_writable (hw_fs w) p)
     \<and> (\<forall>i. imu_mIsEnabled (hw_imu w) i \<longrightarrow>
          fs_files (hw_fs w) (device @ imu_mSysfsOdr) = Some (to_string (imu_odr (imu_fastest (hw_imu w))))
          \<and> fs_files (hw_fs w) (device @ imu_mSysfsPowerMode i) = Some ''3'')"

lemma imu_index_Collect:
  "{i. en i} = (if en IMU_ACCEL then {IMU_ACCEL} else {}) \<union> (if en IMU_GYRO then {IMU_GYRO} else {})"
proof (rule set_eqI)
  fix i
  show "i \<in> {i. en i} \<longleftrightarrow>
    i \<in> (if en IMU_ACCEL then {IMU_ACCEL} else {}) \<union> (if en IMU_GYRO then {IMU_GYRO} else {})"
    by (cases i) simp_all
qed

lemma imu_all: "(\<forall>i. P i) \<longleftrightarrow> P IMU_ACCEL \<and> P IMU_GYRO"
  by (metis imu_index.exhaust)

lemma imu_ex: "(\<exists>i. P i) \<longleftrightarrow> P IMU_ACCEL \<or> P IMU_GYRO"
  by (metis imu_index.exhaust)

lemma hw_write_simps [simp]:
  "hw_imu (hw_write d f c w) = hw_imu w"
  "fs_writable (hw_fs (hw_write d f c w)) = fs_writable (hw_fs w)"
  "fs_writable (hw_fs w) (d @ f) \<Longrightarrow>
   fs_files (hw_fs (hw_write d f c w)) = (fs_files (hw_fs w))(d @ f \<mapsto> c)"
  by (simp_all add: hw_write_def WriteHandler_def WriteHandler_write_def)

lemma usleep_simps [simp]: "hw_imu (usleep us w) = hw_imu w" "hw_fs (usleep us w) = hw_fs w"
  by (simp_all add: usleep_def)

lemma imu_paths [simp]:
  "imu_mSysfsPowerMode i \<noteq> imu_mSysfsOdr" "imu_mSysfsOdr \<noteq> imu_mSysfsPowerMode i"
  "imu_mSysfsPowerMode i = imu_mSysfsPowerMode j \<longleftrightarrow> i = j"
  by (cases i; cases j; simp add: imu_mSysfsOdr_def)+

lemma imu_updateSamplingRate_eq:
  "imu_updateSamplingRate device w =
     (if \<exists>i. imu_mIsEnabled (hw_imu w) i
      then hw_write device imu_mSysfsOdr (to_string (imu_odr (imu_fastest (hw_imu w)))) w
      else w)"
  by (auto simp: imu_updateSamplingRate_def imu_fastest_def imu_index_Collect imu_ex Let_def
      min.commute)

lemma imu_step_inv:
  assumes "imu_inv device w"
  shows "imu_inv device (imu_step device op w)"
proof (cases op)
  case (Imu_power j e)
  show ?thesis
    using assms unfolding Imu_power imu_step.simps imu_setPowerMode_def Let_def imu_updateSamplingRate_eq
    by (auto simp: imu_inv_def split: if_splits)
next
  case (Imu_rate j p)
  show ?thesis
    using assms unfolding Imu_rate imu_step.simps imu_setSamplingRate_def imu_updateSamplingRate_eq
    by (auto simp: imu_inv_def)
qed

lemma imu_updateSamplingRate_imu [simp]: "hw_imu (imu_updateSamplingRate device w) = hw_imu w"
  by (simp add: imu_updateSamplingRate_eq)

lemma imu_step_asked:
  "imu_mIsEnabled (hw_imu (fold (imu_step device) ops w)) i
     = imu_asked_on i (imu_mIsEnabled (hw_imu w) i) ops
   \<and> imu_mSamplingPeriodNs (hw_imu (fold (imu_step device) ops w)) i
     = imu_asked_period i (imu_mSamplingPeriodNs (hw_imu w) i) ops"
proof (induction ops arbitrary: w)
  case (Cons op ops)
  show ?case
    by (cases op) (auto simp: Cons imu_setPowerMode_def imu_setSamplingRate_def Let_def)
qed simp

lemma imu_fold_inv: "imu_inv device w \<Longrightarrow> imu_inv device (fold (imu_step device) ops w)"
  by (induction ops arbitrary: w) (auto simp: imu_step_inv)

text \<open>C31: whatever power and rate requests the two halves of an SMI330 have made, the sampling
  frequency in sysfs is the one for the smallest last requested period among the halves
  that are on, and the power file of each half that is on says so.\<close>

theorem imu_rate_follows_fastest_half:
  assumes "hw_imu w = Smi330Imu_init" "\<forall>p. fs_writable (hw_fs w) p" "imu_asked_on i False ops"
  shows "let fs = fs_files (hw_fs (fold (imu_step device) ops w)) in
           fs (device @ ''in_sampling_frequency'') =
             Some (to_string (imu_odr (Min {imu_asked_period j 1280000000 ops | j. imu_asked_on j False ops})))
           \<and> fs (device @ imu_mSysfsPowerMode i) = Some ''3''"
proof -
  let ?w = "fold (imu_step device) ops w"
  have "imu_inv device w" using assms(1,2) by (simp add: imu_inv_def Smi330Imu_init_def)
  then have inv: "imu_inv device ?w" by (rule imu_fold_inv)
  have on: "imu_mIsEnabled (hw_imu ?w) j = imu_asked_on j False ops"
    and pd: "imu_mSamplingPeriodNs (hw_imu ?w) j = imu_asked_period j 1280000000 ops" for j
    using imu_step_asked [of device ops w j]
    by (simp_all add: assms(1) Smi330Imu_init_def mMaxSamplingRateNs_def)
  have "imu_fastest (hw_imu ?w) = Min {imu_asked_period j 1280000000 ops | j. imu_asked_on j False ops}"
    by (simp add: imu_fastest_def on pd image_Collect)
  with inv assms(3) on show ?thesis by (simp add: imu_inv_def imu_mSysfsOdr_def Let_def)
qed

lemma imu_Setcompr: "{f j | j. P j} = f ` {j. P (j::imu_index)}"
  by auto

definition example_world :: hal_world where
  "example_world = \<lparr>hw_fs = example_fs, hw_imu = Smi330Imu_init, hw_slept_us = 0\<rparr>"

theorem imu_rate_follows_fastest_half_witness:
  "fs_files (hw_fs (fold (imu_step ''/d/'')
      [Imu_power IMU_ACCEL True, Imu_rate IMU_ACCEL 20000000, Imu_rate IMU_GYRO 5000000] example_world))
     ''/d/in_sampling_frequency'' = Some ''50''"
proof -
  have "to_string 50 = ''50''"
    by (simp add: to_string_def nat_to_string.simps digit_char_def)
  moreover have "hw_imu example_world = Smi330Imu_init" "\<forall>p. fs_writable (hw_fs example_world) p"
    by (simp_all add: example_world_def example_fs_def)
  ultimately show ?thesis
    using imu_rate_follows_fastest_half [of example_world IMU_ACCEL
        "[Imu_power IMU_ACCEL True, Imu_rate IMU_ACCEL 20000000, Imu_rate IMU_GYRO 5000000]" "''/d/''"]
    by (simp add: imu_Setcompr imu_index_Collect imu_odr_find imu_rates_def Let_def)
qed

subsection \<open>Two objects, one device\<close>

text \<open>
  The list of sensors holds a calibrated and an uncalibrated object per physical sensor; each has
  its own \<open>mEnableState\<close>, and both write to the same files.
\<close>

lemma activate_own_step:
  assumes "SensorCore_inv sc" "\<forall>t. sm_find t (mEnableState sc) \<noteq> Some True"
    and "SensorCore_activate vt True (sc, w) = (sc', w')"
  shows "SensorCore_inv sc'" "mIsEnabled sc'" "mDevice sc' = mDevice sc"
    and "\<forall>t. sm_find t (mEnableState sc') = Some True \<longleftrightarrow> t = sd_type (mSensorData sc')"
    and "mSensorData sc' = mSensorData sc"
proof -
  have a: "SensorCore_activateByType vt (sd_type (mSensorData sc)) True (sc, w) = (sc', w')"
    using assms(3) by (simp add: SensorCore_activate_def)
  note f = activateByType_facts [OF assms(1) a]
  show "SensorCore_inv sc'" "mDevice sc' = mDevice sc" "mSensorData sc' = mSensorData sc" using f by auto
  show t: "\<forall>t. sm_find t (mEnableState sc') = Some True \<longleftrightarrow> t = sd_type (mSensorData sc')"
    using f(5) f(1) assms(2) by auto
  show "mIsEnabled sc'" using f(3) t by (auto simp: SensorCore_inv_def wanted_def)
qed

lemma deactivate_own_step:
  assumes "SensorCore_inv sc" "\<forall>t. sm_find t (mEnableState sc) = Some True \<longleftrightarrow> t = sd_type (mSensorData sc)"
  shows "snd (SensorCore_activate vt False (sc, w)) =
           vt_setSamplingRate vt (mDevice sc) (i32 (sd_maxDelayUs (mSensorData sc) * 1000))
             (vt_setPowerMode vt (mDevice sc) False w)"
proof -
  let ?sc = "set_enable (sd_type (mSensorData sc)) False sc"
  have w: "wanted sc" "\<not> wanted ?sc" using assms(2) by (auto simp: wanted_def)
  have "enabled_periods ?sc = {}" using assms(2) by (auto simp: enabled_periods_def)
  then have p: "wanted_period ?sc = i32 (sd_maxDelayUs (mSensorData sc) * 1000)"
    by (simp add: wanted_period_def)
  have ok: "sm_ok (mSamplingPeriods ?sc)" using assms(1) by (simp add: SensorCore_inv_def)
  obtain sc' w' where u: "SensorCore_updateSamplingRate vt
      (?sc, vt_setPowerMode vt (mDevice sc) False w) = (sc', w')" by fastforce
  show ?thesis
    using updateSamplingRate_spec(1) [OF u ok] u w
    by (simp add: SensorCore_activate_def activateByType_eq [OF assms(1)] p)
qed

lemma fs_writable_setPowerMode [simp]:
  "fs_writable (hw_fs (Smi230Acc_setPowerMode d e w)) = fs_writable (hw_fs w)"
  by (simp add: Smi230Acc_setPowerMode_def)

lemma snd_activate_writable:
  assumes "SensorCore_inv sc" "SensorCore_activate Smi230Acc_vtable e (sc, w) = (sc', w')"
  shows "fs_writable (hw_fs w') = fs_writable (hw_fs w)"
proof -
  let ?t = "sd_type (mSensorData sc)"
  have ok: "sm_ok (mSamplingPeriods (set_enable ?t e sc))" using assms(1) by (simp add: SensorCore_inv_def)
  consider "w' = w" | w1 where "SensorCore_updateSamplingRate Smi230Acc_vtable (set_enable ?t e sc, w1) = (sc', w')"
      "w1 = Smi230Acc_setPowerMode (mDevice sc) (wanted (set_enable ?t e sc)) w"
    using assms(2) by (auto simp: SensorCore_activate_def activateByType_eq [OF assms(1)] Smi230Acc_vtable_def
        split: if_splits)
  then show ?thesis
  proof cases
    case 2
    show ?thesis
      using updateSamplingRate_spec(1) [OF 2(1) ok] 2(2)
      by (simp add: Smi230Acc_vtable_def SensorCore_vtable_def)
  qed simp
qed

lemma new_core:
  "SensorCore_inv (SensorCore_setDevice fs d (SensorCore_new sd))"
  "sm_find t (mEnableState (SensorCore_setDevice fs d (SensorCore_new sd))) \<noteq> Some True"
  "mDevice (SensorCore_setDevice fs d (SensorCore_new sd)) = d"
  by (simp_all add: SensorCore_setDevice_def SensorCore_new_def SensorCore_init_def SensorCore_inv_def
      wanted_def)

text \<open>with the SMI230 accelerometer on through both its calibrated and its uncalibrated object,
  switching the uncalibrated one off suspends the device while the calibrated object still
  counts itself enabled.\<close>

theorem Smi230_uncalibrated_suspends_calibrated:
  assumes "\<forall>p. fs_writable (hw_fs w) p"
  shows "let core = (\<lambda>sd. SensorCore_setDevice (hw_fs w) device (SensorCore_new sd));
             (a, w1) = SensorCore_activate Smi230Acc_vtable True (core (Smi230Acc fo), w);
             (b, w2) = SensorCore_activate Smi230Acc_vtable True (core (Smi230AccUncalibrated fo), w1);
             w3 = snd (SensorCore_activate Smi230Acc_vtable False (b, w2))
         in mIsEnabled a \<and> fs_files (hw_fs w3) (device @ ''pwr'') = Some ''suspend''"
proof -
  let ?core = "\<lambda>sd. SensorCore_setDevice (hw_fs w) device (SensorCore_new sd)"
  obtain a w1 where 1: "SensorCore_activate Smi230Acc_vtable True (?core (Smi230Acc fo), w) = (a, w1)"
    by fastforce
  obtain b w2 where 2: "SensorCore_activate Smi230Acc_vtable True
      (?core (Smi230AccUncalibrated fo), w1) = (b, w2)" by fastforce
  note A = activate_own_step [OF new_core(1) _ 1] and B = activate_own_step [OF new_core(1) _ 2]
  have "\<forall>p. fs_writable (hw_fs w2) p"
    using assms snd_activate_writable [OF new_core(1) 1] snd_activate_writable [OF new_core(1) 2] by simp
  then have "fs_files (hw_fs (snd (SensorCore_activate Smi230Acc_vtable False (b, w2)))) (device @ ''pwr'')
      = Some ''suspend''"
    using B new_core(2)
    by (subst deactivate_own_step)
       (auto simp: Smi230Acc_vtable_def SensorCore_vtable_def Smi230Acc_setPowerMode_def new_core(3))
  then show ?thesis using A new_core(2) 1 2 by (simp add: Let_def)
qed

theorem Smi230_uncalibrated_suspends_calibrated_witness:
  "let core = (\<lambda>sd. SensorCore_setDevice (hw_fs example_world) ''/d/'' (SensorCore_new sd));
       (a, w1) = SensorCore_activate Smi230Acc_vtable True (core (Smi230Acc \<lparr>fp32 = id, fp64 = id\<rparr>), example_world);
       (b, w2) = SensorCore_activate Smi230Acc_vtable True
                   (core (Smi230AccUncalibrated \<lparr>fp32 = id, fp64 = id\<rparr>), w1);
       w3 = snd (SensorCore_activate Smi230Acc_vtable False (b, w2))
   in mIsEnabled a \<and> fs_files (hw_fs w3) (''/d/'' @ ''pwr'') = Some ''suspend''"
  by (rule Smi230_uncalibrated_suspends_calibrated) (simp add: example_world_def example_fs_def)

end
