(* ===== verification/Composite_Sensors.thy ===== *)
theory Composite_Sensors
  imports Smi_Devices
begin

text \<open>
  The part of \<^verbatim>\<open>sensors/core/CompositeSensors.{h,cpp}\<close> that drives the sensors a composite
  sensor depends on, the constructors of the six composite sensors, and
  \<^verbatim>\<open>sensors/sensors/SensorList.{h,cpp}\<close>, which builds all sensor objects and finds the
  available ones. The \<^verbatim>\<open>shared_ptr<SensorCore>\<close>s are indices into the list of core objects, so
  that a composite sensor and its parts act on the same objects. The attitude filter that
  computes the gravity vector is in the theory Fusion, on an extension of this record.
\<close>

section \<open>Shared objects\<close>

text \<open>The objects of class \<open>SensorCore\<close> by index, with the method table of each.\<close>

type_synonym 'w core_store = "SensorCore list \<times> 'w"

definition core_call ::
  "('w sensor_vtable \<Rightarrow> SensorCore \<times> 'w \<Rightarrow> SensorCore \<times> 'w) \<Rightarrow> 'w sensor_vtable list \<Rightarrow> nat
     \<Rightarrow> 'w core_store \<Rightarrow> 'w core_store" where
  "core_call method vts i s =
     (case s of (cores, w) \<Rightarrow>
        (case method (vts ! i) (cores ! i, w) of (sc, w') \<Rightarrow> (cores[i := sc], w')))"

section \<open>\<^verbatim>\<open>CompositeSensorCore\<close>\<close>

record CompositeSensorCore =
  cs_mSensorData :: SensorData
  cs_mDependencyList :: "nat list"
  cs_mGyroVar :: real
  cs_mJustStarted :: bool
  cs_mSamplingPeriodNs :: int

definition CompositeSensorCore_activate ::
  "'w sensor_vtable list \<Rightarrow> bool \<Rightarrow> 'z CompositeSensorCore_scheme \<times> 'w core_store
     \<Rightarrow> 'z CompositeSensorCore_scheme \<times> 'w core_store" where
  "CompositeSensorCore_activate vts enable s =
     (case s of (c, store) \<Rightarrow>
        (c\<lparr>cs_mJustStarted := True\<rparr>,
         fold (core_call (\<lambda>vt. SensorCore_activateByType vt (sd_type (cs_mSensorData c)) enable) vts)
           (cs_mDependencyList c) store))"

definition CompositeSensorCore_batch ::
  "'w sensor_vtable list \<Rightarrow> int \<Rightarrow> int \<Rightarrow> 'z CompositeSensorCore_scheme \<times> 'w core_store
     \<Rightarrow> 'z CompositeSensorCore_scheme \<times> 'w core_store" where
  "CompositeSensorCore_batch vts samplingPeriodNs maxReportLatencyNs s =
     (case s of (c, store) \<Rightarrow>
        (c\<lparr>cs_mSamplingPeriodNs := samplingPeriodNs\<rparr>,
         fold (core_call (\<lambda>vt. SensorCore_batchByType vt (sd_type (cs_mSensorData c))
                             samplingPeriodNs maxReportLatencyNs) vts)
           (cs_mDependencyList c) store))"

fun composite_temperature ::
  "float_ops \<Rightarrow> sysfs \<Rightarrow> SensorCore list \<Rightarrow> nat list \<Rightarrow> bool \<times> real option" where
  "composite_temperature fo fs cores [] = (False, None)"
| "composite_temperature fo fs cores (i # deps) =
     (case SensorCore_readSensorTemperature fo fs (cores ! i) of
        (ok, t) \<Rightarrow> if ok then (True, t) else composite_temperature fo fs cores deps)"

definition CompositeSensorCore_readSensorTemperature ::
  "float_ops \<Rightarrow> sysfs \<Rightarrow> 'z CompositeSensorCore_scheme \<Rightarrow> SensorCore list \<Rightarrow> bool \<times> real option" where
  "CompositeSensorCore_readSensorTemperature fo fs c cores =
     composite_temperature fo fs cores (cs_mDependencyList c)"

section \<open>\<^verbatim>\<open>ISensorHal\<close> for composite sensors\<close>

definition composite_inv :: "'z CompositeSensorCore_scheme \<times> 'w core_store \<Rightarrow> bool" where
  "composite_inv s \<longleftrightarrow>
     (case s of (c, cores, w) \<Rightarrow>
        cs_mDependencyList c \<noteq> [] \<and> distinct (cs_mDependencyList c)
        \<and> (\<forall>i\<in>set (cs_mDependencyList c). i < length cores \<and> SensorCore_inv (cores ! i)))"

text \<open>All the parts are on for the composite sensor's type.\<close>

definition type_on :: "BoschSensorType \<Rightarrow> SensorCore \<Rightarrow> bool" where
  "type_on t sc \<longleftrightarrow> sm_find t (mEnableState sc) = Some True"

definition composite_on :: "'z CompositeSensorCore_scheme \<times> 'w core_store \<Rightarrow> bool" where
  "composite_on s \<longleftrightarrow>
     (case s of (c, cores, w) \<Rightarrow>
        \<forall>i\<in>set (cs_mDependencyList c). type_on (sd_type (cs_mSensorData c)) (cores ! i))"

lemma core_call_length [simp]: "length (fst (core_call f vts i s)) = length (fst s)"
  by (simp add: core_call_def split: prod.splits)

lemma core_call_nth:
  "i < length (fst s) \<Longrightarrow>
   fst (core_call f vts i s) ! j = (if j = i then fst (f (vts ! i) (fst s ! i, snd s)) else fst s ! j)"
  by (auto simp: core_call_def nth_list_update split: prod.splits)

text \<open>A fold of calls reaches each part once: a relation between the part before and after that
  every call establishes, whatever the world is, holds for every part.\<close>

lemma fold_core_call:
  assumes "\<And>vt sc w. P sc \<Longrightarrow> Q sc (fst (f vt (sc, w)))"
    and "distinct is" "\<forall>i\<in>set is. i < length (fst s) \<and> P (fst s ! i)"
  shows "length (fst (fold (core_call f vts) is s)) = length (fst s)"
    and "\<forall>j. j \<notin> set is \<longrightarrow> fst (fold (core_call f vts) is s) ! j = fst s ! j"
    and "\<forall>i\<in>set is. Q (fst s ! i) (fst (fold (core_call f vts) is s) ! i)"
proof -
  have "length (fst (fold (core_call f vts) is s)) = length (fst s)
      \<and> (\<forall>j. j \<notin> set is \<longrightarrow> fst (fold (core_call f vts) is s) ! j = fst s ! j)
      \<and> (\<forall>i\<in>set is. Q (fst s ! i) (fst (fold (core_call f vts) is s) ! i))"
    using assms(2,3)
  proof (induction "is" arbitrary: s)
    case (Cons i "is")
    let ?s = "core_call f vts i s"
    have keep: "fst ?s ! j = fst s ! j" if "j \<noteq> i" for j
      using that Cons.prems by (simp add: core_call_nth)
    have at_i: "Q (fst s ! i) (fst ?s ! i)"
      using Cons.prems assms(1) by (simp add: core_call_nth)
    have "\<forall>j\<in>set is. j < length (fst ?s) \<and> P (fst ?s ! j)"
      using Cons.prems keep by (metis core_call_length distinct.simps(2) list.set_intros(2))
    then have ih: "length (fst (fold (core_call f vts) is ?s)) = length (fst ?s)
      \<and> (\<forall>j. j \<notin> set is \<longrightarrow> fst (fold (core_call f vts) is ?s) ! j = fst ?s ! j)
      \<and> (\<forall>i\<in>set is. Q (fst ?s ! i) (fst (fold (core_call f vts) is ?s) ! i))"
      using Cons.IH [of ?s] Cons.prems by simp
    have "i \<notin> set is" using Cons.prems by simp
    with ih keep at_i show ?case
      by (auto simp: fold_Cons) metis+
  qed simp
  then show "length (fst (fold (core_call f vts) is s)) = length (fst s)"
    "\<forall>j. j \<notin> set is \<longrightarrow> fst (fold (core_call f vts) is s) ! j = fst s ! j"
    "\<forall>i\<in>set is. Q (fst s ! i) (fst (fold (core_call f vts) is s) ! i)"
    by blast+
qed

lemma composite_activate_facts:
  fixes s :: "'z CompositeSensorCore_scheme \<times> 'w core_store"
  assumes "composite_inv s" "CompositeSensorCore_activate vts e s = s'"
  shows "cs_mSensorData (fst s') = cs_mSensorData (fst s)" "composite_inv s'" "composite_on s' = e"
    and "\<forall>j. j \<notin> set (cs_mDependencyList (fst s)) \<longrightarrow> fst (snd s') ! j = fst (snd s) ! j"
proof -
  obtain c cores w where s: "s = (c, cores, w)" by (metis prod_cases3)
  let ?t = "sd_type (cs_mSensorData c)" and ?deps = "cs_mDependencyList c"
  let ?f = "\<lambda>vt. SensorCore_activateByType vt ?t e"
  have step: "SensorCore_inv sc \<Longrightarrow> SensorCore_inv (fst (?f vt (sc, w)))
      \<and> (type_on ?t (fst (?f vt (sc, w))) = e)" for vt :: "'w sensor_vtable" and sc w
    using activateByType_facts(3) [of sc vt ?t e w, OF _ prod.collapse [symmetric]]
      activateByType_facts(5) [of sc vt ?t e w _ _ ?t, OF _ prod.collapse [symmetric]]
    by (simp add: type_on_def)
  have d: "distinct ?deps" "?deps \<noteq> []" "\<forall>i\<in>set ?deps. i < length (fst (cores, w)) \<and> SensorCore_inv (fst (cores, w) ! i)"
    using assms(1) by (simp_all add: composite_inv_def s)
  note F = fold_core_call [of SensorCore_inv "\<lambda>_ sc'. SensorCore_inv sc' \<and> (type_on ?t sc' = e)" ?f
      ?deps "(cores, w)" vts, OF step d(1,3)]
  let ?s1 = "fold (core_call ?f vts) ?deps (cores, w)"
  have s': "s' = (c\<lparr>cs_mJustStarted := True\<rparr>, fst ?s1, snd ?s1)"
    using assms(2) by (simp add: s CompositeSensorCore_activate_def)
  show "cs_mSensorData (fst s') = cs_mSensorData (fst s)" by (simp add: s' s)
  show "composite_inv s'" using F d by (simp add: s' composite_inv_def case_prod_unfold)
  obtain i where "i \<in> set ?deps" using d(2) by (metis list.set_sel(1))
  then show "composite_on s' = e" using F(3) by (auto simp: s' composite_on_def case_prod_unfold)
  show "\<forall>j. j \<notin> set (cs_mDependencyList (fst s)) \<longrightarrow> fst (snd s') ! j = fst (snd s) ! j"
    using F(2) by (simp add: s' s)
qed

lemma composite_batch_facts:
  fixes s :: "'z CompositeSensorCore_scheme \<times> 'w core_store"
  assumes "composite_inv s" "CompositeSensorCore_batch vts p l s = s'"
  shows "cs_mSensorData (fst s') = cs_mSensorData (fst s)" "composite_inv s'"
    and "composite_on s' = composite_on s"
    and "\<forall>i\<in>set (cs_mDependencyList (fst s)).
           sm_find (sd_type (cs_mSensorData (fst s))) (mSamplingPeriods (fst (snd s') ! i)) = Some p"
proof -
  obtain c cores w where s: "s = (c, cores, w)" by (metis prod_cases3)
  let ?t = "sd_type (cs_mSensorData c)" and ?deps = "cs_mDependencyList c"
  let ?f = "\<lambda>vt. SensorCore_batchByType vt ?t p l"
  have step: "SensorCore_inv sc \<Longrightarrow> SensorCore_inv (fst (?f vt (sc, w)))
      \<and> (type_on ?t (fst (?f vt (sc, w))) = type_on ?t sc)
      \<and> sm_find ?t (mSamplingPeriods (fst (?f vt (sc, w)))) = Some p"
    for vt :: "'w sensor_vtable" and sc w
    using batchByType_facts(3,4) [of sc vt ?t p l w, OF _ prod.collapse [symmetric]]
      batchByType_facts(6) [of sc vt ?t p l w _ _ ?t, OF _ prod.collapse [symmetric]]
    by (simp add: type_on_def)
  have d: "distinct ?deps" "?deps \<noteq> []" "\<forall>i\<in>set ?deps. i < length (fst (cores, w)) \<and> SensorCore_inv (fst (cores, w) ! i)"
    using assms(1) by (simp_all add: composite_inv_def s)
  note F = fold_core_call [of SensorCore_inv "\<lambda>sc sc'. SensorCore_inv sc' \<and> (type_on ?t sc' = type_on ?t sc)
      \<and> sm_find ?t (mSamplingPeriods sc') = Some p" ?f ?deps "(cores, w)" vts, OF step d(1,3)]
  let ?s1 = "fold (core_call ?f vts) ?deps (cores, w)"
  have s': "s' = (c\<lparr>cs_mSamplingPeriodNs := p\<rparr>, fst ?s1, snd ?s1)"
    using assms(2) by (simp add: s CompositeSensorCore_batch_def)
  show "cs_mSensorData (fst s') = cs_mSensorData (fst s)" by (simp add: s' s)
  show "composite_inv s'" using F d by (simp add: s' composite_inv_def case_prod_unfold)
  show "composite_on s' = composite_on s" using F(3) by (simp add: s' s composite_on_def case_prod_unfold)
  show "\<forall>i\<in>set (cs_mDependencyList (fst s)).
     sm_find (sd_type (cs_mSensorData (fst s))) (mSamplingPeriods (fst (snd s') ! i)) = Some p"
    using F(3) by (simp add: s' s)
qed

interpretation composite_hal: sensor_hal "CompositeSensorCore_activate vts" "CompositeSensorCore_batch vts"
  "\<lambda>s. cs_mSensorData (fst s)" composite_on composite_inv for vts :: "'w sensor_vtable list"
  by unfold_locales
     (simp_all add: composite_activate_facts(1-3) [OF _ refl] composite_batch_facts(1-3) [OF _ refl])

section \<open>Constructors of the composite sensors\<close>

definition CompositeSensorCore_init :: CompositeSensorCore where
  "CompositeSensorCore_init =
     \<lparr>cs_mSensorData = SensorData_init, cs_mDependencyList = [], cs_mGyroVar = 0,
      cs_mJustStarted = False, cs_mSamplingPeriodNs = 0\<rparr>"

definition composite_of ::
  "float_ops \<Rightarrow> string \<Rightarrow> BoschSensorType \<Rightarrow> int \<Rightarrow> real \<Rightarrow> SensorData \<times> nat \<Rightarrow> SensorData \<times> nat
     \<Rightarrow> CompositeSensorCore" where
  "composite_of fo name type minDelayUs gyroVar accel gyro =
     CompositeSensorCore_init
       \<lparr>cs_mSensorData := SensorData_init
          \<lparr>sd_sensorName := name, sd_type := type, sd_minDelayUs := minDelayUs, sd_maxDelayUs := 20000,
           sd_power := fp32 fo (sd_power (fst accel) + sd_power (fst gyro)),
           sd_range := sd_range (fst accel), sd_resolution := sd_resolution (fst accel),
           sd_reportMode := CONTINUOUS\<rparr>,
        cs_mGyroVar := gyroVar, cs_mDependencyList := [snd accel, snd gyro]\<rparr>"

definition Smi330LinearAcc :: "float_ops \<Rightarrow> SensorData \<times> nat \<Rightarrow> SensorData \<times> nat \<Rightarrow> CompositeSensorCore" where
  "Smi330LinearAcc fo =
     composite_of fo ''SMI330 BOSCH Linear Accelerometer Sensor'' LINEAR_ACCEL 5000 (fp32 fo (fp64 fo 0.000049))"

definition Smi330Gravity :: "float_ops \<Rightarrow> SensorData \<times> nat \<Rightarrow> SensorData \<times> nat \<Rightarrow> CompositeSensorCore" where
  "Smi330Gravity fo =
     composite_of fo ''SMI330 BOSCH Gravity Sensor'' GRAVITY 5000 (fp32 fo (fp64 fo 0.000049))"

definition Smi240LinearAcc :: "float_ops \<Rightarrow> SensorData \<times> nat \<Rightarrow> SensorData \<times> nat \<Rightarrow> CompositeSensorCore" where
  "Smi240LinearAcc fo =
     composite_of fo ''SMI240 BOSCH Linear Accelerometer Sensor'' LINEAR_ACCEL 5000 (fp32 fo (fp64 fo 0.000225))"

definition Smi240Gravity :: "float_ops \<Rightarrow> SensorData \<times> nat \<Rightarrow> SensorData \<times> nat \<Rightarrow> CompositeSensorCore" where
  "Smi240Gravity fo =
     composite_of fo ''SMI240 BOSCH Gravity Sensor'' GRAVITY 5000 (fp32 fo (fp64 fo 0.000225))"

definition Smi230LinearAcc :: "float_ops \<Rightarrow> SensorData \<times> nat \<Rightarrow> SensorData \<times> nat \<Rightarrow> CompositeSensorCore" where
  "Smi230LinearAcc fo =
     composite_of fo ''SMI230 BOSCH Linear Accelerometer Sensor'' LINEAR_ACCEL 10000 (fp32 fo (fp64 fo 0.000172))"

definition Smi230Gravity :: "float_ops \<Rightarrow> SensorData \<times> nat \<Rightarrow> SensorData \<times> nat \<Rightarrow> CompositeSensorCore" where
  "Smi230Gravity fo =
     composite_of fo ''SMI230 BOSCH Gravity Sensor'' GRAVITY 10000 (fp32 fo (fp64 fo 0.000172))"

section \<open>\<^verbatim>\<open>SensorList\<close>\<close>

record SensorList =
  mSensorList :: "SensorCore list"
  mCompositeSensorList :: "CompositeSensorCore list"

text \<open>The members' initialisers; the method tables of the twelve objects in the same order.\<close>

definition SensorList_descriptions :: "float_ops \<Rightarrow> SensorData list" where
  "SensorList_descriptions fo =
     [Smi330Acc fo, Smi330Gyro fo, Smi240Acc fo, Smi240Gyro fo, Smi230Acc fo, Smi230Gyro fo,
      Smi330AccUncalibrated fo, Smi330GyroUncalibrated fo, Smi240AccUncalibrated fo,
      Smi240GyroUncalibrated fo, Smi230AccUncalibrated fo, Smi230GyroUncalibrated fo]"

definition SensorList_vtables :: "hal_world sensor_vtable list" where
  "SensorList_vtables =
     [Smi330Acc_vtable, Smi330Gyro_vtable, SensorCore_vtable, SensorCore_vtable, Smi230Acc_vtable,
      Smi230Gyro_vtable, Smi330Acc_vtable, Smi330Gyro_vtable, SensorCore_vtable, SensorCore_vtable,
      Smi230Acc_vtable, Smi230Gyro_vtable]"

definition SensorList_init :: "float_ops \<Rightarrow> SensorList" where
  "SensorList_init fo =
     (let sd = SensorList_descriptions fo; dep = (\<lambda>i. (sd ! i, i)) in
      \<lparr>mSensorList = map SensorCore_new sd,
       mCompositeSensorList =
         [Smi330Gravity fo (dep 0) (dep 1), Smi330LinearAcc fo (dep 0) (dep 1),
          Smi240Gravity fo (dep 2) (dep 3), Smi240LinearAcc fo (dep 2) (dep 3),
          Smi230Gravity fo (dep 4) (dep 5), Smi230LinearAcc fo (dep 4) (dep 5)]\<rparr>)"

text \<open>A \<^verbatim>\<open>shared_ptr<ISensorHal>\<close> of the result.\<close>

datatype sensor_ref = Core_ref nat | Composite_ref nat

fun available_cores ::
  "sysfs \<Rightarrow> nat \<Rightarrow> SensorCore list \<Rightarrow> string \<Rightarrow> SensorCore list \<times> sensor_ref list" where
  "available_cores fs i [] device = ([], [])"
| "available_cores fs i (sc # cores) device =
     (case isSensorAvailable fs (sd_driverName (mSensorData sc)) device of
        (found, device') \<Rightarrow>
          (case available_cores fs (Suc i) cores device' of
             (cores', refs) \<Rightarrow>
               if found
               then (SensorCore_setDevice fs device' (sc\<lparr>mAvailable := True\<rparr>) # cores', Core_ref i # refs)
               else (sc # cores', refs)))"

fun available_composites :: "SensorCore list \<Rightarrow> nat \<Rightarrow> CompositeSensorCore list \<Rightarrow> sensor_ref list" where
  "available_composites cores i [] = []"
| "available_composites cores i (c # cs) =
     (let dependentSensors = length (filter (\<lambda>d. mAvailable (cores ! d)) (cs_mDependencyList c)) in
      if dependentSensors = length (cs_mDependencyList c)
      then Composite_ref i # available_composites cores (Suc i) cs
      else available_composites cores (Suc i) cs)"

definition getAvailableSensors :: "sysfs \<Rightarrow> SensorList \<Rightarrow> SensorList \<times> sensor_ref list" where
  "getAvailableSensors fs sl =
     (case available_cores fs 0 (mSensorList sl) [] of
        (cores, refs) \<Rightarrow>
          (sl\<lparr>mSensorList := cores\<rparr>, refs @ available_composites cores 0 (mCompositeSensorList sl)))"

text \<open>A driver is present when the first step of \<^verbatim>\<open>isSensorAvailable\<close> succeeds.\<close>

definition present :: "sysfs \<Rightarrow> string \<Rightarrow> bool" where
  "present fs driver \<longleftrightarrow> fst (isSensorAvailable fs driver [])"

lemma isSensorAvailable_present: "fst (isSensorAvailable fs n d) = present fs n"
  by (simp add: present_def isSensorAvailable_def split: option.splits)

lemma available_cores_spec:
  "available_cores fs k cores device = (cores', refs) \<Longrightarrow>
   length cores' = length cores \<and>
   refs = map Core_ref (filter (\<lambda>i. present fs (sd_driverName (mSensorData (cores ! (i - k)))))
                          [k ..< k + length cores]) \<and>
   (\<forall>i < length cores. mAvailable (cores' ! i) =
      (present fs (sd_driverName (mSensorData (cores ! i))) \<or> mAvailable (cores ! i)))"
proof (induction cores arbitrary: k device cores' refs)
  case (Cons sc cores)
  obtain found dev where f: "isSensorAvailable fs (sd_driverName (mSensorData sc)) device = (found, dev)"
    by fastforce
  obtain cs rs where r: "available_cores fs (Suc k) cores dev = (cs, rs)" by fastforce
  have found: "found = present fs (sd_driverName (mSensorData sc))"
    using isSensorAvailable_present [of fs "sd_driverName (mSensorData sc)" device] f by simp
  note ih = Cons.IH [OF r]
  have "filter (\<lambda>i. present fs (sd_driverName (mSensorData ((sc # cores) ! (i - k))))) [Suc k ..< Suc k + length cores]
      = filter (\<lambda>i. present fs (sd_driverName (mSensorData (cores ! (i - Suc k))))) [Suc k ..< Suc k + length cores]"
    by (rule filter_cong) (auto simp: nth_Cons')
  moreover have "[k ..< k + length (sc # cores)] = k # [Suc k ..< Suc k + length cores]"
    by (simp add: upt_rec)
  ultimately have refs: "map Core_ref (filter (\<lambda>i. present fs (sd_driverName (mSensorData ((sc # cores) ! (i - k)))))
      [k ..< k + length (sc # cores)]) = (if found then [Core_ref k] else []) @ rs"
    using ih found by simp
  have cs': "cores' = (if found then SensorCore_setDevice fs dev (sc\<lparr>mAvailable := True\<rparr>) else sc) # cs"
    and rs': "refs = (if found then [Core_ref k] else []) @ rs"
    using Cons.prems f r by (auto split: if_splits)
  show ?case
    unfolding refs rs' using ih found
    by (auto simp: cs' nth_Cons' SensorCore_setDevice_def)
qed simp

lemma available_composites_spec:
  "available_composites cores k cs =
     map Composite_ref (filter (\<lambda>i. \<forall>d\<in>set (cs_mDependencyList (cs ! (i - k))). mAvailable (cores ! d))
                          [k ..< k + length cs])"
proof (induction cs arbitrary: k)
  case (Cons c cs)
  have all: "length (filter P xs) = length xs \<longleftrightarrow> (\<forall>x\<in>set xs. P x)" for P and xs :: "nat list"
    by (metis filter_True filter_id_conv length_filter_less nat_less_le)
  have "filter (\<lambda>i. \<forall>d\<in>set (cs_mDependencyList ((c # cs) ! (i - k))). mAvailable (cores ! d)) [Suc k ..< Suc k + length cs]
      = filter (\<lambda>i. \<forall>d\<in>set (cs_mDependencyList (cs ! (i - Suc k))). mAvailable (cores ! d)) [Suc k ..< Suc k + length cs]"
    by (rule filter_cong) (auto simp: nth_Cons')
  moreover have "[k ..< k + length (c # cs)] = k # [Suc k ..< Suc k + length cs]"
    by (simp add: upt_rec)
  ultimately show ?case by (simp add: Cons all Let_def)
qed simp

section \<open>Properties\<close>

lemma SensorList_driver_names:
  "map (\<lambda>sc. sd_driverName (mSensorData sc)) (mSensorList (SensorList_init fo)) =
     [''smi330'', ''smi330'', ''smi240'', ''smi240'', ''smi230acc'', ''smi230gyro'',
      ''smi330'', ''smi330'', ''smi240'', ''smi240'', ''smi230acc'', ''smi230gyro'']"
  by (simp add: SensorList_init_def SensorList_descriptions_def SensorCore_new_def SensorCore_init_def
      Smi330Acc_def Smi330Gyro_def Smi240Acc_def Smi240Gyro_def Smi230Acc_def Smi230Gyro_def
      Smi330AccUncalibrated_def Smi330GyroUncalibrated_def Smi240AccUncalibrated_def
      Smi240GyroUncalibrated_def Smi230AccUncalibrated_def Smi230GyroUncalibrated_def Let_def)

lemma SensorList_parts:
  "map cs_mDependencyList (mCompositeSensorList (SensorList_init fo)) =
     [[0, 1], [0, 1], [2, 3], [2, 3], [4, 5], [4, 5]]"
  by (simp add: SensorList_init_def Let_def composite_of_def Smi330Gravity_def Smi330LinearAcc_def
      Smi240Gravity_def Smi240LinearAcc_def Smi230Gravity_def Smi230LinearAcc_def)

lemma SensorList_fresh: "i < 12 \<Longrightarrow> \<not> mAvailable (mSensorList (SensorList_init fo) ! i)"
proof -
  assume "i < 12"
  moreover have "mSensorList (SensorList_init fo) = map SensorCore_new (SensorList_descriptions fo)"
    "length (SensorList_descriptions fo) = 12"
    by (simp_all add: SensorList_init_def SensorList_descriptions_def Let_def)
  ultimately show ?thesis by (simp only: nth_map) (simp add: SensorCore_new_def SensorCore_init_def)
qed

lemma filter_index_map:
  "filter (\<lambda>i. P (g (xs ! (i - 0)))) [0 ..< 0 + length xs] = filter (\<lambda>i. P (map g xs ! i)) [0 ..< length (map g xs)]"
  by (rule filter_cong) auto

lemma getAvailableSensors_refs:
  "snd (getAvailableSensors fs (SensorList_init fo)) =
     (if present fs ''smi330'' then [Core_ref 0, Core_ref 1] else [])
     @ (if present fs ''smi240'' then [Core_ref 2, Core_ref 3] else [])
     @ (if present fs ''smi230acc'' then [Core_ref 4] else [])
     @ (if present fs ''smi230gyro'' then [Core_ref 5] else [])
     @ (if present fs ''smi330'' then [Core_ref 6, Core_ref 7] else [])
     @ (if present fs ''smi240'' then [Core_ref 8, Core_ref 9] else [])
     @ (if present fs ''smi230acc'' then [Core_ref 10] else [])
     @ (if present fs ''smi230gyro'' then [Core_ref 11] else [])
     @ (if present fs ''smi330'' then [Composite_ref 0, Composite_ref 1] else [])
     @ (if present fs ''smi240'' then [Composite_ref 2, Composite_ref 3] else [])
     @ (if present fs ''smi230acc'' \<and> present fs ''smi230gyro'' then [Composite_ref 4, Composite_ref 5] else [])"
proof -
  let ?sl = "SensorList_init fo"
  let ?name = "\<lambda>sc. sd_driverName (mSensorData sc)"
  obtain cores refs where r: "available_cores fs 0 (mSensorList ?sl) [] = (cores, refs)" by fastforce
  note S = available_cores_spec [OF r]
  have len: "length (mSensorList ?sl) = 12"
    using arg_cong [OF SensorList_driver_names, of length] by simp
  have av: "i < 12 \<Longrightarrow> mAvailable (cores ! i) = present fs (map ?name (mSensorList ?sl) ! i)" for i
    using S len by (simp add: SensorList_fresh)
  have "refs = map Core_ref (filter (\<lambda>i. present fs (map ?name (mSensorList ?sl) ! i))
      [0 ..< length (map ?name (mSensorList ?sl))])"
    using S filter_index_map [of "present fs" ?name "mSensorList ?sl"] by simp
  then have refs: "refs =
     (if present fs ''smi330'' then [Core_ref 0, Core_ref 1] else [])
     @ (if present fs ''smi240'' then [Core_ref 2, Core_ref 3] else [])
     @ (if present fs ''smi230acc'' then [Core_ref 4] else [])
     @ (if present fs ''smi230gyro'' then [Core_ref 5] else [])
     @ (if present fs ''smi330'' then [Core_ref 6, Core_ref 7] else [])
     @ (if present fs ''smi240'' then [Core_ref 8, Core_ref 9] else [])
     @ (if present fs ''smi230acc'' then [Core_ref 10] else [])
     @ (if present fs ''smi230gyro'' then [Core_ref 11] else [])"
    unfolding SensorList_driver_names by (simp add: upt_rec)
  have "available_composites cores 0 (mCompositeSensorList ?sl) =
      map Composite_ref (filter (\<lambda>i. \<forall>d\<in>set (map cs_mDependencyList (mCompositeSensorList ?sl) ! i).
        mAvailable (cores ! d)) [0 ..< length (map cs_mDependencyList (mCompositeSensorList ?sl))])"
    using available_composites_spec [of cores 0 "mCompositeSensorList ?sl"]
      filter_index_map [of "\<lambda>ds. \<forall>d\<in>set ds. mAvailable (cores ! d)" cs_mDependencyList "mCompositeSensorList ?sl"]
    by simp
  then have "available_composites cores 0 (mCompositeSensorList ?sl) =
     (if present fs ''smi330'' then [Composite_ref 0, Composite_ref 1] else [])
     @ (if present fs ''smi240'' then [Composite_ref 2, Composite_ref 3] else [])
     @ (if present fs ''smi230acc'' \<and> present fs ''smi230gyro'' then [Composite_ref 4, Composite_ref 5] else [])"
    unfolding SensorList_parts by (simp add: upt_rec av SensorList_driver_names)
  with refs show ?thesis by (simp add: getAvailableSensors_def r)
qed

text \<open>C37: \<^verbatim>\<open>getAvailableSensors\<close> returns the objects of the drivers that are present, in the
  order of \<^verbatim>\<open>mSensorList\<close>, and then the composite sensors for which both parts are.\<close>

theorem getAvailableSensors_complete:
  "snd (getAvailableSensors fs (SensorList_init fo)) =
     (if present fs ''smi330'' then [Core_ref 0, Core_ref 1] else [])
     @ (if present fs ''smi240'' then [Core_ref 2, Core_ref 3] else [])
     @ (if present fs ''smi230acc'' then [Core_ref 4] else [])
     @ (if present fs ''smi230gyro'' then [Core_ref 5] else [])
     @ (if present fs ''smi330'' then [Core_ref 6, Core_ref 7] else [])
     @ (if present fs ''smi240'' then [Core_ref 8, Core_ref 9] else [])
     @ (if present fs ''smi230acc'' then [Core_ref 10] else [])
     @ (if present fs ''smi230gyro'' then [Core_ref 11] else [])
     @ (if present fs ''smi330'' then [Composite_ref 0, Composite_ref 1] else [])
     @ (if present fs ''smi240'' then [Composite_ref 2, Composite_ref 3] else [])
     @ (if present fs ''smi230acc'' \<and> present fs ''smi230gyro'' then [Composite_ref 4, Composite_ref 5] else [])"
  by (rule getAvailableSensors_refs)

text \<open>activating a composite sensor switches on every sensor it depends on; deactivating it
  withdraws its own request and no other, so that a part stays on while another client wants it.\<close>

theorem CompositeSensorCore_activates_parts:
  fixes c :: "'z CompositeSensorCore_scheme" and cores :: "SensorCore list" and w :: "'w"
  assumes "composite_inv (c, cores, w)" "i \<in> set (cs_mDependencyList c)"
    and "CompositeSensorCore_activate vts e (c, cores, w) = (c', cores', w')"
  shows "mIsEnabled (cores' ! i) =
           (e \<or> (\<exists>t. t \<noteq> sd_type (cs_mSensorData c) \<and> sm_find t (mEnableState (cores ! i)) = Some True))"
proof -
  let ?t = "sd_type (cs_mSensorData c)" and ?deps = "cs_mDependencyList c"
  let ?f = "\<lambda>vt. SensorCore_activateByType vt ?t e"
  have step: "SensorCore_inv sc \<Longrightarrow> mIsEnabled (fst (?f vt (sc, w))) =
      (e \<or> (\<exists>t. t \<noteq> ?t \<and> sm_find t (mEnableState sc) = Some True))" for vt :: "'w sensor_vtable" and sc w
    using activateByType_facts(3) [of sc vt ?t e w, OF _ prod.collapse [symmetric]]
      activateByType_facts(5) [of sc vt ?t e w, OF _ prod.collapse [symmetric]]
    by (auto simp: SensorCore_inv_def wanted_def)
  have d: "distinct ?deps" "\<forall>i\<in>set ?deps. i < length (fst (cores, w)) \<and> SensorCore_inv (fst (cores, w) ! i)"
    using assms(1) by (simp_all add: composite_inv_def)
  have "cores' = fst (fold (core_call ?f vts) ?deps (cores, w))"
    using assms(3) by (simp add: CompositeSensorCore_activate_def)
  then show ?thesis
    using fold_core_call(3) [of SensorCore_inv "\<lambda>sc sc'. mIsEnabled sc' =
      (e \<or> (\<exists>t. t \<noteq> ?t \<and> sm_find t (mEnableState sc) = Some True))" ?f ?deps "(cores, w)" vts, OF step d]
      assms(2) by simp
qed

theorem CompositeSensorCore_activates_parts_witness:
  "case CompositeSensorCore_activate [SensorCore_vtable, SensorCore_vtable] False
          (CompositeSensorCore_init\<lparr>cs_mSensorData := SensorData_init\<lparr>sd_type := GRAVITY\<rparr>,
             cs_mDependencyList := [0, 1]\<rparr>,
           [SensorCore_init\<lparr>mEnableState := [(ACCEL, True), (GRAVITY, True)], mIsEnabled := True\<rparr>,
            SensorCore_init\<lparr>mEnableState := [(GRAVITY, True)], mIsEnabled := True\<rparr>], ()) of
     (c', cores', w') \<Rightarrow> mIsEnabled (cores' ! 0) \<and> \<not> mIsEnabled (cores' ! 1)"
proof -
  let ?c = "CompositeSensorCore_init\<lparr>cs_mSensorData := SensorData_init\<lparr>sd_type := GRAVITY\<rparr>,
             cs_mDependencyList := [0, 1]\<rparr>"
  let ?cores = "[SensorCore_init\<lparr>mEnableState := [(ACCEL, True), (GRAVITY, True)], mIsEnabled := True\<rparr>,
            SensorCore_init\<lparr>mEnableState := [(GRAVITY, True)], mIsEnabled := True\<rparr>]"
  obtain c' cores' w' where r: "CompositeSensorCore_activate [SensorCore_vtable, SensorCore_vtable] False
      (?c, ?cores, ()) = (c', cores', w')" by (metis prod_cases3)
  have inv: "composite_inv (?c, ?cores, ())"
    by (auto simp: composite_inv_def SensorCore_inv_def SensorCore_init_def wanted_def sm_ok_def
        less_BoschSensorType_def)
  have "mIsEnabled (cores' ! 0)"
    using CompositeSensorCore_activates_parts [OF inv _ r, of 0] by auto
  moreover have "\<not> mIsEnabled (cores' ! 1)"
    using CompositeSensorCore_activates_parts [OF inv _ r, of 1] by auto
  ultimately show ?thesis unfolding r by simp
qed

end
