(* ===== verification/Direct_Channel.thy ===== *)
theory Direct_Channel
  imports Sysfs Std_Map
begin

text \<open>
  \<^verbatim>\<open>sensors/core/DirectChannel.{h,cpp}\<close>: the shared-memory ring buffer that a direct
  report channel writes to (\<^verbatim>\<open>LockfreeBuffer\<close>), and the channel objects. The mapped region is
  the list of its slots; a slot is the event without its field \<^verbatim>\<open>reserved0\<close>, and that field,
  which carries the counter. The size of \<^verbatim>\<open>sensors_event_t\<close> and the results of the ashmem and
  mmap calls are parameters.
\<close>

section \<open>\<^verbatim>\<open>LockfreeBuffer\<close>\<close>

record 'e lockfree_buffer =
  lb_mData :: "('e \<times> int) list"
  lb_mSize :: nat
  lb_mWritePos :: nat
  lb_mCounter :: int

text \<open>\<open>zero\<close> is the event of all zero bytes, \<open>event_size\<close> is \<^verbatim>\<open>sizeof(sensors_event_t)\<close>.\<close>

definition LockfreeBuffer :: "nat \<Rightarrow> 'e \<Rightarrow> nat \<Rightarrow> 'e lockfree_buffer" where
  "LockfreeBuffer event_size zero bytes =
     \<lparr>lb_mData = replicate (bytes div event_size) (zero, 0), lb_mSize = bytes div event_size,
      lb_mWritePos = 0, lb_mCounter = 1\<rparr>"

definition LockfreeBuffer_destroy :: "'e \<Rightarrow> 'e lockfree_buffer \<Rightarrow> ('e \<times> int) list" where
  "LockfreeBuffer_destroy zero b = replicate (lb_mSize b) (zero, 0)"

fun LockfreeBuffer_loop :: "'e list \<Rightarrow> 'e lockfree_buffer \<Rightarrow> 'e lockfree_buffer" where
  "LockfreeBuffer_loop [] b = b"
| "LockfreeBuffer_loop (ev # evs) b =
     (let pos = Suc (lb_mWritePos b);
          b' = b\<lparr>lb_mData := (lb_mData b)[lb_mWritePos b := (ev, lb_mCounter b)],
                 lb_mCounter := i32 (lb_mCounter b + 1),
                 lb_mWritePos := (if pos \<ge> lb_mSize b then 0 else pos)\<rparr>
      in LockfreeBuffer_loop evs b')"

definition LockfreeBuffer_write :: "'e list \<Rightarrow> 'e lockfree_buffer \<Rightarrow> 'e lockfree_buffer" where
  "LockfreeBuffer_write evs b = (if lb_mSize b = 0 then b else LockfreeBuffer_loop evs b)"

section \<open>The channels\<close>

datatype channel_error = NO_INIT | BAD_VALUE | NO_MEMORY

record 'e direct_channel =
  dc_sensorHandles :: "int list"
  dc_rateNs :: "(int, int) stdmap"
  dc_sampleCount :: "(int, int) stdmap"
  dc_mError :: channel_error
  dc_mBuffer :: "'e lockfree_buffer option"
  dc_mSize :: nat
  dc_mBase :: bool
  dc_mAshmemFd :: int

definition DirectChannelBase_init :: "int \<Rightarrow> 'e direct_channel" where
  "DirectChannelBase_init fd =
     \<lparr>dc_sensorHandles = [], dc_rateNs = [], dc_sampleCount = [], dc_mError = NO_INIT,
      dc_mBuffer = None, dc_mSize = 0, dc_mBase = False, dc_mAshmemFd = fd\<rparr>"

definition DirectChannelBase_isValid :: "'e direct_channel \<Rightarrow> bool" where
  "DirectChannelBase_isValid ch \<longleftrightarrow> dc_mBuffer ch \<noteq> None"

definition DirectChannelBase_getError :: "'e direct_channel \<Rightarrow> channel_error" where
  "DirectChannelBase_getError ch = dc_mError ch"

definition DirectChannelBase_write :: "'e \<Rightarrow> 'e direct_channel \<Rightarrow> 'e direct_channel" where
  "DirectChannelBase_write ev ch =
     (case dc_mBuffer ch of
        None \<Rightarrow> ch
      | Some b \<Rightarrow> ch\<lparr>dc_mBuffer := Some (LockfreeBuffer_write [ev] b)\<rparr>)"

text \<open>What \<^verbatim>\<open>mmap\<close> can return: an address, or \<^verbatim>\<open>MAP_FAILED\<close>, which is not the null
  pointer. Clearing the region at \<^verbatim>\<open>MAP_FAILED\<close> is undefined.\<close>

datatype mmap_result = Mapped | Null_address | Map_failed

record ashmem =
  ashmem_valid :: "int \<Rightarrow> bool"
  ashmem_get_size_region :: "int \<Rightarrow> int"
  ashmem_mmap :: "nat \<Rightarrow> int \<Rightarrow> mmap_result"

record direct_mem =
  mem_fd :: int
  mem_size :: nat

definition AshmemDirectChannel ::
  "ashmem \<Rightarrow> nat \<Rightarrow> 'e \<Rightarrow> direct_mem \<Rightarrow> cpp_exception + 'e direct_channel" where
  "AshmemDirectChannel sys event_size zero mem =
     (let fd = mem_fd mem; ch = DirectChannelBase_init fd in
      if \<not> ashmem_valid sys fd then Inr (ch\<lparr>dc_mError := BAD_VALUE\<rparr>)
      else if u64 (ashmem_get_size_region sys fd) \<noteq> int (mem_size mem) then Inr (ch\<lparr>dc_mError := BAD_VALUE\<rparr>)
      else let ch' = ch\<lparr>dc_mSize := mem_size mem\<rparr> in
           case ashmem_mmap sys (mem_size mem) fd of
             Null_address \<Rightarrow> Inr (ch'\<lparr>dc_mError := NO_MEMORY\<rparr>)
           | Map_failed \<Rightarrow> Inl Undefined_behaviour
           | Mapped \<Rightarrow> Inr (ch'\<lparr>dc_mBase := True,
                               dc_mBuffer := Some (LockfreeBuffer event_size zero (mem_size mem))\<rparr>))"

datatype channel_action = Munmap nat | Close int

definition AshmemDirectChannel_destroy :: "'e direct_channel \<Rightarrow> channel_action list" where
  "AshmemDirectChannel_destroy ch =
     (if dc_mBase ch then [Munmap (dc_mSize ch)] else []) @ [Close (dc_mAshmemFd ch)]"

section \<open>The ring\<close>

text \<open>The state after the events \<open>evs\<close> have been written to a fresh buffer of \<open>n\<close> slots:
  slot \<open>i\<close> has the last event whose number is \<open>i\<close> modulo \<open>n\<close>, with its counter.\<close>

definition ring :: "nat \<Rightarrow> 'e list \<Rightarrow> 'e lockfree_buffer \<Rightarrow> bool" where
  "ring n evs b \<longleftrightarrow>
     0 < n \<and> lb_mSize b = n \<and> length (lb_mData b) = n \<and> lb_mWritePos b = length evs mod n
     \<and> lb_mCounter b = i32 (int (length evs) + 1)
     \<and> (\<forall>k < length evs. length evs \<le> k + n \<longrightarrow> lb_mData b ! (k mod n) = (evs ! k, i32 (int k + 1)))
     \<and> (\<forall>i < n. length evs \<le> i \<longrightarrow> snd (lb_mData b ! i) = 0)"

lemma i32_i32_add: "i32 (i32 a + b) = i32 (a + b)"
  unfolding i32_def by (metis signed_take_bit_add signed_take_bit_signed_take_bit min.idem)

lemma mod_eq_imp_close:
  fixes k l n :: nat
  assumes "k mod n = l mod n" "k < l" "0 < n"
  shows "k + n \<le> l"
proof -
  have "n dvd l - k" using assms(1,2) mod_eq_dvd_iff_nat [of k l n] by simp
  then have "n \<le> l - k" using assms(2) by (simp add: dvd_imp_le)
  then show ?thesis using assms(2) by simp
qed

lemma ring_step:
  assumes r: "ring n evs b"
  shows "ring n (evs @ [ev]) (LockfreeBuffer_loop [ev] b)"
proof -
  let ?L = "length evs" and ?b = "LockfreeBuffer_loop [ev] b"
  have n: "0 < n" using r by (simp add: ring_def)
  have data: "lb_mData ?b = (lb_mData b)[?L mod n := (ev, i32 (int ?L + 1))]"
    using r by (simp add: ring_def Let_def)
  have "lb_mWritePos ?b = Suc ?L mod n"
    using r n mod_less_divisor [OF n, of ?L]
    by (auto simp: ring_def Let_def mod_Suc)
  moreover have "lb_mCounter ?b = i32 (int (Suc ?L) + 1)"
    using r i32_i32_add [of "int ?L + 1" 1] by (simp add: ring_def Let_def)
  moreover have "lb_mData ?b ! (k mod n) = ((evs @ [ev]) ! k, i32 (int k + 1))"
    if k: "k < Suc ?L" "Suc ?L \<le> k + n" for k
  proof (cases "k = ?L")
    case True
    then show ?thesis using r n by (simp add: data ring_def)
  next
    case False
    then have "k < ?L" using k by simp
    moreover have "k mod n \<noteq> ?L mod n"
      using mod_eq_imp_close [of k n ?L] k \<open>k < ?L\<close> n by linarith
    ultimately show ?thesis using r k by (simp add: data ring_def nth_append)
  qed
  moreover have "snd (lb_mData ?b ! i) = 0" if "i < n" "Suc ?L \<le> i" for i
    using that r by (simp add: data ring_def)
  ultimately show ?thesis
    using r n unfolding ring_def by (simp add: Let_def)
qed

lemma LockfreeBuffer_loop_append:
  "LockfreeBuffer_loop (xs @ ys) b = LockfreeBuffer_loop ys (LockfreeBuffer_loop xs b)"
  by (induction xs arbitrary: b) (simp_all add: Let_def)

lemma ring_loop: "ring n evs b \<Longrightarrow> ring n (evs @ evs') (LockfreeBuffer_loop evs' b)"
proof (induction evs' arbitrary: evs b)
  case (Cons ev evs')
  have "ring n ((evs @ [ev]) @ evs') (LockfreeBuffer_loop evs' (LockfreeBuffer_loop [ev] b))"
    by (rule Cons.IH [OF ring_step [OF Cons.prems]])
  then show ?case by (simp add: Let_def)
qed simp

lemma ring_write: "ring n evs b \<Longrightarrow> ring n (evs @ evs') (LockfreeBuffer_write evs' b)"
proof -
  assume r: "ring n evs b"
  then have "lb_mSize b \<noteq> 0" by (simp add: ring_def)
  with ring_loop [OF r] show ?thesis by (simp add: LockfreeBuffer_write_def)
qed

lemma ring_fresh: "0 < bytes div sz \<Longrightarrow> ring (bytes div sz) [] (LockfreeBuffer sz z bytes)"
  by (simp add: ring_def LockfreeBuffer_def i32_id)

lemma ring_writes:
  "ring n evs b \<Longrightarrow> ring n (evs @ concat batches) (fold LockfreeBuffer_write batches b)"
proof (induction batches arbitrary: evs b)
  case (Cons evs' batches)
  show ?case using Cons.IH [OF ring_write [OF Cons.prems, of evs']] by simp
qed simp

text \<open>C28: however the events were cut into writes, the buffer holds the most recent ones: each of
  the last \<open>mSize\<close> events is in the slot of its number, with a counter that is one above the
  counter of the event before it, and slots never written still have counter 0.\<close>

theorem LockfreeBuffer_keeps_latest:
  assumes "0 < bytes div sz" "n = bytes div sz" "evs = concat batches"
    and "b = fold LockfreeBuffer_write batches (LockfreeBuffer sz z bytes)"
  shows "(\<forall>k < length evs. length evs \<le> k + n \<longrightarrow> lb_mData b ! (k mod n) = (evs ! k, i32 (int k + 1)))
       \<and> (\<forall>i < n. length evs \<le> i \<longrightarrow> snd (lb_mData b ! i) = 0)
       \<and> length (lb_mData b) = n \<and> lb_mWritePos b < n"
  using ring_writes [OF ring_fresh [OF assms(1), of z], of batches] assms
  by (simp add: ring_def)

theorem LockfreeBuffer_keeps_latest_witness:
  "let b = fold LockfreeBuffer_write [[10, 11], [12, 13, 14::int]] (LockfreeBuffer 104 0 320)
   in lb_mData b ! 0 = (13, 4) \<and> lb_mData b ! 1 = (14, 5) \<and> lb_mData b ! 2 = (12, 3)"
proof -
  define b where "b = fold LockfreeBuffer_write [[10, 11], [12, 13, 14::int]] (LockfreeBuffer 104 0 320)"
  have *: "(\<forall>k < length [10, 11, 12, 13, 14::int]. length [10, 11, 12, 13, 14::int] \<le> k + 3 \<longrightarrow>
       lb_mData b ! (k mod 3) = ([10, 11, 12, 13, 14::int] ! k, i32 (int k + 1)))
       \<and> (\<forall>i < 3. length [10, 11, 12, 13, 14::int] \<le> i \<longrightarrow> snd (lb_mData b ! i) = 0)
       \<and> length (lb_mData b) = 3 \<and> lb_mWritePos b < 3"
    by (rule LockfreeBuffer_keeps_latest [of 320 104 3 _ "[[10, 11], [12, 13, 14]]" _ 0]) (simp_all add: b_def)
  from * [THEN conjunct1, rule_format, of 3] * [THEN conjunct1, rule_format, of 4]
    * [THEN conjunct1, rule_format, of 2]
  have "lb_mData b ! 0 = (13, 4) \<and> lb_mData b ! 1 = (14, 5) \<and> lb_mData b ! 2 = (12, 3)"
    by (simp add: i32_id)
  then show ?thesis by (simp add: b_def)
qed

text \<open>\<^verbatim>\<open>AshmemDirectChannel\<close> never fails with \<^verbatim>\<open>NO_MEMORY\<close> when \<^verbatim>\<open>mmap\<close> fails:
  the check against the null pointer does not see \<^verbatim>\<open>MAP_FAILED\<close>, and the buffer is
  constructed at that address.\<close>

theorem AshmemDirectChannel_mmap_failure:
  assumes "ashmem_valid sys (mem_fd mem)"
    and "u64 (ashmem_get_size_region sys (mem_fd mem)) = int (mem_size mem)"
    and "ashmem_mmap sys (mem_size mem) (mem_fd mem) = Map_failed"
  shows "AshmemDirectChannel sys sz z mem = Inl Undefined_behaviour"
  using assms by (simp add: AshmemDirectChannel_def Let_def)

theorem AshmemDirectChannel_mmap_failure_witness:
  "AshmemDirectChannel \<lparr>ashmem_valid = (\<lambda>_. True), ashmem_get_size_region = (\<lambda>_. 1040),
      ashmem_mmap = (\<lambda>_ _. Map_failed)\<rparr> 104 (0::int) \<lparr>mem_fd = 7, mem_size = 1040\<rparr> = Inl Undefined_behaviour"
  by (rule AshmemDirectChannel_mmap_failure) (simp_all add: u64_def take_bit_eq_mod)

text \<open>the channel is valid exactly when the descriptor is an ashmem region of the announced
  size that could be mapped; otherwise nothing is mapped, and only the descriptor is closed
  when the channel is destroyed.\<close>

theorem AshmemDirectChannel_valid_iff:
  assumes "AshmemDirectChannel sys sz z mem = Inr ch"
  shows "DirectChannelBase_isValid ch =
           (ashmem_valid sys (mem_fd mem)
            \<and> u64 (ashmem_get_size_region sys (mem_fd mem)) = int (mem_size mem)
            \<and> ashmem_mmap sys (mem_size mem) (mem_fd mem) = Mapped)
       \<and> AshmemDirectChannel_destroy ch =
           (if DirectChannelBase_isValid ch then [Munmap (mem_size mem)] else []) @ [Close (mem_fd mem)]"
  using assms
  by (auto simp: AshmemDirectChannel_def DirectChannelBase_isValid_def AshmemDirectChannel_destroy_def
      DirectChannelBase_init_def Let_def split: if_splits mmap_result.splits)

theorem AshmemDirectChannel_valid_iff_witness:
  "\<exists>ch. AshmemDirectChannel \<lparr>ashmem_valid = (\<lambda>_. True), ashmem_get_size_region = (\<lambda>_. 1040),
      ashmem_mmap = (\<lambda>_ _. Mapped)\<rparr> 104 (0::int) \<lparr>mem_fd = 7, mem_size = 1040\<rparr> = Inr ch
   \<and> DirectChannelBase_isValid ch \<and> AshmemDirectChannel_destroy ch = [Munmap 1040, Close 7]"
proof -
  let ?sys = "\<lparr>ashmem_valid = (\<lambda>_. True), ashmem_get_size_region = (\<lambda>_. 1040), ashmem_mmap = (\<lambda>_ _. Mapped)\<rparr>"
  obtain ch where ch: "AshmemDirectChannel ?sys 104 (0::int) \<lparr>mem_fd = 7, mem_size = 1040\<rparr> = Inr ch"
    by (simp add: AshmemDirectChannel_def Let_def u64_def take_bit_eq_mod)
  then show ?thesis
    using AshmemDirectChannel_valid_iff [OF ch] by (simp add: u64_def take_bit_eq_mod)
qed

end
