(* ===== verification/Hal_Types.thy ===== *)
theory Hal_Types
  imports Sensor_Core
begin

text \<open>
  The records of the sensors interface that the service classes pass around
  (\<^verbatim>\<open>V2_1::SensorInfo\<close>, \<^verbatim>\<open>V2_1::Event\<close>, \<^verbatim>\<open>V1_0::AdditionalInfo\<close>), with the fields the code
  under src/ reads and writes, and the configuration objects that the generated XML parser
  returns. The union of an event's payload is a datatype; \<open>P_none\<close> is the zeroed union.
\<close>

record SensorInfo =
  si_sensorHandle :: int
  si_name :: string
  si_vendor :: string
  si_version :: int
  si_type :: int
  si_typeAsString :: string
  si_maxRange :: real
  si_resolution :: real
  si_power :: real
  si_minDelay :: int
  si_fifoReservedEventCount :: int
  si_fifoMaxEventCount :: int
  si_requiredPermission :: string
  si_maxDelay :: int
  si_flags :: int

definition SensorInfo_init :: SensorInfo where
  "SensorInfo_init =
     \<lparr>si_sensorHandle = 0, si_name = [], si_vendor = [], si_version = 0, si_type = 0,
      si_typeAsString = [], si_maxRange = 0, si_resolution = 0, si_power = 0, si_minDelay = 0,
      si_fifoReservedEventCount = 0, si_fifoMaxEventCount = 0, si_requiredPermission = [],
      si_maxDelay = 0, si_flags = 0\<rparr>"

datatype additional_info_type =
    AINFO_BEGIN
  | AINFO_END
  | AINFO_SENSOR_PLACEMENT
  | AINFO_INTERNAL_TEMPERATURE

text \<open>\<open>ai_data_float\<close> is the array \<^verbatim>\<open>u.data_float\<close>, of 14 elements.\<close>

record AdditionalInfo =
  ai_type :: additional_info_type
  ai_serial :: int
  ai_data_float :: "real list"

datatype sensor_status = ACCURACY_HIGH | OTHER_STATUS int

datatype event_payload =
    P_none
  | P_vec3 real real real sensor_status
  | P_uncal real real real real real real
  | P_scalar real
  | P_flush_complete
  | P_additional AdditionalInfo
  | P_dynamic bool int
  | P_other int

record Event =
  ev_timestamp :: int
  ev_sensorHandle :: int
  ev_sensorType :: int
  ev_payload :: event_payload

section \<open>Configuration\<close>

text \<open>\<open>or_getFirstX\<close> and its siblings are what the generated accessors point to.\<close>

record AxisType =
  ax_map :: int
  ax_negate :: bool

record Location =
  loc_x :: real
  loc_y :: real
  loc_z :: real

record Orientation =
  or_rotate :: bool
  or_getFirstX :: AxisType
  or_getFirstY :: AxisType
  or_getFirstZ :: AxisType

record Configuration =
  cfg_orientation :: "Orientation list"
  cfg_location :: "Location list"

section \<open>Flags\<close>

definition has_flag :: "int \<Rightarrow> int \<Rightarrow> bool" where
  "has_flag flags bits \<longleftrightarrow> flags AND bits \<noteq> 0"

end
