(* ===== verification/Float_Time.thy ===== *)
theory Float_Time
  imports Hal_Prelude
begin

text \<open>
  The run loop of \<^verbatim>\<open>Sensor\<close> computes its next deadline as
  \<^verbatim>\<open>currentTime + mSamplingPeriodNs * POLL_TIME_REDUCTION_FACTOR\<close>. The factor is a
  \<^verbatim>\<open>float\<close>, so C++ converts the period and the current time to IEEE single precision and
  adds them there, before converting back to \<^verbatim>\<open>int64_t\<close>. \<open>f32\<close> is that conversion on
  integers (24 significant bits, round to nearest, ties to even), and the lemmas bound its error
  and show that it is exact below \<open>2 ^ 24\<close>.
\<close>

section \<open>Rounding an integer to single precision\<close>

fun nbits :: "nat \<Rightarrow> nat" where
  "nbits n = (if n = 0 then 0 else Suc (nbits (n div 2)))"

declare nbits.simps [simp del]

definition round_half_even :: "nat \<Rightarrow> nat \<Rightarrow> nat" where
  "round_half_even n e =
     (let q = n div 2 ^ e; r = n mod 2 ^ e
      in if 2 * r < 2 ^ e \<or> (2 * r = 2 ^ e \<and> even q) then q else Suc q)"

definition f32_nat :: "nat \<Rightarrow> nat" where
  "f32_nat n = (let e = nbits n - 24 in round_half_even n e * 2 ^ e)"

definition f32 :: "int \<Rightarrow> int" where
  "f32 n = (if n < 0 then - int (f32_nat (nat (- n))) else int (f32_nat (nat n)))"

text \<open>\<open>currentTime + period * 1.0f\<close>, converted back to \<open>int64_t\<close>.\<close>

definition next_deadline :: "int \<Rightarrow> int \<Rightarrow> int" where
  "next_deadline currentTime periodNs = f32 (f32 currentTime + f32 periodNs)"

section \<open>Error bounds\<close>

lemma nbits_le: "n < 2 ^ k \<Longrightarrow> nbits n \<le> k"
proof (induction k arbitrary: n)
  case 0
  then show ?case by (simp add: nbits.simps)
next
  case (Suc k)
  show ?case
  proof (cases "n = 0")
    case True
    then show ?thesis by (simp add: nbits.simps)
  next
    case False
    from Suc.prems have "n div 2 < 2 ^ k" by simp
    then have "nbits (n div 2) \<le> k" by (rule Suc.IH)
    with False show ?thesis by (subst nbits.simps) simp
  qed
qed

lemma round_half_even_error: "\<bar>int (round_half_even n e * 2 ^ e) - int n\<bar> * 2 \<le> 2 ^ e"
proof -
  define q r where "q = n div 2 ^ e" and "r = n mod 2 ^ e"
  have n: "n = q * 2 ^ e + r" unfolding q_def r_def by (rule div_mult_mod_eq [symmetric])
  have r: "r < 2 ^ e" by (simp add: r_def)
  show ?thesis
  proof (cases "2 * r < 2 ^ e \<or> (2 * r = 2 ^ e \<and> even q)")
    case True
    then have "round_half_even n e = q"
      by (simp add: round_half_even_def q_def r_def)
    moreover have "2 * r \<le> 2 ^ e" using True by auto
    then have "2 * int r \<le> 2 ^ e" by (metis of_nat_le_iff of_nat_mult of_nat_numeral of_nat_power)
    ultimately show ?thesis using n by simp
  next
    case False
    then have "round_half_even n e = Suc q"
      by (auto simp: round_half_even_def q_def r_def Let_def)
    moreover have "2 ^ e \<le> 2 * r" using False by auto
    then have "2 ^ e \<le> 2 * int r" by (metis of_nat_le_iff of_nat_mult of_nat_numeral of_nat_power)
    moreover have "int r < 2 ^ e" using r by (metis of_nat_less_iff of_nat_numeral of_nat_power)
    ultimately show ?thesis using n by (simp add: algebra_simps)
  qed
qed

lemma f32_nat_error: "n < 2 ^ (24 + k) \<Longrightarrow> \<bar>int (f32_nat n) - int n\<bar> * 2 \<le> 2 ^ k"
proof -
  assume "n < 2 ^ (24 + k)"
  then have e: "nbits n - 24 \<le> k" using nbits_le [of n "24 + k"] by simp
  have "\<bar>int (f32_nat n) - int n\<bar> * 2 \<le> 2 ^ (nbits n - 24)"
    unfolding f32_nat_def Let_def by (rule round_half_even_error)
  also have "(2::int) ^ (nbits n - 24) \<le> 2 ^ k" using e by simp
  finally show ?thesis .
qed

lemma f32_error: "\<bar>n\<bar> < 2 ^ (24 + k) \<Longrightarrow> \<bar>f32 n - n\<bar> * 2 \<le> 2 ^ k"
proof (cases "n < 0")
  case True
  assume a: "\<bar>n\<bar> < 2 ^ (24 + k)"
  with True have "nat (- n) < 2 ^ (24 + k)" by (simp add: nat_less_iff)
  then have e: "\<bar>int (f32_nat (nat (- n))) - int (nat (- n))\<bar> * 2 \<le> 2 ^ k"
    by (rule f32_nat_error)
  have "f32 n - n = - (int (f32_nat (nat (- n))) - int (nat (- n)))"
    using True by (simp add: f32_def)
  with e show ?thesis by (simp only: abs_minus_cancel)
next
  case False
  assume a: "\<bar>n\<bar> < 2 ^ (24 + k)"
  with False have "nat n < 2 ^ (24 + k)" by (simp add: nat_less_iff)
  from f32_nat_error [OF this] False show ?thesis by (simp add: f32_def)
qed

lemma f32_exact: "\<bar>n\<bar> < 2 ^ 24 \<Longrightarrow> f32 n = n"
  using f32_error [of n 0] by (simp, arith)

lemma two_half_errors:
  fixes x a b s K P :: int
  assumes "x \<le> a + b + s" "a * 2 \<le> K" "b * 2 \<le> K" "K \<le> P" "s < P"
  shows "x < 2 * P"
  using assms by linarith

lemma three_half_errors:
  fixes x a b c K :: int
  assumes "x \<le> c + a + b" "c * 2 \<le> 2 * K" "a * 2 \<le> K" "b * 2 \<le> K"
  shows "x \<le> 2 * K"
  using assms by linarith

lemma next_deadline_error:
  assumes "0 \<le> t" "0 \<le> p" "t + p < 2 ^ (24 + k)"
  shows "\<bar>next_deadline t p - (t + p)\<bar> \<le> 2 ^ Suc k"
proof -
  have t: "\<bar>f32 t - t\<bar> * 2 \<le> 2 ^ k" and p: "\<bar>f32 p - p\<bar> * 2 \<le> 2 ^ k"
    using assms by (auto intro!: f32_error)
  have pow: "(2::int) ^ k \<le> 2 ^ (24 + k)" and dbl: "(2::int) ^ (24 + Suc k) = 2 * 2 ^ (24 + k)"
    by (simp_all add: power_add)
  have "\<bar>f32 t + f32 p\<bar> < 2 ^ (24 + Suc k)"
  proof -
    have "\<bar>f32 t + f32 p\<bar> \<le> \<bar>f32 t - t\<bar> + \<bar>f32 p - p\<bar> + (t + p)"
      using assms(1,2) by arith
    from two_half_errors [OF this t p pow assms(3)] show ?thesis unfolding dbl .
  qed
  then have "\<bar>f32 (f32 t + f32 p) - (f32 t + f32 p)\<bar> * 2 \<le> 2 ^ Suc k"
    by (rule f32_error)
  then have c: "\<bar>f32 (f32 t + f32 p) - (f32 t + f32 p)\<bar> * 2 \<le> 2 * 2 ^ k" by simp
  have "\<bar>f32 (f32 t + f32 p) - (t + p)\<bar>
      \<le> \<bar>f32 (f32 t + f32 p) - (f32 t + f32 p)\<bar> + \<bar>f32 t - t\<bar> + \<bar>f32 p - p\<bar>" by arith
  from three_half_errors [OF this c t p] show ?thesis by (simp add: next_deadline_def)
qed

lemma next_deadline_exact: "0 \<le> t \<Longrightarrow> 0 \<le> p \<Longrightarrow> t + p < 2 ^ 24 \<Longrightarrow> next_deadline t p = t + p"
  by (simp add: next_deadline_def f32_exact)

end
