(* ===== verification/Hal_Sensor.thy ===== *)
theory Hal_Sensor
  imports Hal_Types Float_Time
begin

text \<open>
  The class \<^verbatim>\<open>Sensor\<close> of \<^verbatim>\<open>sensors/2.X/Sensor.{h,cpp}\<close>: the client of one
  \<^verbatim>\<open>ISensorHal\<close> object, its direct-channel bookkeeping, the additional-info report, the
  conversion of readings to events, and one round of the polling thread \<^verbatim>\<open>run\<close>.

  The \<^verbatim>\<open>ISensorHal\<close> object is a table of functions over its state \<open>'s\<close>; what the sensor hands
  to its callback is appended to \<open>se_log\<close>. \<^verbatim>\<open>elapsedRealtimeNano\<close> is an argument: a number
  where a function reads the clock once, a sequence \<open>clk\<close> where it reads it repeatedly. Every
  operation below runs under \<^verbatim>\<open>mRunMutex\<close> (\<^verbatim>\<open>flush\<close> excepted), so one operation or
  one round of the loop is one step; notifying the condition variable has no other effect than
  ending a wait early.
\<close>

section \<open>State\<close>

record 's hal_methods =
  hm_activate :: "bool \<Rightarrow> 's \<Rightarrow> 's"
  hm_batch :: "int \<Rightarrow> int \<Rightarrow> 's \<Rightarrow> 's"
  hm_read :: "'s \<Rightarrow> SensorValues list"
  hm_temperature :: "'s \<Rightarrow> bool \<times> real option"

datatype sensor_output =
    Post_events "Event list" bool
  | Write_direct "Event list" int

text \<open>\<open>se_lastTemperature\<close> is the function-local static of \<^verbatim>\<open>readEvents\<close>.\<close>

record 's sensor_env =
  se_hal :: 's
  se_log :: "sensor_output list"
  se_lastTemperature :: real

record channel_rate =
  cr_enabled :: bool
  cr_samplingPeriodNs :: int

record Sensor =
  hs_mIsEnabled :: bool
  hs_mDirectChannelEnabled :: bool
  hs_mSamplingPeriodNs :: int
  hs_mNextSampleTimeNs :: int
  hs_mDirectChannelRateNs :: int
  hs_mNextDirectChannelNs :: int
  hs_mSensorInfo :: SensorInfo
  hs_mDirectChannels :: "(int, channel_rate) stdmap"
  hs_mStopThread :: bool
  hs_mConfig :: "Configuration list option"

definition Sensor_init :: "SensorInfo \<Rightarrow> Configuration list option \<Rightarrow> Sensor" where
  "Sensor_init sensorInfo config =
     \<lparr>hs_mIsEnabled = False, hs_mDirectChannelEnabled = False,
      hs_mSamplingPeriodNs = si_minDelay sensorInfo * 1000, hs_mNextSampleTimeNs = INT64_MAX,
      hs_mDirectChannelRateNs = INT64_MAX, hs_mNextDirectChannelNs = INT64_MAX,
      hs_mSensorInfo = sensorInfo, hs_mDirectChannels = [], hs_mStopThread = False,
      hs_mConfig = config\<rparr>"

type_synonym 's sensor_state = "Sensor \<times> 's sensor_env"

definition on_hal :: "('s \<Rightarrow> 's) \<Rightarrow> 's sensor_env \<Rightarrow> 's sensor_env" where
  "on_hal f e = e\<lparr>se_hal := f (se_hal e)\<rparr>"

definition emit :: "sensor_output \<Rightarrow> 's sensor_env \<Rightarrow> 's sensor_env" where
  "emit out e = e\<lparr>se_log := se_log e @ [out]\<rparr>"

section \<open>Additional info\<close>

fun setSensorPlacementData :: "int \<Rightarrow> real \<Rightarrow> AdditionalInfo \<Rightarrow> hal_result \<times> AdditionalInfo" where
  "setSensorPlacementData index val info =
     (if index < 0 \<or> index \<ge> int (length (ai_data_float info)) then (R_BAD_VALUE, info)
      else (R_OK, info\<lparr>ai_data_float := (ai_data_float info)[nat index := val]\<rparr>))"

text \<open>A chain of calls that returns at the first result other than \<^verbatim>\<open>OK\<close>.\<close>

fun placement_chain :: "(int \<times> real) list \<Rightarrow> AdditionalInfo \<Rightarrow> hal_result \<times> AdditionalInfo" where
  "placement_chain [] info = (R_OK, info)"
| "placement_chain ((index, val) # rest) info =
     (case setSensorPlacementData index val info of
        (ret, info') \<Rightarrow> if ret \<noteq> R_OK then (ret, info') else placement_chain rest info')"

definition getOrientation :: "Configuration list option \<Rightarrow> Orientation list option" where
  "getOrientation config =
     (case config of None \<Rightarrow> None | Some [] \<Rightarrow> None | Some (cfg # _) \<Rightarrow> Some (cfg_orientation cfg))"

definition getLocation :: "Configuration list option \<Rightarrow> Location list option" where
  "getLocation config =
     (case config of None \<Rightarrow> None | Some [] \<Rightarrow> None | Some (cfg # _) \<Rightarrow> Some (cfg_location cfg))"

definition axis_entry :: "int \<Rightarrow> AxisType \<Rightarrow> int \<times> real" where
  "axis_entry idx ax = (i32 (idx + 4 * ax_map ax), if ax_negate ax then -1 else 1)"

definition getSensorPlacement ::
  "Configuration list option \<Rightarrow> AdditionalInfo list \<Rightarrow> hal_result \<times> AdditionalInfo list" where
  "getSensorPlacement config frames =
     (case (getLocation config, getOrientation config) of
        (Some (loc # _), Some (orient # _)) \<Rightarrow>
          (case placement_chain
                  ([(3, loc_x loc), (7, loc_y loc), (11, loc_z loc)] @
                   (if or_rotate orient then [(0 + 0, 1), (1 + 4, 1), (2 + 8, 1)]
                    else [axis_entry 0 (or_getFirstX orient), axis_entry 1 (or_getFirstY orient),
                          axis_entry 2 (or_getFirstZ orient)]))
                  \<lparr>ai_type = AINFO_SENSOR_PLACEMENT, ai_serial = 0, ai_data_float = replicate 14 0\<rparr> of
             (ret, info) \<Rightarrow> if ret \<noteq> R_OK then (ret, frames) else (R_OK, frames @ [info]))
      | _ \<Rightarrow> (R_BAD_VALUE, frames))"

definition getSensorTemperature ::
  "bool \<times> real option \<Rightarrow> AdditionalInfo list \<Rightarrow> hal_result \<times> AdditionalInfo list" where
  "getSensorTemperature reading frames =
     (case reading of
        (True, Some t) \<Rightarrow>
          (R_OK, frames @ [\<lparr>ai_type = AINFO_INTERNAL_TEMPERATURE, ai_serial = 0,
                           ai_data_float = (replicate 14 0)[0 := t]\<rparr>])
      | _ \<Rightarrow> (R_BAD_VALUE, frames))"

definition isWakeUpSensor :: "Sensor \<Rightarrow> bool" where
  "isWakeUpSensor s \<longleftrightarrow> has_flag (si_flags (hs_mSensorInfo s)) FLAG_WAKE_UP"

definition additional_info_frames :: "'s hal_methods \<Rightarrow> Sensor \<Rightarrow> 's \<Rightarrow> AdditionalInfo list" where
  "additional_info_frames hm s hal =
     (let f0 = [\<lparr>ai_type = AINFO_BEGIN, ai_serial = 0, ai_data_float = replicate 14 0\<rparr>];
          f1 = snd (getSensorPlacement (hs_mConfig s) f0);
          f2 = snd (getSensorTemperature (hm_temperature hm hal) f1)
      in f2 @ [\<lparr>ai_type = AINFO_END, ai_serial = 0, ai_data_float = replicate 14 0\<rparr>])"

definition sendAdditionalInfoReport ::
  "'s hal_methods \<Rightarrow> (nat \<Rightarrow> int) \<Rightarrow> 's sensor_state \<Rightarrow> 's sensor_state" where
  "sendAdditionalInfoReport hm clk st =
     (case st of (s, e) \<Rightarrow>
        let frames = additional_info_frames hm s (se_hal e);
            events = map (\<lambda>(i, frame).
                       \<lparr>ev_timestamp = clk i, ev_sensorHandle = si_sensorHandle (hs_mSensorInfo s),
                        ev_sensorType = ST_ADDITIONAL_INFO, ev_payload = P_additional frame\<rparr>)
                       (zip [0 ..< length frames] frames)
        in if events \<noteq> [] then (s, emit (Post_events events (isWakeUpSensor s)) e) else (s, e))"

section \<open>Operations\<close>

definition Sensor_batch ::
  "'s hal_methods \<Rightarrow> int \<Rightarrow> int \<Rightarrow> 's sensor_state \<Rightarrow> 's sensor_state" where
  "Sensor_batch hm samplingPeriodNs maxReportLatencyNs st =
     (case st of (s, e) \<Rightarrow>
        let info = hs_mSensorInfo s;
            period = (if samplingPeriodNs < si_minDelay info * 1000 then si_minDelay info * 1000
                      else if samplingPeriodNs > si_maxDelay info * 1000 then si_maxDelay info * 1000
                      else samplingPeriodNs);
            e' = (if period < hs_mDirectChannelRateNs s
                  then on_hal (hm_batch hm period maxReportLatencyNs) e else e)
        in (if hs_mSamplingPeriodNs s \<noteq> period then s\<lparr>hs_mSamplingPeriodNs := period\<rparr> else s, e'))"

definition Sensor_activate ::
  "'s hal_methods \<Rightarrow> (nat \<Rightarrow> int) \<Rightarrow> bool \<Rightarrow> 's sensor_state \<Rightarrow> 's sensor_state" where
  "Sensor_activate hm clk enable st =
     (case st of (s, e) \<Rightarrow>
        if hs_mIsEnabled s \<noteq> enable
        then let s' = s\<lparr>hs_mIsEnabled := enable, hs_mNextSampleTimeNs := (if enable then 0 else INT64_MAX)\<rparr>;
                 e' = on_hal (hm_activate hm enable) e
             in if enable then sendAdditionalInfoReport hm clk (s', e') else (s', e')
        else (s, e))"

definition Sensor_isEnabled :: "Sensor \<Rightarrow> bool" where
  "Sensor_isEnabled s = hs_mIsEnabled s"

text \<open>The event's timestamp is never assigned; \<open>junk\<close> is what the memory holds.\<close>

definition Sensor_flush ::
  "'s hal_methods \<Rightarrow> (nat \<Rightarrow> int) \<Rightarrow> int \<Rightarrow> 's sensor_state \<Rightarrow> hal_result \<times> 's sensor_state" where
  "Sensor_flush hm clk junk st =
     (case st of (s, e) \<Rightarrow>
        if \<not> hs_mIsEnabled s \<or> has_flag (si_flags (hs_mSensorInfo s)) FLAG_ONE_SHOT_MODE
        then (R_BAD_VALUE, (s, e))
        else let ev = \<lparr>ev_timestamp = junk, ev_sensorHandle = si_sensorHandle (hs_mSensorInfo s),
                       ev_sensorType = ST_META_DATA, ev_payload = P_flush_complete\<rparr>;
                 e' = emit (Post_events [ev] (isWakeUpSensor s)) e
             in (R_OK, sendAdditionalInfoReport hm clk (s, e')))"

fun min_channel_rate :: "channel_rate list \<Rightarrow> int \<Rightarrow> int" where
  "min_channel_rate [] rate = rate"
| "min_channel_rate (c # cs) rate =
     min_channel_rate cs (if cr_enabled c \<and> cr_samplingPeriodNs c < rate then cr_samplingPeriodNs c else rate)"

definition Sensor_updateDirectChannel ::
  "'s hal_methods \<Rightarrow> 's sensor_state \<Rightarrow> 's sensor_state" where
  "Sensor_updateDirectChannel hm st =
     (case st of (s, e) \<Rightarrow>
        let rate = min_channel_rate (sm_values (hs_mDirectChannels s)) INT64_MAX;
            (s1, e1) =
              (if hs_mDirectChannelRateNs s \<noteq> rate
               then (s\<lparr>hs_mDirectChannelRateNs := rate\<rparr>,
                     if rate < hs_mSamplingPeriodNs s then on_hal (hm_batch hm rate 0) e else e)
               else (s, e));
            anyChannelEnabled = list_ex cr_enabled (sm_values (hs_mDirectChannels s))
        in if hs_mDirectChannelEnabled s1 \<noteq> anyChannelEnabled
           then (s1\<lparr>hs_mDirectChannelEnabled := anyChannelEnabled,
                    hs_mNextDirectChannelNs := (if anyChannelEnabled then 0 else INT64_MAX)\<rparr>,
                 if \<not> hs_mIsEnabled s1 then on_hal (hm_activate hm anyChannelEnabled) e1 else e1)
           else (s1, e1))"

definition set_channel :: "int \<Rightarrow> channel_rate \<Rightarrow> 's sensor_state \<Rightarrow> 's sensor_state" where
  "set_channel h c st =
     (case st of (s, e) \<Rightarrow> (s\<lparr>hs_mDirectChannels := sm_put h c (hs_mDirectChannels s)\<rparr>, e))"

definition Sensor_stopDirectChannel ::
  "'s hal_methods \<Rightarrow> int \<Rightarrow> 's sensor_state \<Rightarrow> 's sensor_state" where
  "Sensor_stopDirectChannel hm channelHandle st =
     Sensor_updateDirectChannel hm
       (case sm_find channelHandle (hs_mDirectChannels (fst st)) of
          None \<Rightarrow> st
        | Some c \<Rightarrow> set_channel channelHandle \<lparr>cr_enabled = False, cr_samplingPeriodNs = 0\<rparr> st)"

definition Sensor_addDirectChannel ::
  "'s hal_methods \<Rightarrow> int \<Rightarrow> int \<Rightarrow> 's sensor_state \<Rightarrow> 's sensor_state" where
  "Sensor_addDirectChannel hm channelHandle samplingPeriodNs st =
     (if samplingPeriodNs = 0
      then Sensor_stopDirectChannel hm channelHandle
             (set_channel channelHandle \<lparr>cr_enabled = False, cr_samplingPeriodNs = 0\<rparr> st)
      else Sensor_updateDirectChannel hm
             (set_channel channelHandle \<lparr>cr_enabled = True, cr_samplingPeriodNs = samplingPeriodNs\<rparr> st))"

definition Sensor_removeDirectChannel ::
  "'s hal_methods \<Rightarrow> int \<Rightarrow> 's sensor_state \<Rightarrow> 's sensor_state" where
  "Sensor_removeDirectChannel hm channelHandle st =
     Sensor_updateDirectChannel hm
       (case st of (s, e) \<Rightarrow>
          (case sm_find channelHandle (hs_mDirectChannels s) of
             None \<Rightarrow> (s, e)
           | Some c \<Rightarrow> (s\<lparr>hs_mDirectChannels := sm_erase channelHandle (hs_mDirectChannels s)\<rparr>, e)))"

definition Sensor_setOperationMode :: "operation_mode \<Rightarrow> hal_result" where
  "Sensor_setOperationMode mode = (if mode = OM_NORMAL then R_OK else R_BAD_VALUE)"

definition Sensor_supportsDataInjection :: "Sensor \<Rightarrow> bool" where
  "Sensor_supportsDataInjection s \<longleftrightarrow> has_flag (si_flags (hs_mSensorInfo s)) FLAG_DATA_INJECTION"

definition Sensor_injectEvent :: "Event \<Rightarrow> hal_result" where
  "Sensor_injectEvent event = R_INVALID_OPERATION"

section \<open>Reading\<close>

definition areAlmostEqual :: "float_ops \<Rightarrow> real \<Rightarrow> real \<Rightarrow> bool" where
  "areAlmostEqual fo a b \<longleftrightarrow> \<bar>fp32 fo (a - b)\<bar> < fp32 fo 0.00001"

definition gyroUncalibratedFix :: "SensorInfo \<Rightarrow> real" where
  "gyroUncalibratedFix info = (if sublist ''SMI230 BOSCH'' (si_name info) then si_resolution info else 0)"

text \<open>One reading: the event and \<^verbatim>\<open>lastTemperature\<close> afterwards. (\<^verbatim>\<open>data[0]\<close> of a reading
  without data, which \<^verbatim>\<open>readPollingData\<close> never returns for a temperature sensor, is \<open>hd []\<close>.)\<close>

definition reading_event :: "float_ops \<Rightarrow> SensorInfo \<Rightarrow> real \<Rightarrow> SensorValues \<Rightarrow> Event \<times> real" where
  "reading_event fo info lastTemperature val =
     (let data = sv_data val;
          mk = (\<lambda>p. \<lparr>ev_timestamp = sv_timestamp val, ev_sensorHandle = si_sensorHandle info,
                    ev_sensorType = si_type info, ev_payload = p\<rparr>)
      in if si_type info = ST_AMBIENT_TEMPERATURE
         then (if \<not> areAlmostEqual fo (hd data) lastTemperature
               then (mk (P_scalar (hd data)), hd data)
               else (mk P_none, lastTemperature))
         else if si_type info = ST_GYROSCOPE_UNCALIBRATED
         then (if length data = 3
               then let fix = gyroUncalibratedFix info in
                    (mk (P_uncal (fp32 fo (data ! 0 + fix)) (fp32 fo (data ! 1 + fix))
                           (fp32 fo (data ! 2 + fix)) 0 0 0), lastTemperature)
               else (mk P_none, lastTemperature))
         else if si_type info = ST_ACCELEROMETER_UNCALIBRATED
         then (if length data = 3
               then (mk (P_uncal (data ! 0) (data ! 1) (data ! 2) 0 0 0), lastTemperature)
               else (mk P_none, lastTemperature))
         else (if length data = 3
               then (mk (P_vec3 (data ! 0) (data ! 1) (data ! 2) ACCURACY_HIGH), lastTemperature)
               else (mk P_none, lastTemperature)))"

fun reading_events ::
  "float_ops \<Rightarrow> SensorInfo \<Rightarrow> real \<Rightarrow> SensorValues list \<Rightarrow> Event list \<times> real" where
  "reading_events fo info t [] = ([], t)"
| "reading_events fo info t (v # vs) =
     (case reading_event fo info t v of
        (ev, t') \<Rightarrow> (case reading_events fo info t' vs of (evs, t'') \<Rightarrow> (ev # evs, t'')))"

definition Sensor_readEvents ::
  "float_ops \<Rightarrow> 's hal_methods \<Rightarrow> 's sensor_state \<Rightarrow> Event list \<times> 's sensor_state" where
  "Sensor_readEvents fo hm st =
     (case st of (s, e) \<Rightarrow>
        (case reading_events fo (hs_mSensorInfo s) (se_lastTemperature e) (hm_read hm (se_hal e)) of
           (evs, t) \<Rightarrow> (evs, (s, e\<lparr>se_lastTemperature := t\<rparr>))))"

section \<open>The polling thread\<close>

text \<open>
  One round of the loop of \<^verbatim>\<open>run\<close>, entered with \<^verbatim>\<open>mStopThread\<close> false: \<open>t1\<close> and
  \<open>t2\<close> are the two readings of the clock. The result says how the thread then waits. Deadlines
  are computed in \<^verbatim>\<open>float\<close>, because \<^verbatim>\<open>POLL_TIME_REDUCTION_FACTOR\<close> is one
  (\<open>next_deadline\<close>).
\<close>

datatype thread_wait = Wait_until_enabled | Wait_for int

definition Sensor_run_round ::
  "float_ops \<Rightarrow> 's hal_methods \<Rightarrow> int \<Rightarrow> int \<Rightarrow> 's sensor_state \<Rightarrow> thread_wait \<times> 's sensor_state" where
  "Sensor_run_round fo hm t1 t2 st =
     (if \<not> hs_mIsEnabled (fst st) \<and> \<not> hs_mDirectChannelEnabled (fst st)
      then (Wait_until_enabled, st)
      else
        (case Sensor_readEvents fo hm st of
           (events, (s0, e0)) \<Rightarrow>
             let (s1, e1) =
                   (if hs_mDirectChannelEnabled s0 \<and> t1 \<ge> hs_mNextDirectChannelNs s0
                    then (s0\<lparr>hs_mNextDirectChannelNs := next_deadline t1 (hs_mDirectChannelRateNs s0)\<rparr>,
                          emit (Write_direct events (hs_mDirectChannelRateNs s0)) e0)
                    else (s0, e0));
                 (s2, e2) =
                   (if hs_mIsEnabled s1 \<and> t1 \<ge> hs_mNextSampleTimeNs s1
                    then (s1\<lparr>hs_mNextSampleTimeNs := next_deadline t1 (hs_mSamplingPeriodNs s1)\<rparr>,
                          emit (Post_events events (isWakeUpSensor s1)) e1)
                    else (s1, e1));
                 waitTime = min (hs_mNextSampleTimeNs s2) (hs_mNextDirectChannelNs s2) - t2
             in (Wait_for (if waitTime < 1000000 then 1000000 else waitTime), (s2, e2))))"

section \<open>Sequences of operations\<close>

datatype sensor_op =
    S_batch int int
  | S_activate bool
  | S_flush int
  | S_addDirectChannel int int
  | S_stopDirectChannel int
  | S_removeDirectChannel int
  | S_round int int

fun sensor_step ::
  "float_ops \<Rightarrow> 's hal_methods \<Rightarrow> (nat \<Rightarrow> int) \<Rightarrow> sensor_op \<Rightarrow> 's sensor_state \<Rightarrow> 's sensor_state" where
  "sensor_step fo hm clk (S_batch p l) st = Sensor_batch hm p l st"
| "sensor_step fo hm clk (S_activate en) st = Sensor_activate hm clk en st"
| "sensor_step fo hm clk (S_flush junk) st = snd (Sensor_flush hm clk junk st)"
| "sensor_step fo hm clk (S_addDirectChannel h p) st = Sensor_addDirectChannel hm h p st"
| "sensor_step fo hm clk (S_stopDirectChannel h) st = Sensor_stopDirectChannel hm h st"
| "sensor_step fo hm clk (S_removeDirectChannel h) st = Sensor_removeDirectChannel hm h st"
| "sensor_step fo hm clk (S_round t1 t2) st = snd (Sensor_run_round fo hm t1 t2 st)"

section \<open>Invariant\<close>

definition live_rates :: "(int, channel_rate) stdmap \<Rightarrow> int set" where
  "live_rates m = {cr_samplingPeriodNs c | h c. sm_find h m = Some c \<and> cr_enabled c}"

definition Sensor_inv :: "Sensor \<Rightarrow> bool" where
  "Sensor_inv s \<longleftrightarrow>
     sm_ok (hs_mDirectChannels s)
     \<and> hs_mDirectChannelEnabled s = (\<exists>h c. sm_find h (hs_mDirectChannels s) = Some c \<and> cr_enabled c)
     \<and> hs_mDirectChannelRateNs s = Min (insert INT64_MAX (live_rates (hs_mDirectChannels s)))
     \<and> (\<not> hs_mIsEnabled s \<longrightarrow> hs_mNextSampleTimeNs s = INT64_MAX)
     \<and> (\<not> hs_mDirectChannelEnabled s \<longrightarrow> hs_mNextDirectChannelNs s = INT64_MAX)
     \<and> si_minDelay (hs_mSensorInfo s) * 1000 \<le> hs_mSamplingPeriodNs s
     \<and> hs_mSamplingPeriodNs s \<le> si_maxDelay (hs_mSensorInfo s) * 1000"

lemma min_channel_rate_Min:
  "min_channel_rate cs r = Min (insert r (cr_samplingPeriodNs ` {c \<in> set cs. cr_enabled c}))"
proof (induction cs arbitrary: r)
  case (Cons c cs)
  let ?S = "cr_samplingPeriodNs ` {c \<in> set cs. cr_enabled c}"
  have "cr_samplingPeriodNs ` {c' \<in> set (c # cs). cr_enabled c'} =
      (if cr_enabled c then insert (cr_samplingPeriodNs c) ?S else ?S)"
    by auto
  then show ?case by (simp add: Cons Min_insert_choice)
qed simp

lemma sm_values_find: "sm_ok m \<Longrightarrow> c \<in> set (sm_values m) \<longleftrightarrow> (\<exists>h. sm_find h m = Some c)"
  by (force simp: sm_values_def dest: sm_in_set_find sm_find_in_set)

lemma min_channel_rate_live:
  assumes "sm_ok m"
  shows "min_channel_rate (sm_values m) r = Min (insert r (live_rates m))"
proof -
  have "cr_samplingPeriodNs ` {c \<in> set (sm_values m). cr_enabled c} = live_rates m"
    using sm_values_find [OF assms] by (auto simp: live_rates_def)
  then show ?thesis by (simp add: min_channel_rate_Min)
qed

lemma any_channel_live:
  "sm_ok m \<Longrightarrow> list_ex cr_enabled (sm_values m) = (\<exists>h c. sm_find h m = Some c \<and> cr_enabled c)"
  unfolding list_ex_iff using sm_values_find [of m] by blast

text \<open>What does not concern the channels.\<close>

definition Sensor_inv0 :: "Sensor \<Rightarrow> bool" where
  "Sensor_inv0 s \<longleftrightarrow>
     sm_ok (hs_mDirectChannels s)
     \<and> (\<not> hs_mIsEnabled s \<longrightarrow> hs_mNextSampleTimeNs s = INT64_MAX)
     \<and> (\<not> hs_mDirectChannelEnabled s \<longrightarrow> hs_mNextDirectChannelNs s = INT64_MAX)
     \<and> si_minDelay (hs_mSensorInfo s) * 1000 \<le> hs_mSamplingPeriodNs s
     \<and> hs_mSamplingPeriodNs s \<le> si_maxDelay (hs_mSensorInfo s) * 1000"

lemma Sensor_inv_inv0: "Sensor_inv s \<Longrightarrow> Sensor_inv0 s"
  by (simp add: Sensor_inv_def Sensor_inv0_def)

lemma updateDirectChannel_sensor:
  "fst (Sensor_updateDirectChannel hm (s, e)) =
     (let rate = min_channel_rate (sm_values (hs_mDirectChannels s)) INT64_MAX;
          any = list_ex cr_enabled (sm_values (hs_mDirectChannels s))
      in s\<lparr>hs_mDirectChannelRateNs := rate, hs_mDirectChannelEnabled := any,
           hs_mNextDirectChannelNs :=
             (if hs_mDirectChannelEnabled s = any then hs_mNextDirectChannelNs s
              else if any then 0 else INT64_MAX)\<rparr>)"
  by (simp add: Sensor_updateDirectChannel_def Let_def)

lemma updateDirectChannel_inv:
  "Sensor_inv0 (fst st) \<Longrightarrow> Sensor_inv (fst (Sensor_updateDirectChannel hm st))"
  by (cases st)
     (auto simp: updateDirectChannel_sensor Sensor_inv_def Sensor_inv0_def Let_def
       min_channel_rate_live any_channel_live)

lemma set_channel_inv0: "Sensor_inv0 (fst st) \<Longrightarrow> Sensor_inv0 (fst (set_channel h c st))"
  by (cases st) (simp add: set_channel_def Sensor_inv0_def)

lemma stopDirectChannel_inv:
  "Sensor_inv0 (fst st) \<Longrightarrow> Sensor_inv (fst (Sensor_stopDirectChannel hm h st))"
  unfolding Sensor_stopDirectChannel_def
  by (rule updateDirectChannel_inv) (auto simp: set_channel_inv0 split: option.splits)

lemma addDirectChannel_inv:
  "Sensor_inv0 (fst st) \<Longrightarrow> Sensor_inv (fst (Sensor_addDirectChannel hm h p st))"
  by (simp add: Sensor_addDirectChannel_def stopDirectChannel_inv updateDirectChannel_inv set_channel_inv0)

lemma removeDirectChannel_inv:
  "Sensor_inv0 (fst st) \<Longrightarrow> Sensor_inv (fst (Sensor_removeDirectChannel hm h st))"
  unfolding Sensor_removeDirectChannel_def
  by (rule updateDirectChannel_inv) (auto simp: Sensor_inv0_def split: option.splits prod.splits)

lemma sendAdditionalInfoReport_fst [simp]: "fst (sendAdditionalInfoReport hm clk st) = fst st"
  by (cases st) (simp add: sendAdditionalInfoReport_def Let_def)

lemma sendAdditionalInfoReport_hal [simp]:
  "se_hal (snd (sendAdditionalInfoReport hm clk st)) = se_hal (snd st)"
  by (cases st) (simp add: sendAdditionalInfoReport_def Let_def emit_def)

lemma batch_inv: "Sensor_inv (fst st) \<Longrightarrow> Sensor_inv (fst (Sensor_batch hm p l st))"
  by (cases st) (auto simp: Sensor_batch_def Sensor_inv_def Let_def)

lemma activate_inv: "Sensor_inv (fst st) \<Longrightarrow> Sensor_inv (fst (Sensor_activate hm clk en st))"
  by (cases st) (auto simp: Sensor_activate_def Sensor_inv_def Let_def)

lemma flush_fst [simp]: "fst (snd (Sensor_flush hm clk junk st)) = fst st"
  by (cases st) (simp add: Sensor_flush_def Let_def)

lemma readEvents_fst [simp]: "fst (snd (Sensor_readEvents fo hm st)) = fst st"
  by (cases st) (simp add: Sensor_readEvents_def split: prod.splits)

lemma run_round_sensor:
  "fst (snd (Sensor_run_round fo hm t1 t2 st)) =
     (let s = fst st; direct = hs_mDirectChannelEnabled s \<and> t1 \<ge> hs_mNextDirectChannelNs s;
          post = hs_mIsEnabled s \<and> t1 \<ge> hs_mNextSampleTimeNs s
      in s\<lparr>hs_mNextDirectChannelNs := (if direct then next_deadline t1 (hs_mDirectChannelRateNs s)
                                      else hs_mNextDirectChannelNs s),
           hs_mNextSampleTimeNs := (if post then next_deadline t1 (hs_mSamplingPeriodNs s)
                                    else hs_mNextSampleTimeNs s)\<rparr>)"
  using readEvents_fst [of fo hm st]
  by (cases "Sensor_readEvents fo hm st") (auto simp: Sensor_run_round_def Let_def split: prod.splits)

lemma run_round_inv: "Sensor_inv (fst st) \<Longrightarrow> Sensor_inv (fst (snd (Sensor_run_round fo hm t1 t2 st)))"
  unfolding run_round_sensor by (auto simp: Sensor_inv_def Let_def)

lemma sensor_step_inv: "Sensor_inv (fst st) \<Longrightarrow> Sensor_inv (fst (sensor_step fo hm clk op st))"
  by (cases op)
     (auto simp: batch_inv activate_inv addDirectChannel_inv stopDirectChannel_inv
       removeDirectChannel_inv run_round_inv Sensor_inv_inv0)

lemma sensor_run_inv: "Sensor_inv (fst st) \<Longrightarrow> Sensor_inv (fst (fold (sensor_step fo hm clk) ops st))"
  by (induction ops arbitrary: st) (auto simp: sensor_step_inv)

lemma Sensor_init_inv: "si_minDelay info \<le> si_maxDelay info \<Longrightarrow> Sensor_inv (Sensor_init info config)"
  by (simp add: Sensor_inv_def Sensor_init_def live_rates_def)

section \<open>The power state of the hardware object\<close>

text \<open>The hardware is on exactly when somebody wants readings.\<close>

definition hal_synced :: "('s \<Rightarrow> bool) \<Rightarrow> 's sensor_state \<Rightarrow> bool" where
  "hal_synced is_on st \<longleftrightarrow>
     is_on (se_hal (snd st)) = (hs_mIsEnabled (fst st) \<or> hs_mDirectChannelEnabled (fst st))"

text \<open>\<open>clean\<close>: no \<^verbatim>\<open>activate(false)\<close> arrives while a direct channel is running.\<close>

fun clean :: "float_ops \<Rightarrow> 's hal_methods \<Rightarrow> (nat \<Rightarrow> int) \<Rightarrow> sensor_op list \<Rightarrow> 's sensor_state \<Rightarrow> bool" where
  "clean fo hm clk [] st = True"
| "clean fo hm clk (op # ops) st =
     (\<not> (op = S_activate False \<and> hs_mDirectChannelEnabled (fst st))
      \<and> clean fo hm clk ops (sensor_step fo hm clk op st))"

lemma on_hal_simps [simp]: "se_hal (on_hal f e) = f (se_hal e)" "se_hal (emit out e) = se_hal e"
  by (simp_all add: on_hal_def emit_def)

lemma set_channel_simps [simp]:
  "snd (set_channel h c st) = snd st"
  "hs_mIsEnabled (fst (set_channel h c st)) = hs_mIsEnabled (fst st)"
  "hs_mDirectChannelEnabled (fst (set_channel h c st)) = hs_mDirectChannelEnabled (fst st)"
  by (simp_all add: set_channel_def split: prod.splits)

lemma flush_hal [simp]: "se_hal (snd (snd (Sensor_flush hm clk junk st))) = se_hal (snd st)"
  by (cases st) (simp add: Sensor_flush_def Let_def)

lemma run_round_hal [simp]: "se_hal (snd (snd (Sensor_run_round fo hm t1 t2 st))) = se_hal (snd st)"
  by (cases st) (auto simp: Sensor_run_round_def Sensor_readEvents_def Let_def split: prod.splits)

lemma run_round_flags [simp]:
  "hs_mIsEnabled (fst (snd (Sensor_run_round fo hm t1 t2 st))) = hs_mIsEnabled (fst st)"
  "hs_mDirectChannelEnabled (fst (snd (Sensor_run_round fo hm t1 t2 st))) = hs_mDirectChannelEnabled (fst st)"
  by (simp_all add: run_round_sensor Let_def)

context sensor_hal
begin

lemma updateDirectChannel_synced:
  assumes "hm_activate hm = activate" "hm_batch hm = batch"
    and "inv (se_hal (snd st))" "hal_synced is_on st"
  shows "inv (se_hal (snd (Sensor_updateDirectChannel hm st)))
         \<and> hal_synced is_on (Sensor_updateDirectChannel hm st)
         \<and> getSensorData (se_hal (snd (Sensor_updateDirectChannel hm st))) = getSensorData (se_hal (snd st))"
  using assms
  by (cases st)
     (auto simp: Sensor_updateDirectChannel_def hal_synced_def Let_def inv_activate inv_batch on_batch
       on_activate data_activate data_batch)

lemma hal_synced_channels:
  "hal_synced is_on (set_channel h c st) = hal_synced is_on st"
  by (simp add: hal_synced_def)

lemma stopDirectChannel_synced:
  assumes "hm_activate hm = activate" "hm_batch hm = batch"
    and "inv (se_hal (snd st))" "hal_synced is_on st"
  shows "inv (se_hal (snd (Sensor_stopDirectChannel hm h st)))
         \<and> hal_synced is_on (Sensor_stopDirectChannel hm h st)
         \<and> getSensorData (se_hal (snd (Sensor_stopDirectChannel hm h st))) = getSensorData (se_hal (snd st))"
proof (cases "sm_find h (hs_mDirectChannels (fst st))")
  case None
  then show ?thesis
    using updateDirectChannel_synced [OF assms] by (simp add: Sensor_stopDirectChannel_def)
next
  case (Some c)
  then show ?thesis
    using updateDirectChannel_synced
        [OF assms(1,2), of "set_channel h \<lparr>cr_enabled = False, cr_samplingPeriodNs = 0\<rparr> st"] assms(3,4)
    by (simp add: Sensor_stopDirectChannel_def hal_synced_channels)
qed

lemma addDirectChannel_synced:
  assumes "hm_activate hm = activate" "hm_batch hm = batch"
    and "inv (se_hal (snd st))" "hal_synced is_on st"
  shows "inv (se_hal (snd (Sensor_addDirectChannel hm h p st)))
         \<and> hal_synced is_on (Sensor_addDirectChannel hm h p st)
         \<and> getSensorData (se_hal (snd (Sensor_addDirectChannel hm h p st))) = getSensorData (se_hal (snd st))"
  using updateDirectChannel_synced
      [OF assms(1,2), of "set_channel h \<lparr>cr_enabled = True, cr_samplingPeriodNs = p\<rparr> st"]
    stopDirectChannel_synced
      [OF assms(1,2), of "set_channel h \<lparr>cr_enabled = False, cr_samplingPeriodNs = 0\<rparr> st" h] assms(3,4)
  by (simp add: Sensor_addDirectChannel_def hal_synced_channels)

lemma removeDirectChannel_synced:
  assumes "hm_activate hm = activate" "hm_batch hm = batch"
    and "inv (se_hal (snd st))" "hal_synced is_on st"
  shows "inv (se_hal (snd (Sensor_removeDirectChannel hm h st)))
         \<and> hal_synced is_on (Sensor_removeDirectChannel hm h st)
         \<and> getSensorData (se_hal (snd (Sensor_removeDirectChannel hm h st))) = getSensorData (se_hal (snd st))"
proof -
  obtain s e where st: "st = (s, e)" by fastforce
  let ?st = "(s\<lparr>hs_mDirectChannels := sm_erase h (hs_mDirectChannels s)\<rparr>, e)"
  have "Sensor_removeDirectChannel hm h st = Sensor_updateDirectChannel hm st \<or>
        Sensor_removeDirectChannel hm h st = Sensor_updateDirectChannel hm ?st"
    by (auto simp: Sensor_removeDirectChannel_def st split: option.splits)
  moreover have "hal_synced is_on ?st" "inv (se_hal (snd ?st))"
    using assms(3,4) by (simp_all add: hal_synced_def st)
  ultimately show ?thesis
    using updateDirectChannel_synced [OF assms] updateDirectChannel_synced [OF assms(1,2), of ?st]
    by (auto simp: st)
qed

lemma step_synced:
  assumes "hm_activate hm = activate" "hm_batch hm = batch"
    and "inv (se_hal (snd st))" "hal_synced is_on st"
    and "\<not> (op = S_activate False \<and> hs_mDirectChannelEnabled (fst st))"
  shows "inv (se_hal (snd (sensor_step fo hm clk op st)))
         \<and> hal_synced is_on (sensor_step fo hm clk op st)
         \<and> getSensorData (se_hal (snd (sensor_step fo hm clk op st))) = getSensorData (se_hal (snd st))"
proof (cases op)
  case (S_batch p l)
  then show ?thesis
    using assms by (cases st) (auto simp: Sensor_batch_def hal_synced_def Let_def inv_batch on_batch data_batch)
next
  case (S_activate en)
  obtain s e where st: "st = (s, e)" by fastforce
  have ne: "\<not> (\<not> en \<and> hs_mDirectChannelEnabled s)" using assms(5) S_activate st by auto
  show ?thesis
  proof (cases "hs_mIsEnabled s = en")
    case True
    then show ?thesis using assms by (simp add: S_activate st Sensor_activate_def)
  next
    case False
    then show ?thesis
      using assms(1-4) ne
      by (cases en) (simp_all add: S_activate st Sensor_activate_def Let_def hal_synced_def inv_activate
          on_activate data_activate)
  qed
next
  case (S_flush junk)
  then show ?thesis using assms(3,4) by (simp add: hal_synced_def)
next
  case (S_round t1 t2)
  then show ?thesis using assms(3,4) by (simp add: hal_synced_def)
qed (use addDirectChannel_synced [OF assms(1-4)] stopDirectChannel_synced [OF assms(1-4)]
      removeDirectChannel_synced [OF assms(1-4)] in simp_all)

lemma run_synced:
  assumes "hm_activate hm = activate" "hm_batch hm = batch"
    and "inv (se_hal (snd st))" "hal_synced is_on st" "clean fo hm clk ops st"
  shows "hal_synced is_on (fold (sensor_step fo hm clk) ops st)
         \<and> getSensorData (se_hal (snd (fold (sensor_step fo hm clk) ops st))) = getSensorData (se_hal (snd st))"
  using assms(3-5)
proof (induction ops arbitrary: st)
  case (Cons op ops)
  have ok: "\<not> (op = S_activate False \<and> hs_mDirectChannelEnabled (fst st))"
    and cl: "clean fo hm clk ops (sensor_step fo hm clk op st)" using Cons.prems(3) by simp_all
  note s = step_synced [OF assms(1,2) Cons.prems(1,2) ok, of fo clk]
  show ?case using Cons.IH [OF _ _ cl] s by simp
qed simp

end

section \<open>A sensor on top of \<^verbatim>\<open>SensorCore\<close>\<close>

text \<open>The methods of a \<open>SensorCore\<close> object; \<open>read\<close> is what it reads, which depends on sysfs.\<close>

definition core_methods ::
  "'w sensor_vtable \<Rightarrow> (SensorCore \<times> 'w \<Rightarrow> SensorValues list) \<Rightarrow> (SensorCore \<times> 'w \<Rightarrow> bool \<times> real option)
     \<Rightarrow> (SensorCore \<times> 'w) hal_methods" where
  "core_methods vt rd temp =
     \<lparr>hm_activate = SensorCore_activate vt, hm_batch = SensorCore_batch vt, hm_read = rd,
      hm_temperature = temp\<rparr>"

definition sensor_start ::
  "SensorInfo \<Rightarrow> Configuration list option \<Rightarrow> SensorData \<Rightarrow> 'w \<Rightarrow> (SensorCore \<times> 'w) sensor_state" where
  "sensor_start info config sd w =
     (Sensor_init info config, \<lparr>se_hal = (SensorCore_new sd, w), se_log = [], se_lastTemperature = 0\<rparr>)"

lemma core_start:
  "SensorCore_inv (SensorCore_new sd)" "\<not> core_on (SensorCore_new sd, w)"
  "mSensorData (SensorCore_new sd) = sd"
  by (simp_all add: SensorCore_new_def SensorCore_init_def SensorCore_inv_def wanted_def core_on_def)

lemma sensor_start_synced:
  "hal_synced core_on (sensor_start info config sd w)"
  using core_start(2) by (simp add: hal_synced_def sensor_start_def Sensor_init_def)

text \<open>C29: as long as no \<^verbatim>\<open>activate(false)\<close> arrives while a direct channel runs, the hardware
  object is on exactly when the sensor is enabled or some direct channel is, and the
  description of the sensor never changes.\<close>

theorem Sensor_powers_hardware_iff_used:
  assumes "clean fo (core_methods vt rd temp) clk ops (sensor_start info config sd w)"
    and "st = fold (sensor_step fo (core_methods vt rd temp) clk) ops (sensor_start info config sd w)"
  shows "core_on (se_hal (snd st)) = (hs_mIsEnabled (fst st) \<or> hs_mDirectChannelEnabled (fst st))
         \<and> mSensorData (fst (se_hal (snd st))) = sd"
  using core_hal.run_synced [of "core_methods vt rd temp" vt "sensor_start info config sd w" fo clk ops]
    assms sensor_start_synced [of info config sd w]
  by (simp add: core_methods_def hal_synced_def) (simp add: sensor_start_def core_start)

theorem Sensor_powers_hardware_iff_used_witness:
  "let hm = core_methods device_vtable (\<lambda>_. []) (\<lambda>_. (False, None));
       st = fold (sensor_step \<lparr>fp32 = id, fp64 = id\<rparr> hm (\<lambda>_. 0)) [S_addDirectChannel 3 5000, S_activate True]
              (sensor_start SensorInfo_init None SensorData_init device_off)
   in core_on (se_hal (snd st)) = (hs_mIsEnabled (fst st) \<or> hs_mDirectChannelEnabled (fst st))
      \<and> mSensorData (fst (se_hal (snd st))) = SensorData_init"
  unfolding Let_def by (rule Sensor_powers_hardware_iff_used [OF _ refl]) simp

text \<open>\<^verbatim>\<open>activate(false)\<close> switches the hardware object off although a direct channel still
  runs: the channel keeps its rate and is served from a device that is off.\<close>

theorem Sensor_deactivate_starves_direct_channel:
  assumes "hs_mIsEnabled s" "hs_mDirectChannelEnabled s" "SensorCore_inv (fst (se_hal e))"
    and "Sensor_activate (core_methods vt rd temp) clk False (s, e) = (s', e')"
  shows "\<not> core_on (se_hal e') \<and> hs_mDirectChannelEnabled s'
         \<and> hs_mDirectChannelRateNs s' = hs_mDirectChannelRateNs s"
  using assms core_hal.on_activate [of "se_hal e" vt False]
  by (auto simp: Sensor_activate_def core_methods_def Let_def)

theorem Sensor_deactivate_starves_direct_channel_witness:
  "\<exists>s' e'. Sensor_activate (core_methods device_vtable (\<lambda>_. []) (\<lambda>_. (False, None))) (\<lambda>_. 0) False
       ((Sensor_init SensorInfo_init None)\<lparr>hs_mIsEnabled := True, hs_mDirectChannelEnabled := True\<rparr>,
        \<lparr>se_hal = (SensorCore_new SensorData_init, device_off), se_log = [], se_lastTemperature = 0\<rparr>) = (s', e')
     \<and> \<not> core_on (se_hal e') \<and> hs_mDirectChannelEnabled s' \<and> hs_mDirectChannelRateNs s' = INT64_MAX"
proof -
  let ?s = "(Sensor_init SensorInfo_init None)\<lparr>hs_mIsEnabled := True, hs_mDirectChannelEnabled := True\<rparr>"
  let ?e = "\<lparr>se_hal = (SensorCore_new SensorData_init, device_off), se_log = [], se_lastTemperature = 0\<rparr>"
  let ?hm = "core_methods device_vtable (\<lambda>_. []) (\<lambda>_. (False, None))"
  obtain s' e' where r: "Sensor_activate ?hm (\<lambda>_. 0) False (?s, ?e) = (s', e')" by fastforce
  show ?thesis
    using Sensor_deactivate_starves_direct_channel [OF _ _ _ r] r
    by (simp add: core_start) (simp add: Sensor_init_def)
qed

text \<open>C1: whatever sequence of calls and polling rounds a sensor goes through, its channel rate is
  the fastest one among the running channels, its flags say whether a channel runs, no deadline
  is set while nobody waits for it, and the sampling period stays within the sensor's limits.\<close>

theorem Sensor_invariant:
  assumes "si_minDelay info \<le> si_maxDelay info"
    and "s = fst (fold (sensor_step fo hm clk) ops (Sensor_init info config, e))"
  shows "hs_mDirectChannelRateNs s = Min (insert INT64_MAX (live_rates (hs_mDirectChannels s)))
       \<and> hs_mDirectChannelEnabled s = (\<exists>h c. sm_find h (hs_mDirectChannels s) = Some c \<and> cr_enabled c)
       \<and> (\<not> hs_mIsEnabled s \<longrightarrow> hs_mNextSampleTimeNs s = INT64_MAX)
       \<and> (\<not> hs_mDirectChannelEnabled s \<longrightarrow> hs_mNextDirectChannelNs s = INT64_MAX)
       \<and> si_minDelay (hs_mSensorInfo s) * 1000 \<le> hs_mSamplingPeriodNs s
       \<and> hs_mSamplingPeriodNs s \<le> si_maxDelay (hs_mSensorInfo s) * 1000"
proof -
  have "Sensor_inv (fst (Sensor_init info config, e))"
    using Sensor_init_inv [OF assms(1)] by simp
  then have "Sensor_inv s" unfolding assms(2) by (rule sensor_run_inv)
  then show ?thesis unfolding Sensor_inv_def by blast
qed

theorem Sensor_invariant_witness:
  "let s = fst (fold (sensor_step \<lparr>fp32 = id, fp64 = id\<rparr>
                  (core_methods device_vtable (\<lambda>_. []) (\<lambda>_. (False, None))) (\<lambda>_. 0))
                [S_addDirectChannel 3 5000, S_addDirectChannel 4 2000, S_stopDirectChannel 4]
                (Sensor_init SensorInfo_init None, snd (sensor_start SensorInfo_init None SensorData_init device_off)))
   in hs_mDirectChannelRateNs s = Min (insert INT64_MAX (live_rates (hs_mDirectChannels s)))"
  using Sensor_invariant [OF _ refl, of SensorInfo_init "\<lparr>fp32 = id, fp64 = id\<rparr>"
      "core_methods device_vtable (\<lambda>_. []) (\<lambda>_. (False, None))" "\<lambda>_. 0"
      "[S_addDirectChannel 3 5000, S_addDirectChannel 4 2000, S_stopDirectChannel 4]" None
      "snd (sensor_start SensorInfo_init None SensorData_init device_off)"]
  unfolding Let_def by (simp add: SensorInfo_init_def)

section \<open>What reaches the hardware object\<close>

text \<open>An \<^verbatim>\<open>ISensorHal\<close> that records its calls.\<close>

definition recording :: "(hal_cmd list \<Rightarrow> SensorValues list) \<Rightarrow> hal_cmd list hal_methods" where
  "recording rd =
     \<lparr>hm_activate = (\<lambda>en cs. cs @ [Cmd_activate en]), hm_batch = (\<lambda>p l cs. cs @ [Cmd_batch p l]),
      hm_read = rd, hm_temperature = (\<lambda>_. (False, None))\<rparr>"

fun is_batch :: "hal_cmd \<Rightarrow> bool" where
  "is_batch (Cmd_batch p l) = True"
| "is_batch (Cmd_activate e) = False"

text \<open>when a direct channel stops and the rate that is left is not below the sensor's own
  sampling period, the hardware object is not batched back to that period; it stays at the rate
  of the channel that has stopped.\<close>

theorem Sensor_stop_leaves_channel_rate:
  assumes "Sensor_stopDirectChannel (recording rd) h (s, e) = (s', e')"
    and "hs_mSamplingPeriodNs s \<le> hs_mDirectChannelRateNs s'"
  shows "filter is_batch (se_hal e') = filter is_batch (se_hal e)"
  using assms
  by (auto simp: Sensor_stopDirectChannel_def Sensor_updateDirectChannel_def set_channel_def recording_def
      Let_def split: option.splits if_splits)

theorem Sensor_stop_leaves_channel_rate_witness:
  "filter is_batch (se_hal (snd (Sensor_stopDirectChannel (recording (\<lambda>_. [])) 3
      (Sensor_addDirectChannel (recording (\<lambda>_. [])) 3 5000000
        (Sensor_init (SensorInfo_init\<lparr>si_minDelay := 20000\<rparr>) None,
         \<lparr>se_hal = [], se_log = [], se_lastTemperature = 0\<rparr>)))))
    = [Cmd_batch 5000000 0]"
proof -
  let ?s0 = "(Sensor_init (SensorInfo_init\<lparr>si_minDelay := 20000\<rparr>) None,
              \<lparr>se_hal = [], se_log = [], se_lastTemperature = 0\<rparr>)"
  obtain s1 e1 where 1: "Sensor_addDirectChannel (recording (\<lambda>_. [])) 3 5000000 ?s0 = (s1, e1)" by fastforce
  obtain s2 e2 where 2: "Sensor_stopDirectChannel (recording (\<lambda>_. [])) 3 (s1, e1) = (s2, e2)" by fastforce
  have s1: "s1 = fst (Sensor_addDirectChannel (recording (\<lambda>_. [])) 3 5000000 ?s0)"
    and e1: "e1 = snd (Sensor_addDirectChannel (recording (\<lambda>_. [])) 3 5000000 ?s0)" using 1 by simp_all
  have h1: "se_hal e1 = [Cmd_batch 5000000 0, Cmd_activate True]" "hs_mSamplingPeriodNs s1 = 20000000"
    "hs_mDirectChannels s1 = [(3, \<lparr>cr_enabled = True, cr_samplingPeriodNs = 5000000\<rparr>)]"
    by (simp_all add: s1 e1 Sensor_addDirectChannel_def Sensor_updateDirectChannel_def set_channel_def
        Sensor_init_def Let_def sm_values_def recording_def INT64_MAX_def on_hal_def)
  have "hs_mDirectChannelRateNs s2 = INT64_MAX"
    using arg_cong [OF 2, of fst] h1
    by (auto simp: Sensor_stopDirectChannel_def updateDirectChannel_sensor set_channel_def sm_values_def Let_def)
  then have "filter is_batch (se_hal e2) = filter is_batch (se_hal e1)"
    by (intro Sensor_stop_leaves_channel_rate [OF 2]) (simp add: h1 INT64_MAX_def)
  then show ?thesis by (simp add: 1 2 h1)
qed

section \<open>Flush and the additional-info report\<close>

lemma map_zip_snd: "length as = length bs \<Longrightarrow> map (\<lambda>x. f (snd x)) (zip as bs) = map f bs"
  by (induction rule: list_induct2) auto

lemma additional_info_frames_shape:
  "\<exists>mid. additional_info_frames hm s hal =
     [\<lparr>ai_type = AINFO_BEGIN, ai_serial = 0, ai_data_float = replicate 14 0\<rparr>] @ mid @
     [\<lparr>ai_type = AINFO_END, ai_serial = 0, ai_data_float = replicate 14 0\<rparr>]"
proof -
  have "\<exists>m. snd (getSensorPlacement cfg fr) = fr @ m" for cfg fr
    by (auto simp: getSensorPlacement_def split: option.splits list.splits prod.splits if_splits)
  moreover have "\<exists>m. snd (getSensorTemperature r fr) = fr @ m" for r fr
    by (auto simp: getSensorTemperature_def split: option.splits bool.splits prod.splits)
  ultimately obtain m1 m2 where
    "additional_info_frames hm s hal =
       (([\<lparr>ai_type = AINFO_BEGIN, ai_serial = 0, ai_data_float = replicate 14 0\<rparr>] @ m1) @ m2) @
       [\<lparr>ai_type = AINFO_END, ai_serial = 0, ai_data_float = replicate 14 0\<rparr>]"
    unfolding additional_info_frames_def Let_def by (metis (no_types))
  then show ?thesis by (intro exI [of _ "m1 @ m2"]) simp
qed

text \<open>\<^verbatim>\<open>flush\<close> of an enabled sensor that is not one-shot posts the flush-complete event
  and, after it, one additional-info report that is framed by \<^verbatim>\<open>AINFO_BEGIN\<close> and
  \<^verbatim>\<open>AINFO_END\<close>; every event carries the sensor's handle. Otherwise it fails and posts
  nothing.\<close>

theorem Sensor_flush_posts_complete_then_info:
  "case Sensor_flush hm clk junk (s, e) of
     (r, s', e') \<Rightarrow>
       s' = s \<and> se_hal e' = se_hal e \<and>
       (if hs_mIsEnabled s \<and> si_flags (hs_mSensorInfo s) AND 4 = 0
        then r = R_OK \<and>
          (\<exists>ev info. se_log e' = se_log e @ [Post_events [ev] (isWakeUpSensor s),
                                             Post_events info (isWakeUpSensor s)]
             \<and> ev_payload ev = P_flush_complete
             \<and> (\<exists>b m f. map ev_payload info = map P_additional ([b] @ m @ [f])
                   \<and> ai_type b = AINFO_BEGIN \<and> ai_type f = AINFO_END)
             \<and> (\<forall>x\<in>set (ev # info). ev_sensorHandle x = si_sensorHandle (hs_mSensorInfo s)))
        else r = R_BAD_VALUE \<and> se_log e' = se_log e)"
proof (cases "hs_mIsEnabled s \<and> si_flags (hs_mSensorInfo s) AND 4 = 0")
  case False
  then show ?thesis by (auto simp: Sensor_flush_def has_flag_def FLAG_ONE_SHOT_MODE_def)
next
  case True
  obtain mid where frames: "additional_info_frames hm s (se_hal e) =
     [\<lparr>ai_type = AINFO_BEGIN, ai_serial = 0, ai_data_float = replicate 14 0\<rparr>] @ mid @
     [\<lparr>ai_type = AINFO_END, ai_serial = 0, ai_data_float = replicate 14 0\<rparr>]"
    using additional_info_frames_shape [of hm s "se_hal e"] by (elim exE)
  let ?fr = "additional_info_frames hm s (se_hal e)"
  let ?info = "map (\<lambda>(i, frame). \<lparr>ev_timestamp = clk i, ev_sensorHandle = si_sensorHandle (hs_mSensorInfo s),
      ev_sensorType = ST_ADDITIONAL_INFO, ev_payload = P_additional frame\<rparr>) (zip [0 ..< length ?fr] ?fr)"
  let ?ev = "\<lparr>ev_timestamp = junk, ev_sensorHandle = si_sensorHandle (hs_mSensorInfo s),
      ev_sensorType = ST_META_DATA, ev_payload = P_flush_complete\<rparr>"
  have ne: "?info \<noteq> []" by (simp add: frames)
  have run: "Sensor_flush hm clk junk (s, e) = (R_OK, s,
      emit (Post_events ?info (isWakeUpSensor s)) (emit (Post_events [?ev] (isWakeUpSensor s)) e))"
    using True ne
    by (simp add: Sensor_flush_def has_flag_def FLAG_ONE_SHOT_MODE_def sendAdditionalInfoReport_def Let_def)
  have pay: "map ev_payload ?info = map P_additional ?fr"
    by (simp add: case_prod_unfold comp_def map_zip_snd)
  have hd: "\<forall>x\<in>set (?ev # ?info). ev_sensorHandle x = si_sensorHandle (hs_mSensorInfo s)" by auto
  let ?b = "\<lparr>ai_type = AINFO_BEGIN, ai_serial = 0, ai_data_float = replicate 14 0\<rparr>"
  let ?f = "\<lparr>ai_type = AINFO_END, ai_serial = 0, ai_data_float = replicate 14 0\<rparr>"
  have "map ev_payload ?info = map P_additional ([?b] @ mid @ [?f])"
    by (rule trans [OF pay arg_cong [OF frames, of "map P_additional"]])
  then have "\<exists>b m f. map ev_payload ?info = map P_additional ([b] @ m @ [f])
      \<and> ai_type b = AINFO_BEGIN \<and> ai_type f = AINFO_END"
    by (intro exI [of _ ?b] exI [of _ mid] exI [of _ ?f] conjI) simp_all
  with hd True show ?thesis
    unfolding run by (auto simp: emit_def simp del: map_map)
qed

definition placement_entry :: "Orientation \<Rightarrow> Location \<Rightarrow> nat \<Rightarrow> nat \<Rightarrow> real" where
  "placement_entry orient loc row col =
     (let ax = [or_getFirstX orient, or_getFirstY orient, or_getFirstZ orient] in
      if col = 3 then [loc_x loc, loc_y loc, loc_z loc] ! row
      else if or_rotate orient then (if row = col then 1 else 0)
      else if ax_map (ax ! col) = int row then (if ax_negate (ax ! col) then -1 else 1)
      else 0)"

text \<open>The array after the six writes, by matrix cell.\<close>

lemma placement_cells:
  fixes z :: real
  assumes "a < 3" "b < 3" "c < 3" "row < 3" "col < (4::nat)"
  shows "((replicate 14 z)[3 := lx, 7 := ly, 11 := lz, 4 * a := sa, 4 * b + 1 := sb, 4 * c + 2 := sc])
           ! (4 * row + col) =
         (if col = 3 then [lx, ly, lz] ! row
          else if col = 0 then (if a = row then sa else z)
          else if col = 1 then (if b = row then sb else z)
          else (if c = row then sc else z))"
proof -
  have n: "[lx, ly, lz] ! row = (if row = 0 then lx else if row = 1 then ly else lz)"
    using assms(4) by (auto simp: less_Suc_eq numeral_eq_Suc)
  have idx: "(3 = 4 * row + col) = (row = 0 \<and> col = 3)" "(7 = 4 * row + col) = (row = 1 \<and> col = 3)"
    "(11 = 4 * row + col) = (row = 2 \<and> col = 3)" "(4 * a = 4 * row + col) = (a = row \<and> col = 0)"
    "(4 * b + 1 = 4 * row + col) = (b = row \<and> col = 1)" "(4 * c + 2 = 4 * row + col) = (c = row \<and> col = 2)"
    using assms(5) by presburger+
  have len: "3 < (14::nat)" "7 < (14::nat)" "11 < (14::nat)" "4 * a < 14" "4 * b + 1 < 14" "4 * c + 2 < 14"
    "4 * row + col < 14"
    using assms by simp_all
  have upd: "((replicate 14 z)[3 := lx, 7 := ly, 11 := lz, 4 * a := sa, 4 * b + 1 := sb, 4 * c + 2 := sc])
      ! (4 * row + col) =
    (if c = row \<and> col = 2 then sc else if b = row \<and> col = 1 then sb else if a = row \<and> col = 0 then sa
     else if row = 2 \<and> col = 3 then lz else if row = 1 \<and> col = 3 then ly
     else if row = 0 \<and> col = 3 then lx else z)"
    by (simp only: nth_list_update length_list_update length_replicate len idx nth_replicate)
  have "col = 0 \<or> col = 1 \<or> col = 2 \<or> col = 3" "row = 0 \<or> row = 1 \<or> row = 2"
    using assms(4,5) by linarith+
  then show ?thesis unfolding upd n by (elim disjE) simp_all
qed

text \<open>with a configured location and orientation whose axes map into the three rows, the
  placement frame is the 3 by 4 matrix of the rotation (the identity when the HAL already
  rotates) and the location.\<close>

theorem getSensorPlacement_matrix:
  assumes "\<forall>ax \<in> {or_getFirstX orient, or_getFirstY orient, or_getFirstZ orient}. ax_map ax \<in> {0, 1, 2}"
    and "cfg_orientation cfg = orient # os" "cfg_location cfg = loc # ls"
  shows "\<exists>data. getSensorPlacement (Some (cfg # cfgs)) frames =
             (R_OK, frames @ [\<lparr>ai_type = AINFO_SENSOR_PLACEMENT, ai_serial = 0, ai_data_float = data\<rparr>])
           \<and> length data = 14
           \<and> (\<forall>row < 3. \<forall>col < 4. data ! (4 * row + col) = placement_entry orient loc row col)"
proof -
  obtain a b c where m: "ax_map (or_getFirstX orient) = int a" "ax_map (or_getFirstY orient) = int b"
    "ax_map (or_getFirstZ orient) = int c" and abc: "a < 3" "b < 3" "c < 3"
    using assms(1) by (auto intro: that [of "nat (ax_map (or_getFirstX orient))"
        "nat (ax_map (or_getFirstY orient))" "nat (ax_map (or_getFirstZ orient))"])
  define sgn where "sgn ax = (if ax_negate ax then -1 else 1 :: real)" for ax :: AxisType
  define data where "data =
    (if or_rotate orient
     then (replicate 14 0)[3 := loc_x loc, 7 := loc_y loc, 11 := loc_z loc, 4 * 0 := 1, 4 * 1 + 1 := 1, 4 * 2 + 2 := 1]
     else (replicate 14 0)[3 := loc_x loc, 7 := loc_y loc, 11 := loc_z loc, 4 * a := sgn (or_getFirstX orient),
            4 * b + 1 := sgn (or_getFirstY orient), 4 * c + 2 := sgn (or_getFirstZ orient)])"
  define i where "i = 4 * a"
  define j where "j = 4 * b + 1"
  define k where "k = 4 * c + 2"
  have small: "i < 14" "j < 14" "k < 14" using abc by (simp_all add: i_def j_def k_def)
  have sucs: "Suc (4 * b) = j" "Suc (Suc (4 * c)) = k" by (simp_all add: j_def k_def)
  have "axis_entry 0 (or_getFirstX orient) = (int i, sgn (or_getFirstX orient))"
    "axis_entry 1 (or_getFirstY orient) = (int j, sgn (or_getFirstY orient))"
    "axis_entry 2 (or_getFirstZ orient) = (int k, sgn (or_getFirstZ orient))"
    using abc by (simp_all add: axis_entry_def m sgn_def i_def j_def k_def i32_id)
  then have run: "getSensorPlacement (Some (cfg # cfgs)) frames =
      (R_OK, frames @ [\<lparr>ai_type = AINFO_SENSOR_PLACEMENT, ai_serial = 0, ai_data_float = data\<rparr>])"
    using small
    by (simp add: getSensorPlacement_def getLocation_def getOrientation_def assms(2,3) data_def
        i_def [symmetric] sucs)
  have cells: "data ! (4 * row + col) = placement_entry orient loc row col" if "row < 3" "col < 4" for row col
  proof -
    have c4: "col = 0 \<or> col = 1 \<or> col = 2 \<or> col = 3" using that(2) by linarith
    show ?thesis
    proof (cases "or_rotate orient")
      case True
      then have "data = (replicate 14 0)[3 := loc_x loc, 7 := loc_y loc, 11 := loc_z loc,
          4 * 0 := 1, 4 * 1 + 1 := 1, 4 * 2 + 2 := 1]"
        by (simp only: data_def if_True)
      then have "data ! (4 * row + col) =
          (if col = 3 then [loc_x loc, loc_y loc, loc_z loc] ! row
           else if col = 0 then (if 0 = row then 1 else 0)
           else if col = 1 then (if 1 = row then 1 else 0)
           else (if 2 = row then 1 else 0))"
        using placement_cells [OF _ _ _ that, of 0 1 2] by simp
      then show ?thesis
        using c4 True by (elim disjE) (auto simp: placement_entry_def)
    next
      case False
      then have "data = (replicate 14 0)[3 := loc_x loc, 7 := loc_y loc, 11 := loc_z loc,
          4 * a := sgn (or_getFirstX orient), 4 * b + 1 := sgn (or_getFirstY orient),
          4 * c + 2 := sgn (or_getFirstZ orient)]"
        by (simp only: data_def if_False)
      then have "data ! (4 * row + col) =
          (if col = 3 then [loc_x loc, loc_y loc, loc_z loc] ! row
           else if col = 0 then (if a = row then sgn (or_getFirstX orient) else 0)
           else if col = 1 then (if b = row then sgn (or_getFirstY orient) else 0)
           else (if c = row then sgn (or_getFirstZ orient) else 0))"
        using placement_cells [OF abc that] by simp
      then show ?thesis
        using c4 False by (elim disjE) (simp_all add: placement_entry_def m sgn_def)
    qed
  qed
  have "length data = 14" by (simp add: data_def)
  with run cells show ?thesis by blast
qed

definition example_config :: Configuration where
  "example_config =
     \<lparr>cfg_orientation = [\<lparr>or_rotate = False, or_getFirstX = \<lparr>ax_map = 1, ax_negate = True\<rparr>,
        or_getFirstY = \<lparr>ax_map = 0, ax_negate = False\<rparr>, or_getFirstZ = \<lparr>ax_map = 2, ax_negate = False\<rparr>\<rparr>],
      cfg_location = [\<lparr>loc_x = 10, loc_y = 20, loc_z = 30\<rparr>]\<rparr>"

theorem getSensorPlacement_matrix_witness:
  "\<exists>data. getSensorPlacement (Some [example_config]) [] =
       (R_OK, [\<lparr>ai_type = AINFO_SENSOR_PLACEMENT, ai_serial = 0, ai_data_float = data\<rparr>])
     \<and> length data = 14 \<and> data ! 4 = -1 \<and> data ! 1 = 1 \<and> data ! 11 = 30"
proof -
  let ?o = "hd (cfg_orientation example_config)" and ?l = "hd (cfg_location example_config)"
  obtain data where d: "getSensorPlacement (Some [example_config]) [] =
       (R_OK, [] @ [\<lparr>ai_type = AINFO_SENSOR_PLACEMENT, ai_serial = 0, ai_data_float = data\<rparr>])"
    "length data = 14" "\<forall>row < 3. \<forall>col < 4. data ! (4 * row + col) = placement_entry ?o ?l row col"
    using getSensorPlacement_matrix [of ?o example_config "[]" ?l "[]" "[]" "[]"]
    by (auto simp: example_config_def)
  have "data ! (4 * 1 + 0) = placement_entry ?o ?l 1 0" "data ! (4 * 0 + 1) = placement_entry ?o ?l 0 1"
    "data ! (4 * 2 + 3) = placement_entry ?o ?l 2 3"
    by (rule d(3) [rule_format]; simp)+
  then have "data ! 4 = -1 \<and> data ! 1 = 1 \<and> data ! 11 = 30"
    by (simp add: placement_entry_def example_config_def)
  with d(1,2) show ?thesis by auto
qed

section \<open>Deadlines\<close>

lemma run_round_posts:
  assumes "Sensor_run_round fo hm t1 t2 (s, e) = (wt, s', e')"
  shows "(\<exists>evs. Post_events evs (isWakeUpSensor s) \<in> set (drop (length (se_log e)) (se_log e')))
           = (hs_mIsEnabled s \<and> hs_mNextSampleTimeNs s \<le> t1)"
  using assms
  by (auto simp: Sensor_run_round_def Sensor_readEvents_def emit_def isWakeUpSensor_def Let_def
      split: prod.splits if_splits)


text \<open>after 11.6 days of uptime a sensor with a period of 5 ms posts a sample in every round:
  the deadline computed in single precision lies in the past.\<close>

theorem Sensor_deadline_in_past:
  assumes "hs_mIsEnabled s" "hs_mNextSampleTimeNs s \<le> 1000000000000000" "hs_mSamplingPeriodNs s = 5000000"
    and "Sensor_run_round fo hm 1000000000000000 t2 (s, e) = (wt, s1, e1)"
  shows "hs_mNextSampleTimeNs s1 < 1000000000000000 \<and> (\<not> hs_mDirectChannelEnabled s \<longrightarrow>
           Sensor_inv s \<longrightarrow> 1000000000000000 \<le> t2 \<longrightarrow> wt = Wait_for 1000000)"
proof -
  have s1: "s1 = fst (snd (Sensor_run_round fo hm 1000000000000000 t2 (s, e)))" using assms(4) by simp
  have p: "next_deadline 1000000000000000 5000000 = 999999986991104"
    by (simp add: next_deadline_def f32_def f32_nat_def round_half_even_def nbits.simps Let_def)
  have n: "hs_mNextSampleTimeNs s1 = 999999986991104"
    using assms(1-3) by (simp add: s1 run_round_sensor Let_def p)
  moreover have "wt = Wait_for 1000000"
    if "\<not> hs_mDirectChannelEnabled s" "Sensor_inv s" "1000000000000000 \<le> t2"
    using assms(4,1-3) that n
    by (auto simp: Sensor_run_round_def Sensor_readEvents_def Let_def p split: prod.splits if_splits)
  ultimately show ?thesis by simp
qed

definition example_running :: Sensor where
  "example_running = (Sensor_init (SensorInfo_init\<lparr>si_minDelay := 5000, si_maxDelay := 5000\<rparr>) None)
     \<lparr>hs_mIsEnabled := True, hs_mNextSampleTimeNs := 0\<rparr>"

definition example_env :: "unit sensor_env" where
  "example_env = \<lparr>se_hal = (), se_log = [], se_lastTemperature = 0\<rparr>"

definition silent :: "unit hal_methods" where
  "silent = \<lparr>hm_activate = (\<lambda>_ _. ()), hm_batch = (\<lambda>_ _ _. ()), hm_read = (\<lambda>_. []), hm_temperature = (\<lambda>_. (False, None))\<rparr>"

theorem Sensor_deadline_in_past_witness:
  "\<exists>wt s1 e1. Sensor_run_round \<lparr>fp32 = id, fp64 = id\<rparr> silent 1000000000000000 1000000000000001
       (example_running, example_env) = (wt, s1, e1)
     \<and> hs_mNextSampleTimeNs s1 < 1000000000000000 \<and> wt = Wait_for 1000000"
proof -
  obtain wt s1 e1 where r: "Sensor_run_round \<lparr>fp32 = id, fp64 = id\<rparr> silent 1000000000000000 1000000000000001
       (example_running, example_env) = (wt, s1, e1)" by (metis prod_cases3)
  show ?thesis
    using Sensor_deadline_in_past [OF _ _ _ r] r
    by (simp add: example_running_def Sensor_init_def Sensor_inv_def live_rates_def)
qed


theorem Sensor_flush_posts_complete_then_info_witness:
  "\<exists>ev info. se_log (snd (snd (Sensor_flush silent (\<lambda>i. int i) 7 (example_running, example_env))))
     = [Post_events [ev] False, Post_events info False] \<and> ev_payload ev = P_flush_complete"
proof -
  obtain r s' e' where f: "Sensor_flush silent (\<lambda>i. int i) 7 (example_running, example_env) = (r, s', e')"
    by (metis prod_cases3)
  show ?thesis
    using Sensor_flush_posts_complete_then_info [where hm = silent and clk = "\<lambda>i. int i" and junk = 7 and s = example_running and e = example_env]
    by (fastforce simp: f example_running_def example_env_def Sensor_init_def isWakeUpSensor_def
        SensorInfo_init_def has_flag_def)
qed

end
