(* ===== verification/Sensor_Shutdown.thy ===== *)
theory Sensor_Shutdown
  imports Hal_Prelude
begin

text \<open>
  How the destructor of \<^verbatim>\<open>Sensor\<close> and its polling thread end, as two threads that step
  in any order and share \<^verbatim>\<open>mRunMutex\<close> and \<^verbatim>\<open>mStopThread\<close>. The destructor of
  \<^verbatim>\<open>sensors/2.X/Sensor.cpp\<close> (and of \<^verbatim>\<open>sensors/aidl/Sensor.cpp\<close>) calls
  \<^verbatim>\<open>lock.release()\<close>, which gives up the ownership of the mutex without unlocking it; the one
  of \<^verbatim>\<open>sensors/multihal/common/Sensor.cpp\<close> lets the lock go out of scope. The parameter
  \<open>scoped\<close> of the step relation tells them apart.
\<close>

section \<open>The two threads\<close>

datatype thread_name = Run_thread | Destructor

text \<open>\<open>R_check\<close> is the loop test, with the mutex held; a round of the body ends in a wait, which
  releases the mutex (\<open>R_wait\<close>) and must get it back (\<open>R_wake\<close>).\<close>

datatype run_pc = R_start | R_check | R_wait | R_wake | R_done

datatype destructor_pc = D_lock | D_set | D_unlock | D_join | D_done

record shutdown =
  sh_owner :: "thread_name option"
  sh_stop :: bool
  sh_run :: run_pc
  sh_dtor :: destructor_pc

definition shutdown_init :: shutdown where
  "shutdown_init = \<lparr>sh_owner = None, sh_stop = False, sh_run = R_start, sh_dtor = D_lock\<rparr>"

inductive shutdown_step :: "bool \<Rightarrow> shutdown \<Rightarrow> shutdown \<Rightarrow> bool" for scoped :: bool where
  run_lock:
    "sh_run s \<in> {R_start, R_wake} \<Longrightarrow> sh_owner s = None \<Longrightarrow>
     shutdown_step scoped s (s\<lparr>sh_owner := Some Run_thread, sh_run := R_check\<rparr>)"
| run_round:
    "sh_run s = R_check \<Longrightarrow> \<not> sh_stop s \<Longrightarrow>
     shutdown_step scoped s (s\<lparr>sh_owner := None, sh_run := R_wait\<rparr>)"
| run_exit:
    "sh_run s = R_check \<Longrightarrow> sh_stop s \<Longrightarrow>
     shutdown_step scoped s (s\<lparr>sh_owner := None, sh_run := R_done\<rparr>)"
| run_wake:
    "sh_run s = R_wait \<Longrightarrow> shutdown_step scoped s (s\<lparr>sh_run := R_wake\<rparr>)"
| dtor_lock:
    "sh_dtor s = D_lock \<Longrightarrow> sh_owner s = None \<Longrightarrow>
     shutdown_step scoped s (s\<lparr>sh_owner := Some Destructor, sh_dtor := D_set\<rparr>)"
| dtor_set:
    "sh_dtor s = D_set \<Longrightarrow> shutdown_step scoped s (s\<lparr>sh_stop := True, sh_dtor := D_unlock\<rparr>)"
| dtor_unlock:
    "sh_dtor s = D_unlock \<Longrightarrow>
     shutdown_step scoped s (s\<lparr>sh_owner := (if scoped then None else sh_owner s), sh_dtor := D_join\<rparr>)"
| dtor_join:
    "sh_dtor s = D_join \<Longrightarrow> sh_run s = R_done \<Longrightarrow> shutdown_step scoped s (s\<lparr>sh_dtor := D_done\<rparr>)"

inductive_cases shutdown_stepE: "shutdown_step scoped s s'"

inductive shutdown_reach :: "bool \<Rightarrow> shutdown \<Rightarrow> bool" for scoped :: bool where
  reach_init: "shutdown_reach scoped shutdown_init"
| reach_step: "shutdown_reach scoped s \<Longrightarrow> shutdown_step scoped s s' \<Longrightarrow> shutdown_reach scoped s'"

section \<open>Invariants\<close>

text \<open>The mutex protects the critical sections, and \<^verbatim>\<open>mStopThread\<close> is set inside one.\<close>

definition shutdown_inv :: "bool \<Rightarrow> shutdown \<Rightarrow> bool" where
  "shutdown_inv scoped s \<longleftrightarrow>
     (sh_run s = R_check \<longleftrightarrow> sh_owner s = Some Run_thread)
     \<and> (sh_dtor s \<in> {D_set, D_unlock} \<longrightarrow> sh_owner s = Some Destructor)
     \<and> (sh_owner s = Some Destructor \<longrightarrow> sh_dtor s \<noteq> D_lock)
     \<and> (sh_dtor s \<in> {D_join, D_done} \<longrightarrow> (sh_owner s = Some Destructor \<longleftrightarrow> \<not> scoped))
     \<and> (sh_stop s \<longleftrightarrow> sh_dtor s \<in> {D_unlock, D_join, D_done})
     \<and> (sh_run s = R_done \<longrightarrow> scoped \<and> sh_dtor s \<in> {D_join, D_done})
     \<and> (sh_dtor s = D_done \<longrightarrow> sh_run s = R_done)"

lemma shutdown_inv_init: "shutdown_inv scoped shutdown_init"
  by (simp add: shutdown_inv_def shutdown_init_def)

lemma shutdown_inv_step: "shutdown_step scoped s s' \<Longrightarrow> shutdown_inv scoped s \<Longrightarrow> shutdown_inv scoped s'"
  by (erule shutdown_stepE) (auto simp: shutdown_inv_def)

lemma shutdown_inv_reach: "shutdown_reach scoped s \<Longrightarrow> shutdown_inv scoped s"
  by (induction rule: shutdown_reach.induct) (auto intro: shutdown_inv_init shutdown_inv_step)

text \<open>C36: the destructor that calls \<^verbatim>\<open>lock.release()\<close> never returns: whatever the two
  threads do, it does not get past \<^verbatim>\<open>mRunThread.join()\<close>, because it still owns the mutex
  that the polling thread needs in order to leave its loop.\<close>

theorem Sensor_destructor_deadlocks:
  assumes "shutdown_reach False s"
  shows "sh_dtor s \<noteq> D_done \<and> (sh_dtor s = D_join \<longrightarrow> sh_owner s = Some Destructor \<and> sh_run s \<noteq> R_done)"
  using shutdown_inv_reach [OF assms] by (auto simp: shutdown_inv_def)

theorem Sensor_destructor_deadlocks_witness:
  "\<exists>s. shutdown_reach False s \<and> sh_dtor s = D_join \<and> sh_owner s = Some Destructor \<and> sh_run s \<noteq> R_done"
proof -
  let ?s1 = "shutdown_init\<lparr>sh_owner := Some Destructor, sh_dtor := D_set\<rparr>"
  let ?s2 = "?s1\<lparr>sh_stop := True, sh_dtor := D_unlock\<rparr>"
  let ?s3 = "?s2\<lparr>sh_owner := sh_owner ?s2, sh_dtor := D_join\<rparr>"
  have "shutdown_step False shutdown_init ?s1"
    by (rule shutdown_step.dtor_lock) (simp_all add: shutdown_init_def)
  moreover have "shutdown_step False ?s1 ?s2" by (rule shutdown_step.dtor_set) simp
  moreover have "shutdown_step False ?s2 ?s3"
    using shutdown_step.dtor_unlock [of ?s2 False] by simp
  ultimately have r: "shutdown_reach False ?s3"
    using shutdown_reach.intros by metis
  from Sensor_destructor_deadlocks [OF r] r show ?thesis by (intro exI [of _ ?s3]) simp
qed

section \<open>Termination of the corrected destructor\<close>

text \<open>How many steps are left once \<^verbatim>\<open>mStopThread\<close> is set and the mutex is free.\<close>

fun shutdown_rank :: "shutdown \<Rightarrow> nat" where
  "shutdown_rank s =
     (case sh_run s of R_wait \<Rightarrow> 3 | R_wake \<Rightarrow> 2 | R_start \<Rightarrow> 2 | R_check \<Rightarrow> 1 | R_done \<Rightarrow> 0)
     + (if sh_dtor s = D_done then 0 else 1)"

lemma shutdown_rank_decreases:
  "shutdown_inv True s \<Longrightarrow> sh_dtor s \<in> {D_join, D_done} \<Longrightarrow> shutdown_step True s s' \<Longrightarrow>
   sh_dtor s' \<in> {D_join, D_done} \<and> shutdown_rank s' < shutdown_rank s"
  by (erule shutdown_stepE) (auto simp: shutdown_inv_def)

lemma shutdown_progress:
  assumes "shutdown_inv True s" "sh_dtor s = D_join"
  shows "\<exists>s'. shutdown_step True s s'"
proof (cases "sh_run s")
  case R_done
  then show ?thesis using assms by (auto intro: shutdown_step.dtor_join)
next
  case R_check
  then show ?thesis using assms by (auto simp: shutdown_inv_def intro: shutdown_step.run_exit)
next
  case R_wait
  then show ?thesis by (auto intro: shutdown_step.run_wake)
next
  case R_start
  then have "sh_owner s = None" using assms by (cases "sh_owner s"; cases "the (sh_owner s)") (auto simp: shutdown_inv_def)
  with R_start show ?thesis by (auto intro: shutdown_step.run_lock)
next
  case R_wake
  then have "sh_owner s = None" using assms by (cases "sh_owner s"; cases "the (sh_owner s)") (auto simp: shutdown_inv_def)
  with R_wake show ?thesis by (auto intro: shutdown_step.run_lock)
qed

lemma shutdown_bounded:
  "(shutdown_step True ^^ n) s s' \<Longrightarrow> shutdown_inv True s \<Longrightarrow> sh_dtor s \<in> {D_join, D_done} \<Longrightarrow>
   shutdown_inv True s' \<and> sh_dtor s' \<in> {D_join, D_done} \<and> n + shutdown_rank s' \<le> shutdown_rank s"
proof (induction n arbitrary: s')
  case (Suc n)
  then obtain t where t: "(shutdown_step True ^^ n) s t" "shutdown_step True t s'" by auto
  have "shutdown_inv True t" "sh_dtor t \<in> {D_join, D_done}" "n + shutdown_rank t \<le> shutdown_rank s"
    using Suc.IH [OF t(1) Suc.prems(2,3)] by auto
  then show ?case
    using shutdown_rank_decreases [OF _ _ t(2)] shutdown_inv_step [OF t(2)] by fastforce
qed simp



end
