(* ===== verification/Sensors_Service.thy ===== *)
theory Sensors_Service
  imports Hal_Sensor Composite_Sensors Direct_Channel
begin

text \<open>
  The service of \<^verbatim>\<open>sensors/2.X/Sensors.h\<close> (template \<^verbatim>\<open>Sensors\<close>): the sensors by handle,
  the direct report channels, the event queue and the wake lock.

  The state of all \<^verbatim>\<open>ISensorHal\<close> objects is one value \<open>'s\<close> (they share devices), and
  \<open>hms\<close> gives the methods of the object behind each handle. What the operating system answers
  during a call is the record \<open>sensors_os\<close>: the fast message queue, the wake-lock calls, the
  clock and the event conversion of the framework are not part of the repository. A sensor's
  callbacks are delivered in order, after the sensor's own step.
\<close>

section \<open>Configuration file\<close>

record xml_sensor =
  xs_name :: string
  xs_type :: int
  xs_configuration :: "Configuration list"

record xml_module =
  xm_halName :: string
  xm_sensors :: "xml_sensor list"

definition gSensorConfigLocationList :: "string list" where
  "gSensorConfigLocationList = [''/odm/etc/sensors/'', ''/vendor/etc/sensors/'']"

fun getSensorConfiguration :: "xml_sensor list \<Rightarrow> string \<Rightarrow> int \<Rightarrow> Configuration list option" where
  "getSensorConfiguration [] name type = None"
| "getSensorConfiguration (s # sensor_list) name type =
     (if name = xs_name s \<and> type = xs_type s then Some (xs_configuration s)
      else getSensorConfiguration sensor_list name type)"

text \<open>\<open>read\<close> is the generated parser: the modules of a file, if it can be read.\<close>

fun readSensorsConfig_loop :: "(string \<Rightarrow> xml_module list option) \<Rightarrow> string list \<Rightarrow> xml_sensor list option" where
  "readSensorsConfig_loop read [] = None"
| "readSensorsConfig_loop read (dir # dirs) =
     (case read (dir @ ''sensor_hal_configuration.xml'') of
        None \<Rightarrow> readSensorsConfig_loop read dirs
      | Some modules \<Rightarrow>
          (case List.find (\<lambda>m. xm_halName m = ''bosch-hal'') modules of
             Some m \<Rightarrow> Some (xm_sensors m)
           | None \<Rightarrow> readSensorsConfig_loop read dirs))"

definition readSensorsConfigFromXml :: "(string \<Rightarrow> xml_module list option) \<Rightarrow> xml_sensor list option" where
  "readSensorsConfigFromXml read = readSensorsConfig_loop read gSensorConfigLocationList"

section \<open>State\<close>

record 'e sensors_os =
  os_fmq_write :: "Event list \<Rightarrow> bool"
  os_acquire_wake_lock :: int
  os_release_wake_lock :: int
  os_uptimeMillis :: int
  os_convertToSensorEvent :: "Event \<Rightarrow> 'e"

record wake_lock_state =
  wl_mOutstandingWakeUpEvents :: int
  wl_mAutoReleaseWakeLockTime :: int
  wl_mHasWakeLock :: bool

record ('s, 'e) sensors =
  ss_mSensors :: "(int, Sensor) stdmap"
  ss_hal :: 's
  ss_lastTemperature :: real
  ss_mNextHandle :: int
  ss_mReportLatencyNs :: "(int, int) stdmap"
  ss_mDirectChannels :: "(int, 'e direct_channel) stdmap"
  ss_mNextChannelHandle :: int
  ss_wake :: wake_lock_state
  ss_mReadWakeLockQueueRun :: bool
  ss_written :: "Event list"

definition Sensors_init :: "'s \<Rightarrow> ('s, 'e) sensors" where
  "Sensors_init hal =
     \<lparr>ss_mSensors = [], ss_hal = hal, ss_lastTemperature = 0, ss_mNextHandle = 1,
      ss_mReportLatencyNs = [], ss_mDirectChannels = [], ss_mNextChannelHandle = 1,
      ss_wake = \<lparr>wl_mOutstandingWakeUpEvents = 0, wl_mAutoReleaseWakeLockTime = 0, wl_mHasWakeLock = False\<rparr>,
      ss_mReadWakeLockQueueRun = False, ss_written = []\<rparr>"

section \<open>Adding the sensors\<close>

definition report_mode_flags :: "SensorReportingMode \<Rightarrow> int \<Rightarrow> int" where
  "report_mode_flags mode flags =
     (case mode of
        ON_CHANGE \<Rightarrow> flags OR FLAG_ON_CHANGE_MODE
      | CONTINUOUS \<Rightarrow>
          (((flags OR FLAG_CONTINUOUS_MODE) OR FLAG_ADDITIONAL_INFO) OR FLAG_DIRECT_CHANNEL_ASHMEM)
            OR push_bit FLAG_SHIFT_DIRECT_REPORT (rate_level_int RL_NORMAL)
      | ONE_SHOT \<Rightarrow> flags OR FLAG_ONE_SHOT_MODE
      | SPECIAL_REPORTING \<Rightarrow> flags OR FLAG_SPECIAL_REPORTING_MODE)"

definition sensor_info_of :: "int \<Rightarrow> SensorData \<Rightarrow> SensorInfo" where
  "sensor_info_of handle data = SensorInfo_init
     \<lparr>si_sensorHandle := handle, si_name := sd_sensorName data, si_vendor := sd_vendor data,
      si_type := bst_int (sd_type data), si_typeAsString := [], si_version := 1,
      si_fifoReservedEventCount := 0, si_fifoMaxEventCount := 0, si_requiredPermission := [],
      si_flags := report_mode_flags (sd_reportMode data) 0,
      si_minDelay := sd_minDelayUs data, si_maxDelay := sd_maxDelayUs data,
      si_power := sd_power data, si_maxRange := sd_range data, si_resolution := sd_resolution data\<rparr>"

text \<open>\<^verbatim>\<open>*sensors_config_list\<close> is dereferenced without a check: undefined when no file has
  the module.\<close>

fun AddSensors ::
  "(string \<Rightarrow> xml_module list option) \<Rightarrow> SensorData list \<Rightarrow> ('s, 'e) sensors \<Rightarrow> cpp_exception + ('s, 'e) sensors" where
  "AddSensors read [] st = Inr st"
| "AddSensors read (data # available) st =
     (let info = sensor_info_of (ss_mNextHandle st) data in
      case readSensorsConfigFromXml read of
        None \<Rightarrow> Inl Undefined_behaviour
      | Some sensors_config_list \<Rightarrow>
          let config = getSensorConfiguration sensors_config_list (si_name info) (si_type info) in
          AddSensors read available
            (st\<lparr>ss_mNextHandle := i32 (ss_mNextHandle st + 1),
                ss_mSensors := sm_put (si_sensorHandle info) (Sensor_init info config) (ss_mSensors st)\<rparr>))"

section \<open>Wake lock\<close>

definition updateWakeLock :: "'e sensors_os \<Rightarrow> int \<Rightarrow> int \<Rightarrow> wake_lock_state \<Rightarrow> wake_lock_state" where
  "updateWakeLock os eventsWritten eventsHandled w =
     (let newVal = i32 (wl_mOutstandingWakeUpEvents w + eventsWritten - eventsHandled);
          w1 = w\<lparr>wl_mOutstandingWakeUpEvents := (if newVal < 0 then 0 else newVal)\<rparr>;
          w2 = (if eventsWritten > 0
                then w1\<lparr>wl_mAutoReleaseWakeLockTime := os_uptimeMillis os + WAKE_LOCK_SECONDS * 1000\<rparr>
                else w1)
      in if \<not> wl_mHasWakeLock w2 \<and> wl_mOutstandingWakeUpEvents w2 > 0 \<and> os_acquire_wake_lock os = 0
         then w2\<lparr>wl_mHasWakeLock := True\<rparr>
         else if wl_mHasWakeLock w2
         then (let w3 = (if os_uptimeMillis os > wl_mAutoReleaseWakeLockTime w2
                         then w2\<lparr>wl_mOutstandingWakeUpEvents := 0\<rparr> else w2)
               in if wl_mOutstandingWakeUpEvents w3 = 0 \<and> os_release_wake_lock os = 0
                  then w3\<lparr>wl_mHasWakeLock := False\<rparr> else w3)
         else w2)"

text \<open>One round of \<^verbatim>\<open>readWakeLockFMQ\<close>; \<open>eventsHandled\<close> is what the blocking read left in the
  variable (0 after a timeout).\<close>

definition readWakeLockFMQ_round :: "'e sensors_os \<Rightarrow> int \<Rightarrow> ('s, 'e) sensors \<Rightarrow> ('s, 'e) sensors" where
  "readWakeLockFMQ_round os eventsHandled st =
     (if ss_mReadWakeLockQueueRun st
      then st\<lparr>ss_wake := updateWakeLock os 0 (i32 eventsHandled) (ss_wake st)\<rparr> else st)"

section \<open>Callbacks of the sensors\<close>

definition Sensors_postEvents ::
  "'e sensors_os \<Rightarrow> Event list \<Rightarrow> bool \<Rightarrow> ('s, 'e) sensors \<Rightarrow> ('s, 'e) sensors" where
  "Sensors_postEvents os events wakeup st =
     (if os_fmq_write os events
      then let st' = st\<lparr>ss_written := ss_written st @ events\<rparr> in
           if wakeup
           then st'\<lparr>ss_wake := updateWakeLock os (i32 (int (length events))) 0 (ss_wake st')\<rparr>
           else st'
      else st)"

text \<open>One event for one channel; the subscripts insert a zero rate or count when missing.\<close>

definition channel_event ::
  "'e sensors_os \<Rightarrow> int \<Rightarrow> Event \<Rightarrow> 'e direct_channel \<Rightarrow> 'e direct_channel" where
  "channel_event os samplingPeriodNs event ch =
     (let h = ev_sensorHandle event in
      if h \<notin> set (dc_sensorHandles ch) then ch
      else
        (case sm_subscript 0 h (dc_rateNs ch) of
           (rate, rateNs') \<Rightarrow>
             let ch1 = ch\<lparr>dc_rateNs := rateNs'\<rparr> in
             if rate = 0 then ch1
             else
               let count = i32 (fst (sm_subscript 0 h (dc_sampleCount ch1)) + 1);
                   ch2 = ch1\<lparr>dc_sampleCount := sm_put h count (dc_sampleCount ch1)\<rparr>
               in if i64 (samplingPeriodNs * count) < rate then ch2
                  else (DirectChannelBase_write (os_convertToSensorEvent os event) ch2)
                         \<lparr>dc_sampleCount := sm_put h 0 (dc_sampleCount ch2)\<rparr>))"

text \<open>\<open>busy\<close>: another thread holds \<^verbatim>\<open>mChannelMutex\<close>, and \<^verbatim>\<open>try_lock\<close> fails.\<close>

definition Sensors_writeToDirectBuffer ::
  "'e sensors_os \<Rightarrow> bool \<Rightarrow> Event list \<Rightarrow> int \<Rightarrow> ('s, 'e) sensors \<Rightarrow> ('s, 'e) sensors" where
  "Sensors_writeToDirectBuffer os busy events samplingPeriodNs st =
     (if busy then st
      else fold (\<lambda>event st. st\<lparr>ss_mDirectChannels :=
                   sm_map (\<lambda>_. channel_event os samplingPeriodNs event) (ss_mDirectChannels st)\<rparr>) events st)"

section \<open>Calling a sensor\<close>

fun deliver :: "'e sensors_os \<Rightarrow> bool \<Rightarrow> sensor_output \<Rightarrow> ('s, 'e) sensors \<Rightarrow> ('s, 'e) sensors" where
  "deliver os busy (Post_events events wakeup) st = Sensors_postEvents os events wakeup st"
| "deliver os busy (Write_direct events period) st = Sensors_writeToDirectBuffer os busy events period st"

definition sensor_env_of :: "('s, 'e) sensors \<Rightarrow> 's sensor_env" where
  "sensor_env_of st = \<lparr>se_hal = ss_hal st, se_log = [], se_lastTemperature = ss_lastTemperature st\<rparr>"

definition call_sensor ::
  "'e sensors_os \<Rightarrow> bool \<Rightarrow> int \<Rightarrow> Sensor \<Rightarrow> ('s sensor_state \<Rightarrow> 's sensor_state)
     \<Rightarrow> ('s, 'e) sensors \<Rightarrow> ('s, 'e) sensors" where
  "call_sensor os busy h s f st =
     (case f (s, sensor_env_of st) of
        (s', e') \<Rightarrow>
          fold (deliver os busy) (se_log e')
            (st\<lparr>ss_mSensors := sm_put h s' (ss_mSensors st), ss_hal := se_hal e',
                ss_lastTemperature := se_lastTemperature e'\<rparr>))"

text \<open>A call on the sensor behind a handle, if there is one.\<close>

definition on_sensor ::
  "'e sensors_os \<Rightarrow> int \<Rightarrow> ('s sensor_state \<Rightarrow> 's sensor_state) \<Rightarrow> ('s, 'e) sensors \<Rightarrow> ('s, 'e) sensors" where
  "on_sensor os h f st =
     (case sm_find h (ss_mSensors st) of None \<Rightarrow> st | Some s \<Rightarrow> call_sensor os False h s f st)"

section \<open>The methods of \<^verbatim>\<open>ISensors\<close>\<close>

definition Sensors_setOperationMode :: "operation_mode \<Rightarrow> ('s, 'e) sensors \<Rightarrow> hal_result" where
  "Sensors_setOperationMode mode st =
     fold (\<lambda>sensor res. Sensor_setOperationMode mode) (sm_values (ss_mSensors st)) R_OK"

definition Sensors_activate ::
  "(int \<Rightarrow> 's hal_methods) \<Rightarrow> 'e sensors_os \<Rightarrow> (nat \<Rightarrow> int) \<Rightarrow> int \<Rightarrow> bool \<Rightarrow> ('s, 'e) sensors
     \<Rightarrow> hal_result \<times> ('s, 'e) sensors" where
  "Sensors_activate hms os clk sensorHandle enabled st =
     (case sm_find sensorHandle (ss_mSensors st) of
        Some sensor \<Rightarrow>
          (R_OK, call_sensor os False sensorHandle sensor (Sensor_activate (hms sensorHandle) clk enabled) st)
      | None \<Rightarrow> (R_BAD_VALUE, st))"

text \<open>\<open>callback\<close>: the callback is not null; \<open>flag\<close>: \<^verbatim>\<open>createEventFlag\<close> succeeded.\<close>

definition Sensors_initializeBase ::
  "(int \<Rightarrow> 's hal_methods) \<Rightarrow> 'e sensors_os \<Rightarrow> (nat \<Rightarrow> int) \<Rightarrow> bool \<Rightarrow> bool \<Rightarrow> ('s, 'e) sensors
     \<Rightarrow> hal_result \<times> ('s, 'e) sensors" where
  "Sensors_initializeBase hms os clk callback flag st =
     (let st1 = fold (\<lambda>h. on_sensor os h (Sensor_activate (hms h) clk False)) (sm_keys (ss_mSensors st)) st;
          st2 = st1\<lparr>ss_mReadWakeLockQueueRun := False\<rparr>;
          st3 = fold (\<lambda>(channelHandle, channel).
                   fold (\<lambda>h. on_sensor os h (Sensor_removeDirectChannel (hms h) channelHandle))
                     (dc_sensorHandles channel))
                  (ss_mDirectChannels st2) st2;
          st4 = st3\<lparr>ss_mDirectChannels := [], ss_written := [], ss_mReadWakeLockQueueRun := True\<rparr>
      in (if \<not> flag \<or> \<not> callback then R_BAD_VALUE else R_OK, st4))"

definition Sensors_batch ::
  "(int \<Rightarrow> 's hal_methods) \<Rightarrow> 'e sensors_os \<Rightarrow> int \<Rightarrow> int \<Rightarrow> int \<Rightarrow> ('s, 'e) sensors
     \<Rightarrow> hal_result \<times> ('s, 'e) sensors" where
  "Sensors_batch hms os sensorHandle samplingPeriodNs maxReportLatencyNs st =
     (let (usedLatency, st1) =
            (if maxReportLatencyNs > 0
             then let lat = sm_put sensorHandle maxReportLatencyNs (ss_mReportLatencyNs st) in
                  (fold (\<lambda>sensor used.
                       if Sensor_isEnabled sensor
                       then (case sm_find sensorHandle lat of None \<Rightarrow> used | Some l \<Rightarrow> min used l)
                       else used)
                     (sm_values (ss_mSensors st)) maxReportLatencyNs,
                   st\<lparr>ss_mReportLatencyNs := lat\<rparr>)
             else (maxReportLatencyNs, st))
      in case sm_find sensorHandle (ss_mSensors st1) of
           Some sensor \<Rightarrow>
             (R_OK, call_sensor os False sensorHandle sensor
                      (Sensor_batch (hms sensorHandle) samplingPeriodNs usedLatency) st1)
         | None \<Rightarrow> (R_BAD_VALUE, st1))"

definition Sensors_flush ::
  "(int \<Rightarrow> 's hal_methods) \<Rightarrow> 'e sensors_os \<Rightarrow> (nat \<Rightarrow> int) \<Rightarrow> int \<Rightarrow> int \<Rightarrow> ('s, 'e) sensors
     \<Rightarrow> hal_result \<times> ('s, 'e) sensors" where
  "Sensors_flush hms os clk junk sensorHandle st =
     (case sm_find sensorHandle (ss_mSensors st) of
        Some sensor \<Rightarrow>
          (fst (Sensor_flush (hms sensorHandle) clk junk (sensor, sensor_env_of st)),
           call_sensor os False sensorHandle sensor (\<lambda>s. snd (Sensor_flush (hms sensorHandle) clk junk s)) st)
      | None \<Rightarrow> (R_BAD_VALUE, st))"

definition Sensors_injectSensorData :: "Event \<Rightarrow> ('s, 'e) sensors \<Rightarrow> hal_result" where
  "Sensors_injectSensorData event st =
     (case sm_find (ev_sensorHandle event) (ss_mSensors st) of
        Some sensor \<Rightarrow> Sensor_injectEvent event
      | None \<Rightarrow> R_BAD_VALUE)"

text \<open>One round of the polling thread of a sensor.\<close>

definition Sensors_poll ::
  "(int \<Rightarrow> 's hal_methods) \<Rightarrow> 'e sensors_os \<Rightarrow> float_ops \<Rightarrow> bool \<Rightarrow> int \<Rightarrow> int \<Rightarrow> int \<Rightarrow> ('s, 'e) sensors
     \<Rightarrow> ('s, 'e) sensors" where
  "Sensors_poll hms os fo busy t1 t2 sensorHandle st =
     (case sm_find sensorHandle (ss_mSensors st) of
        Some sensor \<Rightarrow>
          call_sensor os busy sensorHandle sensor (\<lambda>s. snd (Sensor_run_round fo (hms sensorHandle) t1 t2 s)) st
      | None \<Rightarrow> st)"

section \<open>Direct channels\<close>

text \<open>\<open>mem\<close> is the shared memory: whether its type is \<^verbatim>\<open>ASHMEM\<close>, and what
  \<^verbatim>\<open>convertFromSharedMemInfo\<close> makes of it.\<close>

definition Sensors_registerDirectChannel ::
  "ashmem \<Rightarrow> nat \<Rightarrow> 'e \<Rightarrow> bool \<Rightarrow> direct_mem option \<Rightarrow> ('s, 'e) sensors
     \<Rightarrow> cpp_exception + (hal_result \<times> int) \<times> ('s, 'e) sensors" where
  "Sensors_registerDirectChannel sys event_size zero is_ashmem mem st =
     (if \<not> is_ashmem then Inr ((R_BAD_VALUE, -1), st)
      else case mem of
        None \<Rightarrow> Inr ((R_BAD_VALUE, -1), st)
      | Some directMem \<Rightarrow>
          (case AshmemDirectChannel sys event_size zero directMem of
             Inl ex \<Rightarrow> Inl ex
           | Inr ch \<Rightarrow>
               if DirectChannelBase_isValid ch
               then let channelHandle = ss_mNextChannelHandle st in
                    Inr ((R_OK, channelHandle),
                         st\<lparr>ss_mNextChannelHandle := i32 (channelHandle + 1),
                            ss_mDirectChannels :=
                              (if sm_find channelHandle (ss_mDirectChannels st) = None
                               then sm_put channelHandle ch (ss_mDirectChannels st)
                               else ss_mDirectChannels st)\<rparr>)
               else Inr ((case DirectChannelBase_getError ch of
                            BAD_VALUE \<Rightarrow> R_BAD_VALUE | NO_MEMORY \<Rightarrow> R_NO_MEMORY | NO_INIT \<Rightarrow> R_INVALID_OPERATION,
                          -1), st)))"

definition Sensors_unregisterDirectChannel ::
  "(int \<Rightarrow> 's hal_methods) \<Rightarrow> 'e sensors_os \<Rightarrow> int \<Rightarrow> ('s, 'e) sensors \<Rightarrow> hal_result \<times> ('s, 'e) sensors" where
  "Sensors_unregisterDirectChannel hms os channelHandle st =
     (let st1 = (case sm_find channelHandle (ss_mDirectChannels st) of
                   None \<Rightarrow> st
                 | Some channel \<Rightarrow>
                     fold (\<lambda>h. on_sensor os h (Sensor_removeDirectChannel (hms h) channelHandle))
                       (dc_sensorHandles channel) st)
      in (R_OK, st1\<lparr>ss_mDirectChannels := sm_erase channelHandle (ss_mDirectChannels st1)\<rparr>))"

text \<open>The channel object is a heap object that the map points to: an update goes to the map.\<close>

definition set_rate :: "int \<Rightarrow> int \<Rightarrow> int \<Rightarrow> ('s, 'e) sensors \<Rightarrow> ('s, 'e) sensors" where
  "set_rate channelHandle sensorHandle ns st =
     st\<lparr>ss_mDirectChannels := sm_map (\<lambda>h ch. if h = channelHandle
          then ch\<lparr>dc_rateNs := sm_put sensorHandle ns (dc_rateNs ch)\<rparr> else ch) (ss_mDirectChannels st)\<rparr>"

definition add_channel_handle :: "int \<Rightarrow> int \<Rightarrow> ('s, 'e) sensors \<Rightarrow> ('s, 'e) sensors" where
  "add_channel_handle channelHandle sensorHandle st =
     st\<lparr>ss_mDirectChannels := sm_map (\<lambda>h ch. if h = channelHandle
          then ch\<lparr>dc_sensorHandles := dc_sensorHandles ch @ [sensorHandle]\<rparr> else ch) (ss_mDirectChannels st)\<rparr>"

text \<open>The rate of a level, when the sensor allows the level.\<close>

definition rate_of_level :: "int \<Rightarrow> rate_level \<Rightarrow> int option" where
  "rate_of_level maxRate rate =
     (case rate of
        RL_STOP \<Rightarrow> Some 0
      | RL_NORMAL \<Rightarrow> Some 20000000
      | RL_FAST \<Rightarrow> if maxRate < rate_level_int RL_FAST then None else Some 5000000
      | RL_VERY_FAST \<Rightarrow> if maxRate < rate_level_int RL_VERY_FAST then None else Some 1250000
      | RL_OTHER n \<Rightarrow> None)"

definition Sensors_configDirectReport ::
  "(int \<Rightarrow> 's hal_methods) \<Rightarrow> 'e sensors_os \<Rightarrow> int \<Rightarrow> int \<Rightarrow> rate_level \<Rightarrow> ('s, 'e) sensors
     \<Rightarrow> (hal_result \<times> int) \<times> ('s, 'e) sensors" where
  "Sensors_configDirectReport hms os sensorHandle channelHandle rate st =
     (case sm_find channelHandle (ss_mDirectChannels st) of
        None \<Rightarrow> ((R_BAD_VALUE, -1), st)
      | Some channel \<Rightarrow>
          if sensorHandle = -1 \<and> rate = RL_STOP
          then ((R_OK, 0),
                fold (\<lambda>h st. if sm_find h (ss_mSensors st) = None then st
                             else on_sensor os h (Sensor_stopDirectChannel (hms h) channelHandle)
                                    (set_rate channelHandle h 0 st))
                  (dc_sensorHandles channel) st)
          else
            (case sm_find sensorHandle (ss_mSensors st) of
               None \<Rightarrow> ((R_BAD_VALUE, -1), st)
             | Some sensor \<Rightarrow>
                 let flags = si_flags (hs_mSensorInfo sensor) in
                 if \<not> has_flag flags FLAG_DIRECT_CHANNEL_ASHMEM then ((R_BAD_VALUE, -1), st)
                 else
                   (let maxRate = i32 (drop_bit FLAG_SHIFT_DIRECT_REPORT (flags AND FLAG_MASK_DIRECT_REPORT)) in
                    case rate_of_level maxRate rate of
                      None \<Rightarrow> ((R_BAD_VALUE, -1), st)
                    | Some ns \<Rightarrow>
                        ((R_OK, sensorHandle),
                         on_sensor os sensorHandle (Sensor_addDirectChannel (hms sensorHandle) channelHandle ns)
                           (add_channel_handle channelHandle sensorHandle (set_rate channelHandle sensorHandle ns st))))))"

section \<open>Consistency of sensors and channels\<close>

text \<open>The period at which a sensor serves a channel, and the one the channel has granted it.\<close>

definition live :: "Sensor \<Rightarrow> int \<Rightarrow> int option" where
  "live s c = (case sm_find c (hs_mDirectChannels s) of
                 Some r \<Rightarrow> if cr_enabled r then Some (cr_samplingPeriodNs r) else None
               | None \<Rightarrow> None)"

definition granted1 :: "'e direct_channel \<Rightarrow> int \<Rightarrow> int option" where
  "granted1 ch h = (case sm_find h (dc_rateNs ch) of
                      Some p \<Rightarrow> if p \<noteq> 0 \<and> h \<in> set (dc_sensorHandles ch) then Some p else None
                    | None \<Rightarrow> None)"

definition granted :: "(int, 'e direct_channel) stdmap \<Rightarrow> int \<Rightarrow> int \<Rightarrow> int option" where
  "granted chs h c = (case sm_find c chs of Some ch \<Rightarrow> granted1 ch h | None \<Rightarrow> None)"

definition consistent :: "('s, 'e) sensors \<Rightarrow> bool" where
  "consistent st \<longleftrightarrow>
     (\<forall>h s c. sm_find h (ss_mSensors st) = Some s \<longrightarrow> live s c = granted (ss_mDirectChannels st) h c)"

definition service_inv :: "('s, 'e) sensors \<Rightarrow> bool" where
  "service_inv st \<longleftrightarrow>
     sm_ok (ss_mSensors st) \<and> sm_ok (ss_mDirectChannels st)
     \<and> (\<forall>h s. sm_find h (ss_mSensors st) = Some s \<longrightarrow> Sensor_inv s \<and> si_sensorHandle (hs_mSensorInfo s) = h)
     \<and> consistent st"

subsection \<open>What the sensor's operations do to its channels\<close>

lemma updateDirectChannel_facts:
  "hs_mDirectChannels (fst (Sensor_updateDirectChannel hm st)) = hs_mDirectChannels (fst st)"
  "hs_mSensorInfo (fst (Sensor_updateDirectChannel hm st)) = hs_mSensorInfo (fst st)"
  "hs_mIsEnabled (fst (Sensor_updateDirectChannel hm st)) = hs_mIsEnabled (fst st)"
  "se_log (snd (Sensor_updateDirectChannel hm st)) = se_log (snd st)"
  by (cases st; simp add: Sensor_updateDirectChannel_def Let_def on_hal_def)+

lemma set_channel_facts:
  "hs_mDirectChannels (fst (set_channel h c st)) = sm_put h c (hs_mDirectChannels (fst st))"
  "hs_mSensorInfo (fst (set_channel h c st)) = hs_mSensorInfo (fst st)"
  "hs_mIsEnabled (fst (set_channel h c st)) = hs_mIsEnabled (fst st)"
  by (cases st; simp add: set_channel_def)+

lemma live_simps:
  "live (fst (Sensor_updateDirectChannel hm st)) c' = live (fst st) c'"
  "live (fst (set_channel c r st)) c' =
     (if c' = c then (if cr_enabled r then Some (cr_samplingPeriodNs r) else None) else live (fst st) c')"
  by (simp_all add: live_def updateDirectChannel_facts set_channel_facts)

lemma stopDirectChannel_facts:
  "live (fst (Sensor_stopDirectChannel hm c st)) c' = (if c' = c then None else live (fst st) c')"
  "hs_mSensorInfo (fst (Sensor_stopDirectChannel hm c st)) = hs_mSensorInfo (fst st)"
  "hs_mIsEnabled (fst (Sensor_stopDirectChannel hm c st)) = hs_mIsEnabled (fst st)"
  "se_log (snd (Sensor_stopDirectChannel hm c st)) = se_log (snd st)"
  by (auto simp: Sensor_stopDirectChannel_def live_simps updateDirectChannel_facts set_channel_facts
      split: option.splits) (simp add: live_def)

lemma addDirectChannel_facts:
  "live (fst (Sensor_addDirectChannel hm c p st)) c' =
     (if c' = c then (if p = 0 then None else Some p) else live (fst st) c')"
  "hs_mSensorInfo (fst (Sensor_addDirectChannel hm c p st)) = hs_mSensorInfo (fst st)"
  "hs_mIsEnabled (fst (Sensor_addDirectChannel hm c p st)) = hs_mIsEnabled (fst st)"
  "se_log (snd (Sensor_addDirectChannel hm c p st)) = se_log (snd st)"
  by (simp_all add: Sensor_addDirectChannel_def stopDirectChannel_facts updateDirectChannel_facts
      set_channel_facts live_simps)

lemma removeDirectChannel_facts:
  "live (fst (Sensor_removeDirectChannel hm c st)) c' = (if c' = c then None else live (fst st) c')"
  "hs_mSensorInfo (fst (Sensor_removeDirectChannel hm c st)) = hs_mSensorInfo (fst st)"
  "hs_mIsEnabled (fst (Sensor_removeDirectChannel hm c st)) = hs_mIsEnabled (fst st)"
  "se_log (snd (Sensor_removeDirectChannel hm c st)) = se_log (snd st)"
  by (cases st; auto simp: Sensor_removeDirectChannel_def live_def updateDirectChannel_facts
      split: option.splits)+

lemma live_cong: "hs_mDirectChannels s = hs_mDirectChannels s' \<Longrightarrow> live s c = live s' c"
  by (simp add: live_def)

lemma other_ops_channels:
  "hs_mDirectChannels (fst (Sensor_activate hm clk en st)) = hs_mDirectChannels (fst st)"
  "hs_mDirectChannels (fst (Sensor_batch hm p l st)) = hs_mDirectChannels (fst st)"
  "hs_mDirectChannels (fst (snd (Sensor_run_round fo hm t1 t2 st))) = hs_mDirectChannels (fst st)"
  by (cases st; simp add: Sensor_activate_def Sensor_batch_def run_round_sensor Let_def)+

lemma other_ops_info:
  "hs_mSensorInfo (fst (Sensor_activate hm clk en st)) = hs_mSensorInfo (fst st)"
  "hs_mSensorInfo (fst (Sensor_batch hm p l st)) = hs_mSensorInfo (fst st)"
  "hs_mSensorInfo (fst (snd (Sensor_run_round fo hm t1 t2 st))) = hs_mSensorInfo (fst st)"
  by (cases st; simp add: Sensor_activate_def Sensor_batch_def run_round_sensor Let_def)+

subsection \<open>What the callbacks do to the channels\<close>

lemma channel_event_granted [simp]: "granted1 (channel_event os p ev ch) h = granted1 ch h"
  by (auto simp: channel_event_def granted1_def sm_subscript_def DirectChannelBase_write_def Let_def
      split: option.splits)

lemma deliver_facts:
  "ss_mSensors (deliver os busy out st) = ss_mSensors st"
  "granted (ss_mDirectChannels (deliver os busy out st)) h c = granted (ss_mDirectChannels st) h c"
  "sm_ok (ss_mDirectChannels (deliver os busy out st)) = sm_ok (ss_mDirectChannels st)"
proof -
  have ev: "granted (sm_map (\<lambda>_. channel_event os p ev) chs) h c = granted chs h c" for chs ev p
    by (simp add: granted_def split: option.splits)
  have fold: "ss_mSensors (fold (\<lambda>event st. st\<lparr>ss_mDirectChannels :=
                   sm_map (\<lambda>_. channel_event os p event) (ss_mDirectChannels st)\<rparr>) evs st) = ss_mSensors st
     \<and> granted (ss_mDirectChannels (fold (\<lambda>event st. st\<lparr>ss_mDirectChannels :=
                   sm_map (\<lambda>_. channel_event os p event) (ss_mDirectChannels st)\<rparr>) evs st)) h c
         = granted (ss_mDirectChannels st) h c
     \<and> sm_ok (ss_mDirectChannels (fold (\<lambda>event st. st\<lparr>ss_mDirectChannels :=
                   sm_map (\<lambda>_. channel_event os p event) (ss_mDirectChannels st)\<rparr>) evs st))
         = sm_ok (ss_mDirectChannels st)" for p evs
    by (induction evs arbitrary: st) (simp_all add: ev)
  show "ss_mSensors (deliver os busy out st) = ss_mSensors st"
    "granted (ss_mDirectChannels (deliver os busy out st)) h c = granted (ss_mDirectChannels st) h c"
    "sm_ok (ss_mDirectChannels (deliver os busy out st)) = sm_ok (ss_mDirectChannels st)"
    by (cases out; simp add: Sensors_postEvents_def Sensors_writeToDirectBuffer_def fold Let_def)+
qed

lemma delivers_facts:
  "ss_mSensors (fold (deliver os busy) outs st) = ss_mSensors st
   \<and> granted (ss_mDirectChannels (fold (deliver os busy) outs st)) h c = granted (ss_mDirectChannels st) h c
   \<and> sm_ok (ss_mDirectChannels (fold (deliver os busy) outs st)) = sm_ok (ss_mDirectChannels st)"
  by (induction outs arbitrary: st) (simp_all add: deliver_facts)

lemma call_sensor_facts:
  "ss_mSensors (call_sensor os busy h s f st) = sm_put h (fst (f (s, sensor_env_of st))) (ss_mSensors st)"
  "granted (ss_mDirectChannels (call_sensor os busy h s f st)) h' c = granted (ss_mDirectChannels st) h' c"
  "sm_ok (ss_mDirectChannels (call_sensor os busy h s f st)) = sm_ok (ss_mDirectChannels st)"
  by (simp_all add: call_sensor_def delivers_facts split: prod.splits)

text \<open>The same without granted channels: the map of channels is untouched when nothing is written.\<close>

lemma call_sensor_quiet:
  assumes "se_log (snd (f (s, sensor_env_of st))) = []"
  shows "ss_mDirectChannels (call_sensor os busy h s f st) = ss_mDirectChannels st"
  using assms by (simp add: call_sensor_def case_prod_unfold)

end
