(* ===== verification/Sensors_Invariant.thy ===== *)
theory Sensors_Invariant
  imports Sensors_Service
begin

text \<open>
  The invariant of the service of theory \<open>Sensors_Service\<close>: the sensors and the direct channels
  agree, after every sequence of calls and polling rounds, on which sensor serves which channel
  at which period.
\<close>

section \<open>One call\<close>

lemma service_inv_call:
  assumes inv: "service_inv st0" and s: "sm_find h (ss_mSensors st0) = Some s"
    and st1: "ss_mSensors st1 = ss_mSensors st0" "sm_ok (ss_mDirectChannels st1)"
    and g: "\<And>h' c. granted (ss_mDirectChannels st1) h' c = (if h' = h then g c else granted (ss_mDirectChannels st0) h' c)"
    and f: "\<And>e c. live (fst (f (s, e))) c = g c" "\<And>e. Sensor_inv (fst (f (s, e)))"
      "\<And>e. hs_mSensorInfo (fst (f (s, e))) = hs_mSensorInfo s"
  shows "service_inv (call_sensor os busy h s f st1)"
  using assms
  by (auto simp: service_inv_def consistent_def call_sensor_facts)

lemma service_inv_same:
  assumes "service_inv st" "sm_find h (ss_mSensors st) = Some s"
    and "\<And>e. hs_mDirectChannels (fst (f (s, e))) = hs_mDirectChannels s"
    and "\<And>e. Sensor_inv (fst (f (s, e)))" "\<And>e. hs_mSensorInfo (fst (f (s, e))) = hs_mSensorInfo s"
  shows "service_inv (call_sensor os busy h s f st)"
proof (rule service_inv_call [where g = "live s", OF assms(1,2)])
  show "granted (ss_mDirectChannels st) h' c = (if h' = h then live s c else granted (ss_mDirectChannels st) h' c)"
    for h' c
    using assms(1,2) by (auto simp: service_inv_def consistent_def)
  show "live (fst (f (s, e))) c = live s c" for e c by (rule live_cong [OF assms(3)])
qed (use assms in \<open>auto simp: service_inv_def\<close>)

lemma service_inv_sensor: "service_inv st \<Longrightarrow> sm_find h (ss_mSensors st) = Some s \<Longrightarrow> Sensor_inv s"
  by (simp add: service_inv_def)

lemma activate_inv_service: "service_inv st \<Longrightarrow> service_inv (snd (Sensors_activate hms os clk h en st))"
proof -
  assume inv: "service_inv st"
  have "service_inv (call_sensor os False h s (Sensor_activate (hms h) clk en) st)"
    if s: "sm_find h (ss_mSensors st) = Some s" for s
  proof (rule service_inv_same [OF inv s])
    fix e
    show "hs_mDirectChannels (fst (Sensor_activate (hms h) clk en (s, e))) = hs_mDirectChannels s"
      by (simp add: other_ops_channels)
    show "Sensor_inv (fst (Sensor_activate (hms h) clk en (s, e)))"
      using service_inv_sensor [OF inv s] by (intro activate_inv) simp
    show "hs_mSensorInfo (fst (Sensor_activate (hms h) clk en (s, e))) = hs_mSensorInfo s"
      by (simp add: other_ops_info)
  qed
  with inv show ?thesis by (auto simp: Sensors_activate_def split: option.split)
qed

lemma service_inv_latency [simp]: "service_inv (st\<lparr>ss_mReportLatencyNs := l\<rparr>) = service_inv st"
  by (simp add: service_inv_def consistent_def)

lemma batch_inv_service: "service_inv st \<Longrightarrow> service_inv (snd (Sensors_batch hms os h p l st))"
proof -
  assume inv: "service_inv st"
  have b: "service_inv (call_sensor os False h s (Sensor_batch (hms h) p u) st')"
    if inv': "service_inv st'" and s: "sm_find h (ss_mSensors st') = Some s" for s u and st' :: "('a, 'b) sensors"
  proof (rule service_inv_same [OF inv' s])
    fix e
    show "hs_mDirectChannels (fst (Sensor_batch (hms h) p u (s, e))) = hs_mDirectChannels s"
      by (simp add: other_ops_channels)
    show "Sensor_inv (fst (Sensor_batch (hms h) p u (s, e)))"
      using service_inv_sensor [OF inv' s] by (intro batch_inv) simp
    show "hs_mSensorInfo (fst (Sensor_batch (hms h) p u (s, e))) = hs_mSensorInfo s"
      by (simp add: other_ops_info)
  qed
  show ?thesis
    using inv b by (auto simp: Sensors_batch_def Let_def split: option.split)
qed

lemma flush_inv_service: "service_inv st \<Longrightarrow> service_inv (snd (Sensors_flush hms os clk junk h st))"
proof -
  assume inv: "service_inv st"
  have "service_inv (call_sensor os False h s (\<lambda>s. snd (Sensor_flush (hms h) clk junk s)) st)"
    if s: "sm_find h (ss_mSensors st) = Some s" for s
    by (rule service_inv_same [OF inv s]) (use service_inv_sensor [OF inv s] in simp_all)
  with inv show ?thesis by (auto simp: Sensors_flush_def split: option.split)
qed

lemma poll_inv_service: "service_inv st \<Longrightarrow> service_inv (Sensors_poll hms os fo busy t1 t2 h st)"
proof -
  assume inv: "service_inv st"
  have "service_inv (call_sensor os busy h s (\<lambda>s. snd (Sensor_run_round fo (hms h) t1 t2 s)) st)"
    if s: "sm_find h (ss_mSensors st) = Some s" for s
  proof (rule service_inv_same [OF inv s])
    fix e
    show "Sensor_inv (fst (snd (Sensor_run_round fo (hms h) t1 t2 (s, e))))"
      using service_inv_sensor [OF inv s] by (intro run_round_inv) simp
  qed (simp_all add: other_ops_channels other_ops_info)
  with inv show ?thesis by (auto simp: Sensors_poll_def split: option.split)
qed

section \<open>Channel calls\<close>

text \<open>Changing the rate that a channel grants to a sensor and telling the sensor so.\<close>

lemma granted_set_rate:
  "granted (ss_mDirectChannels (set_rate c h p st)) h' c' =
     (if h' = h \<and> c' = c
      then (case sm_find c (ss_mDirectChannels st) of
              None \<Rightarrow> None
            | Some ch \<Rightarrow> if p \<noteq> 0 \<and> h \<in> set (dc_sensorHandles ch) then Some p else None)
      else granted (ss_mDirectChannels st) h' c')"
  by (auto simp: granted_def granted1_def set_rate_def split: option.splits)

lemma stop_inv_service:
  assumes inv: "service_inv st"
  shows "service_inv (on_sensor os h (Sensor_stopDirectChannel (hms h) c) (set_rate c h 0 st))"
proof (cases "sm_find h (ss_mSensors st)")
  case None
  then have n: "sm_find h (ss_mSensors (set_rate c h 0 st)) = None" by (simp add: set_rate_def)
  have "service_inv (set_rate c h 0 st)"
    using inv None granted_set_rate [of c h 0 st]
    by (auto simp: service_inv_def consistent_def) (auto simp: set_rate_def split: if_splits)
  with n show ?thesis by (simp add: on_sensor_def)
next
  case (Some s)
  let ?st1 = "set_rate c h 0 st"
  have "service_inv (call_sensor os False h s (Sensor_stopDirectChannel (hms h) c) ?st1)"
  proof (rule service_inv_call [where g = "\<lambda>c'. if c' = c then None else live s c'", OF inv Some])
    show "granted (ss_mDirectChannels ?st1) h' c' =
        (if h' = h then if c' = c then None else live s c' else granted (ss_mDirectChannels st) h' c')" for h' c'
      using inv Some
      by (auto simp: granted_set_rate service_inv_def consistent_def split: option.split)
    show "Sensor_inv (fst (Sensor_stopDirectChannel (hms h) c (s, e)))" for e
      using service_inv_sensor [OF inv Some] by (intro stopDirectChannel_inv) (simp add: Sensor_inv_inv0)
  qed (use inv in \<open>auto simp: set_rate_def service_inv_def stopDirectChannel_facts\<close>)
  then show ?thesis using Some by (simp add: on_sensor_def set_rate_def)
qed

lemma add_inv_service:
  assumes inv: "service_inv st" and c: "sm_find c (ss_mDirectChannels st) \<noteq> None"
    and Some: "sm_find h (ss_mSensors st) = Some s"
  shows "service_inv (on_sensor os h (Sensor_addDirectChannel (hms h) c p)
           (add_channel_handle c h (set_rate c h p st)))"
proof -
  let ?st1 = "add_channel_handle c h (set_rate c h p st)"
  let ?g = "\<lambda>c'. if c' = c then (if p = 0 then None else Some p) else live s c'"
  have "service_inv (call_sensor os False h s (Sensor_addDirectChannel (hms h) c p) ?st1)"
  proof (rule service_inv_call [where g = ?g, OF inv Some])
    show "granted (ss_mDirectChannels ?st1) h' c' =
        (if h' = h then ?g c' else granted (ss_mDirectChannels st) h' c')" for h' c'
      using inv Some c
      by (auto simp: granted_def granted1_def add_channel_handle_def set_rate_def service_inv_def
          consistent_def split: option.splits)
    show "Sensor_inv (fst (Sensor_addDirectChannel (hms h) c p (s, e)))" for e
      using service_inv_sensor [OF inv Some] by (intro addDirectChannel_inv) (simp add: Sensor_inv_inv0)
  qed (use inv in \<open>auto simp: add_channel_handle_def set_rate_def service_inv_def addDirectChannel_facts\<close>)
  then show ?thesis using Some by (simp add: on_sensor_def add_channel_handle_def set_rate_def)
qed

text \<open>Taking a channel away from a list of sensors, the map of channels untouched.\<close>

definition removed :: "int \<Rightarrow> int list \<Rightarrow> ('s, 'e) sensors \<Rightarrow> ('s, 'e) sensors \<Rightarrow> bool" where
  "removed c hs st st' \<longleftrightarrow>
     ss_mDirectChannels st' = ss_mDirectChannels st
     \<and> (sm_ok (ss_mSensors st) \<longrightarrow> sm_ok (ss_mSensors st'))
     \<and> (\<forall>h. sm_find h (ss_mSensors st') = None \<longleftrightarrow> sm_find h (ss_mSensors st) = None)
     \<and> (\<forall>h s s'. sm_find h (ss_mSensors st) = Some s \<longrightarrow> sm_find h (ss_mSensors st') = Some s' \<longrightarrow>
          (Sensor_inv s \<longrightarrow> Sensor_inv s') \<and> hs_mSensorInfo s' = hs_mSensorInfo s
          \<and> hs_mIsEnabled s' = hs_mIsEnabled s
          \<and> (\<forall>c'. live s' c' = (if c' = c \<and> h \<in> set hs then None else live s c')))"

lemma removed_refl: "removed c [] st st"
  by (simp add: removed_def)

lemma removedD:
  assumes "removed c hs st st'" "sm_find h (ss_mSensors st') = Some s'"
  obtains s where "sm_find h (ss_mSensors st) = Some s" "Sensor_inv s \<Longrightarrow> Sensor_inv s'"
    "hs_mSensorInfo s' = hs_mSensorInfo s" "hs_mIsEnabled s' = hs_mIsEnabled s"
    "\<And>c'. live s' c' = (if c' = c \<and> h \<in> set hs then None else live s c')"
proof -
  obtain s where s: "sm_find h (ss_mSensors st) = Some s"
    using assms unfolding removed_def by (metis not_Some_eq)
  then show thesis using assms that unfolding removed_def by blast
qed

lemma removed_trans:
  assumes "removed c hs st st'" "removed c hs' st' st''"
  shows "removed c (hs @ hs') st st''"
  unfolding removed_def
proof (intro conjI allI impI)
  fix h s s'' assume s: "sm_find h (ss_mSensors st) = Some s" and s'': "sm_find h (ss_mSensors st'') = Some s''"
  obtain s' where s': "sm_find h (ss_mSensors st') = Some s'"
    "Sensor_inv s' \<Longrightarrow> Sensor_inv s''" "hs_mSensorInfo s'' = hs_mSensorInfo s'"
    "hs_mIsEnabled s'' = hs_mIsEnabled s'" "\<And>c'. live s'' c' = (if c' = c \<and> h \<in> set hs' then None else live s' c')"
    using removedD [OF assms(2) s''] by metis
  obtain t where t: "sm_find h (ss_mSensors st) = Some t" "Sensor_inv t \<Longrightarrow> Sensor_inv s'"
    "hs_mSensorInfo s' = hs_mSensorInfo t" "hs_mIsEnabled s' = hs_mIsEnabled t"
    "\<And>c'. live s' c' = (if c' = c \<and> h \<in> set hs then None else live t c')"
    using removedD [OF assms(1) s'(1)] by metis
  have "t = s" using t(1) s by simp
  then show "Sensor_inv s \<Longrightarrow> Sensor_inv s''" "hs_mSensorInfo s'' = hs_mSensorInfo s"
    "hs_mIsEnabled s'' = hs_mIsEnabled s"
    "live s'' c' = (if c' = c \<and> h \<in> set (hs @ hs') then None else live s c')" for c'
    using s'(2-) t(2-) by auto
qed (use assms in \<open>auto simp: removed_def\<close>)

lemma removed_one:
  "removed c [h] st (on_sensor os h (Sensor_removeDirectChannel (hms h) c) st)"
proof (cases "sm_find h (ss_mSensors st)")
  case None
  then show ?thesis by (auto simp: removed_def on_sensor_def)
next
  case (Some s)
  let ?st = "(s, sensor_env_of st)"
  have log: "se_log (snd (Sensor_removeDirectChannel (hms h) c ?st)) = []"
    by (simp add: removeDirectChannel_facts sensor_env_of_def)
  have inv: "Sensor_inv s \<Longrightarrow> Sensor_inv (fst (Sensor_removeDirectChannel (hms h) c ?st))"
    by (intro removeDirectChannel_inv) (simp add: Sensor_inv_inv0)
  have "on_sensor os h (Sensor_removeDirectChannel (hms h) c) st =
      call_sensor os False h s (Sensor_removeDirectChannel (hms h) c) st"
    by (simp add: on_sensor_def Some)
  then show ?thesis
    using Some inv
    by (auto simp: removed_def call_sensor_facts(1) call_sensor_quiet [of "Sensor_removeDirectChannel (hms h) c" s st, OF log] removeDirectChannel_facts
        split: if_splits)
qed

lemma removed_fold:
  "removed c hs st (fold (\<lambda>h. on_sensor os h (Sensor_removeDirectChannel (hms h) c)) hs st)"
proof (induction hs arbitrary: st)
  case Nil
  show ?case using removed_refl by simp
next
  case (Cons h hs)
  show ?case using removed_trans [OF removed_one Cons] by simp
qed

lemma granted_handles:
  "granted chs h c \<noteq> None \<Longrightarrow> sm_find c chs = Some ch \<Longrightarrow> h \<in> set (dc_sensorHandles ch)"
  by (auto simp: granted_def granted1_def split: option.splits if_splits)

lemma unregister_inv_service:
  "service_inv st \<Longrightarrow> service_inv (snd (Sensors_unregisterDirectChannel hms os c st))"
proof -
  assume inv: "service_inv st"
  show ?thesis
  proof (cases "sm_find c (ss_mDirectChannels st)")
    case None
    then have "sm_erase c (ss_mDirectChannels st) = ss_mDirectChannels st"
      by (auto simp: sm_erase_def sm_find_None_iff intro!: filter_True)
    with None inv show ?thesis by (simp add: Sensors_unregisterDirectChannel_def)
  next
    case (Some ch)
    let ?st1 = "fold (\<lambda>h. on_sensor os h (Sensor_removeDirectChannel (hms h) c)) (dc_sensorHandles ch) st"
    have r: "removed c (dc_sensorHandles ch) st ?st1" by (rule removed_fold)
    have live: "live s' c' = granted (sm_erase c (ss_mDirectChannels st)) h c' \<and> Sensor_inv s'
        \<and> si_sensorHandle (hs_mSensorInfo s') = h"
      if s': "sm_find h (ss_mSensors ?st1) = Some s'" for h s' c'
    proof -
      obtain s where s: "sm_find h (ss_mSensors st) = Some s" "Sensor_inv s \<Longrightarrow> Sensor_inv s'"
        "hs_mSensorInfo s' = hs_mSensorInfo s"
        "live s' c' = (if c' = c \<and> h \<in> set (dc_sensorHandles ch) then None else live s c')"
        using removedD [OF r s'] by metis
      then have "Sensor_inv s'" using service_inv_sensor [OF inv] by blast
      moreover have "live s c' = granted (ss_mDirectChannels st) h c'"
        "si_sensorHandle (hs_mSensorInfo s) = h"
        using inv s(1) by (simp_all add: service_inv_def consistent_def)
      moreover have "granted (ss_mDirectChannels st) h c = None" if "h \<notin> set (dc_sensorHandles ch)"
        using granted_handles [OF _ Some, of h] that by blast
      ultimately show ?thesis using s(3,4) by (auto simp: granted_def)
    qed
    have "ss_mDirectChannels ?st1 = ss_mDirectChannels st" "sm_ok (ss_mSensors ?st1)"
      using r inv by (auto simp: removed_def service_inv_def)
    with live inv show ?thesis
      by (simp add: Sensors_unregisterDirectChannel_def Some service_inv_def consistent_def)
  qed
qed

section \<open>Whole service\<close>

lemma config_inv_service:
  assumes "service_inv st"
  shows "service_inv (snd (Sensors_configDirectReport hms os h c rate st))"
proof -
  have stops: "service_inv (fold (\<lambda>h st. if sm_find h (ss_mSensors st) = None then st
       else on_sensor os h (Sensor_stopDirectChannel (hms h) c) (set_rate c h 0 st)) hs st')"
    if "service_inv st'" for hs and st' :: "('a, 'b) sensors"
    using that by (induction hs arbitrary: st') (simp_all add: stop_inv_service)
  show ?thesis
    using assms stops
    by (auto simp: Sensors_configDirectReport_def Let_def split: option.split intro!: add_inv_service)
qed

lemma granted_put_fresh:
  "sm_find c0 chs = None \<Longrightarrow> \<forall>h. granted1 ch h = None \<Longrightarrow> granted (sm_put c0 ch chs) = granted chs"
  by (auto simp: granted_def fun_eq_iff)

lemma register_inv_service:
  assumes inv: "service_inv st" and r: "Sensors_registerDirectChannel sys sz z ia mem st = Inr (res, st')"
  shows "service_inv st'"
proof -
  have fresh: "granted1 ch h = None" if "AshmemDirectChannel sys sz z dm = Inr ch" for ch h dm
    using that
    by (auto simp: AshmemDirectChannel_def DirectChannelBase_init_def granted1_def Let_def
        split: if_splits mmap_result.splits)
  have "st' = st \<or> (\<exists>c0 ch n. sm_find c0 (ss_mDirectChannels st) = None \<and> (\<forall>h. granted1 ch h = None)
      \<and> st' = st\<lparr>ss_mNextChannelHandle := n, ss_mDirectChannels := sm_put c0 ch (ss_mDirectChannels st)\<rparr>)
      \<or> (\<exists>n. st' = st\<lparr>ss_mNextChannelHandle := n\<rparr>)"
    using r fresh
    by (fastforce simp: Sensors_registerDirectChannel_def Let_def split: if_splits option.splits sum.splits)
  then show ?thesis
    using inv by (elim disjE exE conjE) (simp_all add: service_inv_def consistent_def granted_put_fresh)
qed

text \<open>Everything that can happen to the service between two (re)initialisations.\<close>

datatype service_op =
    V_activate int bool
  | V_batch int int int
  | V_flush int int
  | V_register bool "direct_mem option"
  | V_unregister int
  | V_config int int rate_level
  | V_poll int bool int int

fun service_step ::
  "(int \<Rightarrow> 's hal_methods) \<Rightarrow> 'e sensors_os \<Rightarrow> float_ops \<Rightarrow> (nat \<Rightarrow> int) \<Rightarrow> ashmem \<Rightarrow> nat \<Rightarrow> 'e
     \<Rightarrow> service_op \<Rightarrow> ('s, 'e) sensors \<Rightarrow> ('s, 'e) sensors" where
  "service_step hms os fo clk sys sz z (V_activate h en) st = snd (Sensors_activate hms os clk h en st)"
| "service_step hms os fo clk sys sz z (V_batch h p l) st = snd (Sensors_batch hms os h p l st)"
| "service_step hms os fo clk sys sz z (V_flush junk h) st = snd (Sensors_flush hms os clk junk h st)"
| "service_step hms os fo clk sys sz z (V_register ia mem) st =
     (case Sensors_registerDirectChannel sys sz z ia mem st of Inr (r, st') \<Rightarrow> st' | Inl _ \<Rightarrow> st)"
| "service_step hms os fo clk sys sz z (V_unregister c) st = snd (Sensors_unregisterDirectChannel hms os c st)"
| "service_step hms os fo clk sys sz z (V_config h c rate) st = snd (Sensors_configDirectReport hms os h c rate st)"
| "service_step hms os fo clk sys sz z (V_poll h busy t1 t2) st = Sensors_poll hms os fo busy t1 t2 h st"

lemma service_step_inv: "service_inv st \<Longrightarrow> service_inv (service_step hms os fo clk sys sz z op st)"
  by (cases op)
     (auto simp: activate_inv_service batch_inv_service flush_inv_service unregister_inv_service
       config_inv_service poll_inv_service split: sum.split intro: register_inv_service)

lemma service_run_inv:
  "service_inv st \<Longrightarrow> service_inv (fold (service_step hms os fo clk sys sz z) ops st)"
  by (induction ops arbitrary: st) (auto simp: service_step_inv)

lemma AddSensors_inv:
  "AddSensors read ds st = Inr st' \<Longrightarrow> service_inv st \<Longrightarrow> ss_mDirectChannels st = [] \<Longrightarrow>
   \<forall>d\<in>set ds. sd_minDelayUs d \<le> sd_maxDelayUs d \<Longrightarrow>
   service_inv st' \<and> ss_mDirectChannels st' = []"
proof (induction ds arbitrary: st)
  case (Cons d ds)
  obtain xml where x: "readSensorsConfigFromXml read = Some xml"
    using Cons.prems(1) by (auto simp: Let_def split: option.splits)
  let ?info = "sensor_info_of (ss_mNextHandle st) d"
  let ?st1 = "st\<lparr>ss_mNextHandle := i32 (ss_mNextHandle st + 1), ss_mSensors := sm_put (si_sensorHandle ?info)
      (Sensor_init ?info (getSensorConfiguration xml (si_name ?info) (si_type ?info))) (ss_mSensors st)\<rparr>"
  have r: "AddSensors read ds ?st1 = Inr st'" using Cons.prems(1) by (simp add: Let_def x)
  have "Sensor_inv (Sensor_init ?info config)" for config
    using Cons.prems(4) by (intro Sensor_init_inv) (simp add: sensor_info_of_def)
  then have "service_inv ?st1"
    using Cons.prems(2,3)
    by (auto simp: service_inv_def consistent_def Sensor_init_def live_def granted_def sensor_info_of_def)
  then show ?case using Cons.IH [OF r] Cons.prems(3,4) by simp
qed simp

lemma Sensors_init_inv: "service_inv (Sensors_init hal)"
  by (simp add: service_inv_def consistent_def Sensors_init_def)

lemma live_iff:
  "live s c = Some p \<longleftrightarrow>
     (\<exists>r. sm_find c (hs_mDirectChannels s) = Some r \<and> cr_enabled r \<and> cr_samplingPeriodNs r = p)"
  by (auto simp: live_def split: option.splits)

lemma granted_iff:
  "granted chs h c = Some p \<longleftrightarrow>
     (\<exists>ch. sm_find c chs = Some ch \<and> h \<in> set (dc_sensorHandles ch) \<and> sm_find h (dc_rateNs ch) = Some p \<and> p \<noteq> 0)"
  by (auto simp: granted_def granted1_def split: option.splits if_splits)


section \<open>Reinitialisation\<close>

lemma call_activate_off:
  assumes "sm_find h (ss_mSensors st) = Some s"
  shows "ss_mDirectChannels (on_sensor os h (Sensor_activate (hms h) clk False) st) = ss_mDirectChannels st"
    and "\<exists>s'. ss_mSensors (on_sensor os h (Sensor_activate (hms h) clk False) st) = sm_put h s' (ss_mSensors st)
          \<and> \<not> hs_mIsEnabled s'"
proof -
  let ?f = "Sensor_activate (hms h) clk False"
  have log: "se_log (snd (?f (s, sensor_env_of st))) = []"
    by (simp add: Sensor_activate_def sensor_env_of_def on_hal_def Let_def)
  show "ss_mDirectChannels (on_sensor os h ?f st) = ss_mDirectChannels st"
    using call_sensor_quiet [of ?f s st, OF log] assms by (simp add: on_sensor_def)
  have "\<not> hs_mIsEnabled (fst (?f (s, sensor_env_of st)))"
    by (simp add: Sensor_activate_def Let_def)
  then show "\<exists>s'. ss_mSensors (on_sensor os h ?f st) = sm_put h s' (ss_mSensors st) \<and> \<not> hs_mIsEnabled s'"
    using assms by (auto simp: on_sensor_def call_sensor_facts(1))
qed

definition all_off :: "int set \<Rightarrow> ('s, 'e) sensors \<Rightarrow> bool" where
  "all_off H st \<longleftrightarrow> (\<forall>h\<in>H. \<forall>s. sm_find h (ss_mSensors st) = Some s \<longrightarrow> \<not> hs_mIsEnabled s)"

lemma activate_off_step:
  assumes "service_inv st" "all_off H st"
  shows "service_inv (on_sensor os h (Sensor_activate (hms h) clk False) st)"
    and "all_off (insert h H) (on_sensor os h (Sensor_activate (hms h) clk False) st)"
    and "ss_mDirectChannels (on_sensor os h (Sensor_activate (hms h) clk False) st) = ss_mDirectChannels st"
    and "sm_find h' (ss_mSensors (on_sensor os h (Sensor_activate (hms h) clk False) st)) = None
           \<longleftrightarrow> sm_find h' (ss_mSensors st) = None"
proof -
  let ?st = "on_sensor os h (Sensor_activate (hms h) clk False) st"
  show "service_inv ?st"
    using activate_inv_service [OF assms(1), of hms os clk h False] assms(1)
    by (auto simp: Sensors_activate_def on_sensor_def split: option.splits)
  have "all_off (insert h H) ?st \<and> ss_mDirectChannels ?st = ss_mDirectChannels st
      \<and> (sm_find h' (ss_mSensors ?st) = None \<longleftrightarrow> sm_find h' (ss_mSensors st) = None)"
  proof (cases "sm_find h (ss_mSensors st)")
    case None
    then show ?thesis using assms(2) by (auto simp: on_sensor_def all_off_def)
  next
    case (Some s)
    obtain s' where "ss_mSensors ?st = sm_put h s' (ss_mSensors st)" "\<not> hs_mIsEnabled s'"
      using call_activate_off(2) [OF Some] by blast
    then show ?thesis using assms(2) Some call_activate_off(1) [OF Some] by (auto simp: all_off_def)
  qed
  then show "all_off (insert h H) ?st" "ss_mDirectChannels ?st = ss_mDirectChannels st"
    "sm_find h' (ss_mSensors ?st) = None \<longleftrightarrow> sm_find h' (ss_mSensors st) = None" by blast+
qed

lemma activate_off_fold:
  "service_inv st \<Longrightarrow> all_off H st \<Longrightarrow>
   service_inv (fold (\<lambda>h. on_sensor os h (Sensor_activate (hms h) clk False)) hs st)
    \<and> all_off (H \<union> set hs) (fold (\<lambda>h. on_sensor os h (Sensor_activate (hms h) clk False)) hs st)
    \<and> ss_mDirectChannels (fold (\<lambda>h. on_sensor os h (Sensor_activate (hms h) clk False)) hs st)
        = ss_mDirectChannels st
    \<and> (\<forall>h'. sm_find h' (ss_mSensors (fold (\<lambda>h. on_sensor os h (Sensor_activate (hms h) clk False)) hs st)) = None
        \<longleftrightarrow> sm_find h' (ss_mSensors st) = None)"
proof (induction hs arbitrary: st H)
  case (Cons h hs)
  note step = activate_off_step(1) [OF Cons.prems, of os h hms clk]
    activate_off_step(2) [OF Cons.prems, of h os hms clk]
  show ?case
    using Cons.IH [OF step] activate_off_step(3) [OF Cons.prems, of os h hms clk]
      activate_off_step(4) [OF Cons.prems, of _ os h hms clk] by simp
qed simp

text \<open>Removing the channels of a list of registered channels from the sensors they list.\<close>

definition reset_channels ::
  "(int \<Rightarrow> 's hal_methods) \<Rightarrow> 'e sensors_os \<Rightarrow> (int \<times> 'e direct_channel) list \<Rightarrow> ('s, 'e) sensors \<Rightarrow> ('s, 'e) sensors" where
  "reset_channels hms os chs st =
     fold (\<lambda>(channelHandle, channel).
        fold (\<lambda>h. on_sensor os h (Sensor_removeDirectChannel (hms h) channelHandle)) (dc_sensorHandles channel))
       chs st"

lemma reset_channels_facts:
  "sm_ok (ss_mSensors st) \<Longrightarrow>
   sm_ok (ss_mSensors (reset_channels hms os chs st))
   \<and> (\<forall>h s'. sm_find h (ss_mSensors (reset_channels hms os chs st)) = Some s' \<longrightarrow>
       (\<exists>s. sm_find h (ss_mSensors st) = Some s \<and> (Sensor_inv s \<longrightarrow> Sensor_inv s')
          \<and> hs_mSensorInfo s' = hs_mSensorInfo s \<and> hs_mIsEnabled s' = hs_mIsEnabled s
          \<and> (\<forall>c. live s' c = (if \<exists>ch. (c, ch) \<in> set chs \<and> h \<in> set (dc_sensorHandles ch)
                             then None else live s c))))"
proof (induction chs arbitrary: st)
  case (Cons e chs)
  obtain c0 ch0 where e: "e = (c0, ch0)" by fastforce
  let ?st1 = "fold (\<lambda>h. on_sensor os h (Sensor_removeDirectChannel (hms h) c0)) (dc_sensorHandles ch0) st"
  have r: "removed c0 (dc_sensorHandles ch0) st ?st1" by (rule removed_fold)
  then have ok: "sm_ok (ss_mSensors ?st1)" using Cons.prems by (simp add: removed_def)
  note ih = Cons.IH [OF ok]
  have run: "reset_channels hms os (e # chs) st = reset_channels hms os chs ?st1"
    by (simp add: reset_channels_def e)
  show ?case unfolding run
  proof (intro conjI allI impI)
    fix h s'' assume "sm_find h (ss_mSensors (reset_channels hms os chs ?st1)) = Some s''"
    then obtain s' where s': "sm_find h (ss_mSensors ?st1) = Some s'" "Sensor_inv s' \<longrightarrow> Sensor_inv s''"
      "hs_mSensorInfo s'' = hs_mSensorInfo s'" "hs_mIsEnabled s'' = hs_mIsEnabled s'"
      "\<forall>c. live s'' c = (if \<exists>ch. (c, ch) \<in> set chs \<and> h \<in> set (dc_sensorHandles ch) then None else live s' c)"
      using ih by blast
    obtain s where s: "sm_find h (ss_mSensors st) = Some s" "Sensor_inv s \<Longrightarrow> Sensor_inv s'"
      "hs_mSensorInfo s' = hs_mSensorInfo s" "hs_mIsEnabled s' = hs_mIsEnabled s"
      "\<And>c'. live s' c' = (if c' = c0 \<and> h \<in> set (dc_sensorHandles ch0) then None else live s c')"
      using removedD [OF r s'(1)] by metis
    have "live s'' c = (if \<exists>ch. (c, ch) \<in> set (e # chs) \<and> h \<in> set (dc_sensorHandles ch) then None else live s c)"
      for c
      using s'(5) s(5) [of c] by (auto simp: e)
    then show "\<exists>s. sm_find h (ss_mSensors st) = Some s \<and> (Sensor_inv s \<longrightarrow> Sensor_inv s'')
          \<and> hs_mSensorInfo s'' = hs_mSensorInfo s \<and> hs_mIsEnabled s'' = hs_mIsEnabled s
          \<and> (\<forall>c. live s'' c = (if \<exists>ch. (c, ch) \<in> set (e # chs) \<and> h \<in> set (dc_sensorHandles ch)
                             then None else live s c))"
      by (intro exI [of _ s] conjI allI impI) (use s(1-4) s'(2-4) in simp_all)
  qed (use ih in blast)
qed (simp add: reset_channels_def)

lemma reset_channelsD:
  assumes "sm_ok (ss_mSensors st)" "sm_find h (ss_mSensors (reset_channels hms os chs st)) = Some s'"
  obtains s where "sm_find h (ss_mSensors st) = Some s" "Sensor_inv s \<longrightarrow> Sensor_inv s'"
    "hs_mSensorInfo s' = hs_mSensorInfo s" "hs_mIsEnabled s' = hs_mIsEnabled s"
    "\<forall>c. live s' c = (if \<exists>ch. (c, ch) \<in> set chs \<and> h \<in> set (dc_sensorHandles ch) then None else live s c)"
  using reset_channels_facts [OF assms(1), of hms os chs] assms(2) that by blast

lemma initializeBase_eq:
  "Sensors_initializeBase hms os clk callback flag st =
     (let st1 = fold (\<lambda>h. on_sensor os h (Sensor_activate (hms h) clk False)) (sm_keys (ss_mSensors st)) st;
          st3 = reset_channels hms os (ss_mDirectChannels st1) (st1\<lparr>ss_mReadWakeLockQueueRun := False\<rparr>)
      in (if \<not> flag \<or> \<not> callback then R_BAD_VALUE else R_OK,
          st3\<lparr>ss_mDirectChannels := [], ss_written := [], ss_mReadWakeLockQueueRun := True\<rparr>))"
  by (simp add: Sensors_initializeBase_def reset_channels_def Let_def)

text \<open>\<^verbatim>\<open>initializeBase\<close> leaves every sensor disabled and without a running direct
  channel, forgets all channels, and starts the wake-lock thread; it reports an error exactly
  when the callback is null or the event flag could not be created.\<close>

theorem Sensors_initialize_resets:
  assumes "service_inv st" "Sensors_initializeBase hms os clk callback flag st = (r, st')"
  shows "service_inv st' \<and> ss_mDirectChannels st' = [] \<and> ss_mReadWakeLockQueueRun st'
       \<and> r = (if callback \<and> flag then R_OK else R_BAD_VALUE)
       \<and> (\<forall>h s. sm_find h (ss_mSensors st') = Some s \<longrightarrow>
            \<not> hs_mIsEnabled s \<and> \<not> hs_mDirectChannelEnabled s \<and> hs_mNextSampleTimeNs s = INT64_MAX)"
proof -
  define st1 where "st1 = fold (\<lambda>h. on_sensor os h (Sensor_activate (hms h) clk False)) (sm_keys (ss_mSensors st)) st"
  have "all_off {} st" by (simp add: all_off_def)
  note f = activate_off_fold [OF assms(1) this, of os hms clk "sm_keys (ss_mSensors st)", folded st1_def]
  have inv1: "service_inv st1" using f by blast
  have off1: "\<not> hs_mIsEnabled s" if "sm_find h (ss_mSensors st1) = Some s" for h s
  proof -
    have "(sm_find h (ss_mSensors st1) = None) = (sm_find h (ss_mSensors st) = None)"
      using f by (elim conjE) (rule spec)
    then have "sm_find h (ss_mSensors st) \<noteq> None" unfolding that by simp
    then have "h \<in> set (sm_keys (ss_mSensors st))"
      using sm_find_dom [of h "ss_mSensors st"] by (simp add: sm_keys_def)
    with f that show ?thesis by (auto simp: all_off_def)
  qed
  let ?st2 = "st1\<lparr>ss_mReadWakeLockQueueRun := False\<rparr>"
  let ?st3 = "reset_channels hms os (ss_mDirectChannels st1) ?st2"
  have ok: "sm_ok (ss_mSensors ?st2)" using inv1 by (simp add: service_inv_def)
  have ok3: "sm_ok (ss_mSensors ?st3)" using reset_channels_facts [OF ok] by blast
  have sens: "\<not> hs_mIsEnabled s' \<and> Sensor_inv s' \<and> si_sensorHandle (hs_mSensorInfo s') = h
      \<and> (\<forall>c. live s' c = None)"
    if s': "sm_find h (ss_mSensors ?st3) = Some s'" for h s'
  proof -
    obtain s where s2: "sm_find h (ss_mSensors ?st2) = Some s" and s: "Sensor_inv s \<longrightarrow> Sensor_inv s'"
      "hs_mSensorInfo s' = hs_mSensorInfo s" "hs_mIsEnabled s' = hs_mIsEnabled s"
      "\<forall>c. live s' c = (if \<exists>ch. (c, ch) \<in> set (ss_mDirectChannels st1) \<and> h \<in> set (dc_sensorHandles ch)
                      then None else live s c)"
      by (rule reset_channelsD [OF ok s'])
    have s1: "sm_find h (ss_mSensors st1) = Some s" using s2 by simp
    have "live s' c = None" for c
    proof (cases "live s c")
      case None
      then show ?thesis using s(4) by simp
    next
      case (Some p)
      then have g: "granted (ss_mDirectChannels st1) h c = Some p"
        using inv1 s1 by (simp add: service_inv_def consistent_def)
      then obtain ch where "sm_find c (ss_mDirectChannels st1) = Some ch"
        by (auto simp: granted_def split: option.splits)
      then show ?thesis using s(4) granted_handles [of _ h c ch] g sm_find_in_set by fastforce
    qed
    then show ?thesis using s s1 off1 inv1 by (auto simp: service_inv_def)
  qed
  have st': "st' = ?st3\<lparr>ss_mDirectChannels := [], ss_written := [], ss_mReadWakeLockQueueRun := True\<rparr>"
    and r: "r = (if callback \<and> flag then R_OK else R_BAD_VALUE)"
    using assms(2) by (auto simp: initializeBase_eq Let_def st1_def)
  have no_channel: "\<not> hs_mDirectChannelEnabled s" if "Sensor_inv s" "\<forall>c. live s c = None" for s
    using that by (fastforce simp: Sensor_inv_def live_def split: option.splits if_splits)
  have "service_inv st'"
    using ok3 sens by (auto simp: st' service_inv_def consistent_def granted_def)
  moreover have "\<not> hs_mIsEnabled s \<and> \<not> hs_mDirectChannelEnabled s \<and> hs_mNextSampleTimeNs s = INT64_MAX"
    if a: "sm_find h (ss_mSensors st') = Some s" for h s
  proof -
    have "sm_find h (ss_mSensors ?st3) = Some s" using a by (simp add: st')
    from sens [OF this] have s: "\<not> hs_mIsEnabled s" "Sensor_inv s" "\<forall>c. live s c = None" by blast+
    moreover have "hs_mNextSampleTimeNs s = INT64_MAX" using s(1,2) by (simp add: Sensor_inv_def)
    ultimately show ?thesis using no_channel [OF s(2,3)] by blast
  qed
  moreover have "ss_mDirectChannels st' = []" "ss_mReadWakeLockQueueRun st'" by (simp_all add: st')
  ultimately show ?thesis using r by blast
qed

section \<open>A concrete service\<close>

definition example_os :: "int sensors_os" where
  "example_os = \<lparr>os_fmq_write = (\<lambda>_. True), os_acquire_wake_lock = 0, os_release_wake_lock = 0,
     os_uptimeMillis = 0, os_convertToSensorEvent = ev_timestamp\<rparr>"

definition example_ashmem :: ashmem where
  "example_ashmem = \<lparr>ashmem_valid = (\<lambda>_. True), ashmem_get_size_region = (\<lambda>_. 1040),
     ashmem_mmap = (\<lambda>_ _. Mapped)\<rparr>"

definition example_xml :: "string \<Rightarrow> xml_module list option" where
  "example_xml = (\<lambda>_. Some [\<lparr>xm_halName = ''bosch-hal'', xm_sensors = []\<rparr>])"

definition example_data :: SensorData where
  "example_data = SensorData_init\<lparr>sd_type := ACCEL, sd_minDelayUs := 5000, sd_maxDelayUs := 20000\<rparr>"

definition example_ops :: "service_op list" where
  "example_ops = [V_register True (Some \<lparr>mem_fd = 7, mem_size = 1040\<rparr>), V_config 1 1 RL_NORMAL]"

definition example_service :: "(unit, int) sensors" where
  "example_service =
     fold (service_step (\<lambda>_. silent) example_os \<lparr>fp32 = id, fp64 = id\<rparr> (\<lambda>_. 0) example_ashmem 104 0) example_ops
       (case AddSensors example_xml [example_data] (Sensors_init ()) of Inr st \<Rightarrow> st)"

lemma example_add: "\<exists>st. AddSensors example_xml [example_data] (Sensors_init () :: (unit, int) sensors) = Inr st"
  by (simp add: example_xml_def readSensorsConfigFromXml_def gSensorConfigLocationList_def Let_def)

lemma example_flags: "report_mode_flags CONTINUOUS 0 = 1216"
  by (simp add: report_mode_flags_def flag_defs)

lemma example_service_eval:
  "\<exists>ch s. ss_mDirectChannels example_service = [(1, ch)] \<and> dc_sensorHandles ch = [1]
     \<and> dc_rateNs ch = [(1, 20000000)] \<and> ss_mSensors example_service = [(1, s)]"
proof -
  have flags: "has_flag 1216 FLAG_DIRECT_CHANNEL_ASHMEM" by (simp add: has_flag_def flag_defs)
  have u: "u64 1040 = 1040" by (simp add: u64_def take_bit_eq_mod)
  show ?thesis
    by (simp add: example_service_def example_ops_def example_xml_def readSensorsConfigFromXml_def
        gSensorConfigLocationList_def Let_def Sensors_init_def Sensors_registerDirectChannel_def
        AshmemDirectChannel_def example_ashmem_def u DirectChannelBase_init_def
        DirectChannelBase_isValid_def Sensors_configDirectReport_def sensor_info_of_def example_data_def
        SensorData_init_def SensorInfo_init_def Sensor_init_def example_flags flags rate_of_level_def
        on_sensor_def set_rate_def add_channel_handle_def sm_map_def call_sensor_def sensor_env_of_def
        Sensor_addDirectChannel_def set_channel_def Sensor_updateDirectChannel_def sm_values_def
        INT64_MAX_def on_hal_def silent_def)
qed


theorem Sensors_initialize_resets_witness:
  "\<exists>st'. Sensors_initializeBase (\<lambda>_. silent) example_os (\<lambda>_. 0) True False example_service = (R_BAD_VALUE, st')
     \<and> ss_mDirectChannels st' = []"
proof -
  obtain st0 where a: "AddSensors example_xml [example_data] (Sensors_init () :: (unit, int) sensors) = Inr st0"
    using example_add by blast
  have "service_inv st0"
    using AddSensors_inv [OF a Sensors_init_inv] by (simp add: Sensors_init_def example_data_def)
  then have inv: "service_inv example_service"
    unfolding example_service_def a sum.case by (rule service_run_inv)
  obtain r st' where i: "Sensors_initializeBase (\<lambda>_. silent) example_os (\<lambda>_. 0) True False example_service = (r, st')"
    by fastforce
  show ?thesis using Sensors_initialize_resets [OF inv i] i by simp
qed

section \<open>Latency, wake lock\<close>

text \<open>the latency that reaches the sensor is the requested one: the loop over the enabled
  sensors looks up the latency of the sensor that is being batched, which was stored just
  before, so no other sensor's latency has any effect.\<close>

theorem Sensors_batch_ignores_other_latencies:
  "Sensors_batch hms os h p l st =
     (let st1 = (if l > 0 then st\<lparr>ss_mReportLatencyNs := sm_put h l (ss_mReportLatencyNs st)\<rparr> else st) in
      case sm_find h (ss_mSensors st) of
        Some sensor \<Rightarrow> (R_OK, call_sensor os False h sensor (Sensor_batch (hms h) p l) st1)
      | None \<Rightarrow> (R_BAD_VALUE, st1))"
proof -
  have "fold (\<lambda>sensor used. if Sensor_isEnabled sensor
          then (case sm_find h (sm_put h l m) of None \<Rightarrow> used | Some x \<Rightarrow> min used x) else used) ss l = l" for ss m
    by (induction ss) simp_all
  then show ?thesis by (simp add: Sensors_batch_def Let_def)
qed

text \<open>with working wake-lock calls, the service holds its wake lock after an update exactly
  when wake-up events are outstanding; and while no release time has passed, the number
  outstanding is the number before, plus what was written, minus what was handled, never below
  zero.\<close>

theorem updateWakeLock_holds_iff_outstanding:
  assumes "os_acquire_wake_lock os = 0" "os_release_wake_lock os = 0"
    and "wl_mHasWakeLock w = (0 < wl_mOutstandingWakeUpEvents w)"
    and "is_i32 (wl_mOutstandingWakeUpEvents w + n - m)"
    and "w' = updateWakeLock os n m w"
  shows "wl_mHasWakeLock w' = (0 < wl_mOutstandingWakeUpEvents w')
       \<and> 0 \<le> wl_mOutstandingWakeUpEvents w'
       \<and> (os_uptimeMillis os \<le> wl_mAutoReleaseWakeLockTime w \<or> n > 0 \<longrightarrow>
            wl_mOutstandingWakeUpEvents w' = max 0 (wl_mOutstandingWakeUpEvents w + n - m))
       \<and> (os_uptimeMillis os > wl_mAutoReleaseWakeLockTime w \<and> n \<le> 0 \<and> wl_mHasWakeLock w \<longrightarrow>
            \<not> wl_mHasWakeLock w')"
  using assms
  by (auto simp: updateWakeLock_def Let_def i32_id WAKE_LOCK_SECONDS_def)

theorem updateWakeLock_holds_iff_outstanding_witness:
  "wl_mHasWakeLock (updateWakeLock example_os 3 1
     \<lparr>wl_mOutstandingWakeUpEvents = 0, wl_mAutoReleaseWakeLockTime = 0, wl_mHasWakeLock = False\<rparr>)"
  using updateWakeLock_holds_iff_outstanding
      [of example_os "\<lparr>wl_mOutstandingWakeUpEvents = 0, wl_mAutoReleaseWakeLockTime = 0, wl_mHasWakeLock = False\<rparr>" 3 1]
  by (simp add: example_os_def)

end
