(* ===== verification/Handle_Encoding.thy ===== *)
theory Handle_Encoding
  imports Hal_Prelude
begin

text \<open>
  The sensor handles of the multi-HAL proxy (\<^verbatim>\<open>HalProxy.cpp\<close>, the same function again in
  \<^verbatim>\<open>HalProxyCallback.cpp\<close>): the index of the sub-HAL is the first byte of the 32-bit handle,
  the sub-HAL's own handle the other three. Handles are read as \<open>int\<close>, \<^verbatim>\<open>size_t\<close> as
  \<open>int\<close> modulo \<open>2 ^ 64\<close>; the right shift of a negative handle is arithmetic.
\<close>

definition kBitsAfterSubHalIndex :: nat where
  "kBitsAfterSubHalIndex = 24"

definition kSensorHandleSubHalIndexMask :: int where
  "kSensorHandleSubHalIndexMask = i32 0xFF000000"

definition setSubHalIndex :: "int \<Rightarrow> int \<Rightarrow> int" where
  "setSubHalIndex sensorHandle subHalIndex =
     sensorHandle OR i32 (push_bit kBitsAfterSubHalIndex (i32 subHalIndex))"

definition extractSubHalIndex :: "int \<Rightarrow> int" where
  "extractSubHalIndex sensorHandle = u64 (drop_bit kBitsAfterSubHalIndex sensorHandle)"

definition clearSubHalIndex :: "int \<Rightarrow> int" where
  "clearSubHalIndex sensorHandle = sensorHandle AND NOT kSensorHandleSubHalIndexMask"

definition subHalIndexIsClear :: "int \<Rightarrow> bool" where
  "subHalIndexIsClear sensorHandle \<longleftrightarrow> sensorHandle AND kSensorHandleSubHalIndexMask = 0"

lemmas handle_defs = setSubHalIndex_def extractSubHalIndex_def clearSubHalIndex_def
  subHalIndexIsClear_def kBitsAfterSubHalIndex_def

section \<open>Arithmetic readings\<close>

lemma mask_value: "kSensorHandleSubHalIndexMask = NOT (mask 24)"
  by (simp add: kSensorHandleSubHalIndexMask_def i32_def mask_eq_exp_minus_1 not_int_def)

lemma clearSubHalIndex_mod: "clearSubHalIndex h = h mod 2 ^ 24"
proof -
  have "clearSubHalIndex h = take_bit 24 h"
    by (simp add: clearSubHalIndex_def mask_value take_bit_eq_mask)
  then show ?thesis by (simp add: take_bit_eq_mod)
qed

lemma subHalIndexIsClear_iff: "subHalIndexIsClear h \<longleftrightarrow> 0 \<le> h \<and> h < 2 ^ 24"
proof -
  have "h AND NOT (mask 24) = push_bit 24 (drop_bit 24 h)"
    by (rule bit_eqI) (auto simp: bit_simps)
  then have "subHalIndexIsClear h \<longleftrightarrow> h div 2 ^ 24 = 0"
    by (simp add: subHalIndexIsClear_def mask_value push_bit_eq_mult drop_bit_eq_div)
  also have "\<dots> \<longleftrightarrow> 0 \<le> h \<and> h < 2 ^ 24" by (auto simp: zdiv_eq_0_iff)
  finally show ?thesis .
qed

lemma clear_is_clear: "subHalIndexIsClear (clearSubHalIndex h)"
  by (simp add: subHalIndexIsClear_iff clearSubHalIndex_mod)

lemma or_push_bit_add:
  fixes h i :: int
  assumes "0 \<le> h" "h < 2 ^ 24"
  shows "h OR push_bit 24 i = h + i * 2 ^ 24"
proof -
  have "take_bit 24 h = h" using assms by (simp add: take_bit_int_eq_self)
  moreover have "take_bit 24 h AND push_bit 24 i = 0"
    by (rule bit_eqI) (auto simp: bit_and_iff bit_take_bit_iff bit_push_bit_iff)
  ultimately show ?thesis
    by (metis plus_and_or add.left_neutral push_bit_eq_mult)
qed

lemma setSubHalIndex_add:
  assumes "subHalIndexIsClear h" "0 \<le> i" "i < 128"
  shows "setSubHalIndex h i = h + i * 2 ^ 24"
proof -
  have "i32 i = i" using assms by (intro i32_id) auto
  moreover have "i32 (push_bit 24 i) = push_bit 24 i"
    using assms by (intro i32_id) (simp add: push_bit_eq_mult)
  ultimately show ?thesis
    using or_push_bit_add [of h i] assms(1) [unfolded subHalIndexIsClear_iff]
    by (simp add: setSubHalIndex_def kBitsAfterSubHalIndex_def)
qed

lemma i32_wrap: "i32 (x + 2 ^ 32) = i32 x"
proof -
  have "(x + 2 ^ 32 + 2 ^ 31) mod 2 ^ Suc 31 = (x + 2 ^ 31) mod (2 ^ Suc 31 :: int)"
    using mod_add_self2 [of "x + 2 ^ 31" "2 ^ 32 :: int"] by (simp add: add.commute add.left_commute)
  then show ?thesis by (simp only: i32_def signed_take_bit_eq_take_bit_shift take_bit_eq_mod)
qed

lemma setSubHalIndex_add_high:
  assumes "subHalIndexIsClear h" "128 \<le> i" "i < 256"
  shows "setSubHalIndex h i = h + (i - 256) * 2 ^ 24"
proof -
  have 1: "i32 i = i" using assms by (intro i32_id) auto
  have "push_bit 24 i = push_bit 24 (i - 256) + 2 ^ 32" by (simp add: push_bit_eq_mult)
  then have "i32 (push_bit 24 i) = i32 (push_bit 24 (i - 256))"
    by (simp only: i32_wrap)
  also have "\<dots> = push_bit 24 (i - 256)"
    using assms by (intro i32_id) (simp add: push_bit_eq_mult)
  finally show ?thesis
    using 1 or_push_bit_add [of h "i - 256"] assms(1) [unfolded subHalIndexIsClear_iff]
    by (simp add: setSubHalIndex_def kBitsAfterSubHalIndex_def)
qed

lemma extractSubHalIndex_div: "extractSubHalIndex h = (h div 2 ^ 24) mod 2 ^ 64"
  by (simp add: extractSubHalIndex_def kBitsAfterSubHalIndex_def u64_def take_bit_eq_mod drop_bit_eq_div)

lemma split_handle:
  fixes h i :: int
  assumes "subHalIndexIsClear h"
  shows "(h + i * 2 ^ 24) div 2 ^ 24 = i" "(h + i * 2 ^ 24) mod 2 ^ 24 = h"
  using assms by (simp_all add: subHalIndexIsClear_iff)

lemma extract_set [hal_simps]:
  assumes "subHalIndexIsClear h" "0 \<le> i" "i < 128"
  shows "extractSubHalIndex (setSubHalIndex h i) = i"
  using assms split_handle(1) [OF assms(1), of i]
  by (simp add: setSubHalIndex_add extractSubHalIndex_div)

lemma clear_set [hal_simps]:
  assumes "subHalIndexIsClear h" "0 \<le> i" "i < 128"
  shows "clearSubHalIndex (setSubHalIndex h i) = h"
  using assms split_handle(2) [OF assms(1), of i]
  by (simp add: setSubHalIndex_add clearSubHalIndex_mod)

lemma extract_set_high:
  assumes "subHalIndexIsClear h" "128 \<le> i" "i < 256"
  shows "extractSubHalIndex (setSubHalIndex h i) = 2 ^ 64 - (256 - i)"
proof -
  have "extractSubHalIndex (setSubHalIndex h i) = (i - 256) mod 2 ^ 64"
    using assms split_handle(1) [OF assms(1), of "i - 256"]
    by (simp add: setSubHalIndex_add_high extractSubHalIndex_div)
  also have "\<dots> = (i - 256 + 2 ^ 64) mod 2 ^ 64" by (rule mod_add_self2 [symmetric])
  also have "\<dots> = i - 256 + 2 ^ 64"
    using assms by (intro mod_pos_pos_trivial) auto
  finally show ?thesis by simp
qed

lemma set_inj:
  assumes "subHalIndexIsClear h" "subHalIndexIsClear h'" "0 \<le> i" "i < 128" "0 \<le> i'" "i' < 128"
  shows "setSubHalIndex h i = setSubHalIndex h' i' \<longleftrightarrow> h = h' \<and> i = i'"
  by (metis assms clear_set extract_set)

section \<open>Property\<close>

text \<open>a handle built from a sub-HAL's own handle (first byte clear) and its index is taken apart
  again into the same two, for the first 128 sub-HALs; from index 128 on the sign bit is set, and
  the extracted index is larger than any number of sub-HALs, so that the handle is rejected.\<close>

theorem setSubHalIndex_roundtrip:
  assumes "subHalIndexIsClear h" and "0 \<le> i" and "i < 256"
  shows "(i < 128 \<longrightarrow> extractSubHalIndex (setSubHalIndex h i) = i \<and> clearSubHalIndex (setSubHalIndex h i) = h)
    \<and> (128 \<le> i \<longrightarrow> extractSubHalIndex (setSubHalIndex h i) = 2 ^ 64 - (256 - i))"
  using assms extract_set clear_set extract_set_high by auto

theorem setSubHalIndex_roundtrip_witness:
  "extractSubHalIndex (setSubHalIndex 77 3) = 3 \<and> clearSubHalIndex (setSubHalIndex 77 3) = 77
   \<and> extractSubHalIndex (setSubHalIndex 77 200) = 2 ^ 64 - 56"
  using setSubHalIndex_roundtrip [of 77 3] setSubHalIndex_roundtrip [of 77 200]
  by (simp add: subHalIndexIsClear_iff)

end
