(* ===== verification/Proxy_Wakelock.thy ===== *)
theory Proxy_Wakelock
  imports Hal_Prelude
begin

text \<open>
  The shared wake lock of the multi-HAL proxy: the reference count of \<^verbatim>\<open>HalProxy\<close>
  (\<^verbatim>\<open>incrementRefCountAndMaybeAcquireWakelock\<close> and its siblings, the wake-lock thread) and the
  RAII class \<^verbatim>\<open>ScopedWakelock\<close> that the sub-HALs hold. \<^verbatim>\<open>ScopedWakelock\<close> sees the count
  only through \<^verbatim>\<open>IScopedWakelockRefCounter\<close>: its definitions take the two methods as
  arguments, the locale \<open>refcounter\<close> states what they promise, and the interpretation
  \<open>proxy_counter\<close> discharges it for \<^verbatim>\<open>HalProxy\<close>.

  Every call of \<^verbatim>\<open>getTimeNow\<close> (\<^verbatim>\<open>system_clock\<close>) is an argument. \<open>wk_held\<close> is the
  kernel's side of \<^verbatim>\<open>acquire_wake_lock\<close>/\<^verbatim>\<open>release_wake_lock\<close>. Counts are \<open>nat\<close>: they are
  bounded by the number of events in memory.
\<close>

record wakelock =
  wk_mThreadsRun :: bool
  wk_mWakelockRefCount :: nat
  wk_mWakelockTimeoutStartTime :: int
  wk_mWakelockTimeoutResetTime :: int
  wk_held :: bool

definition kWakelockTimeoutNs :: int where
  "kWakelockTimeoutNs = WAKE_LOCK_SECONDS * 1000000000"

text \<open>The result: \<open>None\<close> for false, \<open>Some timeoutStart\<close> for true.\<close>

definition incrementRefCountAndMaybeAcquireWakelock ::
  "int \<Rightarrow> nat \<Rightarrow> wakelock \<Rightarrow> int option \<times> wakelock" where
  "incrementRefCountAndMaybeAcquireWakelock now delta st =
     (if \<not> wk_mThreadsRun st then (None, st)
      else
        let st1 = (if wk_mWakelockRefCount st = 0 then st\<lparr>wk_held := True\<rparr> else st);
            st2 = st1\<lparr>wk_mWakelockTimeoutStartTime := now,
                      wk_mWakelockRefCount := wk_mWakelockRefCount st1 + delta\<rparr>
        in (Some (wk_mWakelockTimeoutStartTime st2), st2))"

definition decrementRefCountAndMaybeReleaseWakelock :: "nat \<Rightarrow> int \<Rightarrow> wakelock \<Rightarrow> wakelock" where
  "decrementRefCountAndMaybeReleaseWakelock delta timeoutStart st =
     (if \<not> wk_mThreadsRun st then st
      else
        let start = (if timeoutStart = - 1 then wk_mWakelockTimeoutResetTime st else timeoutStart) in
        if wk_mWakelockRefCount st = 0 \<or> start < wk_mWakelockTimeoutResetTime st then st
        else
          let st1 = st\<lparr>wk_mWakelockRefCount :=
                         wk_mWakelockRefCount st - min (wk_mWakelockRefCount st) delta\<rparr>
          in if wk_mWakelockRefCount st1 = 0 then st1\<lparr>wk_held := False\<rparr> else st1)"

definition resetSharedWakelock :: "int \<Rightarrow> wakelock \<Rightarrow> wakelock" where
  "resetSharedWakelock now st =
     (decrementRefCountAndMaybeReleaseWakelock (wk_mWakelockRefCount st) (- 1) st)
       \<lparr>wk_mWakelockTimeoutResetTime := now\<rparr>"

text \<open>\<open>None\<close>: timed out; \<open>Some timeLeft\<close> otherwise.\<close>

definition sharedWakelockDidTimeout :: "int \<Rightarrow> wakelock \<Rightarrow> int option" where
  "sharedWakelockDidTimeout now st =
     (let duration = i64 (now - wk_mWakelockTimeoutStartTime st)
      in if duration > kWakelockTimeoutNs then None else Some (kWakelockTimeoutNs - duration))"

text \<open>
  One round of \<^verbatim>\<open>handleWakelocks\<close>, at the condition variable: \<open>WL_blocked\<close> waits on,
  \<open>WL_read\<close> has released the lock and reads the wake-lock queue for \<open>timeLeft\<close>; the other
  rounds are over. When the read succeeds the number of handled events comes back to
  \<open>handleWakelocks_read\<close>. Leaving the loop resets the lock once more.
\<close>

datatype wakelock_round = WL_blocked | WL_reset | WL_read int | WL_exit

definition handleWakelocks_round ::
  "int \<Rightarrow> int \<Rightarrow> wakelock \<Rightarrow> wakelock_round \<times> wakelock" where
  "handleWakelocks_round now now' st =
     (if \<not> wk_mThreadsRun st then (WL_exit, resetSharedWakelock now' st)
      else if wk_mWakelockRefCount st = 0 then (WL_blocked, st)
      else (case sharedWakelockDidTimeout now st of
              None \<Rightarrow> (WL_reset, resetSharedWakelock now' st)
            | Some timeLeft \<Rightarrow> (WL_read timeLeft, st)))"

definition handleWakelocks_read :: "int option \<Rightarrow> wakelock \<Rightarrow> wakelock" where
  "handleWakelocks_read result st =
     (case result of
        Some numWakeLocksProcessed \<Rightarrow>
          decrementRefCountAndMaybeReleaseWakelock (nat numWakeLocksProcessed) (- 1) st
      | None \<Rightarrow> st)"

section \<open>ScopedWakelock\<close>

text \<open>\<open>sl_mRefCounter\<close> tells whether the pointer is set; a lock that is not locked never uses it,
  nor the creation time, which the constructor then leaves as it was.\<close>

record ScopedWakelock =
  sl_mRefCounter :: bool
  sl_mCreatedAtTimeNs :: int
  sl_mLocked :: bool

definition ScopedWakelock_init ::
  "(int \<Rightarrow> nat \<Rightarrow> 's \<Rightarrow> int option \<times> 's) \<Rightarrow> int \<Rightarrow> int \<Rightarrow> bool \<Rightarrow> 's \<Rightarrow> ScopedWakelock \<times> 's" where
  "ScopedWakelock_init increment junk now locked st =
     (if locked
      then (case increment now 1 st of
              (Some created, st') \<Rightarrow>
                (\<lparr>sl_mRefCounter = True, sl_mCreatedAtTimeNs = created, sl_mLocked = True\<rparr>, st')
            | (None, st') \<Rightarrow>
                (\<lparr>sl_mRefCounter = True, sl_mCreatedAtTimeNs = junk, sl_mLocked = False\<rparr>, st'))
      else (\<lparr>sl_mRefCounter = True, sl_mCreatedAtTimeNs = junk, sl_mLocked = False\<rparr>, st))"

definition ScopedWakelock_destroy ::
  "(nat \<Rightarrow> int \<Rightarrow> 's \<Rightarrow> 's) \<Rightarrow> ScopedWakelock \<Rightarrow> 's \<Rightarrow> 's" where
  "ScopedWakelock_destroy decrement l st =
     (if sl_mLocked l then decrement 1 (sl_mCreatedAtTimeNs l) st else st)"

text \<open>The move assignment: the new object and what is left of the other one.\<close>

definition ScopedWakelock_move :: "ScopedWakelock \<Rightarrow> ScopedWakelock \<times> ScopedWakelock" where
  "ScopedWakelock_move other =
     (other, \<lparr>sl_mRefCounter = False, sl_mCreatedAtTimeNs = 0, sl_mLocked = False\<rparr>)"

section \<open>The interface of the reference counter\<close>

text \<open>
  What a holder of locks does, in any order: create a scoped lock, destroy one, hand over wake-up
  events for the framework, have the framework report handled ones, and the reset after a timeout.
  The state is the live locks, the events handed over and not yet reported (of those since the last
  reset), the latest time read from the clock, and the counter.
\<close>

datatype wakelock_op =
    Lock_create int bool
  | Lock_destroy nat
  | Post_wakeups int nat
  | Wakeups_handled nat
  | Timeout_reset int

record 's wakelock_user =
  wr_locks :: "ScopedWakelock list"
  wr_owed :: nat
  wr_clock :: int
  wr_counter :: 's

definition drop_nth :: "nat \<Rightarrow> 'a list \<Rightarrow> 'a list" where
  "drop_nth i xs = take i xs @ drop (Suc i) xs"

fun wakelock_step ::
  "(int \<Rightarrow> nat \<Rightarrow> 's \<Rightarrow> int option \<times> 's) \<Rightarrow> (nat \<Rightarrow> int \<Rightarrow> 's \<Rightarrow> 's) \<Rightarrow> (int \<Rightarrow> 's \<Rightarrow> 's)
     \<Rightarrow> wakelock_op \<Rightarrow> 's wakelock_user \<Rightarrow> 's wakelock_user" where
  "wakelock_step increment decrement reset (Lock_create now locked) r =
     (case ScopedWakelock_init increment 0 now locked (wr_counter r) of
        (l, s) \<Rightarrow> r\<lparr>wr_locks := wr_locks r @ [l], wr_clock := now, wr_counter := s\<rparr>)"
| "wakelock_step increment decrement reset (Lock_destroy i) r =
     (if i < length (wr_locks r)
      then r\<lparr>wr_locks := drop_nth i (wr_locks r),
             wr_counter := ScopedWakelock_destroy decrement (wr_locks r ! i) (wr_counter r)\<rparr>
      else r)"
| "wakelock_step increment decrement reset (Post_wakeups now n) r =
     r\<lparr>wr_owed := wr_owed r + n, wr_clock := now, wr_counter := snd (increment now n (wr_counter r))\<rparr>"
| "wakelock_step increment decrement reset (Wakeups_handled n) r =
     r\<lparr>wr_owed := wr_owed r - n, wr_counter := decrement n (- 1) (wr_counter r)\<rparr>"
| "wakelock_step increment decrement reset (Timeout_reset now) r =
     r\<lparr>wr_owed := 0, wr_clock := now, wr_counter := reset now (wr_counter r)\<rparr>"

text \<open>The clock never stands still between two readings, wake-up posts are not empty, and the
  framework reports no more events than it was given since the last reset.\<close>

fun wakelock_op_ok :: "wakelock_op \<Rightarrow> 's wakelock_user \<Rightarrow> bool" where
  "wakelock_op_ok (Lock_create now locked) r = (wr_clock r < now)"
| "wakelock_op_ok (Lock_destroy i) r = True"
| "wakelock_op_ok (Post_wakeups now n) r = (wr_clock r < now \<and> 0 < n)"
| "wakelock_op_ok (Wakeups_handled n) r = (n \<le> wr_owed r)"
| "wakelock_op_ok (Timeout_reset now) r = (wr_clock r < now)"

fun wakelock_run ::
  "(int \<Rightarrow> nat \<Rightarrow> 's \<Rightarrow> int option \<times> 's) \<Rightarrow> (nat \<Rightarrow> int \<Rightarrow> 's \<Rightarrow> 's) \<Rightarrow> (int \<Rightarrow> 's \<Rightarrow> 's)
     \<Rightarrow> wakelock_op list \<Rightarrow> 's wakelock_user \<Rightarrow> 's wakelock_user option" where
  "wakelock_run increment decrement reset [] r = Some r"
| "wakelock_run increment decrement reset (a # as) r =
     (if wakelock_op_ok a r
      then wakelock_run increment decrement reset as (wakelock_step increment decrement reset a r)
      else None)"

text \<open>The locks that still count: locked, and created after the last reset.\<close>

definition live_lock :: "int \<Rightarrow> ScopedWakelock \<Rightarrow> bool" where
  "live_lock reset_time l \<longleftrightarrow> sl_mLocked l \<and> reset_time \<le> sl_mCreatedAtTimeNs l"

lemma filter_drop_nth:
  assumes "i < length xs"
  shows "length (filter P (drop_nth i xs)) + (if P (xs ! i) then 1 else 0) = length (filter P xs)"
proof -
  have "xs = take i xs @ xs ! i # drop (Suc i) xs" using assms by (rule id_take_nth_drop)
  then have "length (filter P xs) = length (filter P (take i xs @ xs ! i # drop (Suc i) xs))"
    by (rule arg_cong)
  then show ?thesis by (simp add: drop_nth_def)
qed

lemma set_drop_nth: "set (drop_nth i xs) \<subseteq> set xs"
  by (auto simp: drop_nth_def dest: in_set_takeD in_set_dropD)

locale refcounter =
  fixes increment :: "int \<Rightarrow> nat \<Rightarrow> 's \<Rightarrow> int option \<times> 's"
    and decrement :: "nat \<Rightarrow> int \<Rightarrow> 's \<Rightarrow> 's"
    and reset :: "int \<Rightarrow> 's \<Rightarrow> 's"
    and count :: "'s \<Rightarrow> nat"
    and held :: "'s \<Rightarrow> bool"
    and running :: "'s \<Rightarrow> bool"
    and reset_time :: "'s \<Rightarrow> int"
  assumes increment_running: "running s \<Longrightarrow> \<exists>s'. increment now n s = (Some now, s') \<and> count s' = count s + n
      \<and> running s' \<and> reset_time s' = reset_time s \<and> held s' = (count s = 0 \<or> held s)"
    and decrement_running: "running s \<Longrightarrow> running (decrement n t s) \<and> reset_time (decrement n t s) = reset_time s"
    and decrement_fresh: "running s \<Longrightarrow> t = - 1 \<or> reset_time s \<le> t \<Longrightarrow> count (decrement n t s) = count s - n"
    and decrement_stale: "t \<noteq> - 1 \<Longrightarrow> t < reset_time s \<Longrightarrow> decrement n t s = s"
    and decrement_held: "running s \<Longrightarrow> held s = (0 < count s)
      \<Longrightarrow> held (decrement n t s) = (0 < count (decrement n t s))"
    and reset_running: "running s \<Longrightarrow> held s = (0 < count s) \<Longrightarrow> running (reset now s)
      \<and> reset_time (reset now s) = now \<and> count (reset now s) = 0 \<and> \<not> held (reset now s)"
begin

definition lock_inv :: "'s wakelock_user \<Rightarrow> bool" where
  "lock_inv r \<longleftrightarrow>
     (let s = wr_counter r in
      running s \<and> 0 \<le> reset_time s \<and> reset_time s \<le> wr_clock r
      \<and> (\<forall>l\<in>set (wr_locks r). sl_mLocked l \<longrightarrow> 0 \<le> sl_mCreatedAtTimeNs l \<and> sl_mCreatedAtTimeNs l \<le> wr_clock r)
      \<and> count s = length (filter (live_lock (reset_time s)) (wr_locks r)) + wr_owed r
      \<and> held s = (0 < count s))"

lemma lock_inv_create:
  assumes "lock_inv r" "wr_clock r < now"
  shows "lock_inv (wakelock_step increment decrement reset (Lock_create now locked) r)"
proof (cases locked)
  case True
  obtain s' where "increment now 1 (wr_counter r) = (Some now, s')"
    "count s' = count (wr_counter r) + 1" "running s'" "reset_time s' = reset_time (wr_counter r)"
    "held s' = (count (wr_counter r) = 0 \<or> held (wr_counter r))"
    using assms increment_running [of "wr_counter r" now 1] by (auto simp: lock_inv_def Let_def)
  with True assms show ?thesis
    by (fastforce simp: lock_inv_def Let_def ScopedWakelock_init_def live_lock_def)
next
  case False
  with assms show ?thesis
    by (fastforce simp: lock_inv_def Let_def ScopedWakelock_init_def live_lock_def)
qed

lemma lock_inv_post:
  assumes "lock_inv r" "wr_clock r < now" "0 < n"
  shows "lock_inv (wakelock_step increment decrement reset (Post_wakeups now n) r)"
proof -
  obtain s' where "increment now n (wr_counter r) = (Some now, s')"
    "count s' = count (wr_counter r) + n" "running s'" "reset_time s' = reset_time (wr_counter r)"
    "held s' = (count (wr_counter r) = 0 \<or> held (wr_counter r))"
    using assms increment_running [of "wr_counter r" now n] by (auto simp: lock_inv_def Let_def)
  with assms show ?thesis by (fastforce simp: lock_inv_def Let_def)
qed

lemma lock_inv_destroy:
  assumes "lock_inv r"
  shows "lock_inv (wakelock_step increment decrement reset (Lock_destroy i) r)"
proof (cases "i < length (wr_locks r)")
  case True
  define s l where "s = wr_counter r" and "l = wr_locks r ! i"
  have l: "l \<in> set (wr_locks r)" using True by (simp add: l_def)
  have len: "length (filter (live_lock (reset_time s)) (drop_nth i (wr_locks r)))
      + (if live_lock (reset_time s) l then 1 else 0) = length (filter (live_lock (reset_time s)) (wr_locks r))"
    using filter_drop_nth [OF True] by (simp add: l_def)
  have run: "running s" "held s = (0 < count s)"
    using assms by (simp_all add: lock_inv_def Let_def s_def)
  have sub: "set (drop_nth i (wr_locks r)) \<subseteq> set (wr_locks r)" by (rule set_drop_nth)
  let ?s' = "ScopedWakelock_destroy decrement l s"
  have "count ?s' = count s - (if live_lock (reset_time s) l then 1 else 0)"
    using run(1) l assms decrement_fresh [of s "sl_mCreatedAtTimeNs l" 1]
      decrement_stale [of "sl_mCreatedAtTimeNs l" s 1]
    by (force simp: ScopedWakelock_destroy_def live_lock_def lock_inv_def Let_def)
  then have "count ?s' = length (filter (live_lock (reset_time s)) (drop_nth i (wr_locks r))) + wr_owed r"
    using len assms by (simp add: lock_inv_def Let_def s_def split: if_splits)
  moreover have "running ?s'" "reset_time ?s' = reset_time s" "held ?s' = (0 < count ?s')"
    using run decrement_running [of s 1 "sl_mCreatedAtTimeNs l"] decrement_held [of s 1 "sl_mCreatedAtTimeNs l"]
    by (auto simp: ScopedWakelock_destroy_def)
  ultimately show ?thesis
    using assms True sub by (auto simp: lock_inv_def Let_def s_def l_def)
next
  case False
  with assms show ?thesis by simp
qed

lemma lock_inv_handled:
  assumes "lock_inv r" "n \<le> wr_owed r"
  shows "lock_inv (wakelock_step increment decrement reset (Wakeups_handled n) r)"
  using assms decrement_running [of "wr_counter r" n "- 1"] decrement_held [of "wr_counter r" n "- 1"]
    decrement_fresh [of "wr_counter r" "- 1" n]
  by (auto simp: lock_inv_def Let_def)

lemma lock_inv_reset:
  assumes "lock_inv r" "wr_clock r < now"
  shows "lock_inv (wakelock_step increment decrement reset (Timeout_reset now) r)"
proof -
  have "filter (live_lock now) (wr_locks r) = []"
    using assms by (fastforce simp: lock_inv_def Let_def live_lock_def filter_empty_conv)
  then show ?thesis
    using assms reset_running [of "wr_counter r" now] by (fastforce simp: lock_inv_def Let_def)
qed

lemma lock_inv_step:
  assumes "lock_inv r" "wakelock_op_ok a r"
  shows "lock_inv (wakelock_step increment decrement reset a r)"
  using assms lock_inv_create lock_inv_post lock_inv_destroy lock_inv_handled lock_inv_reset
  by (cases a) auto

lemma lock_inv_run:
  "lock_inv r \<Longrightarrow> wakelock_run increment decrement reset as r = Some r' \<Longrightarrow> lock_inv r'"
  by (induction as arbitrary: r) (auto intro: lock_inv_step split: if_splits)

end

section \<open>The proxy provides it\<close>

lemmas counter_defs = incrementRefCountAndMaybeAcquireWakelock_def
  decrementRefCountAndMaybeReleaseWakelock_def resetSharedWakelock_def

lemma reset_count:
  assumes "wk_mThreadsRun s" "wk_held s = (0 < wk_mWakelockRefCount s)"
  shows "wk_mWakelockRefCount (resetSharedWakelock now s) = 0 \<and> \<not> wk_held (resetSharedWakelock now s)
    \<and> wk_mThreadsRun (resetSharedWakelock now s) \<and> wk_mWakelockTimeoutResetTime (resetSharedWakelock now s) = now"
  using assms by (auto simp: counter_defs Let_def)

interpretation proxy_counter: refcounter
  incrementRefCountAndMaybeAcquireWakelock decrementRefCountAndMaybeReleaseWakelock
  resetSharedWakelock wk_mWakelockRefCount wk_held wk_mThreadsRun wk_mWakelockTimeoutResetTime
proof unfold_locales
  fix s :: wakelock and now n
  assume "wk_mThreadsRun s"
  then show "\<exists>s'. incrementRefCountAndMaybeAcquireWakelock now n s = (Some now, s')
      \<and> wk_mWakelockRefCount s' = wk_mWakelockRefCount s + n
      \<and> wk_mThreadsRun s' \<and> wk_mWakelockTimeoutResetTime s' = wk_mWakelockTimeoutResetTime s
      \<and> wk_held s' = (wk_mWakelockRefCount s = 0 \<or> wk_held s)"
    by (simp add: counter_defs Let_def)
qed (use reset_count in \<open>auto simp: counter_defs Let_def min_def\<close>)

section \<open>Properties\<close>

definition wakelock_init :: "int \<Rightarrow> wakelock" where
  "wakelock_init now = \<lparr>wk_mThreadsRun = True, wk_mWakelockRefCount = 0, wk_mWakelockTimeoutStartTime = now,
     wk_mWakelockTimeoutResetTime = now, wk_held = False\<rparr>"

definition wakelock_user_init :: "int \<Rightarrow> wakelock wakelock_user" where
  "wakelock_user_init now = \<lparr>wr_locks = [], wr_owed = 0, wr_clock = now, wr_counter = wakelock_init now\<rparr>"

abbreviation proxy_wakelock_run ::
  "wakelock_op list \<Rightarrow> wakelock wakelock_user \<Rightarrow> wakelock wakelock_user option" where
  "proxy_wakelock_run \<equiv> wakelock_run incrementRefCountAndMaybeAcquireWakelock
     decrementRefCountAndMaybeReleaseWakelock resetSharedWakelock"



text \<open>\<^verbatim>\<open>initializeCommon\<close> clears the running flag (\<^verbatim>\<open>stopThreads\<close>) before it calls
  \<^verbatim>\<open>resetSharedWakelock\<close>, and with the flag cleared the reset changes neither the count nor the
  wake lock: the references of the previous framework session and the lock they hold survive.\<close>

theorem resetSharedWakelock_after_stop:
  assumes "st' = resetSharedWakelock now (st\<lparr>wk_mThreadsRun := False\<rparr>)"
  shows "wk_mWakelockRefCount st' = wk_mWakelockRefCount st \<and> wk_held st' = wk_held st
       \<and> wk_mWakelockTimeoutResetTime st' = now"
  using assms by (simp add: counter_defs)

definition busy_wakelock :: wakelock where
  "busy_wakelock = \<lparr>wk_mThreadsRun = True, wk_mWakelockRefCount = 3, wk_mWakelockTimeoutStartTime = 10,
     wk_mWakelockTimeoutResetTime = 0, wk_held = True\<rparr>"

theorem resetSharedWakelock_after_stop_witness:
  "wk_mWakelockRefCount (resetSharedWakelock 20 (busy_wakelock\<lparr>wk_mThreadsRun := False\<rparr>)) = 3
   \<and> wk_held (resetSharedWakelock 20 (busy_wakelock\<lparr>wk_mThreadsRun := False\<rparr>))
   \<and> wk_mWakelockRefCount (resetSharedWakelock 20 busy_wakelock) = 0"
  using resetSharedWakelock_after_stop [OF refl, of 20 busy_wakelock]
  by (simp add: busy_wakelock_def counter_defs)

text \<open>an acknowledgement that arrives after a timeout reset is charged to whoever holds the lock
  then: a live scoped lock created after the reset loses its reference, and with it the wake lock,
  to the acknowledgement of one event posted before the reset.\<close>

theorem late_acknowledgement_releases_live_lock:
  assumes "wk_mThreadsRun st" and "0 \<le> t1" and "t1 < t2"
    and "ScopedWakelock_init incrementRefCountAndMaybeAcquireWakelock 0 t2 True (resetSharedWakelock t1 st) = (l, st1)"
    and "wk_held st = (0 < wk_mWakelockRefCount st)"
  shows "sl_mLocked l \<and> wk_held st1 \<and> wk_mWakelockRefCount st1 = 1
       \<and> \<not> wk_held (handleWakelocks_read (Some 1) st1)
       \<and> wk_mWakelockRefCount (handleWakelocks_read (Some 1) st1) = 0"
  using assms reset_count [OF assms(1,5), of t1]
  by (auto simp: ScopedWakelock_init_def incrementRefCountAndMaybeAcquireWakelock_def Let_def
      handleWakelocks_read_def decrementRefCountAndMaybeReleaseWakelock_def)

theorem late_acknowledgement_releases_live_lock_witness:
  "\<exists>l st1. ScopedWakelock_init incrementRefCountAndMaybeAcquireWakelock 0 30 True
              (resetSharedWakelock 20 busy_wakelock) = (l, st1)
     \<and> sl_mLocked l \<and> \<not> wk_held (handleWakelocks_read (Some 1) st1)"
proof -
  obtain l st1 where "ScopedWakelock_init incrementRefCountAndMaybeAcquireWakelock 0 30 True
              (resetSharedWakelock 20 busy_wakelock) = (l, st1)" by (meson surj_pair)
  with late_acknowledgement_releases_live_lock [OF _ _ _ this] show ?thesis
    by (simp add: busy_wakelock_def)
qed

end
