(* ===== verification/Hal_Proxy.thy ===== *)
theory Hal_Proxy
  imports Hal_Types Direct_Channel Handle_Encoding Proxy_Wakelock
begin

text \<open>
  The multi-HAL proxy (\<^verbatim>\<open>HalProxy.cpp\<close>, \<^verbatim>\<open>HalProxyCallback.cpp\<close>): it merges the sensors
  of several sub-HALs, routes every call by the index in the handle, and forwards their events to
  the framework, through a queue of its own when the event queue is full.

  A sub-HAL is a record of its methods (\<open>sub_hal\<close>, the wrapper \<^verbatim>\<open>ISubHalWrapperBase\<close>)
  together with its state. The message queues belong to the platform: what
  \<^verbatim>\<open>availableToWrite\<close>, \<^verbatim>\<open>write\<close>, \<^verbatim>\<open>writeBlocking\<close> and
  \<^verbatim>\<open>getQuantumCount\<close> answer, and every reading of the clock, is an argument; \<open>hp_written\<close>
  is what has gone to the event queue and \<open>hp_callbacks\<close> what has been told to the framework. The
  two threads are rounds, cut where the code releases its lock. Logging and \<^verbatim>\<open>debug\<close> are
  left out.
\<close>

section \<open>State\<close>

text \<open>\<^verbatim>\<open>SharedMemInfo\<close>: whether the type is \<^verbatim>\<open>ASHMEM\<close>, and the memory when the handle
  can be converted.\<close>

type_synonym shared_mem_info = "bool \<times> direct_mem option"

record 's sub_hal =
  sh_initialize :: "int \<Rightarrow> 's \<Rightarrow> hal_result \<times> 's"
  sh_getSensorsList :: "'s \<Rightarrow> SensorInfo list \<times> 's"
  sh_setOperationMode :: "operation_mode \<Rightarrow> 's \<Rightarrow> hal_result \<times> 's"
  sh_activate :: "int \<Rightarrow> bool \<Rightarrow> 's \<Rightarrow> hal_result \<times> 's"
  sh_batch :: "int \<Rightarrow> int \<Rightarrow> int \<Rightarrow> 's \<Rightarrow> hal_result \<times> 's"
  sh_flush :: "int \<Rightarrow> 's \<Rightarrow> hal_result \<times> 's"
  sh_injectSensorData :: "Event \<Rightarrow> 's \<Rightarrow> hal_result \<times> 's"
  sh_registerDirectChannel :: "shared_mem_info \<Rightarrow> 's \<Rightarrow> (cpp_exception + hal_result \<times> int) \<times> 's"
  sh_unregisterDirectChannel :: "int \<Rightarrow> 's \<Rightarrow> hal_result \<times> 's"
  sh_configDirectReport :: "int \<Rightarrow> int \<Rightarrow> rate_level \<Rightarrow> 's \<Rightarrow> (hal_result \<times> int) \<times> 's"

datatype proxy_callback =
    Dynamic_connected "SensorInfo list"
  | Dynamic_disconnected "int list"

text \<open>The round of the pending-writes thread in flight: \<open>Writing numToWrite eventQueueSize\<close> while
  it blocks in the queue, \<open>Written\<close> until it has the lock again.\<close>

datatype pending_writer = Idle | Writing nat nat | Written nat nat

record 's hal_proxy =
  hp_mSubHalList :: "('s sub_hal \<times> 's) list"
  hp_mSensors :: "(int, SensorInfo) stdmap"
  hp_mDynamicSensors :: "(int, SensorInfo) stdmap"
  hp_mCurrentOperationMode :: operation_mode
  hp_mDirectChannelSubHal :: "nat option"
  hp_mPendingWriteEventsQueue :: "(Event list \<times> nat) list"
  hp_mSizePendingWriteEventsQueue :: nat
  hp_mMostEventsObservedPendingWriteEventsQueue :: nat
  hp_writer :: pending_writer
  hp_wake :: wakelock
  hp_written :: "Event list"
  hp_callbacks :: "proxy_callback list"

definition kMaxSizePendingWriteEventsQueue :: nat where
  "kMaxSizePendingWriteEventsQueue = 100000"

text \<open>The conversions of \<^verbatim>\<open>convertV2_1.h\<close>, which is not part
  of this repository.\<close>

record convertV2_1 =
  convertToOldSensorInfo :: "SensorInfo \<Rightarrow> SensorInfo"
  convertToOldEvent :: "Event \<Rightarrow> Event"
  convertToNewEvent :: "Event \<Rightarrow> Event"
  convertToOldSensorInfos :: "SensorInfo list \<Rightarrow> SensorInfo list"
  convertToNewSensorInfos :: "SensorInfo list \<Rightarrow> SensorInfo list"
  convertToOldEvents :: "Event list \<Rightarrow> Event list"
  convertToNewEvents :: "Event list \<Rightarrow> Event list"

section \<open>Calling a sub-HAL\<close>

definition on_sub_hal ::
  "nat \<Rightarrow> ('s sub_hal \<Rightarrow> 's \<Rightarrow> 'r \<times> 's) \<Rightarrow> 's hal_proxy \<Rightarrow> 'r \<times> 's hal_proxy" where
  "on_sub_hal i call st =
     (case hp_mSubHalList st ! i of
        (ops, s) \<Rightarrow> (case call ops s of
          (r, s') \<Rightarrow> (r, st\<lparr>hp_mSubHalList := (hp_mSubHalList st)[i := (ops, s')]\<rparr>)))"

definition isSubHalIndexValid :: "int \<Rightarrow> 's hal_proxy \<Rightarrow> bool" where
  "isSubHalIndexValid sensorHandle st \<longleftrightarrow>
     extractSubHalIndex sensorHandle < int (length (hp_mSubHalList st))"

text \<open>\<^verbatim>\<open>getSubHalForSensorHandle(h)->call(clearSubHalIndex(h), ...)\<close>.\<close>

definition getSubHalForSensorHandle ::
  "int \<Rightarrow> ('s sub_hal \<Rightarrow> 's \<Rightarrow> 'r \<times> 's) \<Rightarrow> 's hal_proxy \<Rightarrow> 'r \<times> 's hal_proxy" where
  "getSubHalForSensorHandle sensorHandle = on_sub_hal (nat (extractSubHalIndex sensorHandle))"

definition HalProxy_activate :: "int \<Rightarrow> bool \<Rightarrow> 's hal_proxy \<Rightarrow> hal_result \<times> 's hal_proxy" where
  "HalProxy_activate sensorHandle enabled st =
     (if \<not> isSubHalIndexValid sensorHandle st then (R_BAD_VALUE, st)
      else getSubHalForSensorHandle sensorHandle
             (\<lambda>ops. sh_activate ops (clearSubHalIndex sensorHandle) enabled) st)"

definition HalProxy_batch :: "int \<Rightarrow> int \<Rightarrow> int \<Rightarrow> 's hal_proxy \<Rightarrow> hal_result \<times> 's hal_proxy" where
  "HalProxy_batch sensorHandle samplingPeriodNs maxReportLatencyNs st =
     (if \<not> isSubHalIndexValid sensorHandle st then (R_BAD_VALUE, st)
      else getSubHalForSensorHandle sensorHandle
             (\<lambda>ops. sh_batch ops (clearSubHalIndex sensorHandle) samplingPeriodNs maxReportLatencyNs) st)"

definition HalProxy_flush :: "int \<Rightarrow> 's hal_proxy \<Rightarrow> hal_result \<times> 's hal_proxy" where
  "HalProxy_flush sensorHandle st =
     (if \<not> isSubHalIndexValid sensorHandle st then (R_BAD_VALUE, st)
      else getSubHalForSensorHandle sensorHandle
             (\<lambda>ops. sh_flush ops (clearSubHalIndex sensorHandle)) st)"

definition HalProxy_injectSensorData ::
  "convertV2_1 \<Rightarrow> Event \<Rightarrow> 's hal_proxy \<Rightarrow> hal_result \<times> 's hal_proxy" where
  "HalProxy_injectSensorData cv event st =
     (if hp_mCurrentOperationMode st = OM_NORMAL \<and> ev_sensorType event \<noteq> ST_ADDITIONAL_INFO
      then (R_BAD_VALUE, st)
      else if \<not> isSubHalIndexValid (ev_sensorHandle event) st then (R_BAD_VALUE, st)
      else
        let subHalEvent = event\<lparr>ev_sensorHandle := clearSubHalIndex (ev_sensorHandle event)\<rparr>
        in getSubHalForSensorHandle (ev_sensorHandle event)
             (\<lambda>ops. sh_injectSensorData ops (convertToNewEvent cv subHalEvent)) st)"

definition HalProxy_injectSensorData_2_1 ::
  "convertV2_1 \<Rightarrow> Event \<Rightarrow> 's hal_proxy \<Rightarrow> hal_result \<times> 's hal_proxy" where
  "HalProxy_injectSensorData_2_1 cv event = HalProxy_injectSensorData cv (convertToOldEvent cv event)"

section \<open>The operation mode\<close>

text \<open>The loop over the sub-HALs from \<open>i\<close> on: the result, the index at which it stopped, and the
  state.\<close>

function setOperationMode_loop ::
  "operation_mode \<Rightarrow> nat \<Rightarrow> 's hal_proxy \<Rightarrow> (hal_result \<times> nat) \<times> 's hal_proxy" where
  "setOperationMode_loop mode i st =
     (if i < length (hp_mSubHalList st)
      then (case on_sub_hal i (\<lambda>ops. sh_setOperationMode ops mode) st of
              (result, st') \<Rightarrow>
                if result \<noteq> R_OK then ((result, i), st') else setOperationMode_loop mode (Suc i) st')
      else ((R_OK, i), st))"
  by pat_completeness auto

lemma on_sub_hal_length [simp]:
  "length (hp_mSubHalList (snd (on_sub_hal i call st))) = length (hp_mSubHalList st)"
  by (simp add: on_sub_hal_def split: prod.splits)

termination setOperationMode_loop
  by (relation "measure (\<lambda>(mode, i, st). length (hp_mSubHalList st) - i)")
     (auto dest: arg_cong [where f = "\<lambda>p. length (hp_mSubHalList (snd p))"])

declare setOperationMode_loop.simps [simp del]

definition HalProxy_setOperationMode ::
  "operation_mode \<Rightarrow> 's hal_proxy \<Rightarrow> hal_result \<times> 's hal_proxy" where
  "HalProxy_setOperationMode mode st =
     (case setOperationMode_loop mode 0 st of
        ((result, subHalIndex), st1) \<Rightarrow>
          if result \<noteq> R_OK
          then (result, fold (\<lambda>i st. snd (on_sub_hal i
                  (\<lambda>ops. sh_setOperationMode ops (hp_mCurrentOperationMode st)) st)) [0..<subHalIndex] st1)
          else (result, st1\<lparr>hp_mCurrentOperationMode := mode\<rparr>))"

section \<open>Direct channels\<close>

definition HalProxy_registerDirectChannel ::
  "shared_mem_info \<Rightarrow> 's hal_proxy \<Rightarrow> (cpp_exception + hal_result \<times> int) \<times> 's hal_proxy" where
  "HalProxy_registerDirectChannel mem st =
     (case hp_mDirectChannelSubHal st of
        None \<Rightarrow> (Inr (R_INVALID_OPERATION, -1), st)
      | Some i \<Rightarrow> on_sub_hal i (\<lambda>ops. sh_registerDirectChannel ops mem) st)"

definition HalProxy_unregisterDirectChannel :: "int \<Rightarrow> 's hal_proxy \<Rightarrow> hal_result \<times> 's hal_proxy" where
  "HalProxy_unregisterDirectChannel channelHandle st =
     (case hp_mDirectChannelSubHal st of
        None \<Rightarrow> (R_INVALID_OPERATION, st)
      | Some i \<Rightarrow> on_sub_hal i (\<lambda>ops. sh_unregisterDirectChannel ops channelHandle) st)"

definition HalProxy_configDirectReport ::
  "int \<Rightarrow> int \<Rightarrow> rate_level \<Rightarrow> 's hal_proxy \<Rightarrow> (hal_result \<times> int) \<times> 's hal_proxy" where
  "HalProxy_configDirectReport sensorHandle channelHandle rate st =
     (case hp_mDirectChannelSubHal st of
        None \<Rightarrow> ((R_INVALID_OPERATION, -1), st)
      | Some i \<Rightarrow>
          if sensorHandle = -1 \<and> rate \<noteq> RL_STOP then ((R_BAD_VALUE, -1), st)
          else
            let h = (if sensorHandle \<noteq> -1 then clearSubHalIndex sensorHandle else sensorHandle)
            in on_sub_hal i (\<lambda>ops. sh_configDirectReport ops h channelHandle rate) st)"

section \<open>The list of sensors\<close>

text \<open>\<^verbatim>\<open>setDirectChannelFlags\<close>: \<open>i\<close> is the sub-HAL the sensor comes from.\<close>

definition direct_flags :: int where
  "direct_flags = FLAG_MASK_DIRECT_REPORT OR FLAG_MASK_DIRECT_CHANNEL"

definition setDirectChannelFlags ::
  "nat \<Rightarrow> SensorInfo \<Rightarrow> nat option \<Rightarrow> SensorInfo \<times> nat option" where
  "setDirectChannelFlags i sensorInfo mDirectChannelSubHal =
     (let sensorSupportsDirectChannel = has_flag (si_flags sensorInfo) direct_flags in
      if mDirectChannelSubHal = None \<and> sensorSupportsDirectChannel then (sensorInfo, Some i)
      else if mDirectChannelSubHal \<noteq> None \<and> mDirectChannelSubHal \<noteq> Some i
      then (sensorInfo\<lparr>si_flags := si_flags sensorInfo AND u32 (NOT direct_flags)\<rparr>, mDirectChannelSubHal)
      else (sensorInfo, mDirectChannelSubHal))"

definition load_sensor :: "nat \<Rightarrow> SensorInfo \<Rightarrow> 's hal_proxy \<Rightarrow> 's hal_proxy" where
  "load_sensor i sensor st =
     (if \<not> subHalIndexIsClear (si_sensorHandle sensor) then st
      else
        let sensor1 = sensor\<lparr>si_sensorHandle := setSubHalIndex (si_sensorHandle sensor) (int i)\<rparr>
        in case setDirectChannelFlags i sensor1 (hp_mDirectChannelSubHal st) of
             (sensor2, direct) \<Rightarrow>
               st\<lparr>hp_mDirectChannelSubHal := direct,
                  hp_mSensors := sm_put (si_sensorHandle sensor2) sensor2 (hp_mSensors st)\<rparr>)"

definition load_sub_hal :: "nat \<Rightarrow> 's hal_proxy \<Rightarrow> 's hal_proxy" where
  "load_sub_hal i st =
     (case on_sub_hal i sh_getSensorsList st of (list, st') \<Rightarrow> fold (load_sensor i) list st')"

definition initializeSensorList :: "'s hal_proxy \<Rightarrow> 's hal_proxy" where
  "initializeSensorList st = fold load_sub_hal [0..<length (hp_mSubHalList st)] st"

text \<open>The constructors, from the sub-HALs already wrapped.\<close>

definition HalProxy_init :: "int \<Rightarrow> int \<Rightarrow> ('s sub_hal \<times> 's) list \<Rightarrow> 's hal_proxy" where
  "HalProxy_init now now' subHals =
     initializeSensorList
       \<lparr>hp_mSubHalList = subHals, hp_mSensors = [], hp_mDynamicSensors = [],
        hp_mCurrentOperationMode = OM_NORMAL, hp_mDirectChannelSubHal = None,
        hp_mPendingWriteEventsQueue = [], hp_mSizePendingWriteEventsQueue = 0,
        hp_mMostEventsObservedPendingWriteEventsQueue = 0, hp_writer = Idle,
        hp_wake = \<lparr>wk_mThreadsRun = True, wk_mWakelockRefCount = 0, wk_mWakelockTimeoutStartTime = now,
                   wk_mWakelockTimeoutResetTime = now', wk_held = False\<rparr>,
        hp_written = [], hp_callbacks = []\<rparr>"

definition getSensorsList_2_1 :: "'s hal_proxy \<Rightarrow> SensorInfo list" where
  "getSensorsList_2_1 st = sm_values (hp_mSensors st)"

definition getSensorsList :: "convertV2_1 \<Rightarrow> 's hal_proxy \<Rightarrow> SensorInfo list" where
  "getSensorsList cv st =
     map (convertToOldSensorInfo cv) (filter (\<lambda>s. si_type s \<noteq> ST_HINGE_ANGLE) (sm_values (hp_mSensors st)))"

section \<open>Dynamic sensors\<close>

text \<open>The loop of \<^verbatim>\<open>onDynamicSensorsConnected\<close> and of its counterpart: the map and the list
  that goes to the framework.\<close>

fun connect_loop ::
  "int \<Rightarrow> SensorInfo list \<Rightarrow> (int, SensorInfo) stdmap \<Rightarrow> SensorInfo list \<Rightarrow> (int, SensorInfo) stdmap \<times> SensorInfo list"
where
  "connect_loop subHalIndex [] m sensors = (m, sensors)"
| "connect_loop subHalIndex (sensor # added) m sensors =
     (if \<not> subHalIndexIsClear (si_sensorHandle sensor) then connect_loop subHalIndex added m sensors
      else
        let sensor1 = sensor\<lparr>si_sensorHandle := setSubHalIndex (si_sensorHandle sensor) subHalIndex\<rparr>
        in connect_loop subHalIndex added (sm_put (si_sensorHandle sensor1) sensor1 m) (sensors @ [sensor1]))"

definition onDynamicSensorsConnected :: "SensorInfo list \<Rightarrow> int \<Rightarrow> 's hal_proxy \<Rightarrow> 's hal_proxy" where
  "onDynamicSensorsConnected dynamicSensorsAdded subHalIndex st =
     (case connect_loop subHalIndex dynamicSensorsAdded (hp_mDynamicSensors st) [] of
        (m, sensors) \<Rightarrow> st\<lparr>hp_mDynamicSensors := m,
                          hp_callbacks := hp_callbacks st @ [Dynamic_connected sensors]\<rparr>)"

fun disconnect_loop ::
  "int \<Rightarrow> int list \<Rightarrow> (int, SensorInfo) stdmap \<Rightarrow> int list \<Rightarrow> (int, SensorInfo) stdmap \<times> int list"
where
  "disconnect_loop subHalIndex [] m handles = (m, handles)"
| "disconnect_loop subHalIndex (sensorHandle # removed) m handles =
     (if \<not> subHalIndexIsClear sensorHandle then disconnect_loop subHalIndex removed m handles
      else
        let h = setSubHalIndex sensorHandle subHalIndex
        in if sm_find h m \<noteq> None then disconnect_loop subHalIndex removed (sm_erase h m) (handles @ [h])
           else disconnect_loop subHalIndex removed m handles)"

definition onDynamicSensorsDisconnected :: "int list \<Rightarrow> int \<Rightarrow> 's hal_proxy \<Rightarrow> 's hal_proxy" where
  "onDynamicSensorsDisconnected dynamicSensorHandlesRemoved subHalIndex st =
     (case disconnect_loop subHalIndex dynamicSensorHandlesRemoved (hp_mDynamicSensors st) [] of
        (m, handles) \<Rightarrow> st\<lparr>hp_mDynamicSensors := m,
                          hp_callbacks := hp_callbacks st @ [Dynamic_disconnected handles]\<rparr>)"

section \<open>Events\<close>

text \<open>\<^verbatim>\<open>getSensorInfo\<close> returns \<^verbatim>\<open>mSensors[sensorHandle]\<close>, which inserts a zeroed entry for
  a handle that is not there.\<close>

definition getSensorInfo :: "int \<Rightarrow> 's hal_proxy \<Rightarrow> SensorInfo \<times> 's hal_proxy" where
  "getSensorInfo sensorHandle st =
     (case sm_subscript SensorInfo_init sensorHandle (hp_mSensors st) of
        (info, m) \<Rightarrow> (info, st\<lparr>hp_mSensors := m\<rparr>))"

fun countNumWakeupEvents_loop :: "Event list \<Rightarrow> 's hal_proxy \<Rightarrow> nat \<times> 's hal_proxy" where
  "countNumWakeupEvents_loop [] st = (0, st)"
| "countNumWakeupEvents_loop (event # events) st =
     (case getSensorInfo (ev_sensorHandle event) st of
        (info, st1) \<Rightarrow>
          (case countNumWakeupEvents_loop events st1 of
             (n, st2) \<Rightarrow> ((if has_flag (si_flags info) FLAG_WAKE_UP then Suc n else n), st2)))"

definition countNumWakeupEvents :: "Event list \<Rightarrow> nat \<Rightarrow> 's hal_proxy \<Rightarrow> nat \<times> 's hal_proxy" where
  "countNumWakeupEvents events n st = countNumWakeupEvents_loop (take n events) st"

definition on_wake :: "(wakelock \<Rightarrow> wakelock) \<Rightarrow> 's hal_proxy \<Rightarrow> 's hal_proxy" where
  "on_wake f st = st\<lparr>hp_wake := f (hp_wake st)\<rparr>"

text \<open>\<open>wakelock\<close> is passed by value: it is destroyed when the call is over. \<open>avail\<close> is what
  \<^verbatim>\<open>availableToWrite\<close> returns, \<open>write_ok\<close> whether the write succeeds.\<close>

definition postEventsToMessageQueue ::
  "nat \<Rightarrow> bool \<Rightarrow> int \<Rightarrow> Event list \<Rightarrow> nat \<Rightarrow> ScopedWakelock \<Rightarrow> 's hal_proxy \<Rightarrow> 's hal_proxy" where
  "postEventsToMessageQueue avail write_ok now events numWakeupEvents wakelock st =
     (let st1 = (if sl_mLocked wakelock
                 then on_wake (\<lambda>w. snd (incrementRefCountAndMaybeAcquireWakelock now numWakeupEvents w)) st
                 else st);
          numToWrite = (if hp_mPendingWriteEventsQueue st1 = [] \<and> write_ok
                        then min (length events) avail else 0);
          st2 = st1\<lparr>hp_written := hp_written st1 @ take numToWrite events\<rparr>;
          numLeft = length events - numToWrite;
          st3 = (if numToWrite < length events
                   \<and> hp_mSizePendingWriteEventsQueue st2 + numLeft \<le> kMaxSizePendingWriteEventsQueue
                 then st2\<lparr>hp_mPendingWriteEventsQueue :=
                            hp_mPendingWriteEventsQueue st2 @ [(drop numToWrite events, numWakeupEvents)],
                          hp_mSizePendingWriteEventsQueue := hp_mSizePendingWriteEventsQueue st2 + numLeft,
                          hp_mMostEventsObservedPendingWriteEventsQueue :=
                            max (hp_mMostEventsObservedPendingWriteEventsQueue st2)
                                (hp_mSizePendingWriteEventsQueue st2 + numLeft)\<rparr>
                 else st2)
      in on_wake (ScopedWakelock_destroy decrementRefCountAndMaybeReleaseWakelock wakelock) st3)"

text \<open>\<^verbatim>\<open>HalProxyCallbackBase::processEvents\<close> (a meta-data event carries \<open>P_dynamic\<close>): the events with the sub-HAL's index in their handles,
  the number of wake-up events, and the proxy after the look-ups.\<close>

definition tag_event :: "int \<Rightarrow> Event \<Rightarrow> Event" where
  "tag_event mSubHalIndex event =
     (let event1 = event\<lparr>ev_sensorHandle := setSubHalIndex (ev_sensorHandle event) mSubHalIndex\<rparr>
      in if ev_sensorType event1 = ST_DYNAMIC_SENSOR_META
         then (case ev_payload event1 of
                 P_dynamic conn h \<Rightarrow> event1\<lparr>ev_payload := P_dynamic conn (setSubHalIndex h mSubHalIndex)\<rparr>
               | _ \<Rightarrow> event1)
         else event1)"

fun processEvents :: "int \<Rightarrow> Event list \<Rightarrow> 's hal_proxy \<Rightarrow> (Event list \<times> nat) \<times> 's hal_proxy" where
  "processEvents mSubHalIndex [] st = (([], 0), st)"
| "processEvents mSubHalIndex (event # events) st =
     (let event1 = tag_event mSubHalIndex event in
      case getSensorInfo (ev_sensorHandle event1) st of
        (sensor, st1) \<Rightarrow>
          (case processEvents mSubHalIndex events st1 of
             ((eventsOut, n), st2) \<Rightarrow>
               ((event1 # eventsOut, (if has_flag (si_flags sensor) FLAG_WAKE_UP then Suc n else n)), st2)))"

text \<open>\<^verbatim>\<open>ALOG_ASSERT\<close> is compiled out of release builds. The wake lock that was passed in is
  destroyed in either case.\<close>

definition HalProxyCallback_postEvents ::
  "int \<Rightarrow> nat \<Rightarrow> bool \<Rightarrow> int \<Rightarrow> Event list \<Rightarrow> ScopedWakelock \<Rightarrow> 's hal_proxy \<Rightarrow> 's hal_proxy" where
  "HalProxyCallback_postEvents mSubHalIndex avail write_ok now events wakelock st =
     (if events = [] \<or> \<not> wk_mThreadsRun (hp_wake st)
      then on_wake (ScopedWakelock_destroy decrementRefCountAndMaybeReleaseWakelock wakelock) st
      else
        (case processEvents mSubHalIndex events st of
           ((processedEvents, numWakeupEvents), st1) \<Rightarrow>
             postEventsToMessageQueue avail write_ok now processedEvents numWakeupEvents
               (fst (ScopedWakelock_move wakelock)) st1))"

definition createScopedWakelock ::
  "int \<Rightarrow> int \<Rightarrow> bool \<Rightarrow> 's hal_proxy \<Rightarrow> ScopedWakelock \<times> 's hal_proxy" where
  "createScopedWakelock junk now lock st =
     (case ScopedWakelock_init incrementRefCountAndMaybeAcquireWakelock junk now lock (hp_wake st) of
        (wakelock, w) \<Rightarrow> (wakelock, st\<lparr>hp_wake := w\<rparr>))"

section \<open>The pending writes\<close>

text \<open>
  A round of \<^verbatim>\<open>handlePendingWrites\<close>: under the lock it takes the sizes
  (\<open>handlePendingWrites_take\<close>), without it writes the events in front and, when that fails, gives
  their wake-up references back (\<open>handlePendingWrites_write\<close>), and under the lock again removes them
  from the queue (\<open>handlePendingWrites_finish\<close>).
\<close>

definition handlePendingWrites_take :: "nat \<Rightarrow> 's hal_proxy \<Rightarrow> 's hal_proxy" where
  "handlePendingWrites_take eventQueueSize st =
     (if hp_writer st = Idle \<and> wk_mThreadsRun (hp_wake st)
      then (case hp_mPendingWriteEventsQueue st of
              [] \<Rightarrow> st
            | (pendingWriteEvents, numWakeupEvents) # _ \<Rightarrow>
                st\<lparr>hp_writer := Writing (min (length pendingWriteEvents) eventQueueSize) eventQueueSize\<rparr>)
      else st)"

definition handlePendingWrites_write :: "bool \<Rightarrow> 's hal_proxy \<Rightarrow> 's hal_proxy" where
  "handlePendingWrites_write ok st =
     (case (hp_writer st, hp_mPendingWriteEventsQueue st) of
        (Writing numToWrite eventQueueSize, (pendingWriteEvents, numWakeupEvents) # _) \<Rightarrow>
          (let st1 =
             (if ok then st\<lparr>hp_written := hp_written st @ take numToWrite pendingWriteEvents\<rparr>
              else if numWakeupEvents > 0
              then if length pendingWriteEvents > eventQueueSize
                   then (case countNumWakeupEvents pendingWriteEvents eventQueueSize st of
                           (n, st1) \<Rightarrow> on_wake (decrementRefCountAndMaybeReleaseWakelock n (- 1)) st1)
                   else on_wake (decrementRefCountAndMaybeReleaseWakelock numWakeupEvents (- 1)) st
              else st)
           in st1\<lparr>hp_writer := Written numToWrite eventQueueSize\<rparr>)
      | _ \<Rightarrow> st)"

definition handlePendingWrites_finish :: "'s hal_proxy \<Rightarrow> 's hal_proxy" where
  "handlePendingWrites_finish st =
     (case (hp_writer st, hp_mPendingWriteEventsQueue st) of
        (Written numToWrite eventQueueSize, (pendingWriteEvents, numWakeupEvents) # rest) \<Rightarrow>
          st\<lparr>hp_mSizePendingWriteEventsQueue := hp_mSizePendingWriteEventsQueue st - numToWrite,
             hp_mPendingWriteEventsQueue :=
               (if length pendingWriteEvents > eventQueueSize
                then (drop eventQueueSize pendingWriteEvents, numWakeupEvents) # rest
                else rest),
             hp_writer := Idle\<rparr>
      | _ \<Rightarrow> st)"

section \<open>Starting and stopping\<close>

text \<open>
  \<^verbatim>\<open>stopThreads\<close> clears the flag, empties the event queue so that a blocked write can finish
  (\<open>ok\<close> tells whether it does), and joins both threads; the wake-lock thread resets the lock on its
  way out, at time \<open>now\<close>. \<open>running\<close>: the wake-lock thread was running.
\<close>

definition stopThreads :: "bool \<Rightarrow> bool \<Rightarrow> int \<Rightarrow> 's hal_proxy \<Rightarrow> 's hal_proxy" where
  "stopThreads ok running now st =
     (let st1 = on_wake (\<lambda>w. w\<lparr>wk_mThreadsRun := False\<rparr>) st;
          st2 = handlePendingWrites_finish (handlePendingWrites_write ok st1)
      in if running then on_wake (resetSharedWakelock now) st2 else st2)"

definition disableAllSensors :: "'s hal_proxy \<Rightarrow> 's hal_proxy" where
  "disableAllSensors st =
     (let st1 = fold (\<lambda>h st. snd (HalProxy_activate h False st)) (sm_keys (hp_mSensors st)) st
      in fold (\<lambda>h st. snd (HalProxy_activate h False st)) (sm_keys (hp_mDynamicSensors st1)) st1)"

fun initialize_loop :: "nat list \<Rightarrow> hal_result \<Rightarrow> 's hal_proxy \<Rightarrow> hal_result \<times> 's hal_proxy" where
  "initialize_loop [] result st = (result, st)"
| "initialize_loop (i # is) result st =
     (case on_sub_hal i (\<lambda>ops. sh_initialize ops (int i)) st of
        (currRes, st') \<Rightarrow> initialize_loop is (if currRes \<noteq> R_OK then currRes else result) st')"

text \<open>\<open>event_flag\<close>, \<open>wake_flag\<close>: the event flags could be created; \<open>callback\<close>: the callback
  wrapper is not null. The queues never are.\<close>

definition HalProxy_initializeCommon ::
  "bool \<Rightarrow> bool \<Rightarrow> bool \<Rightarrow> bool \<Rightarrow> bool \<Rightarrow> int \<Rightarrow> int \<Rightarrow> 's hal_proxy \<Rightarrow> hal_result \<times> 's hal_proxy" where
  "HalProxy_initializeCommon callback event_flag wake_flag ok running now now' st =
     (let st1 = disableAllSensors (on_wake (resetSharedWakelock now') (stopThreads ok running now st));
          st2 = st1\<lparr>hp_mPendingWriteEventsQueue := [], hp_mSizePendingWriteEventsQueue := 0,
                    hp_mDynamicSensors := [], hp_written := []\<rparr>;
          result = (if event_flag \<and> wake_flag \<and> callback then R_OK else R_BAD_VALUE);
          st3 = on_wake (\<lambda>w. w\<lparr>wk_mThreadsRun := True\<rparr>) st2
      in case initialize_loop [0..<length (hp_mSubHalList st3)] result st3 of
           (result', st4) \<Rightarrow> (result', st4\<lparr>hp_mCurrentOperationMode := OM_NORMAL\<rparr>))"

end
