(* ===== verification/Proxy_Routing.thy ===== *)
theory Proxy_Routing
  imports Hal_Proxy
begin

text \<open>
  What the proxy makes of its sub-HALs: calls reach the sub-HAL in the handle and no other, the
  operation mode of all sub-HALs changes together or not at all, the merged list of sensors, the
  choice of the one sub-HAL with direct channels, and dynamic sensors.
\<close>

section \<open>Routing\<close>

lemma isSubHalIndexValid_set:
  assumes "subHalIndexIsClear h" "i < 128"
  shows "isSubHalIndexValid (setSubHalIndex h (int i)) st = (i < length (hp_mSubHalList st))"
  using assms by (simp add: isSubHalIndexValid_def extract_set)

lemma getSubHal_set:
  assumes "subHalIndexIsClear h" "i < 128"
  shows "getSubHalForSensorHandle (setSubHalIndex h (int i)) = on_sub_hal i"
  using assms by (simp add: getSubHalForSensorHandle_def extract_set)

lemmas routing = HalProxy_activate_def HalProxy_batch_def HalProxy_flush_def
  HalProxy_injectSensorData_def

text \<open>C15: a call on a handle that was made from a sub-HAL's own handle and its index is a call on
  that sub-HAL with its own handle, and touches no other part of the proxy; data injection is
  refused first in the normal mode, unless the event is additional information.\<close>

theorem HalProxy_routes_to_owner:
  assumes "subHalIndexIsClear h" and "i < 128" and "i < length (hp_mSubHalList st)"
    and "hp_mSubHalList st ! i = (ops, s)"
    and "call = (\<lambda>(r, s'). (r, st\<lparr>hp_mSubHalList := (hp_mSubHalList st)[i := (ops, s')]\<rparr>))"
    and "g = setSubHalIndex h (int i)" and "ev_sensorHandle event = g"
  shows "HalProxy_activate g enabled st = call (sh_activate ops h enabled s)
       \<and> HalProxy_batch g period latency st = call (sh_batch ops h period latency s)
       \<and> HalProxy_flush g st = call (sh_flush ops h s)
       \<and> HalProxy_injectSensorData cv event st =
           (if hp_mCurrentOperationMode st = OM_NORMAL \<and> ev_sensorType event \<noteq> ST_ADDITIONAL_INFO
            then (R_BAD_VALUE, st)
            else call (sh_injectSensorData ops (convertToNewEvent cv (event\<lparr>ev_sensorHandle := h\<rparr>)) s))"
  using assms
  by (simp add: routing isSubHalIndexValid_set getSubHal_set clear_set on_sub_hal_def split: prod.splits)

text \<open>A sub-HAL for the examples: it counts the calls it gets and remembers its mode.\<close>

record counting_sub_hal =
  cs_calls :: nat
  cs_mode :: operation_mode
  cs_refuses :: bool

definition count_call :: "counting_sub_hal \<Rightarrow> counting_sub_hal" where
  "count_call s = s\<lparr>cs_calls := Suc (cs_calls s)\<rparr>"

definition example_sub_hal :: "counting_sub_hal sub_hal" where
  "example_sub_hal =
     \<lparr>sh_initialize = (\<lambda>i s. (R_OK, s)),
      sh_getSensorsList = (\<lambda>s. ([SensorInfo_init\<lparr>si_sensorHandle := 1, si_flags := 1024\<rparr>], s)),
      sh_setOperationMode = (\<lambda>m s. if cs_refuses s \<and> m = OM_DATA_INJECTION then (R_BAD_VALUE, s) else (R_OK, s\<lparr>cs_mode := m\<rparr>)),
      sh_activate = (\<lambda>h en s. (R_OK, count_call s)), sh_batch = (\<lambda>h p l s. (R_OK, count_call s)),
      sh_flush = (\<lambda>h s. (R_OK, count_call s)), sh_injectSensorData = (\<lambda>ev s. (R_OK, count_call s)),
      sh_registerDirectChannel = (\<lambda>mem s. (Inr (R_OK, 1), s)), sh_unregisterDirectChannel = (\<lambda>c s. (R_OK, s)),
      sh_configDirectReport = (\<lambda>h c r s. ((R_OK, h), s))\<rparr>"

definition example_state :: "bool \<Rightarrow> counting_sub_hal" where
  "example_state refuses = \<lparr>cs_calls = 0, cs_mode = OM_NORMAL, cs_refuses = refuses\<rparr>"

definition example_proxy :: "counting_sub_hal hal_proxy" where
  "example_proxy = HalProxy_init 0 0 [(example_sub_hal, example_state False), (example_sub_hal, example_state True)]"

lemma example_handles:
  "subHalIndexIsClear 1" "setSubHalIndex 1 0 = 1" "setSubHalIndex 1 1 = 16777217"
  using setSubHalIndex_add [of 1 0] setSubHalIndex_add [of 1 1] by (simp_all add: subHalIndexIsClear_iff)

lemma example_proxy_list:
  "hp_mSubHalList example_proxy =
     [(example_sub_hal, example_state False), (example_sub_hal, example_state True)]"
  "hp_mCurrentOperationMode example_proxy = OM_NORMAL"
  by (simp_all add: example_proxy_def HalProxy_init_def initializeSensorList_def load_sub_hal_def upt_rec
      on_sub_hal_def example_sub_hal_def load_sensor_def SensorInfo_init_def example_handles Let_def
      setDirectChannelFlags_def has_flag_def direct_flags_def flag_defs split: prod.splits)

theorem HalProxy_routes_to_owner_witness:
  "hp_mSubHalList (snd (HalProxy_activate 16777217 True example_proxy)) =
     [(example_sub_hal, example_state False), (example_sub_hal, count_call (example_state True))]"
  using HalProxy_routes_to_owner
    [of 1 1 example_proxy example_sub_hal "example_state True"
        "\<lambda>(r, s'). (r, example_proxy\<lparr>hp_mSubHalList := (hp_mSubHalList example_proxy)[1 := (example_sub_hal, s')]\<rparr>)"
        16777217 "\<lparr>ev_timestamp = 0, ev_sensorHandle = 16777217, ev_sensorType = 1, ev_payload = P_none\<rparr>" True]
  by (simp add: example_handles example_proxy_list example_sub_hal_def)

section \<open>The operation mode\<close>

text \<open>The modes of the sub-HALs, read by \<open>mode_of\<close>.\<close>

definition sub_modes :: "('s \<Rightarrow> operation_mode) \<Rightarrow> 's hal_proxy \<Rightarrow> operation_mode list" where
  "sub_modes mode_of st = map (\<lambda>(ops, s). mode_of s) (hp_mSubHalList st)"

text \<open>What a sub-HAL owes: a mode that was accepted is set, one that was refused is not.\<close>

definition mode_contract :: "('s \<Rightarrow> operation_mode) \<Rightarrow> 's sub_hal \<Rightarrow> bool" where
  "mode_contract mode_of ops \<longleftrightarrow> (\<forall>m s. mode_of (snd (sh_setOperationMode ops m s)) =
     (if fst (sh_setOperationMode ops m s) = R_OK then m else mode_of s))"

definition contracts :: "('s \<Rightarrow> operation_mode) \<Rightarrow> operation_mode \<Rightarrow> 's hal_proxy \<Rightarrow> bool" where
  "contracts mode_of cur st \<longleftrightarrow> (\<forall>(ops, s)\<in>set (hp_mSubHalList st).
     mode_contract mode_of ops \<and> (\<forall>s. fst (sh_setOperationMode ops cur s) = R_OK))"

lemma on_sub_hal_mode:
  assumes "contracts mode_of cur st" "i < length (hp_mSubHalList st)"
    "on_sub_hal i (\<lambda>ops. sh_setOperationMode ops m) st = (r, st')"
  shows "contracts mode_of cur st'" "hp_mCurrentOperationMode st' = hp_mCurrentOperationMode st"
    "length (hp_mSubHalList st') = length (hp_mSubHalList st)"
    "sub_modes mode_of st' = (sub_modes mode_of st)[i := if r = R_OK then m else sub_modes mode_of st ! i]"
    "m = cur \<Longrightarrow> r = R_OK"
proof -
  obtain ops s where i: "hp_mSubHalList st ! i = (ops, s)" by (meson surj_pair)
  then have mem: "(ops, s) \<in> set (hp_mSubHalList st)" using assms(2) by (metis nth_mem)
  then have c: "mode_contract mode_of ops" "fst (sh_setOperationMode ops cur s) = R_OK"
    using assms(1) by (auto simp: contracts_def)
  obtain s' where call: "sh_setOperationMode ops m s = (r, s')"
    and st': "st' = st\<lparr>hp_mSubHalList := (hp_mSubHalList st)[i := (ops, s')]\<rparr>"
    using assms(3) i by (auto simp: on_sub_hal_def split: prod.splits)
  show "contracts mode_of cur st'"
    using assms(1) mem set_update_subset_insert [of "hp_mSubHalList st" i "(ops, s')"]
    unfolding contracts_def st' by fastforce
  show "sub_modes mode_of st' = (sub_modes mode_of st)[i := if r = R_OK then m else sub_modes mode_of st ! i]"
    using c(1) [unfolded mode_contract_def, rule_format, of m s] call i assms(2)
    by (simp add: sub_modes_def st' map_update)
  show "hp_mCurrentOperationMode st' = hp_mCurrentOperationMode st"
    "length (hp_mSubHalList st') = length (hp_mSubHalList st)" by (simp_all add: st')
  show "r = R_OK" if "m = cur" using c(2) call that by simp
qed

lemma length_sub_modes [simp]: "length (sub_modes mode_of st) = length (hp_mSubHalList st)"
  by (simp add: sub_modes_def)

lemma mode_loop_modes:
  assumes "setOperationMode_loop m i st = ((r, k), st')" "contracts mode_of cur st"
    "i \<le> length (hp_mSubHalList st)"
  shows "contracts mode_of cur st' \<and> hp_mCurrentOperationMode st' = hp_mCurrentOperationMode st
    \<and> length (hp_mSubHalList st') = length (hp_mSubHalList st)
    \<and> i \<le> k \<and> k \<le> length (hp_mSubHalList st) \<and> (r = R_OK \<longrightarrow> k = length (hp_mSubHalList st))
    \<and> (\<forall>j<length (hp_mSubHalList st). sub_modes mode_of st' ! j =
          (if i \<le> j \<and> j < k then m else sub_modes mode_of st ! j))"
  using assms
proof (induction m i st arbitrary: r k st' rule: setOperationMode_loop.induct)
  case (1 m i st)
  show ?case
  proof (cases "i < length (hp_mSubHalList st)")
    case False
    then have "r = R_OK \<and> k = i \<and> st' = st" using 1(2) by (auto simp: setOperationMode_loop.simps)
    then show ?thesis using 1(3,4) False by simp
  next
    case True
    obtain r1 st1 where call: "on_sub_hal i (\<lambda>ops. sh_setOperationMode ops m) st = (r1, st1)"
      by (meson surj_pair)
    note c = on_sub_hal_mode [OF 1(3) True call]
    show ?thesis
    proof (cases "r1 = R_OK")
      case False
      then have "r = r1" "k = i" "st' = st1"
        using 1(2) True call by (simp_all add: setOperationMode_loop.simps)
      then show ?thesis using False c 1(4) by auto
    next
      case ok: True
      then have "setOperationMode_loop m (Suc i) st1 = ((r, k), st')"
        using 1(2) True call by (simp add: setOperationMode_loop.simps)
      then have ih: "contracts mode_of cur st' \<and> hp_mCurrentOperationMode st' = hp_mCurrentOperationMode st1
        \<and> length (hp_mSubHalList st') = length (hp_mSubHalList st1)
        \<and> Suc i \<le> k \<and> k \<le> length (hp_mSubHalList st1) \<and> (r = R_OK \<longrightarrow> k = length (hp_mSubHalList st1))
        \<and> (\<forall>j<length (hp_mSubHalList st1). sub_modes mode_of st' ! j =
            (if Suc i \<le> j \<and> j < k then m else sub_modes mode_of st1 ! j))"
        using True ok c by (intro 1(1) [OF True call [symmetric]]) auto
      then show ?thesis
        using c ok True by (auto simp: nth_list_update Suc_le_eq le_less)
    qed
  qed
qed

definition rollback :: "nat \<Rightarrow> 's hal_proxy \<Rightarrow> 's hal_proxy" where
  "rollback k st = fold (\<lambda>i st. snd (on_sub_hal i
     (\<lambda>ops. sh_setOperationMode ops (hp_mCurrentOperationMode st)) st)) [0..<k] st"

lemma rollback_modes:
  assumes "contracts mode_of cur st" "cur = hp_mCurrentOperationMode st" "k \<le> length (hp_mSubHalList st)"
  shows "contracts mode_of cur (rollback k st) \<and> hp_mCurrentOperationMode (rollback k st) = cur
    \<and> length (hp_mSubHalList (rollback k st)) = length (hp_mSubHalList st)
    \<and> (\<forall>j<length (hp_mSubHalList st). sub_modes mode_of (rollback k st) ! j =
          (if j < k then cur else sub_modes mode_of st ! j))"
  using assms(3)
proof (induction k)
  case 0
  then show ?case using assms by (simp add: rollback_def)
next
  case (Suc k)
  define st1 where "st1 = rollback k st"
  from Suc have ih: "contracts mode_of cur st1" "hp_mCurrentOperationMode st1 = cur"
    "length (hp_mSubHalList st1) = length (hp_mSubHalList st)"
    "\<forall>j<length (hp_mSubHalList st). sub_modes mode_of st1 ! j = (if j < k then cur else sub_modes mode_of st ! j)"
    by (simp_all add: st1_def)
  obtain r st2 where call: "on_sub_hal k (\<lambda>ops. sh_setOperationMode ops cur) st1 = (r, st2)"
    by (meson surj_pair)
  then have 2: "rollback (Suc k) st = st2" using ih(2) by (simp add: rollback_def st1_def)
  have k: "k < length (hp_mSubHalList st1)" using Suc.prems ih(3) by simp
  show ?case
    using on_sub_hal_mode [OF ih(1) k call] ih Suc.prems
    by (simp add: 2 nth_list_update less_Suc_eq)
qed

lemma setOperationMode_rollback:
  "HalProxy_setOperationMode mode st =
     (case setOperationMode_loop mode 0 st of
        ((result, k), st1) \<Rightarrow> if result \<noteq> R_OK then (result, rollback k st1)
                            else (result, st1\<lparr>hp_mCurrentOperationMode := mode\<rparr>))"
  unfolding HalProxy_setOperationMode_def rollback_def by (rule refl)

text \<open>C24: when every sub-HAL was in the proxy's mode, all of them are in it again after
  \<^verbatim>\<open>setOperationMode\<close>: in the new mode when the call succeeds, in the old one when some sub-HAL
  refused, whichever it was. It rests on sub-HALs that keep their mode when they refuse one and that
  accept the current mode again.\<close>

theorem HalProxy_setOperationMode_atomic:
  assumes "contracts mode_of (hp_mCurrentOperationMode st) st"
    and "\<forall>m\<in>set (sub_modes mode_of st). m = hp_mCurrentOperationMode st"
    and "HalProxy_setOperationMode mode st = (r, st')"
  shows "hp_mCurrentOperationMode st' = (if r = R_OK then mode else hp_mCurrentOperationMode st)
       \<and> (\<forall>m\<in>set (sub_modes mode_of st'). m = hp_mCurrentOperationMode st')"
proof -
  obtain r1 k st1 where loop: "setOperationMode_loop mode 0 st = ((r1, k), st1)" by (metis surj_pair)
  note l = mode_loop_modes [OF loop assms(1)]
  have old: "\<forall>j<length (hp_mSubHalList st). sub_modes mode_of st ! j = hp_mCurrentOperationMode st"
    using assms(2) by (simp add: all_set_conv_all_nth)
  show ?thesis
  proof (cases "r1 = R_OK")
    case True
    then have "r = R_OK" "st' = st1\<lparr>hp_mCurrentOperationMode := mode\<rparr>"
      using assms(3) loop by (simp_all add: setOperationMode_rollback)
    moreover from this have "sub_modes mode_of st' = sub_modes mode_of st1" by (simp add: sub_modes_def)
    ultimately show ?thesis using l True by (simp add: all_set_conv_all_nth)
  next
    case False
    then have r: "r = r1" "st' = rollback k st1"
      using assms(3) loop by (simp_all add: setOperationMode_rollback)
    have "contracts mode_of (hp_mCurrentOperationMode st1) st1" "k \<le> length (hp_mSubHalList st1)" using l by simp_all
    note b = rollback_modes [OF this(1) refl this(2)]
    show ?thesis using b l old False by (simp add: r all_set_conv_all_nth)
  qed
qed

theorem HalProxy_setOperationMode_atomic_witness:
  "hp_mCurrentOperationMode (snd (HalProxy_setOperationMode OM_DATA_INJECTION example_proxy)) = OM_NORMAL
   \<and> fst (HalProxy_setOperationMode OM_DATA_INJECTION example_proxy) = R_BAD_VALUE
   \<and> sub_modes cs_mode (snd (HalProxy_setOperationMode OM_DATA_INJECTION example_proxy)) = [OM_NORMAL, OM_NORMAL]"
proof -
  let ?p = "HalProxy_setOperationMode OM_DATA_INJECTION example_proxy"
  have r: "fst ?p = R_BAD_VALUE" "length (hp_mSubHalList (snd ?p)) = 2"
    by (simp_all add: setOperationMode_rollback setOperationMode_loop.simps rollback_def on_sub_hal_def
        example_proxy_list example_sub_hal_def example_state_def)
  have "hp_mCurrentOperationMode (snd ?p) = (if fst ?p = R_OK then OM_DATA_INJECTION else OM_NORMAL)
      \<and> (\<forall>m\<in>set (sub_modes cs_mode (snd ?p)). m = hp_mCurrentOperationMode (snd ?p))"
    using HalProxy_setOperationMode_atomic [of cs_mode example_proxy OM_DATA_INJECTION "fst ?p" "snd ?p"]
    by (simp add: example_proxy_list contracts_def mode_contract_def example_sub_hal_def example_state_def sub_modes_def)
  then show ?thesis
    using r by (auto simp: all_set_conv_all_nth nth_Cons' numeral_2_eq_2 intro!: nth_equalityI)
qed

section \<open>The list of sensors\<close>

lemma direct_flags_cleared: "\<not> has_flag (f AND u32 (NOT direct_flags)) direct_flags"
proof -
  have "(f AND u32 (NOT direct_flags)) AND direct_flags = 0"
    by (rule bit_eqI) (auto simp: u32_def bit_simps)
  then show ?thesis by (simp add: has_flag_def)
qed

text \<open>The sensors that sub-HAL \<open>i\<close> lst.\<close>

definition listed :: "'s hal_proxy \<Rightarrow> nat \<Rightarrow> SensorInfo list" where
  "listed st i = (case hp_mSubHalList st ! i of (ops, s) \<Rightarrow> fst (sh_getSensorsList ops s))"

text \<open>\<open>entry_of lst m direct (h, info)\<close>: the entry comes from the sensor list of the sub-HAL in
  \<open>h\<close>, and has direct-channel flags only if that sub-HAL is the chosen one.\<close>

definition entry_of :: "(nat \<Rightarrow> SensorInfo list) \<Rightarrow> nat \<Rightarrow> nat option \<Rightarrow> int \<times> SensorInfo \<Rightarrow> bool" where
  "entry_of lst n direct e \<longleftrightarrow>
     (case e of (h, info) \<Rightarrow> (\<exists>i<n. \<exists>sensor\<in>set (lst i).
        subHalIndexIsClear (si_sensorHandle sensor) \<and> h = setSubHalIndex (si_sensorHandle sensor) (int i)
        \<and> info = sensor\<lparr>si_sensorHandle := h, si_flags := si_flags info\<rparr>
        \<and> (si_flags info = si_flags sensor \<or> si_flags info = si_flags sensor AND u32 (NOT direct_flags))
        \<and> (has_flag (si_flags info) direct_flags \<longrightarrow> direct = Some i)))"

definition list_inv :: "(nat \<Rightarrow> SensorInfo list) \<Rightarrow> nat \<Rightarrow> 's hal_proxy \<Rightarrow> bool" where
  "list_inv lst n st \<longleftrightarrow> sm_ok (hp_mSensors st) \<and> (\<forall>e\<in>set (hp_mSensors st). entry_of lst n (hp_mDirectChannelSubHal st) e)"

lemma entry_of_direct:
  "entry_of lst n d e \<Longrightarrow> d = None \<or> d = d' \<Longrightarrow> entry_of lst n d' e"
  unfolding entry_of_def by (auto split: prod.splits)

lemma load_sensor_other [simp]: "hp_mSubHalList (load_sensor i s st) = hp_mSubHalList st"
  by (simp add: load_sensor_def Let_def split: prod.splits)

lemma setDirectChannelFlags_cases:
  assumes "setDirectChannelFlags i info d = (info', d')"
  shows "d = None \<or> d = d'" "info' = info\<lparr>si_flags := si_flags info'\<rparr>"
    "si_flags info' = si_flags info \<or> si_flags info' = si_flags info AND u32 (NOT direct_flags)"
    "has_flag (si_flags info') direct_flags \<Longrightarrow> d' = Some i"
  using assms direct_flags_cleared [of "si_flags info"]
  by (auto simp: setDirectChannelFlags_def Let_def split: if_splits)

lemma load_sensor_inv:
  assumes "list_inv lst n st" "sensor \<in> set (lst i)" "i < n"
  shows "list_inv lst n (load_sensor i sensor st)"
proof (cases "subHalIndexIsClear (si_sensorHandle sensor)")
  case False
  then show ?thesis using assms by (simp add: load_sensor_def)
next
  case clear: True
  define sensor1 where "sensor1 = sensor\<lparr>si_sensorHandle := setSubHalIndex (si_sensorHandle sensor) (int i)\<rparr>"
  obtain info' d' where f: "setDirectChannelFlags i sensor1 (hp_mDirectChannelSubHal st) = (info', d')"
    by (meson surj_pair)
  note c = setDirectChannelFlags_cases [OF f]
  have h: "si_sensorHandle info' = setSubHalIndex (si_sensorHandle sensor) (int i)"
    by (subst c(2)) (simp add: sensor1_def)
  have st': "load_sensor i sensor st = st\<lparr>hp_mDirectChannelSubHal := d',
      hp_mSensors := sm_put (setSubHalIndex (si_sensorHandle sensor) (int i)) info' (hp_mSensors st)\<rparr>"
    using clear f by (simp add: load_sensor_def Let_def sensor1_def [symmetric] h)
  have "entry_of lst n d' (setSubHalIndex (si_sensorHandle sensor) (int i), info')"
    unfolding entry_of_def prod.case
  proof (intro exI [of _ i] conjI bexI [OF _ assms(2)])
    show "info' = sensor\<lparr>si_sensorHandle := setSubHalIndex (si_sensorHandle sensor) (int i), si_flags := si_flags info'\<rparr>"
      using c(2) by (simp add: sensor1_def)
    show "si_flags info' = si_flags sensor \<or> si_flags info' = si_flags sensor AND u32 (NOT direct_flags)"
      using c(3) by (simp add: sensor1_def)
  qed (use clear assms(3) c(4) in auto)
  then show ?thesis
    using assms(1) c(1) by (auto simp: list_inv_def st' set_sm_put intro: entry_of_direct)
qed

lemma load_sensors_inv:
  assumes "set ss \<subseteq> set (lst i)" "i < n" "list_inv lst n st"
  shows "list_inv lst n (fold (load_sensor i) ss st)"
  using assms by (induction ss arbitrary: st) (simp_all add: load_sensor_inv)

lemma load_sensors_other [simp]: "hp_mSubHalList (fold (load_sensor i) ss st) = hp_mSubHalList st"
  by (induction ss arbitrary: st) simp_all

lemma load_sensor_find:
  "sm_find h (hp_mSensors st) \<noteq> None \<Longrightarrow> sm_find h (hp_mSensors (load_sensor i sensor st)) \<noteq> None"
  by (simp add: load_sensor_def Let_def split: prod.splits)

lemma load_sensors_find:
  "sm_find h (hp_mSensors st) \<noteq> None \<Longrightarrow> sm_find h (hp_mSensors (fold (load_sensor i) ss st)) \<noteq> None"
  by (induction ss arbitrary: st) (simp_all add: load_sensor_find del: not_None_eq)

lemma load_sensors_complete:
  assumes "sensor \<in> set ss" "subHalIndexIsClear (si_sensorHandle sensor)"
  shows "sm_find (setSubHalIndex (si_sensorHandle sensor) (int i)) (hp_mSensors (fold (load_sensor i) ss st)) \<noteq> None"
  using assms
proof (induction ss arbitrary: st)
  case (Cons a ss)
  show ?case
  proof (cases "sensor = a")
    case True
    define h where "h = setSubHalIndex (si_sensorHandle sensor) (int i)"
    obtain info' d' where f: "setDirectChannelFlags i (sensor\<lparr>si_sensorHandle := h\<rparr>) (hp_mDirectChannelSubHal st) = (info', d')"
      by (meson surj_pair)
    have "si_sensorHandle info' = h"
      by (subst setDirectChannelFlags_cases(2) [OF f]) simp
    then have "sm_find h (hp_mSensors (load_sensor i sensor st)) \<noteq> None"
      using Cons.prems(2) f by (simp add: load_sensor_def h_def Let_def)
    then show ?thesis using True load_sensors_find by (simp add: h_def del: not_None_eq)
  next
    case False
    then show ?thesis using Cons by simp
  qed
qed simp

lemma on_sub_hal_getSensorsList:
  assumes "i < length (hp_mSubHalList st)"
  shows "fst (on_sub_hal i sh_getSensorsList st) = listed st i"
    "hp_mSensors (snd (on_sub_hal i sh_getSensorsList st)) = hp_mSensors st"
    "hp_mDirectChannelSubHal (snd (on_sub_hal i sh_getSensorsList st)) = hp_mDirectChannelSubHal st"
    "j \<noteq> i \<Longrightarrow> hp_mSubHalList (snd (on_sub_hal i sh_getSensorsList st)) ! j = hp_mSubHalList st ! j"
  by (simp_all add: on_sub_hal_def listed_def split: prod.splits)

lemma load_sub_hal_unfold:
  "load_sub_hal i st = fold (load_sensor i) (fst (on_sub_hal i sh_getSensorsList st)) (snd (on_sub_hal i sh_getSensorsList st))"
  by (simp add: load_sub_hal_def split: prod.splits)

lemma load_sub_hals:
  assumes "k \<le> length (hp_mSubHalList st)" "hp_mSensors st = []"
  defines "st' \<equiv> fold load_sub_hal [0..<k] st"
  shows "list_inv (listed st) (length (hp_mSubHalList st)) st'
    \<and> length (hp_mSubHalList st') = length (hp_mSubHalList st)
    \<and> (\<forall>j\<ge>k. hp_mSubHalList st' ! j = hp_mSubHalList st ! j)
    \<and> (\<forall>i<k. \<forall>sensor\<in>set (listed st i). subHalIndexIsClear (si_sensorHandle sensor) \<longrightarrow>
         sm_find (setSubHalIndex (si_sensorHandle sensor) (int i)) (hp_mSensors st') \<noteq> None)"
  using assms(1) unfolding st'_def
proof (induction k)
  case 0
  then show ?case using assms(2) by (simp add: list_inv_def)
next
  case (Suc k)
  define st1 where "st1 = fold load_sub_hal [0..<k] st"
  define st2 where "st2 = snd (on_sub_hal k sh_getSensorsList st1)"
  have ih: "list_inv (listed st) (length (hp_mSubHalList st)) st1"
    "length (hp_mSubHalList st1) = length (hp_mSubHalList st)"
    "\<And>j. k \<le> j \<Longrightarrow> hp_mSubHalList st1 ! j = hp_mSubHalList st ! j"
    "\<And>i sensor. i < k \<Longrightarrow> sensor \<in> set (listed st i) \<Longrightarrow> subHalIndexIsClear (si_sensorHandle sensor) \<Longrightarrow>
         sm_find (setSubHalIndex (si_sensorHandle sensor) (int i)) (hp_mSensors st1) \<noteq> None"
    using Suc unfolding st1_def by simp_all
  have k: "k < length (hp_mSubHalList st1)" using Suc.prems ih(2) by simp
  have lst: "fst (on_sub_hal k sh_getSensorsList st1) = listed st k"
    using on_sub_hal_getSensorsList(1) [OF k] ih(3) [of k] by (simp add: listed_def)
  have fin: "fold load_sub_hal [0..<Suc k] st = fold (load_sensor k) (listed st k) st2"
    by (simp add: st1_def [symmetric] load_sub_hal_unfold lst st2_def)
  have "list_inv (listed st) (length (hp_mSubHalList st)) st2"
    using ih(1) on_sub_hal_getSensorsList(2,3) [OF k] by (simp add: list_inv_def st2_def)
  then have 1: "list_inv (listed st) (length (hp_mSubHalList st)) (fold (load_sensor k) (listed st k) st2)"
    using k ih(2) by (intro load_sensors_inv) simp_all
  have 2: "sm_find (setSubHalIndex (si_sensorHandle sensor) (int i))
      (hp_mSensors (fold (load_sensor k) (listed st k) st2)) \<noteq> None"
    if "i < Suc k" "sensor \<in> set (listed st i)" "subHalIndexIsClear (si_sensorHandle sensor)" for i sensor
  proof (cases "i = k")
    case True
    then show ?thesis using that load_sensors_complete by simp
  next
    case False
    then have "sm_find (setSubHalIndex (si_sensorHandle sensor) (int i)) (hp_mSensors st2) \<noteq> None"
      using that ih(4) [of i sensor] on_sub_hal_getSensorsList(2) [OF k] by (simp add: st2_def)
    then show ?thesis by (rule load_sensors_find)
  qed
  have 3: "hp_mSubHalList st2 ! j = hp_mSubHalList st ! j" if "Suc k \<le> j" for j
    using that ih(3) [of j] on_sub_hal_getSensorsList(4) [OF k, of j] by (simp add: st2_def)
  show ?case unfolding fin
    using 1 2 3 ih(2) by (simp add: st2_def)
qed

lemma HalProxy_init_listed:
  assumes "st = HalProxy_init now now' subHals"
    and "lst = (\<lambda>i. fst (sh_getSensorsList (fst (subHals ! i)) (snd (subHals ! i))))"
  shows "list_inv lst (length subHals) st
       \<and> (\<forall>i<length subHals. \<forall>sensor\<in>set (lst i). subHalIndexIsClear (si_sensorHandle sensor) \<longrightarrow>
            sm_find (setSubHalIndex (si_sensorHandle sensor) (int i)) (hp_mSensors st) \<noteq> None)"
proof -
  obtain st0 where st0: "st = initializeSensorList st0" "hp_mSubHalList st0 = subHals" "hp_mSensors st0 = []"
    using assms(1) by (simp add: HalProxy_init_def)
  have l: "listed st0 = lst"
    by (rule ext) (simp add: listed_def st0(2) assms(2) split: prod.splits)
  show ?thesis
    using load_sub_hals [of "length subHals" st0, unfolded st0(2) l, OF le_refl st0(3)]
    by (simp add: st0(1,2) initializeSensorList_def)
qed

lemmas initializeSensorList_complete = HalProxy_init_listed [OF refl refl, THEN conjunct2, rule_format]



section \<open>Dynamic sensors\<close>

definition tag_sensor :: "int \<Rightarrow> SensorInfo \<Rightarrow> SensorInfo" where
  "tag_sensor i sensor = sensor\<lparr>si_sensorHandle := setSubHalIndex (si_sensorHandle sensor) i\<rparr>"

lemma connect_loop_clear:
  assumes "\<forall>s\<in>set added. subHalIndexIsClear (si_sensorHandle s)"
  shows "connect_loop i added m sensors =
     (fold (\<lambda>s. sm_put (setSubHalIndex (si_sensorHandle s) i) (tag_sensor i s)) added m, sensors @ map (tag_sensor i) added)"
  using assms by (induction added arbitrary: m sensors) (simp_all add: tag_sensor_def Let_def)

lemma connect_fold_find:
  "sm_find k (fold (\<lambda>s. sm_put (setSubHalIndex (si_sensorHandle s) i) (tag_sensor i s)) added m) =
     (case map_of (rev (map (\<lambda>s. (setSubHalIndex (si_sensorHandle s) i, tag_sensor i s)) added)) k of
        Some v \<Rightarrow> Some v | None \<Rightarrow> sm_find k m)"
  by (induction added arbitrary: m) (auto simp: map_add_def split: option.splits)

lemma connect_fold_ok:
  "sm_ok m \<Longrightarrow> sm_ok (fold (\<lambda>s. sm_put (setSubHalIndex (si_sensorHandle s) i) (tag_sensor i s)) added m)"
  by (induction added arbitrary: m) simp_all

lemma disconnect_loop_clear:
  assumes "\<forall>h\<in>set hs. subHalIndexIsClear h" "distinct (map (\<lambda>h. setSubHalIndex h i) hs)"
    "\<forall>h\<in>set hs. sm_find (setSubHalIndex h i) m \<noteq> None"
  shows "disconnect_loop i hs m handles =
     (fold (\<lambda>h. sm_erase (setSubHalIndex h i)) hs m, handles @ map (\<lambda>h. setSubHalIndex h i) hs)"
  using assms
proof (induction hs arbitrary: m handles)
  case (Cons h hs)
  have "setSubHalIndex h' i \<noteq> setSubHalIndex h i" if "h' \<in> set hs" for h'
    using Cons.prems(2) imageI [OF that, of "\<lambda>h. setSubHalIndex h i"] by auto
  then have "\<forall>h'\<in>set hs. sm_find (setSubHalIndex h' i) (sm_erase (setSubHalIndex h i) m) \<noteq> None"
    using Cons.prems(3) by simp
  then show ?case using Cons.prems Cons.IH [of "sm_erase (setSubHalIndex h i) m"] by (simp add: Let_def)
qed simp

lemma erase_fold:
  "sm_ok m \<Longrightarrow> sm_ok (fold (\<lambda>h. sm_erase (f h)) hs m)
     \<and> sm_find k (fold (\<lambda>h. sm_erase (f h)) hs m) = (if k \<in> f ` set hs then None else sm_find k m)"
  by (induction hs arbitrary: m) auto

text \<open>connecting new dynamic sensors and disconnecting them again leaves the proxy's map of dynamic
  sensors as it was, and the framework is told the same handles both times, with the index of the
  sub-HAL in them.\<close>

theorem dynamic_sensors_roundtrip:
  assumes "\<forall>s\<in>set added. subHalIndexIsClear (si_sensorHandle s)" and "distinct (map si_sensorHandle added)"
    and "0 \<le> i" and "i < 128" and "sm_ok (hp_mDynamicSensors st)"
    and "\<forall>s\<in>set added. sm_find (setSubHalIndex (si_sensorHandle s) i) (hp_mDynamicSensors st) = None"
    and "st' = onDynamicSensorsDisconnected (map si_sensorHandle added) i (onDynamicSensorsConnected added i st)"
  shows "hp_mDynamicSensors st' = hp_mDynamicSensors st
       \<and> hp_callbacks st' = hp_callbacks st @
           [Dynamic_connected (map (tag_sensor i) added),
            Dynamic_disconnected (map (\<lambda>s. setSubHalIndex (si_sensorHandle s) i) added)]"
proof -
  define m where "m = fold (\<lambda>s. sm_put (setSubHalIndex (si_sensorHandle s) i) (tag_sensor i s)) added (hp_mDynamicSensors st)"
  have ok: "sm_ok m" using assms(5) by (simp add: m_def connect_fold_ok)
  have dist: "distinct (map (\<lambda>h. setSubHalIndex h i) (map si_sensorHandle added))"
    using assms(1-4) by (auto simp: distinct_map inj_on_def set_inj)
  have found: "\<forall>h\<in>set (map si_sensorHandle added). sm_find (setSubHalIndex h i) m \<noteq> None"
    by (auto simp: m_def connect_fold_find map_of_eq_None_iff image_image split: option.splits)
  have dis: "disconnect_loop i (map si_sensorHandle added) m [] =
     (fold (\<lambda>h. sm_erase (setSubHalIndex h i)) (map si_sensorHandle added) m,
      map (\<lambda>s. setSubHalIndex (si_sensorHandle s) i) added)"
    using disconnect_loop_clear [OF _ dist found, of "[]"] assms(1) by (simp add: comp_def)
  have find: "sm_find k (fold (\<lambda>h. sm_erase (setSubHalIndex h i)) (map si_sensorHandle added) m)
      = sm_find k (hp_mDynamicSensors st)" for k
    using assms(6) conjunct2 [OF erase_fold [OF ok, of "\<lambda>h. setSubHalIndex h i" "map si_sensorHandle added" k]]
    by (auto simp: m_def connect_fold_find image_image map_of_eq_None_iff split: option.splits dest!: map_of_SomeD)
  have "fold (\<lambda>h. sm_erase (setSubHalIndex h i)) (map si_sensorHandle added) m = hp_mDynamicSensors st"
    by (rule sm_ext [OF conjunct1 [OF erase_fold [OF ok]] assms(5) find])
  then show ?thesis
    using assms(7) dis connect_loop_clear [OF assms(1)]
    by (simp add: onDynamicSensorsConnected_def onDynamicSensorsDisconnected_def m_def [symmetric])
qed

theorem dynamic_sensors_roundtrip_witness:
  "hp_mDynamicSensors (onDynamicSensorsDisconnected [1] 1
     (onDynamicSensorsConnected [SensorInfo_init\<lparr>si_sensorHandle := 1\<rparr>] 1 example_proxy)) = []"
proof -
  have e: "hp_mDynamicSensors example_proxy = []"
    by (simp add: example_proxy_def HalProxy_init_def initializeSensorList_def load_sub_hal_def upt_rec
          on_sub_hal_def example_sub_hal_def load_sensor_def SensorInfo_init_def example_handles Let_def
          setDirectChannelFlags_def has_flag_def direct_flags_def flag_defs u32_def split: prod.splits)
  show ?thesis
    using dynamic_sensors_roundtrip [OF _ _ _ _ _ _ refl, of "[SensorInfo_init\<lparr>si_sensorHandle := 1\<rparr>]" 1 example_proxy]
    by (simp add: e example_handles)
qed

end
