(* ===== verification/Proxy_Queue.thy ===== *)
theory Proxy_Queue
  imports Proxy_Routing "HOL-Library.Sublist"
begin

text \<open>
  The way of the events through the proxy: sub-HALs post, the pending-writes thread takes, writes
  and removes, in any interleaving. The abstraction of the queue is the list of events not yet
  written (\<open>remaining\<close>); the lemmas say that it is a first-in first-out buffer of bounded size, and
  what its overflow does to the wake lock. The last part is the effect of event posting on the
  list of sensors, and the reset at initialisation.
\<close>

section \<open>The queue as a list\<close>

definition remaining :: "'s hal_proxy \<Rightarrow> Event list" where
  "remaining st = drop (case hp_writer st of Written n q \<Rightarrow> n | _ \<Rightarrow> 0)
     (concat (map fst (hp_mPendingWriteEventsQueue st)))"

datatype queue_op =
    Q_post nat bool int "Event list" nat ScopedWakelock
  | Q_take nat
  | Q_write bool
  | Q_finish

fun queue_step :: "queue_op \<Rightarrow> 's hal_proxy \<Rightarrow> 's hal_proxy" where
  "queue_step (Q_post avail write_ok now events n wakelock) = postEventsToMessageQueue avail write_ok now events n wakelock"
| "queue_step (Q_take quantum) = handlePendingWrites_take quantum"
| "queue_step (Q_write ok) = handlePendingWrites_write ok"
| "queue_step Q_finish = handlePendingWrites_finish"

definition queue_run :: "queue_op list \<Rightarrow> 's hal_proxy \<Rightarrow> 's hal_proxy" where
  "queue_run ops st = fold queue_step ops st"

fun op_events :: "queue_op \<Rightarrow> Event list" where
  "op_events (Q_post avail write_ok now events n wakelock) = events"
| "op_events _ = []"

definition posted :: "queue_op list \<Rightarrow> Event list" where
  "posted ops = concat (map op_events ops)"

definition queue_size :: "'s hal_proxy \<Rightarrow> nat" where
  "queue_size st = length (concat (map fst (hp_mPendingWriteEventsQueue st)))"

text \<open>A post is empty only if the caller passes no events, which \<^verbatim>\<open>postEvents\<close> rules out.\<close>

definition queue_inv :: "'s hal_proxy \<Rightarrow> bool" where
  "queue_inv st \<longleftrightarrow>
     hp_mSizePendingWriteEventsQueue st = queue_size st
     \<and> queue_size st \<le> kMaxSizePendingWriteEventsQueue
     \<and> queue_size st \<le> hp_mMostEventsObservedPendingWriteEventsQueue st
     \<and> (case hp_writer st of
          Idle \<Rightarrow> True
        | Writing n q \<Rightarrow> (\<exists>evs k rest. hp_mPendingWriteEventsQueue st = (evs, k) # rest \<and> n = min (length evs) q)
        | Written n q \<Rightarrow> (\<exists>evs k rest. hp_mPendingWriteEventsQueue st = (evs, k) # rest \<and> n = min (length evs) q))"

lemma on_wake_simps [simp]:
  "hp_mPendingWriteEventsQueue (on_wake f st) = hp_mPendingWriteEventsQueue st"
  "hp_mSizePendingWriteEventsQueue (on_wake f st) = hp_mSizePendingWriteEventsQueue st"
  "hp_mMostEventsObservedPendingWriteEventsQueue (on_wake f st) = hp_mMostEventsObservedPendingWriteEventsQueue st"
  "hp_writer (on_wake f st) = hp_writer st" "hp_written (on_wake f st) = hp_written st"
  "hp_wake (on_wake f st) = f (hp_wake st)" "hp_mSensors (on_wake f st) = hp_mSensors st"
  by (simp_all add: on_wake_def)

lemma getSensorInfo_simps [simp]:
  "hp_mPendingWriteEventsQueue (snd (getSensorInfo h st)) = hp_mPendingWriteEventsQueue st"
  "hp_mSizePendingWriteEventsQueue (snd (getSensorInfo h st)) = hp_mSizePendingWriteEventsQueue st"
  "hp_mMostEventsObservedPendingWriteEventsQueue (snd (getSensorInfo h st)) = hp_mMostEventsObservedPendingWriteEventsQueue st"
  "hp_writer (snd (getSensorInfo h st)) = hp_writer st" "hp_written (snd (getSensorInfo h st)) = hp_written st"
  "hp_wake (snd (getSensorInfo h st)) = hp_wake st"
  by (simp_all add: getSensorInfo_def split: prod.splits)

lemma count_loop_simps:
  "hp_mPendingWriteEventsQueue (snd (countNumWakeupEvents_loop evs st)) = hp_mPendingWriteEventsQueue st
   \<and> hp_mSizePendingWriteEventsQueue (snd (countNumWakeupEvents_loop evs st)) = hp_mSizePendingWriteEventsQueue st
   \<and> hp_mMostEventsObservedPendingWriteEventsQueue (snd (countNumWakeupEvents_loop evs st)) = hp_mMostEventsObservedPendingWriteEventsQueue st
   \<and> hp_writer (snd (countNumWakeupEvents_loop evs st)) = hp_writer st
   \<and> hp_written (snd (countNumWakeupEvents_loop evs st)) = hp_written st
   \<and> hp_wake (snd (countNumWakeupEvents_loop evs st)) = hp_wake st"
proof (induction evs arbitrary: st)
  case (Cons e evs)
  show ?case
    using Cons.IH [of "snd (getSensorInfo (ev_sensorHandle e) st)"] by (simp add: case_prod_unfold)
qed simp

lemmas count_simps [simp] = count_loop_simps [THEN conjunct1] count_loop_simps [THEN conjunct2, THEN conjunct1]
  count_loop_simps [THEN conjunct2, THEN conjunct2, THEN conjunct1]
  count_loop_simps [THEN conjunct2, THEN conjunct2, THEN conjunct2, THEN conjunct1]
  count_loop_simps [THEN conjunct2, THEN conjunct2, THEN conjunct2, THEN conjunct2, THEN conjunct1]
  count_loop_simps [THEN conjunct2, THEN conjunct2, THEN conjunct2, THEN conjunct2, THEN conjunct2]

section \<open>One post\<close>

text \<open>How many events go straight to the event queue, and whether the rest is kept.\<close>

definition direct_writes :: "nat \<Rightarrow> bool \<Rightarrow> Event list \<Rightarrow> 's hal_proxy \<Rightarrow> nat" where
  "direct_writes avail write_ok events st =
     (if hp_mPendingWriteEventsQueue st = [] \<and> write_ok then min (length events) avail else 0)"

definition kept :: "nat \<Rightarrow> Event list \<Rightarrow> 's hal_proxy \<Rightarrow> bool" where
  "kept k events st \<longleftrightarrow> k < length events
     \<and> hp_mSizePendingWriteEventsQueue st + (length events - k) \<le> kMaxSizePendingWriteEventsQueue"

lemma post_fields:
  assumes "st' = postEventsToMessageQueue avail write_ok now events n wakelock st"
    and "k = direct_writes avail write_ok events st"
  shows "hp_written st' = hp_written st @ take k events"
    "hp_mPendingWriteEventsQueue st' = hp_mPendingWriteEventsQueue st @ (if kept k events st then [(drop k events, n)] else [])"
    "hp_mSizePendingWriteEventsQueue st' = hp_mSizePendingWriteEventsQueue st + (if kept k events st then length events - k else 0)"
    "hp_mMostEventsObservedPendingWriteEventsQueue st' =
       (if kept k events st
        then max (hp_mMostEventsObservedPendingWriteEventsQueue st) (hp_mSizePendingWriteEventsQueue st')
        else hp_mMostEventsObservedPendingWriteEventsQueue st)"
    "hp_writer st' = hp_writer st"
    "hp_wake st' = ScopedWakelock_destroy decrementRefCountAndMaybeReleaseWakelock wakelock
       (if sl_mLocked wakelock then snd (incrementRefCountAndMaybeAcquireWakelock now n (hp_wake st)) else hp_wake st)"
    "hp_mSensors st' = hp_mSensors st"
proof -
  define st1 where "st1 = (if sl_mLocked wakelock
      then on_wake (\<lambda>w. snd (incrementRefCountAndMaybeAcquireWakelock now n w)) st else st)"
  have same: "hp_mPendingWriteEventsQueue st1 = hp_mPendingWriteEventsQueue st"
    "hp_mSizePendingWriteEventsQueue st1 = hp_mSizePendingWriteEventsQueue st"
    "hp_mMostEventsObservedPendingWriteEventsQueue st1 = hp_mMostEventsObservedPendingWriteEventsQueue st"
    "hp_writer st1 = hp_writer st" "hp_written st1 = hp_written st" "hp_mSensors st1 = hp_mSensors st"
    "hp_wake st1 = (if sl_mLocked wakelock
       then snd (incrementRefCountAndMaybeAcquireWakelock now n (hp_wake st)) else hp_wake st)"
    by (simp_all add: st1_def)
  have sel: "hp_mPendingWriteEventsQueue (st1\<lparr>hp_written := x\<rparr>) = hp_mPendingWriteEventsQueue st"
    "hp_mSizePendingWriteEventsQueue (st1\<lparr>hp_written := x\<rparr>) = hp_mSizePendingWriteEventsQueue st"
    "hp_mMostEventsObservedPendingWriteEventsQueue (st1\<lparr>hp_written := x\<rparr>)
       = hp_mMostEventsObservedPendingWriteEventsQueue st" for x
    by (simp_all add: same)
  have k: "(if hp_mPendingWriteEventsQueue st1 = [] \<and> write_ok then min (length events) avail else 0) = k"
    by (simp add: assms(2) direct_writes_def same)
  have "st' = on_wake (ScopedWakelock_destroy decrementRefCountAndMaybeReleaseWakelock wakelock)
      (if kept k events st
       then st1\<lparr>hp_written := hp_written st1 @ take k events,
                hp_mPendingWriteEventsQueue := hp_mPendingWriteEventsQueue st1 @ [(drop k events, n)],
                hp_mSizePendingWriteEventsQueue := hp_mSizePendingWriteEventsQueue st1 + (length events - k),
                hp_mMostEventsObservedPendingWriteEventsQueue :=
                  max (hp_mMostEventsObservedPendingWriteEventsQueue st1)
                      (hp_mSizePendingWriteEventsQueue st1 + (length events - k))\<rparr>
       else st1\<lparr>hp_written := hp_written st1 @ take k events\<rparr>)"
    unfolding assms(1) postEventsToMessageQueue_def Let_def st1_def [symmetric] k
    by (simp only: kept_def same sel)
  then show "hp_written st' = hp_written st @ take k events"
    "hp_mPendingWriteEventsQueue st' = hp_mPendingWriteEventsQueue st @ (if kept k events st then [(drop k events, n)] else [])"
    "hp_mSizePendingWriteEventsQueue st' = hp_mSizePendingWriteEventsQueue st + (if kept k events st then length events - k else 0)"
    "hp_mMostEventsObservedPendingWriteEventsQueue st' =
       (if kept k events st
        then max (hp_mMostEventsObservedPendingWriteEventsQueue st) (hp_mSizePendingWriteEventsQueue st')
        else hp_mMostEventsObservedPendingWriteEventsQueue st)"
    "hp_writer st' = hp_writer st"
    "hp_wake st' = ScopedWakelock_destroy decrementRefCountAndMaybeReleaseWakelock wakelock
       (if sl_mLocked wakelock then snd (incrementRefCountAndMaybeAcquireWakelock now n (hp_wake st)) else hp_wake st)"
    "hp_mSensors st' = hp_mSensors st"
    by (simp_all add: same)
qed

lemma queue_inv_post:
  assumes "queue_inv st"
  shows "queue_inv (queue_step (Q_post avail write_ok now events n wakelock) st)"
proof -
  define st' where "st' = postEventsToMessageQueue avail write_ok now events n wakelock st"
  note f = post_fields [OF st'_def refl]
  have "queue_size st' = queue_size st + (if kept (direct_writes avail write_ok events st) events st
      then length events - direct_writes avail write_ok events st else 0)"
    by (simp add: queue_size_def f)
  then show ?thesis
    using assms by (auto simp: queue_inv_def f st'_def [symmetric] kept_def split: pending_writer.splits)
qed

lemma queue_inv_step: "queue_inv st \<Longrightarrow> queue_inv (queue_step a st)"
proof (cases a)
  case (Q_post avail write_ok now events n wakelock)
  then show "queue_inv st \<Longrightarrow> ?thesis" by (simp only: queue_inv_post)
next
  case (Q_take q)
  then show "queue_inv st \<Longrightarrow> ?thesis"
    by (auto simp: handlePendingWrites_take_def queue_inv_def queue_size_def split: list.splits)
next
  case (Q_write ok)
  then show "queue_inv st \<Longrightarrow> ?thesis"
    by (auto simp: handlePendingWrites_write_def queue_inv_def queue_size_def Let_def countNumWakeupEvents_def
        case_prod_unfold split: pending_writer.splits list.splits)
next
  case Q_finish
  then show "queue_inv st \<Longrightarrow> ?thesis"
    by (auto simp: handlePendingWrites_finish_def queue_inv_def queue_size_def min_def
        split: pending_writer.splits list.splits)
qed

lemma queue_inv_run: "queue_inv st \<Longrightarrow> queue_inv (queue_run ops st)"
  by (induction ops arbitrary: st) (simp_all add: queue_run_def queue_inv_step)

section \<open>First in, first out\<close>

text \<open>What is still to come is a suffix of what was: nothing is reordered, and only a failed write or
  a full queue loses events.\<close>

lemma remaining_empty: "queue_inv st \<Longrightarrow> hp_mPendingWriteEventsQueue st = [] \<Longrightarrow> remaining st = []"
  by (simp add: remaining_def)

lemma remaining_post:
  assumes "queue_inv st" "st' = postEventsToMessageQueue avail write_ok now events n wakelock st"
    and "k = direct_writes avail write_ok events st"
  shows "remaining st' = remaining st @ (if kept k events st then drop k events else [])"
proof -
  note f = post_fields [OF assms(2,3)]
  have "(case hp_writer st of Written n q \<Rightarrow> n | _ \<Rightarrow> 0) \<le> length (concat (map fst (hp_mPendingWriteEventsQueue st)))"
    using assms(1) by (auto simp: queue_inv_def split: pending_writer.splits)
  then show ?thesis by (simp add: remaining_def f)
qed

lemma remaining_write:
  assumes "queue_inv st" "st' = handlePendingWrites_write ok st"
  shows "\<exists>w. remaining st = w @ remaining st' \<and> hp_written st' = hp_written st @ (if ok then w else [])"
proof (cases "\<exists>n q. hp_writer st = Writing n q")
  case True
  then obtain n q evs k rest where w: "hp_writer st = Writing n q"
    "hp_mPendingWriteEventsQueue st = (evs, k) # rest" "n = min (length evs) q"
    using assms(1) by (auto simp: queue_inv_def)
  have "remaining st = take n evs @ remaining st'" "hp_written st' = hp_written st @ (if ok then take n evs else [])"
    using w by (auto simp: assms(2) handlePendingWrites_write_def remaining_def Let_def countNumWakeupEvents_def
        case_prod_unfold append_assoc [symmetric] simp del: append_assoc)
  then show ?thesis by blast
next
  case False
  then have "st' = st"
    by (auto simp: assms(2) handlePendingWrites_write_def split: pending_writer.splits)
  then show ?thesis by simp
qed

lemma remaining_take: "remaining (handlePendingWrites_take q st) = remaining st
    \<and> hp_written (handlePendingWrites_take q st) = hp_written st"
  by (auto simp: handlePendingWrites_take_def remaining_def split: list.splits)

lemma remaining_finish:
  assumes "queue_inv st"
  shows "remaining (handlePendingWrites_finish st) = remaining st
    \<and> hp_written (handlePendingWrites_finish st) = hp_written st"
  using assms
  by (auto simp: handlePendingWrites_finish_def remaining_def queue_inv_def min_def
      split: pending_writer.splits list.splits)

text \<open>Nothing is lost by this step: a write succeeds, and a post goes to the event queue or fits.\<close>

fun lossless :: "queue_op \<Rightarrow> 's hal_proxy \<Rightarrow> bool" where
  "lossless (Q_post avail write_ok now events n wakelock) st =
     (queue_size st + length events \<le> kMaxSizePendingWriteEventsQueue)"
| "lossless (Q_write ok) st = ok"
| "lossless _ st = True"

fun all_lossless :: "queue_op list \<Rightarrow> 's hal_proxy \<Rightarrow> bool" where
  "all_lossless [] st = True"
| "all_lossless (a # as) st = (lossless a st \<and> all_lossless as (queue_step a st))"

lemma queue_step_order:
  assumes "queue_inv st" "subseq (hp_written st @ remaining st) p"
  shows "subseq (hp_written (queue_step a st) @ remaining (queue_step a st)) (p @ op_events a)"
proof (cases a)
  case (Q_post avail write_ok now events n wakelock)
  define st' k where "st' = postEventsToMessageQueue avail write_ok now events n wakelock st"
    and "k = direct_writes avail write_ok events st"
  note f = post_fields [OF st'_def k_def] and r = remaining_post [OF assms(1) st'_def k_def]
  let ?rest = "if kept k events st then drop k events else []"
  have "take k events = [] \<or> remaining st = []"
    using remaining_empty [OF assms(1)] by (auto simp: k_def direct_writes_def)
  then have "hp_written st' @ remaining st' = (hp_written st @ remaining st) @ (take k events @ ?rest)"
    using f(1) r by auto
  moreover have sub: "subseq (take k events @ ?rest) events"
    using prefix_imp_subseq [OF take_is_prefix [of k events]] by simp
  moreover have "subseq ((hp_written st @ remaining st) @ (take k events @ ?rest)) (p @ events)"
    by (rule list_emb_append_mono [OF assms(2) sub])
  ultimately show ?thesis by (simp only: Q_post queue_step.simps op_events.simps st'_def)
next
  case (Q_write ok)
  obtain w where w: "remaining st = w @ remaining (queue_step a st)"
    "hp_written (queue_step a st) = hp_written st @ (if ok then w else [])"
    using remaining_write [OF assms(1) refl, of ok] by (auto simp: Q_write)
  have "subseq (hp_written (queue_step a st) @ remaining (queue_step a st)) (hp_written st @ remaining st)"
  proof (cases ok)
    case False
    have "subseq (hp_written st @ remaining (queue_step a st)) (hp_written st @ (w @ remaining (queue_step a st)))"
      by (intro list_emb_append_mono list_emb_append2 subseq_order.order_refl)
    then show ?thesis using w False by simp
  qed (use w in simp)
  then show ?thesis using assms(2) by (auto simp: Q_write intro: subseq_order.trans)
qed (use assms in \<open>simp_all add: remaining_take remaining_finish\<close>)

lemma queue_step_exact:
  assumes "queue_inv st" "lossless a st"
  shows "hp_written (queue_step a st) @ remaining (queue_step a st) = hp_written st @ remaining st @ op_events a"
proof (cases a)
  case (Q_post avail write_ok now events n wakelock)
  define st' k where "st' = postEventsToMessageQueue avail write_ok now events n wakelock st"
    and "k = direct_writes avail write_ok events st"
  note f = post_fields [OF st'_def k_def] and r = remaining_post [OF assms(1) st'_def k_def]
  have "take k events = [] \<or> remaining st = []"
    using remaining_empty [OF assms(1)] by (auto simp: k_def direct_writes_def)
  moreover have "(if kept k events st then drop k events else []) = drop k events"
    using assms by (auto simp: Q_post kept_def queue_inv_def)
  ultimately have "hp_written st' @ remaining st' = hp_written st @ remaining st @ events"
    using f(1) r by auto
  then show ?thesis by (simp add: Q_post st'_def)
next
  case (Q_write ok)
  then show ?thesis using remaining_write [OF assms(1) refl, of ok] assms(2) by auto
qed (use assms in \<open>simp_all add: remaining_take remaining_finish\<close>)

lemma queue_run_order:
  assumes "queue_inv st" "subseq (hp_written st @ remaining st) p"
  shows "subseq (hp_written (queue_run ops st) @ remaining (queue_run ops st)) (p @ posted ops)"
  using assms
proof (induction ops arbitrary: st p)
  case (Cons a ops)
  show ?case
    using Cons.IH [OF queue_inv_step [OF Cons.prems(1), of a] queue_step_order [OF Cons.prems, of a]]
    by (simp add: queue_run_def posted_def)
qed (simp add: queue_run_def posted_def)

lemma queue_run_exact:
  assumes "queue_inv st" "all_lossless ops st"
  shows "hp_written (queue_run ops st) @ remaining (queue_run ops st) = hp_written st @ remaining st @ posted ops"
  using assms
proof (induction ops arbitrary: st)
  case (Cons a ops)
  then show ?case
    using Cons.IH [OF queue_inv_step [OF Cons.prems(1), of a]] queue_step_exact [OF Cons.prems(1), of a]
    by (simp add: queue_run_def posted_def)
qed (simp add: queue_run_def posted_def)

text \<open>A proxy with nothing pending.\<close>

definition queue_empty :: "'s hal_proxy \<Rightarrow> bool" where
  "queue_empty st \<longleftrightarrow> hp_mPendingWriteEventsQueue st = [] \<and> hp_mSizePendingWriteEventsQueue st = 0
     \<and> hp_writer st = Idle"

lemma queue_empty_inv: "queue_empty st \<Longrightarrow> queue_inv st \<and> remaining st = []"
  by (simp add: queue_empty_def queue_inv_def queue_size_def remaining_def)

section \<open>Properties of the queue\<close>

text \<open>C13: whatever the interleaving of posts with the rounds of the writing thread, the events written
  to the event queue followed by those still pending are a subsequence of what was posted, in that
  order; and they are exactly what was posted when no write failed and the queue never overflowed.\<close>

theorem pending_queue_fifo:
  assumes "queue_empty st" and "st' = queue_run ops (st\<lparr>hp_written := []\<rparr>)"
  shows "subseq (hp_written st' @ remaining st') (posted ops)
       \<and> (all_lossless ops (st\<lparr>hp_written := []\<rparr>) \<longrightarrow> hp_written st' @ remaining st' = posted ops)"
proof -
  let ?st = "st\<lparr>hp_written := []\<rparr>"
  have "queue_empty ?st" using assms(1) by (simp add: queue_empty_def)
  then have inv: "queue_inv ?st" "remaining ?st = []" using queue_empty_inv by blast+
  show ?thesis
    using queue_run_order [OF inv(1), of "[]" ops] queue_run_exact [OF inv(1), of ops] inv(2)
    by (simp add: assms(2))
qed

definition example_event :: "int \<Rightarrow> Event" where
  "example_event h = \<lparr>ev_timestamp = 0, ev_sensorHandle = h, ev_sensorType = 1, ev_payload = P_none\<rparr>"

definition unlocked :: ScopedWakelock where
  "unlocked = \<lparr>sl_mRefCounter = True, sl_mCreatedAtTimeNs = 0, sl_mLocked = False\<rparr>"

definition idle_proxy :: "counting_sub_hal hal_proxy" where
  "idle_proxy = example_proxy\<lparr>hp_mPendingWriteEventsQueue := [], hp_mSizePendingWriteEventsQueue := 0,
     hp_writer := Idle, hp_wake := wakelock_init 0, hp_written := []\<rparr>"

definition example_queue_ops :: "queue_op list" where
  "example_queue_ops = [Q_post 1 True 5 [example_event 1, example_event 2, example_event 3] 0 unlocked,
     Q_take 1, Q_write True, Q_post 5 True 6 [example_event 4] 0 unlocked, Q_finish]"

lemma example_queue_lossless: "all_lossless example_queue_ops idle_proxy"
  by (simp add: example_queue_ops_def queue_size_def kMaxSizePendingWriteEventsQueue_def idle_proxy_def
      postEventsToMessageQueue_def on_wake_def unlocked_def ScopedWakelock_destroy_def Let_def
      handlePendingWrites_take_def handlePendingWrites_write_def handlePendingWrites_finish_def wakelock_init_def)

theorem pending_queue_fifo_witness:
  "hp_written (queue_run example_queue_ops idle_proxy) @ remaining (queue_run example_queue_ops idle_proxy)
     = [example_event 1, example_event 2, example_event 3, example_event 4]"
proof -
  have e: "queue_empty idle_proxy" "idle_proxy\<lparr>hp_written := []\<rparr> = idle_proxy"
    by (simp_all add: queue_empty_def idle_proxy_def)
  show ?thesis
    using pending_queue_fifo [OF e(1) refl, of example_queue_ops] example_queue_lossless
    by (simp add: e(2)) (simp add: example_queue_ops_def posted_def)
qed

text \<open>the recorded size of the pending queue is always the number of events in it, and never
  exceeds 100000.\<close>

theorem pending_queue_size_exact:
  assumes "queue_empty st" and "st' = queue_run ops st"
  shows "hp_mSizePendingWriteEventsQueue st' = length (concat (map fst (hp_mPendingWriteEventsQueue st')))
       \<and> hp_mSizePendingWriteEventsQueue st' \<le> 100000
       \<and> hp_mSizePendingWriteEventsQueue st' \<le> hp_mMostEventsObservedPendingWriteEventsQueue st'"
  using queue_inv_run [of st ops] queue_empty_inv [OF assms(1)]
  by (simp add: assms(2) queue_inv_def queue_size_def kMaxSizePendingWriteEventsQueue_def)

theorem pending_queue_size_exact_witness:
  "hp_mSizePendingWriteEventsQueue (queue_run example_queue_ops idle_proxy) \<le> 100000"
  using pending_queue_size_exact [OF _ refl, of idle_proxy example_queue_ops]
  by (simp add: queue_empty_def idle_proxy_def)

text \<open>wake-up events that do not fit into the pending queue are dropped, but their references stay:
  the count grows by their number although nobody will ever acknowledge them.\<close>

theorem overflow_keeps_references:
  assumes "hp_mPendingWriteEventsQueue st \<noteq> []"
    and "100000 < hp_mSizePendingWriteEventsQueue st + length events"
    and "wk_mThreadsRun (hp_wake st)" and "sl_mLocked wakelock" and "0 \<le> wk_mWakelockTimeoutResetTime (hp_wake st)"
    and "wk_mWakelockTimeoutResetTime (hp_wake st) \<le> sl_mCreatedAtTimeNs wakelock"
    and "1 \<le> wk_mWakelockRefCount (hp_wake st)"
    and "st' = postEventsToMessageQueue avail write_ok now events n wakelock st"
  shows "hp_written st' = hp_written st \<and> hp_mPendingWriteEventsQueue st' = hp_mPendingWriteEventsQueue st
       \<and> wk_mWakelockRefCount (hp_wake st') = wk_mWakelockRefCount (hp_wake st) - 1 + n"
proof -
  have k: "direct_writes avail write_ok events st = 0" and "\<not> kept 0 events st"
    using assms(1,2) by (simp_all add: direct_writes_def kept_def kMaxSizePendingWriteEventsQueue_def)
  then show ?thesis
    using post_fields [OF assms(8) k [symmetric]] assms(3-7)
    by (simp add: ScopedWakelock_destroy_def counter_defs Let_def)
qed

theorem overflow_keeps_references_witness:
  "\<exists>st'. st' = postEventsToMessageQueue 0 True 7 (replicate 100000 (example_event 1)) 4
        \<lparr>sl_mRefCounter = True, sl_mCreatedAtTimeNs = 5, sl_mLocked = True\<rparr>
        (idle_proxy\<lparr>hp_mPendingWriteEventsQueue := [([example_event 1], 0)],
           hp_mSizePendingWriteEventsQueue := 1, hp_wake := (wakelock_init 0)\<lparr>wk_mWakelockRefCount := 1\<rparr>\<rparr>)
     \<and> hp_mPendingWriteEventsQueue st' = [([example_event 1], 0)] \<and> wk_mWakelockRefCount (hp_wake st') = 4"
  using overflow_keeps_references
    [of "idle_proxy\<lparr>hp_mPendingWriteEventsQueue := [([example_event 1], 0)],
           hp_mSizePendingWriteEventsQueue := 1, hp_wake := (wakelock_init 0)\<lparr>wk_mWakelockRefCount := 1\<rparr>\<rparr>"
        "replicate 100000 (example_event 1)"
        "\<lparr>sl_mRefCounter = True, sl_mCreatedAtTimeNs = 5, sl_mLocked = True\<rparr>" _ 0 True 7 4]
  by (simp add: wakelock_init_def)

section \<open>Posting and the list of sensors\<close>

lemma getSensorInfo_find:
  "sm_find k (hp_mSensors (snd (getSensorInfo h st))) =
     (if k = h then Some (case sm_find h (hp_mSensors st) of Some v \<Rightarrow> v | None \<Rightarrow> SensorInfo_init)
      else sm_find k (hp_mSensors st))"
  by (simp add: getSensorInfo_def sm_subscript_find split: prod.splits) (metis snd_conv sm_subscript_find)

lemma processEvents_find:
  assumes "processEvents i events st = ((out, n), st')"
  shows "sm_find k (hp_mSensors st') =
     (if sm_find k (hp_mSensors st) = None \<and> k \<in> (\<lambda>e. ev_sensorHandle (tag_event i e)) ` set events
      then Some SensorInfo_init else sm_find k (hp_mSensors st))
    \<and> out = map (tag_event i) events \<and> hp_wake st' = hp_wake st"
  using assms
proof (induction events arbitrary: st out n)
  case (Cons e events)
  let ?h = "ev_sensorHandle (tag_event i e)"
  obtain info st1 where g: "getSensorInfo ?h st = (info, st1)" by (meson surj_pair)
  obtain out1 n1 where p: "processEvents i events st1 = ((out1, n1), st')" and out: "out = tag_event i e # out1"
    using Cons.prems g by (auto simp: Let_def split: prod.splits)
  have "sm_find k' (hp_mSensors st1) = (if k' = ?h
      then Some (case sm_find ?h (hp_mSensors st) of Some v \<Rightarrow> v | None \<Rightarrow> SensorInfo_init)
      else sm_find k' (hp_mSensors st))" for k'
    using getSensorInfo_find [of k' ?h st] g by simp
  moreover have "hp_wake st1 = hp_wake st" using getSensorInfo_simps(6) [of ?h st] g by simp
  ultimately show ?case
    using Cons.IH [OF p] out by (auto split: option.splits)
qed simp

text \<open>posting an event of a sensor that is not in the static list (a dynamic sensor) inserts a zeroed
  sensor under the tagged handle: from then on \<^verbatim>\<open>getSensorsList_2_1\<close> reports it to the framework.\<close>

theorem postEvents_inserts_phantom_sensor:
  assumes "sm_find (ev_sensorHandle (tag_event i ev)) (hp_mSensors st) = None"
    and "wk_mThreadsRun (hp_wake st)"
    and "st' = HalProxyCallback_postEvents i avail write_ok now [ev] wakelock st"
  shows "sm_find (ev_sensorHandle (tag_event i ev)) (hp_mSensors st') = Some SensorInfo_init
       \<and> SensorInfo_init \<in> set (getSensorsList_2_1 st')"
proof -
  obtain out n st1 where p: "processEvents i [ev] st = ((out, n), st1)" by (metis surj_pair)
  have "st' = postEventsToMessageQueue avail write_ok now out n wakelock st1"
    using assms(2,3) p by (simp add: HalProxyCallback_postEvents_def ScopedWakelock_move_def)
  then have "hp_mSensors st' = hp_mSensors st1" using post_fields(7) [OF _ refl] by blast
  moreover have "sm_find (ev_sensorHandle (tag_event i ev)) (hp_mSensors st1) = Some SensorInfo_init"
    using processEvents_find [OF p, of "ev_sensorHandle (tag_event i ev)"] assms(1) by simp
  ultimately show ?thesis
    by (auto simp: getSensorsList_2_1_def sm_values_def image_iff dest!: sm_find_in_set intro!: bexI)
qed

lemma idle_sensors:
  "hp_mSensors idle_proxy = [(1, SensorInfo_init\<lparr>si_sensorHandle := 1, si_flags := 1024\<rparr>),
     (16777217, SensorInfo_init\<lparr>si_sensorHandle := 16777217, si_flags := 0\<rparr>)]"
  by (simp add: idle_proxy_def example_proxy_def HalProxy_init_def initializeSensorList_def load_sub_hal_def upt_rec
      on_sub_hal_def example_sub_hal_def load_sensor_def SensorInfo_init_def example_handles Let_def
      setDirectChannelFlags_def has_flag_def direct_flags_def flag_defs u32_def split: prod.splits)

theorem postEvents_inserts_phantom_sensor_witness:
  "SensorInfo_init \<in> set (getSensorsList_2_1
      (HalProxyCallback_postEvents 0 1 True 3 [example_event 9] unlocked idle_proxy))
   \<and> SensorInfo_init \<notin> set (getSensorsList_2_1 idle_proxy)"
proof -
  have "setSubHalIndex 9 0 = 9" using setSubHalIndex_add [of 9 0] by (simp add: subHalIndexIsClear_iff)
  then have t: "ev_sensorHandle (tag_event 0 (example_event 9)) = 9"
    by (simp add: tag_event_def example_event_def Let_def ST_DYNAMIC_SENSOR_META_def)
  have "wk_mThreadsRun (hp_wake idle_proxy)" by (simp add: idle_proxy_def wakelock_init_def)
  then show ?thesis
    using postEvents_inserts_phantom_sensor [OF _ _ refl, of 0 "example_event 9" idle_proxy 1 True 3 unlocked]
    by (simp add: t idle_sensors) (simp add: getSensorsList_2_1_def sm_values_def idle_sensors SensorInfo_init_def)
qed

section \<open>Initialisation\<close>

text \<open>A call of a sub-HAL changes nothing but the list of sub-HALs.\<close>

definition only_sub_hals :: "'s hal_proxy \<Rightarrow> 's hal_proxy \<Rightarrow> bool" where
  "only_sub_hals st st' \<longleftrightarrow> st' = st\<lparr>hp_mSubHalList := hp_mSubHalList st'\<rparr>"

lemma only_sub_hals_refl [simp]: "only_sub_hals st st"
  by (simp add: only_sub_hals_def)

lemma only_sub_hals_trans: "only_sub_hals st st1 \<Longrightarrow> only_sub_hals st1 st2 \<Longrightarrow> only_sub_hals st st2"
  unfolding only_sub_hals_def by (metis hal_proxy.surjective hal_proxy.update_convs(1) hal_proxy.select_convs(1))

lemma only_sub_hals_call: "only_sub_hals st (snd (on_sub_hal i call st))"
  by (simp add: only_sub_hals_def on_sub_hal_def split: prod.splits)

lemma only_sub_hals_activate: "only_sub_hals st (snd (HalProxy_activate h en st))"
  by (simp add: HalProxy_activate_def getSubHalForSensorHandle_def only_sub_hals_call)

lemma only_sub_hals_fold: "only_sub_hals st (fold (\<lambda>h st. snd (HalProxy_activate h en st)) hs st)"
  by (induction hs arbitrary: st) (auto intro: only_sub_hals_trans only_sub_hals_activate)

lemma only_sub_hals_disable: "only_sub_hals st (disableAllSensors st)"
  unfolding disableAllSensors_def Let_def by (rule only_sub_hals_trans [OF only_sub_hals_fold only_sub_hals_fold])

lemma initialize_loop_frame:
  "initialize_loop is r st = (r', st') \<Longrightarrow> only_sub_hals st st' \<and> (r' = R_OK \<longrightarrow> r = R_OK)"
proof (induction "is" arbitrary: r st)
  case (Cons i "is")
  obtain c st1 where "on_sub_hal i (\<lambda>ops. sh_initialize ops (int i)) st = (c, st1)" by (meson surj_pair)
  then show ?case
  proof -
    assume c: "on_sub_hal i (\<lambda>ops. sh_initialize ops (int i)) st = (c, st1)"
    then have l: "initialize_loop is (if c \<noteq> R_OK then c else r) st1 = (r', st')" using Cons.prems by simp
    have "only_sub_hals st st1" using only_sub_hals_call [of st i "\<lambda>ops. sh_initialize ops (int i)"] c by simp
    then show ?thesis using Cons.IH [OF l] only_sub_hals_trans by (auto split: if_splits)
  qed
qed simp

lemma frame_fields:
  assumes "only_sub_hals st st'"
  shows "hp_mPendingWriteEventsQueue st' = hp_mPendingWriteEventsQueue st"
    "hp_mSizePendingWriteEventsQueue st' = hp_mSizePendingWriteEventsQueue st"
    "hp_mDynamicSensors st' = hp_mDynamicSensors st" "hp_writer st' = hp_writer st" "hp_wake st' = hp_wake st"
proof -
  obtain l where "st' = st\<lparr>hp_mSubHalList := l\<rparr>" using assms by (auto simp: only_sub_hals_def)
  then show "hp_mPendingWriteEventsQueue st' = hp_mPendingWriteEventsQueue st"
    "hp_mSizePendingWriteEventsQueue st' = hp_mSizePendingWriteEventsQueue st"
    "hp_mDynamicSensors st' = hp_mDynamicSensors st" "hp_writer st' = hp_writer st" "hp_wake st' = hp_wake st"
    by simp_all
qed

lemma stopThreads_writer:
  assumes "queue_inv st"
  shows "hp_writer (handlePendingWrites_finish (handlePendingWrites_write ok st)) = Idle"
  using assms
  by (cases "hp_writer st")
     (auto simp: queue_inv_def handlePendingWrites_write_def handlePendingWrites_finish_def Let_def
        countNumWakeupEvents_def case_prod_unfold)

lemma write_wake_stopped:
  assumes "\<not> wk_mThreadsRun (hp_wake st)"
  shows "hp_wake (handlePendingWrites_write ok st) = hp_wake st"
  using assms
  by (auto simp: handlePendingWrites_write_def Let_def countNumWakeupEvents_def case_prod_unfold
      decrementRefCountAndMaybeReleaseWakelock_def split: pending_writer.splits list.splits)

lemma finish_wake: "hp_wake (handlePendingWrites_finish st) = hp_wake st"
  by (simp add: handlePendingWrites_finish_def split: pending_writer.splits list.splits)

lemma reset_stopped:
  "\<not> wk_mThreadsRun w \<Longrightarrow> resetSharedWakelock now w = w\<lparr>wk_mWakelockTimeoutResetTime := now\<rparr>"
  by (simp add: counter_defs)

lemma stopThreads_wake:
  "\<exists>t. hp_wake (stopThreads ok running now st) = (hp_wake st)\<lparr>wk_mThreadsRun := False, wk_mWakelockTimeoutResetTime := t\<rparr>"
proof -
  have "hp_wake (handlePendingWrites_finish (handlePendingWrites_write ok (on_wake (\<lambda>w. w\<lparr>wk_mThreadsRun := False\<rparr>) st)))
      = (hp_wake st)\<lparr>wk_mThreadsRun := False\<rparr>"
    by (simp add: finish_wake write_wake_stopped)
  then have "hp_wake (stopThreads ok running now st) = (hp_wake st)\<lparr>wk_mThreadsRun := False,
      wk_mWakelockTimeoutResetTime := (if running then now else wk_mWakelockTimeoutResetTime (hp_wake st))\<rparr>"
    by (simp add: stopThreads_def Let_def reset_stopped)
  then show ?thesis by blast
qed

lemma stopThreads_idle:
  assumes "queue_inv st"
  shows "hp_writer (stopThreads ok running now st) = Idle"
proof -
  have "queue_inv (on_wake (\<lambda>w. w\<lparr>wk_mThreadsRun := False\<rparr>) st)"
    using assms by (simp add: queue_inv_def queue_size_def split: pending_writer.splits)
  then show ?thesis by (simp add: stopThreads_def Let_def stopThreads_writer)
qed

text \<open>after \<^verbatim>\<open>initialize\<close>, from any state of the queue, nothing is pending, no dynamic sensors
  are known, the mode is normal and the threads run; success means that the event flags and the
  callback were good. The references of the wake lock, however, are those of before.\<close>

theorem HalProxy_initialize_resets:
  assumes "queue_inv st"
    and "HalProxy_initializeCommon callback event_flag wake_flag ok running now now' st = (r, st')"
  shows "queue_empty st' \<and> hp_mDynamicSensors st' = [] \<and> hp_mCurrentOperationMode st' = OM_NORMAL
       \<and> wk_mThreadsRun (hp_wake st') \<and> (r = R_OK \<longrightarrow> event_flag \<and> wake_flag \<and> callback)
       \<and> wk_mWakelockRefCount (hp_wake st') = wk_mWakelockRefCount (hp_wake st)
       \<and> wk_held (hp_wake st') = wk_held (hp_wake st)"
proof -
  define st0 where "st0 = on_wake (resetSharedWakelock now') (stopThreads ok running now st)"
  define st1 where "st1 = disableAllSensors st0"
  define st3 where "st3 = on_wake (\<lambda>w. w\<lparr>wk_mThreadsRun := True\<rparr>)
     (st1\<lparr>hp_mPendingWriteEventsQueue := [], hp_mSizePendingWriteEventsQueue := 0,
          hp_mDynamicSensors := [], hp_written := []\<rparr>)"
  obtain t where t: "hp_wake (stopThreads ok running now st) =
      (hp_wake st)\<lparr>wk_mThreadsRun := False, wk_mWakelockTimeoutResetTime := t\<rparr>"
    using stopThreads_wake by blast
  have w0: "hp_wake st0 = (hp_wake st)\<lparr>wk_mThreadsRun := False, wk_mWakelockTimeoutResetTime := now'\<rparr>"
    by (simp add: st0_def t reset_stopped)
  have i0: "hp_writer st0 = Idle" by (simp add: st0_def stopThreads_idle [OF assms(1)])
  note f1 = frame_fields [OF only_sub_hals_disable [of st0], folded st1_def]
  obtain r' st4 where loop: "initialize_loop [0..<length (hp_mSubHalList st3)]
      (if event_flag \<and> wake_flag \<and> callback then R_OK else R_BAD_VALUE) st3 = (r', st4)" by (meson surj_pair)
  have r: "r = r'" "st' = st4\<lparr>hp_mCurrentOperationMode := OM_NORMAL\<rparr>"
    using assms(2) loop unfolding HalProxy_initializeCommon_def Let_def st0_def [symmetric] st1_def [symmetric]
      st3_def [symmetric] by auto
  note l = initialize_loop_frame [OF loop]
  note f4 = frame_fields [OF conjunct1 [OF l]]
  have s3: "hp_mPendingWriteEventsQueue st3 = []" "hp_mSizePendingWriteEventsQueue st3 = 0"
    "hp_mDynamicSensors st3 = []" "hp_writer st3 = Idle"
    "hp_wake st3 = (hp_wake st)\<lparr>wk_mThreadsRun := True, wk_mWakelockTimeoutResetTime := now'\<rparr>"
    by (simp_all add: st3_def f1 i0 w0) (simp_all add: on_wake_def)
  show ?thesis
    using conjunct2 [OF l] by (auto simp: r f4 s3 queue_empty_def split: if_splits)
qed

theorem HalProxy_initialize_resets_witness:
  "hp_mDynamicSensors (snd (HalProxy_initializeCommon True True True True True 1 2
      (idle_proxy\<lparr>hp_mDynamicSensors := [(5, SensorInfo_init)]\<rparr>))) = []"
proof -
  have "queue_inv (idle_proxy\<lparr>hp_mDynamicSensors := [(5, SensorInfo_init)]\<rparr>)"
    by (simp add: queue_inv_def queue_size_def idle_proxy_def)
  from HalProxy_initialize_resets [OF this prod.collapse [symmetric]] show ?thesis by blast
qed

end
