(* ===== verification/Sub_Sensor.thy ===== *)
theory Sub_Sensor
  imports Hal_Sensor
begin

text \<open>
  The sensor object of the Bosch sub-HAL (\<^verbatim>\<open>sensors/multihal/common/Sensor.cpp\<close>). Its text is
  that of \<^verbatim>\<open>sensors/2.X/Sensor.cpp\<close>, and its class has the same members, except for the
  destructor (see \<open>Sensor_Shutdown\<close>), for \<^verbatim>\<open>setOperationMode\<close>, which it does not have, and for
  \<^verbatim>\<open>batch\<close>, which clamps with \<^verbatim>\<open>std::clamp\<close>. The functions whose text is the same are
  therefore the same functions here; \<^verbatim>\<open>batch\<close> is modelled as it is written, and
  \<open>SubSensor_batch_eq\<close> shows that it is the same function too.
\<close>

definition SubSensor_init :: "SensorInfo \<Rightarrow> Configuration list option \<Rightarrow> Sensor" where
  "SubSensor_init = Sensor_init"

definition SubSensor_getSensorPlacement where
  "SubSensor_getSensorPlacement = getSensorPlacement"

definition SubSensor_getSensorTemperature where
  "SubSensor_getSensorTemperature = getSensorTemperature"

definition SubSensor_sendAdditionalInfoReport where
  "SubSensor_sendAdditionalInfoReport = sendAdditionalInfoReport"

definition clamp :: "int \<Rightarrow> int \<Rightarrow> int \<Rightarrow> int" where
  "clamp v lo hi = (if v < lo then lo else if hi < v then hi else v)"

definition SubSensor_batch ::
  "'s hal_methods \<Rightarrow> int \<Rightarrow> int \<Rightarrow> 's sensor_state \<Rightarrow> 's sensor_state" where
  "SubSensor_batch hm samplingPeriodNs maxReportLatencyNs st =
     (case st of (s, e) \<Rightarrow>
        let info = hs_mSensorInfo s;
            period = clamp samplingPeriodNs (si_minDelay info * 1000) (si_maxDelay info * 1000);
            e' = (if period < hs_mDirectChannelRateNs s
                  then on_hal (hm_batch hm period maxReportLatencyNs) e else e)
        in (if hs_mSamplingPeriodNs s \<noteq> period then s\<lparr>hs_mSamplingPeriodNs := period\<rparr> else s, e'))"

definition SubSensor_activate where "SubSensor_activate = Sensor_activate"
definition SubSensor_isEnabled where "SubSensor_isEnabled = Sensor_isEnabled"
definition SubSensor_flush where "SubSensor_flush = Sensor_flush"
definition SubSensor_addDirectChannel where "SubSensor_addDirectChannel = Sensor_addDirectChannel"
definition SubSensor_stopDirectChannel where "SubSensor_stopDirectChannel = Sensor_stopDirectChannel"
definition SubSensor_removeDirectChannel where "SubSensor_removeDirectChannel = Sensor_removeDirectChannel"
definition SubSensor_updateDirectChannel where "SubSensor_updateDirectChannel = Sensor_updateDirectChannel"
definition SubSensor_supportsDataInjection where "SubSensor_supportsDataInjection = Sensor_supportsDataInjection"
definition SubSensor_injectEvent where "SubSensor_injectEvent = Sensor_injectEvent"
definition SubSensor_readEvents where "SubSensor_readEvents = Sensor_readEvents"
definition SubSensor_run_round where "SubSensor_run_round = Sensor_run_round"

lemma SubSensor_batch_eq: "SubSensor_batch = Sensor_batch"
  by (intro ext) (simp add: SubSensor_batch_def Sensor_batch_def clamp_def Let_def)

lemmas sub_sensor_eqs [hal_simps] =
  SubSensor_init_def SubSensor_batch_eq SubSensor_activate_def SubSensor_isEnabled_def SubSensor_flush_def
  SubSensor_addDirectChannel_def SubSensor_stopDirectChannel_def SubSensor_removeDirectChannel_def
  SubSensor_updateDirectChannel_def SubSensor_injectEvent_def SubSensor_readEvents_def SubSensor_run_round_def

end
