(* ===== verification/Sub_Hal.thy ===== *)
theory Sub_Hal
  imports Sub_Sensor Sensors_Invariant
begin

text \<open>
  The Bosch sub-HAL (\<^verbatim>\<open>sensors/multihal/common/SensorsSubHal.cpp\<close>): the service of
  \<^verbatim>\<open>Sensors.h\<close> without event queue and wake lock, which it leaves to the proxy. Events go to
  the proxy's callback together with a scoped wake lock; \<open>sb_posted\<close> lists what was posted and whether
  the lock was locked. (A null callback, before \<^verbatim>\<open>initialize\<close>, is not represented: no sensor is
  active then.) \<open>conv\<close> is the framework's \<^verbatim>\<open>convertToSensorEvent\<close>.

  The second part shows that the sub-HAL simulates the service, step by step and event by event, and
  carries the consistency of sensors and direct channels over.
\<close>

record ('s, 'e) bosch_sub_hal =
  sb_mReportLatencyNs :: "(int, int) stdmap"
  sb_mSensors :: "(int, Sensor) stdmap"
  sb_mNextHandle :: int
  sb_mCurrentOperationMode :: operation_mode
  sb_mDirectChannels :: "(int, 'e direct_channel) stdmap"
  sb_mNextChannelHandle :: int
  sb_hal :: 's
  sb_lastTemperature :: real
  sb_posted :: "(Event list \<times> bool) list"

definition SubHal_init :: "'s \<Rightarrow> ('s, 'e) bosch_sub_hal" where
  "SubHal_init hal =
     \<lparr>sb_mReportLatencyNs = [], sb_mSensors = [], sb_mNextHandle = 1, sb_mCurrentOperationMode = OM_NORMAL,
      sb_mDirectChannels = [], sb_mNextChannelHandle = 1, sb_hal = hal, sb_lastTemperature = 0, sb_posted = []\<rparr>"

section \<open>Callbacks of the sensors\<close>

definition SubHal_postEvents :: "Event list \<Rightarrow> bool \<Rightarrow> ('s, 'e) bosch_sub_hal \<Rightarrow> ('s, 'e) bosch_sub_hal" where
  "SubHal_postEvents events wakeup st = st\<lparr>sb_posted := sb_posted st @ [(events, wakeup)]\<rparr>"

definition SubHal_channel_event ::
  "(Event \<Rightarrow> 'e) \<Rightarrow> int \<Rightarrow> Event \<Rightarrow> 'e direct_channel \<Rightarrow> 'e direct_channel" where
  "SubHal_channel_event conv samplingPeriodNs event ch =
     (let h = ev_sensorHandle event in
      if h \<notin> set (dc_sensorHandles ch) then ch
      else
        (case sm_subscript 0 h (dc_rateNs ch) of
           (rate, rateNs') \<Rightarrow>
             let ch1 = ch\<lparr>dc_rateNs := rateNs'\<rparr> in
             if rate = 0 then ch1
             else
               let count = i32 (fst (sm_subscript 0 h (dc_sampleCount ch1)) + 1);
                   ch2 = ch1\<lparr>dc_sampleCount := sm_put h count (dc_sampleCount ch1)\<rparr>
               in if i64 (samplingPeriodNs * count) < rate then ch2
                  else (DirectChannelBase_write (conv event) ch2)
                         \<lparr>dc_sampleCount := sm_put h 0 (dc_sampleCount ch2)\<rparr>))"

definition SubHal_writeToDirectBuffer ::
  "(Event \<Rightarrow> 'e) \<Rightarrow> bool \<Rightarrow> Event list \<Rightarrow> int \<Rightarrow> ('s, 'e) bosch_sub_hal \<Rightarrow> ('s, 'e) bosch_sub_hal" where
  "SubHal_writeToDirectBuffer conv busy events samplingPeriodNs st =
     (if busy then st
      else fold (\<lambda>event st. st\<lparr>sb_mDirectChannels :=
                   sm_map (\<lambda>_. SubHal_channel_event conv samplingPeriodNs event) (sb_mDirectChannels st)\<rparr>) events st)"

fun sub_deliver :: "(Event \<Rightarrow> 'e) \<Rightarrow> bool \<Rightarrow> sensor_output \<Rightarrow> ('s, 'e) bosch_sub_hal \<Rightarrow> ('s, 'e) bosch_sub_hal" where
  "sub_deliver conv busy (Post_events events wakeup) st = SubHal_postEvents events wakeup st"
| "sub_deliver conv busy (Write_direct events period) st = SubHal_writeToDirectBuffer conv busy events period st"

definition sub_env :: "('s, 'e) bosch_sub_hal \<Rightarrow> 's sensor_env" where
  "sub_env st = \<lparr>se_hal = sb_hal st, se_log = [], se_lastTemperature = sb_lastTemperature st\<rparr>"

definition sub_call ::
  "(Event \<Rightarrow> 'e) \<Rightarrow> bool \<Rightarrow> int \<Rightarrow> Sensor \<Rightarrow> ('s sensor_state \<Rightarrow> 's sensor_state)
     \<Rightarrow> ('s, 'e) bosch_sub_hal \<Rightarrow> ('s, 'e) bosch_sub_hal" where
  "sub_call conv busy h s f st =
     (case f (s, sub_env st) of
        (s', e') \<Rightarrow>
          fold (sub_deliver conv busy) (se_log e')
            (st\<lparr>sb_mSensors := sm_put h s' (sb_mSensors st), sb_hal := se_hal e',
                sb_lastTemperature := se_lastTemperature e'\<rparr>))"

definition on_sub_sensor ::
  "(Event \<Rightarrow> 'e) \<Rightarrow> int \<Rightarrow> ('s sensor_state \<Rightarrow> 's sensor_state) \<Rightarrow> ('s, 'e) bosch_sub_hal \<Rightarrow> ('s, 'e) bosch_sub_hal"
where
  "on_sub_sensor conv h f st =
     (case sm_find h (sb_mSensors st) of None \<Rightarrow> st | Some s \<Rightarrow> sub_call conv False h s f st)"

section \<open>The methods of \<^verbatim>\<open>ISensorsSubHal\<close>\<close>

definition SubHal_getSensorsList :: "('s, 'e) bosch_sub_hal \<Rightarrow> SensorInfo list" where
  "SubHal_getSensorsList st = map hs_mSensorInfo (sm_values (sb_mSensors st))"

definition SubHal_setOperationMode :: "operation_mode \<Rightarrow> hal_result" where
  "SubHal_setOperationMode mode = (if mode = OM_NORMAL then R_OK else R_BAD_VALUE)"

definition SubHal_activate ::
  "(int \<Rightarrow> 's hal_methods) \<Rightarrow> (Event \<Rightarrow> 'e) \<Rightarrow> (nat \<Rightarrow> int) \<Rightarrow> int \<Rightarrow> bool \<Rightarrow> ('s, 'e) bosch_sub_hal
     \<Rightarrow> hal_result \<times> ('s, 'e) bosch_sub_hal" where
  "SubHal_activate hms conv clk sensorHandle enabled st =
     (case sm_find sensorHandle (sb_mSensors st) of
        Some sensor \<Rightarrow>
          (R_OK, sub_call conv False sensorHandle sensor (SubSensor_activate (hms sensorHandle) clk enabled) st)
      | None \<Rightarrow> (R_BAD_VALUE, st))"

definition SubHal_batch ::
  "(int \<Rightarrow> 's hal_methods) \<Rightarrow> (Event \<Rightarrow> 'e) \<Rightarrow> int \<Rightarrow> int \<Rightarrow> int \<Rightarrow> ('s, 'e) bosch_sub_hal
     \<Rightarrow> hal_result \<times> ('s, 'e) bosch_sub_hal" where
  "SubHal_batch hms conv sensorHandle samplingPeriodNs maxReportLatencyNs st =
     (let (usedLatency, st1) =
            (if maxReportLatencyNs > 0
             then let lat = sm_put sensorHandle maxReportLatencyNs (sb_mReportLatencyNs st) in
                  (fold (\<lambda>sensor used.
                       if SubSensor_isEnabled sensor
                       then (case sm_find sensorHandle lat of None \<Rightarrow> used | Some l \<Rightarrow> min used l)
                       else used)
                     (sm_values (sb_mSensors st)) maxReportLatencyNs,
                   st\<lparr>sb_mReportLatencyNs := lat\<rparr>)
             else (maxReportLatencyNs, st))
      in case sm_find sensorHandle (sb_mSensors st1) of
           Some sensor \<Rightarrow>
             (R_OK, sub_call conv False sensorHandle sensor
                      (SubSensor_batch (hms sensorHandle) samplingPeriodNs usedLatency) st1)
         | None \<Rightarrow> (R_BAD_VALUE, st1))"

definition SubHal_flush ::
  "(int \<Rightarrow> 's hal_methods) \<Rightarrow> (Event \<Rightarrow> 'e) \<Rightarrow> (nat \<Rightarrow> int) \<Rightarrow> int \<Rightarrow> int \<Rightarrow> ('s, 'e) bosch_sub_hal
     \<Rightarrow> hal_result \<times> ('s, 'e) bosch_sub_hal" where
  "SubHal_flush hms conv clk junk sensorHandle st =
     (case sm_find sensorHandle (sb_mSensors st) of
        Some sensor \<Rightarrow>
          (fst (SubSensor_flush (hms sensorHandle) clk junk (sensor, sub_env st)),
           sub_call conv False sensorHandle sensor (\<lambda>s. snd (SubSensor_flush (hms sensorHandle) clk junk s)) st)
      | None \<Rightarrow> (R_BAD_VALUE, st))"

definition SubHal_injectSensorData :: "Event \<Rightarrow> ('s, 'e) bosch_sub_hal \<Rightarrow> hal_result" where
  "SubHal_injectSensorData event st =
     (case sm_find (ev_sensorHandle event) (sb_mSensors st) of
        Some sensor \<Rightarrow> SubSensor_injectEvent event
      | None \<Rightarrow> R_BAD_VALUE)"

text \<open>One round of the polling thread of a sensor.\<close>

definition SubHal_poll ::
  "(int \<Rightarrow> 's hal_methods) \<Rightarrow> (Event \<Rightarrow> 'e) \<Rightarrow> float_ops \<Rightarrow> bool \<Rightarrow> int \<Rightarrow> int \<Rightarrow> int \<Rightarrow> ('s, 'e) bosch_sub_hal
     \<Rightarrow> ('s, 'e) bosch_sub_hal" where
  "SubHal_poll hms conv fo busy t1 t2 sensorHandle st =
     (case sm_find sensorHandle (sb_mSensors st) of
        Some sensor \<Rightarrow>
          sub_call conv busy sensorHandle sensor (\<lambda>s. snd (SubSensor_run_round fo (hms sensorHandle) t1 t2 s)) st
      | None \<Rightarrow> st)"

section \<open>Direct channels\<close>

definition SubHal_registerDirectChannel ::
  "ashmem \<Rightarrow> nat \<Rightarrow> 'e \<Rightarrow> bool \<Rightarrow> direct_mem option \<Rightarrow> ('s, 'e) bosch_sub_hal
     \<Rightarrow> cpp_exception + (hal_result \<times> int) \<times> ('s, 'e) bosch_sub_hal" where
  "SubHal_registerDirectChannel sys event_size zero is_ashmem mem st =
     (if \<not> is_ashmem then Inr ((R_BAD_VALUE, -1), st)
      else case mem of
        None \<Rightarrow> Inr ((R_BAD_VALUE, -1), st)
      | Some directMem \<Rightarrow>
          (case AshmemDirectChannel sys event_size zero directMem of
             Inl ex \<Rightarrow> Inl ex
           | Inr ch \<Rightarrow>
               if DirectChannelBase_isValid ch
               then let channelHandle = sb_mNextChannelHandle st in
                    Inr ((R_OK, channelHandle),
                         st\<lparr>sb_mNextChannelHandle := i32 (channelHandle + 1),
                            sb_mDirectChannels :=
                              (if sm_find channelHandle (sb_mDirectChannels st) = None
                               then sm_put channelHandle ch (sb_mDirectChannels st)
                               else sb_mDirectChannels st)\<rparr>)
               else Inr ((case DirectChannelBase_getError ch of
                            BAD_VALUE \<Rightarrow> R_BAD_VALUE | NO_MEMORY \<Rightarrow> R_NO_MEMORY | NO_INIT \<Rightarrow> R_INVALID_OPERATION,
                          -1), st)))"

definition SubHal_unregisterDirectChannel ::
  "(int \<Rightarrow> 's hal_methods) \<Rightarrow> (Event \<Rightarrow> 'e) \<Rightarrow> int \<Rightarrow> ('s, 'e) bosch_sub_hal \<Rightarrow> hal_result \<times> ('s, 'e) bosch_sub_hal"
where
  "SubHal_unregisterDirectChannel hms conv channelHandle st =
     (let st1 = (case sm_find channelHandle (sb_mDirectChannels st) of
                   None \<Rightarrow> st
                 | Some channel \<Rightarrow>
                     fold (\<lambda>h. on_sub_sensor conv h (SubSensor_removeDirectChannel (hms h) channelHandle))
                       (dc_sensorHandles channel) st)
      in (R_OK, st1\<lparr>sb_mDirectChannels := sm_erase channelHandle (sb_mDirectChannels st1)\<rparr>))"

definition sub_set_rate :: "int \<Rightarrow> int \<Rightarrow> int \<Rightarrow> ('s, 'e) bosch_sub_hal \<Rightarrow> ('s, 'e) bosch_sub_hal" where
  "sub_set_rate channelHandle sensorHandle ns st =
     st\<lparr>sb_mDirectChannels := sm_map (\<lambda>h ch. if h = channelHandle
          then ch\<lparr>dc_rateNs := sm_put sensorHandle ns (dc_rateNs ch)\<rparr> else ch) (sb_mDirectChannels st)\<rparr>"

definition sub_add_handle :: "int \<Rightarrow> int \<Rightarrow> ('s, 'e) bosch_sub_hal \<Rightarrow> ('s, 'e) bosch_sub_hal" where
  "sub_add_handle channelHandle sensorHandle st =
     st\<lparr>sb_mDirectChannels := sm_map (\<lambda>h ch. if h = channelHandle
          then ch\<lparr>dc_sensorHandles := dc_sensorHandles ch @ [sensorHandle]\<rparr> else ch) (sb_mDirectChannels st)\<rparr>"

definition sub_rate_of_level :: "int \<Rightarrow> rate_level \<Rightarrow> int option" where
  "sub_rate_of_level maxRate rate =
     (case rate of
        RL_STOP \<Rightarrow> Some 0
      | RL_NORMAL \<Rightarrow> Some 20000000
      | RL_FAST \<Rightarrow> if maxRate < rate_level_int RL_FAST then None else Some 5000000
      | RL_VERY_FAST \<Rightarrow> if maxRate < rate_level_int RL_VERY_FAST then None else Some 1250000
      | RL_OTHER n \<Rightarrow> None)"

definition SubHal_configDirectReport ::
  "(int \<Rightarrow> 's hal_methods) \<Rightarrow> (Event \<Rightarrow> 'e) \<Rightarrow> int \<Rightarrow> int \<Rightarrow> rate_level \<Rightarrow> ('s, 'e) bosch_sub_hal
     \<Rightarrow> (hal_result \<times> int) \<times> ('s, 'e) bosch_sub_hal" where
  "SubHal_configDirectReport hms conv sensorHandle channelHandle rate st =
     (case sm_find channelHandle (sb_mDirectChannels st) of
        None \<Rightarrow> ((R_BAD_VALUE, -1), st)
      | Some channel \<Rightarrow>
          if sensorHandle = -1 \<and> rate = RL_STOP
          then ((R_OK, 0),
                fold (\<lambda>h st. if sm_find h (sb_mSensors st) = None then st
                             else on_sub_sensor conv h (SubSensor_stopDirectChannel (hms h) channelHandle)
                                    (sub_set_rate channelHandle h 0 st))
                  (dc_sensorHandles channel) st)
          else
            (case sm_find sensorHandle (sb_mSensors st) of
               None \<Rightarrow> ((R_BAD_VALUE, -1), st)
             | Some sensor \<Rightarrow>
                 let flags = si_flags (hs_mSensorInfo sensor) in
                 if \<not> has_flag flags FLAG_DIRECT_CHANNEL_ASHMEM then ((R_BAD_VALUE, -1), st)
                 else
                   (let maxRate = i32 (drop_bit FLAG_SHIFT_DIRECT_REPORT (flags AND FLAG_MASK_DIRECT_REPORT)) in
                    case sub_rate_of_level maxRate rate of
                      None \<Rightarrow> ((R_BAD_VALUE, -1), st)
                    | Some ns \<Rightarrow>
                        ((R_OK, sensorHandle),
                         on_sub_sensor conv sensorHandle
                           (SubSensor_addDirectChannel (hms sensorHandle) channelHandle ns)
                           (sub_add_handle channelHandle sensorHandle (sub_set_rate channelHandle sensorHandle ns st))))))"

section \<open>Construction and initialisation\<close>

text \<open>The file-local functions are word for word those of \<^verbatim>\<open>Sensors.h\<close>.\<close>

definition subhal_getSensorConfiguration where
  "subhal_getSensorConfiguration = getSensorConfiguration"

definition subhal_readSensorsConfigFromXml where
  "subhal_readSensorsConfigFromXml = readSensorsConfigFromXml"

fun SubHal_AddSensors ::
  "(string \<Rightarrow> xml_module list option) \<Rightarrow> SensorData list \<Rightarrow> ('s, 'e) bosch_sub_hal \<Rightarrow> cpp_exception + ('s, 'e) bosch_sub_hal"
where
  "SubHal_AddSensors read [] st = Inr st"
| "SubHal_AddSensors read (data # available) st =
     (let info = sensor_info_of (sb_mNextHandle st) data in
      case subhal_readSensorsConfigFromXml read of
        None \<Rightarrow> Inl Undefined_behaviour
      | Some sensors_config_list \<Rightarrow>
          let config = subhal_getSensorConfiguration sensors_config_list (si_name info) (si_type info) in
          SubHal_AddSensors read available
            (st\<lparr>sb_mNextHandle := i32 (sb_mNextHandle st + 1),
                sb_mSensors := sm_put (si_sensorHandle info) (SubSensor_init info config) (sb_mSensors st)\<rparr>))"

text \<open>\<^verbatim>\<open>initialize\<close> takes the channels away from their sensors; it does not deactivate sensors. The
  mode is fixed by \<^verbatim>\<open>setOperationMode\<close>, which never changes a member.\<close>

definition SubHal_initialize ::
  "(int \<Rightarrow> 's hal_methods) \<Rightarrow> (Event \<Rightarrow> 'e) \<Rightarrow> ('s, 'e) bosch_sub_hal \<Rightarrow> hal_result \<times> ('s, 'e) bosch_sub_hal" where
  "SubHal_initialize hms conv st =
     (let st1 = fold (\<lambda>(channelHandle, channel).
                   fold (\<lambda>h. on_sub_sensor conv h (SubSensor_removeDirectChannel (hms h) channelHandle))
                     (dc_sensorHandles channel))
                  (sb_mDirectChannels st) st
      in (R_OK, st1\<lparr>sb_mDirectChannels := []\<rparr>))"

section \<open>The sub-HAL simulates the service\<close>

text \<open>The service whose event queue takes everything.\<close>

definition open_os :: "(Event \<Rightarrow> 'e) \<Rightarrow> 'e sensors_os \<Rightarrow> bool" where
  "open_os conv os \<longleftrightarrow> os_convertToSensorEvent os = conv \<and> (\<forall>events. os_fmq_write os events)"

definition sub_rel :: "('s, 'e) bosch_sub_hal \<Rightarrow> ('s, 'e) sensors \<Rightarrow> bool" where
  "sub_rel sb sv \<longleftrightarrow>
     ss_mSensors sv = sb_mSensors sb \<and> ss_hal sv = sb_hal sb \<and> ss_lastTemperature sv = sb_lastTemperature sb
     \<and> ss_mNextHandle sv = sb_mNextHandle sb \<and> ss_mReportLatencyNs sv = sb_mReportLatencyNs sb
     \<and> ss_mDirectChannels sv = sb_mDirectChannels sb \<and> ss_mNextChannelHandle sv = sb_mNextChannelHandle sb
     \<and> ss_written sv = concat (map fst (sb_posted sb))"

lemma sub_rel_post:
  assumes "sub_rel sb sv" "open_os conv os"
  shows "sub_rel (SubHal_postEvents events wakeup sb) (Sensors_postEvents os events wakeup sv)"
  using assms by (simp add: sub_rel_def open_os_def SubHal_postEvents_def Sensors_postEvents_def Let_def)

lemma sub_channel_event_conv: "SubHal_channel_event (os_convertToSensorEvent os) = channel_event os"
  unfolding SubHal_channel_event_def channel_event_def by (rule refl)

lemma sub_channel_event: "open_os conv os \<Longrightarrow> SubHal_channel_event conv = channel_event os"
  using sub_channel_event_conv by (auto simp: open_os_def)

lemma sub_rel_channels:
  "sub_rel sb sv \<Longrightarrow> sub_rel (sb\<lparr>sb_mDirectChannels := f (sb_mDirectChannels sb)\<rparr>)
     (sv\<lparr>ss_mDirectChannels := f (ss_mDirectChannels sv)\<rparr>)"
  by (simp add: sub_rel_def)

lemma sub_rel_write:
  assumes "sub_rel sb sv" "open_os conv os"
  shows "sub_rel (SubHal_writeToDirectBuffer conv busy events p sb) (Sensors_writeToDirectBuffer os busy events p sv)"
proof -
  have "sub_rel (fold (\<lambda>event st. st\<lparr>sb_mDirectChannels :=
            sm_map (\<lambda>_. SubHal_channel_event conv p event) (sb_mDirectChannels st)\<rparr>) events sb)
      (fold (\<lambda>event st. st\<lparr>ss_mDirectChannels :=
            sm_map (\<lambda>_. channel_event os p event) (ss_mDirectChannels st)\<rparr>) events sv)"
    using assms(1)
  proof (induction events arbitrary: sb sv)
    case (Cons e events)
    show ?case
      using Cons.IH [OF sub_rel_channels [OF Cons.prems, of "sm_map (\<lambda>_. channel_event os p e)"]]
      by (simp add: sub_channel_event [OF assms(2)])
  qed simp
  then show ?thesis using assms(1) by (simp add: SubHal_writeToDirectBuffer_def Sensors_writeToDirectBuffer_def)
qed

lemma sub_rel_deliver:
  "sub_rel sb sv \<Longrightarrow> open_os conv os \<Longrightarrow> sub_rel (fold (sub_deliver conv busy) outs sb) (fold (deliver os busy) outs sv)"
proof (induction outs arbitrary: sb sv)
  case (Cons out outs)
  have "sub_rel (sub_deliver conv busy out sb) (deliver os busy out sv)"
    using Cons.prems by (cases out) (simp_all add: sub_rel_post sub_rel_write)
  with Cons show ?case by simp
qed simp

lemma sub_rel_call:
  assumes "sub_rel sb sv" "open_os conv os"
  shows "sub_rel (sub_call conv busy h s f sb) (call_sensor os busy h s f sv)"
proof -
  obtain s' e' where f: "f (s, sub_env sb) = (s', e')" by (meson surj_pair)
  have env: "sensor_env_of sv = sub_env sb" using assms(1) by (simp add: sub_rel_def sensor_env_of_def sub_env_def)
  have "sub_rel (sb\<lparr>sb_mSensors := sm_put h s' (sb_mSensors sb), sb_hal := se_hal e', sb_lastTemperature := se_lastTemperature e'\<rparr>)
     (sv\<lparr>ss_mSensors := sm_put h s' (ss_mSensors sv), ss_hal := se_hal e', ss_lastTemperature := se_lastTemperature e'\<rparr>)"
    using assms(1) by (simp add: sub_rel_def)
  from sub_rel_deliver [OF this assms(2)] show ?thesis by (simp add: sub_call_def call_sensor_def env f)
qed

lemma sub_rel_find: "sub_rel sb sv \<Longrightarrow> ss_mSensors sv = sb_mSensors sb \<and> ss_mDirectChannels sv = sb_mDirectChannels sb
    \<and> sensor_env_of sv = sub_env sb"
  by (simp add: sub_rel_def sensor_env_of_def sub_env_def)

lemma sub_rel_on:
  "sub_rel sb sv \<Longrightarrow> open_os conv os \<Longrightarrow> sub_rel (on_sub_sensor conv h f sb) (on_sensor os h f sv)"
  by (simp add: on_sub_sensor_def on_sensor_def sub_rel_find sub_rel_call split: option.splits)

lemma sub_rel_fold:
  assumes "sub_rel sb sv" "\<And>x sb sv. sub_rel sb sv \<Longrightarrow> sub_rel (f x sb) (g x sv)"
  shows "sub_rel (fold f xs sb) (fold g xs sv)"
  using assms(1) by (induction xs arbitrary: sb sv) (simp_all add: assms(2))

lemma sub_rel_erase:
  "sub_rel sb sv \<Longrightarrow> sub_rel (sb\<lparr>sb_mDirectChannels := sm_erase c (sb_mDirectChannels sb)\<rparr>)
     (sv\<lparr>ss_mDirectChannels := sm_erase c (ss_mDirectChannels sv)\<rparr>)"
  by (rule sub_rel_channels)

lemma sim_activate:
  assumes "sub_rel sb sv" "open_os conv os"
  shows "sub_rel (snd (SubHal_activate hms conv clk h en sb)) (snd (Sensors_activate hms os clk h en sv))"
    "fst (SubHal_activate hms conv clk h en sb) = fst (Sensors_activate hms os clk h en sv)"
  using assms by (auto simp: SubHal_activate_def Sensors_activate_def sub_rel_find sub_rel_call sub_sensor_eqs
      split: option.splits)

lemma sim_batch:
  assumes "sub_rel sb sv" "open_os conv os"
  shows "sub_rel (snd (SubHal_batch hms conv h p l sb)) (snd (Sensors_batch hms os h p l sv))"
    "fst (SubHal_batch hms conv h p l sb) = fst (Sensors_batch hms os h p l sv)"
proof -
  have lat: "sub_rel (sb\<lparr>sb_mReportLatencyNs := m\<rparr>) (sv\<lparr>ss_mReportLatencyNs := m\<rparr>)" for m
    using assms(1) by (simp add: sub_rel_def)
  have l: "ss_mReportLatencyNs sv = sb_mReportLatencyNs sb" using assms(1) by (simp add: sub_rel_def)
  note f = sub_rel_find [OF assms(1)]
  show "sub_rel (snd (SubHal_batch hms conv h p l sb)) (snd (Sensors_batch hms os h p l sv))"
    using assms(1) by (auto simp: SubHal_batch_def Sensors_batch_def Let_def f l lat sub_rel_call [OF lat assms(2)]
        sub_rel_call [OF assms] sub_sensor_eqs split: option.splits)
  show "fst (SubHal_batch hms conv h p l sb) = fst (Sensors_batch hms os h p l sv)"
    by (auto simp: SubHal_batch_def Sensors_batch_def Let_def f split: option.splits)
qed

lemma sim_flush:
  assumes "sub_rel sb sv" "open_os conv os"
  shows "sub_rel (snd (SubHal_flush hms conv clk junk h sb)) (snd (Sensors_flush hms os clk junk h sv))"
    "fst (SubHal_flush hms conv clk junk h sb) = fst (Sensors_flush hms os clk junk h sv)"
  using assms by (auto simp: SubHal_flush_def Sensors_flush_def sub_rel_find sub_rel_call sub_sensor_eqs
      split: option.splits)

lemma sim_poll:
  assumes "sub_rel sb sv" "open_os conv os"
  shows "sub_rel (SubHal_poll hms conv fo busy t1 t2 h sb) (Sensors_poll hms os fo busy t1 t2 h sv)"
  using assms by (auto simp: SubHal_poll_def Sensors_poll_def sub_rel_find sub_rel_call sub_sensor_eqs
      split: option.splits)

lemma sim_register:
  assumes "sub_rel sb sv"
  shows "case (SubHal_registerDirectChannel sys sz z ia mem sb, Sensors_registerDirectChannel sys sz z ia mem sv) of
     (Inr (r, sb'), Inr (r', sv')) \<Rightarrow> r = r' \<and> sub_rel sb' sv'
   | (Inl x, Inl y) \<Rightarrow> x = y | _ \<Rightarrow> False"
proof -
  have n: "ss_mNextChannelHandle sv = sb_mNextChannelHandle sb" "ss_mDirectChannels sv = sb_mDirectChannels sb"
    using assms by (simp_all add: sub_rel_def)
  show ?thesis
    using assms by (simp add: SubHal_registerDirectChannel_def Sensors_registerDirectChannel_def Let_def n
        split: option.splits sum.splits) (simp add: sub_rel_def)
qed

lemma sim_unregister:
  assumes "sub_rel sb sv" "open_os conv os"
  shows "sub_rel (snd (SubHal_unregisterDirectChannel hms conv c sb)) (snd (Sensors_unregisterDirectChannel hms os c sv))"
    "fst (SubHal_unregisterDirectChannel hms conv c sb) = fst (Sensors_unregisterDirectChannel hms os c sv)"
proof -
  have "sub_rel (case sm_find c (sb_mDirectChannels sb) of None \<Rightarrow> sb
      | Some channel \<Rightarrow> fold (\<lambda>h. on_sub_sensor conv h (Sensor_removeDirectChannel (hms h) c)) (dc_sensorHandles channel) sb)
     (case sm_find c (ss_mDirectChannels sv) of None \<Rightarrow> sv
      | Some channel \<Rightarrow> fold (\<lambda>h. on_sensor os h (Sensor_removeDirectChannel (hms h) c)) (dc_sensorHandles channel) sv)"
    using assms by (auto simp: sub_rel_find intro!: sub_rel_fold sub_rel_on split: option.split)
  from sub_rel_erase [OF this]
  show "sub_rel (snd (SubHal_unregisterDirectChannel hms conv c sb)) (snd (Sensors_unregisterDirectChannel hms os c sv))"
    unfolding SubHal_unregisterDirectChannel_def Sensors_unregisterDirectChannel_def Let_def sub_sensor_eqs snd_conv .
qed (simp add: SubHal_unregisterDirectChannel_def Sensors_unregisterDirectChannel_def Let_def)

lemma sub_rel_set_rate: "sub_rel sb sv \<Longrightarrow> sub_rel (sub_set_rate c h p sb) (set_rate c h p sv)"
  unfolding sub_set_rate_def set_rate_def by (rule sub_rel_channels)

lemma sub_rel_add_handle: "sub_rel sb sv \<Longrightarrow> sub_rel (sub_add_handle c h sb) (add_channel_handle c h sv)"
  unfolding sub_add_handle_def add_channel_handle_def by (rule sub_rel_channels)

lemma sub_rate_eq: "sub_rate_of_level = rate_of_level"
  by (intro ext) (simp add: sub_rate_of_level_def rate_of_level_def)

lemma sim_config:
  assumes "sub_rel sb sv" "open_os conv os"
  shows "sub_rel (snd (SubHal_configDirectReport hms conv h c rate sb)) (snd (Sensors_configDirectReport hms os h c rate sv))"
    "fst (SubHal_configDirectReport hms conv h c rate sb) = fst (Sensors_configDirectReport hms os h c rate sv)"
proof -
  note f = sub_rel_find [OF assms(1)]
  have one: "sub_rel (if sm_find h (sb_mSensors sb) = None then sb
        else on_sub_sensor conv h (SubSensor_stopDirectChannel (hms h) c) (sub_set_rate c h 0 sb))
      (if sm_find h (ss_mSensors sv) = None then sv
        else on_sensor os h (Sensor_stopDirectChannel (hms h) c) (set_rate c h 0 sv))"
    if "sub_rel sb sv" for h and sb :: "('a, 'b) bosch_sub_hal" and sv
    using that sub_rel_find [OF that]
    by (auto simp: sub_sensor_eqs intro!: sub_rel_on [OF _ assms(2)] sub_rel_set_rate)
  have all: "sub_rel (fold (\<lambda>h st. if sm_find h (sb_mSensors st) = None then st
        else on_sub_sensor conv h (SubSensor_stopDirectChannel (hms h) c) (sub_set_rate c h 0 st)) hs sb)
      (fold (\<lambda>h st. if sm_find h (ss_mSensors st) = None then st
        else on_sensor os h (Sensor_stopDirectChannel (hms h) c) (set_rate c h 0 st)) hs sv)" for hs
    by (rule sub_rel_fold [OF assms(1) one])
  have add: "sub_rel (on_sub_sensor conv h (SubSensor_addDirectChannel (hms h) c p) (sub_add_handle c h (sub_set_rate c h p sb)))
      (on_sensor os h (Sensor_addDirectChannel (hms h) c p) (add_channel_handle c h (set_rate c h p sv)))" for p
    unfolding sub_sensor_eqs
    by (intro sub_rel_on [OF _ assms(2)] sub_rel_add_handle sub_rel_set_rate assms(1))
  show "sub_rel (snd (SubHal_configDirectReport hms conv h c rate sb)) (snd (Sensors_configDirectReport hms os h c rate sv))"
  proof (cases "sm_find c (sb_mDirectChannels sb)")
    case None
    then show ?thesis using assms(1) by (simp add: SubHal_configDirectReport_def Sensors_configDirectReport_def f)
  next
    case ch: (Some ch)
    show ?thesis
    proof (cases "h = -1 \<and> rate = RL_STOP")
      case True
      then show ?thesis using all [of "dc_sensorHandles ch"] ch
        by (simp add: SubHal_configDirectReport_def Sensors_configDirectReport_def f)
    next
      case False
      then show ?thesis using assms(1) add ch
        by (cases "sm_find h (sb_mSensors sb)")
           (auto simp: SubHal_configDirectReport_def Sensors_configDirectReport_def f Let_def sub_rate_eq
              split: option.split)
    qed
  qed
  show "fst (SubHal_configDirectReport hms conv h c rate sb) = fst (Sensors_configDirectReport hms os h c rate sv)"
    by (auto simp: SubHal_configDirectReport_def Sensors_configDirectReport_def f Let_def sub_rate_eq split: option.split)
qed

fun sub_step ::
  "(int \<Rightarrow> 's hal_methods) \<Rightarrow> (Event \<Rightarrow> 'e) \<Rightarrow> float_ops \<Rightarrow> (nat \<Rightarrow> int) \<Rightarrow> ashmem \<Rightarrow> nat \<Rightarrow> 'e
     \<Rightarrow> service_op \<Rightarrow> ('s, 'e) bosch_sub_hal \<Rightarrow> ('s, 'e) bosch_sub_hal" where
  "sub_step hms conv fo clk sys sz z (V_activate h en) st = snd (SubHal_activate hms conv clk h en st)"
| "sub_step hms conv fo clk sys sz z (V_batch h p l) st = snd (SubHal_batch hms conv h p l st)"
| "sub_step hms conv fo clk sys sz z (V_flush junk h) st = snd (SubHal_flush hms conv clk junk h st)"
| "sub_step hms conv fo clk sys sz z (V_register ia mem) st =
     (case SubHal_registerDirectChannel sys sz z ia mem st of Inr (r, st') \<Rightarrow> st' | Inl _ \<Rightarrow> st)"
| "sub_step hms conv fo clk sys sz z (V_unregister c) st = snd (SubHal_unregisterDirectChannel hms conv c st)"
| "sub_step hms conv fo clk sys sz z (V_config h c rate) st = snd (SubHal_configDirectReport hms conv h c rate st)"
| "sub_step hms conv fo clk sys sz z (V_poll h busy t1 t2) st = SubHal_poll hms conv fo busy t1 t2 h st"

lemma sim_step:
  assumes "sub_rel sb sv" "open_os conv os"
  shows "sub_rel (sub_step hms conv fo clk sys sz z op sb) (service_step hms os fo clk sys sz z op sv)"
proof (cases op)
  case (V_register ia mem)
  show ?thesis
    using assms(1) sim_register [OF assms(1), of sys sz z ia mem]
    by (auto simp: V_register split: sum.splits)
qed (use assms in \<open>simp_all add: sim_activate sim_batch sim_flush sim_unregister sim_config sim_poll\<close>)

lemma sim_run:
  "sub_rel sb sv \<Longrightarrow> open_os conv os \<Longrightarrow>
   sub_rel (fold (sub_step hms conv fo clk sys sz z) ops sb) (fold (service_step hms os fo clk sys sz z) ops sv)"
  by (rule sub_rel_fold) (simp_all add: sim_step)

lemma sim_add:
  "sub_rel sb sv \<Longrightarrow> SubHal_AddSensors read ds sb = Inr sb' \<Longrightarrow>
   \<exists>sv'. AddSensors read ds sv = Inr sv' \<and> sub_rel sb' sv'"
proof (induction ds arbitrary: sb sv)
  case (Cons d ds)
  then obtain l where l: "readSensorsConfigFromXml read = Some l"
    by (auto simp: subhal_readSensorsConfigFromXml_def Let_def split: option.splits)
  have n: "ss_mNextHandle sv = sb_mNextHandle sb" "ss_mSensors sv = sb_mSensors sb"
    using Cons.prems(1) by (simp_all add: sub_rel_def)
  let ?info = "sensor_info_of (sb_mNextHandle sb) d"
  let ?s = "Sensor_init ?info (getSensorConfiguration l (si_name ?info) (si_type ?info))"
  have "sub_rel (sb\<lparr>sb_mNextHandle := i32 (sb_mNextHandle sb + 1), sb_mSensors := sm_put (si_sensorHandle ?info) ?s (sb_mSensors sb)\<rparr>)
     (sv\<lparr>ss_mNextHandle := i32 (ss_mNextHandle sv + 1), ss_mSensors := sm_put (si_sensorHandle ?info) ?s (ss_mSensors sv)\<rparr>)"
    using Cons.prems(1) by (simp add: sub_rel_def)
  from Cons.IH [OF this] show ?case
    using Cons.prems(2) l
    by (simp add: Let_def subhal_readSensorsConfigFromXml_def subhal_getSensorConfiguration_def SubSensor_init_def n)
qed simp

lemma sub_rel_init: "sub_rel (SubHal_init hal) (Sensors_init hal)"
  by (simp add: sub_rel_def SubHal_init_def Sensors_init_def)

section \<open>What the simulation carries over\<close>

definition service_of :: "('s, 'e) bosch_sub_hal \<Rightarrow> ('s, 'e) sensors" where
  "service_of sb = (Sensors_init (sb_hal sb))
     \<lparr>ss_mSensors := sb_mSensors sb, ss_lastTemperature := sb_lastTemperature sb,
      ss_mNextHandle := sb_mNextHandle sb, ss_mReportLatencyNs := sb_mReportLatencyNs sb,
      ss_mDirectChannels := sb_mDirectChannels sb, ss_mNextChannelHandle := sb_mNextChannelHandle sb,
      ss_written := concat (map fst (sb_posted sb))\<rparr>"

definition sub_inv :: "('s, 'e) bosch_sub_hal \<Rightarrow> bool" where
  "sub_inv sb \<longleftrightarrow> service_inv (service_of sb)"

definition opened :: "(Event \<Rightarrow> 'e) \<Rightarrow> 'e sensors_os" where
  "opened conv = \<lparr>os_fmq_write = (\<lambda>_. True), os_acquire_wake_lock = 0, os_release_wake_lock = 0,
     os_uptimeMillis = 0, os_convertToSensorEvent = conv\<rparr>"

lemma open_opened: "open_os conv (opened conv)"
  by (simp add: open_os_def opened_def)

lemma sub_rel_service_of: "sub_rel sb (service_of sb)"
  by (simp add: sub_rel_def service_of_def Sensors_init_def)

lemma service_inv_cong:
  "ss_mSensors sv = ss_mSensors sv' \<Longrightarrow> ss_mDirectChannels sv = ss_mDirectChannels sv' \<Longrightarrow> service_inv sv = service_inv sv'"
  by (simp add: service_inv_def consistent_def)

lemma sub_inv_rel: "sub_rel sb sv \<Longrightarrow> sub_inv sb = service_inv sv"
  unfolding sub_inv_def by (rule service_inv_cong) (simp_all add: sub_rel_def service_of_def)

lemma sub_inv_step:
  assumes "sub_inv sb"
  shows "sub_inv (sub_step hms conv fo clk sys sz z op sb)"
proof -
  have "service_inv (service_step hms (opened conv) fo clk sys sz z op (service_of sb))"
    using assms by (simp add: sub_inv_def service_step_inv)
  then show ?thesis by (rule iffD2 [OF sub_inv_rel [OF sim_step [OF sub_rel_service_of open_opened]]])
qed

lemma sub_inv_run: "sub_inv sb \<Longrightarrow> sub_inv (fold (sub_step hms conv fo clk sys sz z) ops sb)"
  by (induction ops arbitrary: sb) (simp_all add: sub_inv_step)

lemma sub_inv_fresh:
  assumes "SubHal_AddSensors read ds (SubHal_init hal) = Inr sb" "\<forall>d\<in>set ds. sd_minDelayUs d \<le> sd_maxDelayUs d"
  shows "sub_inv sb"
proof -
  obtain sv where sv: "AddSensors read ds (Sensors_init hal) = Inr sv" "sub_rel sb sv"
    using sim_add [OF sub_rel_init assms(1)] by blast
  have "service_inv sv" using AddSensors_inv [OF sv(1) Sensors_init_inv _ assms(2)] by (simp add: Sensors_init_def)
  then show ?thesis using sub_inv_rel [OF sv(2)] by simp
qed

lemma sim_initialize:
  assumes "sub_rel sb sv" "open_os conv os"
  shows "sub_rel (snd (SubHal_initialize hms conv sb))
     ((reset_channels hms os (ss_mDirectChannels sv) sv)\<lparr>ss_mDirectChannels := []\<rparr>)"
proof -
  have "sub_rel (fold (\<lambda>(c, ch). fold (\<lambda>h. on_sub_sensor conv h (Sensor_removeDirectChannel (hms h) c)) (dc_sensorHandles ch))
        chs sb) (reset_channels hms os chs sv)" for chs
    unfolding reset_channels_def
    using assms by (intro sub_rel_fold) (auto intro!: sub_rel_fold sub_rel_on split: prod.split)
  from sub_rel_channels [OF this, of "\<lambda>_. []"] show ?thesis
    using assms(1) by (simp add: SubHal_initialize_def Let_def sub_sensor_eqs sub_rel_find)
qed

lemma sub_consistent:
  assumes "sub_inv sb" "sm_find h (sb_mSensors sb) = Some s"
  shows "live s c = granted (sb_mDirectChannels sb) h c"
  using assms by (simp add: sub_inv_def service_inv_def consistent_def service_of_def)

lemma initialize_drops:
  assumes "sub_inv sb"
  shows "sb_mDirectChannels (snd (SubHal_initialize hms conv sb)) = []"
    "sm_find h (sb_mSensors (snd (SubHal_initialize hms conv sb))) = Some s' \<Longrightarrow>
       \<exists>s. sm_find h (sb_mSensors sb) = Some s \<and> hs_mIsEnabled s' = hs_mIsEnabled s
         \<and> Sensor_inv s' \<and> hs_mSensorInfo s' = hs_mSensorInfo s \<and> (\<forall>c. live s' c = None)"
proof -
  let ?sv = "service_of sb"
  let ?sv' = "(reset_channels hms (opened conv) (ss_mDirectChannels ?sv) ?sv)\<lparr>ss_mDirectChannels := []\<rparr>"
  have rel: "sub_rel (snd (SubHal_initialize hms conv sb)) ?sv'"
    by (rule sim_initialize [OF sub_rel_service_of open_opened])
  then show "sb_mDirectChannels (snd (SubHal_initialize hms conv sb)) = []" by (simp add: sub_rel_def)
  have inv: "service_inv ?sv" using assms by (simp add: sub_inv_def)
  then have ok: "sm_ok (ss_mSensors ?sv)" by (simp add: service_inv_def)
  assume "sm_find h (sb_mSensors (snd (SubHal_initialize hms conv sb))) = Some s'"
  then have s': "sm_find h (ss_mSensors (reset_channels hms (opened conv) (ss_mDirectChannels ?sv) ?sv)) = Some s'"
    using rel by (simp add: sub_rel_def)
  obtain s where s: "sm_find h (ss_mSensors ?sv) = Some s" "Sensor_inv s \<longrightarrow> Sensor_inv s'"
    "hs_mSensorInfo s' = hs_mSensorInfo s" "hs_mIsEnabled s' = hs_mIsEnabled s"
    "\<forall>c. live s' c = (if \<exists>ch. (c, ch) \<in> set (ss_mDirectChannels ?sv) \<and> h \<in> set (dc_sensorHandles ch)
       then None else live s c)"
    using reset_channelsD [OF ok s'] by blast
  have "live s' c = None" for c
  proof (cases "\<exists>ch. (c, ch) \<in> set (ss_mDirectChannels ?sv) \<and> h \<in> set (dc_sensorHandles ch)")
    case False
    have "live s c = granted (ss_mDirectChannels ?sv) h c"
      using inv s(1) by (simp add: service_inv_def consistent_def)
    also have "\<dots> = None"
      using False by (auto simp: granted_def granted1_def split: option.splits dest!: sm_find_in_set)
    finally show ?thesis using s(5) False by simp
  qed (use s(5) in simp)
  then show "\<exists>s. sm_find h (sb_mSensors sb) = Some s \<and> hs_mIsEnabled s' = hs_mIsEnabled s
      \<and> Sensor_inv s' \<and> hs_mSensorInfo s' = hs_mSensorInfo s \<and> (\<forall>c. live s' c = None)"
    using s inv by (auto simp: service_inv_def service_of_def)
qed

lemma sub_inv_initialize:
  assumes "sub_inv sb"
  shows "sub_inv (snd (SubHal_initialize hms conv sb))"
proof -
  let ?sb = "snd (SubHal_initialize hms conv sb)"
  note d = initialize_drops [OF assms, where hms = hms and conv = conv]
  have "sm_ok (sb_mSensors ?sb)"
    using sim_initialize [where sb = sb and sv = "service_of sb" and hms = hms and conv = conv and os = "opened conv"]
      sub_rel_service_of [of sb] open_opened [of conv] assms
      reset_channels_facts [where st = "service_of sb" and hms = hms and os = "opened conv"
        and chs = "ss_mDirectChannels (service_of sb)"]
    by (simp add: sub_rel_def sub_inv_def service_inv_def)
  moreover have "Sensor_inv s \<and> si_sensorHandle (hs_mSensorInfo s) = h
      \<and> live s c = granted (sb_mDirectChannels ?sb) h c"
    if "sm_find h (sb_mSensors ?sb) = Some s" for h s c
    using d(2) [OF that] assms by (auto simp: d(1) granted_def sub_inv_def service_inv_def service_of_def)
  moreover have "sm_ok (sb_mDirectChannels ?sb)" by (simp add: d(1) sm_ok_def)
  ultimately show ?thesis
    by (simp add: sub_inv_def service_inv_def consistent_def service_of_def)
qed

section \<open>Properties\<close>


lemma example_sub_add:
  "\<exists>sb. SubHal_AddSensors example_xml [example_data] (SubHal_init () :: (unit, int) bosch_sub_hal) = Inr sb"
proof -
  obtain st where "AddSensors example_xml [example_data] (Sensors_init () :: (unit, int) sensors) = Inr st"
    using example_add by blast
  then have "readSensorsConfigFromXml example_xml \<noteq> None" by (auto simp: Let_def split: option.splits)
  then show ?thesis by (auto simp: subhal_readSensorsConfigFromXml_def Let_def)
qed

definition example_sub :: "(unit, int) bosch_sub_hal" where
  "example_sub = (case SubHal_AddSensors example_xml [example_data] (SubHal_init ()) of Inr sb \<Rightarrow> sb | Inl _ \<Rightarrow> SubHal_init ())"

lemma example_sub_eq: "SubHal_AddSensors example_xml [example_data] (SubHal_init ()) = Inr example_sub"
  using example_sub_add by (auto simp: example_sub_def)


text \<open>after any calls, \<^verbatim>\<open>initialize\<close> leaves the sub-HAL without channels and no sensor serving one,
  but does not switch sensors off: that is left to the proxy.\<close>

theorem SubHal_initialize_drops_channels:
  assumes "SubHal_AddSensors read ds (SubHal_init hal) = Inr sb0" and "\<forall>d\<in>set ds. sd_minDelayUs d \<le> sd_maxDelayUs d"
    and "sb = fold (sub_step hms conv fo clk sys sz z) ops sb0"
    and "SubHal_initialize hms conv sb = (r, sb')"
    and "sm_find h (sb_mSensors sb') = Some s'"
  shows "r = R_OK \<and> sb_mDirectChannels sb' = [] \<and> live s' c = None
       \<and> (\<exists>s. sm_find h (sb_mSensors sb) = Some s \<and> hs_mIsEnabled s' = hs_mIsEnabled s)"
proof -
  have inv: "sub_inv sb" unfolding assms(3) by (rule sub_inv_run [OF sub_inv_fresh [OF assms(1,2)]])
  have sb': "sb' = snd (SubHal_initialize hms conv sb)" "r = fst (SubHal_initialize hms conv sb)"
    using assms(4) by simp_all
  have "r = R_OK" by (simp add: sb'(2) SubHal_initialize_def Let_def)
  then show ?thesis
    using initialize_drops(1) [OF inv, where hms = hms and conv = conv]
      initialize_drops(2) [OF inv, where hms = hms and conv = conv and h = h and s' = s'] assms(5)
    by (auto simp: sb'(1))
qed

lemma example_sub_record:
  "\<exists>config. example_sub = (SubHal_init ())\<lparr>sb_mNextHandle := i32 2,
     sb_mSensors := [(1, Sensor_init (sensor_info_of 1 example_data) config)]\<rparr>"
proof -
  obtain l where "readSensorsConfigFromXml example_xml = Some l"
    using example_sub_eq by (auto simp: subhal_readSensorsConfigFromXml_def Let_def split: option.splits)
  then have e: "SubHal_AddSensors example_xml [example_data] (SubHal_init () :: (unit, int) bosch_sub_hal) =
      Inr ((SubHal_init ())\<lparr>sb_mNextHandle := i32 2, sb_mSensors := [(1, Sensor_init (sensor_info_of 1 example_data)
        (getSensorConfiguration l (si_name (sensor_info_of 1 example_data)) (si_type (sensor_info_of 1 example_data))))]\<rparr>)"
    by (simp add: subhal_readSensorsConfigFromXml_def subhal_getSensorConfiguration_def SubSensor_init_def Let_def
        SubHal_init_def sensor_info_of_def SensorInfo_init_def)
  show ?thesis by (rule exI, rule sum.inject(2) [THEN iffD1, OF trans [OF example_sub_eq [symmetric] e]])
qed

theorem SubHal_initialize_drops_channels_witness:
  "\<exists>s'. sm_find 1 (sb_mSensors (snd (SubHal_initialize (\<lambda>_. silent) (\<lambda>_. 0) example_sub))) = Some s' \<and> live s' 1 = None"
proof -
  obtain config where e: "example_sub = (SubHal_init ())\<lparr>sb_mNextHandle := i32 2,
     sb_mSensors := [(1, Sensor_init (sensor_info_of 1 example_data) config)]\<rparr>"
    using example_sub_record by blast
  define s where "s = Sensor_init (sensor_info_of 1 example_data) config"
  have s: "sb_mSensors example_sub = [(1, s)]" "sb_mDirectChannels example_sub = []"
    unfolding s_def e by (simp_all add: SubHal_init_def)
  have f: "sm_find 1 (sb_mSensors (snd (SubHal_initialize (\<lambda>_. silent) (\<lambda>_. 0) example_sub))) = Some s"
    by (simp add: SubHal_initialize_def s)
  have d: "\<forall>d\<in>set [example_data]. sd_minDelayUs d \<le> sd_maxDelayUs d" by (simp add: example_data_def)
  from SubHal_initialize_drops_channels [OF example_sub_eq d _ prod.collapse [symmetric] f,
      where ops = "[]" and sz = 0 and z = 0 and clk = "\<lambda>_. 0" and fo = "\<lparr>fp32 = id, fp64 = id\<rparr>" and sys = example_ashmem]
  show ?thesis using f by simp
qed

end
