(* ===== verification/Proxy_System.thy ===== *)
theory Proxy_System
  imports Sub_Hal Proxy_Queue
begin

text \<open>
  The proxy over Bosch sub-HALs: the sub-HAL of \<open>Sub_Hal\<close> as a provider of the \<open>sub_hal\<close> methods
  (\<^verbatim>\<open>SensorsSubHalBase\<close> of \<^verbatim>\<open>SensorsSubHal.h\<close> and \<^verbatim>\<open>BoschSubHal.h\<close>), any sequence of
  framework calls and polling rounds over it, and what holds of every sub-HAL throughout.
\<close>

section \<open>The sub-HAL behind the proxy\<close>

text \<open>The clock readings and the uninitialised memory that the calls see.\<close>

record bosch_env =
  be_clk :: "nat \<Rightarrow> int"
  be_junk :: int

definition bosch_ops ::
  "(int \<Rightarrow> 's hal_methods) \<Rightarrow> (Event \<Rightarrow> 'e) \<Rightarrow> ashmem \<Rightarrow> nat \<Rightarrow> 'e \<Rightarrow> bosch_env \<Rightarrow> ('s, 'e) bosch_sub_hal sub_hal" where
  "bosch_ops hms conv sys sz z env =
     \<lparr>sh_initialize = (\<lambda>i. SubHal_initialize hms conv),
      sh_getSensorsList = (\<lambda>s. (SubHal_getSensorsList s, s)),
      sh_setOperationMode = (\<lambda>mode s. (SubHal_setOperationMode mode, s)),
      sh_activate = SubHal_activate hms conv (be_clk env),
      sh_batch = SubHal_batch hms conv,
      sh_flush = SubHal_flush hms conv (be_clk env) (be_junk env),
      sh_injectSensorData = (\<lambda>event s. (SubHal_injectSensorData event s, s)),
      sh_registerDirectChannel = (\<lambda>mem s.
         (case SubHal_registerDirectChannel sys sz z (fst mem) (snd mem) s of
            Inl ex \<Rightarrow> (Inl ex, s) | Inr (r, s') \<Rightarrow> (Inr r, s'))),
      sh_unregisterDirectChannel = SubHal_unregisterDirectChannel hms conv,
      sh_configDirectReport = SubHal_configDirectReport hms conv\<rparr>"

datatype proxy_op =
    X_activate int bool
  | X_batch int int int
  | X_flush int
  | X_inject Event
  | X_register shared_mem_info
  | X_unregister int
  | X_config int int rate_level
  | X_mode operation_mode
  | X_initialize bool bool bool bool bool int int
  | X_env bosch_env
  | X_poll nat float_ops bool int int int

text \<open>\<open>X_env\<close> is the passage of time; \<open>X_poll\<close> a round of a polling thread in sub-HAL \<open>i\<close>.\<close>

fun proxy_step ::
  "(int \<Rightarrow> 's hal_methods) \<Rightarrow> (Event \<Rightarrow> 'e) \<Rightarrow> ashmem \<Rightarrow> nat \<Rightarrow> 'e \<Rightarrow> convertV2_1
     \<Rightarrow> proxy_op \<Rightarrow> ('s, 'e) bosch_sub_hal hal_proxy \<Rightarrow> ('s, 'e) bosch_sub_hal hal_proxy" where
  "proxy_step hms conv sys sz z cv (X_activate h en) st = snd (HalProxy_activate h en st)"
| "proxy_step hms conv sys sz z cv (X_batch h p l) st = snd (HalProxy_batch h p l st)"
| "proxy_step hms conv sys sz z cv (X_flush h) st = snd (HalProxy_flush h st)"
| "proxy_step hms conv sys sz z cv (X_inject ev) st = snd (HalProxy_injectSensorData cv ev st)"
| "proxy_step hms conv sys sz z cv (X_register mem) st = snd (HalProxy_registerDirectChannel mem st)"
| "proxy_step hms conv sys sz z cv (X_unregister c) st = snd (HalProxy_unregisterDirectChannel c st)"
| "proxy_step hms conv sys sz z cv (X_config h c rate) st = snd (HalProxy_configDirectReport h c rate st)"
| "proxy_step hms conv sys sz z cv (X_mode mode) st = snd (HalProxy_setOperationMode mode st)"
| "proxy_step hms conv sys sz z cv (X_initialize callback ef wflag ok running now now') st =
     snd (HalProxy_initializeCommon callback ef wflag ok running now now' st)"
| "proxy_step hms conv sys sz z cv (X_env env) st =
     st\<lparr>hp_mSubHalList := map (\<lambda>(ops, s). (bosch_ops hms conv sys sz z env, s)) (hp_mSubHalList st)\<rparr>"
| "proxy_step hms conv sys sz z cv (X_poll i fo busy t1 t2 h) st =
     (if i < length (hp_mSubHalList st)
      then st\<lparr>hp_mSubHalList := (hp_mSubHalList st)[i := (case hp_mSubHalList st ! i of (ops, s) \<Rightarrow>
             (ops, SubHal_poll hms conv fo busy t1 t2 h s))]\<rparr>
      else st)"

text \<open>All sub-HALs are Bosch sub-HALs in a consistent state.\<close>

definition all_bosch ::
  "(int \<Rightarrow> 's hal_methods) \<Rightarrow> (Event \<Rightarrow> 'e) \<Rightarrow> ashmem \<Rightarrow> nat \<Rightarrow> 'e
     \<Rightarrow> (('s, 'e) bosch_sub_hal sub_hal \<times> ('s, 'e) bosch_sub_hal) list \<Rightarrow> bool" where
  "all_bosch hms conv sys sz z subHals \<longleftrightarrow>
     (\<forall>(ops, s)\<in>set subHals. (\<exists>env. ops = bosch_ops hms conv sys sz z env) \<and> sub_inv s)"

section \<open>What the proxy keeps of its sub-HALs\<close>

lemma wake_sub_hals [simp]: "hp_mSubHalList (on_wake f st) = hp_mSubHalList st"
  by (simp add: on_wake_def)

lemma count_sub_hals [simp]: "hp_mSubHalList (snd (countNumWakeupEvents_loop evs st)) = hp_mSubHalList st"
proof (induction evs arbitrary: st)
  case (Cons e evs)
  show ?case
    using Cons.IH [of "snd (getSensorInfo (ev_sensorHandle e) st)"]
    by (simp add: case_prod_unfold) (simp add: getSensorInfo_def split: prod.split)
qed simp

lemma write_sub_hals [simp]: "hp_mSubHalList (handlePendingWrites_write ok st) = hp_mSubHalList st"
  by (auto simp: handlePendingWrites_write_def Let_def countNumWakeupEvents_def case_prod_unfold
      split: pending_writer.split list.split)

lemma finish_sub_hals [simp]: "hp_mSubHalList (handlePendingWrites_finish st) = hp_mSubHalList st"
  by (simp add: handlePendingWrites_finish_def split: pending_writer.split list.split)

lemma stopThreads_sub_hals [simp]: "hp_mSubHalList (stopThreads ok running now st) = hp_mSubHalList st"
  by (simp add: stopThreads_def Let_def)

text \<open>The contract between the proxy and its sub-HALs: a property \<open>I i\<close> of the methods and the state of
  sub-HAL \<open>i\<close> that every method the proxy calls keeps.\<close>

locale sub_hal_contract =
  fixes I :: "nat \<Rightarrow> 's sub_hal \<Rightarrow> 's \<Rightarrow> bool"
  assumes initialize: "I i ops s \<Longrightarrow> I i ops (snd (sh_initialize ops k s))"
    and getSensorsList: "I i ops s \<Longrightarrow> I i ops (snd (sh_getSensorsList ops s))"
    and setOperationMode: "I i ops s \<Longrightarrow> I i ops (snd (sh_setOperationMode ops mode s))"
    and activate: "I i ops s \<Longrightarrow> I i ops (snd (sh_activate ops h en s))"
    and batch: "I i ops s \<Longrightarrow> I i ops (snd (sh_batch ops h p l s))"
    and flush: "I i ops s \<Longrightarrow> I i ops (snd (sh_flush ops h s))"
    and injectSensorData: "I i ops s \<Longrightarrow> I i ops (snd (sh_injectSensorData ops event s))"
    and registerDirectChannel: "I i ops s \<Longrightarrow> I i ops (snd (sh_registerDirectChannel ops mem s))"
    and unregisterDirectChannel: "I i ops s \<Longrightarrow> I i ops (snd (sh_unregisterDirectChannel ops c s))"
    and configDirectReport: "I i ops s \<Longrightarrow> I i ops (snd (sh_configDirectReport ops h c rate s))"
begin

definition all_sub_hals :: "'s hal_proxy \<Rightarrow> bool" where
  "all_sub_hals st \<longleftrightarrow> (\<forall>i<length (hp_mSubHalList st). case hp_mSubHalList st ! i of (ops, s) \<Rightarrow> I i ops s)"

lemma all_sub_hals_nth:
  "all_sub_hals st \<Longrightarrow> i < length (hp_mSubHalList st) \<Longrightarrow> hp_mSubHalList st ! i = (ops, s) \<Longrightarrow> I i ops s"
  unfolding all_sub_hals_def by (metis case_prodD)

lemma all_sub_hals_update:
  assumes "all_sub_hals st" "i < length (hp_mSubHalList st) \<Longrightarrow> I i ops s"
  shows "all_sub_hals (st\<lparr>hp_mSubHalList := (hp_mSubHalList st)[i := (ops, s)]\<rparr>)"
  unfolding all_sub_hals_def
proof (intro allI impI)
  fix j
  assume "j < length (hp_mSubHalList (st\<lparr>hp_mSubHalList := (hp_mSubHalList st)[i := (ops, s)]\<rparr>))"
  then show "case hp_mSubHalList (st\<lparr>hp_mSubHalList := (hp_mSubHalList st)[i := (ops, s)]\<rparr>) ! j of (ops, s) \<Rightarrow> I j ops s"
    using assms by (cases "j = i") (simp_all add: all_sub_hals_def)
qed

lemma all_sub_hals_call:
  assumes "all_sub_hals st" "\<And>ops s. I i ops s \<Longrightarrow> I i ops (snd (call ops s))"
  shows "all_sub_hals (snd (on_sub_hal i call st))"
proof -
  obtain ops s where i: "hp_mSubHalList st ! i = (ops, s)" by (meson surj_pair)
  have "all_sub_hals (st\<lparr>hp_mSubHalList := (hp_mSubHalList st)[i := (ops, snd (call ops s))]\<rparr>)"
    by (rule all_sub_hals_update [OF assms(1)]) (rule assms(2) [OF all_sub_hals_nth [OF assms(1) _ i]])
  then show ?thesis by (cases "call ops s") (simp add: on_sub_hal_def i)
qed

lemmas calls = all_sub_hals_call [OF _ initialize] all_sub_hals_call [OF _ getSensorsList]
  all_sub_hals_call [OF _ setOperationMode] all_sub_hals_call [OF _ activate] all_sub_hals_call [OF _ batch]
  all_sub_hals_call [OF _ flush] all_sub_hals_call [OF _ injectSensorData]
  all_sub_hals_call [OF _ registerDirectChannel] all_sub_hals_call [OF _ unregisterDirectChannel]
  all_sub_hals_call [OF _ configDirectReport]

lemma all_sub_hals_cong:
  "hp_mSubHalList st = hp_mSubHalList st' \<Longrightarrow> all_sub_hals st = all_sub_hals st'"
  by (simp add: all_sub_hals_def)

lemma routed_calls:
  assumes "all_sub_hals st"
  shows "all_sub_hals (snd (HalProxy_activate h en st))"
    "all_sub_hals (snd (HalProxy_batch h p l st))"
    "all_sub_hals (snd (HalProxy_flush h st))"
    "all_sub_hals (snd (HalProxy_injectSensorData cv event st))"
    "all_sub_hals (snd (HalProxy_registerDirectChannel mem st))"
    "all_sub_hals (snd (HalProxy_unregisterDirectChannel c st))"
    "all_sub_hals (snd (HalProxy_configDirectReport h c rate st))"
  using assms
  by (simp_all add: routing getSubHalForSensorHandle_def HalProxy_registerDirectChannel_def
      HalProxy_unregisterDirectChannel_def HalProxy_configDirectReport_def HalProxy_injectSensorData_def
      Let_def calls split: option.split)

lemma mode_loop: "all_sub_hals st \<Longrightarrow> all_sub_hals (snd (setOperationMode_loop mode i st))"
proof (induction mode i st rule: setOperationMode_loop.induct)
  case (1 mode i st)
  obtain r st' where c: "on_sub_hal i (\<lambda>ops. sh_setOperationMode ops mode) st = (r, st')" by (meson surj_pair)
  then have "all_sub_hals st'"
    using all_sub_hals_call [OF 1(2), of i "\<lambda>ops. sh_setOperationMode ops mode"] setOperationMode by simp
  then show ?case using 1 c by (subst setOperationMode_loop.simps) (simp split: prod.split)
qed

lemma setOperationMode_keeps:
  assumes "all_sub_hals st"
  shows "all_sub_hals (snd (HalProxy_setOperationMode mode st))"
proof -
  obtain r k st1 where l: "setOperationMode_loop mode 0 st = ((r, k), st1)" by (metis surj_pair)
  then have st1: "all_sub_hals st1" using mode_loop [OF assms, of mode 0] by simp
  have "all_sub_hals (fold (\<lambda>i st. snd (on_sub_hal i
      (\<lambda>ops. sh_setOperationMode ops (hp_mCurrentOperationMode st)) st)) is st')" if "all_sub_hals st'" for "is" st'
    using that by (induction "is" arbitrary: st') (simp_all add: all_sub_hals_call setOperationMode)
  then show ?thesis using st1 by (simp add: HalProxy_setOperationMode_def l all_sub_hals_def)
qed

lemma initialize_loop_keeps:
  "all_sub_hals st \<Longrightarrow> all_sub_hals (snd (initialize_loop is r st))"
proof (induction "is" arbitrary: r st)
  case (Cons i "is")
  then have "all_sub_hals (snd (on_sub_hal i (\<lambda>ops. sh_initialize ops (int i)) st))"
    by (intro all_sub_hals_call initialize)
  with Cons show ?case by (auto split: prod.split)
qed simp

lemma activate_fold:
  "all_sub_hals st \<Longrightarrow> all_sub_hals (fold (\<lambda>h st. snd (HalProxy_activate h False st)) hs st)"
  by (induction hs arbitrary: st) (simp_all add: routed_calls)

lemma initialize_keeps:
  assumes "all_sub_hals st"
  shows "all_sub_hals (snd (HalProxy_initializeCommon callback ef wflag ok running now now' st))"
proof -
  define st1 where "st1 = disableAllSensors (on_wake (resetSharedWakelock now') (stopThreads ok running now st))"
  define st3 where "st3 = on_wake (\<lambda>w. w\<lparr>wk_mThreadsRun := True\<rparr>)
     (st1\<lparr>hp_mPendingWriteEventsQueue := [], hp_mSizePendingWriteEventsQueue := 0,
          hp_mDynamicSensors := [], hp_written := []\<rparr>)"
  have "all_sub_hals (on_wake (resetSharedWakelock now') (stopThreads ok running now st))"
    using assms by (simp add: all_sub_hals_def)
  then have "all_sub_hals st1" by (simp add: st1_def disableAllSensors_def Let_def activate_fold)
  then have st3: "all_sub_hals st3" by (simp add: st3_def all_sub_hals_def)
  obtain r st4 where l: "initialize_loop [0..<length (hp_mSubHalList st3)]
      (if ef \<and> wflag \<and> callback then R_OK else R_BAD_VALUE) st3 = (r, st4)" by (meson surj_pair)
  have "all_sub_hals st4" using initialize_loop_keeps [OF st3] l by (metis snd_conv)
  moreover have "snd (HalProxy_initializeCommon callback ef wflag ok running now now' st)
      = st4\<lparr>hp_mCurrentOperationMode := OM_NORMAL\<rparr>"
    unfolding HalProxy_initializeCommon_def Let_def st1_def [symmetric] st3_def [symmetric] l by simp
  ultimately show ?thesis by (simp add: all_sub_hals_def)
qed

lemma load_keeps:
  assumes "all_sub_hals st"
  shows "all_sub_hals (load_sub_hal i st)"
proof -
  have "all_sub_hals (snd (on_sub_hal i sh_getSensorsList st))"
    by (rule all_sub_hals_call [OF assms getSensorsList])
  moreover have "hp_mSubHalList (load_sub_hal i st) = hp_mSubHalList (snd (on_sub_hal i sh_getSensorsList st))"
    by (simp add: load_sub_hal_def split: prod.split)
  ultimately show ?thesis by (simp only: all_sub_hals_def)
qed

lemma initializeSensorList_keeps:
  "all_sub_hals st \<Longrightarrow> all_sub_hals (initializeSensorList st)"
proof -
  have "all_sub_hals (fold load_sub_hal is st')" if "all_sub_hals st'" for "is" and st' :: "'s hal_proxy"
    using that by (induction "is" arbitrary: st') (simp_all add: load_keeps)
  then show "all_sub_hals st \<Longrightarrow> all_sub_hals (initializeSensorList st)" by (simp add: initializeSensorList_def)
qed

end

lemma bosch_keeps:
  assumes "sub_inv s"
  shows "sub_inv (snd (sh_initialize (bosch_ops hms conv sys sz z env) i s))"
    "sub_inv (snd (sh_setOperationMode (bosch_ops hms conv sys sz z env) m s))"
    "sub_inv (snd (sh_activate (bosch_ops hms conv sys sz z env) h en s))"
    "sub_inv (snd (sh_batch (bosch_ops hms conv sys sz z env) h p l s))"
    "sub_inv (snd (sh_flush (bosch_ops hms conv sys sz z env) h s))"
    "sub_inv (snd (sh_injectSensorData (bosch_ops hms conv sys sz z env) ev s))"
    "sub_inv (snd (sh_registerDirectChannel (bosch_ops hms conv sys sz z env) mem s))"
    "sub_inv (snd (sh_unregisterDirectChannel (bosch_ops hms conv sys sz z env) c s))"
    "sub_inv (snd (sh_configDirectReport (bosch_ops hms conv sys sz z env) h c rate s))"
    "sub_inv (snd (sh_getSensorsList (bosch_ops hms conv sys sz z env) s))"
    "sub_inv (SubHal_poll hms conv fo busy t1 t2 h s)"
proof -
  have step: "sub_inv (sub_step hms conv \<lparr>fp32 = id, fp64 = id\<rparr> (be_clk env) sys sz z op s)" for op
    by (rule sub_inv_step [OF assms])
  show "sub_inv (snd (sh_registerDirectChannel (bosch_ops hms conv sys sz z env) mem s))"
    using step [of "V_register (fst mem) (snd mem)"] assms by (auto simp: bosch_ops_def split: sum.splits)
  show "sub_inv (SubHal_poll hms conv fo busy t1 t2 h s)"
    using sub_inv_step [OF assms, of hms conv fo _ sys sz z "V_poll h busy t1 t2"] by simp
qed (use assms sub_inv_initialize
      sub_inv_step [OF assms, of hms conv "\<lparr>fp32 = id, fp64 = id\<rparr>" "be_clk env" sys sz z "V_activate h en"]
      sub_inv_step [OF assms, of hms conv "\<lparr>fp32 = id, fp64 = id\<rparr>" "be_clk env" sys sz z "V_batch h p l"]
      sub_inv_step [OF assms, of hms conv "\<lparr>fp32 = id, fp64 = id\<rparr>" "be_clk env" sys sz z "V_flush (be_junk env) h"]
      sub_inv_step [OF assms, of hms conv "\<lparr>fp32 = id, fp64 = id\<rparr>" "be_clk env" sys sz z "V_unregister c"]
      sub_inv_step [OF assms, of hms conv "\<lparr>fp32 = id, fp64 = id\<rparr>" "be_clk env" sys sz z "V_config h c rate"]
      in \<open>simp_all add: bosch_ops_def\<close>)

section \<open>Bosch sub-HALs\<close>

definition bosch_inv ::
  "(int \<Rightarrow> 's hal_methods) \<Rightarrow> (Event \<Rightarrow> 'e) \<Rightarrow> ashmem \<Rightarrow> nat \<Rightarrow> 'e
     \<Rightarrow> ('s, 'e) bosch_sub_hal sub_hal \<Rightarrow> ('s, 'e) bosch_sub_hal \<Rightarrow> bool" where
  "bosch_inv hms conv sys sz z ops s \<longleftrightarrow> (\<exists>env. ops = bosch_ops hms conv sys sz z env) \<and> sub_inv s"

interpretation bosch: sub_hal_contract "\<lambda>_. bosch_inv hms conv sys sz z" for hms conv sys sz z
  by unfold_locales (auto simp: bosch_inv_def intro: bosch_keeps)

lemma bosch_env_step:
  "bosch.all_sub_hals hms conv sys sz z st \<Longrightarrow>
   bosch.all_sub_hals hms conv sys sz z (proxy_step hms conv sys sz z cv (X_env env) st)"
  by (auto simp: bosch.all_sub_hals_def bosch_inv_def split: prod.splits)

lemma bosch_poll_step:
  assumes "bosch.all_sub_hals hms conv sys sz z st"
  shows "bosch.all_sub_hals hms conv sys sz z (proxy_step hms conv sys sz z cv (X_poll i fo busy t1 t2 h) st)"
proof (cases "i < length (hp_mSubHalList st)")
  case True
  obtain ops s where i: "hp_mSubHalList st ! i = (ops, s)" by (meson surj_pair)
  with assms True have "bosch_inv hms conv sys sz z ops (SubHal_poll hms conv fo busy t1 t2 h s)"
    by (auto dest: bosch.all_sub_hals_nth simp: bosch_inv_def bosch_keeps)
  then show ?thesis
    using bosch.all_sub_hals_update [OF assms] by (simp add: i True)
qed (use assms in simp)

lemma proxy_step_keeps:
  assumes "bosch.all_sub_hals hms conv sys sz z st"
  shows "bosch.all_sub_hals hms conv sys sz z (proxy_step hms conv sys sz z cv op st)"
  by (cases op) (use assms bosch_env_step bosch_poll_step in
      \<open>simp_all add: bosch.routed_calls bosch.setOperationMode_keeps bosch.initialize_keeps
         del: proxy_step.simps(10,11)\<close>)

lemma proxy_run_keeps:
  "bosch.all_sub_hals hms conv sys sz z st \<Longrightarrow>
   bosch.all_sub_hals hms conv sys sz z (fold (proxy_step hms conv sys sz z cv) xs st)"
  by (induction xs arbitrary: st) (simp_all add: proxy_step_keeps)

text \<open>C3: a proxy over freshly built Bosch sub-HALs: after any framework calls, mode changes,
  reinitialisations and polling rounds, in every sub-HAL a sensor serves a direct channel at a period
  exactly when the channel is registered there, lists the sensor and has granted it that (nonzero)
  rate.\<close>

theorem HalProxy_keeps_sub_hals_consistent:
  assumes "\<forall>(ops, s)\<in>set subHals. (\<exists>env. ops = bosch_ops hms conv sys sz z env)
       \<and> (\<exists>read ds hal. SubHal_AddSensors read ds (SubHal_init hal) = Inr s
            \<and> (\<forall>d\<in>set ds. sd_minDelayUs d \<le> sd_maxDelayUs d))"
    and "st = fold (proxy_step hms conv sys sz z cv) xs (HalProxy_init now now' subHals)"
    and "(ops, s) \<in> set (hp_mSubHalList st)" and "sm_find h (sb_mSensors s) = Some sensor"
  shows "(\<exists>r. sm_find c (hs_mDirectChannels sensor) = Some r \<and> cr_enabled r \<and> cr_samplingPeriodNs r = p)
         \<longleftrightarrow> (\<exists>ch. sm_find c (sb_mDirectChannels s) = Some ch \<and> h \<in> set (dc_sensorHandles ch)
                \<and> sm_find h (dc_rateNs ch) = Some p \<and> p \<noteq> 0)"
proof -
  have "bosch.all_sub_hals hms conv sys sz z (HalProxy_init now now' subHals)"
    unfolding HalProxy_init_def
    by (rule bosch.initializeSensorList_keeps)
       (use assms(1) sub_inv_fresh in \<open>fastforce simp: bosch.all_sub_hals_def bosch_inv_def dest!: nth_mem\<close>)
  then have st: "bosch.all_sub_hals hms conv sys sz z st" unfolding assms(2) by (rule proxy_run_keeps)
  obtain i where "i < length (hp_mSubHalList st)" "hp_mSubHalList st ! i = (ops, s)"
    using assms(3) by (auto simp: in_set_conv_nth)
  then have "sub_inv s" using bosch.all_sub_hals_nth [OF st] by (simp add: bosch_inv_def)
  then have "live sensor c = granted (sb_mDirectChannels s) h c" using assms(4) by (rule sub_consistent)
  then show ?thesis by (metis live_iff granted_iff)
qed

definition example_bosch :: "(unit, int) bosch_sub_hal sub_hal" where
  "example_bosch = bosch_ops (\<lambda>_. silent) ev_timestamp example_ashmem 104 0 \<lparr>be_clk = (\<lambda>_. 0), be_junk = 0\<rparr>"

definition example_multi_ops :: "proxy_op list" where
  "example_multi_ops = [X_register (True, Some \<lparr>mem_fd = 7, mem_size = 1040\<rparr>), X_config 1 1 RL_NORMAL]"

definition example_convert :: convertV2_1 where
  "example_convert = \<lparr>convertToOldSensorInfo = id, convertToOldEvent = id, convertToNewEvent = id,
     convertToOldSensorInfos = id, convertToNewSensorInfos = id, convertToOldEvents = id, convertToNewEvents = id\<rparr>"

definition example_multi :: "(unit, int) bosch_sub_hal hal_proxy" where
  "example_multi = fold (proxy_step (\<lambda>_. silent) ev_timestamp example_ashmem 104 0
       example_convert) example_multi_ops
     (HalProxy_init 0 0 [(example_bosch, example_sub), (example_bosch, example_sub)])"

lemma example_multi_init:
  "hp_mSubHalList (HalProxy_init 0 0 [(example_bosch, example_sub), (example_bosch, example_sub)])
     = [(example_bosch, example_sub), (example_bosch, example_sub)]
   \<and> hp_mDirectChannelSubHal (HalProxy_init 0 0 [(example_bosch, example_sub), (example_bosch, example_sub)]) = Some 0"
proof -
  obtain config where e: "example_sub = (SubHal_init ())\<lparr>sb_mNextHandle := i32 2,
     sb_mSensors := [(1, Sensor_init (sensor_info_of 1 example_data) config)]\<rparr>"
    using example_sub_record by blast
  have l: "SubHal_getSensorsList example_sub = [sensor_info_of 1 example_data]"
    unfolding e by (simp add: SubHal_getSensorsList_def SubHal_init_def sm_values_def Sensor_init_def)
  have i: "si_sensorHandle (sensor_info_of 1 example_data) = 1" "si_flags (sensor_info_of 1 example_data) = 1216"
    by (simp_all add: sensor_info_of_def example_data_def SensorData_init_def SensorInfo_init_def Let_def example_flags)
  have f: "has_flag 1216 direct_flags" by (simp add: has_flag_def direct_flags_def flag_defs)
  show ?thesis
    by (simp add: HalProxy_init_def initializeSensorList_def load_sub_hal_def upt_rec on_sub_hal_def
        example_bosch_def bosch_ops_def l load_sensor_def i f example_handles Let_def setDirectChannelFlags_def)
qed

lemma example_multi_eval:
  "hp_mSubHalList example_multi ! 0 = (example_bosch,
     fold (sub_step (\<lambda>_. silent) ev_timestamp \<lparr>fp32 = id, fp64 = id\<rparr> (\<lambda>_. 0) example_ashmem 104 0) example_ops example_sub)"
  "0 < length (hp_mSubHalList example_multi)"
proof -
  have c: "clearSubHalIndex 1 = 1" using clear_set [of 1 0] by (simp add: example_handles)
  have b: "sh_registerDirectChannel example_bosch mem s =
      (case SubHal_registerDirectChannel example_ashmem 104 0 (fst mem) (snd mem) s of
         Inl ex \<Rightarrow> (Inl ex, s) | Inr (r, s') \<Rightarrow> (Inr r, s'))"
    "sh_configDirectReport example_bosch = SubHal_configDirectReport (\<lambda>_. silent) ev_timestamp" for mem s
    by (simp_all add: example_bosch_def bosch_ops_def)
  show "0 < length (hp_mSubHalList example_multi)"
    "hp_mSubHalList example_multi ! 0 = (example_bosch,
     fold (sub_step (\<lambda>_. silent) ev_timestamp \<lparr>fp32 = id, fp64 = id\<rparr> (\<lambda>_. 0) example_ashmem 104 0) example_ops example_sub)"
    unfolding example_multi_def example_multi_ops_def example_ops_def
    by (simp_all add: HalProxy_registerDirectChannel_def HalProxy_configDirectReport_def example_multi_init c Let_def
        on_sub_hal_def b split: prod.split sum.split)
qed

lemma example_sub_service:
  "sub_rel (fold (sub_step (\<lambda>_. silent) ev_timestamp \<lparr>fp32 = id, fp64 = id\<rparr> (\<lambda>_. 0) example_ashmem 104 0)
     example_ops example_sub) example_service"
proof -
  obtain sv0 where sv0: "AddSensors example_xml [example_data] (Sensors_init () :: (unit, int) sensors) = Inr sv0"
    using example_add by blast
  have "sub_rel example_sub sv0" using sim_add [OF sub_rel_init example_sub_eq] sv0 by auto
  moreover have "open_os ev_timestamp example_os" by (simp add: open_os_def example_os_def)
  ultimately show ?thesis unfolding example_service_def sv0 sum.case by (rule sim_run)
qed

theorem HalProxy_keeps_sub_hals_consistent_witness:
  "\<exists>s sensor r. (example_bosch, s) \<in> set (hp_mSubHalList example_multi) \<and> sm_find 1 (sb_mSensors s) = Some sensor
     \<and> sm_find 1 (hs_mDirectChannels sensor) = Some r \<and> cr_enabled r \<and> cr_samplingPeriodNs r = 20000000"
proof -
  define s where "s = fold (sub_step (\<lambda>_. silent) ev_timestamp \<lparr>fp32 = id, fp64 = id\<rparr> (\<lambda>_. 0) example_ashmem 104 0)
     example_ops example_sub"
  obtain ch sensor where e: "ss_mDirectChannels example_service = [(1, ch)]" "dc_sensorHandles ch = [1]"
    "dc_rateNs ch = [(1, 20000000)]" "ss_mSensors example_service = [(1, sensor)]"
    using example_service_eval by blast
  have f: "sb_mSensors s = [(1, sensor)]" "sb_mDirectChannels s = [(1, ch)]"
    using example_sub_service e by (simp_all add: s_def sub_rel_def)
  have m: "(example_bosch, s) \<in> set (hp_mSubHalList example_multi)"
    using nth_mem [OF example_multi_eval(2)] unfolding example_multi_eval(1) s_def .
  have init: "(\<exists>env. example_bosch = bosch_ops (\<lambda>_. silent) ev_timestamp example_ashmem 104 0 env)
      \<and> (\<exists>read ds hal. SubHal_AddSensors read ds (SubHal_init hal) = Inr example_sub
           \<and> (\<forall>d\<in>set ds. sd_minDelayUs d \<le> sd_maxDelayUs d))"
  proof (intro conjI exI)
    show "example_bosch = bosch_ops (\<lambda>_. silent) ev_timestamp example_ashmem 104 0 \<lparr>be_clk = (\<lambda>_. 0), be_junk = 0\<rparr>"
      by (rule example_bosch_def)
    show "SubHal_AddSensors example_xml [example_data] (SubHal_init ()) = Inr example_sub" by (rule example_sub_eq)
  qed (simp add: example_data_def)
  have h: "sm_find 1 (sb_mSensors s) = Some sensor" by (simp add: f)
  show ?thesis
    using HalProxy_keeps_sub_hals_consistent [OF _ example_multi_def m h, of 1 20000000] init m h f e by auto
qed

end
