(* ===== verification/Aidl_Sensor.thy ===== *)
theory Aidl_Sensor
  imports Hal_Sensor
begin

text \<open>
  The sensor object of the AIDL service (\<^verbatim>\<open>sensors/aidl/Sensor.cpp\<close> and
  \<^verbatim>\<open>sensors-impl/Sensor.h\<close>). Its members are those of the HIDL sensor, and so is its text,
  except for the results, which are binder statuses, the payloads, which are AIDL unions, and what
  is modelled here as it is written. A function that can leave the defined behaviour of C++ returns
  \<open>Inl\<close>. (Fields of AIDL records keep the names of their HIDL counterparts: \<open>si_minDelay\<close> is
  \<^verbatim>\<open>minDelayUs\<close>. \<open>P_none\<close> is the payload of a new event: its first alternative,
  \<^verbatim>\<open>vec3\<close>, zeroed.)
\<close>

section \<open>Results\<close>

datatype binder_exception = EX_ILLEGAL_ARGUMENT | EX_TRANSACTION_FAILED | EX_UNSUPPORTED_OPERATION | EX_SECURITY

datatype aidl_status = Aidl_ok | Aidl_exception binder_exception | Aidl_service_specific int

definition ERROR_BAD_VALUE :: int where "ERROR_BAD_VALUE = -22"

definition and_then :: "'x + 'a \<Rightarrow> ('a \<Rightarrow> 'x + 'b) \<Rightarrow> 'x + 'b" where
  "and_then r f = (case r of Inl ex \<Rightarrow> Inl ex | Inr v \<Rightarrow> f v)"

fun fold_exc :: "('a \<Rightarrow> 's \<Rightarrow> 'x + 's) \<Rightarrow> 'a list \<Rightarrow> 's \<Rightarrow> 'x + 's" where
  "fold_exc f [] s = Inr s"
| "fold_exc f (x # xs) s = and_then (f x s) (fold_exc f xs)"

lemma and_then_simps [simp]: "and_then (Inr v) f = f v" "and_then (Inl ex) f = Inl ex"
  by (simp_all add: and_then_def)

section \<open>Additional info\<close>

text \<open>The check of the index builds a status and drops it: there is no \<^verbatim>\<open>return\<close>. The array
  \<^verbatim>\<open>mAdditionalInfoValues\<close>, a member that is zeroed before it is used, is the \<open>ai_data_float\<close>
  of the frame.\<close>

definition AidlSensor_setSensorPlacementData ::
  "int \<Rightarrow> real \<Rightarrow> AdditionalInfo \<Rightarrow> cpp_exception + aidl_status \<times> AdditionalInfo" where
  "AidlSensor_setSensorPlacementData index val info =
     (if index < 0 \<or> index \<ge> int (length (ai_data_float info)) then Inl Undefined_behaviour
      else Inr (Aidl_ok, info\<lparr>ai_data_float := (ai_data_float info)[nat index := val]\<rparr>))"

fun AidlSensor_placement_chain ::
  "(int \<times> real) list \<Rightarrow> AdditionalInfo \<Rightarrow> cpp_exception + aidl_status \<times> AdditionalInfo" where
  "AidlSensor_placement_chain [] info = Inr (Aidl_ok, info)"
| "AidlSensor_placement_chain ((index, val) # rest) info =
     and_then (AidlSensor_setSensorPlacementData index val info)
       (\<lambda>(ret, info'). if ret \<noteq> Aidl_ok then Inr (ret, info') else AidlSensor_placement_chain rest info')"

definition AidlSensor_getOrientation :: "Configuration list option \<Rightarrow> Orientation list option" where
  "AidlSensor_getOrientation mConfig =
     (case mConfig of None \<Rightarrow> None | Some [] \<Rightarrow> None | Some (cfg # _) \<Rightarrow> Some (cfg_orientation cfg))"

definition AidlSensor_getLocation :: "Configuration list option \<Rightarrow> Location list option" where
  "AidlSensor_getLocation mConfig =
     (case mConfig of None \<Rightarrow> None | Some [] \<Rightarrow> None | Some (cfg # _) \<Rightarrow> Some (cfg_location cfg))"

definition AidlSensor_getSensorPlacement ::
  "Configuration list option \<Rightarrow> AdditionalInfo list \<Rightarrow> cpp_exception + aidl_status \<times> AdditionalInfo list" where
  "AidlSensor_getSensorPlacement mConfig frames =
     (case (AidlSensor_getLocation mConfig, AidlSensor_getOrientation mConfig) of
        (Some (loc # _), Some (orient # _)) \<Rightarrow>
          and_then (AidlSensor_placement_chain
                  ([(3, loc_x loc), (7, loc_y loc), (11, loc_z loc)] @
                   (if or_rotate orient then [(0 + 0, 1), (1 + 4, 1), (2 + 8, 1)]
                    else [axis_entry 0 (or_getFirstX orient), axis_entry 1 (or_getFirstY orient),
                          axis_entry 2 (or_getFirstZ orient)]))
                  \<lparr>ai_type = AINFO_SENSOR_PLACEMENT, ai_serial = 0, ai_data_float = replicate 14 0\<rparr>)
             (\<lambda>(ret, info). Inr (if ret \<noteq> Aidl_ok then (ret, frames) else (Aidl_ok, frames @ [info])))
      | _ \<Rightarrow> Inr (Aidl_exception EX_TRANSACTION_FAILED, frames))"

definition AidlSensor_getSensorTemperature ::
  "bool \<times> real option \<Rightarrow> AdditionalInfo list \<Rightarrow> aidl_status \<times> AdditionalInfo list" where
  "AidlSensor_getSensorTemperature reading frames =
     (case reading of
        (True, Some t) \<Rightarrow>
          (Aidl_ok, frames @ [\<lparr>ai_type = AINFO_INTERNAL_TEMPERATURE, ai_serial = 0,
                              ai_data_float = (replicate 14 0)[0 := t]\<rparr>])
      | _ \<Rightarrow> (Aidl_exception EX_TRANSACTION_FAILED, frames))"

definition AidlSensor_additional_info_frames ::
  "'s hal_methods \<Rightarrow> Sensor \<Rightarrow> 's \<Rightarrow> cpp_exception + AdditionalInfo list" where
  "AidlSensor_additional_info_frames hm s hal =
     (let f0 = [\<lparr>ai_type = AINFO_BEGIN, ai_serial = 0, ai_data_float = replicate 14 0\<rparr>]
      in and_then (AidlSensor_getSensorPlacement (hs_mConfig s) f0)
           (\<lambda>(_, f1). Inr (snd (AidlSensor_getSensorTemperature (hm_temperature hm hal) f1)
              @ [\<lparr>ai_type = AINFO_END, ai_serial = 0, ai_data_float = replicate 14 0\<rparr>])))"

definition AidlSensor_isWakeUpSensor :: "Sensor \<Rightarrow> bool" where
  "AidlSensor_isWakeUpSensor s \<longleftrightarrow> has_flag (si_flags (hs_mSensorInfo s)) FLAG_WAKE_UP"

definition AidlSensor_sendAdditionalInfoReport ::
  "'s hal_methods \<Rightarrow> (nat \<Rightarrow> int) \<Rightarrow> 's sensor_state \<Rightarrow> cpp_exception + 's sensor_state" where
  "AidlSensor_sendAdditionalInfoReport hm clk st =
     (case st of (s, e) \<Rightarrow>
        and_then (AidlSensor_additional_info_frames hm s (se_hal e)) (\<lambda>frames.
          let events = map (\<lambda>(i, frame).
                         \<lparr>ev_timestamp = clk i, ev_sensorHandle = si_sensorHandle (hs_mSensorInfo s),
                          ev_sensorType = ST_ADDITIONAL_INFO, ev_payload = P_additional frame\<rparr>)
                         (zip [0 ..< length frames] frames)
          in Inr (if events \<noteq> [] then (s, emit (Post_events events (AidlSensor_isWakeUpSensor s)) e) else (s, e))))"

section \<open>Operations\<close>

text \<open>Word for word those of the HIDL sensor, with other field names.\<close>

definition AidlSensor_init :: "SensorInfo \<Rightarrow> Configuration list option \<Rightarrow> Sensor" where
  "AidlSensor_init = Sensor_init"

definition AidlSensor_batch where "AidlSensor_batch = Sensor_batch"
definition AidlSensor_isEnabled where "AidlSensor_isEnabled = Sensor_isEnabled"
definition AidlSensor_addDirectChannel where "AidlSensor_addDirectChannel = Sensor_addDirectChannel"
definition AidlSensor_stopDirectChannel where "AidlSensor_stopDirectChannel = Sensor_stopDirectChannel"
definition AidlSensor_removeDirectChannel where "AidlSensor_removeDirectChannel = Sensor_removeDirectChannel"
definition AidlSensor_updateDirectChannel where "AidlSensor_updateDirectChannel = Sensor_updateDirectChannel"
definition AidlSensor_supportsDataInjection where "AidlSensor_supportsDataInjection = Sensor_supportsDataInjection"

definition AidlSensor_activate ::
  "'s hal_methods \<Rightarrow> (nat \<Rightarrow> int) \<Rightarrow> bool \<Rightarrow> 's sensor_state \<Rightarrow> cpp_exception + 's sensor_state" where
  "AidlSensor_activate hm clk enable st =
     (case st of (s, e) \<Rightarrow>
        if hs_mIsEnabled s \<noteq> enable
        then let s' = s\<lparr>hs_mIsEnabled := enable, hs_mNextSampleTimeNs := (if enable then 0 else INT64_MAX)\<rparr>;
                 e' = on_hal (hm_activate hm enable) e
             in if enable then AidlSensor_sendAdditionalInfoReport hm clk (s', e') else Inr (s', e')
        else Inr (s, e))"

text \<open>A new AIDL event has the timestamp 0.\<close>

definition AidlSensor_flush ::
  "'s hal_methods \<Rightarrow> (nat \<Rightarrow> int) \<Rightarrow> 's sensor_state \<Rightarrow> cpp_exception + aidl_status \<times> 's sensor_state" where
  "AidlSensor_flush hm clk st =
     (case st of (s, e) \<Rightarrow>
        if \<not> hs_mIsEnabled s \<or> has_flag (si_flags (hs_mSensorInfo s)) FLAG_ONE_SHOT_MODE
        then Inr (Aidl_service_specific ERROR_BAD_VALUE, (s, e))
        else let ev = \<lparr>ev_timestamp = 0, ev_sensorHandle = si_sensorHandle (hs_mSensorInfo s),
                       ev_sensorType = ST_META_DATA, ev_payload = P_flush_complete\<rparr>;
                 e' = emit (Post_events [ev] (AidlSensor_isWakeUpSensor s)) e
             in and_then (AidlSensor_sendAdditionalInfoReport hm clk (s, e')) (\<lambda>st'. Inr (Aidl_ok, st')))"

definition AidlSensor_setOperationMode :: "operation_mode \<Rightarrow> aidl_status" where
  "AidlSensor_setOperationMode mode = (if mode = OM_NORMAL then Aidl_ok else Aidl_exception EX_ILLEGAL_ARGUMENT)"

definition AidlSensor_injectEvent :: "Sensor \<Rightarrow> Event \<Rightarrow> aidl_status" where
  "AidlSensor_injectEvent s event =
     (if ev_sensorType event = ST_ADDITIONAL_INFO then Aidl_ok
      else if \<not> AidlSensor_supportsDataInjection s then Aidl_exception EX_UNSUPPORTED_OPERATION
      else Aidl_service_specific ERROR_BAD_VALUE)"

section \<open>Reading\<close>

definition AidlSensor_reading_event :: "float_ops \<Rightarrow> SensorInfo \<Rightarrow> real \<Rightarrow> SensorValues \<Rightarrow> Event \<times> real" where
  "AidlSensor_reading_event fo info lastTemperature val =
     (let data = sv_data val;
          event = \<lparr>ev_timestamp = sv_timestamp val, ev_sensorHandle = si_sensorHandle info,
                   ev_sensorType = si_type info, ev_payload = P_none\<rparr>
      in if si_type info = ST_AMBIENT_TEMPERATURE
         then (if \<not> areAlmostEqual fo (hd data) lastTemperature
               then (event\<lparr>ev_payload := P_scalar (hd data)\<rparr>, hd data)
               else (event, lastTemperature))
         else if si_type info = ST_GYROSCOPE_UNCALIBRATED
         then (if length data = 3
               then (event\<lparr>ev_payload :=
                       P_uncal (fp32 fo (data ! 0 + gyroUncalibratedFix info))
                               (fp32 fo (data ! 1 + gyroUncalibratedFix info))
                               (fp32 fo (data ! 2 + gyroUncalibratedFix info)) 0 0 0\<rparr>, lastTemperature)
               else (event, lastTemperature))
         else if si_type info = ST_ACCELEROMETER_UNCALIBRATED
         then (if length data = 3
               then (event\<lparr>ev_payload := P_uncal (data ! 0) (data ! 1) (data ! 2) 0 0 0\<rparr>, lastTemperature)
               else (event, lastTemperature))
         else (if length data = 3
               then (event\<lparr>ev_payload := P_vec3 (data ! 0) (data ! 1) (data ! 2) ACCURACY_HIGH\<rparr>, lastTemperature)
               else (event, lastTemperature)))"

fun AidlSensor_reading_events ::
  "float_ops \<Rightarrow> SensorInfo \<Rightarrow> real \<Rightarrow> SensorValues list \<Rightarrow> Event list \<times> real" where
  "AidlSensor_reading_events fo info t [] = ([], t)"
| "AidlSensor_reading_events fo info t (v # vs) =
     (case AidlSensor_reading_event fo info t v of
        (ev, t') \<Rightarrow> (case AidlSensor_reading_events fo info t' vs of (evs, t'') \<Rightarrow> (ev # evs, t'')))"

definition AidlSensor_readEvents ::
  "float_ops \<Rightarrow> 's hal_methods \<Rightarrow> 's sensor_state \<Rightarrow> Event list \<times> 's sensor_state" where
  "AidlSensor_readEvents fo hm st =
     (case st of (s, e) \<Rightarrow>
        (case AidlSensor_reading_events fo (hs_mSensorInfo s) (se_lastTemperature e) (hm_read hm (se_hal e)) of
           (evs, t) \<Rightarrow> (evs, (s, e\<lparr>se_lastTemperature := t\<rparr>))))"

definition AidlSensor_run_round ::
  "float_ops \<Rightarrow> 's hal_methods \<Rightarrow> int \<Rightarrow> int \<Rightarrow> 's sensor_state \<Rightarrow> thread_wait \<times> 's sensor_state" where
  "AidlSensor_run_round fo hm t1 t2 st =
     (if \<not> hs_mIsEnabled (fst st) \<and> \<not> hs_mDirectChannelEnabled (fst st)
      then (Wait_until_enabled, st)
      else
        (case AidlSensor_readEvents fo hm st of
           (events, (s0, e0)) \<Rightarrow>
             let (s1, e1) =
                   (if hs_mDirectChannelEnabled s0 \<and> t1 \<ge> hs_mNextDirectChannelNs s0
                    then (s0\<lparr>hs_mNextDirectChannelNs := next_deadline t1 (hs_mDirectChannelRateNs s0)\<rparr>,
                          emit (Write_direct events (hs_mDirectChannelRateNs s0)) e0)
                    else (s0, e0));
                 (s2, e2) =
                   (if hs_mIsEnabled s1 \<and> t1 \<ge> hs_mNextSampleTimeNs s1
                    then (s1\<lparr>hs_mNextSampleTimeNs := next_deadline t1 (hs_mSamplingPeriodNs s1)\<rparr>,
                          emit (Post_events events (AidlSensor_isWakeUpSensor s1)) e1)
                    else (s1, e1));
                 waitTime = min (hs_mNextSampleTimeNs s2) (hs_mNextDirectChannelNs s2) - t2
             in (Wait_for (if waitTime < 1000000 then 1000000 else waitTime), (s2, e2))))"

section \<open>The AIDL sensor and the HIDL sensor\<close>

lemma AidlSensor_isWakeUpSensor_eq: "AidlSensor_isWakeUpSensor = isWakeUpSensor"
  by (intro ext) (simp add: AidlSensor_isWakeUpSensor_def isWakeUpSensor_def)

lemma AidlSensor_reading_event_eq: "AidlSensor_reading_event = reading_event"
  by (intro ext) (simp add: AidlSensor_reading_event_def reading_event_def Let_def)

lemma AidlSensor_readEvents_eq: "AidlSensor_readEvents = Sensor_readEvents"
proof -
  have "AidlSensor_reading_events fo info t vs = reading_events fo info t vs" for fo info t vs
    by (induction vs arbitrary: t) (simp_all add: AidlSensor_reading_event_eq)
  then show ?thesis by (intro ext) (simp add: AidlSensor_readEvents_def Sensor_readEvents_def)
qed

lemma AidlSensor_run_round_eq: "AidlSensor_run_round = Sensor_run_round"
  unfolding AidlSensor_run_round_def [abs_def] Sensor_run_round_def [abs_def]
    AidlSensor_readEvents_eq AidlSensor_isWakeUpSensor_eq by (rule refl)

lemmas aidl_sensor_eqs = AidlSensor_init_def AidlSensor_batch_def AidlSensor_isEnabled_def
  AidlSensor_addDirectChannel_def AidlSensor_stopDirectChannel_def AidlSensor_removeDirectChannel_def
  AidlSensor_updateDirectChannel_def AidlSensor_run_round_eq

text \<open>The configuration names array elements that exist.\<close>

definition entry_in_range :: "int \<times> real \<Rightarrow> bool" where
  "entry_in_range entry \<longleftrightarrow> 0 \<le> fst entry \<and> fst entry < 14"

definition placement_in_range :: "Configuration list option \<Rightarrow> bool" where
  "placement_in_range config =
     (case (getLocation config, getOrientation config) of
        (Some (loc # _), Some (orient # _)) \<Rightarrow>
          or_rotate orient \<or>
          list_all entry_in_range [axis_entry 0 (or_getFirstX orient), axis_entry 1 (or_getFirstY orient),
            axis_entry 2 (or_getFirstZ orient)]
      | _ \<Rightarrow> True)"

lemma placement_chains:
  assumes "length (ai_data_float info) = 14"
  shows "if list_all entry_in_range es
     then AidlSensor_placement_chain es info = Inr (Aidl_ok, snd (placement_chain es info))
        \<and> fst (placement_chain es info) = R_OK
     else AidlSensor_placement_chain es info = Inl Undefined_behaviour
        \<and> fst (placement_chain es info) = R_BAD_VALUE"
  using assms
proof (induction es arbitrary: info)
  case (Cons e es)
  obtain i v where e: "e = (i, v)" by fastforce
  show ?case
    using Cons.prems Cons.IH [of "info\<lparr>ai_data_float := (ai_data_float info)[nat i := v]\<rparr>"]
    by (auto simp: e AidlSensor_setSensorPlacementData_def entry_in_range_def split: if_splits)
qed simp

lemma getters_eq: "AidlSensor_getLocation = getLocation" "AidlSensor_getOrientation = getOrientation"
  by (intro ext, simp add: AidlSensor_getLocation_def getLocation_def AidlSensor_getOrientation_def
      getOrientation_def)+

lemma placement_cases:
  "AidlSensor_getSensorPlacement config frames =
     (if placement_in_range config
      then Inr (if fst (getSensorPlacement config frames) = R_OK then Aidl_ok
                else Aidl_exception EX_TRANSACTION_FAILED, snd (getSensorPlacement config frames))
      else Inl Undefined_behaviour)
   \<and> (\<not> placement_in_range config \<longrightarrow> getSensorPlacement config frames = (R_BAD_VALUE, frames))"
proof (cases "\<exists>loc ls orient os. getLocation config = Some (loc # ls) \<and> getOrientation config = Some (orient # os)")
  case True
  then obtain loc ls orient os where c: "getLocation config = Some (loc # ls)"
    "getOrientation config = Some (orient # os)" by blast
  define es where "es = [(3, loc_x loc), (7, loc_y loc), (11, loc_z loc)] @
     (if or_rotate orient then [(0 + 0, 1), (1 + 4, 1), (2 + 8, 1)]
      else [axis_entry 0 (or_getFirstX orient), axis_entry 1 (or_getFirstY orient), axis_entry 2 (or_getFirstZ orient)])"
  define info where "info = \<lparr>ai_type = AINFO_SENSOR_PLACEMENT, ai_serial = 0, ai_data_float = replicate 14 (0::real)\<rparr>"
  have all: "list_all entry_in_range es = placement_in_range config"
    by (auto simp: es_def placement_in_range_def c entry_in_range_def)
  have a: "AidlSensor_getSensorPlacement config frames = and_then (AidlSensor_placement_chain es info)
      (\<lambda>(ret, info). Inr (if ret \<noteq> Aidl_ok then (ret, frames) else (Aidl_ok, frames @ [info])))"
    and h: "getSensorPlacement config frames = (case placement_chain es info of
      (ret, info) \<Rightarrow> if ret \<noteq> R_OK then (ret, frames) else (R_OK, frames @ [info]))"
    by (simp_all only: AidlSensor_getSensorPlacement_def getSensorPlacement_def getters_eq c
        es_def info_def option.case list.case prod.case)
  have "length (ai_data_float info) = 14" by (simp add: info_def)
  note p = placement_chains [OF this, of es, unfolded all]
  obtain r x where pc: "placement_chain es info = (r, x)" by (meson surj_pair)
  show ?thesis
    using p by (cases "placement_in_range config") (simp_all add: a h pc)
next
  case False
  then show ?thesis
    by (auto simp: AidlSensor_getSensorPlacement_def getters_eq getSensorPlacement_def placement_in_range_def
        split: option.splits list.splits)
qed

lemma report_cases:
  "AidlSensor_sendAdditionalInfoReport hm clk (s, e) =
     (if placement_in_range (hs_mConfig s) then Inr (sendAdditionalInfoReport hm clk (s, e))
      else Inl Undefined_behaviour)"
proof -
  have t: "snd (AidlSensor_getSensorTemperature r f) = snd (getSensorTemperature r f)" for r f
    by (auto simp: AidlSensor_getSensorTemperature_def getSensorTemperature_def split: prod.splits bool.splits option.splits)
  have "AidlSensor_additional_info_frames hm s (se_hal e) =
     (if placement_in_range (hs_mConfig s) then Inr (additional_info_frames hm s (se_hal e))
      else Inl Undefined_behaviour)"
    by (simp add: AidlSensor_additional_info_frames_def additional_info_frames_def placement_cases t Let_def)
  then show ?thesis
    by (simp add: AidlSensor_sendAdditionalInfoReport_def sendAdditionalInfoReport_def Let_def
        AidlSensor_isWakeUpSensor_eq)
qed

definition aidl_flush_status :: "hal_result \<Rightarrow> aidl_status" where
  "aidl_flush_status r = (if r = R_OK then Aidl_ok else Aidl_service_specific ERROR_BAD_VALUE)"

lemma AidlSensor_activate_cases:
  "AidlSensor_activate hm clk en (s, e) =
     (if en \<and> \<not> hs_mIsEnabled s \<and> \<not> placement_in_range (hs_mConfig s) then Inl Undefined_behaviour
      else Inr (Sensor_activate hm clk en (s, e)))"
  by (simp add: AidlSensor_activate_def Sensor_activate_def Let_def report_cases)

lemma AidlSensor_flush_cases:
  "AidlSensor_flush hm clk (s, e) =
     (if hs_mIsEnabled s \<and> \<not> has_flag (si_flags (hs_mSensorInfo s)) FLAG_ONE_SHOT_MODE
         \<and> \<not> placement_in_range (hs_mConfig s)
      then Inl Undefined_behaviour
      else Inr (aidl_flush_status (fst (Sensor_flush hm clk 0 (s, e))), snd (Sensor_flush hm clk 0 (s, e))))"
  by (simp add: AidlSensor_flush_def Sensor_flush_def Let_def report_cases AidlSensor_isWakeUpSensor_eq
      aidl_flush_status_def)


end
