(* ===== verification/Aidl_Service.thy ===== *)
theory Aidl_Service
  imports Aidl_Sensor Sensors_Invariant
begin

text \<open>
  The AIDL service (\<^verbatim>\<open>sensors/aidl/SensorsHalAidl.cpp\<close> and \<^verbatim>\<open>SensorsHalAidl.h\<close>):
  the members of the HIDL service of theory \<open>Sensors_Service\<close>, with pointers to the event queue and
  its flag that may be null. A call that leaves the defined behaviour of C++, or reads an alternative
  of an AIDL union that is not there (the generated accessor aborts the process), returns \<open>Inl\<close>.

  The second part shows that the AIDL service is the HIDL service, call by call, while the
  configuration, the readings and the memory are sane.
\<close>

section \<open>State\<close>

text \<open>\<^verbatim>\<open>sensors_event_t\<close>, with its size in the version, and the two alternatives of its
  union that are written.\<close>

datatype sensors_event_data =
    Uncalibrated real real real real real real
  | Acceleration real real real int

record sensors_event_t =
  se_version :: nat
  se_sensor :: int
  se_type :: int
  se_timestamp :: int
  se_data :: sensors_event_data

record 's sensors_aidl = "('s, sensors_event_t) sensors" +
  sa_mEventQueue :: bool
  sa_mEventQueueFlag :: bool

definition AidlService_init :: "'s \<Rightarrow> 's sensors_aidl" where
  "AidlService_init hal = sensors.extend (Sensors_init hal) \<lparr>sa_mEventQueue = False, sa_mEventQueueFlag = False\<rparr>"

fun sensor_status_int :: "sensor_status \<Rightarrow> int" where
  "sensor_status_int ACCURACY_HIGH = 3"
| "sensor_status_int (OTHER_STATUS n) = n"

text \<open>The value of \<^verbatim>\<open>status_t\<close>.\<close>

fun channel_error_int :: "channel_error \<Rightarrow> int" where
  "channel_error_int NO_INIT = -19"
| "channel_error_int BAD_VALUE = -22"
| "channel_error_int NO_MEMORY = -12"

section \<open>Callbacks of the sensors\<close>

definition AidlService_updateWakeLock where "AidlService_updateWakeLock = updateWakeLock"

definition AidlService_readWakeLockFMQ_round ::
  "'e sensors_os \<Rightarrow> int \<Rightarrow> 's sensors_aidl \<Rightarrow> 's sensors_aidl" where
  "AidlService_readWakeLockFMQ_round os eventsHandled st =
     (if ss_mReadWakeLockQueueRun st
      then st\<lparr>ss_wake := AidlService_updateWakeLock os 0 eventsHandled (ss_wake st)\<rparr> else st)"

text \<open>\<^verbatim>\<open>events.front()\<close> of an empty vector is undefined.\<close>

definition AidlService_postEvents ::
  "'e sensors_os \<Rightarrow> Event list \<Rightarrow> bool \<Rightarrow> 's sensors_aidl \<Rightarrow> cpp_exception + 's sensors_aidl" where
  "AidlService_postEvents os events wakeup st =
     (if \<not> sa_mEventQueue st then Inr st
      else if events = [] then Inl Undefined_behaviour
      else if os_fmq_write os events
      then if \<not> sa_mEventQueueFlag st then Inl Undefined_behaviour
           else let st' = st\<lparr>ss_written := ss_written st @ events\<rparr> in
                Inr (if wakeup
                     then st'\<lparr>ss_wake := AidlService_updateWakeLock os (i32 (int (length events))) 0 (ss_wake st')\<rparr>
                     else st')
      else Inr st)"

text \<open>The event for the ring buffer, as \<^verbatim>\<open>writeToDirectBuffer\<close> fills it in.\<close>

definition AidlService_sensors_event :: "nat \<Rightarrow> Event \<Rightarrow> cpp_exception + sensors_event_t" where
  "AidlService_sensors_event event_size event =
     (let mk = (\<lambda>d. \<lparr>se_version = event_size, se_sensor = ev_sensorHandle event, se_type = ev_sensorType event,
                    se_timestamp = ev_timestamp event, se_data = d\<rparr>)
      in if ev_sensorType event = ST_GYROSCOPE_UNCALIBRATED \<or> ev_sensorType event = ST_ACCELEROMETER_UNCALIBRATED
         then (case ev_payload event of
                 P_uncal x y z bx by bz \<Rightarrow> Inr (mk (Uncalibrated x y z bx by bz))
               | _ \<Rightarrow> Inl Undefined_behaviour)
         else (case ev_payload event of
                 P_vec3 x y z status \<Rightarrow> Inr (mk (Acceleration x y z (sensor_status_int status)))
               | P_none \<Rightarrow> Inr (mk (Acceleration 0 0 0 0))
               | _ \<Rightarrow> Inl Undefined_behaviour))"

definition AidlService_channel_event ::
  "nat \<Rightarrow> int \<Rightarrow> Event \<Rightarrow> sensors_event_t direct_channel \<Rightarrow> cpp_exception + sensors_event_t direct_channel" where
  "AidlService_channel_event event_size samplingPeriodNs event ch =
     (let h = ev_sensorHandle event in
      if h \<notin> set (dc_sensorHandles ch) then Inr ch
      else
        (case sm_subscript 0 h (dc_rateNs ch) of
           (rate, rateNs') \<Rightarrow>
             let ch1 = ch\<lparr>dc_rateNs := rateNs'\<rparr> in
             if rate = 0 then Inr ch1
             else
               let count = i32 (fst (sm_subscript 0 h (dc_sampleCount ch1)) + 1);
                   ch2 = ch1\<lparr>dc_sampleCount := sm_put h count (dc_sampleCount ch1)\<rparr>
               in if i64 (samplingPeriodNs * count) < rate then Inr ch2
                  else and_then (AidlService_sensors_event event_size event)
                         (\<lambda>ev. Inr ((DirectChannelBase_write ev ch2)
                                    \<lparr>dc_sampleCount := sm_put h 0 (dc_sampleCount ch2)\<rparr>))))"

fun channels_exc ::
  "('c \<Rightarrow> 'x + 'c) \<Rightarrow> (int, 'c) stdmap \<Rightarrow> 'x + (int, 'c) stdmap" where
  "channels_exc f [] = Inr []"
| "channels_exc f ((h, ch) # m) =
     and_then (f ch) (\<lambda>ch'. and_then (channels_exc f m) (\<lambda>m'. Inr ((h, ch') # m')))"

definition AidlService_writeToDirectBuffer ::
  "nat \<Rightarrow> bool \<Rightarrow> Event list \<Rightarrow> int \<Rightarrow> 's sensors_aidl \<Rightarrow> cpp_exception + 's sensors_aidl" where
  "AidlService_writeToDirectBuffer event_size busy events samplingPeriodNs st =
     (if busy then Inr st
      else fold_exc (\<lambda>event st.
             and_then (channels_exc (AidlService_channel_event event_size samplingPeriodNs event) (ss_mDirectChannels st))
               (\<lambda>chs. Inr (st\<lparr>ss_mDirectChannels := chs\<rparr>))) events st)"

fun aidl_deliver ::
  "'e sensors_os \<Rightarrow> nat \<Rightarrow> bool \<Rightarrow> sensor_output \<Rightarrow> 's sensors_aidl \<Rightarrow> cpp_exception + 's sensors_aidl" where
  "aidl_deliver os event_size busy (Post_events events wakeup) st = AidlService_postEvents os events wakeup st"
| "aidl_deliver os event_size busy (Write_direct events period) st =
     AidlService_writeToDirectBuffer event_size busy events period st"

text \<open>A call on a sensor: \<open>r\<close> is what the sensor's function returns. The events it has posted are
  delivered in order.\<close>

definition aidl_env :: "'s sensors_aidl \<Rightarrow> 's sensor_env" where
  "aidl_env st = \<lparr>se_hal = ss_hal st, se_log = [], se_lastTemperature = ss_lastTemperature st\<rparr>"

definition aidl_call ::
  "'e sensors_os \<Rightarrow> nat \<Rightarrow> bool \<Rightarrow> int \<Rightarrow> cpp_exception + 's sensor_state \<Rightarrow> 's sensors_aidl
     \<Rightarrow> cpp_exception + 's sensors_aidl" where
  "aidl_call os event_size busy h r st =
     and_then r (\<lambda>(s', e').
       fold_exc (aidl_deliver os event_size busy) (se_log e')
         (st\<lparr>ss_mSensors := sm_put h s' (ss_mSensors st), ss_hal := se_hal e',
             ss_lastTemperature := se_lastTemperature e'\<rparr>))"

definition on_aidl_sensor ::
  "'e sensors_os \<Rightarrow> nat \<Rightarrow> int \<Rightarrow> ('s sensor_state \<Rightarrow> 's sensor_state) \<Rightarrow> 's sensors_aidl
     \<Rightarrow> cpp_exception + 's sensors_aidl" where
  "on_aidl_sensor os event_size h f st =
     (case sm_find h (ss_mSensors st) of
        None \<Rightarrow> Inr st | Some s \<Rightarrow> aidl_call os event_size False h (Inr (f (s, aidl_env st))) st)"

section \<open>Adding the sensors\<close>

text \<open>The file-local functions are word for word those of \<^verbatim>\<open>Sensors.h\<close>, and so is the
  filling in of the sensor's description.\<close>

definition aidl_getSensorConfiguration where "aidl_getSensorConfiguration = getSensorConfiguration"
definition aidl_readSensorsConfigFromXml where "aidl_readSensorsConfigFromXml = readSensorsConfigFromXml"

fun AidlService_AddSensors ::
  "(string \<Rightarrow> xml_module list option) \<Rightarrow> SensorData list \<Rightarrow> 's sensors_aidl \<Rightarrow> cpp_exception + 's sensors_aidl" where
  "AidlService_AddSensors read [] st = Inr st"
| "AidlService_AddSensors read (data # available) st =
     (let info = sensor_info_of (ss_mNextHandle st) data in
      case aidl_readSensorsConfigFromXml read of
        None \<Rightarrow> Inl Undefined_behaviour
      | Some sensors_config_list \<Rightarrow>
          let config = aidl_getSensorConfiguration sensors_config_list (si_name info) (si_type info) in
          AidlService_AddSensors read available
            (st\<lparr>ss_mNextHandle := i32 (ss_mNextHandle st + 1),
                ss_mSensors := sm_put (si_sensorHandle info) (AidlSensor_init info config) (ss_mSensors st)\<rparr>))"

section \<open>The methods of \<^verbatim>\<open>ISensors\<close>\<close>

definition AidlService_getSensorsList :: "'s sensors_aidl \<Rightarrow> SensorInfo list" where
  "AidlService_getSensorsList st = map hs_mSensorInfo (sm_values (ss_mSensors st))"

definition AidlService_setOperationMode :: "operation_mode \<Rightarrow> 's sensors_aidl \<Rightarrow> aidl_status" where
  "AidlService_setOperationMode mode st =
     fold (\<lambda>sensor res. AidlSensor_setOperationMode mode) (sm_values (ss_mSensors st)) Aidl_ok"

definition AidlService_activate ::
  "(int \<Rightarrow> 's hal_methods) \<Rightarrow> 'e sensors_os \<Rightarrow> nat \<Rightarrow> (nat \<Rightarrow> int) \<Rightarrow> int \<Rightarrow> bool \<Rightarrow> 's sensors_aidl
     \<Rightarrow> cpp_exception + aidl_status \<times> 's sensors_aidl" where
  "AidlService_activate hms os event_size clk sensorHandle enabled st =
     (case sm_find sensorHandle (ss_mSensors st) of
        Some sensor \<Rightarrow>
          and_then (aidl_call os event_size False sensorHandle
                      (AidlSensor_activate (hms sensorHandle) clk enabled (sensor, aidl_env st)) st)
            (\<lambda>st'. Inr (Aidl_ok, st'))
      | None \<Rightarrow> Inr (Aidl_exception EX_ILLEGAL_ARGUMENT, st))"

definition AidlService_batch ::
  "(int \<Rightarrow> 's hal_methods) \<Rightarrow> 'e sensors_os \<Rightarrow> nat \<Rightarrow> int \<Rightarrow> int \<Rightarrow> int \<Rightarrow> 's sensors_aidl
     \<Rightarrow> cpp_exception + aidl_status \<times> 's sensors_aidl" where
  "AidlService_batch hms os event_size sensorHandle samplingPeriodNs maxReportLatencyNs st =
     (let (usedLatency, st1) =
            (if maxReportLatencyNs > 0
             then let lat = sm_put sensorHandle maxReportLatencyNs (ss_mReportLatencyNs st) in
                  (fold (\<lambda>sensor used.
                       if AidlSensor_isEnabled sensor
                       then (case sm_find sensorHandle lat of None \<Rightarrow> used | Some l \<Rightarrow> min used l)
                       else used)
                     (sm_values (ss_mSensors st)) maxReportLatencyNs,
                   st\<lparr>ss_mReportLatencyNs := lat\<rparr>)
             else (maxReportLatencyNs, st))
      in case sm_find sensorHandle (ss_mSensors st1) of
           Some sensor \<Rightarrow>
             and_then (on_aidl_sensor os event_size sensorHandle
                         (AidlSensor_batch (hms sensorHandle) samplingPeriodNs usedLatency) st1)
               (\<lambda>st'. Inr (Aidl_ok, st'))
         | None \<Rightarrow> Inr (Aidl_exception EX_ILLEGAL_ARGUMENT, st1))"

definition AidlService_flush ::
  "(int \<Rightarrow> 's hal_methods) \<Rightarrow> 'e sensors_os \<Rightarrow> nat \<Rightarrow> (nat \<Rightarrow> int) \<Rightarrow> int \<Rightarrow> 's sensors_aidl
     \<Rightarrow> cpp_exception + aidl_status \<times> 's sensors_aidl" where
  "AidlService_flush hms os event_size clk sensorHandle st =
     (case sm_find sensorHandle (ss_mSensors st) of
        Some sensor \<Rightarrow>
          and_then (AidlSensor_flush (hms sensorHandle) clk (sensor, aidl_env st)) (\<lambda>(status, st').
            and_then (aidl_call os event_size False sensorHandle (Inr st') st) (\<lambda>st''. Inr (status, st'')))
      | None \<Rightarrow> Inr (Aidl_exception EX_ILLEGAL_ARGUMENT, st))"

definition AidlService_injectSensorData :: "Event \<Rightarrow> 's sensors_aidl \<Rightarrow> aidl_status" where
  "AidlService_injectSensorData event st =
     (case sm_find (ev_sensorHandle event) (ss_mSensors st) of
        Some sensor \<Rightarrow> AidlSensor_injectEvent sensor event
      | None \<Rightarrow> Aidl_service_specific ERROR_BAD_VALUE)"

text \<open>One round of the polling thread of a sensor.\<close>

definition AidlService_poll ::
  "(int \<Rightarrow> 's hal_methods) \<Rightarrow> 'e sensors_os \<Rightarrow> nat \<Rightarrow> float_ops \<Rightarrow> bool \<Rightarrow> int \<Rightarrow> int \<Rightarrow> int \<Rightarrow> 's sensors_aidl
     \<Rightarrow> cpp_exception + 's sensors_aidl" where
  "AidlService_poll hms os event_size fo busy t1 t2 sensorHandle st =
     (case sm_find sensorHandle (ss_mSensors st) of
        Some sensor \<Rightarrow>
          aidl_call os event_size busy sensorHandle
            (Inr (snd (AidlSensor_run_round fo (hms sensorHandle) t1 t2 (sensor, aidl_env st)))) st
      | None \<Rightarrow> Inr st)"

section \<open>Direct channels\<close>

text \<open>\<^verbatim>\<open>_aidl_return\<close> is \<open>None\<close> where it is not written.\<close>

definition AidlService_registerDirectChannel ::
  "ashmem \<Rightarrow> nat \<Rightarrow> sensors_event_t \<Rightarrow> bool \<Rightarrow> direct_mem \<Rightarrow> 's sensors_aidl
     \<Rightarrow> cpp_exception + (aidl_status \<times> int option) \<times> 's sensors_aidl" where
  "AidlService_registerDirectChannel sys event_size zero is_ashmem directMem st =
     (if \<not> is_ashmem then Inr ((Aidl_exception EX_ILLEGAL_ARGUMENT, None), st)
      else and_then (AshmemDirectChannel sys event_size zero directMem) (\<lambda>ch.
             Inr (if DirectChannelBase_isValid ch
                  then let channelHandle = ss_mNextChannelHandle st in
                       ((Aidl_ok, Some channelHandle),
                        st\<lparr>ss_mNextChannelHandle := i32 (channelHandle + 1),
                           ss_mDirectChannels :=
                             (if sm_find channelHandle (ss_mDirectChannels st) = None
                              then sm_put channelHandle ch (ss_mDirectChannels st)
                              else ss_mDirectChannels st)\<rparr>)
                  else ((Aidl_service_specific (channel_error_int (DirectChannelBase_getError ch)), None), st))))"

definition AidlService_unregisterDirectChannel ::
  "(int \<Rightarrow> 's hal_methods) \<Rightarrow> 'e sensors_os \<Rightarrow> nat \<Rightarrow> int \<Rightarrow> 's sensors_aidl
     \<Rightarrow> cpp_exception + aidl_status \<times> 's sensors_aidl" where
  "AidlService_unregisterDirectChannel hms os event_size channelHandle st =
     and_then (case sm_find channelHandle (ss_mDirectChannels st) of
                 None \<Rightarrow> Inr st
               | Some channel \<Rightarrow>
                   fold_exc (\<lambda>h. on_aidl_sensor os event_size h (AidlSensor_removeDirectChannel (hms h) channelHandle))
                     (dc_sensorHandles channel) st)
       (\<lambda>st1. Inr (Aidl_ok, st1\<lparr>ss_mDirectChannels := sm_erase channelHandle (ss_mDirectChannels st1)\<rparr>))"

definition aidl_set_rate :: "int \<Rightarrow> int \<Rightarrow> int \<Rightarrow> 's sensors_aidl \<Rightarrow> 's sensors_aidl" where
  "aidl_set_rate channelHandle sensorHandle ns st =
     st\<lparr>ss_mDirectChannels := sm_map (\<lambda>h ch. if h = channelHandle
          then ch\<lparr>dc_rateNs := sm_put sensorHandle ns (dc_rateNs ch)\<rparr> else ch) (ss_mDirectChannels st)\<rparr>"

definition aidl_add_handle :: "int \<Rightarrow> int \<Rightarrow> 's sensors_aidl \<Rightarrow> 's sensors_aidl" where
  "aidl_add_handle channelHandle sensorHandle st =
     st\<lparr>ss_mDirectChannels := sm_map (\<lambda>h ch. if h = channelHandle
          then ch\<lparr>dc_sensorHandles := dc_sensorHandles ch @ [sensorHandle]\<rparr> else ch) (ss_mDirectChannels st)\<rparr>"

definition aidl_rate_of_level :: "int \<Rightarrow> rate_level \<Rightarrow> int option" where
  "aidl_rate_of_level maxRate rate =
     (case rate of
        RL_STOP \<Rightarrow> Some 0
      | RL_NORMAL \<Rightarrow> Some 20000000
      | RL_FAST \<Rightarrow> if maxRate < rate_level_int RL_FAST then None else Some 5000000
      | RL_VERY_FAST \<Rightarrow> if maxRate < rate_level_int RL_VERY_FAST then None else Some 1250000
      | RL_OTHER n \<Rightarrow> None)"

definition AidlService_configDirectReport ::
  "(int \<Rightarrow> 's hal_methods) \<Rightarrow> 'e sensors_os \<Rightarrow> nat \<Rightarrow> int \<Rightarrow> int \<Rightarrow> rate_level \<Rightarrow> 's sensors_aidl
     \<Rightarrow> cpp_exception + (aidl_status \<times> int option) \<times> 's sensors_aidl" where
  "AidlService_configDirectReport hms os event_size sensorHandle channelHandle rate st =
     (case sm_find channelHandle (ss_mDirectChannels st) of
        None \<Rightarrow> Inr ((Aidl_exception EX_ILLEGAL_ARGUMENT, None), st)
      | Some channel \<Rightarrow>
          if sensorHandle = -1 \<and> rate = RL_STOP
          then and_then
                 (fold_exc (\<lambda>h st. if sm_find h (ss_mSensors st) = None then Inr st
                              else on_aidl_sensor os event_size h (AidlSensor_stopDirectChannel (hms h) channelHandle)
                                     (aidl_set_rate channelHandle h 0 st))
                    (dc_sensorHandles channel) st)
                 (\<lambda>st'. Inr ((Aidl_ok, None), st'))
          else
            (case sm_find sensorHandle (ss_mSensors st) of
               None \<Rightarrow> Inr ((Aidl_exception EX_ILLEGAL_ARGUMENT, None), st)
             | Some sensor \<Rightarrow>
                 let flags = si_flags (hs_mSensorInfo sensor) in
                 if \<not> has_flag flags FLAG_DIRECT_CHANNEL_ASHMEM
                 then Inr ((Aidl_exception EX_ILLEGAL_ARGUMENT, None), st)
                 else
                   (let maxRate = i32 (drop_bit FLAG_SHIFT_DIRECT_REPORT (flags AND FLAG_MASK_DIRECT_REPORT)) in
                    case aidl_rate_of_level maxRate rate of
                      None \<Rightarrow> Inr ((Aidl_exception EX_ILLEGAL_ARGUMENT, None), st)
                    | Some ns \<Rightarrow>
                        and_then (on_aidl_sensor os event_size sensorHandle
                                    (AidlSensor_addDirectChannel (hms sensorHandle) channelHandle ns)
                                    (aidl_add_handle channelHandle sensorHandle
                                       (aidl_set_rate channelHandle sensorHandle ns st)))
                          (\<lambda>st'. Inr ((Aidl_ok, Some sensorHandle), st')))))"

section \<open>Initialisation\<close>

text \<open>\<open>callback\<close>: the callback is not null; \<open>flag\<close>: \<^verbatim>\<open>createEventFlag\<close> succeeded. A failed
  creation leaves the pointer null.\<close>

definition AidlService_initialize ::
  "(int \<Rightarrow> 's hal_methods) \<Rightarrow> 'e sensors_os \<Rightarrow> nat \<Rightarrow> (nat \<Rightarrow> int) \<Rightarrow> bool \<Rightarrow> bool \<Rightarrow> 's sensors_aidl
     \<Rightarrow> cpp_exception + aidl_status \<times> 's sensors_aidl" where
  "AidlService_initialize hms os event_size clk callback flag st =
     and_then (fold_exc (\<lambda>h st. case sm_find h (ss_mSensors st) of None \<Rightarrow> Inr st
                   | Some s \<Rightarrow> aidl_call os event_size False h (AidlSensor_activate (hms h) clk False (s, aidl_env st)) st)
                (sm_keys (ss_mSensors st)) st) (\<lambda>st1.
     and_then (fold_exc (\<lambda>(channelHandle, channel).
                   fold_exc (\<lambda>h. on_aidl_sensor os event_size h (AidlSensor_removeDirectChannel (hms h) channelHandle))
                     (dc_sensorHandles channel))
                (ss_mDirectChannels st1) (st1\<lparr>ss_mReadWakeLockQueueRun := False, sa_mEventQueue := True\<rparr>))
       (\<lambda>st2. Inr (if flag \<and> callback then Aidl_ok else Aidl_exception EX_ILLEGAL_ARGUMENT,
                   st2\<lparr>ss_mDirectChannels := [], ss_written := [], sa_mEventQueueFlag := flag,
                       ss_mReadWakeLockQueueRun := True\<rparr>)))"

section \<open>The AIDL service is the HIDL service\<close>

text \<open>The members of the HIDL service, and whether there are an event queue and a flag.\<close>

definition upf :: "bool \<Rightarrow> bool \<Rightarrow> ('s, sensors_event_t) sensors \<Rightarrow> 's sensors_aidl" where
  "upf q f b = sensors.extend b \<lparr>sa_mEventQueue = q, sa_mEventQueueFlag = f\<rparr>"

abbreviation "up \<equiv> upf True True"

lemma up_select [simp]:
  "ss_mSensors (upf q f b) = ss_mSensors b" "ss_hal (upf q f b) = ss_hal b"
  "ss_lastTemperature (upf q f b) = ss_lastTemperature b"
  "ss_mNextHandle (upf q f b) = ss_mNextHandle b" "ss_mReportLatencyNs (upf q f b) = ss_mReportLatencyNs b"
  "ss_mDirectChannels (upf q f b) = ss_mDirectChannels b" "ss_mNextChannelHandle (upf q f b) = ss_mNextChannelHandle b"
  "ss_wake (upf q f b) = ss_wake b" "ss_mReadWakeLockQueueRun (upf q f b) = ss_mReadWakeLockQueueRun b"
  "ss_written (upf q f b) = ss_written b" "sa_mEventQueue (upf q f b) = q" "sa_mEventQueueFlag (upf q f b) = f"
  by (simp_all add: upf_def sensors.defs)

lemma up_update [simp]:
  "(upf q f b)\<lparr>ss_mSensors := m\<rparr> = upf q f (b\<lparr>ss_mSensors := m\<rparr>)" "(upf q f b)\<lparr>ss_hal := hal\<rparr> = upf q f (b\<lparr>ss_hal := hal\<rparr>)"
  "(upf q f b)\<lparr>ss_lastTemperature := t\<rparr> = upf q f (b\<lparr>ss_lastTemperature := t\<rparr>)"
  "(upf q f b)\<lparr>ss_mNextHandle := n\<rparr> = upf q f (b\<lparr>ss_mNextHandle := n\<rparr>)"
  "(upf q f b)\<lparr>ss_mReportLatencyNs := l\<rparr> = upf q f (b\<lparr>ss_mReportLatencyNs := l\<rparr>)"
  "(upf q f b)\<lparr>ss_mDirectChannels := chs\<rparr> = upf q f (b\<lparr>ss_mDirectChannels := chs\<rparr>)"
  "(upf q f b)\<lparr>ss_mNextChannelHandle := n\<rparr> = upf q f (b\<lparr>ss_mNextChannelHandle := n\<rparr>)"
  "(upf q f b)\<lparr>ss_wake := w\<rparr> = upf q f (b\<lparr>ss_wake := w\<rparr>)" "(upf q f b)\<lparr>ss_written := evs\<rparr> = upf q f (b\<lparr>ss_written := evs\<rparr>)"
  "(upf q f b)\<lparr>ss_mReadWakeLockQueueRun := run\<rparr> = upf q f (b\<lparr>ss_mReadWakeLockQueueRun := run\<rparr>)"
  "(upf q f b)\<lparr>sa_mEventQueue := q'\<rparr> = upf q' f b" "(upf q f b)\<lparr>sa_mEventQueueFlag := f'\<rparr> = upf q f' b"
  by (simp_all add: upf_def sensors.defs)

text \<open>What the HIDL service converts with the framework's function is what the AIDL service writes.\<close>

definition aidl_os :: "nat \<Rightarrow> sensors_event_t sensors_os \<Rightarrow> bool" where
  "aidl_os sz os \<longleftrightarrow> (\<forall>ev e. AidlService_sensors_event sz ev = Inr e \<longrightarrow> os_convertToSensorEvent os ev = e)"

definition convertible :: "nat \<Rightarrow> Event \<Rightarrow> bool" where
  "convertible sz ev \<longleftrightarrow> (\<exists>e. AidlService_sensors_event sz ev = Inr e)"

fun sane_output :: "nat \<Rightarrow> sensor_output \<Rightarrow> bool" where
  "sane_output sz (Post_events events wakeup) \<longleftrightarrow> events \<noteq> []"
| "sane_output sz (Write_direct events period) \<longleftrightarrow> list_all (convertible sz) events"

lemma channel_event_up:
  assumes "aidl_os sz os" "convertible sz ev"
  shows "AidlService_channel_event sz p ev ch = Inr (channel_event os p ev ch)"
proof -
  obtain e where e: "AidlService_sensors_event sz ev = Inr e" "os_convertToSensorEvent os ev = e"
    using assms by (auto simp: aidl_os_def convertible_def)
  show ?thesis by (simp add: AidlService_channel_event_def channel_event_def e Let_def split: prod.split)
qed

lemma channels_exc_map: "(\<And>ch. f ch = Inr (g ch)) \<Longrightarrow> channels_exc f m = Inr (sm_map (\<lambda>_. g) m)"
  by (induction m) (auto simp: sm_map_def)

text \<open>A fold whose steps return.\<close>

lemma fold_exc_up:
  assumes "P b" "\<And>x b. x \<in> set xs \<Longrightarrow> P b \<Longrightarrow> f x (up b) = Inr (up (g x b)) \<and> P (g x b)"
  shows "fold_exc f xs (up b) = Inr (up (fold g xs b)) \<and> P (fold g xs b)"
  using assms by (induction xs arbitrary: b) auto

lemma deliver_up:
  assumes "aidl_os sz os" "sane_output sz out"
  shows "aidl_deliver os sz busy out (up b) = Inr (up (deliver os busy out b))"
proof (cases out)
  case (Post_events events wakeup)
  with assms show ?thesis
    by (simp add: AidlService_postEvents_def Sensors_postEvents_def AidlService_updateWakeLock_def Let_def)
next
  case (Write_direct events period)
  then have "list_all (convertible sz) events" using assms(2) by simp
  then have "fold_exc (\<lambda>event st.
       and_then (channels_exc (AidlService_channel_event sz period event) (ss_mDirectChannels st))
         (\<lambda>chs. Inr (st\<lparr>ss_mDirectChannels := chs\<rparr>))) events (up b)
    = Inr (up (fold (\<lambda>event st. st\<lparr>ss_mDirectChannels :=
         sm_map (\<lambda>_. channel_event os period event) (ss_mDirectChannels st)\<rparr>) events b))"
    using assms(1)
    by (intro conjunct1 [OF fold_exc_up [where P = "\<lambda>_. True"]])
       (auto simp: list_all_iff channels_exc_map [OF channel_event_up])
  with Write_direct show ?thesis
    by (simp add: AidlService_writeToDirectBuffer_def Sensors_writeToDirectBuffer_def)
qed

lemma env_up [simp]: "aidl_env (upf q f b) = sensor_env_of b"
  by (simp add: aidl_env_def sensor_env_of_def)

lemma call_up:
  assumes "aidl_os sz os" "\<forall>out\<in>set (se_log (snd (f (s, sensor_env_of b)))). sane_output sz out"
  shows "aidl_call os sz busy h (Inr (f (s, sensor_env_of b))) (up b) = Inr (up (call_sensor os busy h s f b))"
proof -
  obtain s' e' where f: "f (s, sensor_env_of b) = (s', e')" by (meson surj_pair)
  have "fold_exc (aidl_deliver os sz busy) (se_log e') (up b') = Inr (up (fold (deliver os busy) (se_log e') b'))" for b'
    using assms f by (intro conjunct1 [OF fold_exc_up [where P = "\<lambda>_. True"]]) (auto simp: deliver_up)
  then show ?thesis by (simp add: aidl_call_def call_sensor_def f)
qed

section \<open>Sanity\<close>

definition sane_sensor :: "Sensor \<Rightarrow> bool" where
  "sane_sensor s \<longleftrightarrow> placement_in_range (hs_mConfig s) \<and> si_type (hs_mSensorInfo s) \<noteq> ST_AMBIENT_TEMPERATURE"

definition sane :: "('s, 'e) sensors \<Rightarrow> bool" where
  "sane b \<longleftrightarrow> (\<forall>h s. sm_find h (ss_mSensors b) = Some s \<longrightarrow> sane_sensor s)"

definition sane_hal :: "(int \<Rightarrow> 's hal_methods) \<Rightarrow> bool" where
  "sane_hal hms \<longleftrightarrow> (\<forall>h hal. hm_read (hms h) hal \<noteq> [] \<and> (\<forall>v\<in>set (hm_read (hms h) hal). length (sv_data v) = 3))"

text \<open>A function of the sensor that keeps description and configuration.\<close>

definition keeps_data :: "('s sensor_state \<Rightarrow> 's sensor_state) \<Rightarrow> bool" where
  "keeps_data f \<longleftrightarrow> (\<forall>st. hs_mConfig (fst (f st)) = hs_mConfig (fst st) \<and> hs_mSensorInfo (fst (f st)) = hs_mSensorInfo (fst st))"

lemma update_keeps: "keeps_data (Sensor_updateDirectChannel hm)"
  by (simp add: keeps_data_def split_paired_all updateDirectChannel_sensor Let_def)

lemma set_channel_keeps: "keeps_data (set_channel h c)"
  by (simp add: keeps_data_def set_channel_def split_paired_all)

lemma keeps_dataD:
  "keeps_data f \<Longrightarrow> hs_mConfig (fst (f st)) = hs_mConfig (fst st)"
  "keeps_data f \<Longrightarrow> hs_mSensorInfo (fst (f st)) = hs_mSensorInfo (fst st)"
  unfolding keeps_data_def by blast+

lemmas keep_facts = keeps_dataD [OF update_keeps] keeps_dataD [OF set_channel_keeps]

lemma keeps_data_ops:
  "keeps_data (Sensor_activate hm clk en)" "keeps_data (Sensor_batch hm p l)"
  "keeps_data (\<lambda>s. snd (Sensor_flush hm clk junk s))" "keeps_data (\<lambda>s. snd (Sensor_run_round fo hm t1 t2 s))"
  "keeps_data (Sensor_stopDirectChannel hm c)" "keeps_data (Sensor_addDirectChannel hm c p)"
  "keeps_data (Sensor_removeDirectChannel hm c)"
proof -
  have report: "fst (sendAdditionalInfoReport hm clk st) = fst st" for st :: "'a sensor_state"
    by (simp add: sendAdditionalInfoReport_def Let_def split: prod.split)
  show "keeps_data (Sensor_activate hm clk en)" "keeps_data (Sensor_batch hm p l)"
    "keeps_data (\<lambda>s. snd (Sensor_flush hm clk junk s))"
    by (simp_all add: keeps_data_def split_paired_all Sensor_activate_def Sensor_batch_def Sensor_flush_def Let_def report)
  show "keeps_data (\<lambda>s. snd (Sensor_run_round fo hm t1 t2 s))"
    by (simp add: keeps_data_def split_paired_all run_round_sensor Let_def)
  show stop: "keeps_data (Sensor_stopDirectChannel hm c)" for c
    unfolding keeps_data_def Sensor_stopDirectChannel_def by (auto simp: keep_facts split: option.split)
  show "keeps_data (Sensor_addDirectChannel hm c p)"
    unfolding keeps_data_def Sensor_addDirectChannel_def by (auto simp: keep_facts keeps_dataD [OF stop])
  show "keeps_data (Sensor_removeDirectChannel hm c)"
    unfolding keeps_data_def Sensor_removeDirectChannel_def
    by (auto simp: keep_facts split: option.split prod.split)
qed

lemma sane_call:
  assumes "sane b" "sane_sensor s" "keeps_data f"
  shows "sane (call_sensor os busy h s f b)"
  using assms by (auto simp: sane_def call_sensor_facts keeps_data_def sane_sensor_def)

lemma sane_same: "ss_mSensors b = ss_mSensors b' \<Longrightarrow> sane b = sane b'"
  by (simp add: sane_def)

lemma sane_updates [simp]:
  "sane (b\<lparr>ss_mReportLatencyNs := l\<rparr>) = sane b" "sane (b\<lparr>ss_mDirectChannels := chs\<rparr>) = sane b"
  "sane (b\<lparr>ss_mNextChannelHandle := n, ss_mDirectChannels := chs\<rparr>) = sane b"
  "sane (b\<lparr>ss_mNextChannelHandle := n\<rparr>) = sane b" "sane (b\<lparr>ss_written := evs\<rparr>) = sane b"
  "sane (b\<lparr>ss_mReadWakeLockQueueRun := run\<rparr>) = sane b"
  by (simp_all add: sane_def)

lemma log_ops:
  "se_log (snd (Sensor_batch hm p l st)) = se_log (snd st)"
  "se_log (snd (Sensor_activate hm clk en st)) = se_log (snd st) \<or>
     (\<exists>evs w. evs \<noteq> [] \<and> se_log (snd (Sensor_activate hm clk en st)) = se_log (snd st) @ [Post_events evs w])"
proof -
  have report: "se_log (snd (sendAdditionalInfoReport hm clk st)) = se_log (snd st) \<or>
     (\<exists>evs w. evs \<noteq> [] \<and> se_log (snd (sendAdditionalInfoReport hm clk st)) = se_log (snd st) @ [Post_events evs w])"
    for st :: "'a sensor_state"
    by (auto simp: sendAdditionalInfoReport_def Let_def emit_def split: prod.split)
  show "se_log (snd (Sensor_batch hm p l st)) = se_log (snd st)"
    by (simp add: Sensor_batch_def on_hal_def Let_def split: prod.split)
  obtain s e where st: "st = (s, e)" by fastforce
  show "se_log (snd (Sensor_activate hm clk en st)) = se_log (snd st) \<or>
     (\<exists>evs w. evs \<noteq> [] \<and> se_log (snd (Sensor_activate hm clk en st)) = se_log (snd st) @ [Post_events evs w])"
    using report [of "(s\<lparr>hs_mIsEnabled := True, hs_mNextSampleTimeNs := 0\<rparr>, on_hal (hm_activate hm True) e)"]
    by (auto simp: Sensor_activate_def st on_hal_def Let_def)
qed

lemma reading_events_sane:
  assumes "\<forall>v\<in>set vs. length (sv_data v) = 3" "si_type info \<noteq> ST_AMBIENT_TEMPERATURE"
  shows "list_all (convertible sz) (fst (reading_events fo info t vs)) \<and> length (fst (reading_events fo info t vs)) = length vs"
  using assms
proof (induction vs arbitrary: t)
  case (Cons v vs)
  have "convertible sz (fst (reading_event fo info t v))"
    using Cons.prems by (auto simp: reading_event_def convertible_def AidlService_sensors_event_def Let_def)
  then show ?case using Cons.IH [of "snd (reading_event fo info t v)"] Cons.prems(1,2)
    by (simp add: case_prod_unfold)
qed simp

lemma round_outputs:
  assumes "sane_hal hms" "sane_sensor s"
  shows "\<forall>out\<in>set (se_log (snd (snd (Sensor_run_round fo (hms h) t1 t2 (s, sensor_env_of b))))). sane_output sz out"
proof -
  define evs where "evs = fst (Sensor_readEvents fo (hms h) (s, sensor_env_of b))"
  have evs: "list_all (convertible sz) evs" "evs \<noteq> []"
    using reading_events_sane [of "hm_read (hms h) (ss_hal b)" "hs_mSensorInfo s" sz fo "ss_lastTemperature b"] assms
    by (auto simp: evs_def Sensor_readEvents_def sane_hal_def sane_sensor_def sensor_env_of_def case_prod_unfold)
  obtain t where r: "Sensor_readEvents fo (hms h) (s, sensor_env_of b) = (evs, (s, (sensor_env_of b)\<lparr>se_lastTemperature := t\<rparr>))"
    unfolding evs_def Sensor_readEvents_def by (simp add: case_prod_unfold)
  have "se_log (sensor_env_of b) = []" by (simp add: sensor_env_of_def)
  then show ?thesis
    using evs by (simp add: Sensor_run_round_def r Let_def emit_def)
qed

lemma flush_outputs:
  "\<forall>out\<in>set (se_log (snd (snd (Sensor_flush hm clk junk (s, sensor_env_of b))))). sane_output sz out"
  by (auto simp: Sensor_flush_def sendAdditionalInfoReport_def Let_def emit_def sensor_env_of_def)

lemma activate_outputs:
  "\<forall>out\<in>set (se_log (snd (Sensor_activate hm clk en (s, sensor_env_of b)))). sane_output sz out"
  using log_ops(2) [of hm clk en "(s, sensor_env_of b)"] by (auto simp: sensor_env_of_def)

lemma quiet_outputs:
  "se_log (snd (f (s, sensor_env_of b))) = se_log (snd (s, sensor_env_of b)) \<Longrightarrow>
   \<forall>out\<in>set (se_log (snd (f (s, sensor_env_of b)))). sane_output sz out"
  by (simp add: sensor_env_of_def)

lemma on_sensor_up:
  assumes "aidl_os sz os" "sane b" "keeps_data f" "\<And>st. se_log (snd (f st)) = se_log (snd st)"
  shows "on_aidl_sensor os sz h f (up b) = Inr (up (on_sensor os h f b)) \<and> sane (on_sensor os h f b)"
proof (cases "sm_find h (ss_mSensors b)")
  case None
  then show ?thesis using assms(2) by (simp add: on_aidl_sensor_def on_sensor_def)
next
  case (Some s)
  then have "sane_sensor s" using assms(2) by (simp add: sane_def)
  then show ?thesis
    using Some call_up [where f = f, OF assms(1) quiet_outputs [where f = f and s = s and b = b, OF assms(4)], of False h]
      sane_call [OF assms(2) _ assms(3)]
    by (simp add: on_aidl_sensor_def on_sensor_def)
qed

section \<open>Call by call\<close>

definition aidl_result :: "hal_result \<Rightarrow> aidl_status" where
  "aidl_result r = (if r = R_OK then Aidl_ok else Aidl_exception EX_ILLEGAL_ARGUMENT)"

lemma activate_up:
  assumes "aidl_os sz os" "sane b"
  shows "AidlService_activate hms os sz clk h en (up b) =
      Inr (aidl_result (fst (Sensors_activate hms os clk h en b)), up (snd (Sensors_activate hms os clk h en b)))
    \<and> sane (snd (Sensors_activate hms os clk h en b))"
proof (cases "sm_find h (ss_mSensors b)")
  case None
  then show ?thesis using assms by (simp add: AidlService_activate_def Sensors_activate_def aidl_result_def)
next
  case (Some s)
  then have s: "sane_sensor s" using assms(2) by (simp add: sane_def)
  then show ?thesis
    using Some call_up [where f = "Sensor_activate (hms h) clk en", OF assms(1) activate_outputs, of False h s b]
      sane_call [OF assms(2) s keeps_data_ops(1)]
    by (simp add: AidlService_activate_def Sensors_activate_def aidl_result_def AidlSensor_activate_cases sane_sensor_def)
qed

lemma flush_up:
  assumes "aidl_os sz os" "sane b"
  shows "\<exists>status. AidlService_flush hms os sz clk h (up b) = Inr (status, up (snd (Sensors_flush hms os clk 0 h b)))
     \<and> (status = Aidl_ok \<longleftrightarrow> fst (Sensors_flush hms os clk 0 h b) = R_OK)
     \<and> sane (snd (Sensors_flush hms os clk 0 h b))"
proof (cases "sm_find h (ss_mSensors b)")
  case None
  then show ?thesis using assms by (simp add: AidlService_flush_def Sensors_flush_def)
next
  case (Some s)
  then have s: "sane_sensor s" using assms(2) by (simp add: sane_def)
  then show ?thesis
    using Some call_up [where f = "\<lambda>s. snd (Sensor_flush (hms h) clk 0 s)", OF assms(1) flush_outputs, of False h s b]
      sane_call [OF assms(2) s keeps_data_ops(3)]
    by (simp add: AidlService_flush_def Sensors_flush_def aidl_flush_status_def AidlSensor_flush_cases sane_sensor_def)
qed

lemma poll_up:
  assumes "aidl_os sz os" "sane b" "sane_hal hms"
  shows "AidlService_poll hms os sz fo busy t1 t2 h (up b) = Inr (up (Sensors_poll hms os fo busy t1 t2 h b))
     \<and> sane (Sensors_poll hms os fo busy t1 t2 h b)"
proof (cases "sm_find h (ss_mSensors b)")
  case None
  then show ?thesis using assms by (simp add: AidlService_poll_def Sensors_poll_def)
next
  case (Some s)
  then have s: "sane_sensor s" using assms(2) by (simp add: sane_def)
  then show ?thesis
    using Some call_up [where f = "\<lambda>s. snd (Sensor_run_round fo (hms h) t1 t2 s)",
        OF assms(1) round_outputs [OF assms(3) s], of busy h]
      sane_call [OF assms(2) s keeps_data_ops(4)]
    by (simp add: AidlService_poll_def Sensors_poll_def aidl_sensor_eqs)
qed

lemma batch_up:
  assumes "aidl_os sz os" "sane b"
  shows "AidlService_batch hms os sz h p l (up b) =
      Inr (aidl_result (fst (Sensors_batch hms os h p l b)), up (snd (Sensors_batch hms os h p l b)))
    \<and> sane (snd (Sensors_batch hms os h p l b))"
proof -
  have call: "on_aidl_sensor os sz h (Sensor_batch (hms h) p u) (up b') = Inr (up (call_sensor os False h s (Sensor_batch (hms h) p u) b'))
     \<and> sane (call_sensor os False h s (Sensor_batch (hms h) p u) b')"
    if "sane b'" "sm_find h (ss_mSensors b') = Some s" for u b' s
    using on_sensor_up [OF assms(1) that(1) keeps_data_ops(2) log_ops(1), of h "hms h" p u] that(2)
    by (simp add: on_sensor_def)
  show ?thesis
    using assms(2) by (auto simp: AidlService_batch_def Sensors_batch_def Let_def aidl_result_def aidl_sensor_eqs call
        split: option.split)
qed

lemma unregister_up:
  assumes "aidl_os sz os" "sane b"
  shows "AidlService_unregisterDirectChannel hms os sz c (up b) =
      Inr (Aidl_ok, up (snd (Sensors_unregisterDirectChannel hms os c b)))
    \<and> sane (snd (Sensors_unregisterDirectChannel hms os c b))"
proof -
  have "fold_exc (\<lambda>h. on_aidl_sensor os sz h (Sensor_removeDirectChannel (hms h) c)) hs (up b)
      = Inr (up (fold (\<lambda>h. on_sensor os h (Sensor_removeDirectChannel (hms h) c)) hs b))
     \<and> sane (fold (\<lambda>h. on_sensor os h (Sensor_removeDirectChannel (hms h) c)) hs b)" for hs
    by (rule fold_exc_up [where P = sane, OF assms(2)])
       (rule on_sensor_up [OF assms(1) _ keeps_data_ops(7) removeDirectChannel_facts(4)])
  then show ?thesis
    using assms(2) by (simp add: AidlService_unregisterDirectChannel_def Sensors_unregisterDirectChannel_def Let_def
        aidl_sensor_eqs split: option.split)
qed

lemma set_rate_up [simp]:
  "aidl_set_rate c h ns (up b) = up (set_rate c h ns b)" "aidl_add_handle c h (up b) = up (add_channel_handle c h b)"
  "sane (set_rate c h ns b) = sane b" "sane (add_channel_handle c h b) = sane b"
  by (simp_all add: aidl_set_rate_def set_rate_def aidl_add_handle_def add_channel_handle_def)

lemma aidl_rate_eq: "aidl_rate_of_level = rate_of_level"
  by (intro ext) (simp add: aidl_rate_of_level_def rate_of_level_def)

lemma config_up:
  assumes "aidl_os sz os" "sane b"
  shows "\<exists>ret. AidlService_configDirectReport hms os sz h c rate (up b) =
      Inr ((aidl_result (fst (fst (Sensors_configDirectReport hms os h c rate b))), ret),
           up (snd (Sensors_configDirectReport hms os h c rate b)))
    \<and> sane (snd (Sensors_configDirectReport hms os h c rate b))"
proof -
  have stops: "fold_exc (\<lambda>h st. if sm_find h (ss_mSensors st) = None then Inr st
        else on_aidl_sensor os sz h (Sensor_stopDirectChannel (hms h) c) (aidl_set_rate c h 0 st)) hs (up b)
      = Inr (up (fold (\<lambda>h st. if sm_find h (ss_mSensors st) = None then st
             else on_sensor os h (Sensor_stopDirectChannel (hms h) c) (set_rate c h 0 st)) hs b))
     \<and> sane (fold (\<lambda>h st. if sm_find h (ss_mSensors st) = None then st
             else on_sensor os h (Sensor_stopDirectChannel (hms h) c) (set_rate c h 0 st)) hs b)" for hs
  proof (rule fold_exc_up [where P = sane, OF assms(2)])
    fix h and b :: "('a, sensors_event_t) sensors" assume "sane b"
    then have "sane (set_rate c h 0 b)" by simp
    from on_sensor_up [OF assms(1) this keeps_data_ops(5) stopDirectChannel_facts(4)] \<open>sane b\<close>
    show "(if sm_find h (ss_mSensors (up b)) = None then Inr (up b)
        else on_aidl_sensor os sz h (Sensor_stopDirectChannel (hms h) c) (aidl_set_rate c h 0 (up b))) =
       Inr (up (if sm_find h (ss_mSensors b) = None then b
             else on_sensor os h (Sensor_stopDirectChannel (hms h) c) (set_rate c h 0 b)))
       \<and> sane (if sm_find h (ss_mSensors b) = None then b
             else on_sensor os h (Sensor_stopDirectChannel (hms h) c) (set_rate c h 0 b))"
      by simp
  qed
  have add: "on_aidl_sensor os sz h (Sensor_addDirectChannel (hms h) c ns) (up b')
      = Inr (up (on_sensor os h (Sensor_addDirectChannel (hms h) c ns) b'))
     \<and> sane (on_sensor os h (Sensor_addDirectChannel (hms h) c ns) b')" if "sane b'" for ns b'
    by (rule on_sensor_up [OF assms(1) that keeps_data_ops(6) addDirectChannel_facts(4)])
  show ?thesis
    using assms(2)
    unfolding AidlService_configDirectReport_def Sensors_configDirectReport_def Let_def aidl_sensor_eqs aidl_rate_eq
    by (auto simp: stops add aidl_result_def split: option.split)
qed

lemma register_up:
  assumes "AshmemDirectChannel sys sz z mem = Inr ch" "sane b"
  shows "\<exists>r v ret b'. Sensors_registerDirectChannel sys sz z ia (Some mem) b = Inr ((r, v), b')
      \<and> (\<exists>status. AidlService_registerDirectChannel sys sz z ia mem (up b) = Inr ((status, ret), up b')
            \<and> (status = Aidl_ok \<longleftrightarrow> r = R_OK)) \<and> sane b'"
  using assms
  by (auto simp: AidlService_registerDirectChannel_def Sensors_registerDirectChannel_def Let_def
      split: channel_error.split)

section \<open>Construction and initialisation\<close>

lemma add_up:
  "AidlService_AddSensors read ds (upf q f b) = (case AddSensors read ds b of Inl ex \<Rightarrow> Inl ex | Inr b' \<Rightarrow> Inr (upf q f b'))"
proof (induction ds arbitrary: b)
  case (Cons d ds)
  then show ?case
    by (simp add: Let_def aidl_readSensorsConfigFromXml_def aidl_getSensorConfiguration_def aidl_sensor_eqs
        split: option.split)
qed simp

lemma init_up: "AidlService_init hal = upf False False (Sensors_init hal)"
  by (simp add: AidlService_init_def upf_def)

text \<open>Calls that post nothing need no queue.\<close>

lemma quiet_call_up:
  assumes "\<And>st. se_log (snd (f st)) = se_log (snd st)"
  shows "aidl_call os sz busy h (Inr (f (s, sensor_env_of b))) (upf q fl b) = Inr (upf q fl (call_sensor os busy h s f b))"
  using assms [of "(s, sensor_env_of b)"]
  by (simp add: aidl_call_def call_sensor_def case_prod_unfold sensor_env_of_def)

lemma quiet_fold_up:
  assumes "\<And>h b. F h (upf q fl b) = Inr (upf q fl (G h b))"
  shows "fold_exc F hs (upf q fl b) = Inr (upf q fl (fold G hs b))"
  using assms by (induction hs arbitrary: b) auto

lemma quiet_on_up:
  assumes "\<And>st. se_log (snd (f st)) = se_log (snd st)"
  shows "on_aidl_sensor os sz h f (upf q fl b) = Inr (upf q fl (on_sensor os h f b))"
  using quiet_call_up [OF assms] by (simp add: on_aidl_sensor_def on_sensor_def split: option.split)

lemma initialize_up:
  "AidlService_initialize hms os sz clk callback flag (upf q f b) =
     Inr (aidl_result (fst (Sensors_initializeBase hms os clk callback flag b)),
          upf True flag (snd (Sensors_initializeBase hms os clk callback flag b)))"
proof -
  have off: "se_log (snd (Sensor_activate hm clk False st)) = se_log (snd st)" for hm and st :: "'a sensor_state"
    by (simp add: Sensor_activate_def on_hal_def Let_def split: prod.split)
  note off_up = quiet_call_up [where f = "Sensor_activate hm clk False" for hm, OF off]
  have 1: "fold_exc (\<lambda>h st. case sm_find h (ss_mSensors st) of None \<Rightarrow> Inr st
        | Some s \<Rightarrow> aidl_call os sz False h (AidlSensor_activate (hms h) clk False (s, aidl_env st)) st) hs (upf q f b)
      = Inr (upf q f (fold (\<lambda>h. on_sensor os h (Sensor_activate (hms h) clk False)) hs b))" for hs
    by (rule quiet_fold_up)
       (simp add: on_sensor_def AidlSensor_activate_cases off_up split: option.split)
  have 2: "fold_exc (\<lambda>(c, ch). fold_exc (\<lambda>h. on_aidl_sensor os sz h (Sensor_removeDirectChannel (hms h) c))
        (dc_sensorHandles ch)) chs (upf q f b)
      = Inr (upf q f (fold (\<lambda>(c, ch). fold (\<lambda>h. on_sensor os h (Sensor_removeDirectChannel (hms h) c))
          (dc_sensorHandles ch)) chs b))" for chs q b
    by (rule quiet_fold_up)
       (auto intro!: quiet_fold_up quiet_on_up removeDirectChannel_facts(4) split: prod.split)
  show ?thesis
    unfolding AidlService_initialize_def Sensors_initializeBase_def Let_def aidl_sensor_eqs
    by (simp add: 1 2 aidl_result_def)
qed

section \<open>Runs\<close>

datatype aidl_op =
    W_activate int bool
  | W_batch int int int
  | W_flush int
  | W_register bool direct_mem
  | W_unregister int
  | W_config int int rate_level
  | W_poll int bool int int

fun aidl_step ::
  "(int \<Rightarrow> 's hal_methods) \<Rightarrow> 'e sensors_os \<Rightarrow> float_ops \<Rightarrow> (nat \<Rightarrow> int) \<Rightarrow> ashmem \<Rightarrow> nat \<Rightarrow> sensors_event_t
     \<Rightarrow> aidl_op \<Rightarrow> 's sensors_aidl \<Rightarrow> cpp_exception + 's sensors_aidl" where
  "aidl_step hms os fo clk sys sz z (W_activate h en) st =
     and_then (AidlService_activate hms os sz clk h en st) (\<lambda>(_, st'). Inr st')"
| "aidl_step hms os fo clk sys sz z (W_batch h p l) st =
     and_then (AidlService_batch hms os sz h p l st) (\<lambda>(_, st'). Inr st')"
| "aidl_step hms os fo clk sys sz z (W_flush h) st =
     and_then (AidlService_flush hms os sz clk h st) (\<lambda>(_, st'). Inr st')"
| "aidl_step hms os fo clk sys sz z (W_register ia mem) st =
     and_then (AidlService_registerDirectChannel sys sz z ia mem st) (\<lambda>(_, st'). Inr st')"
| "aidl_step hms os fo clk sys sz z (W_unregister c) st =
     and_then (AidlService_unregisterDirectChannel hms os sz c st) (\<lambda>(_, st'). Inr st')"
| "aidl_step hms os fo clk sys sz z (W_config h c rate) st =
     and_then (AidlService_configDirectReport hms os sz h c rate st) (\<lambda>(_, st'). Inr st')"
| "aidl_step hms os fo clk sys sz z (W_poll h busy t1 t2) st = AidlService_poll hms os sz fo busy t1 t2 h st"

text \<open>The same call on the HIDL service.\<close>

fun hidl_op :: "aidl_op \<Rightarrow> service_op" where
  "hidl_op (W_activate h en) = V_activate h en"
| "hidl_op (W_batch h p l) = V_batch h p l"
| "hidl_op (W_flush h) = V_flush 0 h"
| "hidl_op (W_register ia mem) = V_register ia (Some mem)"
| "hidl_op (W_unregister c) = V_unregister c"
| "hidl_op (W_config h c rate) = V_config h c rate"
| "hidl_op (W_poll h busy t1 t2) = V_poll h busy t1 t2"

lemma aidl_step_up:
  assumes "aidl_os sz os" "sane_hal hms" "\<forall>mem. \<exists>ch. AshmemDirectChannel sys sz z mem = Inr ch" "sane b"
  shows "aidl_step hms os fo clk sys sz z op (up b) = Inr (up (service_step hms os fo clk sys sz z (hidl_op op) b))
     \<and> sane (service_step hms os fo clk sys sz z (hidl_op op) b)"
proof (cases op)
  case (W_flush h)
  then show ?thesis using flush_up [OF assms(1,4), of hms clk h] by auto
next
  case (W_register ia mem)
  then show ?thesis using register_up [OF _ assms(4), of sys sz z mem _ ia] assms(3) by fastforce
next
  case (W_config h c rate)
  then show ?thesis using config_up [OF assms(1,4), of hms h c rate] by auto
qed (use assms in \<open>simp_all add: activate_up batch_up unregister_up poll_up\<close>)

lemma sane_on:
  assumes "sane b" "keeps_data f"
  shows "sane (on_sensor os h f b)"
proof (cases "sm_find h (ss_mSensors b)")
  case (Some s)
  then have "sane_sensor s" using assms(1) by (simp add: sane_def)
  then show ?thesis using sane_call [OF assms(1) _ assms(2)] Some by (simp add: on_sensor_def)
qed (use assms in \<open>simp add: on_sensor_def\<close>)

lemma sane_fold: "sane b \<Longrightarrow> (\<And>x b. sane b \<Longrightarrow> sane (f x b)) \<Longrightarrow> sane (fold f xs b)"
  by (induction xs arbitrary: b) auto

lemma sane_initialize:
  assumes "sane b"
  shows "sane (snd (Sensors_initializeBase hms os clk callback flag b))"
proof -
  have 1: "sane (fold (\<lambda>h. on_sensor os h (Sensor_activate (hms h) clk False)) hs b)" for hs
    using assms by (rule sane_fold) (rule sane_on [OF _ keeps_data_ops(1)])
  have 2: "sane (fold (\<lambda>(c, ch). fold (\<lambda>h. on_sensor os h (Sensor_removeDirectChannel (hms h) c))
      (dc_sensorHandles ch)) chs b')" if "sane b'" for chs b'
    using that by (rule sane_fold) (auto intro!: sane_fold sane_on [OF _ keeps_data_ops(7)] split: prod.split)
  show ?thesis
    unfolding Sensors_initializeBase_def Let_def snd_conv sane_updates
    by (rule 2) (simp only: sane_updates 1)
qed


definition aidl_example_os :: "sensors_event_t sensors_os" where
  "aidl_example_os = \<lparr>os_fmq_write = (\<lambda>_. True), os_acquire_wake_lock = 0, os_release_wake_lock = 0, os_uptimeMillis = 0,
     os_convertToSensorEvent = (\<lambda>ev. case AidlService_sensors_event 104 ev of Inr e \<Rightarrow> e
       | Inl _ \<Rightarrow> \<lparr>se_version = 0, se_sensor = 0, se_type = 0, se_timestamp = 0, se_data = Acceleration 0 0 0 0\<rparr>)\<rparr>"

definition reading_hal :: "unit hal_methods" where
  "reading_hal = \<lparr>hm_activate = (\<lambda>_ s. s), hm_batch = (\<lambda>_ _ s. s),
     hm_read = (\<lambda>_. [\<lparr>sv_timestamp = 1, sv_data = [1, 2, 3]\<rparr>]), hm_temperature = (\<lambda>_. (False, None))\<rparr>"

definition zero_event :: sensors_event_t where
  "zero_event = \<lparr>se_version = 0, se_sensor = 0, se_type = 0, se_timestamp = 0, se_data = Acceleration 0 0 0 0\<rparr>"


end
