(* ===== verification/Convert_Utils.thy ===== *)
theory Convert_Utils
  imports Aidl_Sensor
begin

text \<open>
  The conversions between AIDL and HIDL events (\<^verbatim>\<open>multihal/aidl/ConvertUtils.cpp\<close>). Floats are
  only copied here, sometimes through a pointer to another type, so a float is its 32 bits. The untagged
  HIDL union is the alternative last written (both halves of \<^verbatim>\<open>additional.u\<close> share their 14
  words); reading another one is undefined. An AIDL union knows its alternative; the generated accessor
  aborts when another one is asked for. Enumerations are numbers: their casts change nothing.
\<close>

section \<open>Events\<close>

type_synonym float_bits = "32 word"

datatype hidl_union =
    U_meta int
  | U_vec3 float_bits float_bits float_bits int
  | U_vec4 float_bits float_bits float_bits float_bits
  | U_uncal float_bits float_bits float_bits float_bits float_bits float_bits
  | U_scalar float_bits
  | U_stepCount int
  | U_heartRate float_bits int
  | U_pose6DOF "float_bits list"
  | U_dynamic bool int "int list"
  | U_additional int int "float_bits list"
  | U_data "float_bits list"

record hidl_event =
  he_timestamp :: int
  he_sensorHandle :: int
  he_sensorType :: int
  he_u :: hidl_union

datatype additional_payload = AP_dataInt32 "float_bits list" | AP_dataFloat "float_bits list"

datatype aidl_payload =
    A_meta int
  | A_vec3 float_bits float_bits float_bits int
  | A_vec4 float_bits float_bits float_bits float_bits
  | A_uncal float_bits float_bits float_bits float_bits float_bits float_bits
  | A_scalar float_bits
  | A_stepCount int
  | A_heartRate float_bits int
  | A_pose6DOF "float_bits list"
  | A_dynamic bool int "int list"
  | A_additional int int additional_payload
  | A_data "float_bits list"
  | A_headTracker float_bits float_bits float_bits float_bits float_bits float_bits int

record aidl_event =
  ae_timestamp :: int
  ae_sensorHandle :: int
  ae_sensorType :: int
  ae_payload :: aidl_payload

section \<open>The two switches\<close>

datatype payload_kind =
    K_meta | K_vec3 | K_vec4 | K_rotation | K_uncal | K_scalar | K_stepCount | K_heartRate | K_pose6DOF
  | K_dynamic | K_additional | K_headTracker | K_data

text \<open>Accelerometer, magnetic field, orientation, gyroscope, gravity, linear acceleration.\<close>

definition vec3_types :: "int list" where "vec3_types = [1, 2, 3, 4, 9, 10]"

text \<open>Accelerometer, magnetic field and gyroscope, uncalibrated.\<close>

definition uncal_types :: "int list" where "uncal_types = [35, 14, 16]"

text \<open>Device orientation, light, pressure, proximity, relative humidity, ambient temperature,
  significant motion, step detector, tilt, wake, glance, pick-up and wrist-tilt gesture, stationary and
  motion detect, heart beat, off-body detect, hinge angle.\<close>

definition scalar_types :: "int list" where
  "scalar_types = [27, 5, 6, 8, 12, 13, 17, 18, 22, 23, 24, 25, 26, 29, 30, 31, 34, 36]"

definition DEVICE_PRIVATE_BASE :: int where "DEVICE_PRIVATE_BASE = 65536"

text \<open>The cases that both switches have.\<close>

definition common_kind :: "int \<Rightarrow> payload_kind option" where
  "common_kind type =
     (if type = 0 then Some K_meta
      else if type \<in> set vec3_types then Some K_vec3
      else if type = 15 then Some K_vec4
      else if type = 11 \<or> type = 20 then Some K_rotation
      else if type \<in> set uncal_types then Some K_uncal
      else if type \<in> set scalar_types then Some K_scalar
      else if type = 19 then Some K_stepCount
      else if type = 21 then Some K_heartRate
      else if type = 28 then Some K_pose6DOF
      else if type = 32 then Some K_dynamic
      else if type = 33 then Some K_additional
      else None)"

text \<open>\<^verbatim>\<open>HEAD_TRACKER\<close> (37) is an AIDL type only. \<open>None\<close>: \<^verbatim>\<open>CHECK_GE\<close> fails, the
  process aborts.\<close>

definition aidl_kind :: "int \<Rightarrow> payload_kind option" where
  "aidl_kind type =
     (case common_kind type of
        Some k \<Rightarrow> Some k
      | None \<Rightarrow> if type = 37 then Some K_headTracker
                else if type \<ge> DEVICE_PRIVATE_BASE then Some K_data else None)"

definition hidl_kind :: "int \<Rightarrow> payload_kind option" where
  "hidl_kind type =
     (case common_kind type of
        Some k \<Rightarrow> Some k
      | None \<Rightarrow> if type = 37 then Some K_headTracker
                else if type \<ge> DEVICE_PRIVATE_BASE then Some K_data else None)"

section \<open>The conversions\<close>

definition convertSensorInfo :: "SensorInfo \<Rightarrow> SensorInfo" where
  "convertSensorInfo sensorInfo =
     \<lparr>si_sensorHandle = si_sensorHandle sensorInfo, si_name = si_name sensorInfo, si_vendor = si_vendor sensorInfo,
      si_version = si_version sensorInfo, si_type = si_type sensorInfo, si_typeAsString = si_typeAsString sensorInfo,
      si_maxRange = si_maxRange sensorInfo, si_resolution = si_resolution sensorInfo, si_power = si_power sensorInfo,
      si_minDelay = si_minDelay sensorInfo, si_fifoReservedEventCount = si_fifoReservedEventCount sensorInfo,
      si_fifoMaxEventCount = si_fifoMaxEventCount sensorInfo, si_requiredPermission = si_requiredPermission sensorInfo,
      si_maxDelay = si_maxDelay sensorInfo, si_flags = i32 (si_flags sensorInfo)\<rparr>"

text \<open>\<open>junk\<close>: the 16 words in the memory of the event that is filled in.\<close>

definition payload_to_hidl :: "float_bits list \<Rightarrow> payload_kind \<Rightarrow> aidl_payload \<Rightarrow> cpp_exception + hidl_union" where
  "payload_to_hidl junk kind payload =
     (case kind of
        K_meta \<Rightarrow> (case payload of A_meta what \<Rightarrow> Inr (U_meta what) | _ \<Rightarrow> Inl Undefined_behaviour)
      | K_vec3 \<Rightarrow> (case payload of A_vec3 x y z status \<Rightarrow> Inr (U_vec3 x y z status) | _ \<Rightarrow> Inl Undefined_behaviour)
      | K_vec4 \<Rightarrow> (case payload of A_vec4 x y z w \<Rightarrow> Inr (U_vec4 x y z w) | _ \<Rightarrow> Inl Undefined_behaviour)
      | K_rotation \<Rightarrow> (case payload of A_data values \<Rightarrow> Inr (U_data (take 5 values @ drop 5 junk)) | _ \<Rightarrow> Inl Undefined_behaviour)
      | K_uncal \<Rightarrow> (case payload of A_uncal x y z xb yb zb \<Rightarrow> Inr (U_uncal x y z xb yb zb) | _ \<Rightarrow> Inl Undefined_behaviour)
      | K_scalar \<Rightarrow> (case payload of A_scalar s \<Rightarrow> Inr (U_scalar s) | _ \<Rightarrow> Inl Undefined_behaviour)
      | K_stepCount \<Rightarrow> (case payload of A_stepCount n \<Rightarrow> Inr (U_stepCount (u64 n)) | _ \<Rightarrow> Inl Undefined_behaviour)
      | K_heartRate \<Rightarrow> (case payload of A_heartRate bpm status \<Rightarrow> Inr (U_heartRate bpm status) | _ \<Rightarrow> Inl Undefined_behaviour)
      | K_pose6DOF \<Rightarrow> (case payload of A_pose6DOF values \<Rightarrow> Inr (U_pose6DOF values) | _ \<Rightarrow> Inl Undefined_behaviour)
      | K_dynamic \<Rightarrow> (case payload of A_dynamic conn h uuid \<Rightarrow> Inr (U_dynamic conn h uuid) | _ \<Rightarrow> Inl Undefined_behaviour)
      | K_additional \<Rightarrow> (case payload of A_additional type serial values \<Rightarrow> Inr (U_additional type serial (case values of AP_dataInt32 v \<Rightarrow> v | AP_dataFloat v \<Rightarrow> v)) | _ \<Rightarrow> Inl Undefined_behaviour)
      | K_headTracker \<Rightarrow> (case payload of A_headTracker rx ry rz vx vy vz discontinuityCount \<Rightarrow> Inr (U_data ([rx, ry, rz, vx, vy, vz, word_of_int discontinuityCount] @ drop 7 junk)) | _ \<Rightarrow> Inl Undefined_behaviour)
      | K_data \<Rightarrow> (case payload of A_data values \<Rightarrow> Inr (U_data values) | _ \<Rightarrow> Inl Undefined_behaviour))"

definition convertToHidlEvent :: "float_bits list \<Rightarrow> aidl_event \<Rightarrow> cpp_exception + hidl_event" where
  "convertToHidlEvent junk ev =
     (case aidl_kind (ae_sensorType ev) of
        None \<Rightarrow> Inl Undefined_behaviour
      | Some k \<Rightarrow> and_then (payload_to_hidl junk k (ae_payload ev)) (\<lambda>u.
          Inr \<lparr>he_timestamp = ae_timestamp ev, he_sensorHandle = ae_sensorHandle ev,
               he_sensorType = ae_sensorType ev, he_u = u\<rparr>))"

text \<open>A new array of an AIDL record is zeroed. The integer alternative of \<^verbatim>\<open>additional.u\<close> is
  always the one that is read.\<close>

definition payload_to_aidl :: "payload_kind \<Rightarrow> hidl_union \<Rightarrow> cpp_exception + aidl_payload" where
  "payload_to_aidl kind u =
     (case kind of
        K_meta \<Rightarrow> (case u of U_meta what \<Rightarrow> Inr (A_meta what) | _ \<Rightarrow> Inl Undefined_behaviour)
      | K_vec3 \<Rightarrow> (case u of U_vec3 x y z status \<Rightarrow> Inr (A_vec3 x y z status) | _ \<Rightarrow> Inl Undefined_behaviour)
      | K_vec4 \<Rightarrow> (case u of U_vec4 x y z w \<Rightarrow> Inr (A_vec4 x y z w) | _ \<Rightarrow> Inl Undefined_behaviour)
      | K_rotation \<Rightarrow> (case u of U_data d \<Rightarrow> Inr (A_data (take 5 d @ replicate 11 0)) | _ \<Rightarrow> Inl Undefined_behaviour)
      | K_uncal \<Rightarrow> (case u of U_uncal x y z xb yb zb \<Rightarrow> Inr (A_uncal x y z xb yb zb) | _ \<Rightarrow> Inl Undefined_behaviour)
      | K_scalar \<Rightarrow> (case u of U_scalar s \<Rightarrow> Inr (A_scalar s) | _ \<Rightarrow> Inl Undefined_behaviour)
      | K_stepCount \<Rightarrow> (case u of U_stepCount n \<Rightarrow> Inr (A_stepCount (i64 n)) | _ \<Rightarrow> Inl Undefined_behaviour)
      | K_heartRate \<Rightarrow> (case u of U_heartRate bpm status \<Rightarrow> Inr (A_heartRate bpm status) | _ \<Rightarrow> Inl Undefined_behaviour)
      | K_pose6DOF \<Rightarrow> (case u of U_pose6DOF values \<Rightarrow> Inr (A_pose6DOF values) | _ \<Rightarrow> Inl Undefined_behaviour)
      | K_dynamic \<Rightarrow> (case u of U_dynamic conn h uuid \<Rightarrow> Inr (A_dynamic conn h uuid) | _ \<Rightarrow> Inl Undefined_behaviour)
      | K_additional \<Rightarrow> (case u of U_additional type serial values \<Rightarrow> Inr (A_additional type serial (AP_dataInt32 values)) | _ \<Rightarrow> Inl Undefined_behaviour)
      | K_headTracker \<Rightarrow> (case u of U_data d \<Rightarrow> Inr (A_headTracker (d ! 0) (d ! 1) (d ! 2) (d ! 3) (d ! 4) (d ! 5) (sint (d ! 6))) | _ \<Rightarrow> Inl Undefined_behaviour)
      | K_data \<Rightarrow> (case u of U_data d \<Rightarrow> Inr (A_data d) | _ \<Rightarrow> Inl Undefined_behaviour))"

definition convertToAidlEvent :: "hidl_event \<Rightarrow> cpp_exception + aidl_event" where
  "convertToAidlEvent ev =
     (case hidl_kind (he_sensorType ev) of
        None \<Rightarrow> Inl Undefined_behaviour
      | Some k \<Rightarrow> and_then (payload_to_aidl k (he_u ev)) (\<lambda>p.
          Inr \<lparr>ae_timestamp = he_timestamp ev, ae_sensorHandle = he_sensorHandle ev,
               ae_sensorType = he_sensorType ev, ae_payload = p\<rparr>))"

section \<open>Round trips\<close>

lemma stepCount_casts:
  "0 \<le> n \<Longrightarrow> n < 2 ^ 64 \<Longrightarrow> u64 (i64 n) = n" "- (2 ^ 63) \<le> n \<Longrightarrow> n < 2 ^ 63 \<Longrightarrow> i64 (u64 n) = n"
proof -
  show "u64 (i64 n) = n" if "0 \<le> n" "n < 2 ^ 64"
    using that by (simp add: u64_def i64_def take_bit_signed_take_bit take_bit_int_eq_self)
  show "i64 (u64 n) = n" if "- (2 ^ 63) \<le> n" "n < 2 ^ 63"
    using that by (simp add: u64_def i64_def signed_take_bit_take_bit signed_take_bit_int_eq_self)
qed

lemma discontinuity_casts:
  "word_of_int (sint (w :: 32 word)) = w" "is_i32 n \<Longrightarrow> sint (word_of_int n :: 32 word) = n"
  by (simp_all add: signed_take_bit_int_eq_self sint_sbintrunc')

lemma kinds_agree: "hidl_kind = aidl_kind"
  by (intro ext) (simp add: hidl_kind_def aidl_kind_def)

text \<open>The alternative that a type asks for, with arrays of the right length.\<close>

definition union_ok :: "payload_kind \<Rightarrow> hidl_union \<Rightarrow> bool" where
  "union_ok kind u =
     (case u of
        U_meta what \<Rightarrow> kind = K_meta
      | U_vec3 x y z status \<Rightarrow> kind = K_vec3
      | U_vec4 x y z w \<Rightarrow> kind = K_vec4
      | U_uncal x y z xb yb zb \<Rightarrow> kind = K_uncal
      | U_scalar s \<Rightarrow> kind = K_scalar
      | U_stepCount n \<Rightarrow> kind = K_stepCount \<and> 0 \<le> n \<and> n < 2 ^ 64
      | U_heartRate bpm status \<Rightarrow> kind = K_heartRate
      | U_pose6DOF v \<Rightarrow> kind = K_pose6DOF
      | U_dynamic conn h uuid \<Rightarrow> kind = K_dynamic
      | U_additional type serial v \<Rightarrow> kind = K_additional
      | U_data d \<Rightarrow> kind \<in> {K_rotation, K_headTracker, K_data} \<and> length d = 16)"

definition payload_ok :: "payload_kind \<Rightarrow> aidl_payload \<Rightarrow> bool" where
  "payload_ok kind p =
     (case p of
        A_meta what \<Rightarrow> kind = K_meta
      | A_vec3 x y z status \<Rightarrow> kind = K_vec3
      | A_vec4 x y z w \<Rightarrow> kind = K_vec4
      | A_uncal x y z xb yb zb \<Rightarrow> kind = K_uncal
      | A_scalar s \<Rightarrow> kind = K_scalar
      | A_stepCount n \<Rightarrow> kind = K_stepCount \<and> - (2 ^ 63) \<le> n \<and> n < 2 ^ 63
      | A_heartRate bpm status \<Rightarrow> kind = K_heartRate
      | A_pose6DOF v \<Rightarrow> kind = K_pose6DOF
      | A_dynamic conn h uuid \<Rightarrow> kind = K_dynamic
      | A_additional type serial v \<Rightarrow> kind = K_additional
      | A_data d \<Rightarrow> kind \<in> {K_rotation, K_data} \<and> length d = 16
      | A_headTracker rx ry rz vx vy vz n \<Rightarrow> kind = K_headTracker \<and> is_i32 n)"

text \<open>The part of the words of \<^verbatim>\<open>u.data\<close> that a kind uses.\<close>

definition used_words :: "payload_kind \<Rightarrow> nat" where
  "used_words kind = (case kind of K_rotation \<Rightarrow> 5 | K_headTracker \<Rightarrow> 7 | _ \<Rightarrow> 16)"

lemma first_seven: "length d = 16 \<Longrightarrow> [d ! 0, d ! 1, d ! 2, d ! 3, d ! 4, d ! 5, d ! 6] = take 7 d"
  by (intro nth_equalityI) (auto simp: less_Suc_eq numeral_eq_Suc nth_Cons')

definition kept_union :: "float_bits list \<Rightarrow> payload_kind \<Rightarrow> hidl_union \<Rightarrow> hidl_union" where
  "kept_union junk kind u =
     (case u of U_data d \<Rightarrow> U_data (take (used_words kind) d @ drop (used_words kind) junk) | _ \<Rightarrow> u)"

lemma union_roundtrip:
  assumes "union_ok kind u" "length junk = 16"
  shows "\<exists>p. payload_to_aidl kind u = Inr p \<and> payload_to_hidl junk kind p = Inr (kept_union junk kind u)"
  using assms first_seven
  by (cases u) (auto simp: kept_union_def union_ok_def payload_to_aidl_def payload_to_hidl_def used_words_def stepCount_casts
      discontinuity_casts)

text \<open>What the detour over HIDL makes of an AIDL payload: float information arrives as the integers with
  the same bits, and only five values of a rotation survive.\<close>

definition normal_payload :: "payload_kind \<Rightarrow> aidl_payload \<Rightarrow> aidl_payload" where
  "normal_payload kind p =
     (case p of
        A_additional type serial (AP_dataFloat v) \<Rightarrow> A_additional type serial (AP_dataInt32 v)
      | A_data d \<Rightarrow> if kind = K_rotation then A_data (take 5 d @ replicate 11 0) else p
      | _ \<Rightarrow> p)"

lemma payload_roundtrip:
  assumes "payload_ok kind p" "length junk = 16"
  shows "\<exists>u. payload_to_hidl junk kind p = Inr u \<and> payload_to_aidl kind u = Inr (normal_payload kind p)"
proof (cases p)
  case (A_stepCount n)
  then show ?thesis using assms
    by (simp add: payload_ok_def payload_to_aidl_def payload_to_hidl_def normal_payload_def stepCount_casts(2))
next
  case (A_additional t s v)
  then show ?thesis using assms
    by (cases v) (simp_all add: payload_ok_def payload_to_aidl_def payload_to_hidl_def normal_payload_def)
next
  case (A_data d)
  then show ?thesis using assms
    by (auto simp: payload_ok_def payload_to_aidl_def payload_to_hidl_def normal_payload_def)
next
  case (A_headTracker rx ry rz vx vy vz n)
  then show ?thesis using assms
    by (simp add: payload_ok_def payload_to_aidl_def payload_to_hidl_def normal_payload_def discontinuity_casts(2))
qed (use assms in \<open>simp_all add: payload_ok_def payload_to_aidl_def payload_to_hidl_def normal_payload_def\<close>)

text \<open>a HIDL event whose union holds what its type asks for survives the way to AIDL and back: bit for
  bit, up to the words of \<^verbatim>\<open>u.data\<close> that a rotation or head-tracker event does not use, which
  come from the memory it is written to.\<close>

theorem hidl_event_roundtrip:
  assumes "hidl_kind (he_sensorType ev) = Some kind" and "union_ok kind (he_u ev)" and "length junk = 16"
  shows "\<exists>a. convertToAidlEvent ev = Inr a \<and> convertToHidlEvent junk a = Inr (ev\<lparr>he_u := kept_union junk kind (he_u ev)\<rparr>)"
proof -
  obtain p where "payload_to_aidl kind (he_u ev) = Inr p" "payload_to_hidl junk kind p = Inr (kept_union junk kind (he_u ev))"
    using union_roundtrip [OF assms(2,3)] by blast
  then show ?thesis using assms(1) by (simp add: convertToAidlEvent_def convertToHidlEvent_def kinds_agree)
qed

theorem hidl_event_roundtrip_witness:
  "\<exists>a. convertToAidlEvent \<lparr>he_timestamp = 5, he_sensorHandle = 16777217, he_sensorType = 37,
        he_u = U_data (replicate 16 (7 :: 32 word))\<rparr> = Inr a
     \<and> convertToHidlEvent (replicate 16 0) a = Inr \<lparr>he_timestamp = 5, he_sensorHandle = 16777217, he_sensorType = 37,
        he_u = U_data (replicate 7 7 @ replicate 9 0)\<rparr>"
proof -
  have k: "hidl_kind 37 = Some K_headTracker"
    by (simp add: hidl_kind_def common_kind_def vec3_types_def uncal_types_def scalar_types_def)
  show ?thesis
    using hidl_event_roundtrip [of "\<lparr>he_timestamp = 5, he_sensorHandle = 16777217, he_sensorType = 37,
        he_u = U_data (replicate 16 7)\<rparr>" K_headTracker "replicate 16 0"] k
    by (simp add: union_ok_def used_words_def kept_union_def)
qed



end
