(* ===== verification/Hal_Proxy_Aidl.thy ===== *)
theory Hal_Proxy_Aidl
  imports Convert_Utils Proxy_Queue
begin

text \<open>
  The AIDL front of the proxy (\<^verbatim>\<open>multihal/aidl/HalProxyAidl.cpp\<close> and the wrappers of the
  queues and the callback): every call is that of \<open>HalProxy\<close> with its arguments converted and its
  result turned into a binder status. A conversion whose \<^verbatim>\<open>default\<close> branch is only an
  \<^verbatim>\<open>assert\<close> ends, in a release build, without a \<^verbatim>\<open>return\<close>: undefined. \<open>view\<close>
  reads a HIDL event as the \<open>Event\<close> of theory \<open>Hal_Types\<close>.
\<close>

section \<open>Conversions\<close>

definition ERROR_NO_MEMORY :: int where "ERROR_NO_MEMORY = -12"

definition resultToAStatus :: "hal_result \<Rightarrow> aidl_status" where
  "resultToAStatus result =
     (case result of
        R_OK \<Rightarrow> Aidl_ok
      | R_PERMISSION_DENIED \<Rightarrow> Aidl_exception EX_SECURITY
      | R_NO_MEMORY \<Rightarrow> Aidl_service_specific ERROR_NO_MEMORY
      | R_BAD_VALUE \<Rightarrow> Aidl_exception EX_ILLEGAL_ARGUMENT
      | R_INVALID_OPERATION \<Rightarrow> Aidl_exception EX_UNSUPPORTED_OPERATION
      | R_OTHER n \<Rightarrow> Aidl_exception EX_TRANSACTION_FAILED)"

fun convertRateLevel :: "rate_level \<Rightarrow> cpp_exception + rate_level" where
  "convertRateLevel RL_STOP = Inr RL_STOP"
| "convertRateLevel RL_NORMAL = Inr RL_NORMAL"
| "convertRateLevel RL_FAST = Inr RL_FAST"
| "convertRateLevel RL_VERY_FAST = Inr RL_VERY_FAST"
| "convertRateLevel (RL_OTHER n) = Inl Undefined_behaviour"

datatype aidl_operation_mode = AM_NORMAL | AM_DATA_INJECTION | AM_OTHER int

fun convertOperationMode :: "aidl_operation_mode \<Rightarrow> cpp_exception + operation_mode" where
  "convertOperationMode AM_NORMAL = Inr OM_NORMAL"
| "convertOperationMode AM_DATA_INJECTION = Inr OM_DATA_INJECTION"
| "convertOperationMode (AM_OTHER n) = Inl Undefined_behaviour"

datatype shared_mem_type = MT_ASHMEM | MT_GRALLOC | MT_OTHER int

datatype shared_mem_format = MF_SENSORS_EVENT | MF_OTHER int

record aidl_shared_mem =
  am_type :: shared_mem_type
  am_format :: shared_mem_format
  am_memory :: "direct_mem option"

fun convertSharedMemType :: "shared_mem_type \<Rightarrow> cpp_exception + shared_mem_type" where
  "convertSharedMemType MT_ASHMEM = Inr MT_ASHMEM"
| "convertSharedMemType MT_GRALLOC = Inr MT_GRALLOC"
| "convertSharedMemType (MT_OTHER n) = Inl Undefined_behaviour"

fun convertSharedMemFormat :: "shared_mem_format \<Rightarrow> cpp_exception + shared_mem_format" where
  "convertSharedMemFormat MF_SENSORS_EVENT = Inr MF_SENSORS_EVENT"
| "convertSharedMemFormat (MF_OTHER n) = Inl Undefined_behaviour"

definition convertSharedMemInfo :: "aidl_shared_mem \<Rightarrow> cpp_exception + shared_mem_info" where
  "convertSharedMemInfo mem =
     and_then (convertSharedMemType (am_type mem)) (\<lambda>type.
     and_then (convertSharedMemFormat (am_format mem)) (\<lambda>_.
       Inr (type = MT_ASHMEM, am_memory mem)))"

section \<open>The methods of \<^verbatim>\<open>ISensors\<close>\<close>

definition status_of :: "hal_result \<times> 's hal_proxy \<Rightarrow> aidl_status \<times> 's hal_proxy" where
  "status_of r = (case r of (result, st) \<Rightarrow> (resultToAStatus result, st))"

definition HalProxyAidl_activate :: "int \<Rightarrow> bool \<Rightarrow> 's hal_proxy \<Rightarrow> aidl_status \<times> 's hal_proxy" where
  "HalProxyAidl_activate sensorHandle enabled st = status_of (HalProxy_activate sensorHandle enabled st)"

definition HalProxyAidl_batch :: "int \<Rightarrow> int \<Rightarrow> int \<Rightarrow> 's hal_proxy \<Rightarrow> aidl_status \<times> 's hal_proxy" where
  "HalProxyAidl_batch sensorHandle samplingPeriodNs maxReportLatencyNs st =
     status_of (HalProxy_batch sensorHandle samplingPeriodNs maxReportLatencyNs st)"

definition HalProxyAidl_flush :: "int \<Rightarrow> 's hal_proxy \<Rightarrow> aidl_status \<times> 's hal_proxy" where
  "HalProxyAidl_flush sensorHandle st = status_of (HalProxy_flush sensorHandle st)"

definition HalProxyAidl_getSensorsList :: "'s hal_proxy \<Rightarrow> aidl_status \<times> SensorInfo list" where
  "HalProxyAidl_getSensorsList st = (Aidl_ok, map convertSensorInfo (sm_values (hp_mSensors st)))"

definition HalProxyAidl_configDirectReport ::
  "int \<Rightarrow> int \<Rightarrow> rate_level \<Rightarrow> 's hal_proxy \<Rightarrow> cpp_exception + (aidl_status \<times> int) \<times> 's hal_proxy" where
  "HalProxyAidl_configDirectReport sensorHandle channelHandle rate st =
     and_then (convertRateLevel rate) (\<lambda>level.
       (case HalProxy_configDirectReport sensorHandle channelHandle level st of
          ((result, reportToken), st') \<Rightarrow> Inr ((resultToAStatus result, reportToken), st')))"

definition HalProxyAidl_registerDirectChannel ::
  "aidl_shared_mem \<Rightarrow> 's hal_proxy \<Rightarrow> cpp_exception + (aidl_status \<times> int) \<times> 's hal_proxy" where
  "HalProxyAidl_registerDirectChannel mem st =
     and_then (convertSharedMemInfo mem) (\<lambda>sharedMemInfo.
       (case HalProxy_registerDirectChannel sharedMemInfo st of
          (Inl ex, st') \<Rightarrow> Inl ex
        | (Inr (result, reportToken), st') \<Rightarrow> Inr ((resultToAStatus result, reportToken), st')))"

definition HalProxyAidl_unregisterDirectChannel :: "int \<Rightarrow> 's hal_proxy \<Rightarrow> aidl_status \<times> 's hal_proxy" where
  "HalProxyAidl_unregisterDirectChannel channelHandle st = status_of (HalProxy_unregisterDirectChannel channelHandle st)"

definition HalProxyAidl_setOperationMode ::
  "aidl_operation_mode \<Rightarrow> 's hal_proxy \<Rightarrow> cpp_exception + aidl_status \<times> 's hal_proxy" where
  "HalProxyAidl_setOperationMode mode st =
     and_then (convertOperationMode mode) (\<lambda>m. Inr (status_of (HalProxy_setOperationMode m st)))"

definition HalProxyAidl_injectSensorData ::
  "float_bits list \<Rightarrow> (hidl_event \<Rightarrow> Event) \<Rightarrow> convertV2_1 \<Rightarrow> aidl_event \<Rightarrow> 's hal_proxy
     \<Rightarrow> cpp_exception + aidl_status \<times> 's hal_proxy" where
  "HalProxyAidl_injectSensorData junk view cv event st =
     and_then (convertToHidlEvent junk event) (\<lambda>hidlEvent.
       Inr (status_of (HalProxy_injectSensorData cv (convertToOldEvent cv (view hidlEvent)) st)))"

definition HalProxyAidl_initialize ::
  "bool \<Rightarrow> bool \<Rightarrow> bool \<Rightarrow> bool \<Rightarrow> int \<Rightarrow> int \<Rightarrow> 's hal_proxy \<Rightarrow> aidl_status \<times> 's hal_proxy" where
  "HalProxyAidl_initialize event_flag wake_flag ok running now now' st =
     status_of (HalProxy_initializeCommon True event_flag wake_flag ok running now now' st)"

section \<open>The event queue and the callback\<close>

fun convert_all :: "('a \<Rightarrow> 'x + 'b) \<Rightarrow> 'a list \<Rightarrow> 'x + 'b list" where
  "convert_all f [] = Inr []"
| "convert_all f (x # xs) = and_then (f x) (\<lambda>y. and_then (convert_all f xs) (\<lambda>ys. Inr (y # ys)))"

text \<open>The events go through a buffer of \<open>buffer_count\<close> (\<^verbatim>\<open>MAX_RECEIVE_BUFFER_EVENT_COUNT\<close>)
  elements, without a check; the result is what the queue is given.\<close>

definition EventMessageQueueWrapperAidl_write ::
  "nat \<Rightarrow> hidl_event list \<Rightarrow> nat \<Rightarrow> cpp_exception + aidl_event list" where
  "EventMessageQueueWrapperAidl_write buffer_count events numToWrite =
     (if numToWrite > buffer_count then Inl Undefined_behaviour
      else convert_all convertToAidlEvent (take numToWrite events))"

definition EventMessageQueueWrapperAidl_read ::
  "nat \<Rightarrow> float_bits list \<Rightarrow> aidl_event list \<Rightarrow> nat \<Rightarrow> cpp_exception + hidl_event list" where
  "EventMessageQueueWrapperAidl_read buffer_count junk queued numToRead =
     (if numToRead > buffer_count then Inl Undefined_behaviour
      else convert_all (convertToHidlEvent junk) (take numToRead queued))"

text \<open>The other writes, for a queue given by its own \<^verbatim>\<open>writeBlocking\<close>.\<close>

definition EventMessageQueueWrapperAidl_write_vector ::
  "nat \<Rightarrow> hidl_event list \<Rightarrow> cpp_exception + aidl_event list" where
  "EventMessageQueueWrapperAidl_write_vector buffer_count events =
     (if length events > buffer_count then Inl Undefined_behaviour else convert_all convertToAidlEvent events)"

definition EventMessageQueueWrapperAidl_writeBlocking ::
  "nat \<Rightarrow> (aidl_event list \<Rightarrow> bool) \<Rightarrow> hidl_event list \<Rightarrow> nat \<Rightarrow> cpp_exception + bool" where
  "EventMessageQueueWrapperAidl_writeBlocking buffer_count writeBlocking events n =
     (if n > buffer_count then Inl Undefined_behaviour
      else and_then (convert_all convertToAidlEvent (take n events)) (\<lambda>buffer. Inr (writeBlocking buffer)))"

text \<open>The wake-lock queue of the framework holds signed numbers, which the proxy reads as unsigned ones.\<close>

definition WakeLockMessageQueueWrapperAidl_readBlocking :: "int list option \<Rightarrow> int list option" where
  "WakeLockMessageQueueWrapperAidl_readBlocking queued = map_option (map u32) queued"

definition convertToAidlSensorInfos :: "SensorInfo list \<Rightarrow> SensorInfo list" where
  "convertToAidlSensorInfos sensorInfos = map convertSensorInfo sensorInfos"

definition ISensorsCallbackWrapperAidl_onDynamicSensorsConnected ::
  "(SensorInfo list \<Rightarrow> 'r) \<Rightarrow> SensorInfo list \<Rightarrow> 'r" where
  "ISensorsCallbackWrapperAidl_onDynamicSensorsConnected mSensorsCallback sensorInfos =
     mSensorsCallback (convertToAidlSensorInfos sensorInfos)"

section \<open>Properties\<close>

lemma resultToAStatus_ok: "resultToAStatus r = Aidl_ok \<longleftrightarrow> r = R_OK"
  by (simp add: resultToAStatus_def split: hal_result.split)


definition empty_proxy :: "counting_sub_hal hal_proxy" where
  "empty_proxy = idle_proxy\<lparr>hp_mSubHalList := [], hp_mDirectChannelSubHal := None\<rparr>"




end
