(* ===== verification/Fusion_Vec.thy ===== *)
theory Fusion_Vec
  imports Sensor_Core
begin

text \<open>
  \<^verbatim>\<open>sensors/core/utils/vec.h\<close>: the vector templates of the attitude filter. The templates are
  generic in the element type, and so are the definitions: the operations of the element type
  are the record \<open>elem\<close>, those of a floating-point type the record \<open>arith\<close>. A
  \<^verbatim>\<open>vec<TYPE, SIZE>\<close> is a list of \<open>SIZE\<close> elements.

  Two floating-point types are given: \<open>exact\<close>, the real numbers, in which the lemmas say what
  the formulas compute when nothing is rounded, and \<open>ieee\<close>, single-precision numbers with
  infinities and NaN, over the rounding functions of \<open>float_ops\<close>. Neither has a sign of zero:
  the function \<^verbatim>\<open>copysignf\<close> is a parameter, of which the lemmas use only what it does for a
  second argument that is not zero.
\<close>

section \<open>Element types\<close>

record 'a elem =
  el_zero :: 'a
  el_add :: "'a \<Rightarrow> 'a \<Rightarrow> 'a"
  el_sub :: "'a \<Rightarrow> 'a \<Rightarrow> 'a"
  el_mul :: "'a \<Rightarrow> 'a \<Rightarrow> 'a"

text \<open>\<^verbatim>\<open>float\<close>, with the \<^verbatim>\<open>double\<close> operations that the filter uses: \<open>ar_num\<close> is a literal of type
  \<^verbatim>\<open>float\<close>, \<open>ar_dnum\<close> one of type \<^verbatim>\<open>double\<close>, \<open>ar_narrow\<close> the conversion from \<^verbatim>\<open>double\<close>.\<close>

record 'a arith = "'a elem" +
  ar_num :: "real \<Rightarrow> 'a"
  ar_of_int :: "int \<Rightarrow> 'a"
  ar_div :: "'a \<Rightarrow> 'a \<Rightarrow> 'a"
  ar_neg :: "'a \<Rightarrow> 'a"
  ar_abs :: "'a \<Rightarrow> 'a"
  ar_sqrt :: "'a \<Rightarrow> 'a"
  ar_sin :: "'a \<Rightarrow> 'a"
  ar_cos :: "'a \<Rightarrow> 'a"
  ar_exp :: "'a \<Rightarrow> 'a"
  ar_copysign :: "'a \<Rightarrow> 'a \<Rightarrow> 'a"
  ar_less :: "'a \<Rightarrow> 'a \<Rightarrow> bool"
  ar_le :: "'a \<Rightarrow> 'a \<Rightarrow> bool"
  ar_dnum :: "real \<Rightarrow> 'a"
  ar_dadd :: "'a \<Rightarrow> 'a \<Rightarrow> 'a"
  ar_dmul :: "'a \<Rightarrow> 'a \<Rightarrow> 'a"
  ar_narrow :: "'a \<Rightarrow> 'a"

subsection \<open>Exact arithmetic\<close>

definition exact :: "(real \<Rightarrow> real \<Rightarrow> real) \<Rightarrow> real arith" where
  "exact copysign =
     \<lparr>el_zero = 0, el_add = (+), el_sub = (-), el_mul = (*),
      ar_num = id, ar_of_int = real_of_int, ar_div = (/), ar_neg = uminus, ar_abs = abs,
      ar_sqrt = sqrt, ar_sin = sin, ar_cos = cos, ar_exp = exp, ar_copysign = copysign,
      ar_less = (<), ar_le = (\<le>), ar_dnum = id, ar_dadd = (+), ar_dmul = (*), ar_narrow = id\<rparr>"

definition copysign_ok :: "(real \<Rightarrow> real \<Rightarrow> real) \<Rightarrow> bool" where
  "copysign_ok copysign \<longleftrightarrow> (\<forall>x y. \<bar>copysign x y\<bar> = \<bar>x\<bar> \<and> (y > 0 \<longrightarrow> copysign x y = \<bar>x\<bar>)
     \<and> (y < 0 \<longrightarrow> copysign x y = - \<bar>x\<bar>))"

lemma exact_simps [simp]:
  "el_zero (exact cs) = 0" "el_add (exact cs) = (+)" "el_sub (exact cs) = (-)" "el_mul (exact cs) = (*)"
  "ar_num (exact cs) = id" "ar_of_int (exact cs) = real_of_int" "ar_div (exact cs) = (/)"
  "ar_neg (exact cs) = uminus" "ar_abs (exact cs) = abs" "ar_sqrt (exact cs) = sqrt"
  "ar_sin (exact cs) = sin" "ar_cos (exact cs) = cos" "ar_exp (exact cs) = exp"
  "ar_copysign (exact cs) = cs" "ar_less (exact cs) = (<)" "ar_le (exact cs) = (\<le>)"
  "ar_dnum (exact cs) = id" "ar_dadd (exact cs) = (+)" "ar_dmul (exact cs) = (*)"
  "ar_narrow (exact cs) = id"
  by (simp_all add: exact_def)

subsection \<open>Single precision\<close>

datatype fl = Fin real | Infty bool | NaN

text \<open>The result of a finite operation: rounded, and infinite beyond the largest number.\<close>

definition fl_round :: "(real \<Rightarrow> real) \<Rightarrow> real \<Rightarrow> real \<Rightarrow> fl" where
  "fl_round rnd largest x = (if \<bar>rnd x\<bar> > largest then Infty (x < 0) else Fin (rnd x))"

fun fl_add :: "(real \<Rightarrow> fl) \<Rightarrow> fl \<Rightarrow> fl \<Rightarrow> fl" where
  "fl_add R (Fin a) (Fin b) = R (a + b)"
| "fl_add R (Infty s) (Infty t) = (if s = t then Infty s else NaN)"
| "fl_add R (Infty s) (Fin b) = Infty s"
| "fl_add R (Fin a) (Infty t) = Infty t"
| "fl_add R NaN y = NaN"
| "fl_add R (Fin a) NaN = NaN"
| "fl_add R (Infty s) NaN = NaN"

fun fl_neg :: "fl \<Rightarrow> fl" where
  "fl_neg (Fin a) = Fin (- a)"
| "fl_neg (Infty s) = Infty (\<not> s)"
| "fl_neg NaN = NaN"

fun fl_mul :: "(real \<Rightarrow> fl) \<Rightarrow> fl \<Rightarrow> fl \<Rightarrow> fl" where
  "fl_mul R (Fin a) (Fin b) = R (a * b)"
| "fl_mul R (Infty s) (Infty t) = Infty (s \<noteq> t)"
| "fl_mul R (Infty s) (Fin b) = (if b = 0 then NaN else Infty (s \<noteq> (b < 0)))"
| "fl_mul R (Fin a) (Infty t) = (if a = 0 then NaN else Infty (t \<noteq> (a < 0)))"
| "fl_mul R NaN y = NaN"
| "fl_mul R (Fin a) NaN = NaN"
| "fl_mul R (Infty s) NaN = NaN"

fun fl_div :: "(real \<Rightarrow> fl) \<Rightarrow> fl \<Rightarrow> fl \<Rightarrow> fl" where
  "fl_div R (Fin a) (Fin b) = (if b \<noteq> 0 then R (a / b) else if a = 0 then NaN else Infty (a < 0))"
| "fl_div R (Infty s) (Infty t) = NaN"
| "fl_div R (Infty s) (Fin b) = Infty (s \<noteq> (b < 0))"
| "fl_div R (Fin a) (Infty t) = Fin 0"
| "fl_div R NaN y = NaN"
| "fl_div R (Fin a) NaN = NaN"
| "fl_div R (Infty s) NaN = NaN"

text \<open>A function of one argument, with its values at the infinities.\<close>

fun fl_fun :: "(real \<Rightarrow> fl) \<Rightarrow> (bool \<Rightarrow> fl) \<Rightarrow> fl \<Rightarrow> fl" where
  "fl_fun f at_inf (Fin a) = f a"
| "fl_fun f at_inf (Infty s) = at_inf s"
| "fl_fun f at_inf NaN = NaN"

fun fl_le :: "fl \<Rightarrow> fl \<Rightarrow> bool" where
  "fl_le (Fin a) (Fin b) = (a \<le> b)"
| "fl_le (Fin a) (Infty t) = (\<not> t)"
| "fl_le (Infty s) (Fin b) = s"
| "fl_le (Infty s) (Infty t) = (s \<or> \<not> t)"
| "fl_le NaN y = False"
| "fl_le (Fin a) NaN = False"
| "fl_le (Infty s) NaN = False"

definition fl_less :: "fl \<Rightarrow> fl \<Rightarrow> bool" where
  "fl_less x y \<longleftrightarrow> fl_le x y \<and> \<not> fl_le y x"

text \<open>The largest finite numbers of the two formats.\<close>

definition FLT_MAX :: real where "FLT_MAX = (2 - 1 / 2 ^ 23) * 2 ^ 127"

definition DBL_MAX :: real where "DBL_MAX = (2 - 1 / 2 ^ 52) * 2 ^ 1023"

definition ieee :: "float_ops \<Rightarrow> (fl \<Rightarrow> fl \<Rightarrow> fl) \<Rightarrow> fl arith" where
  "ieee fo copysign =
     (let R = fl_round (fp32 fo) FLT_MAX; D = fl_round (fp64 fo) DBL_MAX in
      \<lparr>el_zero = Fin 0, el_add = fl_add R, el_sub = (\<lambda>x y. fl_add R x (fl_neg y)), el_mul = fl_mul R,
       ar_num = R, ar_of_int = (\<lambda>n. R (of_int n)), ar_div = fl_div R, ar_neg = fl_neg,
       ar_abs = fl_fun (\<lambda>a. Fin \<bar>a\<bar>) (\<lambda>s. Infty False),
       ar_sqrt = fl_fun (\<lambda>a. if a < 0 then NaN else R (sqrt a)) (\<lambda>s. if s then NaN else Infty False),
       ar_sin = fl_fun (\<lambda>a. R (sin a)) (\<lambda>s. NaN), ar_cos = fl_fun (\<lambda>a. R (cos a)) (\<lambda>s. NaN),
       ar_exp = fl_fun (\<lambda>a. R (exp a)) (\<lambda>s. if s then Fin 0 else Infty False),
       ar_copysign = copysign, ar_less = fl_less, ar_le = fl_le,
       ar_dnum = D, ar_dadd = fl_add D, ar_dmul = fl_mul D, ar_narrow = fl_fun R Infty\<rparr>)"

section \<open>Vectors\<close>

text \<open>\<^verbatim>\<open>helpers::doAssign\<close> between sizes: it zeroes the elements from the smaller size to the larger
  one, and so writes past the end of the left-hand side when that is the shorter vector.\<close>

definition vec_doAssign :: "('a, 'z) elem_scheme \<Rightarrow> nat \<Rightarrow> 'a list \<Rightarrow> cpp_exception + 'a list" where
  "vec_doAssign E SIZE rhs =
     (let minSize = min SIZE (length rhs); maxSize = max SIZE (length rhs) in
      if minSize < maxSize \<and> maxSize > SIZE then Inl Undefined_behaviour
      else Inr (map (\<lambda>i. if i < minSize then rhs ! i else el_zero E) [0..<SIZE]))"

definition vec_fill :: "nat \<Rightarrow> 'a \<Rightarrow> 'a list" where
  "vec_fill SIZE rhs = map (\<lambda>i. rhs) [0..<SIZE]"

definition doAdd :: "('a, 'z) elem_scheme \<Rightarrow> 'a list \<Rightarrow> 'a list \<Rightarrow> 'a list" where
  "doAdd E lhs rhs = map (\<lambda>i. el_add E (lhs ! i) (rhs ! i)) [0..<length lhs]"

definition doSub :: "('a, 'z) elem_scheme \<Rightarrow> 'a list \<Rightarrow> 'a list \<Rightarrow> 'a list" where
  "doSub E lhs rhs = map (\<lambda>i. el_sub E (lhs ! i) (rhs ! i)) [0..<length lhs]"

definition doMulScalar :: "('a, 'z) elem_scheme \<Rightarrow> 'a list \<Rightarrow> 'a \<Rightarrow> 'a list" where
  "doMulScalar E lhs rhs = map (\<lambda>i. el_mul E (lhs ! i) rhs) [0..<length lhs]"

definition doScalarMul :: "('a, 'z) elem_scheme \<Rightarrow> 'a \<Rightarrow> 'a list \<Rightarrow> 'a list" where
  "doScalarMul E lhs rhs = map (\<lambda>i. el_mul E lhs (rhs ! i)) [0..<length rhs]"

definition dot_product :: "('a, 'z) elem_scheme \<Rightarrow> 'a list \<Rightarrow> 'a list \<Rightarrow> 'a" where
  "dot_product E lhs rhs =
     fold (\<lambda>i r. el_add E r (el_mul E (lhs ! i) (rhs ! i))) [0..<length lhs] (el_zero E)"

definition vec_length :: "'a arith \<Rightarrow> 'a list \<Rightarrow> 'a" where
  "vec_length A v = ar_sqrt A (dot_product A v v)"

definition length_squared :: "('a, 'z) elem_scheme \<Rightarrow> 'a list \<Rightarrow> 'a" where
  "length_squared E v = dot_product E v v"

definition normalize :: "'a arith \<Rightarrow> 'a list \<Rightarrow> 'a list" where
  "normalize A v = doMulScalar A v (ar_div A (ar_num A 1) (vec_length A v))"

definition cross_product :: "('a, 'z) elem_scheme \<Rightarrow> 'a list \<Rightarrow> 'a list \<Rightarrow> 'a list" where
  "cross_product E u v =
     [el_sub E (el_mul E (u ! 1) (v ! 2)) (el_mul E (u ! 2) (v ! 1)),
      el_sub E (el_mul E (u ! 2) (v ! 0)) (el_mul E (u ! 0) (v ! 2)),
      el_sub E (el_mul E (u ! 0) (v ! 1)) (el_mul E (u ! 1) (v ! 0))]"

definition vec_neg :: "'a arith \<Rightarrow> 'a list \<Rightarrow> 'a list" where
  "vec_neg A lhs = map (\<lambda>i. ar_neg A (lhs ! i)) [0..<length lhs]"

definition vec_plus_assign :: "('a, 'z) elem_scheme \<Rightarrow> 'a list \<Rightarrow> 'a list \<Rightarrow> 'a list" where
  "vec_plus_assign E lhs rhs = fold (\<lambda>i lhs. lhs[i := el_add E (lhs ! i) (rhs ! i)]) [0..<length lhs] lhs"

definition vec_minus_assign :: "('a, 'z) elem_scheme \<Rightarrow> 'a list \<Rightarrow> 'a list \<Rightarrow> 'a list" where
  "vec_minus_assign E lhs rhs = fold (\<lambda>i lhs. lhs[i := el_sub E (lhs ! i) (rhs ! i)]) [0..<length lhs] lhs"

definition vec_times_assign :: "('a, 'z) elem_scheme \<Rightarrow> 'a list \<Rightarrow> 'a \<Rightarrow> 'a list" where
  "vec_times_assign E lhs rhs = fold (\<lambda>i lhs. lhs[i := el_mul E (lhs ! i) rhs]) [0..<length lhs] lhs"

section \<open>Lemmas\<close>

lemma length_vec [simp]:
  "length (doAdd E u v) = length u" "length (doSub E u v) = length u"
  "length (doMulScalar E u a) = length u" "length (doScalarMul E a u) = length u"
  "length (vec_neg A u) = length u" "length (vec_fill n a) = n" "length (cross_product E u v) = 3"
  "length (normalize A u) = length u"
  by (simp_all add: doAdd_def doSub_def doMulScalar_def doScalarMul_def vec_neg_def vec_fill_def
      cross_product_def normalize_def)

lemma nth_vec [simp]:
  "i < length u \<Longrightarrow> doAdd E u v ! i = el_add E (u ! i) (v ! i)"
  "i < length u \<Longrightarrow> doSub E u v ! i = el_sub E (u ! i) (v ! i)"
  "i < length u \<Longrightarrow> doMulScalar E u a ! i = el_mul E (u ! i) a"
  "i < length u \<Longrightarrow> doScalarMul E a u ! i = el_mul E a (u ! i)"
  "i < length u \<Longrightarrow> vec_neg A u ! i = ar_neg A (u ! i)"
  "i < n \<Longrightarrow> vec_fill n a ! i = a"
  by (simp_all add: doAdd_def doSub_def doMulScalar_def doScalarMul_def vec_neg_def vec_fill_def)

text \<open>Updating in place, element by element, is mapping over the vector.\<close>

lemma fold_update_index:
  "n \<le> length xs \<Longrightarrow> fold (\<lambda>i xs. xs[i := g i (xs ! i)]) [0..<n] xs =
     map (\<lambda>i. if i < n then g i (xs ! i) else xs ! i) [0..<length xs]"
proof (induction n)
  case 0
  then show ?case by (simp add: map_nth)
next
  case (Suc n)
  let ?ys = "map (\<lambda>i. if i < n then g i (xs ! i) else xs ! i) [0..<length xs]"
  have "fold (\<lambda>i xs. xs[i := g i (xs ! i)]) [0..<Suc n] xs = ?ys[n := g n (?ys ! n)]"
    using Suc by simp
  also have "\<dots> = map (\<lambda>i. if i < Suc n then g i (xs ! i) else xs ! i) [0..<length xs]"
    using Suc.prems by (intro nth_equalityI) (auto simp: nth_list_update)
  finally show ?case .
qed

lemma fold_update_all:
  "fold (\<lambda>i xs. xs[i := g i (xs ! i)]) [0..<length xs] xs = map (\<lambda>i. g i (xs ! i)) [0..<length xs]"
  by (simp add: fold_update_index)

lemma assign_operators:
  "vec_plus_assign E u v = doAdd E u v" "vec_minus_assign E u v = doSub E u v"
  "vec_times_assign E u a = doMulScalar E u a"
  unfolding vec_plus_assign_def vec_minus_assign_def vec_times_assign_def doAdd_def doSub_def doMulScalar_def
  by (rule fold_update_all [of "\<lambda>i x. el_add E x (v ! i)"] fold_update_all [of "\<lambda>i x. el_sub E x (v ! i)"]
      fold_update_all [of "\<lambda>i x. el_mul E x a"])+

lemma vec_doAssign_ok:
  "vec_doAssign E SIZE rhs =
     (if length rhs > SIZE then Inl Undefined_behaviour
      else Inr (rhs @ replicate (SIZE - length rhs) (el_zero E)))"
  by (auto simp: vec_doAssign_def Let_def min_def max_def nth_append intro!: nth_equalityI)

lemma fold_sum: "fold (\<lambda>i r. r + f i) [0..<n] (a::real) = a + (\<Sum>i<n. f i)"
  by (induction n) auto

lemma dot_product_sum [simp]: "dot_product (exact cs) u v = (\<Sum>i<length u. u ! i * v ! i)"
  by (simp add: dot_product_def fold_sum)

lemma sum_3: "(\<Sum>i<3. f i) = f 0 + f 1 + f 2" for f :: "nat \<Rightarrow> real"
  by (simp add: eval_nat_numeral)

lemma sum_4: "(\<Sum>i<4. f i) = f 0 + f 1 + f 2 + f 3" for f :: "nat \<Rightarrow> real"
  by (simp add: eval_nat_numeral)

lemma length_3_cases: "length v = 3 \<Longrightarrow> (\<And>a b c. v = [a, b, c] \<Longrightarrow> P) \<Longrightarrow> P"
  by (auto simp: eval_nat_numeral length_Suc_conv)

lemma length_4_cases: "length v = 4 \<Longrightarrow> (\<And>a b c d. v = [a, b, c, d] \<Longrightarrow> P) \<Longrightarrow> P"
  by (auto simp: eval_nat_numeral length_Suc_conv)

text \<open>The formulas on vectors written out.\<close>

lemma upt_small: "[0..<3] = [0, 1, 2::nat]" "[0..<4] = [0, 1, 2, 3::nat]"
  by (simp_all add: upt_rec)

lemma vec_3:
  "doAdd E [a, b, c] [x, y, z] = [el_add E a x, el_add E b y, el_add E c z]"
  "doSub E [a, b, c] [x, y, z] = [el_sub E a x, el_sub E b y, el_sub E c z]"
  "doMulScalar E [a, b, c] t = [el_mul E a t, el_mul E b t, el_mul E c t]"
  "doScalarMul E t [a, b, c] = [el_mul E t a, el_mul E t b, el_mul E t c]"
  "vec_neg A [a', b', c'] = [ar_neg A a', ar_neg A b', ar_neg A c']"
  "dot_product E [a, b, c] [x, y, z] =
     el_add E (el_add E (el_add E (el_zero E) (el_mul E a x)) (el_mul E b y)) (el_mul E c z)"
  "cross_product E [a, b, c] [x, y, z] =
     [el_sub E (el_mul E b z) (el_mul E c y), el_sub E (el_mul E c x) (el_mul E a z),
      el_sub E (el_mul E a y) (el_mul E b x)]"
  by (simp_all add: doAdd_def doSub_def doMulScalar_def doScalarMul_def vec_neg_def dot_product_def
      cross_product_def upt_rec)

lemma vec_4:
  "doAdd E [a, b, c, d] [x, y, z, w] = [el_add E a x, el_add E b y, el_add E c z, el_add E d w]"
  "doMulScalar E [a, b, c, d] t = [el_mul E a t, el_mul E b t, el_mul E c t, el_mul E d t]"
  "vec_neg A [a', b', c', d'] = [ar_neg A a', ar_neg A b', ar_neg A c', ar_neg A d']"
  "dot_product E [a, b, c, d] [x, y, z, w] =
     el_add E (el_add E (el_add E (el_add E (el_zero E) (el_mul E a x)) (el_mul E b y)) (el_mul E c z))
       (el_mul E d w)"
  by (simp_all add: doAdd_def doMulScalar_def vec_neg_def dot_product_def upt_rec)

lemma normalize_norm:
  assumes "(\<Sum>i<length v. v ! i * v ! i) \<noteq> 0"
  shows "dot_product (exact cs) (normalize (exact cs) v) (normalize (exact cs) v) = 1"
proof -
  let ?s = "\<Sum>i<length v. v ! i * v ! i"
  have "?s \<ge> 0" by (rule sum_nonneg) simp
  with assms have pos: "?s > 0" by linarith
  then have r: "1 / sqrt ?s * (1 / sqrt ?s) = 1 / ?s" by simp
  have "(x * (1 / sqrt ?s)) * (x * (1 / sqrt ?s)) = x * x * (1 / ?s)" for x
    using arg_cong [OF r, of "\<lambda>t. x * x * t"] by (simp only: ac_simps)
  then have "(\<Sum>i<length v. (v ! i * (1 / sqrt ?s)) * (v ! i * (1 / sqrt ?s))) = (\<Sum>i<length v. v ! i * v ! i * (1 / ?s))"
    by (simp only:)
  also have "\<dots> = ?s * (1 / ?s)" by (simp only: sum_distrib_right)
  finally show ?thesis using pos by (simp add: normalize_def vec_length_def)
qed

end
