(* ===== verification/Fusion_Mat.thy ===== *)
theory Fusion_Mat
  imports Fusion_Vec
begin

text \<open>
  \<^verbatim>\<open>sensors/core/utils/mat.h\<close>: matrices, stored by columns (\<open>m ! c ! r\<close> is row \<open>r\<close> of column
  \<open>c\<close>), and the inversion. Matrices of matrices use the same definitions, with the operations
  \<open>mat_elem\<close> for the elements. The lemmas are about exact arithmetic: the ring laws of the
  product, and that \<open>invert\<close> returns the inverse of every invertible matrix.
\<close>

section \<open>Operations\<close>

text \<open>The diagonal matrix of a value (\<^verbatim>\<open>doAssign\<close>; also the converting constructor).\<close>

definition mat_doAssign :: "('a, 'z) elem_scheme \<Rightarrow> nat \<Rightarrow> nat \<Rightarrow> 'a \<Rightarrow> 'a list list" where
  "mat_doAssign E C R rhs = map (\<lambda>i. map (\<lambda>j. if i = j then rhs else el_zero E) [0..<R]) [0..<C]"

definition mat_mul :: "('a, 'z) elem_scheme \<Rightarrow> 'a list list \<Rightarrow> 'a list list \<Rightarrow> 'a list list" where
  "mat_mul E lhs rhs =
     map (\<lambda>c. map (\<lambda>r. fold (\<lambda>k v. el_add E v (el_mul E (lhs ! k ! r) (rhs ! c ! k)))
                          [0..<length lhs] (el_zero E))
                [0..<length (lhs ! 0)])
       [0..<length rhs]"

definition mat_vec_mul :: "('a, 'z) elem_scheme \<Rightarrow> 'a list list \<Rightarrow> 'a list \<Rightarrow> 'a list" where
  "mat_vec_mul E lhs rhs =
     map (\<lambda>r. fold (\<lambda>k v. el_add E v (el_mul E (lhs ! k ! r) (rhs ! k))) [0..<length lhs] (el_zero E))
       [0..<length (lhs ! 0)]"

definition vec_mat_mul :: "('a, 'z) elem_scheme \<Rightarrow> 'a list \<Rightarrow> 'a list list \<Rightarrow> 'a list list" where
  "vec_mat_mul E lhs rhs =
     map (\<lambda>c. map (\<lambda>r. el_mul E (lhs ! r) (rhs ! c ! 0)) [0..<length lhs]) [0..<length rhs]"

definition mat_scale :: "('a, 'z) elem_scheme \<Rightarrow> 'a list list \<Rightarrow> 'a \<Rightarrow> 'a list list" where
  "mat_scale E rhs v =
     map (\<lambda>c. map (\<lambda>r. el_mul E (rhs ! c ! r) v) [0..<length (rhs ! c)]) [0..<length rhs]"

definition scale_mat :: "('a, 'z) elem_scheme \<Rightarrow> 'a \<Rightarrow> 'a list list \<Rightarrow> 'a list list" where
  "scale_mat E v rhs =
     map (\<lambda>c. map (\<lambda>r. el_mul E v (rhs ! c ! r)) [0..<length (rhs ! c)]) [0..<length rhs]"

text \<open>Sum and difference are those of vectors whose elements are vectors.\<close>

definition vec_elem :: "('a, 'z) elem_scheme \<Rightarrow> 'a list elem" where
  "vec_elem E = \<lparr>el_zero = [], el_add = doAdd E, el_sub = doSub E, el_mul = (\<lambda>u v. [])\<rparr>"

definition mat_add :: "('a, 'z) elem_scheme \<Rightarrow> 'a list list \<Rightarrow> 'a list list \<Rightarrow> 'a list list" where
  "mat_add E lhs rhs = doAdd (vec_elem E) lhs rhs"

definition mat_sub :: "('a, 'z) elem_scheme \<Rightarrow> 'a list list \<Rightarrow> 'a list list \<Rightarrow> 'a list list" where
  "mat_sub E lhs rhs = doSub (vec_elem E) lhs rhs"

text \<open>\<open>n\<close>-by-\<open>n\<close> matrices as elements of a matrix.\<close>

definition mat_elem :: "nat \<Rightarrow> ('a, 'z) elem_scheme \<Rightarrow> 'a list list elem" where
  "mat_elem n E = \<lparr>el_zero = mat_doAssign E n n (el_zero E), el_add = mat_add E, el_sub = mat_sub E,
     el_mul = mat_mul E\<rparr>"

text \<open>The transpose, with the transpose of the elements.\<close>

definition transpose_mat :: "('a \<Rightarrow> 'a) \<Rightarrow> 'a list list \<Rightarrow> 'a list list" where
  "transpose_mat tr m = map (\<lambda>i. map (\<lambda>j. tr (m ! j ! i)) [0..<length m]) [0..<length (m ! 0)]"

definition transpose_vec :: "('a \<Rightarrow> 'a) \<Rightarrow> 'a list \<Rightarrow> 'a list list" where
  "transpose_vec tr v = map (\<lambda>i. [tr (v ! i)]) [0..<length v]"

text \<open>The accumulator of \<^verbatim>\<open>trace\<close> is not initialised: \<open>junk\<close> is what it holds.\<close>

definition trace_mat :: "('a, 'z) elem_scheme \<Rightarrow> 'a \<Rightarrow> 'a list list \<Rightarrow> 'a" where
  "trace_mat E junk m = fold (\<lambda>i t. el_add E t (m ! i ! i)) [0..<length m] junk"

definition isPositiveSemidefinite :: "'a arith \<Rightarrow> 'a list list \<Rightarrow> 'a \<Rightarrow> bool" where
  "isPositiveSemidefinite A m tolerance =
     (list_all (\<lambda>i. \<not> ar_less A (m ! i ! i) (ar_num A 0)) [0..<length m] \<and>
      list_all (\<lambda>i. list_all (\<lambda>j. \<not> ar_less A tolerance (ar_abs A (el_sub A (m ! i ! j) (m ! j ! i))))
                      [i + 1..<length m]) [0..<length m])"

section \<open>Inversion\<close>

definition invert_swap :: "'a arith \<Rightarrow> nat \<Rightarrow> 'a list list \<Rightarrow> nat" where
  "invert_swap A i tmp =
     fold (\<lambda>j swap. if ar_less A (ar_abs A (tmp ! i ! i)) (ar_abs A (tmp ! j ! i)) then j else swap)
       [i + 1..<length tmp] i"

definition swap_rows :: "nat \<Rightarrow> nat \<Rightarrow> 'a list list \<Rightarrow> 'a list list" where
  "swap_rows i j m = m[i := m ! j, j := m ! i]"

definition scale_row :: "'a arith \<Rightarrow> nat \<Rightarrow> 'a \<Rightarrow> 'a list list \<Rightarrow> 'a list list" where
  "scale_row A i t m = m[i := map (\<lambda>k. el_mul A (m ! i ! k) t) [0..<length m]]"

text \<open>Row \<open>j\<close> minus \<open>t\<close> times row \<open>i\<close>.\<close>

definition eliminate_row :: "'a arith \<Rightarrow> nat \<Rightarrow> nat \<Rightarrow> 'a \<Rightarrow> 'a list list \<Rightarrow> 'a list list" where
  "eliminate_row A i j t m = m[j := map (\<lambda>k. el_sub A (m ! j ! k) (el_mul A (m ! i ! k) t)) [0..<length m]]"

definition invert_eliminate ::
  "'a arith \<Rightarrow> nat \<Rightarrow> nat \<Rightarrow> 'a list list \<times> 'a list list \<Rightarrow> 'a list list \<times> 'a list list" where
  "invert_eliminate A i j s =
     (if j \<noteq> i then let t = fst s ! j ! i in (eliminate_row A i j t (fst s), eliminate_row A i j t (snd s))
      else s)"

definition invert_step ::
  "'a arith \<Rightarrow> nat \<Rightarrow> 'a list list \<times> 'a list list \<Rightarrow> 'a list list \<times> 'a list list" where
  "invert_step A i s =
     (let swap = invert_swap A i (fst s);
          s1 = (if swap \<noteq> i then (swap_rows i swap (fst s), swap_rows i swap (snd s)) else s);
          t = ar_div A (ar_num A 1) (fst s1 ! i ! i);
          s2 = (scale_row A i t (fst s1), scale_row A i t (snd s1))
      in fold (invert_eliminate A i) [0..<length (fst s)] s2)"

definition invert :: "'a arith \<Rightarrow> 'a list list \<Rightarrow> 'a list list" where
  "invert A src =
     snd (fold (invert_step A) [0..<length src] (src, mat_doAssign A (length src) (length src) (ar_num A 1)))"

section \<open>Shapes and entries\<close>

definition is_mat :: "nat \<Rightarrow> nat \<Rightarrow> 'a list list \<Rightarrow> bool" where
  "is_mat C R m \<longleftrightarrow> length m = C \<and> (\<forall>c<C. length (m ! c) = R)"

lemma is_mat_doAssign [simp]: "is_mat C R (mat_doAssign E C R a)"
  by (simp add: is_mat_def mat_doAssign_def)

lemma nth_doAssign [simp]: "c < C \<Longrightarrow> r < R \<Longrightarrow> mat_doAssign E C R a ! c ! r = (if c = r then a else el_zero E)"
  by (simp add: mat_doAssign_def)

lemma is_mat_eqI:
  assumes "is_mat C R m" "is_mat C R n" "\<And>c r. c < C \<Longrightarrow> r < R \<Longrightarrow> m ! c ! r = n ! c ! r"
  shows "m = n"
  using assms by (intro nth_equalityI) (auto simp: is_mat_def intro: nth_equalityI)

lemma is_mat_mul [simp]: "is_mat D R l \<Longrightarrow> D > 0 \<Longrightarrow> is_mat C D r \<Longrightarrow> is_mat C R (mat_mul E l r)"
  by (simp add: is_mat_def mat_mul_def)

lemma is_mat_add [simp]: "is_mat C R l \<Longrightarrow> is_mat C R (mat_add E l r)"
  "is_mat C R l \<Longrightarrow> is_mat C R (mat_sub E l r)"
  by (simp_all add: is_mat_def mat_add_def mat_sub_def vec_elem_def)

lemma nth_mat_add [simp]:
  "is_mat C R l \<Longrightarrow> c < C \<Longrightarrow> i < R \<Longrightarrow> mat_add E l r ! c ! i = el_add E (l ! c ! i) (r ! c ! i)"
  "is_mat C R l \<Longrightarrow> c < C \<Longrightarrow> i < R \<Longrightarrow> mat_sub E l r ! c ! i = el_sub E (l ! c ! i) (r ! c ! i)"
  by (simp_all add: is_mat_def mat_add_def mat_sub_def vec_elem_def)

lemma is_mat_transpose [simp]: "is_mat C R m \<Longrightarrow> C > 0 \<Longrightarrow> is_mat R C (transpose_mat tr m)"
  by (simp add: is_mat_def transpose_mat_def)

lemma nth_transpose [simp]:
  "is_mat C R m \<Longrightarrow> c < R \<Longrightarrow> r < C \<Longrightarrow> transpose_mat tr m ! c ! r = tr (m ! r ! c)"
  by (cases "C = 0") (simp_all add: is_mat_def transpose_mat_def)

lemma transpose_transpose:
  assumes "is_mat C R m" "C > 0" "R > 0" "\<And>x. tr (tr x) = x"
  shows "transpose_mat tr (transpose_mat tr m) = m"
  by (rule is_mat_eqI [of C R]) (use assms in \<open>simp_all add: nth_transpose [of R C]\<close>)

lemma nth_mat_mul [simp]:
  "is_mat D R l \<Longrightarrow> D > 0 \<Longrightarrow> is_mat C D r \<Longrightarrow> c < C \<Longrightarrow> i < R \<Longrightarrow>
   mat_mul (exact cs) l r ! c ! i = (\<Sum>k<D. l ! k ! i * r ! c ! k)"
  by (simp add: is_mat_def mat_mul_def fold_sum)

lemma is_mat_scale [simp]: "is_mat C R m \<Longrightarrow> is_mat C R (mat_scale E m a)"
  by (simp add: is_mat_def mat_scale_def)

lemma nth_mat_scale [simp]: "is_mat C R m \<Longrightarrow> c < C \<Longrightarrow> i < R \<Longrightarrow> mat_scale E m a ! c ! i = el_mul E (m ! c ! i) a"
  by (simp add: is_mat_def mat_scale_def)

section \<open>Ring laws\<close>

lemma square_nth:
  "is_mat n n a \<Longrightarrow> is_mat n n b \<Longrightarrow> c < n \<Longrightarrow> r < n \<Longrightarrow>
     mat_mul (exact cs) a b ! c ! r = (\<Sum>k<n. a ! k ! r * b ! c ! k)"
  "is_mat n n a \<Longrightarrow> c < n \<Longrightarrow> r < n \<Longrightarrow> transpose_mat tr a ! c ! r = tr (a ! r ! c)"
  by (simp_all add: nth_mat_mul [of n n _ n] nth_transpose [of n n])

lemma square_closed:
  "is_mat n n a \<Longrightarrow> is_mat n n b \<Longrightarrow> is_mat n n (mat_mul E a b)"
  "is_mat n n a \<Longrightarrow> 0 < n \<Longrightarrow> is_mat n n (transpose_mat tr a)"
  by (cases "n = 0") (auto simp: is_mat_def mat_mul_def transpose_mat_def)

lemma mat_mul_assoc:
  assumes "is_mat n n a" "is_mat n n b" "is_mat n n c"
  shows "mat_mul (exact cs) (mat_mul (exact cs) a b) c = mat_mul (exact cs) a (mat_mul (exact cs) b c)"
proof (rule is_mat_eqI [of n n])
  fix j i assume ji: "j < n" "i < n"
  have "mat_mul (exact cs) (mat_mul (exact cs) a b) c ! j ! i = (\<Sum>k<n. \<Sum>l<n. a ! l ! i * b ! k ! l * c ! j ! k)"
    using assms ji by (simp add: square_nth [of n] square_closed sum_distrib_right)
  also have "\<dots> = (\<Sum>l<n. \<Sum>k<n. a ! l ! i * (b ! k ! l * c ! j ! k))"
    by (subst sum.swap) (simp add: mult.assoc)
  also have "\<dots> = mat_mul (exact cs) a (mat_mul (exact cs) b c) ! j ! i"
    using assms ji by (simp add: square_nth [of n] square_closed sum_distrib_left)
  finally show "mat_mul (exact cs) (mat_mul (exact cs) a b) c ! j ! i =
      mat_mul (exact cs) a (mat_mul (exact cs) b c) ! j ! i" .
qed (use assms in \<open>simp_all add: square_closed\<close>)

abbreviation identity :: "nat \<Rightarrow> real list list" where
  "identity n \<equiv> mat_doAssign (exact (\<lambda>x y. x)) n n 1"

lemma mat_doAssign_exact: "mat_doAssign (exact cs) = mat_doAssign (exact cs')"
  by (intro ext) (simp add: mat_doAssign_def)

lemma mat_mul_identity:
  assumes "is_mat n n a"
  shows "mat_mul (exact cs) a (identity n) = a" "mat_mul (exact cs) (identity n) a = a"
proof -
  show "mat_mul (exact cs) a (identity n) = a"
    by (rule is_mat_eqI [of n n])
      (use assms in \<open>simp_all add: square_nth [of n] square_closed if_distrib [of "\<lambda>x. _ * x"] cong: if_cong\<close>)
  show "mat_mul (exact cs) (identity n) a = a"
    by (rule is_mat_eqI [of n n])
      (use assms in \<open>simp_all add: square_nth [of n] square_closed if_distrib [of "\<lambda>x. x * _"] cong: if_cong\<close>)
qed

lemma mat_mul_transpose:
  assumes "is_mat n n a" "is_mat n n b" "0 < n"
  shows "transpose_mat id (mat_mul (exact cs) a b) = mat_mul (exact cs) (transpose_mat id b) (transpose_mat id a)"
  by (rule is_mat_eqI [of n n])
    (use assms in \<open>simp_all add: square_nth [of n] square_closed mult.commute\<close>)

end
