(* ===== verification/Fusion_Invert.thy ===== *)
theory Fusion_Invert
  imports Fusion_Mat
begin

text \<open>
  The Gauss-Jordan elimination of \<^verbatim>\<open>mat.h\<close> in exact arithmetic. The code works on
  \<open>tmp ! i\<close>, a column of the matrix, as if it were a row; it inverts the transpose, which is the
  transpose of the inverse. The invariant of the outer loop: every row of \<open>tmp\<close> is the combination
  of the rows of the source that the row of \<open>inverse\<close> describes, no vector is annihilated by \<open>tmp\<close>
  but not by the source, and the columns already treated are those of the identity. The pivot
  search may stop at a row that does not hold the largest element, but it never stops at a
  zero while there is another element to choose.
\<close>

section \<open>The invariant\<close>

definition row_dot :: "nat \<Rightarrow> real list \<Rightarrow> (nat \<Rightarrow> real) \<Rightarrow> real" where
  "row_dot n row x = (\<Sum>k<n. row ! k * x k)"

text \<open>\<open>row\<close> is the combination of the rows of \<open>S\<close> with the coefficients \<open>coeffs\<close>.\<close>

definition combines :: "nat \<Rightarrow> real list list \<Rightarrow> real list \<Rightarrow> real list \<Rightarrow> bool" where
  "combines n S coeffs row \<longleftrightarrow> (\<forall>k<n. row ! k = (\<Sum>l<n. coeffs ! l * S ! l ! k))"

definition annihilates :: "nat \<Rightarrow> real list list \<Rightarrow> (nat \<Rightarrow> real) \<Rightarrow> bool" where
  "annihilates n m x \<longleftrightarrow> (\<forall>i<n. row_dot n (m ! i) x = 0)"

definition invert_inv :: "nat \<Rightarrow> real list list \<Rightarrow> real list list \<times> real list list \<Rightarrow> bool" where
  "invert_inv n S s \<longleftrightarrow> is_mat n n (fst s) \<and> is_mat n n (snd s)
     \<and> (\<forall>i<n. combines n S (snd s ! i) (fst s ! i))
     \<and> (\<forall>x. annihilates n (fst s) x \<longrightarrow> annihilates n S x)"

definition reduced :: "nat \<Rightarrow> nat \<Rightarrow> real list list \<Rightarrow> bool" where
  "reduced n i m \<longleftrightarrow> (\<forall>c<i. \<forall>r<n. m ! r ! c = (if r = c then 1 else 0))"

text \<open>Combining rows linearly.\<close>

lemma combines_linear:
  assumes "combines n S ci ri" "combines n S cj rj"
    and "\<forall>k<n. c ! k = a * cj ! k + b * ci ! k" "\<forall>k<n. r ! k = a * rj ! k + b * ri ! k"
  shows "combines n S c r"
  using assms by (simp add: combines_def algebra_simps sum.distrib sum_distrib_left)

lemma row_dot_linear:
  "\<forall>k<n. r ! k = a * rj ! k + b * ri ! k \<Longrightarrow> row_dot n r x = a * row_dot n rj x + b * row_dot n ri x"
  by (simp add: row_dot_def algebra_simps sum.distrib sum_distrib_left)

lemma is_mat_update: "is_mat n n m \<Longrightarrow> length row = n \<Longrightarrow> is_mat n n (m[i := row])"
  by (cases "i < n") (auto simp: is_mat_def nth_list_update)

section \<open>Row operations\<close>

lemma invert_inv_scale:
  assumes "invert_inv n S (t, v)" "i < n" "a \<noteq> 0"
  shows "invert_inv n S (scale_row (exact cs) i a t, scale_row (exact cs) i a v)"
proof -
  have m: "is_mat n n t" "is_mat n n v" "length t = n" "length v = n"
    using assms(1) by (simp_all add: invert_inv_def is_mat_def)
  let ?t = "scale_row (exact cs) i a t" and ?v = "scale_row (exact cs) i a v"
  have nth: "\<forall>k<n. ?t ! i ! k = a * t ! i ! k + 0 * t ! i ! k" "\<forall>k<n. ?v ! i ! k = a * v ! i ! k + 0 * v ! i ! k"
    "\<And>j. j \<noteq> i \<Longrightarrow> ?t ! j = t ! j \<and> ?v ! j = v ! j"
    using assms(2) m by (simp_all add: scale_row_def)
  have "combines n S (?v ! j) (?t ! j)" if "j < n" for j
    using combines_linear [OF _ _ nth(2,1)] nth(3) [of j] that assms by (cases "j = i") (auto simp: invert_inv_def)
  moreover have "annihilates n t x" if "annihilates n ?t x" for x
    unfolding annihilates_def
  proof (intro allI impI)
    fix j assume "j < n"
    with that have "row_dot n (?t ! j) x = 0" by (simp add: annihilates_def)
    then show "row_dot n (t ! j) x = 0"
      using row_dot_linear [OF nth(1), of x] nth(3) [of j] assms(3) by (cases "j = i") auto
  qed
  moreover have "is_mat n n ?t" "is_mat n n ?v" using m by (simp_all add: scale_row_def is_mat_update)
  ultimately show ?thesis using assms(1) by (auto simp: invert_inv_def)
qed

lemma invert_inv_eliminate_row:
  assumes "invert_inv n S (t, v)" "i < n" "j < n" "i \<noteq> j"
  shows "invert_inv n S (eliminate_row (exact cs) i j a t, eliminate_row (exact cs) i j a v)"
proof -
  have m: "is_mat n n t" "is_mat n n v" "length t = n" "length v = n"
    using assms(1) by (simp_all add: invert_inv_def is_mat_def)
  let ?t = "eliminate_row (exact cs) i j a t" and ?v = "eliminate_row (exact cs) i j a v"
  have nth: "\<forall>k<n. ?t ! j ! k = 1 * t ! j ! k + (- a) * t ! i ! k" "\<forall>k<n. ?v ! j ! k = 1 * v ! j ! k + (- a) * v ! i ! k"
    "\<And>l. l \<noteq> j \<Longrightarrow> ?t ! l = t ! l \<and> ?v ! l = v ! l"
    using assms(3) m by (simp_all add: eliminate_row_def)
  have "combines n S (?v ! l) (?t ! l)" if "l < n" for l
    using combines_linear [OF _ _ nth(2,1)] nth(3) [of l] that assms by (cases "l = j") (auto simp: invert_inv_def)
  moreover have "annihilates n t x" if "annihilates n ?t x" for x
    unfolding annihilates_def
  proof (intro allI impI)
    fix l assume "l < n"
    with that assms have "row_dot n (?t ! l) x = 0" "row_dot n (?t ! i) x = 0" by (simp_all add: annihilates_def)
    then show "row_dot n (t ! l) x = 0"
      using row_dot_linear [OF nth(1), of x] nth(3) [of l] nth(3) [of i] assms(4) by (cases "l = j") auto
  qed
  moreover have "is_mat n n ?t" "is_mat n n ?v" using m by (simp_all add: eliminate_row_def is_mat_update)
  ultimately show ?thesis using assms(1) by (auto simp: invert_inv_def)
qed

lemma swap_rows_nth:
  "i < length m \<Longrightarrow> j < length m \<Longrightarrow> l < length m \<Longrightarrow>
   swap_rows i j m ! l = m ! (if l = j then i else if l = i then j else l)"
  by (simp add: swap_rows_def nth_list_update)

lemma invert_inv_swap:
  assumes "invert_inv n S (t, v)" "i < n" "j < n"
  shows "invert_inv n S (swap_rows i j t, swap_rows i j v)"
proof -
  have m: "is_mat n n t" "is_mat n n v" "length t = n" "length v = n"
    using assms(1) by (simp_all add: invert_inv_def is_mat_def)
  have nth: "swap_rows i j t ! l = t ! (if l = j then i else if l = i then j else l)"
    "swap_rows i j v ! l = v ! (if l = j then i else if l = i then j else l)" if "l < n" for l
    using that assms m by (simp_all add: swap_rows_nth)
  have "annihilates n t x" if "annihilates n (swap_rows i j t) x" for x
    unfolding annihilates_def
  proof (intro allI impI)
    fix l assume "l < n"
    let ?l = "if l = j then i else if l = i then j else l"
    have "?l < n" using \<open>l < n\<close> assms by simp
    with that have "row_dot n (swap_rows i j t ! ?l) x = 0" by (simp only: annihilates_def)
    then show "row_dot n (t ! l) x = 0" using nth(1) [OF \<open>?l < n\<close>] by (auto split: if_splits)
  qed
  moreover have "is_mat n n (swap_rows i j t)" "is_mat n n (swap_rows i j v)"
    using m assms by (simp_all add: swap_rows_def is_mat_update is_mat_def nth_list_update)
  ultimately show ?thesis using assms nth by (auto simp: invert_inv_def)
qed

section \<open>One step of the outer loop\<close>

lemma fold_choose:
  "(fold (\<lambda>j s. if P j then j else s) js i = i \<and> (\<forall>j\<in>set js. P j \<longrightarrow> j = i))
   \<or> (fold (\<lambda>j s. if P j then j else s) js i \<in> set js \<and> P (fold (\<lambda>j s. if P j then j else s) js i))"
proof (induction js arbitrary: i)
  case (Cons a js)
  let ?f = "\<lambda>j s. if P j then j else s"
  show ?case
  proof (cases "P a")
    case True
    have "fold ?f js a \<in> set (a # js) \<and> P (fold ?f js a)"
      using Cons.IH [of a] True by (elim disjE conjE) simp_all
    with True show ?thesis by simp
  next
    case False
    with Cons.IH [of i] show ?thesis by (elim disjE conjE) simp_all
  qed
qed simp

lemma invert_swap_cases:
  assumes "is_mat n n t" "i < n"
  shows "invert_swap (exact cs) i t < n" "i \<le> invert_swap (exact cs) i t"
    and "t ! invert_swap (exact cs) i t ! i = 0 \<Longrightarrow> \<forall>j. i \<le> j \<and> j < n \<longrightarrow> t ! j ! i = 0"
  using fold_choose [of "\<lambda>j. \<bar>t ! i ! i\<bar> < \<bar>t ! j ! i\<bar>" "[i + 1..<n]" i] assms
  by (auto simp: invert_swap_def is_mat_def le_less Suc_le_eq)

lemma pivot_nonzero:
  assumes "invert_inv n S (t, v)" "reduced n i t" "i < n"
    and "\<forall>x. annihilates n S x \<longrightarrow> (\<forall>k<n. x k = 0)"
  shows "t ! invert_swap (exact cs) i t ! i \<noteq> 0"
proof
  assume "t ! invert_swap (exact cs) i t ! i = 0"
  then have zero: "\<forall>j. i \<le> j \<and> j < n \<longrightarrow> t ! j ! i = 0"
    using invert_swap_cases(3) [of n t i cs] assms(1,3) by (auto simp: invert_inv_def)
  let ?x = "\<lambda>k. if k < i then - t ! k ! i else if k = i then 1 else (0::real)"
  have single: "(if k < i then if r = k then a else 0 else 0) = (if r = k then if r < i then a else 0 else 0)"
    for k r :: nat and a :: real by auto
  have "row_dot n (t ! r) ?x = 0" if "r < n" for r
  proof -
    have "row_dot n (t ! r) ?x = (\<Sum>k<n. (if k < i then (if r = k then - t ! r ! i else 0) else 0)
        + (if k = i then t ! r ! i else 0))"
      unfolding row_dot_def using assms(2) that by (intro sum.cong) (auto simp: reduced_def)
    also have "\<dots> = (\<Sum>k<n. if r = k then (if r < i then - t ! r ! i else 0) else 0) + t ! r ! i"
      using assms(3) by (simp add: sum.distrib single)
    also have "\<dots> = (if r < i then - t ! r ! i else 0) + t ! r ! i" using that by simp
    finally show ?thesis using zero that by auto
  qed
  then have "annihilates n t ?x" by (simp add: annihilates_def)
  then have "annihilates n S ?x" using assms(1) by (auto simp: invert_inv_def)
  then have "?x i = 0" using assms(3,4) by blast
  then show False by simp
qed

lemma eliminate_loop:
  assumes "invert_inv n S s" "reduced n i (fst s)" "i < n" "fst s ! i ! i = 1" "m \<le> n"
    and "s' = fold (invert_eliminate (exact cs) i) [0..<m] s"
  shows "invert_inv n S s' \<and> reduced n i (fst s') \<and> fst s' ! i = fst s ! i
       \<and> (\<forall>j<m. j \<noteq> i \<longrightarrow> fst s' ! j ! i = 0)"
  using assms(5,6)
proof (induction m arbitrary: s')
  case 0
  then show ?case using assms by simp
next
  case (Suc m)
  define p where "p = fold (invert_eliminate (exact cs) i) [0..<m] s"
  obtain t v where p: "p = (t, v)" by (metis surj_pair)
  have ih: "invert_inv n S (t, v)" "reduced n i t" "t ! i = fst s ! i" "\<forall>j<m. j \<noteq> i \<longrightarrow> t ! j ! i = 0"
    using Suc.IH [OF _ p_def] Suc.prems(1) p by simp_all
  have s': "s' = invert_eliminate (exact cs) i m (t, v)" using Suc.prems(2) p p_def by simp
  show ?case
  proof (cases "m = i")
    case True
    then show ?thesis using ih s' by (auto simp: invert_eliminate_def less_Suc_eq)
  next
    case False
    let ?t = "eliminate_row (exact cs) i m (t ! m ! i) t"
    have len: "length t = n" "m < n" using ih(1) Suc.prems(1) by (simp_all add: invert_inv_def is_mat_def)
    have nth: "\<And>k. k < n \<Longrightarrow> ?t ! m ! k = t ! m ! k - t ! i ! k * (t ! m ! i)" "\<And>j. j \<noteq> m \<Longrightarrow> ?t ! j = t ! j"
      using len by (simp_all add: eliminate_row_def)
    have one: "t ! i ! i = 1" using ih(3) assms(4) by simp
    have low: "t ! i ! c = 0" if "c < i" for c using ih(2) that assms(3) by (simp add: reduced_def)
    have "reduced n i ?t"
      unfolding reduced_def
    proof (intro allI impI)
      fix c r assume "c < i" "r < n"
      then show "?t ! r ! c = (if r = c then 1 else 0)"
        using nth(1) [of c] nth(2) [of r] low ih(2) assms(3) by (cases "r = m") (auto simp: reduced_def)
    qed
    moreover have "?t ! m ! i = 0" using nth(1) [of i] one assms(3) by simp
    moreover have "invert_inv n S s'"
      using invert_inv_eliminate_row [OF ih(1) assms(3) len(2)] False s' by (auto simp: invert_eliminate_def Let_def)
    ultimately show ?thesis
      using False s' ih nth(2) by (auto simp: invert_eliminate_def Let_def less_Suc_eq)
  qed
qed

lemma invert_step_inv:
  assumes "invert_inv n S s" "reduced n i (fst s)" "i < n"
    and "\<forall>x. annihilates n S x \<longrightarrow> (\<forall>k<n. x k = 0)"
  shows "invert_inv n S (invert_step (exact cs) i s) \<and> reduced n (Suc i) (fst (invert_step (exact cs) i s))"
proof -
  obtain t v where s: "s = (t, v)" by (metis surj_pair)
  define w where "w = invert_swap (exact cs) i t"
  define s1 where "s1 = (if w \<noteq> i then (swap_rows i w t, swap_rows i w v) else (t, v))"
  have len: "length t = n" "is_mat n n t" using assms(1) by (simp_all add: s invert_inv_def is_mat_def)
  have w: "w < n" "i \<le> w" using invert_swap_cases [OF len(2) assms(3)] by (simp_all add: w_def)
  have inv1: "invert_inv n S s1"
    using assms(1) invert_inv_swap [of n S t v i w] w assms(3) by (auto simp: s1_def s)
  have nth1: "fst s1 ! l = t ! (if l = w then i else if l = i then w else l)" if "l < n" for l
    using that w assms(3) len by (auto simp: s1_def swap_rows_nth)
  have red1: "reduced n i (fst s1)"
    using assms(2,3) w nth1 by (auto simp: reduced_def s)
  have "fst s1 ! i = t ! w" using nth1 [OF assms(3)] by auto
  then have piv: "fst s1 ! i ! i \<noteq> 0"
    using pivot_nonzero [OF assms(1) [unfolded s]] assms(2-4) by (simp add: w_def s)
  define a where "a = 1 / fst s1 ! i ! i"
  define s2 where "s2 = (scale_row (exact cs) i a (fst s1), scale_row (exact cs) i a (snd s1))"
  have inv2: "invert_inv n S s2"
    using invert_inv_scale [of n S "fst s1" "snd s1" i a] inv1 assms(3) piv by (simp add: s2_def a_def)
  have len1: "length (fst s1) = n" using inv1 by (simp add: invert_inv_def is_mat_def)
  have nth2: "\<And>k. k < n \<Longrightarrow> fst s2 ! i ! k = fst s1 ! i ! k * a" "\<And>j. j \<noteq> i \<Longrightarrow> fst s2 ! j = fst s1 ! j"
    using len1 assms(3) by (simp_all add: s2_def scale_row_def)
  have one: "fst s2 ! i ! i = 1" using nth2(1) [OF assms(3)] piv by (simp add: a_def)
  have red2: "reduced n i (fst s2)"
    unfolding reduced_def
  proof (intro allI impI)
    fix c r assume "c < i" "r < n"
    then show "fst s2 ! r ! c = (if r = c then 1 else 0)"
      using nth2(1) [of c] nth2(2) [of r] red1 assms(3) by (cases "r = i") (auto simp: reduced_def)
  qed
  have "invert_step (exact cs) i s = fold (invert_eliminate (exact cs) i) [0..<n] s2"
    by (simp only: invert_step_def Let_def s fst_conv snd_conv w_def [symmetric] s1_def [symmetric]
        exact_simps id_apply a_def [symmetric] s2_def [symmetric] len)
  from eliminate_loop [OF inv2 red2 assms(3) one order_refl this] one
  show ?thesis by (auto simp: reduced_def less_Suc_eq)
qed

section \<open>The inverse\<close>

lemma invert_loop:
  assumes "is_mat n n S" "\<forall>x. annihilates n S x \<longrightarrow> (\<forall>k<n. x k = 0)" "m \<le> n"
  shows "invert_inv n S (fold (invert_step (exact cs)) [0..<m] (S, mat_doAssign (exact cs) n n 1))
       \<and> reduced n m (fst (fold (invert_step (exact cs)) [0..<m] (S, mat_doAssign (exact cs) n n 1)))"
  using assms(3)
proof (induction m)
  case 0
  have "combines n S (mat_doAssign (exact cs) n n 1 ! i) (S ! i)" if "i < n" for i
    using that by (simp add: combines_def if_distrib [of "\<lambda>x. x * _"] cong: if_cong)
  then show ?case using assms(1) by (simp add: invert_inv_def reduced_def)
next
  case (Suc m)
  then show ?case using invert_step_inv [OF _ _ _ assms(2)] by simp
qed

lemma right_inverse_injective:
  assumes "is_mat n n S" "is_mat n n B" "mat_mul (exact cs) S B = identity n" "annihilates n S x" "c < n"
  shows "x c = 0"
proof -
  have d: "(\<Sum>k<n. B ! c ! k * S ! k ! r) = (if c = r then 1 else 0)" if "r < n" for r
    using square_nth(1) [OF assms(1,2,5) that, of cs] assms(3,5) that
    by (simp add: mult.commute cong: if_cong)
  have "x c = (\<Sum>r<n. (if c = r then 1 else 0) * x r)" using assms(5) by (simp add: if_distrib [of "\<lambda>x. x * _"] cong: if_cong)
  also have "\<dots> = (\<Sum>r<n. \<Sum>k<n. B ! c ! k * S ! k ! r * x r)" by (simp add: d [symmetric] sum_distrib_right)
  also have "\<dots> = (\<Sum>k<n. B ! c ! k * row_dot n (S ! k) x)"
    by (subst sum.swap) (simp add: row_dot_def sum_distrib_left mult.assoc)
  also have "\<dots> = 0" using assms(4) by (simp add: annihilates_def)
  finally show ?thesis .
qed

lemma invert_right_inverse:
  assumes "is_mat n n S" "\<forall>x. annihilates n S x \<longrightarrow> (\<forall>k<n. x k = 0)"
  shows "is_mat n n (invert (exact cs) S) \<and> mat_mul (exact cs) S (invert (exact cs) S) = identity n"
proof -
  define s where "s = fold (invert_step (exact cs)) [0..<n] (S, mat_doAssign (exact cs) n n 1)"
  have i: "invert (exact cs) S = snd s" using assms(1) by (simp add: invert_def s_def is_mat_def)
  have inv: "invert_inv n S s" "reduced n n (fst s)"
    using invert_loop [OF assms order_refl, of cs] by (simp_all add: s_def)
  have sq: "is_mat n n (snd s)" using inv(1) by (simp add: invert_inv_def)
  have "mat_mul (exact cs) S (snd s) = identity n"
  proof (rule is_mat_eqI [of n n])
    fix c r assume c: "c < n" "r < n"
    have "mat_mul (exact cs) S (snd s) ! c ! r = (\<Sum>l<n. snd s ! c ! l * S ! l ! r)"
      by (simp add: square_nth(1) [OF assms(1) sq c] mult.commute)
    also have "\<dots> = fst s ! c ! r" using inv(1) c by (simp add: invert_inv_def combines_def)
    also have "\<dots> = identity n ! c ! r" using inv(2) c by (simp add: reduced_def)
    finally show "mat_mul (exact cs) S (snd s) ! c ! r = identity n ! c ! r" .
  qed (use assms(1) sq in \<open>simp_all add: square_closed\<close>)
  with sq show ?thesis by (simp add: i)
qed

lemma invert_unique:
  assumes "is_mat n n M" "is_mat n n B"
    and "mat_mul (exact cs) M B = identity n" "mat_mul (exact cs) B M = identity n"
  shows "invert (exact cs) M = B"
proof -
  have r: "is_mat n n (invert (exact cs) M)" "mat_mul (exact cs) M (invert (exact cs) M) = identity n"
    using invert_right_inverse [OF assms(1)] right_inverse_injective [OF assms(1-3)] by blast+
  have "invert (exact cs) M = mat_mul (exact cs) (mat_mul (exact cs) B M) (invert (exact cs) M)"
    using mat_mul_identity(2) [OF r(1)] assms(4) by simp
  also have "\<dots> = B"
    using mat_mul_assoc [OF assms(2,1) r(1)] r(2) mat_mul_identity(1) [OF assms(2)] by simp
  finally show ?thesis .
qed

text \<open>C19: in exact arithmetic \<^verbatim>\<open>invert\<close> returns the inverse of every matrix that has one, of any
  size: no pivot is zero, although the search for the pivot compares with the diagonal element
  instead of the largest element so far.\<close>

theorem invert_correct:
  assumes "is_mat n n M" "is_mat n n B"
    and "mat_mul (exact cs) M B = identity n" "mat_mul (exact cs) B M = identity n"
  shows "invert (exact cs) M = B"
  using assms by (rule invert_unique)

theorem invert_correct_witness:
  "invert (exact (\<lambda>x y. x)) [[0, 1, 0], [0, 0, 1], [2, 0, 0]] = [[0, 0, 1 / 2], [1, 0, 0], [0, 1, 0]]"
  by (rule invert_correct [of 3])
    (simp_all add: is_mat_def mat_mul_def mat_doAssign_def upt_small less_Suc_eq eval_nat_numeral)

text \<open>The pivot search does not find the largest element of the column, as its comment says.\<close>

lemma invert_swap_not_largest:
  "invert_swap (exact cs) 0 [[1, 0, 0], [5, 1, 0], [2, 0, 1]] = 2"
  by (simp add: invert_swap_def upt_rec)

end
