(* ===== verification/Fusion_Quat.thy ===== *)
theory Fusion_Quat
  imports Fusion_Invert
begin

text \<open>
  \<^verbatim>\<open>sensors/core/utils/quat.h\<close>: attitudes as quaternions \<open>[x, y, z, w]\<close> and as matrices. In exact
  arithmetic a unit quaternion gives a rotation matrix, and \<open>matrixToQuat\<close> finds the quaternion
  again when its \<open>w\<close> is positive.
\<close>

section \<open>Conversions\<close>

definition quatToMatrix :: "'a arith \<Rightarrow> 'a list \<Rightarrow> 'a list list" where
  "quatToMatrix A q =
     (let mul = el_mul A; add = el_add A; sub = el_sub A; two = ar_num A 2; one = ar_num A 1;
          q0 = q ! 3; q1 = q ! 0; q2 = q ! 1; q3 = q ! 2;
          sq_q1 = mul (mul two q1) q1; sq_q2 = mul (mul two q2) q2; sq_q3 = mul (mul two q3) q3;
          q1_q2 = mul (mul two q1) q2; q3_q0 = mul (mul two q3) q0; q1_q3 = mul (mul two q1) q3;
          q2_q0 = mul (mul two q2) q0; q2_q3 = mul (mul two q2) q3; q1_q0 = mul (mul two q1) q0
      in [[sub (sub one sq_q2) sq_q3, sub q1_q2 q3_q0, add q1_q3 q2_q0],
          [add q1_q2 q3_q0, sub (sub one sq_q1) sq_q3, sub q2_q3 q1_q0],
          [sub q1_q3 q2_q0, add q2_q3 q1_q0, sub (sub one sq_q1) sq_q2]])"

definition quat_clamp :: "'a arith \<Rightarrow> 'a \<Rightarrow> 'a" where
  "quat_clamp A v = (if ar_less A v (ar_num A 0) then ar_num A 0 else v)"

definition matrixToQuat :: "'a arith \<Rightarrow> 'a list list \<Rightarrow> 'a list" where
  "matrixToQuat A R =
     (let add = el_add A; sub = el_sub A; neg = ar_neg A; one = ar_num A 1;
          root = (\<lambda>v. ar_sqrt A (el_mul A (quat_clamp A v) (ar_num A (1 / 4))));
          Hx = R ! 0 ! 0; My = R ! 1 ! 1; Az = R ! 2 ! 2
      in [ar_copysign A (root (add (sub (sub Hx My) Az) one)) (sub (R ! 2 ! 1) (R ! 1 ! 2)),
          ar_copysign A (root (add (sub (add (neg Hx) My) Az) one)) (sub (R ! 0 ! 2) (R ! 2 ! 0)),
          ar_copysign A (root (add (add (sub (neg Hx) My) Az) one)) (sub (R ! 1 ! 0) (R ! 0 ! 1)),
          root (add (add (add Hx My) Az) one)])"

definition normalize_quat :: "'a arith \<Rightarrow> 'a list \<Rightarrow> 'a list" where
  "normalize_quat A q =
     (let r = q; r = (if ar_less A (r ! 3) (ar_num A 0) then vec_neg A r else r) in normalize A r)"

section \<open>Exact arithmetic\<close>

definition norm2 :: "real list \<Rightarrow> real" where
  "norm2 v = (\<Sum>i<length v. v ! i * v ! i)"

lemma norm2_3: "norm2 [x, y, z] = x\<^sup>2 + y\<^sup>2 + z\<^sup>2"
  by (simp add: norm2_def eval_nat_numeral)

lemma norm2_4: "norm2 [x, y, z, w] = x\<^sup>2 + y\<^sup>2 + z\<^sup>2 + w\<^sup>2"
  by (simp add: norm2_def eval_nat_numeral)

lemma quatToMatrix_exact:
  "quatToMatrix (exact cs) [x, y, z, w] =
     [[1 - 2 * y * y - 2 * z * z, 2 * x * y - 2 * z * w, 2 * x * z + 2 * y * w],
      [2 * x * y + 2 * z * w, 1 - 2 * x * x - 2 * z * z, 2 * y * z - 2 * x * w],
      [2 * x * z - 2 * y * w, 2 * y * z + 2 * x * w, 1 - 2 * x * x - 2 * y * y]]"
  by (simp add: quatToMatrix_def Let_def)

lemma quatToMatrix_column:
  assumes "x\<^sup>2 + y\<^sup>2 + z\<^sup>2 + w\<^sup>2 = (1::real)"
  shows "(2 * x * z - 2 * y * w)\<^sup>2 + (2 * y * z + 2 * x * w)\<^sup>2 + (1 - 2 * x * x - 2 * y * y)\<^sup>2 = 1"
  using assms by algebra

text \<open>in exact arithmetic \<^verbatim>\<open>quatToMatrix\<close> turns a unit quaternion into a rotation matrix: the
  columns are orthonormal and the third is the cross product of the others.\<close>

theorem quatToMatrix_rotation:
  assumes "length q = 4" "norm2 q = 1"
  shows "mat_mul (exact cs) (transpose_mat id (quatToMatrix (exact cs) q)) (quatToMatrix (exact cs) q) = identity 3
       \<and> cross_product (exact cs) (quatToMatrix (exact cs) q ! 0) (quatToMatrix (exact cs) q ! 1)
           = quatToMatrix (exact cs) q ! 2"
proof -
  obtain x y z w where q: "q = [x, y, z, w]" using assms(1) by (rule length_4_cases)
  have n: "x\<^sup>2 + y\<^sup>2 + z\<^sup>2 + w\<^sup>2 = 1" using assms(2) by (simp add: q norm2_4)
  let ?R = "quatToMatrix (exact cs) [x, y, z, w]"
  have "cross_product (exact cs) (?R ! 0) (?R ! 1) = ?R ! 2"
    unfolding quatToMatrix_exact nth_Cons_0 nth_Cons_Suc One_nat_def vec_3 numeral_2_eq_2
    using n by (simp add: vec_3) (safe; algebra)
  moreover have "mat_mul (exact cs) (transpose_mat id ?R) ?R = identity 3"
    unfolding quatToMatrix_exact
    using n by (simp add: mat_mul_def transpose_mat_def mat_doAssign_def upt_rec) (safe; algebra)
  ultimately show ?thesis by (simp add: q)
qed

lemma sqrt_quarter: "sqrt ((4 * x * x) * (1 / 4)) = \<bar>x :: real\<bar>"
  by (simp add: real_sqrt_mult_self flip: power2_eq_square)

lemma quat_clamp_nonneg: "0 \<le> v \<Longrightarrow> quat_clamp (exact cs) v = v"
  by (simp add: quat_clamp_def)

lemma copysign_restores:
  assumes "copysign_ok cs" "w \<noteq> 0" "s = 4 * x * w"
  shows "cs \<bar>x\<bar> s = (if w > 0 then x else - x)"
proof -
  have "cs 0 0 = 0" using assms(1) unfolding copysign_ok_def by (auto dest: spec [where x = 0])
  then show ?thesis
    using assms
    by (cases x "0 :: real" rule: linorder_cases; cases w "0 :: real" rule: linorder_cases)
      (auto simp: copysign_ok_def mult_neg_pos mult_neg_neg mult_pos_neg)
qed

text \<open>in exact arithmetic \<^verbatim>\<open>matrixToQuat\<close> inverts \<^verbatim>\<open>quatToMatrix\<close> on the unit quaternions
  whose \<open>w\<close> is not zero, up to the sign that the two quaternions of a rotation differ in: it returns
  the one with a positive \<open>w\<close>.\<close>

theorem matrixToQuat_roundtrip:
  assumes "length q = 4" "norm2 q = 1" "q ! 3 \<noteq> 0" "copysign_ok cs"
  shows "matrixToQuat (exact cs) (quatToMatrix (exact cs) q) = (if q ! 3 > 0 then q else map uminus q)"
proof -
  obtain x y z w where q: "q = [x, y, z, w]" using assms(1) by (rule length_4_cases)
  have n: "x\<^sup>2 + y\<^sup>2 + z\<^sup>2 + w\<^sup>2 = 1" "w \<noteq> 0" using assms(2,3) by (simp_all add: q norm2_4)
  have d: "1 - 2 * y * y - 2 * z * z - (1 - 2 * x * x - 2 * z * z) - (1 - 2 * x * x - 2 * y * y) + 1 = 4 * x * x"
    "- (1 - 2 * y * y - 2 * z * z) + (1 - 2 * x * x - 2 * z * z) - (1 - 2 * x * x - 2 * y * y) + 1 = 4 * y * y"
    "- (1 - 2 * y * y - 2 * z * z) - (1 - 2 * x * x - 2 * z * z) + (1 - 2 * x * x - 2 * y * y) + 1 = 4 * z * z"
    "1 - 2 * y * y - 2 * z * z + (1 - 2 * x * x - 2 * z * z) + (1 - 2 * x * x - 2 * y * y) + 1 = 4 * w * w"
    using n(1) by (simp_all add: algebra_simps power2_eq_square)
  have c: "quat_clamp (exact cs) (4 * a * a) = 4 * a * a" for a by (rule quat_clamp_nonneg) (simp add: mult.assoc)
  have e: "matrixToQuat (exact cs) (quatToMatrix (exact cs) q) =
      [cs \<bar>x\<bar> (2 * y * z + 2 * x * w - (2 * y * z - 2 * x * w)),
       cs \<bar>y\<bar> (2 * x * z + 2 * y * w - (2 * x * z - 2 * y * w)),
       cs \<bar>z\<bar> (2 * x * y + 2 * z * w - (2 * x * y - 2 * z * w)), \<bar>w\<bar>]"
    unfolding q quatToMatrix_exact matrixToQuat_def Let_def
    by (simp only: nth_Cons_0 nth_Cons_Suc One_nat_def numeral_2_eq_2 exact_simps id_apply d c sqrt_quarter)
  have r: "cs \<bar>x\<bar> (2 * y * z + 2 * x * w - (2 * y * z - 2 * x * w)) = (if w > 0 then x else - x)"
    "cs \<bar>y\<bar> (2 * x * z + 2 * y * w - (2 * x * z - 2 * y * w)) = (if w > 0 then y else - y)"
    "cs \<bar>z\<bar> (2 * x * y + 2 * z * w - (2 * x * y - 2 * z * w)) = (if w > 0 then z else - z)"
    by (rule copysign_restores [OF assms(4) n(2)]; simp)+
  show ?thesis
    unfolding e unfolding q using r n(2) by simp
qed

theorem matrixToQuat_roundtrip_witness:
  "let cs = (\<lambda>x y. if y < 0 then - \<bar>x\<bar> else \<bar>x\<bar>) in
   matrixToQuat (exact cs) (quatToMatrix (exact cs) [0, 3 / 5, 0, - 4 / 5]) = [0, - 3 / 5, 0, 4 / 5]"
  using matrixToQuat_roundtrip [of "[0, 3 / 5, 0, - 4 / 5]" "\<lambda>x y. if y < 0 then - \<bar>x\<bar> else \<bar>x\<bar>"]
  by (simp add: norm2_4 power2_eq_square copysign_ok_def)

end
