(* ===== verification/Fusion.thy ===== *)
theory Fusion
  imports Fusion_Quat Composite_Sensors
begin

text \<open>
  The attitude filter of \<^verbatim>\<open>sensors/core/CompositeSensors.cpp\<close>: an extended Kalman filter whose
  state is an attitude quaternion \<^verbatim>\<open>mX0\<close> and a gyroscope bias \<^verbatim>\<open>mX1\<close>, with the covariance
  \<^verbatim>\<open>mP\<close> in two by two blocks of three by three matrices, and the two sensors computed from it.
  The definitions are over any arithmetic \<open>A\<close>; the object is an extension of the record of
  \<^verbatim>\<open>CompositeSensorCore\<close>.
\<close>

section \<open>Constants\<close>

definition NOMINAL_GRAVITY :: "'a arith \<Rightarrow> 'a" where "NOMINAL_GRAVITY A = ar_num A 9.80665"

definition WVEC_EPS :: "'a arith \<Rightarrow> 'a" where
  "WVEC_EPS A = ar_div A (ar_num A 0.0001) (ar_num A 1.732)"

definition SYMMETRY_TOLERANCE :: "'a arith \<Rightarrow> 'a" where
  "SYMMETRY_TOLERANCE A = ar_num A 0.0000000001"

definition FREE_FALL_THRESHOLD :: "'a arith \<Rightarrow> 'a" where
  "FREE_FALL_THRESHOLD A = el_mul A (ar_num A 0.1) (NOMINAL_GRAVITY A)"

definition DEFAULT_ACC_STDEV :: "'a arith \<Rightarrow> 'a" where "DEFAULT_ACC_STDEV A = ar_num A 0.015"

definition DEFAULT_MAG_STDEV :: "'a arith \<Rightarrow> 'a" where "DEFAULT_MAG_STDEV A = ar_num A 0.1"

text \<open>These two are \<^verbatim>\<open>double\<close> literals.\<close>

definition DEFAULT_GYRO_VAR :: real where "DEFAULT_GYRO_VAR = 0.000001"

definition DEFAULT_GYRO_BIAS_VAR :: "'a arith \<Rightarrow> 'a" where
  "DEFAULT_GYRO_BIAS_VAR A = ar_narrow A (ar_dnum A 0.000000000001)"

section \<open>The object\<close>

record 'a fusion = CompositeSensorCore +
  mX0 :: "'a list"
  mX1 :: "'a list"
  mBa :: "'a list"
  mBm :: "'a list"
  mPhi :: "'a list list list list"
  mP :: "'a list list list list"
  mGQGt :: "'a list list list list"
  mLastTimestamp :: int

section \<open>Matrices of the filter\<close>

definition crossMatrix :: "'a arith \<Rightarrow> 'a list \<Rightarrow> 'a \<Rightarrow> 'a list list" where
  "crossMatrix A p diag =
     [[diag, p ! 2, ar_neg A (p ! 1)],
      [ar_neg A (p ! 2), diag, p ! 0],
      [p ! 1, ar_neg A (p ! 0), diag]]"

text \<open>One entry of \<^verbatim>\<open>scaleCovariance\<close>, accumulated in \<^verbatim>\<open>double\<close> and stored as \<^verbatim>\<open>float\<close>.\<close>

definition scale_entry :: "'a arith \<Rightarrow> 'a list list \<Rightarrow> 'a list list \<Rightarrow> nat \<Rightarrow> nat \<Rightarrow> 'a" where
  "scale_entry A m P r j =
     ar_narrow A (fold (\<lambda>c apat.
       let v = ar_dmul A (el_mul A (m ! c ! r) (P ! c ! c)) (ar_dnum A 0.5);
           v = fold (\<lambda>k v. ar_dadd A v (el_mul A (m ! k ! r) (P ! c ! k))) [c + 1..<3] v
       in ar_dadd A apat (ar_dmul A (ar_dmul A (ar_dnum A 2) v) (m ! c ! j))) [0..<3] (ar_dnum A 0))"

definition scaleCovariance :: "'a arith \<Rightarrow> 'a list list \<Rightarrow> 'a list list \<Rightarrow> 'a list list" where
  "scaleCovariance A m P =
     fold (\<lambda>r m'. fold (\<lambda>j m'. let apat = scale_entry A m P r j in
                          m'[j := (m' ! j)[r := apat], r := (m'[j := (m' ! j)[r := apat]] ! r)[j := apat]])
                   [r..<3] m')
       [0..<3] (mat_doAssign A 3 3 (ar_num A 0))"

definition getF :: "'a arith \<Rightarrow> 'a list \<Rightarrow> 'a list list" where
  "getF A q =
     (let neg = ar_neg A; x = q ! 0; y = q ! 1; z = q ! 2; w = q ! 3
      in [[w, z, neg y, neg x], [neg z, w, x, neg y], [y, neg x, w, neg z]])"

text \<open>The product of matrices of matrices, their sum and their transpose.\<close>

abbreviation block :: "'a arith \<Rightarrow> 'a list list elem" where
  "block A \<equiv> mat_elem 3 A"

definition zero_P :: "'a arith \<Rightarrow> 'a list list list list" where
  "zero_P A = mat_doAssign (block A) 2 2 (mat_doAssign A 3 3 (ar_num A 0))"

section \<open>The filter\<close>

definition checkState :: "'a arith \<Rightarrow> 'a fusion \<Rightarrow> 'a fusion" where
  "checkState A s =
     (if \<not> isPositiveSemidefinite A (mP s ! 0 ! 0) (SYMMETRY_TOLERANCE A)
       \<or> \<not> isPositiveSemidefinite A (mP s ! 1 ! 1) (SYMMETRY_TOLERANCE A)
      then s\<lparr>mP := zero_P A\<rparr> else s)"

text \<open>The corrected rotation rate, at least \<^verbatim>\<open>WVEC_EPS\<close> in every component when it is small.\<close>

definition corrected_rate :: "'a arith \<Rightarrow> 'a list \<Rightarrow> 'a list \<Rightarrow> 'a list" where
  "corrected_rate A w b =
     (let we = doSub A w b in
      if ar_less A (vec_length A we) (WVEC_EPS A)
      then vec_fill 3 (if ar_less A (ar_num A 0) (we ! 0) then WVEC_EPS A else ar_neg A (WVEC_EPS A))
      else we)"

text \<open>The rotation \<^verbatim>\<open>O\<close> of the quaternion for a rate and a time.\<close>

definition rotation_O :: "'a arith \<Rightarrow> 'a list \<Rightarrow> 'a \<Rightarrow> 'a list list" where
  "rotation_O A we dT =
     (let lwedT = el_mul A (vec_length A we) dT;
          hlwedT = el_mul A (ar_num A 0.5) lwedT;
          ilwe = ar_div A (ar_num A 1) (vec_length A we);
          k2 = ar_cos A hlwedT;
          psi = doScalarMul A (el_mul A (ar_sin A hlwedT) ilwe) we;
          O33 = crossMatrix A (vec_neg A psi) k2
      in [O33 ! 0 @ [ar_neg A (psi ! 0)], O33 ! 1 @ [ar_neg A (psi ! 1)], O33 ! 2 @ [ar_neg A (psi ! 2)],
          psi @ [k2]])"

text \<open>The two blocks of \<^verbatim>\<open>mPhi\<close> that \<^verbatim>\<open>predict\<close> computes.\<close>

definition Phi_blocks :: "'a arith \<Rightarrow> 'a list \<Rightarrow> 'a \<Rightarrow> 'a list list \<times> 'a list list" where
  "Phi_blocks A we dT =
     (let mul = el_mul A;
          I33 = mat_doAssign A 3 3 (ar_num A 1);
          I33dT = mat_doAssign A 3 3 dT;
          wx = crossMatrix A we (ar_num A 0);
          wx2 = mat_mul A wx wx;
          lwedT = mul (vec_length A we) dT;
          ilwe = ar_div A (ar_num A 1) (vec_length A we);
          k0 = mul (el_sub A (ar_num A 1) (ar_cos A lwedT)) (mul ilwe ilwe);
          k1 = ar_sin A lwedT
      in (mat_add A (mat_sub A I33 (mat_scale A wx (mul k1 ilwe))) (mat_scale A wx2 k0),
          mat_sub A (mat_sub A (mat_scale A wx k0) I33dT)
            (mat_scale A (mat_scale A wx2 (mul (mul ilwe ilwe) ilwe)) (el_sub A lwedT k1))))"

definition predict :: "'a arith \<Rightarrow> 'a list \<Rightarrow> 'a \<Rightarrow> 'a fusion \<Rightarrow> 'a fusion" where
  "predict A w dT s =
     (let we = corrected_rate A w (mX1 s);
          (Phi00, Phi10) = Phi_blocks A we dT;
          Phi = [[Phi00, mPhi s ! 0 ! 1], [Phi10, mPhi s ! 1 ! 1]];
          x0 = mat_vec_mul A (rotation_O A we dT) (mX0 s);
          x0 = (if ar_less A (x0 ! 3) (ar_num A 0) then vec_neg A x0 else x0);
          P = mat_add (block A)
                (mat_mul (block A) (mat_mul (block A) Phi (mP s)) (transpose_mat (transpose_mat id) Phi))
                (mGQGt s)
      in checkState A (s\<lparr>mPhi := Phi, mX0 := x0, mP := P\<rparr>))"

text \<open>The gain \<^verbatim>\<open>K\<close>.\<close>

definition kalman_gain :: "'a arith \<Rightarrow> 'a list list \<Rightarrow> 'a \<Rightarrow> 'a list list list list \<Rightarrow> 'a list list \<times> 'a list list" where
  "kalman_gain A L sigma P =
     (let R = mat_doAssign A 3 3 (el_mul A sigma sigma);
          S = mat_add A (scaleCovariance A L (P ! 0 ! 0)) R;
          Si = invert A S;
          LtSi = mat_mul A (transpose_mat id L) Si
      in (mat_mul A (P ! 0 ! 0) LtSi, mat_mul A (transpose_mat id (P ! 1 ! 0)) LtSi))"

text \<open>The covariance after the update. \<^verbatim>\<open>mP[1][1]\<close> is computed before \<^verbatim>\<open>mP[1][0]\<close> changes.\<close>

definition update_P :: "'a arith \<Rightarrow> 'a list list \<Rightarrow> 'a list list \<Rightarrow> 'a list list list list \<Rightarrow> 'a list list list list" where
  "update_P A K0L K1L P =
     (let P00 = mat_sub A (P ! 0 ! 0) (mat_mul A K0L (P ! 0 ! 0));
          P11 = mat_sub A (P ! 1 ! 1) (mat_mul A K1L (P ! 1 ! 0));
          P10 = mat_sub A (P ! 1 ! 0) (mat_mul A K0L (P ! 1 ! 0))
      in [[P00, transpose_mat id P10], [P10, P11]])"

definition update :: "'a arith \<Rightarrow> 'a list \<Rightarrow> 'a list \<Rightarrow> 'a \<Rightarrow> 'a fusion \<Rightarrow> 'a fusion" where
  "update A z Bi sigma s =
     (let q = mX0 s;
          Bb = mat_vec_mul A (quatToMatrix A q) Bi;
          L = crossMatrix A Bb (ar_num A 0);
          (K0, K1) = kalman_gain A L sigma (mP s);
          P = update_P A (mat_mul A K0 L) (mat_mul A K1 L) (mP s);
          e = doSub A z Bb;
          dq = mat_vec_mul A K0 e;
          q = vec_plus_assign A q (mat_vec_mul A (getF A q) (doScalarMul A (ar_num A 0.5) dq));
          db = mat_vec_mul A K1 e
      in checkState A (s\<lparr>mP := P, mX0 := normalize_quat A q, mX1 := vec_plus_assign A (mX1 s) db\<rparr>))"

section \<open>Initialisation\<close>

definition getOrthogonal :: "'a arith \<Rightarrow> 'a list \<Rightarrow> 'a list" where
  "getOrthogonal A v =
     (let abs = ar_abs A; le = ar_le A; zero = ar_num A 0;
          w = (if le (abs (v ! 0)) (abs (v ! 1)) \<and> le (abs (v ! 0)) (abs (v ! 2))
               then [zero, v ! 2, ar_neg A (v ! 1)]
               else if le (abs (v ! 1)) (abs (v ! 2)) then [v ! 2, zero, ar_neg A (v ! 0)]
               else [v ! 1, ar_neg A (v ! 0), zero])
      in normalize A w)"

text \<open>\<open>cs_mGyroVar\<close> holds the decimal number; its conversion to \<^verbatim>\<open>float\<close> is written where it is used.\<close>

definition initFusion :: "'a arith \<Rightarrow> 'a list \<Rightarrow> 'a fusion \<Rightarrow> 'a fusion" where
  "initFusion A q s =
     (let mul = el_mul A; num = ar_num A; bias = DEFAULT_GYRO_BIAS_VAR A;
          gyroVar = (if cs_mGyroVar s = 0 then DEFAULT_GYRO_VAR else cs_mGyroVar s);
          dT = ar_div A (ar_of_int A (cs_mSamplingPeriodNs s)) (num 1000000000);
          dT2 = mul dT dT;
          dT3 = mul dT2 dT;
          q00 = el_add A (mul (ar_narrow A (ar_dnum A gyroVar)) dT) (mul (mul (num 0.33333) bias) dT3);
          q11 = mul bias dT;
          q10 = mul (mul (num 0.5) bias) dT2;
          q01 = q10;
          diag = mat_doAssign A 3 3
      in s\<lparr>cs_mGyroVar := gyroVar, mBa := [num 0, num 0, num 1], mBm := [num 0, num 1, num 0],
           mX0 := q, mX1 := vec_fill 3 (num 0),
           mGQGt := [[diag q00, diag (ar_neg A q01)], [diag (ar_neg A q10), diag q11]],
           mP := zero_P A\<rparr>)"

definition initRodrParams :: "'a arith \<Rightarrow> 'a list \<Rightarrow> 'a fusion \<Rightarrow> 'a fusion" where
  "initRodrParams A acc s =
     (let up = normalize A acc;
          east = getOrthogonal A up;
          north = cross_product A up east
      in initFusion A (matrixToQuat A [east, north, up]) s)"

section \<open>Gravity\<close>

text \<open>A reading whose data are numbers of the arithmetic.\<close>

record 'a fvalues =
  fv_timestamp :: int
  fv_data :: "'a list"

definition of_values :: "'a arith \<Rightarrow> SensorValues \<Rightarrow> 'a fvalues" where
  "of_values A v = \<lparr>fv_timestamp = sv_timestamp v, fv_data = map (ar_num A) (sv_data v)\<rparr>"

definition correct_gravity :: "'a arith \<Rightarrow> 'a list \<Rightarrow> 'a fusion \<Rightarrow> 'a fusion" where
  "correct_gravity A accel s =
     (let l = vec_length A accel in
      if ar_le A (FREE_FALL_THRESHOLD A) l
      then let l_inv = ar_div A (ar_num A 1) l;
               m = mat_vec_mul A (quatToMatrix A (mX0 s)) (mBm s);
               s1 = update A m (mBm s) (DEFAULT_MAG_STDEV A) s;
               unityA = doMulScalar A accel l_inv;
               d = ar_sqrt A (ar_abs A (el_sub A l (NOMINAL_GRAVITY A)));
               p = el_mul A (el_mul A l_inv (DEFAULT_ACC_STDEV A)) (ar_exp A d)
           in update A unityA (mBa s1) p s1
      else s)"

text \<open>The gravity for one pair of readings; the elements of the vectors are accessed without a
  check, so that a missing reading or a short one is undefined behaviour.\<close>

definition calculateGravity ::
  "'a arith \<Rightarrow> 'a fvalues list \<Rightarrow> 'a fvalues list \<Rightarrow> 'a fusion \<Rightarrow> cpp_exception + 'a fvalues \<times> 'a fusion" where
  "calculateGravity A accValues gyroValues s =
     (case (accValues, gyroValues) of
        (acc # _, gyro # _) \<Rightarrow>
          if length (fv_data acc) < 3 \<or> length (fv_data gyro) < 3 then Inl Undefined_behaviour
          else
            let accel = take 3 (fv_data acc);
                s1 = (if cs_mJustStarted s then (initRodrParams A accel s)\<lparr>cs_mJustStarted := False\<rparr> else s);
                s2 = correct_gravity A accel s1;
                pulse = take 3 (fv_data gyro);
                deltaTime = ar_of_int A (i64 (fv_timestamp gyro - mLastTimestamp s2));
                s3 = s2\<lparr>mLastTimestamp := fv_timestamp gyro\<rparr>;
                s4 = predict A pulse (ar_div A deltaTime (ar_num A 1000000000)) s3;
                g = doMulScalar A (quatToMatrix A (mX0 s4) ! 2) (NOMINAL_GRAVITY A)
            in Inr (\<lparr>fv_timestamp = mLastTimestamp s4, fv_data = g\<rparr>, s4)
      | _ \<Rightarrow> Inl Undefined_behaviour)"

section \<open>The two sensors\<close>

text \<open>The readings of the parts: the last accelerometer and the last gyroscope of the list count.
  \<open>now i\<close> is the time at which part \<open>i\<close> is read.\<close>

fun read_parts ::
  "float_ops \<Rightarrow> sysfs \<Rightarrow> (nat \<Rightarrow> int) \<Rightarrow> SensorCore list \<Rightarrow> nat list \<Rightarrow> SensorValues list \<times> SensorValues list
     \<Rightarrow> cpp_exception + SensorValues list \<times> SensorValues list" where
  "read_parts fo fs now cores [] vals = Inr vals"
| "read_parts fo fs now cores (i # deps) vals =
     (if sd_type (mSensorData (cores ! i)) = ACCEL
      then case SensorCore_readSensorValues fo fs (now i) (cores ! i) of
             Inl e \<Rightarrow> Inl e
           | Inr accValues \<Rightarrow> read_parts fo fs now cores deps (accValues, snd vals)
      else if sd_type (mSensorData (cores ! i)) = GYRO
      then case SensorCore_readSensorValues fo fs (now i) (cores ! i) of
             Inl e \<Rightarrow> Inl e
           | Inr gyroValues \<Rightarrow> read_parts fo fs now cores deps (fst vals, gyroValues)
      else read_parts fo fs now cores deps vals)"

definition Gravity_readSensorValues ::
  "'a arith \<Rightarrow> float_ops \<Rightarrow> sysfs \<Rightarrow> (nat \<Rightarrow> int) \<Rightarrow> SensorCore list \<Rightarrow> 'a fusion
     \<Rightarrow> cpp_exception + 'a fvalues list \<times> 'a fusion" where
  "Gravity_readSensorValues A fo fs now cores s =
     (case read_parts fo fs now cores (cs_mDependencyList s) ([], []) of
        Inl e \<Rightarrow> Inl e
      | Inr (accValues, gyroValues) \<Rightarrow>
          (case calculateGravity A (map (of_values A) accValues) (map (of_values A) gyroValues) s of
             Inl e \<Rightarrow> Inl e
           | Inr (result, s') \<Rightarrow> Inr ([result], s')))"

definition LinearAcceleration_readSensorValues ::
  "'a arith \<Rightarrow> float_ops \<Rightarrow> sysfs \<Rightarrow> (nat \<Rightarrow> int) \<Rightarrow> SensorCore list \<Rightarrow> 'a fusion
     \<Rightarrow> cpp_exception + 'a fvalues list \<times> 'a fusion" where
  "LinearAcceleration_readSensorValues A fo fs now cores s =
     (case read_parts fo fs now cores (cs_mDependencyList s) ([], []) of
        Inl e \<Rightarrow> Inl e
      | Inr (accValues, gyroValues) \<Rightarrow>
          (case calculateGravity A (map (of_values A) accValues) (map (of_values A) gyroValues) s of
             Inl e \<Rightarrow> Inl e
           | Inr (result, s') \<Rightarrow>
               let acc = of_values A (hd accValues) in
               Inr ([acc\<lparr>fv_data := doSub A (take 3 (fv_data acc)) (fv_data result) @ drop 3 (fv_data acc)\<rparr>], s')))"

end
