(* ===== verification/Fusion_Shape.thy ===== *)
theory Fusion_Shape
  imports Fusion
begin

text \<open>
  The static sizes of the C++ types as an invariant, for every arithmetic: vectors and matrices
  keep the sizes their template arguments fix, so that every access the filter makes is inside
  its array. The only accesses without a bound are those to the readings.
\<close>

section \<open>Shapes\<close>

definition blocks_ok :: "'a list list list list \<Rightarrow> bool" where
  "blocks_ok P \<longleftrightarrow> length P = 2 \<and> (\<forall>i<2. length (P ! i) = 2 \<and> (\<forall>j<2. is_mat 3 3 (P ! i ! j)))"

definition fusion_shape :: "'a fusion \<Rightarrow> bool" where
  "fusion_shape s \<longleftrightarrow> length (mX0 s) = 4 \<and> length (mX1 s) = 3 \<and> length (mBa s) = 3 \<and> length (mBm s) = 3
     \<and> blocks_ok (mPhi s) \<and> blocks_ok (mP s) \<and> blocks_ok (mGQGt s)"

lemma less_2_cases: "(\<forall>i<2. P i) \<longleftrightarrow> P 0 \<and> P (Suc 0)"
  by (auto simp: less_2_cases_iff)

lemma blocks_ok_simps [simp]:
  "blocks_ok [[a, b], [c, d]] \<longleftrightarrow> is_mat 3 3 a \<and> is_mat 3 3 b \<and> is_mat 3 3 c \<and> is_mat 3 3 d"
  by (auto simp: blocks_ok_def less_2_cases)

lemma blocks_okD:
  assumes "blocks_ok P"
  shows "length P = 2" "length (P ! 0) = 2" "length (P ! 1) = 2" "is_mat 3 3 (P ! 0 ! 0)" "is_mat 3 3 (P ! 0 ! 1)"
    "is_mat 3 3 (P ! 1 ! 0)" "is_mat 3 3 (P ! 1 ! 1)"
  using assms by (simp_all add: blocks_ok_def)

lemmas block_shapes = blocks_okD blocks_okD [unfolded One_nat_def]

lemma block_ops [simp]: "el_add (mat_elem n E) = mat_add E" "el_sub (mat_elem n E) = mat_sub E"
  "el_mul (mat_elem n E) = mat_mul E" "el_zero (mat_elem n E) = mat_doAssign E n n (el_zero E)"
  by (simp_all add: mat_elem_def)

lemma crossMatrix_shape [simp]: "is_mat 3 3 (crossMatrix A p d)"
  by (simp add: is_mat_def crossMatrix_def less_Suc_eq eval_nat_numeral)

lemma quatToMatrix_shape [simp]: "is_mat 3 3 (quatToMatrix A q)"
  by (simp add: is_mat_def quatToMatrix_def Let_def less_Suc_eq eval_nat_numeral)

lemma mat_vec_mul_length: "is_mat C R m \<Longrightarrow> C > 0 \<Longrightarrow> length (mat_vec_mul E m v) = R"
  by (simp add: is_mat_def mat_vec_mul_def)

subsection \<open>Inversion\<close>

lemma fold_keeps: "(\<And>x s. x \<in> set xs \<Longrightarrow> P s \<Longrightarrow> P (f x s)) \<Longrightarrow> P s \<Longrightarrow> P (fold f xs s)"
  by (induction xs arbitrary: s) auto

lemma row_ops_shape:
  "is_mat n n m \<Longrightarrow> is_mat n n (scale_row A i t m)" "is_mat n n m \<Longrightarrow> is_mat n n (eliminate_row A i j t m)"
  unfolding scale_row_def eliminate_row_def by (rule is_mat_update; simp add: is_mat_def)+

lemma swap_rows_shape: "is_mat n n m \<Longrightarrow> i < n \<Longrightarrow> j < n \<Longrightarrow> is_mat n n (swap_rows i j m)"
  unfolding swap_rows_def by (intro is_mat_update) (simp_all add: is_mat_def)

lemma invert_swap_bound: "i < length m \<Longrightarrow> invert_swap A i m < length m"
  unfolding invert_swap_def
  by (rule fold_keeps [where P = "\<lambda>w. w < length m"]) auto

definition square_pair :: "nat \<Rightarrow> 'a list list \<times> 'a list list \<Rightarrow> bool" where
  "square_pair n s \<longleftrightarrow> is_mat n n (fst s) \<and> is_mat n n (snd s)"

lemma invert_eliminate_shape: "square_pair n s \<Longrightarrow> square_pair n (invert_eliminate A i j s)"
  by (simp add: square_pair_def invert_eliminate_def Let_def row_ops_shape)

lemma invert_step_shape:
  assumes "square_pair n s" "i < n"
  shows "square_pair n (invert_step A i s)"
proof -
  define w where "w = invert_swap A i (fst s)"
  define s1 where "s1 = (if w \<noteq> i then (swap_rows i w (fst s), swap_rows i w (snd s)) else s)"
  define t where "t = ar_div A (ar_num A 1) (fst s1 ! i ! i)"
  have "w < n" using invert_swap_bound [of i "fst s" A] assms by (simp add: w_def is_mat_def square_pair_def)
  then have "square_pair n s1" using assms by (simp add: s1_def swap_rows_shape square_pair_def)
  then have s2: "square_pair n (scale_row A i t (fst s1), scale_row A i t (snd s1))"
    by (simp add: row_ops_shape square_pair_def)
  have "invert_step A i s = fold (invert_eliminate A i) [0..<length (fst s)]
      (scale_row A i t (fst s1), scale_row A i t (snd s1))"
    unfolding invert_step_def Let_def w_def [symmetric] s1_def [symmetric] t_def [symmetric] by (rule refl)
  moreover have "square_pair n (fold (invert_eliminate A i) [0..<length (fst s)]
      (scale_row A i t (fst s1), scale_row A i t (snd s1)))"
    by (rule fold_keeps [where P = "square_pair n"]) (use s2 invert_eliminate_shape in blast)+
  ultimately show ?thesis by simp
qed

lemma invert_shape: "is_mat n n m \<Longrightarrow> is_mat n n (invert A m)"
proof -
  assume m: "is_mat n n m"
  then have "length m = n" by (simp add: is_mat_def)
  have "square_pair n (fold (invert_step A) [0..<n] (m, mat_doAssign A n n (ar_num A 1)))"
    by (rule fold_keeps [where P = "square_pair n"]) (simp_all add: invert_step_shape, simp add: m square_pair_def)
  then show ?thesis by (simp add: invert_def square_pair_def \<open>length m = n\<close>)
qed

subsection \<open>The blocks\<close>

lemma scaleCovariance_shape: "is_mat 3 3 (scaleCovariance A m P)"
proof -
  have *: "is_mat 3 3 (m'[j := (m' ! j)[r := a], r := (m'[j := (m' ! j)[r := a]] ! r)[j := a]])"
    if "is_mat 3 3 m'" "r < 3" "j < 3" for m' :: "'a list list" and j r a
  proof -
    have "is_mat 3 3 (m'[j := (m' ! j)[r := a]])"
      using that by (intro is_mat_update) (simp_all add: is_mat_def)
    then show ?thesis using that by (intro is_mat_update) (simp_all add: is_mat_def)
  qed
  show ?thesis
    unfolding scaleCovariance_def Let_def
    by (rule fold_keeps [where P = "is_mat 3 3"], rule fold_keeps [where P = "is_mat 3 3"]) (auto intro: *)
qed

lemma mat_mul_3: "is_mat 3 3 a \<Longrightarrow> is_mat 3 3 b \<Longrightarrow> is_mat 3 3 (mat_mul E a b)"
  "is_mat 3 3 a \<Longrightarrow> is_mat 3 3 (transpose_mat tr a)"
  by (rule square_closed; simp)+

lemma kalman_gain_shape:
  assumes "blocks_ok P" "kalman_gain A (crossMatrix A p d) sigma P = (K0, K1)"
  shows "is_mat 3 3 K0" "is_mat 3 3 K1"
proof -
  define S where "S = mat_add A (scaleCovariance A (crossMatrix A p d) (P ! 0 ! 0)) (mat_doAssign A 3 3 (el_mul A sigma sigma))"
  have "is_mat 3 3 S" by (simp add: S_def scaleCovariance_shape)
  then have "is_mat 3 3 (mat_mul A (transpose_mat id (crossMatrix A p d)) (invert A S))"
    by (simp add: mat_mul_3 invert_shape)
  moreover have "K0 = mat_mul A (P ! 0 ! 0) (mat_mul A (transpose_mat id (crossMatrix A p d)) (invert A S))"
    "K1 = mat_mul A (transpose_mat id (P ! 1 ! 0)) (mat_mul A (transpose_mat id (crossMatrix A p d)) (invert A S))"
    using assms(2) by (simp_all add: kalman_gain_def Let_def S_def)
  ultimately show "is_mat 3 3 K0" "is_mat 3 3 K1" using blocks_okD [OF assms(1)] by (simp_all add: mat_mul_3)
qed

lemma update_P_shape: "blocks_ok P \<Longrightarrow> blocks_ok (update_P A a b P)"
  by (auto simp: update_P_def Let_def block_shapes mat_mul_3)

lemma block_fold_shape:
  "is_mat 3 3 z \<Longrightarrow> is_mat 3 3 (fold (\<lambda>k v. el_add (block A) v (f k)) ks z)"
  by (rule fold_keeps [where P = "is_mat 3 3"]) auto

lemma block_mul_shape:
  assumes "length l = 2" "length (l ! 0) = 2" "length r = 2"
  shows "blocks_ok (mat_mul (block A) l r)"
proof -
  have "is_mat 3 3 (el_zero (block A))" by simp
  then show ?thesis using assms
    by (auto simp: blocks_ok_def mat_mul_def [of "block A"] simp del: block_ops intro!: block_fold_shape)
qed

lemma block_add_shape: "blocks_ok l \<Longrightarrow> blocks_ok (mat_add (block A) l r)"
  by (simp add: blocks_ok_def mat_add_def [of "block A"] vec_elem_def)

lemma block_transpose_length: "blocks_ok P \<Longrightarrow> length (transpose_mat tr P) = 2"
  by (simp add: blocks_ok_def transpose_mat_def)

lemma zero_P_shape: "blocks_ok (zero_P A)"
  by (simp add: blocks_ok_def zero_P_def mat_doAssign_def less_2_cases is_mat_def)

lemma checkState_simps [simp]:
  "mX0 (checkState A s) = mX0 s" "mX1 (checkState A s) = mX1 s" "mBa (checkState A s) = mBa s"
  "mBm (checkState A s) = mBm s" "mPhi (checkState A s) = mPhi s" "mGQGt (checkState A s) = mGQGt s"
  "mLastTimestamp (checkState A s) = mLastTimestamp s" "cs_mJustStarted (checkState A s) = cs_mJustStarted s"
  "mP (checkState A s) = mP s \<or> mP (checkState A s) = zero_P A"
  by (simp_all add: checkState_def)

lemma checkState_shape: "fusion_shape s \<Longrightarrow> fusion_shape (checkState A s)"
  by (simp add: fusion_shape_def checkState_def zero_P_shape)

section \<open>The operations\<close>

lemma Phi_blocks_shape:
  "Phi_blocks A we dT = (a, b) \<Longrightarrow> is_mat 3 3 a \<and> is_mat 3 3 b"
  by (auto simp: Phi_blocks_def Let_def mat_mul_3)

lemma corrected_rate_length: "length w = 3 \<Longrightarrow> length (corrected_rate A w b) = 3"
  by (simp add: corrected_rate_def Let_def)

lemma rotation_O_shape: "length we = 3 \<Longrightarrow> is_mat 4 4 (rotation_O A we dT)"
  by (elim length_3_cases)
    (simp add: rotation_O_def Let_def vec_3 crossMatrix_def is_mat_def less_Suc_eq eval_nat_numeral)

lemma predict_shape:
  assumes "fusion_shape s" "length w = 3"
  shows "fusion_shape (predict A w dT s)"
proof -
  define we where "we = corrected_rate A w (mX1 s)"
  obtain a b where ab: "Phi_blocks A we dT = (a, b)" by (metis surj_pair)
  have len: "length we = 3" using assms(2) by (simp add: we_def corrected_rate_length)
  have b: "blocks_ok [[a, mPhi s ! 0 ! 1], [b, mPhi s ! 1 ! 1]]"
    using Phi_blocks_shape [OF ab] assms(1) blocks_okD [of "mPhi s"] by (simp add: fusion_shape_def)
  have "length (mat_vec_mul A (rotation_O A we dT) (mX0 s)) = 4"
    using mat_vec_mul_length [OF rotation_O_shape [OF len]] by simp
  moreover have "blocks_ok (mat_mul (block A) [[a, mPhi s ! 0 ! 1], [b, mPhi s ! 1 ! 1]] (mP s))"
    using assms(1) by (intro block_mul_shape) (simp_all add: fusion_shape_def blocks_ok_def)
  then have "blocks_ok (mat_mul (block A)
      (mat_mul (block A) [[a, mPhi s ! 0 ! 1], [b, mPhi s ! 1 ! 1]] (mP s))
      (transpose_mat (transpose_mat id) [[a, mPhi s ! 0 ! 1], [b, mPhi s ! 1 ! 1]]))"
    by (intro block_mul_shape) (simp_all add: block_shapes transpose_mat_def)
  ultimately show ?thesis
    using assms(1) b unfolding predict_def Let_def we_def [symmetric] ab prod.case
    by (intro checkState_shape) (simp add: fusion_shape_def block_add_shape)
qed

lemma getF_shape: "is_mat 3 4 (getF A q)"
  by (simp add: is_mat_def getF_def Let_def less_Suc_eq eval_nat_numeral)

lemma normalize_quat_length [simp]: "length (normalize_quat A q) = length q"
  by (simp add: normalize_quat_def Let_def)

lemma update_shape:
  assumes "fusion_shape s"
  shows "fusion_shape (update A z Bi sigma s)"
proof -
  let ?L = "crossMatrix A (mat_vec_mul A (quatToMatrix A (mX0 s)) Bi) (ar_num A 0)"
  obtain K0 K1 where K: "kalman_gain A ?L sigma (mP s) = (K0, K1)" by (metis surj_pair)
  show ?thesis
    using assms unfolding update_def Let_def K prod.case
    by (intro checkState_shape) (simp add: fusion_shape_def update_P_shape assign_operators)
qed

lemma initFusion_shape: "fusion_shape s \<Longrightarrow> length q = 4 \<Longrightarrow> fusion_shape (initFusion A q s)"
  by (simp add: fusion_shape_def initFusion_def Let_def zero_P_shape)

lemma initRodrParams_shape: "fusion_shape s \<Longrightarrow> fusion_shape (initRodrParams A acc s)"
  unfolding initRodrParams_def Let_def
  by (rule initFusion_shape) (simp_all add: matrixToQuat_def Let_def)

lemma fusion_shape_update_other [simp]:
  "fusion_shape (s\<lparr>cs_mJustStarted := j\<rparr>) = fusion_shape s" "fusion_shape (s\<lparr>mLastTimestamp := t\<rparr>) = fusion_shape s"
  by (simp_all add: fusion_shape_def)

lemma correct_gravity_shape: "fusion_shape s \<Longrightarrow> fusion_shape (correct_gravity A accel s)"
  by (simp add: correct_gravity_def Let_def update_shape)

text \<open>What \<^verbatim>\<open>calculateGravity\<close> returns when the readings are there, in steps.\<close>

definition gravity_start :: "'a arith \<Rightarrow> 'a list \<Rightarrow> 'a fusion \<Rightarrow> 'a fusion" where
  "gravity_start A accel s =
     (if cs_mJustStarted s then (initRodrParams A accel s)\<lparr>cs_mJustStarted := False\<rparr> else s)"

lemma calculateGravity_steps:
  assumes "calculateGravity A accs gyros s = Inr (r, s')"
  obtains acc gyro dT where "accs \<noteq> []" "gyros \<noteq> []" "acc = hd accs" "gyro = hd gyros"
    "3 \<le> length (fv_data acc)" "3 \<le> length (fv_data gyro)"
    "s' = predict A (take 3 (fv_data gyro)) dT
            ((correct_gravity A (take 3 (fv_data acc)) (gravity_start A (take 3 (fv_data acc)) s))
               \<lparr>mLastTimestamp := fv_timestamp gyro\<rparr>)"
    "fv_data r = doMulScalar A (quatToMatrix A (mX0 s') ! 2) (NOMINAL_GRAVITY A)"
  using assms
  by (auto simp: calculateGravity_def gravity_start_def Let_def split: list.splits if_splits)


text \<open>A \<^verbatim>\<open>copysignf\<close>, a filter object and readings for the examples.\<close>

definition example_copysign :: "real \<Rightarrow> real \<Rightarrow> real" where
  "example_copysign x y = (if y < 0 then - \<bar>x\<bar> else \<bar>x\<bar>)"

lemma example_copysign_ok [simp]: "copysign_ok example_copysign"
  by (auto simp: copysign_ok_def example_copysign_def)

definition junk_fusion :: "'a \<Rightarrow> 'a fusion" where
  "junk_fusion a =
     (let block = replicate 3 (replicate 3 a); blocks = [[block, block], [block, block]] in
      CompositeSensorCore.extend (CompositeSensorCore_init\<lparr>cs_mJustStarted := True\<rparr>)
        \<lparr>mX0 = [a, a, a, a], mX1 = [a, a, a], mBa = [a, a, a], mBm = [a, a, a], mPhi = blocks, mP = blocks,
         mGQGt = blocks, mLastTimestamp = 0\<rparr>)"

lemma junk_fusion_shape: "fusion_shape (junk_fusion a)"
  by (simp add: fusion_shape_def junk_fusion_def Let_def CompositeSensorCore.defs is_mat_def
      blocks_ok_def less_2_cases)

lemma junk_fusion_started: "cs_mJustStarted (junk_fusion a)"
  by (simp add: junk_fusion_def Let_def CompositeSensorCore.defs)

definition at_rest :: "real fvalues list \<times> real fvalues list" where
  "at_rest = ([\<lparr>fv_timestamp = 10, fv_data = [0, 3, 4]\<rparr>], [\<lparr>fv_timestamp = 20, fv_data = [0, 0, 0]\<rparr>])"

lemma at_rest_returns:
  "\<exists>r s'. calculateGravity A (fst at_rest) (snd at_rest) s = Inr (r, s')"
  by (simp add: calculateGravity_def at_rest_def Let_def)


end
