(* ===== verification/Fusion_Attitude.thy ===== *)
theory Fusion_Attitude
  imports Fusion_Shape
begin

text \<open>
  The attitude part of the filter in exact arithmetic: the first attitude points the third axis
  along the measured acceleration, prediction and update keep the quaternion a unit quaternion,
  and so the gravity that is reported always has the nominal magnitude.
\<close>

section \<open>Orthonormal frames\<close>

text \<open>The frame of \<^verbatim>\<open>initRodrParams\<close>: \<open>a\<close> and \<open>c\<close> are orthogonal unit vectors, \<open>b\<close> is the cross
  product of \<open>c\<close> and \<open>a\<close>.\<close>

definition frame :: "real \<times> real \<times> real \<Rightarrow> real \<times> real \<times> real \<Rightarrow> real \<times> real \<times> real \<Rightarrow> bool" where
  "frame a b c = (case (a, b, c) of ((a0, a1, a2), (b0, b1, b2), (c0, c1, c2)) \<Rightarrow>
     a0\<^sup>2 + a1\<^sup>2 + a2\<^sup>2 = 1 \<and> c0\<^sup>2 + c1\<^sup>2 + c2\<^sup>2 = 1 \<and> a0 * c0 + a1 * c1 + a2 * c2 = 0
     \<and> b0 = c1 * a2 - c2 * a1 \<and> b1 = c2 * a0 - c0 * a2 \<and> b2 = c0 * a1 - c1 * a0)"

lemma frame_products:
  assumes "frame (a0, a1, a2) (b0, b1, b2) (c0, c1, c2)"
  shows "(a0 - b1 - c2 + 1) * (a0 + b1 + c2 + 1) = (c1 - b2)\<^sup>2"
    "(- a0 + b1 - c2 + 1) * (a0 + b1 + c2 + 1) = (a2 - c0)\<^sup>2"
    "(- a0 - b1 + c2 + 1) * (a0 + b1 + c2 + 1) = (b0 - a1)\<^sup>2"
    "(a0 - b1 - c2 + 1) * (- a0 + b1 - c2 + 1) = (a1 + b0)\<^sup>2"
    "(a0 - b1 - c2 + 1) * (- a0 - b1 + c2 + 1) = (a2 + c0)\<^sup>2"
    "(- a0 + b1 - c2 + 1) * (- a0 - b1 + c2 + 1) = (b2 + c1)\<^sup>2"
    "(c1 - b2) * (b0 - a1) = (a2 + c0) * (a0 + b1 + c2 + 1)"
    "(a2 - c0) * (b0 - a1) = (b2 + c1) * (a0 + b1 + c2 + 1)"
  using assms unfolding frame_def prod.case by algebra+

lemma four_nonneg:
  fixes X Y Z W :: real
  assumes "X * W \<ge> 0" "Y * W \<ge> 0" "Z * W \<ge> 0" "X * Y \<ge> 0" "X * Z \<ge> 0" "Y * Z \<ge> 0" "X + Y + Z + W = 4"
  shows "X \<ge> 0 \<and> Y \<ge> 0 \<and> Z \<ge> 0 \<and> W \<ge> 0"
  using assms by (auto simp: zero_le_mult_iff)

lemma frame_nonneg:
  assumes "frame (a0, a1, a2) (b0, b1, b2) (c0, c1, c2)"
  shows "0 \<le> a0 - b1 - c2 + 1" "0 \<le> - a0 + b1 - c2 + 1" "0 \<le> - a0 - b1 + c2 + 1" "0 \<le> a0 + b1 + c2 + 1"
  using four_nonneg [of "a0 - b1 - c2 + 1" "a0 + b1 + c2 + 1" "- a0 + b1 - c2 + 1" "- a0 - b1 + c2 + 1"]
    frame_products [OF assms] by simp_all

lemma copysign_square: "copysign_ok cs \<Longrightarrow> 0 \<le> X \<Longrightarrow> (cs (sqrt (X * (1 / 4))) s)\<^sup>2 = X / 4"
  using power2_abs [of "cs (sqrt (X * (1 / 4))) s"] by (simp add: copysign_ok_def)

lemma copysign_zero: "copysign_ok cs \<Longrightarrow> cs 0 s = 0"
  unfolding copysign_ok_def by (drule spec [of _ 0]) simp

lemma copysign_product:
  assumes "copysign_ok cs" "0 \<le> X" "0 \<le> W" "X * W = s\<^sup>2"
  shows "cs (sqrt (X * (1 / 4))) s * sqrt (W * (1 / 4)) = s / 4"
proof -
  have r: "sqrt (X * (1 / 4)) * sqrt (W * (1 / 4)) = \<bar>s\<bar> / 4"
  proof -
    have "X * (1 / 4) * (W * (1 / 4)) = (s / 4)\<^sup>2" using assms(4) by (simp add: power2_eq_square)
    then show ?thesis by (simp flip: real_sqrt_mult)
  qed
  have "\<bar>cs (sqrt (X * (1 / 4))) s\<bar> = sqrt (X * (1 / 4))" using assms(1,2) by (simp add: copysign_ok_def)
  then show ?thesis
    using r assms(1) copysign_zero [OF assms(1)]
    by (cases s "0 :: real" rule: linorder_cases) (auto simp: copysign_ok_def)
qed

text \<open>The quaternion of a frame is a unit quaternion, and its third axis is that of the frame,
  unless the frame is a half turn (\<open>w = 0\<close>), for which the signs of \<open>x\<close>, \<open>y\<close> and \<open>z\<close> are lost; it
  still is for the half turn to \<open>[0, 0, -1]\<close>.\<close>

lemma matrixToQuat_frame:
  assumes "frame (a0, a1, a2) (b0, b1, b2) (c0, c1, c2)" "copysign_ok cs"
    and "a0 + b1 + c2 + 1 = 0 \<Longrightarrow> (c0, c1, c2) = (0, 0, -1)"
    and "q = matrixToQuat (exact cs) [[a0, a1, a2], [b0, b1, b2], [c0, c1, c2]]"
  shows "length q = 4" "norm2 q = 1" "q ! 3 \<ge> 0" "quatToMatrix (exact cs) q ! 2 = [c0, c1, c2]"
proof -
  note P = frame_products [OF assms(1)] and N = frame_nonneg [OF assms(1)]
  define X Y Z W where D: "X = a0 - b1 - c2 + 1" "Y = - a0 + b1 - c2 + 1" "Z = - a0 - b1 + c2 + 1" "W = a0 + b1 + c2 + 1"
  define x y z w where d: "x = cs (sqrt (X * (1 / 4))) (c1 - b2)" "y = cs (sqrt (Y * (1 / 4))) (a2 - c0)"
    "z = cs (sqrt (Z * (1 / 4))) (b0 - a1)" "w = sqrt (W * (1 / 4))"
  have q: "q = [x, y, z, w]"
    unfolding assms(4) matrixToQuat_def Let_def
    by (simp only: nth_Cons_0 nth_Cons_Suc One_nat_def numeral_2_eq_2 exact_simps id_apply
        quat_clamp_nonneg N d D)
  have sq: "x\<^sup>2 = X / 4" "y\<^sup>2 = Y / 4" "z\<^sup>2 = Z / 4" "w\<^sup>2 = W / 4"
    using copysign_square [OF assms(2)] N by (simp_all add: d D)
  have pw: "x * w = (c1 - b2) / 4" "y * w = (a2 - c0) / 4" "z * w = (b0 - a1) / 4"
    unfolding d D by (rule copysign_product [OF assms(2) _ N(4)]; (rule N P)+)+
  show "length q = 4" by (simp add: q)
  show "norm2 q = 1" by (simp add: q norm2_4 sq D field_simps)
  show "q ! 3 \<ge> 0" using N(4) by (simp add: q d D)
  have "2 * x * z - 2 * y * w = c0 \<and> 2 * y * z + 2 * x * w = c1"
  proof (cases "W = 0")
    case True
    then have c: "c0 = 0" "c1 = 0" "c2 = -1" using assms(3) by (simp_all add: D)
    then have "b1 = - a0" using assms(1) by (simp add: frame_def)
    then have "Z = 0" using c by (simp add: D)
    then have "z = 0" "w = 0" using sq True by simp_all
    then show ?thesis using c by simp
  next
    case False
    then have w: "w \<noteq> 0" "W = 4 * w\<^sup>2" using sq(4) by auto
    have "x * z * (4 * w\<^sup>2) = (a2 + c0) / 4 * (4 * w\<^sup>2)"
    proof -
      have "x * z * (4 * w\<^sup>2) = 4 * (x * w) * (z * w)" by (simp add: power2_eq_square)
      also have "\<dots> = (c1 - b2) * (b0 - a1) / 4" unfolding pw by simp
      also have "\<dots> = (a2 + c0) / 4 * (4 * w\<^sup>2)" using P(7) w(2) by (simp add: D)
      finally show ?thesis .
    qed
    then have xz: "x * z = (a2 + c0) / 4" using w(1) by simp
    have "y * z * (4 * w\<^sup>2) = (b2 + c1) / 4 * (4 * w\<^sup>2)"
    proof -
      have "y * z * (4 * w\<^sup>2) = 4 * (y * w) * (z * w)" by (simp add: power2_eq_square)
      also have "\<dots> = (a2 - c0) * (b0 - a1) / 4" unfolding pw by simp
      also have "\<dots> = (b2 + c1) / 4 * (4 * w\<^sup>2)" using P(8) w(2) by (simp add: D)
      finally show ?thesis .
    qed
    then have yz: "y * z = (b2 + c1) / 4" using w(1) by simp
    show ?thesis using xz yz pw by (simp add: mult.assoc)
  qed
  moreover have "1 - 2 * x * x - 2 * y * y = c2"
    using sq(1,2) by (simp add: power2_eq_square D mult.assoc)
  ultimately show "quatToMatrix (exact cs) q ! 2 = [c0, c1, c2]"
    unfolding q quatToMatrix_exact by simp
qed

section \<open>The first attitude\<close>

lemma norm2_nonneg: "0 \<le> norm2 v"
  by (simp add: norm2_def sum_nonneg)

lemma normalize_3:
  "normalize (exact cs) [x, y, z] =
     (let t = 1 / sqrt (x\<^sup>2 + y\<^sup>2 + z\<^sup>2) in [x * t, y * t, z * t])"
  by (simp add: normalize_def vec_length_def vec_3 dot_product_def upt_rec power2_eq_square Let_def)

lemma normalize_unit: "norm2 v \<noteq> 0 \<Longrightarrow> norm2 (normalize (exact cs) v) = 1"
  using normalize_norm [of v cs] by (simp add: norm2_def)

text \<open>\<^verbatim>\<open>getOrthogonal\<close> of a unit vector is a unit vector orthogonal to it; the frame it spans is a
  half turn only for the vector \<open>[0, 0, -1]\<close>.\<close>

lemma getOrthogonal_exact:
  fixes u0 u1 u2 :: real
  assumes "u0\<^sup>2 + u1\<^sup>2 + u2\<^sup>2 = 1"
  obtains e0 e1 e2 where "getOrthogonal (exact cs) [u0, u1, u2] = [e0, e1, e2]"
    "e0\<^sup>2 + e1\<^sup>2 + e2\<^sup>2 = 1" "e0 * u0 + e1 * u1 + e2 * u2 = 0"
    "\<And>b0 b1 b2. frame (e0, e1, e2) (b0, b1, b2) (u0, u1, u2) \<Longrightarrow> e0 + b1 + u2 + 1 = 0
       \<Longrightarrow> (u0, u1, u2) = (0, 0, -1)"
proof -
  have inverse_root: "(p\<^sup>2 + q\<^sup>2 + r\<^sup>2) * t\<^sup>2 = 1"
    if "t = 1 / sqrt (p\<^sup>2 + q\<^sup>2 + r\<^sup>2)" "p\<^sup>2 + q\<^sup>2 + r\<^sup>2 > 0" for p q r t :: real
  proof -
    have "t\<^sup>2 = 1 / (p\<^sup>2 + q\<^sup>2 + r\<^sup>2)" using that by (simp add: power_divide)
    then show ?thesis using that(2) by simp
  qed
  have unit: "(p * t)\<^sup>2 + (q * t)\<^sup>2 + (r * t)\<^sup>2 = 1"
    if "t = 1 / sqrt (p\<^sup>2 + q\<^sup>2 + r\<^sup>2)" "p\<^sup>2 + q\<^sup>2 + r\<^sup>2 > 0" for p q r t :: real
    using inverse_root [OF that] by (simp add: power_mult_distrib algebra_simps)
  have half: "a1 = b0 \<and> a2 = u0 \<and> b2 = u1"
    if "frame (a0, a1, a2) (b0, b1, b2) (u0, u1, u2)" "a0 + b1 + u2 + 1 = 0" for a0 a1 a2 b0 b1 b2
    using frame_products(1-3) [OF that(1)] that(2) by simp
  show ?thesis
  proof (cases "\<bar>u0\<bar> \<le> \<bar>u1\<bar> \<and> \<bar>u0\<bar> \<le> \<bar>u2\<bar>")
    case True
    define t where "t = 1 / sqrt (0\<^sup>2 + u2\<^sup>2 + (- u1)\<^sup>2)"
    have "u1\<^sup>2 + u2\<^sup>2 \<noteq> 0" using True assms by (auto simp: sum_power2_eq_zero_iff)
    then have pos: "0\<^sup>2 + u2\<^sup>2 + (- u1)\<^sup>2 > 0" by (simp add: add.commute sum_power2_gt_zero_iff)
    have e: "getOrthogonal (exact cs) [u0, u1, u2] = [0, u2 * t, - u1 * t]"
      using True by (simp add: getOrthogonal_def normalize_3 t_def Let_def)
    have "(u0, u1, u2) = (0, 0, -1)"
      if "frame (0, u2 * t, - u1 * t) (b0, b1, b2) (u0, u1, u2)" "0 + b1 + u2 + 1 = 0" for b0 b1 b2
    proof -
      define n where "n = u1\<^sup>2 + u2\<^sup>2"
      have h: "u2 * t = b0" "- u1 * t = u0" using half [OF that] by simp_all
      have t: "t > 0" using pos by (simp add: t_def)
      have tn: "t\<^sup>2 * n = 1" using inverse_root [OF t_def pos] by (simp add: n_def mult.commute add.commute)
      have "b0 = - n * t" using that(1) by (simp add: frame_def n_def power2_eq_square algebra_simps)
      with h(1) have "(u2 + n) * t = 0" by (simp add: algebra_simps)
      with t have u2: "u2 = - n" by simp
      have u0: "u0\<^sup>2 = 1 - n" using assms by (simp add: n_def)
      have "u1\<^sup>2 * t\<^sup>2 = u0\<^sup>2" by (simp flip: h(2) add: power_mult_distrib)
      then have "u0\<^sup>2 * n = u1\<^sup>2 * (t\<^sup>2 * n)" by simp
      then have "u0\<^sup>2 * n = u1\<^sup>2" unfolding tn by simp
      then have u1: "u1\<^sup>2 = n * u0\<^sup>2" by (simp only: mult.commute)
      moreover have "u0\<^sup>2 \<le> u1\<^sup>2" using True by (simp add: abs_le_square_iff)
      ultimately have "(1 - n)\<^sup>2 \<le> 0" unfolding u1 u0 by (simp add: power2_eq_square algebra_simps)
      then have "n = 1" by simp
      with u0 u1 u2 show ?thesis by simp
    qed
    then show ?thesis using that [OF e] unit [OF t_def pos] by simp
  next
    case nfirst: False
    show ?thesis
    proof (cases "\<bar>u1\<bar> \<le> \<bar>u2\<bar>")
      case True
      define t where "t = 1 / sqrt (u2\<^sup>2 + 0\<^sup>2 + (- u0)\<^sup>2)"
      have "u0 \<noteq> 0" using nfirst by auto
      then have pos: "u2\<^sup>2 + 0\<^sup>2 + (- u0)\<^sup>2 > 0" by (simp add: sum_power2_gt_zero_iff)
      have e: "getOrthogonal (exact cs) [u0, u1, u2] = [u2 * t, 0, - u0 * t]"
        using True nfirst by (simp add: getOrthogonal_def normalize_3 t_def Let_def)
      have "False" if "frame (u2 * t, 0, - u0 * t) (b0, b1, b2) (u0, u1, u2)" "u2 * t + b1 + u2 + 1 = 0" for b0 b1 b2
      proof -
        have "- u0 * t = u0" using half [OF that] by simp
        then have "u0 * (1 + t) = 0" by (simp add: algebra_simps)
        moreover have "t > 0" using pos by (simp add: t_def)
        ultimately show False using \<open>u0 \<noteq> 0\<close> by simp
      qed
      then show ?thesis using that [OF e] unit [OF t_def pos] by simp blast
    next
      case False
      define t where "t = 1 / sqrt (u1\<^sup>2 + (- u0)\<^sup>2 + 0\<^sup>2)"
      have "u0 \<noteq> 0" using nfirst by auto
      then have pos: "u1\<^sup>2 + (- u0)\<^sup>2 + 0\<^sup>2 > 0" by (simp add: sum_power2_gt_zero_iff)
      have e: "getOrthogonal (exact cs) [u0, u1, u2] = [u1 * t, - u0 * t, 0]"
        using False nfirst by (auto simp: getOrthogonal_def normalize_3 t_def Let_def)
      have "False" if "frame (u1 * t, - u0 * t, 0) (b0, b1, b2) (u0, u1, u2)" "u1 * t + b1 + u2 + 1 = 0" for b0 b1 b2
        using half [OF that] \<open>u0 \<noteq> 0\<close> by simp
      then show ?thesis using that [OF e] unit [OF t_def pos] by simp blast
    qed
  qed
qed

text \<open>So the filter starts with the attitude of the measured acceleration.\<close>

lemma initRodrParams_exact:
  assumes "length acc = 3" "norm2 acc \<noteq> 0" "copysign_ok cs"
  shows "length (mX0 (initRodrParams (exact cs) acc s)) = 4
       \<and> norm2 (mX0 (initRodrParams (exact cs) acc s)) = 1
       \<and> mX0 (initRodrParams (exact cs) acc s) ! 3 \<ge> 0
       \<and> quatToMatrix (exact cs) (mX0 (initRodrParams (exact cs) acc s)) ! 2 = normalize (exact cs) acc"
proof -
  have "length (normalize (exact cs) acc) = 3" using assms(1) by simp
  then obtain u0 u1 u2 where u: "normalize (exact cs) acc = [u0, u1, u2]" by (rule length_3_cases)
  have n: "u0\<^sup>2 + u1\<^sup>2 + u2\<^sup>2 = 1" using normalize_unit [OF assms(2), of cs] by (simp add: u norm2_3)
  obtain e0 e1 e2 where e: "getOrthogonal (exact cs) [u0, u1, u2] = [e0, e1, e2]"
    "e0\<^sup>2 + e1\<^sup>2 + e2\<^sup>2 = 1" "e0 * u0 + e1 * u1 + e2 * u2 = 0"
    and half: "\<And>b0 b1 b2. frame (e0, e1, e2) (b0, b1, b2) (u0, u1, u2) \<Longrightarrow> e0 + b1 + u2 + 1 = 0
       \<Longrightarrow> (u0, u1, u2) = (0, 0, -1)"
    using getOrthogonal_exact [OF n] by blast
  let ?b = "cross_product (exact cs) [u0, u1, u2] [e0, e1, e2]"
  have b: "?b = [u1 * e2 - u2 * e1, u2 * e0 - u0 * e2, u0 * e1 - u1 * e0]" by (simp add: vec_3)
  have f: "frame (e0, e1, e2) (u1 * e2 - u2 * e1, u2 * e0 - u0 * e2, u0 * e1 - u1 * e0) (u0, u1, u2)"
    using n e(2,3) by (simp add: frame_def)
  have x0: "mX0 (initRodrParams (exact cs) acc s) =
      matrixToQuat (exact cs) [[e0, e1, e2], [u1 * e2 - u2 * e1, u2 * e0 - u0 * e2, u0 * e1 - u1 * e0], [u0, u1, u2]]"
    by (simp add: initRodrParams_def initFusion_def Let_def u e(1) b)
  show ?thesis using matrixToQuat_frame [OF f assms(3) half [OF f] x0] by (simp add: u)
qed

text \<open>C20: in exact arithmetic the filter starts with a unit quaternion whose rotation takes the
  third axis to the direction of the measured acceleration, for every acceleration but zero.\<close>

theorem initRodrParams_attitude:
  assumes "length acc = 3" "norm2 acc \<noteq> 0" "copysign_ok cs"
  shows "length (mX0 (initRodrParams (exact cs) acc s)) = 4
       \<and> norm2 (mX0 (initRodrParams (exact cs) acc s)) = 1
       \<and> mX0 (initRodrParams (exact cs) acc s) ! 3 \<ge> 0
       \<and> quatToMatrix (exact cs) (mX0 (initRodrParams (exact cs) acc s)) ! 2 = normalize (exact cs) acc"
  by (rule initRodrParams_exact [OF assms])

theorem initRodrParams_attitude_witness:
  "norm2 (mX0 (initRodrParams (exact example_copysign) [0, 3, 4] (junk_fusion 7))) = 1
   \<and> quatToMatrix (exact example_copysign) (mX0 (initRodrParams (exact example_copysign) [0, 3, 4] (junk_fusion 7))) ! 2
       = [0, 3 / 5, 4 / 5]"
proof -
  have "sqrt 25 = 5" using real_sqrt_abs [of 5] by simp
  then have "normalize (exact example_copysign) [0, 3, 4] = [0, 3 / 5, 4 / 5]" by (simp add: normalize_3 Let_def)
  then show ?thesis
    using initRodrParams_attitude [of "[0, 3, 4]" example_copysign "junk_fusion 7"] by (simp add: norm2_3)
qed

section \<open>Unit quaternions\<close>

definition unit_attitude :: "real fusion \<Rightarrow> bool" where
  "unit_attitude s \<longleftrightarrow> norm2 (mX0 s) = 1 \<and> mX0 s ! 3 \<ge> 0"

lemma norm2_dot: "norm2 v = dot_product (exact cs) v v"
  by (simp add: norm2_def)

lemma WVEC_EPS_pos: "WVEC_EPS (exact cs) > 0"
  by (simp add: WVEC_EPS_def)

text \<open>The rate that \<^verbatim>\<open>predict\<close> divides by is never zero.\<close>

lemma corrected_rate_nonzero:
  assumes "length w = 3" "length b = 3"
  shows "norm2 (corrected_rate (exact cs) w b) > 0"
proof (cases "vec_length (exact cs) (doSub (exact cs) w b) < WVEC_EPS (exact cs)")
  case True
  define e where "e = (if 0 < doSub (exact cs) w b ! 0 then WVEC_EPS (exact cs) else - WVEC_EPS (exact cs))"
  have "e \<noteq> 0" using WVEC_EPS_pos [of cs] by (simp add: e_def)
  moreover have "corrected_rate (exact cs) w b = [e, e, e]"
    using True by (simp add: corrected_rate_def Let_def e_def vec_fill_def upt_rec)
  ultimately show ?thesis by (simp add: norm2_3 add_pos_pos)
next
  case False
  then have "sqrt (norm2 (doSub (exact cs) w b)) \<ge> WVEC_EPS (exact cs)"
    by (simp add: vec_length_def norm2_def)
  with WVEC_EPS_pos [of cs] have "sqrt (norm2 (doSub (exact cs) w b)) > 0" by linarith
  then show ?thesis using False by (simp add: corrected_rate_def Let_def)
qed

text \<open>The matrix of the step: that of the product with the quaternion \<open>[p * a, p * b, p * c, k]\<close>.\<close>

lemma rotation_O_exact:
  assumes "k = cos (1 / 2 * (sqrt (a\<^sup>2 + b\<^sup>2 + c\<^sup>2) * dT))"
    and "p = sin (1 / 2 * (sqrt (a\<^sup>2 + b\<^sup>2 + c\<^sup>2) * dT)) * (1 / sqrt (a\<^sup>2 + b\<^sup>2 + c\<^sup>2))"
  shows "rotation_O (exact cs) [a, b, c] dT =
      [[k, - (p * c), p * b, - (p * a)], [p * c, k, - (p * a), - (p * b)], [- (p * b), p * a, k, - (p * c)],
       [p * a, p * b, p * c, k]]"
proof -
  have len: "vec_length (exact cs) [a, b, c] = sqrt (a\<^sup>2 + b\<^sup>2 + c\<^sup>2)"
    by (simp add: vec_length_def eval_nat_numeral power2_eq_square)
  show ?thesis unfolding rotation_O_def Let_def len by (simp add: vec_3 crossMatrix_def assms)
qed

lemma rotation_O_norm:
  assumes "length we = 3" "norm2 we > 0" "length q = 4"
  shows "norm2 (mat_vec_mul (exact cs) (rotation_O (exact cs) we dT) q) = norm2 q"
proof -
  obtain a b c where we: "we = [a, b, c]" using assms(1) by (rule length_3_cases)
  obtain x y z w where q: "q = [x, y, z, w]" using assms(3) by (rule length_4_cases)
  let ?n = "a\<^sup>2 + b\<^sup>2 + c\<^sup>2"
  define k p where kp_def: "k = cos (1 / 2 * (sqrt ?n * dT))" "p = sin (1 / 2 * (sqrt ?n * dT)) * (1 / sqrt ?n)"
  have n: "?n > 0" using assms(2) by (simp add: we norm2_3)
  have "p\<^sup>2 * ?n = (sin (1 / 2 * (sqrt ?n * dT)))\<^sup>2" using n by (simp add: kp_def power_mult_distrib power_divide)
  then have "k\<^sup>2 + p\<^sup>2 * ?n = 1" by (simp add: kp_def(1))
  then have kp: "k\<^sup>2 + (p * a)\<^sup>2 + (p * b)\<^sup>2 + (p * c)\<^sup>2 = 1" by (simp add: power_mult_distrib distrib_left)
  have "norm2 (mat_vec_mul (exact cs) (rotation_O (exact cs) we dT) q) =
     (k\<^sup>2 + (p * a)\<^sup>2 + (p * b)\<^sup>2 + (p * c)\<^sup>2) * (x\<^sup>2 + y\<^sup>2 + z\<^sup>2 + w\<^sup>2)"
    unfolding we q rotation_O_exact [OF kp_def]
    by (simp add: mat_vec_mul_def upt_rec norm2_4 power2_eq_square algebra_simps)
  then show ?thesis by (simp add: kp q norm2_4)
qed

lemma norm2_neg: "norm2 (vec_neg (exact cs) v) = norm2 v"
  by (simp add: norm2_def)

lemma predict_unit:
  assumes "fusion_shape s" "length w = 3" "unit_attitude s"
  shows "unit_attitude (predict (exact cs) w dT s)"
proof -
  define we where "we = corrected_rate (exact cs) w (mX1 s)"
  define x0 where "x0 = mat_vec_mul (exact cs) (rotation_O (exact cs) we dT) (mX0 s)"
  have we: "length we = 3" "norm2 we > 0"
    using assms corrected_rate_nonzero by (simp_all add: we_def corrected_rate_length fusion_shape_def)
  have n: "norm2 x0 = 1"
    using rotation_O_norm [OF we, of "mX0 s"] assms by (simp add: x0_def fusion_shape_def unit_attitude_def)
  have len: "length x0 = 4" using mat_vec_mul_length [OF rotation_O_shape [OF we(1)]] by (simp add: x0_def)
  obtain a b where ab: "Phi_blocks (exact cs) we dT = (a, b)" by (metis surj_pair)
  have "mX0 (predict (exact cs) w dT s) = (if x0 ! 3 < 0 then vec_neg (exact cs) x0 else x0)"
    unfolding predict_def Let_def we_def [symmetric] ab prod.case x0_def [symmetric] by simp
  then show ?thesis using n len by (simp add: unit_attitude_def norm2_neg)
qed

text \<open>The correction of the update is orthogonal to the quaternion, so that it can only make it
  longer before it is normalised.\<close>

lemma getF_correction:
  assumes "length q = 4" "length v = 3"
  shows "norm2 (doAdd (exact cs) q (mat_vec_mul (exact cs) (getF (exact cs) q) v)) \<ge> norm2 q"
proof -
  obtain x y z w where q: "q = [x, y, z, w]" using assms(1) by (rule length_4_cases)
  obtain a b c where v: "v = [a, b, c]" using assms(2) by (rule length_3_cases)
  let ?f0 = "w * a - z * b + y * c" and ?f1 = "z * a + w * b - x * c"
    and ?f2 = "- y * a + x * b + w * c" and ?f3 = "- x * a - y * b - z * c"
  have F: "mat_vec_mul (exact cs) (getF (exact cs) q) v = [?f0, ?f1, ?f2, ?f3]"
    by (simp add: q v mat_vec_mul_def getF_def Let_def upt_rec)
  have "norm2 (doAdd (exact cs) q (mat_vec_mul (exact cs) (getF (exact cs) q) v)) =
      norm2 q + (?f0\<^sup>2 + ?f1\<^sup>2 + ?f2\<^sup>2 + ?f3\<^sup>2)"
    unfolding F by (simp add: q vec_4 norm2_4 power2_eq_square algebra_simps)
  then show ?thesis by simp
qed

lemma normalize_quat_unit:
  assumes "length q = 4" "norm2 q > 0"
  shows "norm2 (normalize_quat (exact cs) q) = 1 \<and> normalize_quat (exact cs) q ! 3 \<ge> 0"
proof -
  define r where "r = (if q ! 3 < 0 then vec_neg (exact cs) q else q)"
  have r: "norm2 r > 0" "length r = 4" "r ! 3 \<ge> 0" using assms by (simp_all add: r_def norm2_neg)
  have "normalize_quat (exact cs) q = normalize (exact cs) r"
    by (simp add: normalize_quat_def Let_def r_def)
  moreover have "normalize (exact cs) r ! 3 \<ge> 0"
    using r by (simp add: normalize_def vec_length_def sum_nonneg)
  ultimately show ?thesis using normalize_unit [of r cs] r by simp
qed

lemma update_unit:
  assumes "fusion_shape s" "unit_attitude s"
  shows "unit_attitude (update (exact cs) z Bi sigma s)"
proof -
  define L where "L = crossMatrix (exact cs) (mat_vec_mul (exact cs) (quatToMatrix (exact cs) (mX0 s)) Bi) (ar_num (exact cs) 0)"
  obtain K0 K1 where K: "kalman_gain (exact cs) L sigma (mP s) = (K0, K1)" by (metis surj_pair)
  have "is_mat 3 3 K0"
    using kalman_gain_shape(1) [OF _ K [unfolded L_def]] assms(1) by (simp add: fusion_shape_def)
  define dq where "dq = doScalarMul (exact cs) (ar_num (exact cs) 0.5)
      (mat_vec_mul (exact cs) K0 (doSub (exact cs) z (mat_vec_mul (exact cs) (quatToMatrix (exact cs) (mX0 s)) Bi)))"
  have "length dq = 3" using mat_vec_mul_length [OF \<open>is_mat 3 3 K0\<close>] by (simp add: dq_def)
  define q where "q = vec_plus_assign (exact cs) (mX0 s) (mat_vec_mul (exact cs) (getF (exact cs) (mX0 s)) dq)"
  have "norm2 q \<ge> norm2 (mX0 s)" "length q = 4"
    using getF_correction [OF _ \<open>length dq = 3\<close>, of "mX0 s" cs] assms(1)
    by (simp_all add: q_def assign_operators fusion_shape_def)
  moreover have "mX0 (update (exact cs) z Bi sigma s) = normalize_quat (exact cs) q"
    unfolding update_def Let_def L_def [symmetric] K prod.case dq_def [symmetric] q_def [symmetric] by simp
  ultimately show ?thesis
    using normalize_quat_unit [of q cs] assms(2) by (simp add: unit_attitude_def)
qed

section \<open>The magnitude of gravity\<close>

lemma correct_gravity_unit:
  "fusion_shape s \<Longrightarrow> unit_attitude s \<Longrightarrow> unit_attitude (correct_gravity (exact cs) accel s)"
  by (simp add: correct_gravity_def Let_def update_unit update_shape)

lemma unit_attitude_update_other [simp]:
  "unit_attitude (s\<lparr>cs_mJustStarted := j\<rparr>) = unit_attitude s" "unit_attitude (s\<lparr>mLastTimestamp := t\<rparr>) = unit_attitude s"
  by (simp_all add: unit_attitude_def)

lemma norm2_scale: "length v = 3 \<Longrightarrow> norm2 (doMulScalar (exact cs) v c) = norm2 v * c\<^sup>2"
  by (elim length_3_cases) (simp add: vec_3 norm2_3 power_mult_distrib distrib_right)

lemma third_axis_unit:
  assumes "length q = 4" "norm2 q = 1"
  shows "norm2 (doMulScalar (exact cs) (quatToMatrix (exact cs) q ! 2) c) = c\<^sup>2"
proof -
  obtain x y z w where q: "q = [x, y, z, w]" using assms(1) by (rule length_4_cases)
  have n: "x\<^sup>2 + y\<^sup>2 + z\<^sup>2 + w\<^sup>2 = 1" using assms(2) by (simp add: q norm2_4)
  have "norm2 (quatToMatrix (exact cs) q ! 2) = 1"
    unfolding q quatToMatrix_exact using quatToMatrix_column [OF n] by (simp add: norm2_3)
  moreover have "length (quatToMatrix (exact cs) q ! 2) = 3" by (simp add: q quatToMatrix_exact)
  ultimately show ?thesis by (simp add: norm2_scale)
qed

text \<open>C16: in exact arithmetic every gravity vector the filter returns has magnitude 9.80665, and
  the attitude stays a unit quaternion: in the first reading after an activation, whatever the
  members held before, if the acceleration is not zero, and in every later one.\<close>

theorem gravity_has_nominal_magnitude:
  assumes "fusion_shape s" "copysign_ok cs"
    and "if cs_mJustStarted s then norm2 (take 3 (fv_data (hd accValues))) \<noteq> 0 else unit_attitude s"
    and "calculateGravity (exact cs) accValues gyroValues s = Inr (r, s')"
  shows "norm2 (fv_data r) = 9.80665\<^sup>2 \<and> unit_attitude s'"
proof (rule calculateGravity_steps [OF assms(4)])
  fix acc gyro dT
  assume acc: "acc = hd accValues" "3 \<le> length (fv_data acc)" and len: "3 \<le> length (fv_data gyro)"
    and s': "s' = predict (exact cs) (take 3 (fv_data gyro)) dT
            ((correct_gravity (exact cs) (take 3 (fv_data acc)) (gravity_start (exact cs) (take 3 (fv_data acc)) s))
               \<lparr>mLastTimestamp := fv_timestamp gyro\<rparr>)"
    and r: "fv_data r = doMulScalar (exact cs) (quatToMatrix (exact cs) (mX0 s') ! 2) (NOMINAL_GRAVITY (exact cs))"
  let ?s1 = "gravity_start (exact cs) (take 3 (fv_data acc)) s"
  have s1: "fusion_shape ?s1" using assms(1) by (simp add: gravity_start_def initRodrParams_shape)
  have "unit_attitude ?s1"
    using assms(3) initRodrParams_exact [of "take 3 (fv_data acc)" cs s] assms(2) acc
    by (simp add: gravity_start_def split: if_splits) (simp add: unit_attitude_def)
  then have u: "unit_attitude s'"
    unfolding s' using s1 len by (intro predict_unit) (simp_all add: correct_gravity_unit correct_gravity_shape)
  moreover have "fusion_shape s'"
    unfolding s' using s1 len by (intro predict_shape) (simp_all add: correct_gravity_shape)
  ultimately show ?thesis
    using third_axis_unit [of "mX0 s'" cs "9.80665"]
    by (simp add: r NOMINAL_GRAVITY_def unit_attitude_def fusion_shape_def)
qed

theorem gravity_has_nominal_magnitude_witness:
  "\<exists>r s'. calculateGravity (exact example_copysign) (fst at_rest) (snd at_rest) (junk_fusion 7) = Inr (r, s')
     \<and> norm2 (fv_data r) = 9.80665\<^sup>2 \<and> unit_attitude s'"
proof -
  obtain r s' where c: "calculateGravity (exact example_copysign) (fst at_rest) (snd at_rest) (junk_fusion 7) = Inr (r, s')"
    using at_rest_returns by blast
  have "if cs_mJustStarted (junk_fusion (7 :: real)) then norm2 (take 3 (fv_data (hd (fst at_rest)))) \<noteq> 0
      else unit_attitude (junk_fusion 7)"
    by (simp add: junk_fusion_started at_rest_def norm2_3)
  from gravity_has_nominal_magnitude [OF junk_fusion_shape example_copysign_ok this c] c show ?thesis by blast
qed

end
