(* ===== verification/Fusion_Covariance.thy ===== *)
theory Fusion_Covariance
  imports Fusion_Shape
begin

text \<open>
  The covariance of the filter: it stays symmetric in exact arithmetic, \<^verbatim>\<open>scaleCovariance\<close>
  computes the diagonal of the product it stands for but not the rest, and the two blocks of
  \<^verbatim>\<open>mPhi\<close> that no function assigns decide the covariance of the gyroscope bias.
\<close>

section \<open>Sums of products of blocks\<close>

lemma fold_mat_add_entry:
  assumes "is_mat 3 3 z" "j < 3" "i < 3"
  shows "fold (\<lambda>k v. mat_add (exact cs) v (f k)) [0..<n] z ! j ! i = z ! j ! i + (\<Sum>k<n. f k ! j ! i)"
proof (induction n)
  case (Suc n)
  have "is_mat 3 3 (fold (\<lambda>k v. mat_add (exact cs) v (f k)) [0..<n] z)"
    using block_fold_shape [OF assms(1), of "exact cs"] by simp
  from nth_mat_add(1) [OF this assms(2,3), where E = "exact cs" and r = "f n"] Suc show ?case by simp
qed simp

lemma block_mul_entry:
  assumes "blocks_ok l" "blocks_ok r" "c < 2" "d < 2" "j < 3" "i < 3"
  shows "mat_mul (block (exact cs)) l r ! c ! d ! j ! i =
     (\<Sum>k<2. \<Sum>b<3. l ! k ! d ! b ! i * r ! c ! k ! j ! b)"
proof -
  have z: "is_mat 3 3 (mat_doAssign (exact cs) 3 3 (0 :: real))" by simp
  have sh: "is_mat 3 3 (l ! k ! d)" "is_mat 3 3 (r ! c ! k)" if "k < 2" for k
    using assms that by (simp_all add: blocks_ok_def)
  have "mat_mul (block (exact cs)) l r ! c ! d ! j ! i =
      fold (\<lambda>k v. mat_add (exact cs) v (mat_mul (exact cs) (l ! k ! d) (r ! c ! k))) [0..<2]
        (mat_doAssign (exact cs) 3 3 0) ! j ! i"
    using assms by (simp add: mat_mul_def [of "block (exact cs)"] blocks_ok_def)
  also have "\<dots> = (\<Sum>k<2. mat_mul (exact cs) (l ! k ! d) (r ! c ! k) ! j ! i)"
    using fold_mat_add_entry [OF z assms(5,6)] assms(5,6) by simp
  also have "\<dots> = (\<Sum>k<2. \<Sum>b<3. l ! k ! d ! b ! i * r ! c ! k ! j ! b)"
    using assms(5,6) sh by (intro sum.cong refl) (simp add: square_nth [of 3])
  finally show ?thesis .
qed

section \<open>Symmetry\<close>

definition symmetric :: "real list list list list \<Rightarrow> bool" where
  "symmetric P \<longleftrightarrow> (\<forall>c<2. \<forall>d<2. \<forall>j<3. \<forall>i<3. P ! c ! d ! j ! i = P ! d ! c ! i ! j)"

lemma symmetricD: "symmetric P \<Longrightarrow> c < 2 \<Longrightarrow> d < 2 \<Longrightarrow> j < 3 \<Longrightarrow> i < 3 \<Longrightarrow> P ! c ! d ! j ! i = P ! d ! c ! i ! j"
  by (simp add: symmetric_def)

lemma block_transpose_entry:
  assumes "blocks_ok P" "c < 2" "d < 2" "j < 3" "i < 3"
  shows "transpose_mat (transpose_mat id) P ! c ! d ! j ! i = P ! d ! c ! i ! j"
proof -
  have "is_mat 3 3 (P ! d ! c)" "length (P ! 0) = 2" "length P = 2" using assms by (simp_all add: blocks_ok_def)
  then have "transpose_mat (transpose_mat id) P ! c ! d = transpose_mat id (P ! d ! c)"
    using assms by (simp add: transpose_mat_def)
  then show ?thesis using assms \<open>is_mat 3 3 (P ! d ! c)\<close> by (simp add: square_nth(2) [of 3])
qed

lemma block_transpose_shape:
  assumes "blocks_ok P"
  shows "blocks_ok (transpose_mat (transpose_mat id) P)"
  using assms by (auto simp: blocks_ok_def transpose_mat_def [of "transpose_mat id"] mat_mul_3)

lemma block_add_entry:
  assumes "blocks_ok l" "c < 2" "d < 2" "j < 3" "i < 3"
  shows "mat_add (block (exact cs)) l r ! c ! d ! j ! i = l ! c ! d ! j ! i + r ! c ! d ! j ! i"
proof -
  have "is_mat 3 3 (l ! c ! d)" using assms by (simp add: blocks_ok_def)
  moreover have "mat_add (block (exact cs)) l r ! c ! d = mat_add (exact cs) (l ! c ! d) (r ! c ! d)"
    using assms by (simp add: blocks_ok_def mat_add_def [of "block (exact cs)"] vec_elem_def)
  ultimately show ?thesis using assms by simp
qed

text \<open>The product of a block matrix, a symmetric one and the transpose of the first is symmetric.\<close>

lemma congruence_symmetric:
  assumes "blocks_ok F" "blocks_ok P" "symmetric P"
  shows "symmetric (mat_mul (block (exact cs)) (mat_mul (block (exact cs)) F P) (transpose_mat (transpose_mat id) F))"
  unfolding symmetric_def
proof (intro allI impI)
  fix c d j i :: nat assume n: "c < 2" "d < 2" "j < 3" "i < 3"
  have FP: "blocks_ok (mat_mul (block (exact cs)) F P)" by (rule block_mul_shape) (use assms in \<open>simp_all add: blocks_ok_def\<close>)
  have e: "mat_mul (block (exact cs)) (mat_mul (block (exact cs)) F P) (transpose_mat (transpose_mat id) F) ! c ! d ! j ! i =
      (\<Sum>k<2. \<Sum>b<3. \<Sum>l<2. \<Sum>a<3. F ! l ! d ! a ! i * P ! k ! l ! b ! a * F ! k ! c ! b ! j)"
    if "c < 2" "d < 2" "j < 3" "i < 3" for c d j i :: nat
    using that assms FP block_transpose_shape [OF assms(1)]
    by (simp add: block_mul_entry block_transpose_entry sum_distrib_right)
  have "(\<Sum>k<2. \<Sum>b<3. \<Sum>l<2. \<Sum>a<3. F ! l ! d ! a ! i * P ! k ! l ! b ! a * F ! k ! c ! b ! j) =
      (\<Sum>k<2. \<Sum>b<3. \<Sum>l<2. \<Sum>a<3. F ! k ! c ! b ! j * P ! l ! k ! a ! b * F ! l ! d ! a ! i)"
    using assms(3) by (intro sum.cong refl) (simp add: symmetricD [of P])
  also have "\<dots> = (\<Sum>k<2. \<Sum>l<2. \<Sum>b<3. \<Sum>a<3. F ! k ! c ! b ! j * P ! l ! k ! a ! b * F ! l ! d ! a ! i)"
    by (intro sum.cong refl sum.swap)
  also have "\<dots> = (\<Sum>l<2. \<Sum>k<2. \<Sum>a<3. \<Sum>b<3. F ! k ! c ! b ! j * P ! l ! k ! a ! b * F ! l ! d ! a ! i)"
    by (subst sum.swap) (intro sum.cong refl sum.swap)
  also have "\<dots> = (\<Sum>l<2. \<Sum>a<3. \<Sum>k<2. \<Sum>b<3. F ! k ! c ! b ! j * P ! l ! k ! a ! b * F ! l ! d ! a ! i)"
    by (intro sum.cong refl sum.swap)
  finally show "mat_mul (block (exact cs)) (mat_mul (block (exact cs)) F P) (transpose_mat (transpose_mat id) F) ! c ! d ! j ! i =
      mat_mul (block (exact cs)) (mat_mul (block (exact cs)) F P) (transpose_mat (transpose_mat id) F) ! d ! c ! i ! j"
    by (simp only: e [OF n] e [OF n(2,1,4,3)])
qed

lemma symmetric_add: "blocks_ok l \<Longrightarrow> symmetric l \<Longrightarrow> symmetric r \<Longrightarrow> symmetric (mat_add (block (exact cs)) l r)"
  by (auto simp: symmetric_def block_add_entry)

lemma zero_P_symmetric: "symmetric (zero_P (exact cs))"
  by (auto simp: symmetric_def zero_P_def less_2_cases mat_doAssign_def)

lemma checkState_symmetric: "symmetric (mP s) \<Longrightarrow> symmetric (mP (checkState (exact cs) s))"
  by (simp add: checkState_def zero_P_symmetric)

lemma predict_symmetric:
  assumes "fusion_shape s" "length w = 3" "symmetric (mP s)" "symmetric (mGQGt s)"
  shows "symmetric (mP (predict (exact cs) w dT s))"
proof -
  define we where "we = corrected_rate (exact cs) w (mX1 s)"
  obtain a b where ab: "Phi_blocks (exact cs) we dT = (a, b)" by (metis surj_pair)
  let ?F = "[[a, mPhi s ! 0 ! 1], [b, mPhi s ! 1 ! 1]]"
  have F: "blocks_ok ?F"
    using Phi_blocks_shape [OF ab] assms(1) blocks_okD [of "mPhi s"] by (simp add: fusion_shape_def)
  have P: "blocks_ok (mP s)" using assms(1) by (simp add: fusion_shape_def)
  have FP: "blocks_ok (mat_mul (block (exact cs)) ?F (mP s))"
    using F P by (intro block_mul_shape) (simp_all add: blocks_ok_def)
  have "blocks_ok (mat_mul (block (exact cs)) (mat_mul (block (exact cs)) ?F (mP s)) (transpose_mat (transpose_mat id) ?F))"
    using blocks_okD(1,2) [OF FP] blocks_okD(1) [OF block_transpose_shape [OF F]] by (rule block_mul_shape)
  then have "symmetric (mat_add (block (exact cs))
      (mat_mul (block (exact cs)) (mat_mul (block (exact cs)) ?F (mP s)) (transpose_mat (transpose_mat id) ?F)) (mGQGt s))"
    using congruence_symmetric [OF F P assms(3)] assms(4) by (rule symmetric_add)
  then show ?thesis
    unfolding predict_def Let_def we_def [symmetric] ab prod.case
    by (intro checkState_symmetric) simp
qed

subsection \<open>The update\<close>

text \<open>Symmetry in terms of the blocks.\<close>

lemma symmetric_blocks:
  assumes "blocks_ok P"
  shows "symmetric P \<longleftrightarrow> transpose_mat id (P ! 0 ! 0) = P ! 0 ! 0 \<and> transpose_mat id (P ! 1 ! 1) = P ! 1 ! 1
     \<and> P ! 0 ! 1 = transpose_mat id (P ! 1 ! 0)"
proof -
  have eq: "m = transpose_mat id n \<longleftrightarrow> (\<forall>j<3. \<forall>i<3. m ! j ! i = n ! i ! j)"
    if "is_mat 3 3 m" "is_mat 3 3 n" for m n :: "real list list"
    using that is_mat_eqI [of 3 3 m "transpose_mat id n"] by (auto simp: square_nth(2) [of 3] mat_mul_3)
  note D = blocks_okD [OF assms]
  have "symmetric P \<longleftrightarrow> (\<forall>j<3. \<forall>i<3. P ! 0 ! 0 ! j ! i = P ! 0 ! 0 ! i ! j)
      \<and> (\<forall>j<3. \<forall>i<3. P ! 0 ! 1 ! j ! i = P ! 1 ! 0 ! i ! j) \<and> (\<forall>j<3. \<forall>i<3. P ! 1 ! 0 ! j ! i = P ! 0 ! 1 ! i ! j)
      \<and> (\<forall>j<3. \<forall>i<3. P ! 1 ! 1 ! j ! i = P ! 1 ! 1 ! i ! j)"
    unfolding symmetric_def less_2_cases One_nat_def by blast
  also have "(\<forall>j<3. \<forall>i<3. P ! 1 ! 0 ! j ! i = P ! 0 ! 1 ! i ! j) \<longleftrightarrow> (\<forall>j<3. \<forall>i<3. P ! 0 ! 1 ! j ! i = P ! 1 ! 0 ! i ! j)"
    by metis
  finally show ?thesis
    using eq [OF D(4) D(4)] eq [OF D(7) D(7)] eq [OF D(5) D(6)] by metis
qed

lemma transpose_3:
  assumes "is_mat 3 3 a" "is_mat 3 3 b"
  shows "transpose_mat id (mat_mul (exact cs) a b) = mat_mul (exact cs) (transpose_mat id b) (transpose_mat id a)"
    "transpose_mat id (mat_sub (exact cs) a b) = mat_sub (exact cs) (transpose_mat id a) (transpose_mat id b)"
    "transpose_mat id (transpose_mat id a) = a"
proof -
  show "transpose_mat id (mat_mul (exact cs) a b) = mat_mul (exact cs) (transpose_mat id b) (transpose_mat id a)"
    using assms by (intro mat_mul_transpose [of 3]) simp_all
  show "transpose_mat id (mat_sub (exact cs) a b) = mat_sub (exact cs) (transpose_mat id a) (transpose_mat id b)"
    by (rule is_mat_eqI [of 3 3]) 
      (use assms in \<open>simp_all add: square_nth(2) [of 3] mat_mul_3 nth_mat_add [of 3 3]\<close>)
  show "transpose_mat id (transpose_mat id a) = a"
    using assms by (intro transpose_transpose [of 3 3]) simp_all
qed

lemmas mat_3 = mat_mul_3 mat_mul_assoc [of 3, symmetric] transpose_3

lemma inverse_symmetric:
  assumes "is_mat 3 3 S" "transpose_mat id S = S" "is_mat 3 3 B"
    and "mat_mul (exact cs) S B = identity 3" "mat_mul (exact cs) B S = identity 3"
  shows "invert (exact cs) S = B" "transpose_mat id B = B"
proof -
  show "invert (exact cs) S = B" by (rule invert_unique) (use assms in auto)
  have id: "transpose_mat id (identity 3) = identity 3"
    by (rule is_mat_eqI [of 3 3]) (auto simp: square_nth(2) [of 3] mat_mul_3)
  have "mat_mul (exact cs) S (transpose_mat id B) = identity 3"
    using transpose_3(1) [OF assms(3,1), of cs] assms(2,5) id by simp
  moreover have "mat_mul (exact cs) (transpose_mat id B) S = identity 3"
    using transpose_3(1) [OF assms(1,3), of cs] assms(2,4) id by simp
  ultimately have "invert (exact cs) S = transpose_mat id B"
    using assms(1,3) by (intro invert_unique [of 3]) (simp_all add: mat_mul_3)
  then show "transpose_mat id B = B" using \<open>invert (exact cs) S = B\<close> by simp
qed

lemma congruence_3:
  assumes "is_mat 3 3 Q" "is_mat 3 3 L" "is_mat 3 3 B" "transpose_mat id B = B"
  shows "transpose_mat id (mat_mul (exact cs) (mat_mul (exact cs)
           (mat_mul (exact cs) (transpose_mat id Q) (mat_mul (exact cs) (transpose_mat id L) B)) L) Q) =
         mat_mul (exact cs) (mat_mul (exact cs)
           (mat_mul (exact cs) (transpose_mat id Q) (mat_mul (exact cs) (transpose_mat id L) B)) L) Q"
  using assms by (simp add: mat_mul_3 mat_mul_assoc [of 3] transpose_3)

text \<open>The matrix that the update inverts.\<close>

definition innovation :: "'a arith \<Rightarrow> 'a list list \<Rightarrow> 'a \<Rightarrow> 'a list list list list \<Rightarrow> 'a list list" where
  "innovation A L sigma P =
     mat_add A (scaleCovariance A L (P ! 0 ! 0)) (mat_doAssign A 3 3 (el_mul A sigma sigma))"

lemma scaleCovariance_entries:
  "scaleCovariance A m P =
     [[scale_entry A m P 0 0, scale_entry A m P 0 1, scale_entry A m P 0 2],
      [scale_entry A m P 0 1, scale_entry A m P 1 1, scale_entry A m P 1 2],
      [scale_entry A m P 0 2, scale_entry A m P 1 2, scale_entry A m P 2 2]]"
  by (simp add: scaleCovariance_def Let_def mat_doAssign_def upt_rec numeral_2_eq_2)

lemma scaleCovariance_symmetric: "transpose_mat id (scaleCovariance A m P) = scaleCovariance A m P"
  by (simp add: scaleCovariance_entries transpose_mat_def upt_rec numeral_2_eq_2)

lemma innovation_symmetric:
  "transpose_mat id (innovation (exact cs) L sigma P) = innovation (exact cs) L sigma P"
proof (rule is_mat_eqI [of 3 3])
  have S: "is_mat 3 3 (scaleCovariance (exact cs) L (P ! 0 ! 0))" by (rule scaleCovariance_shape)
  have I: "is_mat 3 3 (innovation (exact cs) L sigma P)" by (simp add: innovation_def S)
  then show "is_mat 3 3 (transpose_mat id (innovation (exact cs) L sigma P))" by (simp add: mat_mul_3)
  show "is_mat 3 3 (innovation (exact cs) L sigma P)" by (rule I)
  fix c r :: nat assume cr: "c < 3" "r < 3"
  have "scaleCovariance (exact cs) L (P ! 0 ! 0) ! r ! c = scaleCovariance (exact cs) L (P ! 0 ! 0) ! c ! r"
    using square_nth(2) [OF S cr, where tr = id] by (simp add: scaleCovariance_symmetric)
  then show "transpose_mat id (innovation (exact cs) L sigma P) ! c ! r = innovation (exact cs) L sigma P ! c ! r"
    using cr S by (simp add: square_nth(2) [OF I cr]) (simp add: innovation_def nth_mat_add [of 3 3])
qed

definition invertible_3 :: "real list list \<Rightarrow> bool" where
  "invertible_3 S \<longleftrightarrow> (\<exists>B. is_mat 3 3 B \<and> mat_mul (exact (\<lambda>x y. x)) S B = identity 3
     \<and> mat_mul (exact (\<lambda>x y. x)) B S = identity 3)"

lemma mat_mul_exact: "mat_mul (exact cs) = mat_mul (exact cs')"
  by (intro ext) (simp add: mat_mul_def)

text \<open>The filter's measurement matrix for a state and a direction.\<close>

definition sensitivity :: "'a arith \<Rightarrow> 'a list \<Rightarrow> 'a fusion \<Rightarrow> 'a list list" where
  "sensitivity A Bi s = crossMatrix A (mat_vec_mul A (quatToMatrix A (mX0 s)) Bi) (ar_num A 0)"

lemma update_symmetric:
  assumes "fusion_shape s" "symmetric (mP s)"
    and "invertible_3 (innovation (exact cs) (sensitivity (exact cs) Bi s) sigma (mP s))"
  shows "symmetric (mP (update (exact cs) z Bi sigma s))"
proof -
  define L where "L = sensitivity (exact cs) Bi s"
  define S where "S = innovation (exact cs) L sigma (mP s)"
  define P00 P11 P10 where "P00 = mP s ! 0 ! 0" and "P11 = mP s ! 1 ! 1" and "P10 = mP s ! 1 ! 0"
  have P: "blocks_ok (mP s)" using assms(1) by (simp add: fusion_shape_def)
  note sh = block_shapes [OF P, folded P00_def P11_def P10_def]
  have sym: "transpose_mat id P00 = P00" "transpose_mat id P11 = P11"
    using assms(2) symmetric_blocks [OF P] by (simp_all add: P00_def P11_def)
  have L: "is_mat 3 3 L" by (simp add: L_def sensitivity_def)
  have S: "is_mat 3 3 S" by (simp add: S_def innovation_def scaleCovariance_shape)
  obtain B where B: "is_mat 3 3 B" "mat_mul (exact cs) S B = identity 3" "mat_mul (exact cs) B S = identity 3"
    using assms(3) unfolding invertible_3_def L_def [symmetric] S_def [symmetric]
      mat_mul_exact [of "\<lambda>x y. x" cs] by blast
  have iB: "invert (exact cs) S = B" and tB: "transpose_mat id B = B"
    by (rule inverse_symmetric [OF S _ B]; simp add: S_def innovation_symmetric)+
  let ?G = "mat_mul (exact cs) (transpose_mat id L) B"
  have K: "kalman_gain (exact cs) L sigma (mP s) = (mat_mul (exact cs) P00 ?G, mat_mul (exact cs) (transpose_mat id P10) ?G)"
    unfolding kalman_gain_def Let_def innovation_def [symmetric] S_def [symmetric] iB P00_def P10_def by (rule refl)
  let ?Qa = "mat_sub (exact cs) P00 (mat_mul (exact cs) (mat_mul (exact cs) (mat_mul (exact cs) P00 ?G) L) P00)"
  let ?Qb = "mat_sub (exact cs) P11 (mat_mul (exact cs) (mat_mul (exact cs) (mat_mul (exact cs) (transpose_mat id P10) ?G) L) P10)"
  let ?Qc = "mat_sub (exact cs) P10 (mat_mul (exact cs) (mat_mul (exact cs) (mat_mul (exact cs) P00 ?G) L) P10)"
  have U: "update_P (exact cs) (mat_mul (exact cs) (mat_mul (exact cs) P00 ?G) L)
      (mat_mul (exact cs) (mat_mul (exact cs) (transpose_mat id P10) ?G) L) (mP s) =
      [[?Qa, transpose_mat id ?Qc], [?Qc, ?Qb]]"
    unfolding update_P_def Let_def P00_def P11_def P10_def by (rule refl)
  have "transpose_mat id ?Qa = ?Qa"
    using congruence_3 [OF sh(4) L B(1) tB, of cs] sh L B(1) sym by (simp add: transpose_3(2) mat_mul_3)
  moreover have "transpose_mat id ?Qb = ?Qb"
    using congruence_3 [OF sh(6) L B(1) tB, of cs] sh L B(1) sym by (simp add: transpose_3(2) mat_mul_3)
  moreover have "blocks_ok [[?Qa, transpose_mat id ?Qc], [?Qc, ?Qb]]"
    using update_P_shape [OF P] unfolding U [symmetric] .
  ultimately have "symmetric [[?Qa, transpose_mat id ?Qc], [?Qc, ?Qb]]"
    by (simp add: symmetric_blocks)
  then show ?thesis
    unfolding update_def Let_def L_def [unfolded sensitivity_def, symmetric] K prod.case U
    by (intro checkState_symmetric) simp
qed

section \<open>Reachable states\<close>

text \<open>The states the filter goes through in exact arithmetic while the matrices it inverts have an
  inverse.\<close>

inductive filter_reachable :: "(real \<Rightarrow> real \<Rightarrow> real) \<Rightarrow> real fusion \<Rightarrow> bool" for cs where
  fr_init: "fusion_shape s \<Longrightarrow> length q = 4 \<Longrightarrow> filter_reachable cs (initFusion (exact cs) q s)"
| fr_predict: "filter_reachable cs s \<Longrightarrow> length w = 3 \<Longrightarrow> filter_reachable cs (predict (exact cs) w dT s)"
| fr_update: "filter_reachable cs s
    \<Longrightarrow> invertible_3 (innovation (exact cs) (sensitivity (exact cs) Bi s) sigma (mP s))
    \<Longrightarrow> filter_reachable cs (update (exact cs) z Bi sigma s)"

lemma diag_symmetric:
  "symmetric [[mat_doAssign (exact cs) 3 3 a, mat_doAssign (exact cs) 3 3 b],
              [mat_doAssign (exact cs) 3 3 b, mat_doAssign (exact cs) 3 3 d]]"
  by (auto simp: symmetric_def less_2_cases)

lemma initFusion_symmetric:
  "symmetric (mP (initFusion (exact cs) q s))" "symmetric (mGQGt (initFusion (exact cs) q s))"
  by (simp_all add: initFusion_def Let_def zero_P_symmetric diag_symmetric)

lemma GQGt_kept:
  "mGQGt (predict A w dT s) = mGQGt s" "mGQGt (update A z Bi sigma s) = mGQGt s"
  by (simp_all add: predict_def update_def Let_def split: prod.split)


lemma scaleCovariance_zero:
  "scaleCovariance (exact cs) L (mat_doAssign (exact cs) 3 3 0) = mat_doAssign (exact cs) 3 3 0"
  by (simp add: scaleCovariance_entries scale_entry_def Let_def mat_doAssign_def upt_rec numeral_2_eq_2)


section \<open>\<^verbatim>\<open>scaleCovariance\<close>\<close>

lemma scale_entry_exact:
  "scale_entry (exact cs) m P r j =
     2 * (m ! 0 ! r * P ! 0 ! 0 / 2 + m ! 1 ! r * P ! 0 ! 1 + m ! 2 ! r * P ! 0 ! 2) * m ! 0 ! j
     + 2 * (m ! 1 ! r * P ! 1 ! 1 / 2 + m ! 2 ! r * P ! 1 ! 2) * m ! 1 ! j
     + m ! 2 ! r * P ! 2 ! 2 * m ! 2 ! j"
  by (simp add: scale_entry_def Let_def upt_rec numeral_2_eq_2)

lemma triple_product_entry:
  assumes "is_mat 3 3 m" "is_mat 3 3 P" "j < 3" "r < 3"
  shows "mat_mul (exact cs) (mat_mul (exact cs) m P) (transpose_mat id m) ! j ! r =
    (\<Sum>k<3. (\<Sum>l<3. m ! l ! r * P ! k ! l) * m ! k ! j)"
  using assms by (simp add: square_nth [of 3] mat_mul_3)

lemma scaleCovariance_nth:
  "r \<le> j \<Longrightarrow> j < 3 \<Longrightarrow> scaleCovariance A m P ! r ! j = scale_entry A m P r j"
proof -
  assume a: "r \<le> j" "j < 3"
  then have "(r = 0 \<and> j = 0) \<or> (r = 0 \<and> j = 1) \<or> (r = 0 \<and> j = 2) \<or> (r = 1 \<and> j = 1) \<or> (r = 1 \<and> j = 2) \<or> (r = 2 \<and> j = 2)"
    by auto
  then show ?thesis by (elim disjE conjE) (simp_all add: scaleCovariance_entries numeral_2_eq_2)
qed

text \<open>for a symmetric covariance, \<^verbatim>\<open>scaleCovariance\<close> has the diagonal of the product
  \<open>A * P * transpose(A)\<close> it announces; the other entries are different: for the cross matrix of a
  unit vector an off-diagonal entry is twice that of the product.\<close>

theorem scaleCovariance_diagonal_only:
  assumes "is_mat 3 3 m" "is_mat 3 3 P" "transpose_mat id P = P" "r < 3"
  shows "scaleCovariance (exact cs) m P ! r ! r =
           mat_mul (exact cs) (mat_mul (exact cs) m P) (transpose_mat id m) ! r ! r
       \<and> scaleCovariance (exact cs) (crossMatrix (exact cs) [1, 0, 0] 0) P ! 1 ! 2 =
           2 * mat_mul (exact cs) (mat_mul (exact cs) (crossMatrix (exact cs) [1, 0, 0] 0) P)
                 (transpose_mat id (crossMatrix (exact cs) [1, 0, 0] 0)) ! 1 ! 2"
proof -
  have s: "P ! 1 ! 0 = P ! 0 ! 1" "P ! 2 ! 0 = P ! 0 ! 2" "P ! 2 ! 1 = P ! 1 ! 2"
    using square_nth(2) [OF assms(2), of 1 0 id] square_nth(2) [OF assms(2), of 2 0 id]
      square_nth(2) [OF assms(2), of 2 1 id] assms(3) by simp_all
  let ?L = "crossMatrix (exact cs) [1, 0, 0] (0 :: real)"
  have L: "is_mat 3 3 ?L" by simp
  have "scaleCovariance (exact cs) m P ! r ! r =
      mat_mul (exact cs) (mat_mul (exact cs) m P) (transpose_mat id m) ! r ! r"
    unfolding triple_product_entry [OF assms(1,2,4,4)] scaleCovariance_nth [OF order_refl assms(4)]
      scale_entry_exact sum_3 s by (simp add: algebra_simps)
  moreover have "scaleCovariance (exact cs) ?L P ! 1 ! 2 = - 2 * P ! 1 ! 2"
    by (simp add: scaleCovariance_nth scale_entry_exact crossMatrix_def)
  moreover have "mat_mul (exact cs) (mat_mul (exact cs) ?L P) (transpose_mat id ?L) ! 1 ! 2 = - P ! 1 ! 2"
    by (subst triple_product_entry [OF L assms(2)]) (simp_all add: sum_3 crossMatrix_def s [unfolded One_nat_def])
  ultimately show ?thesis by simp
qed

lemma is_mat_3: "is_mat 3 3 [[a, b, c], [d, e, f], [g, h, i]]"
  by (auto simp: is_mat_def less_Suc_eq numeral_3_eq_3)

theorem scaleCovariance_diagonal_only_witness:
  "scaleCovariance (exact example_copysign) [[1, 2, 0], [0, 1, 3], [1, 0, 1]]
     [[2, 1, 0], [1, 2, 1], [0, 1, 2]] ! 0 ! 0 = 4"
proof -
  let ?m = "[[1, 2, 0], [0, 1, 3], [1, 0, 1]] :: real list list"
  let ?P = "[[2, 1, 0], [1, 2, 1], [0, 1, 2]] :: real list list"
  have m: "is_mat 3 3 ?m" "is_mat 3 3 ?P" by (simp_all add: is_mat_3)
  have "transpose_mat id ?P = ?P" by (simp add: transpose_mat_def upt_rec)
  note scaleCovariance_diagonal_only [OF m this, of 0 example_copysign]
  then show ?thesis by (simp add: triple_product_entry [OF m] sum_3)
qed

section \<open>The blocks of \<^verbatim>\<open>mPhi\<close> that are never assigned\<close>

lemma Phi_kept:
  "mPhi (update A z Bi sigma s) = mPhi s" "mPhi (initRodrParams A acc s) = mPhi s"
  "mPhi (correct_gravity A accel s) = mPhi s"
  "mPhi (predict A w dT s) ! 0 ! 1 = mPhi s ! 0 ! 1" "mPhi (predict A w dT s) ! 1 ! 1 = mPhi s ! 1 ! 1"
  by (simp_all add: update_def initRodrParams_def initFusion_def correct_gravity_def predict_def Let_def split: prod.split)

text \<open>The covariance before \<^verbatim>\<open>checkState\<close>.\<close>

definition predicted_P :: "'a arith \<Rightarrow> 'a list list list list \<Rightarrow> 'a fusion \<Rightarrow> 'a list list list list" where
  "predicted_P A F s = mat_add (block A)
     (mat_mul (block A) (mat_mul (block A) F (mP s)) (transpose_mat (transpose_mat id) F)) (mGQGt s)"

lemma predicted_P_entry:
  assumes "blocks_ok F" "blocks_ok (mP s)" "c < 2" "d < 2" "j < 3" "i < 3"
  shows "predicted_P (exact cs) F s ! c ! d ! j ! i =
     (\<Sum>k<2. \<Sum>b<3. (\<Sum>l<2. \<Sum>a<3. F ! l ! d ! a ! i * mP s ! k ! l ! b ! a) * F ! k ! c ! b ! j)
     + mGQGt s ! c ! d ! j ! i"
proof -
  have FP: "blocks_ok (mat_mul (block (exact cs)) F (mP s))"
    using assms(1,2) by (intro block_mul_shape) (simp_all add: blocks_ok_def)
  have N: "blocks_ok (mat_mul (block (exact cs)) (mat_mul (block (exact cs)) F (mP s)) (transpose_mat (transpose_mat id) F))"
    using blocks_okD(1,2) [OF FP] blocks_okD(1) [OF block_transpose_shape [OF assms(1)]] by (rule block_mul_shape)
  show ?thesis
    unfolding predicted_P_def using assms
    by (simp add: block_add_entry [OF N] block_mul_entry [OF FP block_transpose_shape [OF assms(1)]]
        block_mul_entry [OF assms(1,2)] block_transpose_entry)
qed

lemma predict_P:
  assumes "fusion_shape s" "length w = 3"
  shows "\<exists>a b. is_mat 3 3 a \<and> is_mat 3 3 b \<and>
     (mP (predict A w dT s) = predicted_P A [[a, mPhi s ! 0 ! 1], [b, mPhi s ! 1 ! 1]] s
      \<or> mP (predict A w dT s) = zero_P A)"
proof -
  obtain a b where ab: "Phi_blocks A (corrected_rate A w (mX1 s)) dT = (a, b)" by (metis surj_pair)
  have "mP (predict A w dT s) = predicted_P A [[a, mPhi s ! 0 ! 1], [b, mPhi s ! 1 ! 1]] s
      \<or> mP (predict A w dT s) = zero_P A"
    unfolding predict_def Let_def ab prod.case predicted_P_def checkState_def by simp
  then show ?thesis using Phi_blocks_shape [OF ab] by blast
qed

text \<open>no call of \<^verbatim>\<open>predict\<close>, whatever the arithmetic, assigns \<^verbatim>\<open>mPhi[0][1]\<close> and \<^verbatim>\<open>mPhi[1][1]\<close>, and
  the variance of the gyroscope bias depends on them: from a variance \<open>p\<close> the next one is
  \<open>f\<^sup>2 * p + q\<close>, where \<open>f\<close> is what the diagonal of \<^verbatim>\<open>mPhi[1][1]\<close> happens to hold (or the filter is
  reset). The comment in \<^verbatim>\<open>predict\<close> takes it for 1; memory full of zeros makes the filter forget what
  it knows of the bias.\<close>

theorem predict_uses_unassigned_blocks:
  assumes "fusion_shape s" "length w = 3"
    and "mPhi s ! 0 ! 1 = mat_doAssign (exact cs) 3 3 0" "mPhi s ! 1 ! 1 = mat_doAssign (exact cs) 3 3 f"
    and "mP s ! 1 ! 1 = mat_doAssign (exact cs) 3 3 p" "mGQGt s ! 1 ! 1 = mat_doAssign (exact cs) 3 3 q" "i < 3"
  shows "mPhi (predict (exact cs) w dT s) ! 0 ! 1 = mPhi s ! 0 ! 1
       \<and> mPhi (predict (exact cs) w dT s) ! 1 ! 1 = mPhi s ! 1 ! 1
       \<and> (mP (predict (exact cs) w dT s) ! 1 ! 1 ! i ! i = f\<^sup>2 * p + q
          \<or> mP (predict (exact cs) w dT s) = zero_P (exact cs))"
proof -
  obtain a b where ab: "is_mat 3 3 a" "is_mat 3 3 b"
    "mP (predict (exact cs) w dT s) = predicted_P (exact cs) [[a, mPhi s ! 0 ! 1], [b, mPhi s ! 1 ! 1]] s
      \<or> mP (predict (exact cs) w dT s) = zero_P (exact cs)"
    using predict_P [OF assms(1,2)] by blast
  define F where "F = [[a, mPhi s ! 0 ! 1], [b, mPhi s ! 1 ! 1]]"
  have F: "blocks_ok F" using ab(1,2) assms(3,4) by (simp add: F_def)
  have P: "blocks_ok (mP s)" using assms(1) by (simp add: fusion_shape_def)
  have F01: "F ! 0 ! 1 ! b ! i = 0" and F11: "F ! 1 ! 1 ! b ! i = (if b = i then f else 0)" if "b < 3" for b
    using that assms(3,4,7) by (simp_all add: F_def)
  have P11: "mP s ! 1 ! 1 ! b ! c = (if b = c then p else 0)" if "b < 3" "c < 3" for b c
    using that assms(5) by simp
  have two: "(\<Sum>k<2. g k) = g 0 + g 1" for g :: "nat \<Rightarrow> real" by (simp add: numeral_2_eq_2)
  have "(\<Sum>k<2. \<Sum>b<3. (\<Sum>l<2. \<Sum>a<3. F ! l ! 1 ! a ! i * mP s ! k ! l ! b ! a) * F ! k ! 1 ! b ! i) =
      (\<Sum>b<3. (\<Sum>a<3. F ! 1 ! 1 ! a ! i * mP s ! 1 ! 1 ! b ! a) * F ! 1 ! 1 ! b ! i)"
    unfolding two by (simp add: F01 [unfolded One_nat_def])
  also have "\<dots> = (\<Sum>b<3. (\<Sum>a<3. if a = i then f * (if b = i then p else 0) else 0) * (if b = i then f else 0))"
    by (intro sum.cong refl arg_cong2 [of _ _ _ _ "(*)"]) 
      (use assms(7) in \<open>simp_all add: F11 [unfolded One_nat_def] P11 [unfolded One_nat_def]\<close>)
  also have "\<dots> = f\<^sup>2 * p" using assms(7) by (simp add: power2_eq_square if_distrib [of "\<lambda>x. _ * x"] cong: if_cong)
  finally have "predicted_P (exact cs) F s ! 1 ! 1 ! i ! i = f\<^sup>2 * p + mGQGt s ! 1 ! 1 ! i ! i"
    using predicted_P_entry [OF F P, of 1 1 i i cs] assms(7) by simp
  then show ?thesis using ab(3) assms(6,7) by (auto simp: Phi_kept [unfolded One_nat_def] F_def)
qed

theorem predict_uses_unassigned_blocks_witness:
  "\<exists>s. fusion_shape s \<and> mP s ! 1 ! 1 = mat_doAssign (exact example_copysign) 3 3 5
     \<and> mPhi (predict (exact example_copysign) [0, 0, 1] 1 s) ! 1 ! 1 = mat_doAssign (exact example_copysign) 3 3 0
     \<and> mP (predict (exact example_copysign) [0, 0, 1] 1 s) ! 1 ! 1 ! 0 ! 0 \<le> 2"
proof -
  let ?D = "mat_doAssign (exact example_copysign) 3 3"
  let ?s = "(junk_fusion 0)\<lparr>mPhi := [[?D 0, ?D 0], [?D 0, ?D 0]], mP := [[?D 0, ?D 0], [?D 0, ?D 5]],
      mGQGt := [[?D 0, ?D 0], [?D 0, ?D 2]]\<rparr>"
  have sh: "fusion_shape ?s" using junk_fusion_shape [of "0 :: real"] by (simp add: fusion_shape_def)
  have "mPhi (predict (exact example_copysign) [0, 0, 1] 1 ?s) ! 1 ! 1 = ?D 0
      \<and> (mP (predict (exact example_copysign) [0, 0, 1] 1 ?s) ! 1 ! 1 ! 0 ! 0 = 2
         \<or> mP (predict (exact example_copysign) [0, 0, 1] 1 ?s) = zero_P (exact example_copysign))"
    using predict_uses_unassigned_blocks [of ?s "[0, 0, 1]" example_copysign 0 5 2 0 1, OF sh] by simp
  moreover have "zero_P (exact example_copysign) ! 1 ! 1 ! 0 ! 0 = 0" by (simp add: zero_P_def)
  ultimately show ?thesis using sh by (intro exI [of _ ?s]) auto
qed

section \<open>The test for positive semidefiniteness\<close>

text \<open>It accepts an indefinite matrix.\<close>

lemma isPositiveSemidefinite_accepts_indefinite:
  assumes "tolerance \<ge> 0"
  shows "isPositiveSemidefinite (exact cs) [[0, 1, 0], [1, 0, 0], [0, 0, 0]] tolerance
     \<and> dot_product (exact cs) [1, -1, 0]
         (mat_vec_mul (exact cs) [[0, 1, 0], [1, 0, 0], [0, 0, 0]] [1, -1, 0]) < 0"
  using assms
  by (simp add: isPositiveSemidefinite_def upt_rec numeral_2_eq_2 mat_vec_mul_def sum_3 eval_nat_numeral)

end
