(* ===== verification/Fusion_Failure.thy ===== *)
theory Fusion_Failure
  imports Fusion_Shape
begin

text \<open>
  What the filter does when things go wrong: an element that absorbs every operation (NaN) never
  leaves the attitude once it is there, the check of the state does not see it, and a zero
  acceleration at the start puts it there. And what the two sensors make of the readings.
\<close>

section \<open>Arithmetic with an absorbing element\<close>

locale nan_arith =
  fixes A :: "'a arith" and nan :: 'a
  assumes nan_add: "el_add A nan x = nan" "el_add A x nan = nan"
    and nan_sub: "el_sub A nan x = nan" "el_sub A x nan = nan"
    and nan_mul: "el_mul A nan x = nan" "el_mul A x nan = nan"
    and nan_div: "ar_div A x nan = nan"
    and nan_neg: "ar_neg A nan = nan"
    and nan_sqrt: "ar_sqrt A nan = nan"
    and nan_less: "\<not> ar_less A nan x" "\<not> ar_less A x nan"
    and nan_le: "\<not> ar_le A nan x" "\<not> ar_le A x nan"
    and nan_abs: "ar_abs A nan = nan"
    and nan_copysign: "ar_copysign A nan x = nan"
begin

lemmas nan_laws = nan_add nan_sub nan_mul nan_div nan_neg nan_sqrt nan_less nan_le nan_abs nan_copysign

lemma normalize_nan: "i < length v \<Longrightarrow> v ! i = nan \<Longrightarrow> normalize A v = map (\<lambda>_. nan) v"
proof -
  assume i: "i < length v" "v ! i = nan"
  have absorb: "fold (\<lambda>i r. el_add A r (f i)) js r = nan" if "r = nan \<or> (\<exists>j\<in>set js. f j = nan)" for js r and f :: "nat \<Rightarrow> 'a"
    using that
  proof (induction js arbitrary: r)
    case (Cons a js)
    have "el_add A r (f a) = nan \<or> (\<exists>j\<in>set js. f j = nan)" using Cons.prems nan_add by auto
    from Cons.IH [OF this] show ?case by simp
  qed simp
  have "dot_product A v v = nan"
    unfolding dot_product_def
  proof (rule absorb, rule disjI2, rule bexI)
    show "el_mul A (v ! i) (v ! i) = nan" unfolding i(2) by (rule nan_mul)
    show "i \<in> set [0..<length v]" using i(1) by simp
  qed
  then show ?thesis by (simp add: normalize_def vec_length_def doMulScalar_def nan_laws map_replicate_const)
qed

lemma quatToMatrix_nan: "quatToMatrix A [nan, nan, nan, nan] = replicate 3 [nan, nan, nan]"
  by (simp add: quatToMatrix_def Let_def nan_laws numeral_3_eq_3)

lemma mat_vec_mul_nan:
  "is_mat 4 4 m \<Longrightarrow> mat_vec_mul A m [nan, nan, nan, nan] = [nan, nan, nan, nan]"
  by (simp add: mat_vec_mul_def is_mat_def upt_small nan_laws)

lemma normalize_quat_nan: "normalize_quat A [nan, nan, nan, nan] = [nan, nan, nan, nan]"
  using normalize_nan [of 0 "[nan, nan, nan, nan]"] by (simp add: normalize_quat_def Let_def nan_laws)

lemma predict_nan:
  assumes "mX0 s = [nan, nan, nan, nan]" "length w = 3"
  shows "mX0 (predict A w dT s) = [nan, nan, nan, nan]"
proof -
  obtain a b where ab: "Phi_blocks A (corrected_rate A w (mX1 s)) dT = (a, b)" by (metis surj_pair)
  have x0: "mat_vec_mul A (rotation_O A (corrected_rate A w (mX1 s)) dT) (mX0 s) = [nan, nan, nan, nan]"
    unfolding assms(1) by (rule mat_vec_mul_nan [OF rotation_O_shape [OF corrected_rate_length [OF assms(2)]]])
  have w: "\<not> ar_less A ([nan, nan, nan, nan] ! 3) (ar_num A 0)" by (simp add: nan_laws)
  show ?thesis
    unfolding predict_def Let_def ab prod.case x0 if_not_P [OF w] by simp
qed

lemma update_nan:
  "mX0 s = [nan, nan, nan, nan] \<Longrightarrow> mX0 (update A z Bi sigma s) = [nan, nan, nan, nan]"
proof -
  assume x0: "mX0 s = [nan, nan, nan, nan]"
  have add: "vec_plus_assign A [nan, nan, nan, nan] v = [nan, nan, nan, nan]" for v
    by (simp add: assign_operators doAdd_def upt_rec nan_laws)
  show ?thesis unfolding update_def Let_def x0 add normalize_quat_nan by (simp split: prod.split)
qed

lemma correct_gravity_nan:
  "mX0 s = [nan, nan, nan, nan] \<Longrightarrow> mX0 (correct_gravity A accel s) = [nan, nan, nan, nan]"
  by (simp add: correct_gravity_def Let_def update_nan)

lemma calculateGravity_nan:
  assumes "mX0 (gravity_start A (take 3 (fv_data (hd accs))) s) = [nan, nan, nan, nan]"
    and "calculateGravity A accs gyros s = Inr (r, s')"
  shows "fv_data r = [nan, nan, nan] \<and> mX0 s' = [nan, nan, nan, nan]"
proof (rule calculateGravity_steps [OF assms(2)])
  fix acc gyro dT
  assume a: "acc = hd accs" and len: "3 \<le> length (fv_data gyro)"
    and s': "s' = predict A (take 3 (fv_data gyro)) dT
            ((correct_gravity A (take 3 (fv_data acc)) (gravity_start A (take 3 (fv_data acc)) s))
               \<lparr>mLastTimestamp := fv_timestamp gyro\<rparr>)"
    and r: "fv_data r = doMulScalar A (quatToMatrix A (mX0 s') ! 2) (NOMINAL_GRAVITY A)"
  have "mX0 s' = [nan, nan, nan, nan]"
    unfolding s' using assms(1) a len by (intro predict_nan) (simp_all add: correct_gravity_nan)
  then show ?thesis by (simp add: r quatToMatrix_nan doMulScalar_def upt_rec nan_laws)
qed

lemma isPositiveSemidefinite_nan: "isPositiveSemidefinite A (replicate 3 [nan, nan, nan]) tolerance"
  by (simp add: isPositiveSemidefinite_def numeral_3_eq_3 upt_rec nan_laws)

end

section \<open>Single precision\<close>

lemma fl_nan [simp]: "fl_add R x NaN = NaN" "fl_mul R x NaN = NaN" "fl_div R x NaN = NaN"
  "\<not> fl_le x NaN" "\<not> fl_less NaN x" "\<not> fl_less x NaN"
  by (cases x; simp add: fl_less_def)+

definition nan_copysign_ok :: "(fl \<Rightarrow> fl \<Rightarrow> fl) \<Rightarrow> bool" where
  "nan_copysign_ok copysign \<longleftrightarrow> (\<forall>y. copysign NaN y = NaN)"

interpretation ieee_nan: nan_arith "ieee fo (\<lambda>x y. if x = NaN then NaN else copysign x y)" NaN for fo copysign
  by unfold_locales (simp_all add: ieee_def Let_def)

text \<open>A run of readings between two activations.\<close>

fun gravity_run ::
  "'a arith \<Rightarrow> ('a fvalues list \<times> 'a fvalues list) list \<Rightarrow> 'a fusion \<Rightarrow> cpp_exception + 'a fvalues list \<times> 'a fusion" where
  "gravity_run A [] s = Inr ([], s)"
| "gravity_run A (x # xs) s =
     (case calculateGravity A (fst x) (snd x) s of
        Inl e \<Rightarrow> Inl e
      | Inr (r, s') \<Rightarrow> (case gravity_run A xs s' of
                         Inl e \<Rightarrow> Inl e
                       | Inr (rs, s'') \<Rightarrow> Inr (r # rs, s'')))"

lemma calculateGravity_started:
  "calculateGravity A accs gyros s = Inr (r, s') \<Longrightarrow> \<not> cs_mJustStarted s'"
proof (erule calculateGravity_steps)
  fix acc gyro dT
  assume s': "s' = predict A (take 3 (fv_data gyro)) dT
            ((correct_gravity A (take 3 (fv_data acc)) (gravity_start A (take 3 (fv_data acc)) s))
               \<lparr>mLastTimestamp := fv_timestamp gyro\<rparr>)"
  have p: "cs_mJustStarted (predict A w dT s) = cs_mJustStarted s" for w dT and s :: "'a fusion"
    by (simp add: predict_def Let_def split: prod.split)
  have u: "cs_mJustStarted (update A z Bi sigma s) = cs_mJustStarted s" for z Bi sigma and s :: "'a fusion"
    by (simp add: update_def Let_def split: prod.split)
  have "cs_mJustStarted (correct_gravity A accel s) = cs_mJustStarted s" for accel and s :: "'a fusion"
    by (simp add: correct_gravity_def Let_def u)
  then show ?thesis by (simp add: s' p) (simp add: gravity_start_def)
qed

context nan_arith
begin

lemma gravity_run_nan:
  "mX0 s = [nan, nan, nan, nan] \<Longrightarrow> \<not> cs_mJustStarted s \<Longrightarrow> gravity_run A xs s = Inr (rs, s')
   \<Longrightarrow> r \<in> set rs \<Longrightarrow> fv_data r = [nan, nan, nan]"
proof (induction xs arbitrary: s rs s')
  case (Cons x xs)
  obtain r1 s1 rs1 where c: "calculateGravity A (fst x) (snd x) s = Inr (r1, s1)"
    and g: "gravity_run A xs s1 = Inr (rs1, s')" and rs: "rs = r1 # rs1"
    using Cons.prems(3) by (auto split: sum.splits)
  have "fv_data r1 = [nan, nan, nan] \<and> mX0 s1 = [nan, nan, nan, nan]"
    using Cons.prems(1,2) by (intro calculateGravity_nan [OF _ c]) (simp add: gravity_start_def)
  then show ?case
    using Cons.IH [OF _ calculateGravity_started [OF c] g] Cons.prems(4) rs by auto
qed simp

lemma gravity_run_lost:
  assumes "mX0 (gravity_start A (take 3 (fv_data (hd (fst x)))) s) = [nan, nan, nan, nan]"
    and "gravity_run A (x # xs) s = Inr (rs, s')" "r \<in> set rs"
  shows "fv_data r = [nan, nan, nan]"
proof -
  obtain r1 s1 rs1 where c: "calculateGravity A (fst x) (snd x) s = Inr (r1, s1)"
    and g: "gravity_run A xs s1 = Inr (rs1, s')" and rs: "rs = r1 # rs1"
    using assms(2) by (auto split: sum.splits)
  from calculateGravity_nan [OF assms(1) c] have "fv_data r1 = [nan, nan, nan]" "mX0 s1 = [nan, nan, nan, nan]"
    by simp_all
  with gravity_run_nan [OF _ calculateGravity_started [OF c] g] assms(3) rs show ?thesis by auto
qed

end

section \<open>Starting in free fall\<close>

lemma start_of_zero:
  assumes "fp32 fo 0 = 0" "fp32 fo 1 = 1"
  shows "mX0 (initRodrParams (ieee fo (\<lambda>x y. if x = NaN then NaN else copysign x y)) [Fin 0, Fin 0, Fin 0] s) =
    [NaN, NaN, NaN, NaN]"
proof -
  let ?A = "ieee fo (\<lambda>x y. if x = NaN then NaN else copysign x y)"
  have max: "\<not> FLT_MAX < 0" "\<not> FLT_MAX < 1" by (simp_all add: FLT_MAX_def field_simps)
  have up: "normalize ?A [Fin 0, Fin 0, Fin 0] = [NaN, NaN, NaN]"
    using assms max
    by (simp add: normalize_def vec_length_def dot_product_def doMulScalar_def upt_rec ieee_def Let_def fl_round_def)
  have east: "getOrthogonal ?A [NaN, NaN, NaN] = [NaN, NaN, NaN]"
    using ieee_nan.normalize_nan [of 0 "[NaN, NaN, ar_num ?A 0]" fo copysign]
    by (simp add: getOrthogonal_def Let_def ieee_nan.nan_laws)
  have north: "cross_product ?A [NaN, NaN, NaN] [NaN, NaN, NaN] = [NaN, NaN, NaN]"
    by (simp add: cross_product_def ieee_nan.nan_laws)
  have "matrixToQuat ?A [[NaN, NaN, NaN], [NaN, NaN, NaN], [NaN, NaN, NaN]] = [NaN, NaN, NaN, NaN]"
    by (simp add: matrixToQuat_def Let_def quat_clamp_def ieee_nan.nan_laws)
  then show ?thesis by (simp add: initRodrParams_def Let_def up east north initFusion_def)
qed

text \<open>C40: in single precision, when the first reading after an activation is a zero acceleration,
  the normalisation divides by zero, and every gravity vector until the next activation is NaN in
  all components: the check of the state looks at the covariance only, and lets NaN pass there.\<close>

theorem zero_acceleration_loses_attitude:
  assumes "fp32 fo 0 = 0" "fp32 fo 1 = 1" "cs_mJustStarted s"
    and "take 3 (fv_data (hd (fst x))) = [Fin 0, Fin 0, Fin 0]"
    and "gravity_run (ieee fo (\<lambda>x y. if x = NaN then NaN else copysign x y)) (x # xs) s = Inr (rs, s')"
  shows "\<forall>r\<in>set rs. fv_data r = [NaN, NaN, NaN]"
proof
  fix r assume r: "r \<in> set rs"
  show "fv_data r = [NaN, NaN, NaN]"
    by (rule ieee_nan.gravity_run_lost [OF _ assms(5) r])
      (simp add: gravity_start_def assms(3,4) start_of_zero [OF assms(1,2)])
qed

theorem zero_acceleration_loses_attitude_witness:
  "\<exists>rs s'. gravity_run (ieee \<lparr>fp32 = id, fp64 = id\<rparr> (\<lambda>x y. if x = NaN then NaN else x))
       [([\<lparr>fv_timestamp = 1, fv_data = [Fin 0, Fin 0, Fin 0]\<rparr>], [\<lparr>fv_timestamp = 2, fv_data = [Fin 0, Fin 0, Fin 0]\<rparr>]),
        ([\<lparr>fv_timestamp = 3, fv_data = [Fin 0, Fin 0, Fin 9]\<rparr>], [\<lparr>fv_timestamp = 4, fv_data = [Fin 0, Fin 0, Fin 0]\<rparr>])]
       (junk_fusion (Fin 0)) = Inr (rs, s') \<and> rs \<noteq> [] \<and> (\<forall>r\<in>set rs. fv_data r = [NaN, NaN, NaN])"
proof -
  let ?A = "ieee \<lparr>fp32 = id, fp64 = id\<rparr> (\<lambda>x y. if x = NaN then NaN else x)"
  let ?x = "([\<lparr>fv_timestamp = 1, fv_data = [Fin 0, Fin 0, Fin 0]\<rparr>], [\<lparr>fv_timestamp = 2, fv_data = [Fin 0, Fin 0, Fin 0]\<rparr>])"
  let ?y = "([\<lparr>fv_timestamp = 3, fv_data = [Fin 0, Fin 0, Fin 9]\<rparr>], [\<lparr>fv_timestamp = 4, fv_data = [Fin 0, Fin 0, Fin 0]\<rparr>])"
  have step: "\<exists>r s'. calculateGravity ?A (fst z) (snd z) s = Inr (r, s')" if "z \<in> {?x, ?y}" for z s
    using that by (auto simp: calculateGravity_def Let_def)
  obtain r1 s1 where 1: "calculateGravity ?A (fst ?x) (snd ?x) (junk_fusion (Fin 0)) = Inr (r1, s1)" using step by blast
  obtain r2 s2 where 2: "calculateGravity ?A (fst ?y) (snd ?y) s1 = Inr (r2, s2)" using step by blast
  have run: "gravity_run ?A [?x, ?y] (junk_fusion (Fin 0)) = Inr ([r1, r2], s2)"
    unfolding gravity_run.simps 1 sum.case prod.case 2 by (rule refl)
  have "\<forall>r\<in>set [r1, r2]. fv_data r = [NaN, NaN, NaN]"
    by (rule zero_acceleration_loses_attitude [OF _ _ junk_fusion_started _ run]) simp_all
  then show ?thesis using run by (intro exI [of _ "[r1, r2]"] exI [of _ s2]) simp
qed

section \<open>The two sensors\<close>

lemma calculateGravity_length:
  "calculateGravity A accs gyros s = Inr (r, s') \<Longrightarrow> length (fv_data r) = 3 \<and> 3 \<le> length (fv_data (hd accs))"
  by (erule calculateGravity_steps) (simp add: quatToMatrix_def Let_def)

lemma sensors_of_parts:
  assumes "read_parts fo fs now cores (cs_mDependencyList s) ([], []) = Inr (accs, gyros)"
  shows "Gravity_readSensorValues A fo fs now cores s =
      map_sum id (\<lambda>(r, s'). ([r], s')) (calculateGravity A (map (of_values A) accs) (map (of_values A) gyros) s)"
    and "LinearAcceleration_readSensorValues A fo fs now cores s =
      map_sum id (\<lambda>(r, s'). let acc = of_values A (hd accs) in
          ([acc\<lparr>fv_data := doSub A (take 3 (fv_data acc)) (fv_data r) @ drop 3 (fv_data acc)\<rparr>], s'))
        (calculateGravity A (map (of_values A) accs) (map (of_values A) gyros) s)"
  by (simp_all add: Gravity_readSensorValues_def LinearAcceleration_readSensorValues_def assms Let_def
      split: sum.split prod.split)

text \<open>from the same state and readings the gravity sensor and the linear acceleration sensor
  compute the same filter step, and in exact arithmetic the two values add up to the measured
  acceleration; when a part has no reading both run into undefined behaviour.\<close>

theorem linear_acceleration_plus_gravity:
  assumes "read_parts fo fs now cores (cs_mDependencyList s) ([], []) = Inr (accs, gyros)"
  shows "if accs = [] \<or> gyros = []
         then Gravity_readSensorValues (exact cs) fo fs now cores s = Inl Undefined_behaviour
            \<and> LinearAcceleration_readSensorValues (exact cs) fo fs now cores s = Inl Undefined_behaviour
         else case (Gravity_readSensorValues (exact cs) fo fs now cores s,
                    LinearAcceleration_readSensorValues (exact cs) fo fs now cores s) of
                (Inr ([g], s1), Inr ([a], s2)) \<Rightarrow>
                  s1 = s2 \<and> doAdd (exact cs) (take 3 (fv_data a)) (fv_data g) = take 3 (sv_data (hd accs))
              | (Inl e1, Inl e2) \<Rightarrow> e1 = e2
              | _ \<Rightarrow> False"
proof (cases "accs = [] \<or> gyros = []")
  case True
  then have "calculateGravity (exact cs) (map (of_values (exact cs)) accs) (map (of_values (exact cs)) gyros) s =
      Inl Undefined_behaviour"
    by (auto simp: calculateGravity_def split: list.split)
  then show ?thesis using True by (simp add: sensors_of_parts [OF assms])
next
  case False
  show ?thesis
  proof (cases "calculateGravity (exact cs) (map (of_values (exact cs)) accs) (map (of_values (exact cs)) gyros) s")
    case (Inl e)
    then show ?thesis using False by (simp add: sensors_of_parts [OF assms])
  next
    case (Inr p)
    obtain r s' where p: "p = (r, s')" by (metis surj_pair)
    have len: "length (fv_data r) = 3" "3 \<le> length (sv_data (hd accs))"
      using calculateGravity_length [OF Inr [unfolded p]] False by (auto simp: hd_map of_values_def)
    have "doAdd (exact cs) (doSub (exact cs) (take 3 (sv_data (hd accs))) (fv_data r)) (fv_data r) = take 3 (sv_data (hd accs))"
      using len by (intro nth_equalityI) simp_all
    then show ?thesis
      using False len by (simp add: sensors_of_parts [OF assms] Inr p Let_def of_values_def)
  qed
qed

definition example_part :: "BoschSensorType \<Rightarrow> string list \<Rightarrow> SensorCore" where
  "example_part type files = SensorCore_setDevice example_fs ''/d/''
     (SensorCore_new (SensorData_init\<lparr>sd_sysfsRaw := files, sd_resolution := 1, sd_type := type\<rparr>))"

lemma example_part_facts:
  "sd_type (mSensorData (example_part type files)) = type"
  "SensorCore_readSensorValues \<lparr>fp32 = id, fp64 = id\<rparr> example_fs n (example_part type [''x'', ''y'', ''x'']) =
     Inr [\<lparr>sv_timestamp = n, sv_data = [-981, 12, -981]\<rparr>]"
proof -
  show "sd_type (mSensorData (example_part type files)) = type"
    by (simp add: example_part_def SensorCore_setDevice_def SensorCore_new_def SensorCore_init_def Let_def)
  show "SensorCore_readSensorValues \<lparr>fp32 = id, fp64 = id\<rparr> example_fs n (example_part type [''x'', ''y'', ''x'']) =
     Inr [\<lparr>sv_timestamp = n, sv_data = [-981, 12, -981]\<rparr>]"
    unfolding example_part_def
    by (subst SensorCore_reads_files [of example_fs "''/d/''" _ "[-981, 12, -981]"])
      (simp_all add: holds_int_example)
qed

theorem linear_acceleration_plus_gravity_witness:
  "let cores = [example_part ACCEL [''x'', ''y'', ''x''], example_part GYRO [''x'', ''y'', ''x'']];
       s = (junk_fusion 7)\<lparr>cs_mDependencyList := [0, 1]\<rparr>;
       A = exact example_copysign; fo = \<lparr>fp32 = id, fp64 = id\<rparr>
   in \<exists>g a s'. Gravity_readSensorValues A fo example_fs (\<lambda>i. 5) cores s = Inr ([g], s')
        \<and> LinearAcceleration_readSensorValues A fo example_fs (\<lambda>i. 5) cores s = Inr ([a], s')
        \<and> doAdd A (take 3 (fv_data a)) (fv_data g) = [-981, 12, -981]"
proof -
  let ?cores = "[example_part ACCEL [''x'', ''y'', ''x''], example_part GYRO [''x'', ''y'', ''x'']]"
  let ?s = "(junk_fusion (7 :: real))\<lparr>cs_mDependencyList := [0, 1]\<rparr>"
  let ?A = "exact example_copysign" and ?fo = "\<lparr>fp32 = id, fp64 = id\<rparr>"
  let ?v = "[\<lparr>sv_timestamp = 5, sv_data = [-981, 12, -981 :: real]\<rparr>]"
  have parts: "read_parts ?fo example_fs (\<lambda>i. 5) ?cores (cs_mDependencyList ?s) ([], []) = Inr (?v, ?v)"
    by (simp add: example_part_facts)
  obtain r s' where c: "calculateGravity ?A (map (of_values ?A) ?v) (map (of_values ?A) ?v) ?s = Inr (r, s')"
    by (simp add: calculateGravity_def of_values_def Let_def)
  obtain g a where "Gravity_readSensorValues ?A ?fo example_fs (\<lambda>i. 5) ?cores ?s = Inr ([g], s')"
    and "LinearAcceleration_readSensorValues ?A ?fo example_fs (\<lambda>i. 5) ?cores ?s = Inr ([a], s')"
    unfolding sensors_of_parts [OF parts] c by (simp add: Let_def)
  with linear_acceleration_plus_gravity [OF parts, of example_copysign] show ?thesis by (simp add: Let_def)
qed

end
