(* ===== verification/Fusion_Rotation.thy ===== *)
theory Fusion_Rotation
  imports Fusion_Attitude
begin

text \<open>
  What the prediction does, in exact arithmetic: the gravity direction in the frame of the device
  turns about the axis of the corrected rotation rate, against the rate, by the rate times the elapsed time
  (the formula of Rodrigues). And what the first reading after an activation therefore reports: the
  measured acceleration, turned by the rate times the time since the last reading before it.
\<close>

section \<open>Rotation by the formula of Rodrigues\<close>

text \<open>The vector \<open>v\<close> turned about the unit vector \<open>u\<close> by the angle \<open>t\<close>.\<close>

definition rodrigues :: "real list \<Rightarrow> real \<Rightarrow> real list \<Rightarrow> real list" where
  "rodrigues u t v =
     (let E = exact (\<lambda>x y. x) in
      doAdd E (doAdd E (doScalarMul E (cos t) v) (doScalarMul E (sin t) (cross_product E u v)))
        (doScalarMul E ((1 - cos t) * dot_product E u v) u))"

lemma rodrigues_3:
  "rodrigues [a, b, c] t [x, y, z] =
     [cos t * x + sin t * (b * z - c * y) + (1 - cos t) * (a * x + b * y + c * z) * a,
      cos t * y + sin t * (c * x - a * z) + (1 - cos t) * (a * x + b * y + c * z) * b,
      cos t * z + sin t * (a * y - b * x) + (1 - cos t) * (a * x + b * y + c * z) * c]"
  by (simp add: rodrigues_def Let_def vec_3 dot_product_def upt_rec)

text \<open>The gravity direction of a product of unit quaternions: \<open>[p0, p1, p2, k]\<close> is the quaternion of the
  step, with the half angle.\<close>

lemma third_axis_product:
  fixes x y z w a b c k s :: real
  assumes "x\<^sup>2 + y\<^sup>2 + z\<^sup>2 + w\<^sup>2 = 1" "a\<^sup>2 + b\<^sup>2 + c\<^sup>2 = 1" "k\<^sup>2 + s\<^sup>2 = 1"
    and X: "X = k * x + s * (c * y - b * z) + s * a * w" "Y = k * y + s * (a * z - c * x) + s * b * w"
      "Z = k * z + s * (b * x - a * y) + s * c * w" "W = k * w - s * (a * x + b * y + c * z)"
    and g: "g0 = 2 * x * z - 2 * y * w" "g1 = 2 * y * z + 2 * x * w" "g2 = 1 - 2 * x * x - 2 * y * y"
  shows "2 * X * Z - 2 * Y * W = (k\<^sup>2 - s\<^sup>2) * g0 - 2 * s * k * (b * g2 - c * g1)
        + 2 * s\<^sup>2 * (a * g0 + b * g1 + c * g2) * a"
    "2 * Y * Z + 2 * X * W = (k\<^sup>2 - s\<^sup>2) * g1 - 2 * s * k * (c * g0 - a * g2)
        + 2 * s\<^sup>2 * (a * g0 + b * g1 + c * g2) * b"
    "1 - 2 * X * X - 2 * Y * Y = (k\<^sup>2 - s\<^sup>2) * g2 - 2 * s * k * (a * g1 - b * g0)
        + 2 * s\<^sup>2 * (a * g0 + b * g1 + c * g2) * c"
proof -
  have g2: "g2 = z\<^sup>2 + w\<^sup>2 - x\<^sup>2 - y\<^sup>2" using assms(1) by (simp add: g power2_eq_square)
  have "2 * X * Z - 2 * Y * W = (k\<^sup>2 + s\<^sup>2 * (a\<^sup>2 + b\<^sup>2 + c\<^sup>2) - 2 * s\<^sup>2 * (a\<^sup>2 + b\<^sup>2 + c\<^sup>2)) * g0
      - 2 * s * k * (b * g2 - c * g1) + 2 * s\<^sup>2 * (a * g0 + b * g1 + c * g2) * a"
    unfolding X g2 g(1,2) by algebra
  then show "2 * X * Z - 2 * Y * W = (k\<^sup>2 - s\<^sup>2) * g0 - 2 * s * k * (b * g2 - c * g1)
        + 2 * s\<^sup>2 * (a * g0 + b * g1 + c * g2) * a"
    using assms(2) by simp
  have "2 * Y * Z + 2 * X * W = (k\<^sup>2 + s\<^sup>2 * (a\<^sup>2 + b\<^sup>2 + c\<^sup>2) - 2 * s\<^sup>2 * (a\<^sup>2 + b\<^sup>2 + c\<^sup>2)) * g1
      - 2 * s * k * (c * g0 - a * g2) + 2 * s\<^sup>2 * (a * g0 + b * g1 + c * g2) * b"
    unfolding X g2 g(1,2) by algebra
  then show "2 * Y * Z + 2 * X * W = (k\<^sup>2 - s\<^sup>2) * g1 - 2 * s * k * (c * g0 - a * g2)
        + 2 * s\<^sup>2 * (a * g0 + b * g1 + c * g2) * b"
    using assms(2) by simp
  have n: "X\<^sup>2 + Y\<^sup>2 + Z\<^sup>2 + W\<^sup>2 = 1"
  proof -
    have "X\<^sup>2 + Y\<^sup>2 + Z\<^sup>2 + W\<^sup>2 = (k\<^sup>2 + s\<^sup>2 * (a\<^sup>2 + b\<^sup>2 + c\<^sup>2)) * (x\<^sup>2 + y\<^sup>2 + z\<^sup>2 + w\<^sup>2)" unfolding X by algebra
    then show ?thesis using assms(1-3) by simp
  qed
  have "Z\<^sup>2 + W\<^sup>2 - X\<^sup>2 - Y\<^sup>2 = (k\<^sup>2 + s\<^sup>2 * (a\<^sup>2 + b\<^sup>2 + c\<^sup>2) - 2 * s\<^sup>2 * (a\<^sup>2 + b\<^sup>2 + c\<^sup>2)) * g2
      - 2 * s * k * (a * g1 - b * g0) + 2 * s\<^sup>2 * (a * g0 + b * g1 + c * g2) * c"
    unfolding X g2 g(1,2) by algebra
  then show "1 - 2 * X * X - 2 * Y * Y = (k\<^sup>2 - s\<^sup>2) * g2 - 2 * s * k * (a * g1 - b * g0)
        + 2 * s\<^sup>2 * (a * g0 + b * g1 + c * g2) * c"
    using assms(2) n by (simp add: power2_eq_square)
qed

section \<open>The prediction turns gravity\<close>

lemma rotation_O_turns:
  assumes "length we = 3" "norm2 we > 0" "length q = 4" "norm2 q = 1"
  shows "quatToMatrix (exact cs) (mat_vec_mul (exact cs) (rotation_O (exact cs) we dT) q) ! 2
       = rodrigues (normalize (exact cs) we) (- (sqrt (norm2 we) * dT)) (quatToMatrix (exact cs) q ! 2)"
proof -
  obtain a b c where we: "we = [a, b, c]" using assms(1) by (rule length_3_cases)
  obtain x y z w where q: "q = [x, y, z, w]" using assms(3) by (rule length_4_cases)
  define n where "n = sqrt (a\<^sup>2 + b\<^sup>2 + c\<^sup>2)"
  define k s where "k = cos (1 / 2 * (n * dT))" and "s = sin (1 / 2 * (n * dT))"
  define a' b' c' where u: "a' = a * (1 / n)" "b' = b * (1 / n)" "c' = c * (1 / n)"
  have n: "n > 0" "n\<^sup>2 = a\<^sup>2 + b\<^sup>2 + c\<^sup>2" "sqrt (norm2 we) = n" using assms(2) by (simp_all add: we norm2_3 n_def)
  have unit: "a'\<^sup>2 + b'\<^sup>2 + c'\<^sup>2 = 1"
  proof -
    have "a'\<^sup>2 + b'\<^sup>2 + c'\<^sup>2 = n\<^sup>2 * (1 / n)\<^sup>2" by (simp only: u n(2) power_mult_distrib distrib_right)
    then show ?thesis using n(1) by (simp add: power_divide)
  qed
  have double: "cos (n * dT) = k\<^sup>2 - s\<^sup>2" "sin (n * dT) = 2 * s * k"
    using cos_double [of "1 / 2 * (n * dT)"] sin_double [of "1 / 2 * (n * dT)"] by (simp_all add: k_def s_def)
  have one: "k\<^sup>2 + s\<^sup>2 = 1" "x\<^sup>2 + y\<^sup>2 + z\<^sup>2 + w\<^sup>2 = 1" using assms(4) by (simp_all add: k_def s_def q norm2_4)
  then have vers: "1 - (k\<^sup>2 - s\<^sup>2) = 2 * s\<^sup>2" by linarith
  have len: "normalize (exact cs) we = [a', b', c']" by (simp add: we normalize_3 Let_def u n_def)
  define X Y Z W where X: "X = k * x + s * (c' * y - b' * z) + s * a' * w" "Y = k * y + s * (a' * z - c' * x) + s * b' * w"
    "Z = k * z + s * (b' * x - a' * y) + s * c' * w" "W = k * w - s * (a' * x + b' * y + c' * z)"
  have O: "mat_vec_mul (exact cs) (rotation_O (exact cs) we dT) q = [X, Y, Z, W]"
    unfolding we q rotation_O_exact [OF k_def [unfolded n_def] refl, folded n_def, folded s_def]
    by (simp add: mat_vec_mul_def upt_rec X u algebra_simps)
  show ?thesis
    unfolding O len n(3) unfolding q quatToMatrix_exact
    by (simp add: rodrigues_3 double vers third_axis_product [OF one(2) unit one(1) X refl refl refl])
qed

lemma quatToMatrix_neg: "length q = 4 \<Longrightarrow> quatToMatrix (exact cs) (vec_neg (exact cs) q) = quatToMatrix (exact cs) q"
  by (elim length_4_cases) (simp add: vec_4 quatToMatrix_exact)

lemma predict_attitude:
  fixes s :: "'a fusion"
  shows "mX0 (predict A w dT s) =
    (let x0 = mat_vec_mul A (rotation_O A (corrected_rate A w (mX1 s)) dT) (mX0 s)
     in if ar_less A (x0 ! 3) (ar_num A 0) then vec_neg A x0 else x0)"
  by (simp add: predict_def Let_def split: prod.split)

lemma predict_axis:
  assumes "fusion_shape s" "length w = 3" "norm2 (mX0 s) = 1"
  shows "quatToMatrix (exact cs) (mX0 (predict (exact cs) w dT s)) ! 2 =
    (let we = corrected_rate (exact cs) w (mX1 s)
     in rodrigues (normalize (exact cs) we) (- (sqrt (norm2 we) * dT)) (quatToMatrix (exact cs) (mX0 s) ! 2))"
proof -
  define we where "we = corrected_rate (exact cs) w (mX1 s)"
  define x0 where "x0 = mat_vec_mul (exact cs) (rotation_O (exact cs) we dT) (mX0 s)"
  have we: "length we = 3" "norm2 we > 0"
    using assms corrected_rate_nonzero by (simp_all add: we_def corrected_rate_length fusion_shape_def)
  have "length x0 = 4" using mat_vec_mul_length [OF rotation_O_shape [OF we(1)]] by (simp add: x0_def)
  then have "quatToMatrix (exact cs) (mX0 (predict (exact cs) w dT s)) = quatToMatrix (exact cs) x0"
    unfolding predict_attitude we_def [symmetric] x0_def [symmetric] Let_def by (simp add: quatToMatrix_neg)
  moreover have "length (mX0 s) = 4" using assms(1) by (simp add: fusion_shape_def)
  ultimately show ?thesis
    unfolding Let_def we_def [symmetric] x0_def by (simp only: rotation_O_turns [OF we _ assms(3)])
qed

text \<open>C17: in exact arithmetic the prediction turns the direction of gravity, as seen from the device, by the
  rotation the gyroscope reports: about the axis of the rate (without the estimated bias, and never shorter
  than \<open>WVEC_EPS\<close>), backwards, by the rate times the time.\<close>

theorem predict_turns_gravity:
  assumes "fusion_shape s" "length w = 3" "norm2 (mX0 s) = 1"
  shows "quatToMatrix (exact cs) (mX0 (predict (exact cs) w dT s)) ! 2 =
    (let we = corrected_rate (exact cs) w (mX1 s)
     in rodrigues (normalize (exact cs) we) (- (sqrt (norm2 we) * dT)) (quatToMatrix (exact cs) (mX0 s) ! 2))"
  using assms by (rule predict_axis)

section \<open>The first reading\<close>

text \<open>A measurement that is what the attitude predicts leaves attitude and bias as they are.\<close>

lemma mat_vec_zero:
  assumes "is_mat C R m" "C > 0" "length v = C" "\<forall>i<C. v ! i = 0"
  shows "mat_vec_mul (exact cs) m v = replicate R 0"
proof (rule nth_equalityI)
  fix i assume "i < length (mat_vec_mul (exact cs) m v)"
  then show "mat_vec_mul (exact cs) m v ! i = replicate R 0 ! i"
    using assms by (simp add: is_mat_def mat_vec_mul_def fold_sum)
qed (use assms in \<open>simp add: mat_vec_mul_length\<close>)

lemma doAdd_zero: "length z = length v \<Longrightarrow> \<forall>i<length v. z ! i = 0 \<Longrightarrow> doAdd (exact cs) v z = v"
  by (rule nth_equalityI) simp_all

lemma normalize_quat_id:
  assumes "norm2 q = 1" "q ! 3 \<ge> 0"
  shows "normalize_quat (exact cs) q = q"
proof -
  have "vec_length (exact cs) q = 1" using assms(1) by (simp add: vec_length_def norm2_def)
  then have "normalize (exact cs) q = q" by (intro nth_equalityI) (simp_all add: normalize_def)
  then show ?thesis using assms(2) by (simp add: normalize_quat_def Let_def)
qed

lemma update_expected:
  assumes "fusion_shape s" "unit_attitude s"
    and "z = mat_vec_mul (exact cs) (quatToMatrix (exact cs) (mX0 s)) Bi"
  shows "mX0 (update (exact cs) z Bi sigma s) = mX0 s" "mX1 (update (exact cs) z Bi sigma s) = mX1 s"
    "mBa (update (exact cs) z Bi sigma s) = mBa s"
proof -
  define L where "L = crossMatrix (exact cs) z (ar_num (exact cs) 0)"
  obtain K0 K1 where K: "kalman_gain (exact cs) L sigma (mP s) = (K0, K1)" by (metis surj_pair)
  have KS: "is_mat 3 3 K0" "is_mat 3 3 K1"
    using kalman_gain_shape [OF _ K [unfolded L_def]] assms(1) by (simp_all add: fusion_shape_def)
  define e where "e = doSub (exact cs) z z"
  have "length z = 3" using mat_vec_mul_length [OF quatToMatrix_shape] by (simp add: assms(3))
  then have e: "length e = 3" "\<forall>i<3. e ! i = 0" by (simp_all add: e_def)
  have Ke: "mat_vec_mul (exact cs) K0 e = replicate 3 0" "mat_vec_mul (exact cs) K1 e = replicate 3 0"
    using mat_vec_zero [OF _ _ e] KS by simp_all
  have F: "mat_vec_mul (exact cs) (getF (exact cs) (mX0 s)) (doScalarMul (exact cs) c (replicate 3 0)) = replicate 4 0" for c
    by (rule mat_vec_zero [OF getF_shape]) simp_all
  have len: "length (mX0 s) = 4" "length (mX1 s) = 3" using assms(1) by (simp_all add: fusion_shape_def)
  show "mX0 (update (exact cs) z Bi sigma s) = mX0 s"
    unfolding update_def Let_def assms(3) [symmetric] L_def [symmetric] K prod.case e_def [symmetric] Ke assign_operators F
    using assms(2) by (simp add: doAdd_zero len normalize_quat_id unit_attitude_def)
  show "mX1 (update (exact cs) z Bi sigma s) = mX1 s"
    unfolding update_def Let_def assms(3) [symmetric] L_def [symmetric] K prod.case e_def [symmetric] Ke assign_operators
    by (simp add: doAdd_zero len)
  show "mBa (update (exact cs) z Bi sigma s) = mBa s"
    unfolding update_def Let_def by (simp split: prod.split)
qed

lemma third_column:
  assumes "is_mat 3 3 m"
  shows "mat_vec_mul (exact cs) m [0, 0, 1] = m ! 2"
proof -
  obtain c0 c1 c2 where m: "m = [c0, c1, c2]" using assms length_3_cases unfolding is_mat_def by metis
  have "length c0 = 3" "length c2 = 3" using assms by (simp_all add: m is_mat_def less_Suc_eq eval_nat_numeral)
  then show ?thesis by (elim length_3_cases) (simp add: m mat_vec_mul_def upt_rec)
qed

lemma initRodrParams_members:
  "mBa (initRodrParams (exact cs) acc s) = [0, 0, 1]" "mX1 (initRodrParams (exact cs) acc s) = [0, 0, 0]"
  "mLastTimestamp (initRodrParams (exact cs) acc s) = mLastTimestamp s"
  unfolding initRodrParams_def initFusion_def Let_def by (simp_all add: vec_fill_def upt_rec)

lemma correct_gravity_expected:
  assumes "fusion_shape s" "unit_attitude s" "mBa s = [0, 0, 1]"
    and "quatToMatrix (exact cs) (mX0 s) ! 2 = normalize (exact cs) accel"
  shows "mX0 (correct_gravity (exact cs) accel s) = mX0 s \<and> mX1 (correct_gravity (exact cs) accel s) = mX1 s"
proof -
  define m where "m = mat_vec_mul (exact cs) (quatToMatrix (exact cs) (mX0 s)) (mBm s)"
  define s1 where "s1 = update (exact cs) m (mBm s) (DEFAULT_MAG_STDEV (exact cs)) s"
  note s1 = update_expected [OF assms(1,2) m_def, of "DEFAULT_MAG_STDEV (exact cs)", folded s1_def]
  have a: "doMulScalar (exact cs) accel (ar_div (exact cs) (ar_num (exact cs) 1) (vec_length (exact cs) accel))
      = mat_vec_mul (exact cs) (quatToMatrix (exact cs) (mX0 s1)) (mBa s1)"
    by (simp only: s1 assms(3,4) third_column [OF quatToMatrix_shape] normalize_def)
  have "fusion_shape s1" "unit_attitude s1" by (simp_all add: s1_def assms update_shape update_unit)
  note update_expected [OF this a]
  then show ?thesis
    unfolding correct_gravity_def Let_def m_def [symmetric] s1_def [symmetric] by (simp add: s1)
qed

lemma calculateGravity_returns:
  assumes "3 \<le> length (fv_data acc)" "3 \<le> length (fv_data gyro)"
  shows "calculateGravity A (acc # accs) (gyro # gyros) s =
    (let s2 = correct_gravity A (take 3 (fv_data acc)) (gravity_start A (take 3 (fv_data acc)) s);
         s4 = predict A (take 3 (fv_data gyro))
                (ar_div A (ar_of_int A (i64 (fv_timestamp gyro - mLastTimestamp s2))) (ar_num A 1000000000))
                (s2\<lparr>mLastTimestamp := fv_timestamp gyro\<rparr>)
     in Inr (\<lparr>fv_timestamp = mLastTimestamp s4,
              fv_data = doMulScalar A (quatToMatrix A (mX0 s4) ! 2) (NOMINAL_GRAVITY A)\<rparr>, s4))"
  using assms by (simp add: calculateGravity_def gravity_start_def Let_def)

lemma mLastTimestamp_kept:
  "mLastTimestamp (update A z Bi sigma s) = mLastTimestamp s" "mLastTimestamp (predict A w dT s) = mLastTimestamp s"
  "mLastTimestamp (correct_gravity A accel s) = mLastTimestamp s"
  by (simp_all add: correct_gravity_def update_def predict_def Let_def split: prod.split)

text \<open>C18: in exact arithmetic the first gravity after an activation is the measured acceleration, scaled to
  9.80665 and turned by the rate of the gyroscope times the time since \<open>mLastTimestamp\<close>: the time since the last
  reading before the activation, and since the boot of the device when there was none.\<close>

theorem first_gravity_turned_since_last_timestamp:
  assumes "fusion_shape s" "cs_mJustStarted s" "copysign_ok cs"
    and "3 \<le> length (fv_data acc)" "3 \<le> length (fv_data gyro)" "norm2 (take 3 (fv_data acc)) \<noteq> 0"
  shows "\<exists>s'. calculateGravity (exact cs) (acc # accs) (gyro # gyros) s = Inr
    (\<lparr>fv_timestamp = fv_timestamp gyro,
      fv_data =
        (let we = corrected_rate (exact cs) (take 3 (fv_data gyro)) [0, 0, 0];
             dT = of_int (i64 (fv_timestamp gyro - mLastTimestamp s)) / 1000000000
         in doMulScalar (exact cs)
              (rodrigues (normalize (exact cs) we) (- (sqrt (norm2 we) * dT)) (normalize (exact cs) (take 3 (fv_data acc))))
              9.80665)\<rparr>, s')"
proof -
  define accel where "accel = take 3 (fv_data acc)"
  define s1 where "s1 = gravity_start (exact cs) accel s"
  define s2 where "s2 = correct_gravity (exact cs) accel s1"
  define s3 where "s3 = s2\<lparr>mLastTimestamp := fv_timestamp gyro\<rparr>"
  define dT where "dT = real_of_int (i64 (fv_timestamp gyro - mLastTimestamp s)) / 1000000000"
  define s4 where "s4 = predict (exact cs) (take 3 (fv_data gyro)) dT s3"
  have "length accel = 3" "norm2 accel \<noteq> 0" using assms(4,6) by (simp_all add: accel_def)
  note start = initRodrParams_exact [OF this assms(3), of s]
  have "s1 = (initRodrParams (exact cs) accel s)\<lparr>cs_mJustStarted := False\<rparr>" using assms(2) by (simp add: s1_def gravity_start_def)
  then have s1: "fusion_shape s1" "unit_attitude s1" "mBa s1 = [0, 0, 1]" "mX1 s1 = [0, 0, 0]"
    "mLastTimestamp s1 = mLastTimestamp s" "quatToMatrix (exact cs) (mX0 s1) ! 2 = normalize (exact cs) accel"
    using start assms(1) by (simp_all add: initRodrParams_shape unit_attitude_def initRodrParams_members)
  have s2: "mX0 s2 = mX0 s1" "mX1 s2 = [0, 0, 0]" "mLastTimestamp s2 = mLastTimestamp s"
    using correct_gravity_expected [OF s1(1-3,6)] s1(4,5) by (simp_all add: s2_def mLastTimestamp_kept)
  have s3: "fusion_shape s3" "norm2 (mX0 s3) = 1" "mX0 s3 = mX0 s1" "mX1 s3 = [0, 0, 0]"
    using s1(1,2) s2 by (simp_all add: s3_def) (simp_all add: s2_def correct_gravity_shape unit_attitude_def)
  have len: "length (take 3 (fv_data gyro)) = 3" using assms(5) by simp
  have "calculateGravity (exact cs) (acc # accs) (gyro # gyros) s = Inr
      (\<lparr>fv_timestamp = mLastTimestamp s4,
        fv_data = doMulScalar (exact cs) (quatToMatrix (exact cs) (mX0 s4) ! 2) (NOMINAL_GRAVITY (exact cs))\<rparr>, s4)"
    unfolding calculateGravity_returns [OF assms(4,5)] accel_def [symmetric] s1_def [symmetric] s2_def [symmetric]
    by (simp add: dT_def s4_def s3_def s2(3) Let_def)
  then show ?thesis
    by (simp add: s4_def mLastTimestamp_kept predict_axis [OF s3(1) len s3(2)] s3(3,4) s1(6) dT_def accel_def
        NOMINAL_GRAVITY_def Let_def) (simp add: s3_def)
qed

text \<open>A device at rest, whose gyroscope shows an offset of a thousandth of \<open>pi\<close> (0.18 degrees per second, about
  its first axis): activated 1000 seconds after boot, it reports first that gravity points the wrong way.\<close>

definition rest_1000 :: "real fvalues \<times> real fvalues" where
  "rest_1000 = (\<lparr>fv_timestamp = 1000000000000, fv_data = [0, 0, 9.80665]\<rparr>,
                \<lparr>fv_timestamp = 1000000000000, fv_data = [pi / 1000, 0, 0]\<rparr>)"

lemma rest_rate:
  "corrected_rate (exact cs) [pi / 1000, 0, 0] [0, 0, 0] = [pi / 1000, 0, 0]"
  "normalize (exact cs) [pi / 1000, 0, 0] = [1, 0, 0]" "sqrt (norm2 [pi / 1000, 0, 0]) = pi / 1000"
proof -
  show n: "sqrt (norm2 [pi / 1000, 0, 0]) = pi / 1000" by (simp add: norm2_3)
  then have l: "vec_length (exact cs) [pi / 1000, 0, 0] = pi / 1000" by (simp add: vec_length_def norm2_def)
  show "normalize (exact cs) [pi / 1000, 0, 0] = [1, 0, 0]" unfolding normalize_def l by (simp add: vec_3)
  have "\<not> pi / 1000 < WVEC_EPS (exact cs)" using pi_ge_two by (simp add: WVEC_EPS_def)
  then show "corrected_rate (exact cs) [pi / 1000, 0, 0] [0, 0, 0] = [pi / 1000, 0, 0]"
    by (simp add: corrected_rate_def Let_def vec_3 l)
qed

theorem first_gravity_turned_since_last_timestamp_witness:
  "\<exists>s'. calculateGravity (exact example_copysign) [fst rest_1000] [snd rest_1000] (junk_fusion 7) =
     Inr (\<lparr>fv_timestamp = 1000000000000, fv_data = [0, 0, - 9.80665]\<rparr>, s')"
proof -
  have "sqrt ((196133 / 20000 :: real)\<^sup>2) = 196133 / 20000" by (simp only: real_sqrt_abs)
  then have up: "normalize (exact example_copysign) [0, 0, 196133 / 20000] = [0, 0, 1]"
    by (simp add: normalize_3 Let_def del: power_divide)
  have last: "mLastTimestamp (junk_fusion (7 :: real)) = 0" by (simp add: junk_fusion_def Let_def CompositeSensorCore.defs)
  have i: "i64 1000000000000 = 1000000000000" by (rule i64_id) simp
  have half: "sin (pi / 1000 * (1000000000000 / 1000000000)) = 0" "cos (pi / 1000 * (1000000000000 / 1000000000)) = -1"
    by simp_all
  show ?thesis
    using first_gravity_turned_since_last_timestamp
      [of "junk_fusion 7" example_copysign "fst rest_1000" "snd rest_1000" "[]" "[]",
        OF junk_fusion_shape junk_fusion_started example_copysign_ok]
    by (simp add: rest_1000_def norm2_3 rest_rate up last i Let_def rodrigues_3 vec_3)
qed

theorem predict_turns_gravity_witness:
  "quatToMatrix (exact example_copysign)
     (mX0 (predict (exact example_copysign) [pi / 1000, 0, 0] 500
       (initFusion (exact example_copysign) [0, 0, 0, 1] (junk_fusion 7)))) ! 2 = [0, 1, 0]"
proof -
  let ?s = "initFusion (exact example_copysign) [0, 0, 0, 1] (junk_fusion 7)"
  have s: "fusion_shape ?s" "mX0 ?s = [0, 0, 0, 1]" "mX1 ?s = [0, 0, 0]"
    by (simp_all add: initFusion_shape junk_fusion_shape) (simp_all add: initFusion_def Let_def vec_fill_def upt_rec)
  have half: "pi / 1000 * 500 = pi / 2" by simp
  show ?thesis
    using predict_turns_gravity [OF s(1), of "[pi / 1000, 0, 0]" example_copysign 500]
    by (simp add: s(2,3) rest_rate norm2_4 quatToMatrix_exact rodrigues_3 Let_def half)
qed

end
