(* ===== verification/Sub_Events.thy ===== *)
theory Sub_Events
  imports Proxy_System
begin

text \<open>
  What a Bosch sub-HAL posts to the proxy: whatever the calls and polling rounds, every post comes from
  one of the sensors it lists, carries the handle of that sensor in every event, and asks for the wake
  lock exactly when the sensor is a wake-up sensor; posts are only ever added at the end, and the list
  of sensors never changes. These are the obligations of \<^verbatim>\<open>V2_1/SubHal.h\<close> towards the proxy.
\<close>

section \<open>A sensor\<close>

definition sensor_post :: "SensorInfo \<Rightarrow> Event list \<times> bool \<Rightarrow> bool" where
  "sensor_post info post \<longleftrightarrow>
     (case post of (events, wakeup) \<Rightarrow>
        wakeup = has_flag (si_flags info) FLAG_WAKE_UP
        \<and> (\<forall>ev\<in>set events. ev_sensorHandle ev = si_sensorHandle info))"

fun output_posts :: "sensor_output \<Rightarrow> (Event list \<times> bool) list" where
  "output_posts (Post_events events wakeup) = [(events, wakeup)]"
| "output_posts (Write_direct events period) = []"

definition log_posts :: "sensor_output list \<Rightarrow> (Event list \<times> bool) list" where
  "log_posts outs = concat (map output_posts outs)"

lemma log_posts_simps [simp]:
  "log_posts [] = []" "log_posts (out # outs) = output_posts out @ log_posts outs"
  "log_posts (outs @ outs') = log_posts outs @ log_posts outs'"
  by (simp_all add: log_posts_def)

text \<open>\<open>emits st st'\<close>: the sensor is the same one, and what was put out is its own.\<close>

definition emits :: "'s sensor_state \<Rightarrow> 's sensor_state \<Rightarrow> bool" where
  "emits st st' \<longleftrightarrow>
     hs_mSensorInfo (fst st') = hs_mSensorInfo (fst st)
     \<and> (\<exists>outs. se_log (snd st') = se_log (snd st) @ outs
          \<and> list_all (sensor_post (hs_mSensorInfo (fst st))) (log_posts outs))"

lemma emits_refl [simp]: "emits st st"
  by (simp add: emits_def)

lemma emits_trans: "emits st st1 \<Longrightarrow> emits st1 st2 \<Longrightarrow> emits st st2"
  unfolding emits_def by (metis append_assoc list_all_append log_posts_simps(3))

lemma emits_quiet:
  "hs_mSensorInfo (fst st') = hs_mSensorInfo (fst st) \<Longrightarrow> se_log (snd st') = se_log (snd st) \<Longrightarrow> emits st st'"
  by (simp add: emits_def)

lemma emits_emit:
  assumes "hs_mSensorInfo s' = hs_mSensorInfo s" "se_log e' = se_log e"
    and "list_all (sensor_post (hs_mSensorInfo s)) (output_posts out)"
  shows "emits (s, e) (s', emit out e')"
  using assms by (auto simp: emits_def emit_def intro!: exI [of _ "[out]"])

lemma quiet_log [simp]: "se_log (on_hal f e) = se_log e"
  by (simp add: on_hal_def)

lemma own_wakeup: "isWakeUpSensor s = has_flag (si_flags (hs_mSensorInfo s)) FLAG_WAKE_UP"
  by (simp add: isWakeUpSensor_def)

lemma emits_info_report: "emits st (sendAdditionalInfoReport hm clk st)"
proof -
  obtain s e where st: "st = (s, e)" by fastforce
  show ?thesis
    by (auto simp: st sendAdditionalInfoReport_def Let_def sensor_post_def own_wakeup intro!: emits_emit)
qed

lemma emits_batch: "emits st (Sensor_batch hm p l st)"
  by (rule emits_quiet) (simp_all add: Sensor_batch_def Let_def split: prod.split)

lemma emits_activate: "emits st (Sensor_activate hm clk en st)"
proof -
  obtain s e where st: "st = (s, e)" by fastforce
  let ?st = "(s\<lparr>hs_mIsEnabled := en, hs_mNextSampleTimeNs := (if en then 0 else INT64_MAX)\<rparr>, on_hal (hm_activate hm en) e)"
  have "emits st ?st" by (rule emits_quiet) (simp_all add: st)
  then show ?thesis
    using emits_trans [OF _ emits_info_report, of st ?st hm clk] by (auto simp: st Sensor_activate_def Let_def)
qed

lemma emits_flush: "emits st (snd (Sensor_flush hm clk junk st))"
proof -
  obtain s e where st: "st = (s, e)" by fastforce
  have "emits st (s, emit (Post_events [\<lparr>ev_timestamp = junk, ev_sensorHandle = si_sensorHandle (hs_mSensorInfo s),
      ev_sensorType = ST_META_DATA, ev_payload = P_flush_complete\<rparr>] (isWakeUpSensor s)) e)"
    unfolding st by (rule emits_emit) (simp_all add: sensor_post_def own_wakeup)
  from emits_trans [OF this emits_info_report] show ?thesis by (simp add: st Sensor_flush_def Let_def)
qed

lemma emits_update: "emits st (Sensor_updateDirectChannel hm st)"
  by (rule emits_quiet) (auto simp: Sensor_updateDirectChannel_def Let_def split: prod.split)

lemma emits_set_channel: "emits st (set_channel h c st)"
  by (rule emits_quiet) (simp_all add: set_channel_def split: prod.split)

lemma emits_stop: "emits st (Sensor_stopDirectChannel hm h st)"
  unfolding Sensor_stopDirectChannel_def
  by (rule emits_trans [OF _ emits_update]) (simp add: emits_set_channel split: option.split)

lemma emits_add: "emits st (Sensor_addDirectChannel hm h p st)"
  unfolding Sensor_addDirectChannel_def
  by (auto intro: emits_trans [OF emits_set_channel emits_stop] emits_trans [OF emits_set_channel emits_update])

lemma emits_remove: "emits st (Sensor_removeDirectChannel hm h st)"
  unfolding Sensor_removeDirectChannel_def
  by (rule emits_trans [OF _ emits_update], rule emits_quiet) (simp_all split: prod.split option.split)

lemma reading_events_handle:
  "reading_events fo info t vs = (evs, t') \<Longrightarrow> ev \<in> set evs \<Longrightarrow> ev_sensorHandle ev = si_sensorHandle info"
proof (induction vs arbitrary: t evs)
  case (Cons v vs)
  obtain e t1 where e: "reading_event fo info t v = (e, t1)" by fastforce
  obtain evs1 t2 where r: "reading_events fo info t1 vs = (evs1, t2)" by fastforce
  have "ev_sensorHandle e = si_sensorHandle info"
    using e by (auto simp: reading_event_def Let_def split: if_splits)
  then show ?case using Cons e r by auto
qed simp

lemma emits_round: "emits st (snd (Sensor_run_round fo hm t1 t2 st))"
proof (cases "\<not> hs_mIsEnabled (fst st) \<and> \<not> hs_mDirectChannelEnabled (fst st)")
  case False
  obtain s e where st: "st = (s, e)" by fastforce
  obtain evs t where r: "reading_events fo (hs_mSensorInfo s) (se_lastTemperature e) (hm_read hm (se_hal e)) = (evs, t)"
    by fastforce
  have own: "list_all (sensor_post (hs_mSensorInfo s)) (output_posts (Post_events evs (isWakeUpSensor s)))"
    using reading_events_handle [OF r] by (simp add: sensor_post_def own_wakeup)
  define e0 where "e0 = e\<lparr>se_lastTemperature := t\<rparr>"
  define st1 where "st1 = (if hs_mDirectChannelEnabled s \<and> t1 \<ge> hs_mNextDirectChannelNs s
      then (s\<lparr>hs_mNextDirectChannelNs := next_deadline t1 (hs_mDirectChannelRateNs s)\<rparr>,
            emit (Write_direct evs (hs_mDirectChannelRateNs s)) e0)
      else (s, e0))"
  define st2 where "st2 = (if hs_mIsEnabled (fst st1) \<and> t1 \<ge> hs_mNextSampleTimeNs (fst st1)
      then ((fst st1)\<lparr>hs_mNextSampleTimeNs := next_deadline t1 (hs_mSamplingPeriodNs (fst st1))\<rparr>,
            emit (Post_events evs (isWakeUpSensor (fst st1))) (snd st1))
      else st1)"
  have 1: "emits st st1"
    unfolding st st1_def e0_def
    by (auto intro!: emits_emit) (simp_all add: emits_quiet)
  have i: "hs_mSensorInfo (fst st1) = hs_mSensorInfo s" by (simp add: st1_def)
  have "emits st1 st2"
    using own i by (cases st1) (auto simp: st2_def own_wakeup intro!: emits_emit)
  with 1 have "emits st st2" by (rule emits_trans)
  moreover have "snd (Sensor_run_round fo hm t1 t2 st) = st2"
    using False unfolding st1_def st2_def e0_def
    by (auto simp: st Sensor_run_round_def Sensor_readEvents_def r Let_def)
  ultimately show ?thesis by simp
qed (simp add: Sensor_run_round_def)

lemmas emits_ops = emits_batch emits_activate emits_flush emits_stop emits_add emits_remove emits_round

section \<open>A sub-HAL\<close>

text \<open>\<open>sub_emits st st'\<close>: the sub-HAL lists the same sensors, and what it posted since \<open>st\<close> is a list of
  posts of its own sensors.\<close>

definition own_post :: "SensorInfo list \<Rightarrow> Event list \<times> bool \<Rightarrow> bool" where
  "own_post infos post \<longleftrightarrow> (\<exists>info\<in>set infos. sensor_post info post)"

definition sub_emits :: "('s, 'e) bosch_sub_hal \<Rightarrow> ('s, 'e) bosch_sub_hal \<Rightarrow> bool" where
  "sub_emits st st' \<longleftrightarrow>
     (sm_ok (sb_mSensors st) \<longrightarrow>
        sm_ok (sb_mSensors st') \<and> SubHal_getSensorsList st' = SubHal_getSensorsList st
        \<and> (\<exists>posts. sb_posted st' = sb_posted st @ posts
             \<and> list_all (own_post (SubHal_getSensorsList st)) posts))"

lemma sub_emits_refl [simp]: "sub_emits st st"
  by (simp add: sub_emits_def)

lemma sub_emits_trans: "sub_emits st st1 \<Longrightarrow> sub_emits st1 st2 \<Longrightarrow> sub_emits st st2"
  unfolding sub_emits_def by (metis append_assoc list_all_append)

lemma sub_emits_quiet:
  "sb_mSensors st' = sb_mSensors st \<Longrightarrow> sb_posted st' = sb_posted st \<Longrightarrow> sub_emits st st'"
  by (simp add: sub_emits_def SubHal_getSensorsList_def)

lemma sub_emits_fold: "(\<And>x st. sub_emits st (f x st)) \<Longrightarrow> sub_emits st (fold f xs st)"
  by (induction xs arbitrary: st) (auto intro: sub_emits_trans)

lemma infos_put:
  "sm_ok m \<Longrightarrow> sm_find k m = Some v \<Longrightarrow> g v' = g v \<Longrightarrow> map g (sm_values (sm_put k v' m)) = map g (sm_values m)"
proof (induction k v' m rule: sm_put.induct)
  case (2 k v' k' w m)
  then show ?case
    by (auto simp: sm_values_def sm_ok_Cons dest!: sm_find_in_set split: if_splits)
qed simp

lemma delivered_posts:
  "sb_posted (fold (sub_deliver conv busy) outs st) = sb_posted st @ log_posts outs
   \<and> sb_mSensors (fold (sub_deliver conv busy) outs st) = sb_mSensors st"
proof (induction outs arbitrary: st)
  case (Cons out outs)
  have w: "sb_posted (SubHal_writeToDirectBuffer conv busy events p st) = sb_posted st
      \<and> sb_mSensors (SubHal_writeToDirectBuffer conv busy events p st) = sb_mSensors st" for events p
  proof -
    have "sb_posted (fold (\<lambda>event st. st\<lparr>sb_mDirectChannels := f event (sb_mDirectChannels st)\<rparr>) events st) = sb_posted st
      \<and> sb_mSensors (fold (\<lambda>event st. st\<lparr>sb_mDirectChannels := f event (sb_mDirectChannels st)\<rparr>) events st) = sb_mSensors st" for f
      by (induction events arbitrary: st) simp_all
    from this [of "\<lambda>event. sm_map (\<lambda>_. SubHal_channel_event conv p event)"]
    show ?thesis by (simp add: SubHal_writeToDirectBuffer_def)
  qed
  show ?case using Cons.IH [of "sub_deliver conv busy out st"] w
    by (cases out) (simp_all add: SubHal_postEvents_def)
qed simp

lemma sub_emits_call:
  assumes "sm_find h (sb_mSensors st) = Some s" "\<And>st. emits st (f st)"
  shows "sub_emits st (sub_call conv busy h s f st)"
  unfolding sub_emits_def
proof (rule impI)
  assume ok: "sm_ok (sb_mSensors st)"
  obtain s' e' where f: "f (s, sub_env st) = (s', e')" by fastforce
  have "emits (s, sub_env st) (s', e')" using assms(2) [of "(s, sub_env st)"] f by simp
  then have i: "hs_mSensorInfo s' = hs_mSensorInfo s"
    and l: "list_all (sensor_post (hs_mSensorInfo s)) (log_posts (se_log e'))"
    by (auto simp: emits_def sub_env_def)
  define st1 where "st1 = st\<lparr>sb_mSensors := sm_put h s' (sb_mSensors st), sb_hal := se_hal e',
      sb_lastTemperature := se_lastTemperature e'\<rparr>"
  have c: "sub_call conv busy h s f st = fold (sub_deliver conv busy) (se_log e') st1"
    by (simp add: sub_call_def f st1_def)
  have "hs_mSensorInfo s \<in> set (SubHal_getSensorsList st)"
    using sm_find_in_set [OF assms(1)] by (force simp: SubHal_getSensorsList_def sm_values_def)
  then have "list_all (own_post (SubHal_getSensorsList st)) (log_posts (se_log e'))"
    using l by (auto simp: list_all_iff own_post_def)
  moreover have "sb_posted (sub_call conv busy h s f st) = sb_posted st @ log_posts (se_log e')"
    "sb_mSensors (sub_call conv busy h s f st) = sm_put h s' (sb_mSensors st)"
    using delivered_posts [of conv busy "se_log e'" st1] by (simp_all add: c st1_def)
  ultimately show "sm_ok (sb_mSensors (sub_call conv busy h s f st))
      \<and> SubHal_getSensorsList (sub_call conv busy h s f st) = SubHal_getSensorsList st
      \<and> (\<exists>posts. sb_posted (sub_call conv busy h s f st) = sb_posted st @ posts
           \<and> list_all (own_post (SubHal_getSensorsList st)) posts)"
    using ok infos_put [OF ok assms(1), of hs_mSensorInfo s'] i by (simp add: SubHal_getSensorsList_def)
qed

lemma sub_emits_on: "(\<And>st. emits st (f st)) \<Longrightarrow> sub_emits st (on_sub_sensor conv h f st)"
  by (auto simp: on_sub_sensor_def sub_emits_call split: option.split)

lemma sub_emits_activate: "sub_emits st (snd (SubHal_activate hms conv clk h en st))"
  by (auto simp: SubHal_activate_def sub_sensor_eqs emits_ops sub_emits_call split: option.split)

lemma sub_emits_batch: "sub_emits st (snd (SubHal_batch hms conv h p l st))"
proof -
  have lat: "sub_emits st (st\<lparr>sb_mReportLatencyNs := m\<rparr>)" for m
    by (rule sub_emits_quiet) simp_all
  have call: "sub_emits st (sub_call conv False h s (Sensor_batch (hms h) p used) (st\<lparr>sb_mReportLatencyNs := m\<rparr>))"
    if "sm_find h (sb_mSensors st) = Some s" for m used s
    by (rule sub_emits_trans [OF lat sub_emits_call]) (simp_all add: that emits_batch)
  show ?thesis
    by (auto simp: SubHal_batch_def Let_def sub_sensor_eqs lat call sub_emits_call emits_batch split: option.split)
qed

lemma sub_emits_flush: "sub_emits st (snd (SubHal_flush hms conv clk junk h st))"
  by (auto simp: SubHal_flush_def sub_sensor_eqs emits_ops sub_emits_call split: option.split)

lemma sub_emits_poll: "sub_emits st (SubHal_poll hms conv fo busy t1 t2 h st)"
  by (auto simp: SubHal_poll_def sub_sensor_eqs emits_ops sub_emits_call split: option.split)

lemma sub_emits_register:
  "SubHal_registerDirectChannel sys sz z ia mem st = Inr (r, st') \<Longrightarrow> sub_emits st st'"
  by (rule sub_emits_quiet) (auto simp: SubHal_registerDirectChannel_def Let_def split: if_splits option.splits sum.splits)

lemma sub_emits_channels: "sub_emits st st1 \<Longrightarrow> sub_emits st (st1\<lparr>sb_mDirectChannels := m\<rparr>)"
  by (erule sub_emits_trans) (rule sub_emits_quiet, simp_all)

lemma sub_emits_removals:
  "sub_emits st (fold (\<lambda>h. on_sub_sensor conv h (SubSensor_removeDirectChannel (hms h) c)) hs st)"
  by (intro sub_emits_fold sub_emits_on) (simp add: sub_sensor_eqs emits_ops)

lemma sub_emits_unregister: "sub_emits st (snd (SubHal_unregisterDirectChannel hms conv c st))"
  unfolding SubHal_unregisterDirectChannel_def Let_def snd_conv
  by (rule sub_emits_channels) (simp add: sub_emits_removals split: option.split)

lemma sub_emits_initialize: "sub_emits st (snd (SubHal_initialize hms conv st))"
  unfolding SubHal_initialize_def Let_def snd_conv
  by (rule sub_emits_channels, rule sub_emits_fold) (simp add: sub_emits_removals split: prod.split)

lemma sub_emits_rates:
  "sub_emits st (sub_set_rate c h p st)" "sub_emits st (sub_add_handle c h st)"
  by (rule sub_emits_quiet; simp add: sub_set_rate_def sub_add_handle_def)+

lemma sub_emits_config: "sub_emits st (snd (SubHal_configDirectReport hms conv h c rate st))"
proof -
  have stop: "sub_emits st (fold (\<lambda>h st. if sm_find h (sb_mSensors st) = None then st
        else on_sub_sensor conv h (SubSensor_stopDirectChannel (hms h) c) (sub_set_rate c h 0 st)) hs st)" for hs
    by (rule sub_emits_fold)
       (auto simp: sub_sensor_eqs intro: sub_emits_trans [OF sub_emits_rates(1) sub_emits_on] emits_ops)
  have add: "sub_emits st (on_sub_sensor conv h (SubSensor_addDirectChannel (hms h) c p)
      (sub_add_handle c h (sub_set_rate c h p st)))" for p
    by (rule sub_emits_trans [OF sub_emits_trans [OF sub_emits_rates(1) sub_emits_rates(2)] sub_emits_on])
       (simp add: sub_sensor_eqs emits_ops)
  show ?thesis
    unfolding SubHal_configDirectReport_def Let_def
    by (auto simp: stop add split: option.split)
qed

lemmas sub_emits_ops = sub_emits_activate sub_emits_batch sub_emits_flush sub_emits_poll sub_emits_unregister
  sub_emits_initialize sub_emits_config

end
