(* ===== verification/Proxy_Versions.thy ===== *)
theory Proxy_Versions
  imports Proxy_System
begin

text \<open>
  The two versions of the sub-HAL interface. The proxy wraps every sub-HAL so that it need not know the
  version (\<^verbatim>\<open>SubHalWrapper.h\<close>) and hands each one a callback of its version
  (\<^verbatim>\<open>HalProxyCallback.h\<close>); the Bosch sub-HAL offers either version
  (\<^verbatim>\<open>SensorsSubHal.h\<close>) and wraps the callback it is given (\<^verbatim>\<open>IHalProxyCallbackWrapper.h\<close>).
  Then the libraries of \<^verbatim>\<open>hals.conf\<close>, with \<^verbatim>\<open>dlopen\<close> and \<^verbatim>\<open>dlsym\<close> as a
  parameter.

  The interface of a sub-HAL is the record \<open>sub_hal\<close> in either version; in version 2.0 its list and its
  injected events are those of version 1.0. The conversions between the two are those of
  \<^verbatim>\<open>convertV2_1.h\<close>, which belongs to the platform: they reinterpret the same memory layout, the
  only difference being the type of one enumeration, so that going to the old version and back changes
  nothing (\<open>layout_preserving\<close>).
\<close>

datatype hal_version = HAL_2_0 | HAL_2_1

definition layout_preserving :: "convertV2_1 \<Rightarrow> bool" where
  "layout_preserving cv \<longleftrightarrow>
     (\<forall>xs. convertToNewSensorInfos cv (convertToOldSensorInfos cv xs) = xs)
     \<and> (\<forall>xs. convertToNewEvents cv (convertToOldEvents cv xs) = xs)
     \<and> (\<forall>event. convertToNewEvent cv (convertToOldEvent cv event) = event)"

section \<open>The wrappers of the proxy\<close>

definition SubHalWrapperV2_0 :: "convertV2_1 \<Rightarrow> 's sub_hal \<Rightarrow> 's sub_hal" where
  "SubHalWrapperV2_0 cv subHal =
     \<lparr>sh_initialize = sh_initialize subHal,
      sh_getSensorsList = (\<lambda>s. case sh_getSensorsList subHal s of
                                 (list, s') \<Rightarrow> (convertToNewSensorInfos cv list, s')),
      sh_setOperationMode = sh_setOperationMode subHal,
      sh_activate = sh_activate subHal,
      sh_batch = sh_batch subHal,
      sh_flush = sh_flush subHal,
      sh_injectSensorData = (\<lambda>event. sh_injectSensorData subHal (convertToOldEvent cv event)),
      sh_registerDirectChannel = sh_registerDirectChannel subHal,
      sh_unregisterDirectChannel = sh_unregisterDirectChannel subHal,
      sh_configDirectReport = sh_configDirectReport subHal\<rparr>"

definition SubHalWrapperV2_1 :: "'s sub_hal \<Rightarrow> 's sub_hal" where
  "SubHalWrapperV2_1 subHal =
     \<lparr>sh_initialize = sh_initialize subHal,
      sh_getSensorsList = sh_getSensorsList subHal,
      sh_setOperationMode = sh_setOperationMode subHal,
      sh_activate = sh_activate subHal,
      sh_batch = sh_batch subHal,
      sh_flush = sh_flush subHal,
      sh_injectSensorData = sh_injectSensorData subHal,
      sh_registerDirectChannel = sh_registerDirectChannel subHal,
      sh_unregisterDirectChannel = sh_unregisterDirectChannel subHal,
      sh_configDirectReport = sh_configDirectReport subHal\<rparr>"

fun SubHalWrapper :: "hal_version \<Rightarrow> convertV2_1 \<Rightarrow> 's sub_hal \<Rightarrow> 's sub_hal" where
  "SubHalWrapper HAL_2_0 cv subHal = SubHalWrapperV2_0 cv subHal"
| "SubHalWrapper HAL_2_1 cv subHal = SubHalWrapperV2_1 subHal"

fun supportsNewEvents :: "hal_version \<Rightarrow> bool" where
  "supportsNewEvents HAL_2_0 = False"
| "supportsNewEvents HAL_2_1 = True"

text \<open>The callbacks: \<open>None\<close> is the end of the process, by \<^verbatim>\<open>LOG_ALWAYS_FATAL\<close>.\<close>

fun HalProxyCallback_post ::
  "hal_version \<Rightarrow> convertV2_1 \<Rightarrow> int \<Rightarrow> nat \<Rightarrow> bool \<Rightarrow> int \<Rightarrow> Event list \<Rightarrow> ScopedWakelock \<Rightarrow> 's hal_proxy \<Rightarrow> 's hal_proxy"
where
  "HalProxyCallback_post HAL_2_0 cv mSubHalIndex avail write_ok now events wakelock =
     HalProxyCallback_postEvents mSubHalIndex avail write_ok now (convertToNewEvents cv events) wakelock"
| "HalProxyCallback_post HAL_2_1 cv mSubHalIndex avail write_ok now events wakelock =
     HalProxyCallback_postEvents mSubHalIndex avail write_ok now events wakelock"

fun HalProxyCallback_onDynamicSensorsConnected ::
  "hal_version \<Rightarrow> convertV2_1 \<Rightarrow> int \<Rightarrow> SensorInfo list \<Rightarrow> 's hal_proxy \<Rightarrow> 's hal_proxy option" where
  "HalProxyCallback_onDynamicSensorsConnected HAL_2_0 cv mSubHalIndex dynamicSensorsAdded st =
     Some (onDynamicSensorsConnected (convertToNewSensorInfos cv dynamicSensorsAdded) mSubHalIndex st)"
| "HalProxyCallback_onDynamicSensorsConnected HAL_2_1 cv mSubHalIndex dynamicSensorsAdded st = None"

definition HalProxyCallbackV2_1_onDynamicSensorsConnected_2_1 ::
  "int \<Rightarrow> SensorInfo list \<Rightarrow> 's hal_proxy \<Rightarrow> 's hal_proxy" where
  "HalProxyCallbackV2_1_onDynamicSensorsConnected_2_1 mSubHalIndex dynamicSensorsAdded =
     onDynamicSensorsConnected dynamicSensorsAdded mSubHalIndex"

definition HalProxyCallback_onDynamicSensorsDisconnected :: "int \<Rightarrow> int list \<Rightarrow> 's hal_proxy \<Rightarrow> 's hal_proxy" where
  "HalProxyCallback_onDynamicSensorsDisconnected mSubHalIndex dynamicSensorHandlesRemoved =
     onDynamicSensorsDisconnected dynamicSensorHandlesRemoved mSubHalIndex"

section \<open>The Bosch sub-HAL in either version\<close>

definition SensorsSubHalV2_0 :: "convertV2_1 \<Rightarrow> 's sub_hal \<Rightarrow> 's sub_hal" where
  "SensorsSubHalV2_0 cv base = base
     \<lparr>sh_getSensorsList := (\<lambda>s. case sh_getSensorsList base s of
                                  (list, s') \<Rightarrow> (convertToOldSensorInfos cv list, s')),
      sh_injectSensorData := (\<lambda>event. sh_injectSensorData base (convertToNewEvent cv event))\<rparr>"

definition SensorsSubHalV2_1 :: "'s sub_hal \<Rightarrow> 's sub_hal" where
  "SensorsSubHalV2_1 base = base
     \<lparr>sh_getSensorsList := sh_getSensorsList base, sh_injectSensorData := sh_injectSensorData base\<rparr>"

fun SensorsSubHal :: "hal_version \<Rightarrow> convertV2_1 \<Rightarrow> 's sub_hal \<Rightarrow> 's sub_hal" where
  "SensorsSubHal HAL_2_0 cv base = SensorsSubHalV2_0 cv base"
| "SensorsSubHal HAL_2_1 cv base = SensorsSubHalV2_1 base"

text \<open>What the sub-HAL does with the callback it was given.\<close>

fun HalProxyCallbackWrapper_postEvents ::
  "hal_version \<Rightarrow> convertV2_1 \<Rightarrow> (Event list \<Rightarrow> ScopedWakelock \<Rightarrow> 'p \<Rightarrow> 'p) \<Rightarrow> Event list \<Rightarrow> ScopedWakelock \<Rightarrow> 'p \<Rightarrow> 'p"
where
  "HalProxyCallbackWrapper_postEvents HAL_2_0 cv mCallback events wakelock =
     mCallback (convertToOldEvents cv events) wakelock"
| "HalProxyCallbackWrapper_postEvents HAL_2_1 cv mCallback events wakelock = mCallback events wakelock"

fun HalProxyCallbackWrapper_onDynamicSensorsConnected ::
  "hal_version \<Rightarrow> convertV2_1 \<Rightarrow> int \<Rightarrow> SensorInfo list \<Rightarrow> 's hal_proxy \<Rightarrow> 's hal_proxy option" where
  "HalProxyCallbackWrapper_onDynamicSensorsConnected HAL_2_0 cv mSubHalIndex sensorInfos =
     HalProxyCallback_onDynamicSensorsConnected HAL_2_0 cv mSubHalIndex (convertToOldSensorInfos cv sensorInfos)"
| "HalProxyCallbackWrapper_onDynamicSensorsConnected HAL_2_1 cv mSubHalIndex sensorInfos =
     (\<lambda>st. Some (HalProxyCallbackV2_1_onDynamicSensorsConnected_2_1 mSubHalIndex sensorInfos st))"

text \<open>
  \<^verbatim>\<open>ISensorsSubHalBase::postEvents\<close> down to the proxy: the scoped lock is created at time \<open>now\<close>,
  the events are handed over at \<open>now'\<close>. The lock moves along the calls, so that what is left of it in
  each of them is unlocked when it is destroyed.
\<close>

definition SubHal_post ::
  "hal_version \<Rightarrow> convertV2_1 \<Rightarrow> int \<Rightarrow> int \<Rightarrow> nat \<Rightarrow> nat \<Rightarrow> bool \<Rightarrow> int \<Rightarrow> Event list \<times> bool \<Rightarrow> 's hal_proxy \<Rightarrow> 's hal_proxy"
where
  "SubHal_post v cv junk now i avail write_ok now' post st =
     (case post of (events, wakeup) \<Rightarrow>
       (case createScopedWakelock junk now wakeup st of
          (wakelock, st1) \<Rightarrow>
            HalProxyCallbackWrapper_postEvents v cv
              (HalProxyCallback_post v cv (int i) avail write_ok now') events wakelock st1))"

section \<open>Loading the sub-HALs\<close>

definition SUB_HAL_2_0_VERSION :: int where "SUB_HAL_2_0_VERSION = 0x02000000"
definition SUB_HAL_2_1_VERSION :: int where "SUB_HAL_2_1_VERSION = 0x02010000"

text \<open>A shared library: what its two entry points, where it exports them, report as version and
  return. (A library that is listed twice would be one object shared by two wrappers; here it would
  have two states.)\<close>

record 's shared_library =
  sensorsHalGetSubHal :: "(int \<times> ('s sub_hal \<times> 's)) option"
  sensorsHalGetSubHal_2_1 :: "(int \<times> ('s sub_hal \<times> 's)) option"

definition kSubHalShareObjectLocations :: "string list" where
  "kSubHalShareObjectLocations = [[], ''/vendor/lib64/hw/'', ''/odm/lib64/hw/'']"

fun open_first :: "(string \<Rightarrow> 'l option) \<Rightarrow> string list \<Rightarrow> string \<Rightarrow> 'l option" where
  "open_first dlopen [] filename = None"
| "open_first dlopen (dir # dirs) filename =
     (case dlopen (dir @ filename) of Some handle \<Rightarrow> Some handle | None \<Rightarrow> open_first dlopen dirs filename)"

definition getHandleForSubHalSharedObject :: "(string \<Rightarrow> 'l option) \<Rightarrow> string \<Rightarrow> 'l option" where
  "getHandleForSubHalSharedObject dlopen filename = open_first dlopen kSubHalShareObjectLocations filename"

text \<open>The words of the configuration file, as \<^verbatim>\<open>>>\<close> reads them.\<close>

definition is_space :: "char \<Rightarrow> bool" where
  "is_space c \<longleftrightarrow> c = CHR '' '' \<or> c = CHR 0x09 \<or> c = CHR 0x0A \<or> c = CHR 0x0B \<or> c = CHR 0x0C \<or> c = CHR 0x0D"

fun read_words :: "string \<Rightarrow> string \<Rightarrow> string list" where
  "read_words w [] = (if w = [] then [] else [w])"
| "read_words w (c # cs) =
     (if is_space c then (if w = [] then [] else [w]) @ read_words [] cs else read_words (w @ [c]) cs)"

definition load_library :: "convertV2_1 \<Rightarrow> 's shared_library option \<Rightarrow> ('s sub_hal \<times> 's) list" where
  "load_library cv handle =
     (case handle of
        None \<Rightarrow> []
      | Some lib \<Rightarrow>
          (case sensorsHalGetSubHal lib of
             Some (version, (subHal, s)) \<Rightarrow>
               if version \<noteq> SUB_HAL_2_0_VERSION then [] else [(SubHalWrapper HAL_2_0 cv subHal, s)]
           | None \<Rightarrow>
               (case sensorsHalGetSubHal_2_1 lib of
                  None \<Rightarrow> []
                | Some (version, (subHal, s)) \<Rightarrow>
                    if version \<noteq> SUB_HAL_2_1_VERSION then [] else [(SubHalWrapper HAL_2_1 cv subHal, s)])))"

definition initializeSubHalListFromConfigFile ::
  "convertV2_1 \<Rightarrow> (string \<Rightarrow> 's shared_library option) \<Rightarrow> string option \<Rightarrow> ('s sub_hal \<times> 's) list" where
  "initializeSubHalListFromConfigFile cv dlopen config =
     (case config of
        None \<Rightarrow> []
      | Some text \<Rightarrow> concat (map (\<lambda>subHalLibraryFile.
            load_library cv (getHandleForSubHalSharedObject dlopen subHalLibraryFile)) (read_words [] text)))"

definition HalProxy_from_config ::
  "convertV2_1 \<Rightarrow> (string \<Rightarrow> 's shared_library option) \<Rightarrow> string option \<Rightarrow> int \<Rightarrow> int \<Rightarrow> 's hal_proxy" where
  "HalProxy_from_config cv dlopen config now now' =
     HalProxy_init now now' (initializeSubHalListFromConfigFile cv dlopen config)"

text \<open>The two constructors for tests.\<close>

definition HalProxy_from_lists ::
  "convertV2_1 \<Rightarrow> ('s sub_hal \<times> 's) list \<Rightarrow> ('s sub_hal \<times> 's) list \<Rightarrow> int \<Rightarrow> int \<Rightarrow> 's hal_proxy" where
  "HalProxy_from_lists cv subHalList subHalListV2_1 now now' =
     HalProxy_init now now'
       (map (\<lambda>(subHal, s). (SubHalWrapper HAL_2_0 cv subHal, s)) subHalList
        @ map (\<lambda>(subHal, s). (SubHalWrapper HAL_2_1 cv subHal, s)) subHalListV2_1)"

text \<open>The library of this repository (\<^verbatim>\<open>BoschSubHal.cpp\<close>) and the configuration it ships
  (\<^verbatim>\<open>hals.conf\<close>).\<close>

fun bosch_library :: "hal_version \<Rightarrow> convertV2_1 \<Rightarrow> 's sub_hal \<times> 's \<Rightarrow> 's shared_library" where
  "bosch_library HAL_2_0 cv (base, s) =
     \<lparr>sensorsHalGetSubHal = Some (SUB_HAL_2_0_VERSION, (SensorsSubHal HAL_2_0 cv base, s)),
      sensorsHalGetSubHal_2_1 = None\<rparr>"
| "bosch_library HAL_2_1 cv (base, s) =
     \<lparr>sensorsHalGetSubHal = None,
      sensorsHalGetSubHal_2_1 = Some (SUB_HAL_2_1_VERSION, (SensorsSubHal HAL_2_1 cv base, s))\<rparr>"

definition hals_conf :: string where
  "hals_conf = ''/vendor/lib64/hw/bosch.sensor.multihal.so''"

section \<open>The version does not show\<close>

lemma wrapped_sub_hal:
  assumes "layout_preserving cv"
  shows "SubHalWrapper v cv (SensorsSubHal v cv base) = base"
  by (rule sub_hal.equality; cases v)
     (use assms in \<open>simp_all add: SubHalWrapperV2_0_def SubHalWrapperV2_1_def SensorsSubHalV2_0_def
        SensorsSubHalV2_1_def layout_preserving_def fun_eq_iff split: prod.split\<close>)

lemma wrapped_post:
  assumes "layout_preserving cv"
  shows "SubHal_post v cv junk now i avail write_ok now' post st = SubHal_post HAL_2_1 cv junk now i avail write_ok now' post st"
  using assms by (cases v) (auto simp: SubHal_post_def layout_preserving_def split: prod.split)

lemma wrapped_connect:
  assumes "layout_preserving cv"
  shows "HalProxyCallbackWrapper_onDynamicSensorsConnected v cv i infos st = Some (onDynamicSensorsConnected infos i st)"
  using assms by (cases v) (simp_all add: layout_preserving_def HalProxyCallbackV2_1_onDynamicSensorsConnected_2_1_def)

text \<open>The shipped configuration names one library, by its full path.\<close>

lemma hals_conf_words: "read_words [] hals_conf = [hals_conf]"
  by (simp add: hals_conf_def is_space_def)

lemma load_bosch_library:
  assumes "layout_preserving cv"
  shows "load_library cv (Some (bosch_library v cv (base, s))) = [(base, s)]"
  using wrapped_sub_hal [OF assms, of v base] by (cases v) (simp_all add: load_library_def)

lemma hals_conf_loads:
  assumes "layout_preserving cv" and "dlopen hals_conf = Some (bosch_library v cv (base, s))"
  shows "HalProxy_from_config cv dlopen (Some hals_conf) now now' = HalProxy_init now now' [(base, s)]"
  using load_bosch_library [OF assms(1), of v base s] assms(2)
  by (simp add: HalProxy_from_config_def initializeSubHalListFromConfigFile_def hals_conf_words
      getHandleForSubHalSharedObject_def kSubHalShareObjectLocations_def)

text \<open>C12: with the configuration file of this repository, and whichever of the two interface versions the
  Bosch library was built for, the proxy ends up with exactly the Bosch sub-HAL, unwrapped: every method
  it calls is the sub-HAL's own, and what the sub-HAL posts or connects reaches the proxy as it was
  posted, although lists, injected events and posted events are converted there and back on the way.\<close>

theorem shipped_multi_hal_version_independent:
  assumes "layout_preserving cv" and "dlopen hals_conf = Some (bosch_library v cv (base, s))"
  shows "HalProxy_from_config cv dlopen (Some hals_conf) now now' = HalProxy_init now now' [(base, s)]
       \<and> SubHal_post v cv junk t i avail ok t' (events, wakeup) st
           = (case createScopedWakelock junk t wakeup st of
                (wakelock, st1) \<Rightarrow> HalProxyCallback_postEvents (int i) avail ok t' events wakelock st1)
       \<and> HalProxyCallbackWrapper_onDynamicSensorsConnected v cv (int i) infos st
           = Some (onDynamicSensorsConnected infos (int i) st)"
  by (simp add: hals_conf_loads [of cv dlopen v base s, OF assms] wrapped_post [OF assms(1), of v]
      wrapped_connect [OF assms(1)]) (simp add: SubHal_post_def)

text \<open>A sub-HAL whose list can be asked for without effect is as it was after the construction.\<close>

lemma load_sub_hals_list:
  assumes "\<forall>(ops, s)\<in>set (hp_mSubHalList st). snd (sh_getSensorsList ops s) = s"
  shows "hp_mSubHalList (fold load_sub_hal is st) = hp_mSubHalList st"
  using assms
proof (induction "is" arbitrary: st)
  case (Cons i "is")
  have "hp_mSubHalList (load_sub_hal i st) = hp_mSubHalList st"
  proof (cases "i < length (hp_mSubHalList st)")
    case True
    then show ?thesis
      using Cons.prems nth_mem [OF True] list_update_id [of "hp_mSubHalList st" i]
      by (cases "hp_mSubHalList st ! i") (auto simp: load_sub_hal_def on_sub_hal_def split: prod.split)
  qed (simp add: load_sub_hal_def on_sub_hal_def list_update_beyond split: prod.split)
  then show ?case using Cons by simp
qed simp

lemma HalProxy_init_list:
  "\<forall>(ops, s)\<in>set subHals. snd (sh_getSensorsList ops s) = s \<Longrightarrow>
   hp_mSubHalList (HalProxy_init now now' subHals) = subHals"
  by (simp add: HalProxy_init_def initializeSensorList_def load_sub_hals_list)

lemma example_layout: "layout_preserving example_convert"
  by (simp add: layout_preserving_def example_convert_def)

theorem shipped_multi_hal_version_independent_witness:
  "hp_mSubHalList (HalProxy_from_config example_convert
      (\<lambda>path. if path = hals_conf then Some (bosch_library HAL_2_0 example_convert (example_bosch, example_sub)) else None)
      (Some hals_conf) 0 0) = [(example_bosch, example_sub)]"
proof -
  have "snd (sh_getSensorsList example_bosch example_sub) = example_sub"
    by (simp add: example_bosch_def bosch_ops_def)
  then have "hp_mSubHalList (HalProxy_init 0 0 [(example_bosch, example_sub)]) = [(example_bosch, example_sub)]"
    by (intro HalProxy_init_list) simp
  then show ?thesis
    using shipped_multi_hal_version_independent [OF example_layout, of
        "\<lambda>path. if path = hals_conf then Some (bosch_library HAL_2_0 example_convert (example_bosch, example_sub)) else None"
        HAL_2_0 example_bosch example_sub 0 0, THEN conjunct1] by simp
qed

end
