(* ===== verification/Multi_Hal.thy ===== *)
theory Multi_Hal
  imports Sub_Events Proxy_Versions
begin

text \<open>
  The multi-HAL as a whole: Bosch sub-HALs that post, the callbacks, the proxy's queue with its writing
  thread, the framework's calls, and the wake-lock thread, in any interleaving. A step of
  \<open>system_step\<close> is one framework call or polling round, one post on its way from a sub-HAL to the
  proxy, or one round of a thread of the proxy. The state records, besides the proxy, how many of each
  sub-HAL's posts have been handed over, and in which order.

  A post is one step (lock, tagging and writing); in the code the posts of two sensors of one sub-HAL can
  overlap up to the write, which takes a mutex. The list \<open>sb_posted\<close> is the order of the calls.
\<close>

record ('s, 'e) multi_hal =
  mh_proxy :: "('s, 'e) bosch_sub_hal hal_proxy"
  mh_handed :: "nat list"
  mh_log :: "(nat \<times> Event list) list"

datatype system_op =
    Y_call proxy_op
  | Y_post nat int int nat bool int
  | Y_take nat
  | Y_write bool
  | Y_finish
  | Y_wakelock_round int int
  | Y_wakelock_read "int option"

definition outstanding_post :: "nat \<Rightarrow> ('s, 'e) multi_hal \<Rightarrow> (Event list \<times> bool) option" where
  "outstanding_post i m =
     (if i < length (hp_mSubHalList (mh_proxy m)) \<and> i < length (mh_handed m)
      then (let posts = sb_posted (snd (hp_mSubHalList (mh_proxy m) ! i)) in
            if mh_handed m ! i < length posts then Some (posts ! (mh_handed m ! i)) else None)
      else None)"

fun system_step ::
  "(int \<Rightarrow> 's hal_methods) \<Rightarrow> (Event \<Rightarrow> 'e) \<Rightarrow> ashmem \<Rightarrow> nat \<Rightarrow> 'e \<Rightarrow> convertV2_1 \<Rightarrow> (nat \<Rightarrow> hal_version)
     \<Rightarrow> system_op \<Rightarrow> ('s, 'e) multi_hal \<Rightarrow> ('s, 'e) multi_hal" where
  "system_step hms conv sys sz z cv ver (Y_call op) m = m\<lparr>mh_proxy := proxy_step hms conv sys sz z cv op (mh_proxy m)\<rparr>"
| "system_step hms conv sys sz z cv ver (Y_post i junk now avail write_ok now') m =
     (case outstanding_post i m of
        None \<Rightarrow> m
      | Some post \<Rightarrow>
          m\<lparr>mh_proxy := SubHal_post (ver i) cv junk now i avail write_ok now' post (mh_proxy m),
            mh_handed := (mh_handed m)[i := Suc (mh_handed m ! i)],
            mh_log := mh_log m @ [(i, map (tag_event (int i)) (fst post))]\<rparr>)"
| "system_step hms conv sys sz z cv ver (Y_take n) m = m\<lparr>mh_proxy := handlePendingWrites_take n (mh_proxy m)\<rparr>"
| "system_step hms conv sys sz z cv ver (Y_write ok) m = m\<lparr>mh_proxy := handlePendingWrites_write ok (mh_proxy m)\<rparr>"
| "system_step hms conv sys sz z cv ver Y_finish m = m\<lparr>mh_proxy := handlePendingWrites_finish (mh_proxy m)\<rparr>"
| "system_step hms conv sys sz z cv ver (Y_wakelock_round now now') m =
     m\<lparr>mh_proxy := on_wake (\<lambda>w. snd (handleWakelocks_round now now' w)) (mh_proxy m)\<rparr>"
| "system_step hms conv sys sz z cv ver (Y_wakelock_read result) m =
     m\<lparr>mh_proxy := on_wake (handleWakelocks_read result) (mh_proxy m)\<rparr>"

definition system_init :: "int \<Rightarrow> int \<Rightarrow> (('s, 'e) bosch_sub_hal sub_hal \<times> ('s, 'e) bosch_sub_hal) list \<Rightarrow> ('s, 'e) multi_hal"
where
  "system_init now now' subHals =
     \<lparr>mh_proxy = HalProxy_init now now' subHals, mh_handed = replicate (length subHals) 0, mh_log = []\<rparr>"

section \<open>The sub-HALs\<close>

text \<open>Every sub-HAL is a Bosch sub-HAL that only added posts of its own since the start.\<close>

definition since_start ::
  "(int \<Rightarrow> 's hal_methods) \<Rightarrow> (Event \<Rightarrow> 'e) \<Rightarrow> ashmem \<Rightarrow> nat \<Rightarrow> 'e \<Rightarrow> (nat \<Rightarrow> ('s, 'e) bosch_sub_hal)
     \<Rightarrow> nat \<Rightarrow> ('s, 'e) bosch_sub_hal sub_hal \<Rightarrow> ('s, 'e) bosch_sub_hal \<Rightarrow> bool" where
  "since_start hms conv sys sz z start i ops s \<longleftrightarrow>
     (\<exists>env. ops = bosch_ops hms conv sys sz z env) \<and> sub_emits (start i) s"

lemma bosch_emits:
  "sub_emits s (snd (sh_initialize (bosch_ops hms conv sys sz z env) i s))"
  "sub_emits s (snd (sh_setOperationMode (bosch_ops hms conv sys sz z env) m s))"
  "sub_emits s (snd (sh_activate (bosch_ops hms conv sys sz z env) h en s))"
  "sub_emits s (snd (sh_batch (bosch_ops hms conv sys sz z env) h p l s))"
  "sub_emits s (snd (sh_flush (bosch_ops hms conv sys sz z env) h s))"
  "sub_emits s (snd (sh_injectSensorData (bosch_ops hms conv sys sz z env) ev s))"
  "sub_emits s (snd (sh_registerDirectChannel (bosch_ops hms conv sys sz z env) mem s))"
  "sub_emits s (snd (sh_unregisterDirectChannel (bosch_ops hms conv sys sz z env) c s))"
  "sub_emits s (snd (sh_configDirectReport (bosch_ops hms conv sys sz z env) h c rate s))"
  "sub_emits s (snd (sh_getSensorsList (bosch_ops hms conv sys sz z env) s))"
  by (auto simp: bosch_ops_def sub_emits_ops split: sum.split prod.split dest: sub_emits_register)

interpretation posting: sub_hal_contract "since_start hms conv sys sz z start" for hms conv sys sz z start
  by unfold_locales (auto simp: since_start_def intro: sub_emits_trans bosch_emits)

lemma posting_proxy_step:
  assumes "posting.all_sub_hals hms conv sys sz z start st"
  shows "posting.all_sub_hals hms conv sys sz z start (proxy_step hms conv sys sz z cv op st)"
proof (cases op)
  case (X_env env)
  then show ?thesis using assms
    by (auto simp: posting.all_sub_hals_def since_start_def split: prod.splits)
next
  case (X_poll i fo busy t1 t2 h)
  obtain ops s where i: "hp_mSubHalList st ! i = (ops, s)" by (meson surj_pair)
  show ?thesis
  proof (cases "i < length (hp_mSubHalList st)")
    case True
    then have "since_start hms conv sys sz z start i ops (SubHal_poll hms conv fo busy t1 t2 h s)"
      using posting.all_sub_hals_nth [OF assms True i] by (auto simp: since_start_def intro: sub_emits_trans sub_emits_poll)
    then show ?thesis using posting.all_sub_hals_update [OF assms] by (simp add: X_poll i True)
  qed (use assms X_poll in simp)
qed (use assms in \<open>simp_all add: posting.routed_calls posting.setOperationMode_keeps posting.initialize_keeps\<close>)

section \<open>Known sensors\<close>

text \<open>Looking up a sensor that is there changes nothing.\<close>

definition known :: "(int, SensorInfo) stdmap \<Rightarrow> Event list \<Rightarrow> bool" where
  "known m events \<longleftrightarrow> (\<forall>ev\<in>set events. sm_find (ev_sensorHandle ev) m \<noteq> None)"

lemma known_simps [simp]:
  "known m []" "known m (e # es) \<longleftrightarrow> sm_find (ev_sensorHandle e) m \<noteq> None \<and> known m es"
  "known m (es @ es') \<longleftrightarrow> known m es \<and> known m es'"
  by (auto simp: known_def)

lemma known_subset: "known m es \<Longrightarrow> set es' \<subseteq> set es \<Longrightarrow> known m es'"
  by (auto simp: known_def)

lemma getSensorInfo_known: "sm_find h (hp_mSensors st) = Some info \<Longrightarrow> getSensorInfo h st = (info, st)"
  by (simp add: getSensorInfo_def sm_subscript_def)

lemma tag_event_handle [simp]: "ev_sensorHandle (tag_event i ev) = setSubHalIndex (ev_sensorHandle ev) i"
  by (simp add: tag_event_def Let_def split: event_payload.split)

lemma processEvents_known:
  "known (hp_mSensors st) (map (tag_event i) events) \<Longrightarrow>
   processEvents i events st =
     ((map (tag_event i) events, length (filter (\<lambda>ev. has_flag (si_flags (the (sm_find (ev_sensorHandle ev) (hp_mSensors st)))) FLAG_WAKE_UP)
         (map (tag_event i) events))), st)"
  by (induction events) (auto simp: getSensorInfo_known Let_def)

lemma count_known:
  "known (hp_mSensors st) events \<Longrightarrow> snd (countNumWakeupEvents_loop events st) = st"
  by (induction events) (auto simp: getSensorInfo_known split: prod.split)

text \<open>The part of the proxy that the way of the events depends on.\<close>

definition queue_view where
  "queue_view st = (hp_mSensors st, hp_mPendingWriteEventsQueue st, hp_mSizePendingWriteEventsQueue st,
     hp_mMostEventsObservedPendingWriteEventsQueue st, hp_writer st, hp_written st)"

definition pending_events :: "'s hal_proxy \<Rightarrow> Event list" where
  "pending_events st = concat (map fst (hp_mPendingWriteEventsQueue st))"

lemma view_facts:
  assumes "queue_view st' = queue_view st"
  shows "queue_inv st' = queue_inv st" "remaining st' = remaining st" "hp_written st' = hp_written st"
    "hp_mSensors st' = hp_mSensors st" "pending_events st' = pending_events st"
  using assms by (simp_all add: queue_view_def queue_inv_def queue_size_def remaining_def pending_events_def
      split: pending_writer.split)

lemma view_wake [simp]: "queue_view (on_wake f st) = queue_view st"
  by (simp add: queue_view_def)

lemma view_sub_hals: "only_sub_hals st st' \<Longrightarrow> queue_view st' = queue_view st"
  unfolding only_sub_hals_def queue_view_def by (metis hal_proxy.select_convs(2,6-9,11) hal_proxy.surjective hal_proxy.update_convs(1))

lemma set_remaining: "set (remaining st) \<subseteq> set (pending_events st)"
  by (auto simp: remaining_def pending_events_def dest: in_set_dropD split: pending_writer.splits)

lemma pending_write:
  assumes "known (hp_mSensors st) (pending_events st)"
  shows "hp_mSensors (handlePendingWrites_write ok st) = hp_mSensors st
    \<and> hp_mPendingWriteEventsQueue (handlePendingWrites_write ok st) = hp_mPendingWriteEventsQueue st
    \<and> set (hp_written (handlePendingWrites_write ok st)) \<subseteq> set (hp_written st) \<union> set (pending_events st)"
proof (cases "\<exists>n q evs k rest. hp_writer st = Writing n q \<and> hp_mPendingWriteEventsQueue st = (evs, k) # rest")
  case True
  then obtain n q evs k rest where w: "hp_writer st = Writing n q" "hp_mPendingWriteEventsQueue st = (evs, k) # rest"
    by blast
  have "known (hp_mSensors st) (take q evs)"
    using assms by (auto simp: w pending_events_def intro: known_subset dest: in_set_takeD)
  then have "snd (countNumWakeupEvents evs q st) = st" by (simp add: countNumWakeupEvents_def count_known)
  then show ?thesis
    by (cases "countNumWakeupEvents evs q st")
       (auto simp: handlePendingWrites_write_def w Let_def pending_events_def dest: in_set_takeD)
qed (auto simp: handlePendingWrites_write_def split: pending_writer.splits list.splits)

lemma pending_take:
  "hp_mSensors (handlePendingWrites_take n st) = hp_mSensors st
   \<and> hp_mPendingWriteEventsQueue (handlePendingWrites_take n st) = hp_mPendingWriteEventsQueue st
   \<and> hp_written (handlePendingWrites_take n st) = hp_written st"
  by (simp add: handlePendingWrites_take_def split: list.split)

lemma pending_finish:
  "hp_mSensors (handlePendingWrites_finish st) = hp_mSensors st
   \<and> set (pending_events (handlePendingWrites_finish st)) \<subseteq> set (pending_events st)
   \<and> hp_written (handlePendingWrites_finish st) = hp_written st"
  by (auto simp: handlePendingWrites_finish_def pending_events_def dest: in_set_dropD
      split: pending_writer.split list.split)

section \<open>The framework's calls\<close>

lemma initializeCommon_queue:
  assumes "queue_inv st" "known (hp_mSensors st) (pending_events st)"
    and "st' = snd (HalProxy_initializeCommon callback event_flag wake_flag ok running now now' st)"
  shows "queue_empty st' \<and> hp_written st' = [] \<and> hp_mSensors st' = hp_mSensors st"
proof -
  define st0 where "st0 = on_wake (resetSharedWakelock now') (stopThreads ok running now st)"
  define st1 where "st1 = disableAllSensors st0"
  define st3 where "st3 = on_wake (\<lambda>w. w\<lparr>wk_mThreadsRun := True\<rparr>)
     (st1\<lparr>hp_mPendingWriteEventsQueue := [], hp_mSizePendingWriteEventsQueue := 0,
          hp_mDynamicSensors := [], hp_written := []\<rparr>)"
  have "hp_mSensors (stopThreads ok running now st) = hp_mSensors st"
    using pending_write [of "on_wake (\<lambda>w. w\<lparr>wk_mThreadsRun := False\<rparr>) st" ok] assms(2)
    by (simp add: stopThreads_def Let_def pending_finish pending_events_def)
  moreover have "hp_writer (stopThreads ok running now st) = Idle" by (rule stopThreads_idle [OF assms(1)])
  moreover have "queue_view st1 = queue_view st0"
    unfolding st1_def by (rule view_sub_hals [OF only_sub_hals_disable])
  ultimately have s3: "queue_empty st3" "hp_written st3 = []" "hp_mSensors st3 = hp_mSensors st"
    by (simp_all add: st3_def st0_def queue_view_def queue_empty_def)
  obtain r st4 where loop: "initialize_loop [0..<length (hp_mSubHalList st3)]
      (if event_flag \<and> wake_flag \<and> callback then R_OK else R_BAD_VALUE) st3 = (r, st4)" by (meson surj_pair)
  have "queue_view st4 = queue_view st3"
    using initialize_loop_frame [OF loop] view_sub_hals by blast
  moreover have "st' = st4\<lparr>hp_mCurrentOperationMode := OM_NORMAL\<rparr>"
    unfolding assms(3) HalProxy_initializeCommon_def Let_def st0_def [symmetric] st1_def [symmetric]
      st3_def [symmetric] loop by simp
  ultimately show ?thesis using s3 by (simp add: queue_view_def queue_empty_def)
qed

lemma only_sub_hals_routed:
  "only_sub_hals st (snd (HalProxy_batch h p l st))"
  "only_sub_hals st (snd (HalProxy_flush h st))"
  "only_sub_hals st (snd (HalProxy_injectSensorData cv event st))"
  "only_sub_hals st (snd (HalProxy_registerDirectChannel mem st))"
  "only_sub_hals st (snd (HalProxy_unregisterDirectChannel c st))"
  "only_sub_hals st (snd (HalProxy_configDirectReport h c rate st))"
  by (auto simp: HalProxy_batch_def HalProxy_flush_def HalProxy_injectSensorData_def Let_def
      HalProxy_registerDirectChannel_def HalProxy_unregisterDirectChannel_def HalProxy_configDirectReport_def
      getSubHalForSensorHandle_def only_sub_hals_call split: option.split)

lemma only_sub_hals_mode_loop: "only_sub_hals st (snd (setOperationMode_loop mode i st))"
proof (induction mode i st rule: setOperationMode_loop.induct)
  case (1 mode i st)
  obtain r st' where c: "on_sub_hal i (\<lambda>ops. sh_setOperationMode ops mode) st = (r, st')" by (meson surj_pair)
  then have "only_sub_hals st st'" using only_sub_hals_call [of st i "\<lambda>ops. sh_setOperationMode ops mode"] by simp
  then show ?case
    using 1 [OF _ c [symmetric]] c only_sub_hals_trans
    by (subst setOperationMode_loop.simps) (auto split: prod.split)
qed

lemma view_mode: "queue_view (snd (HalProxy_setOperationMode mode st)) = queue_view st"
proof -
  obtain r k st1 where l: "setOperationMode_loop mode 0 st = ((r, k), st1)" by (metis surj_pair)
  then have v: "queue_view st1 = queue_view st" using only_sub_hals_mode_loop [of st mode 0] view_sub_hals by simp
  have "only_sub_hals st' (fold (\<lambda>i st. snd (on_sub_hal i
      (\<lambda>ops. sh_setOperationMode ops (hp_mCurrentOperationMode st)) st)) is st')" for "is" and st' :: "'a hal_proxy"
    by (induction "is" arbitrary: st') (auto intro: only_sub_hals_trans only_sub_hals_call)
  then have "queue_view (fold (\<lambda>i st. snd (on_sub_hal i
      (\<lambda>ops. sh_setOperationMode ops (hp_mCurrentOperationMode st)) st)) [0..<k] st1) = queue_view st1"
    by (rule view_sub_hals)
  then show ?thesis using v by (simp add: HalProxy_setOperationMode_def l) (simp add: queue_view_def)
qed

lemma proxy_step_queue:
  assumes "queue_inv st" "known (hp_mSensors st) (pending_events st)"
    and st': "st' = proxy_step hms conv sys sz z cv op st"
  shows "queue_view st' = queue_view st \<or> (queue_empty st' \<and> hp_written st' = [] \<and> hp_mSensors st' = hp_mSensors st)"
proof (cases op)
  case (X_initialize callback ef wflag ok running now now')
  then show ?thesis using initializeCommon_queue [OF assms(1,2) refl] by (simp add: st')
qed (simp_all add: st' view_mode view_sub_hals only_sub_hals_routed only_sub_hals_activate, simp_all add: queue_view_def)

lemma mode_length: "length (hp_mSubHalList (snd (HalProxy_setOperationMode mode st))) = length (hp_mSubHalList st)"
proof -
  have l: "length (hp_mSubHalList (snd (setOperationMode_loop mode i st))) = length (hp_mSubHalList st)" for i
  proof (induction mode i st rule: setOperationMode_loop.induct)
    case (1 mode i st)
    obtain r st' where c: "on_sub_hal i (\<lambda>ops. sh_setOperationMode ops mode) st = (r, st')" by (meson surj_pair)
    then have "length (hp_mSubHalList st') = length (hp_mSubHalList st)"
      using on_sub_hal_length [of i "\<lambda>ops. sh_setOperationMode ops mode" st] by simp
    then show ?case using 1 [OF _ c [symmetric]] c by (subst setOperationMode_loop.simps) (auto split: prod.split)
  qed
  have "length (hp_mSubHalList (fold (\<lambda>i st. snd (on_sub_hal i
      (\<lambda>ops. sh_setOperationMode ops (hp_mCurrentOperationMode st)) st)) is st')) = length (hp_mSubHalList st')"
    for "is" and st' :: "'a hal_proxy"
    by (induction "is" arbitrary: st') simp_all
  moreover obtain r k st1 where m: "setOperationMode_loop mode 0 st = ((r, k), st1)" by (metis surj_pair)
  moreover have "length (hp_mSubHalList st1) = length (hp_mSubHalList st)" using l [of 0] m by simp
  ultimately show ?thesis by (simp add: HalProxy_setOperationMode_def)
qed

lemma initialize_loop_length: "length (hp_mSubHalList (snd (initialize_loop is r st))) = length (hp_mSubHalList st)"
proof (induction "is" arbitrary: r st)
  case (Cons i "is")
  obtain c st' where c: "on_sub_hal i (\<lambda>ops. sh_initialize ops (int i)) st = (c, st')" by (meson surj_pair)
  then show ?case using Cons on_sub_hal_length [of i "\<lambda>ops. sh_initialize ops (int i)" st] by simp
qed simp

lemma routed_length:
  "length (hp_mSubHalList (snd (HalProxy_activate h en st))) = length (hp_mSubHalList st)"
  "length (hp_mSubHalList (snd (HalProxy_batch h p l st))) = length (hp_mSubHalList st)"
  "length (hp_mSubHalList (snd (HalProxy_flush h st))) = length (hp_mSubHalList st)"
  "length (hp_mSubHalList (snd (HalProxy_injectSensorData cv event st))) = length (hp_mSubHalList st)"
  "length (hp_mSubHalList (snd (HalProxy_registerDirectChannel mem st))) = length (hp_mSubHalList st)"
  "length (hp_mSubHalList (snd (HalProxy_unregisterDirectChannel c st))) = length (hp_mSubHalList st)"
  "length (hp_mSubHalList (snd (HalProxy_configDirectReport h c rate st))) = length (hp_mSubHalList st)"
  by (auto simp: routing HalProxy_injectSensorData_def Let_def
      HalProxy_registerDirectChannel_def HalProxy_unregisterDirectChannel_def HalProxy_configDirectReport_def
      getSubHalForSensorHandle_def split: option.split)

lemma activate_fold_length:
  "length (hp_mSubHalList (fold (\<lambda>h st. snd (HalProxy_activate h en st)) hs st)) = length (hp_mSubHalList st)"
  by (induction hs arbitrary: st) (simp_all add: routed_length)

lemma proxy_step_length:
  "length (hp_mSubHalList (proxy_step hms conv sys sz z cv op st)) = length (hp_mSubHalList st)"
proof (cases op)
  case (X_initialize callback ef wflag ok running now now')
  then show ?thesis
    by (simp add: HalProxy_initializeCommon_def Let_def disableAllSensors_def activate_fold_length
        initialize_loop_length split_beta)
qed (simp_all add: routed_length mode_length)

section \<open>A post\<close>

lemma SubHal_post_cases:
  assumes "layout_preserving cv" "known (hp_mSensors st) (map (tag_event (int i)) events)"
  shows "(\<exists>w. SubHal_post v cv junk now i avail ok now' (events, wakeup) st = on_wake w st)
    \<or> (\<exists>w n wl. SubHal_post v cv junk now i avail ok now' (events, wakeup) st
         = queue_step (Q_post avail ok now' (map (tag_event (int i)) events) n wl) (on_wake w st))"
proof -
  obtain wl w where c: "createScopedWakelock junk now wakeup st = (wl, on_wake (\<lambda>_. w) st)"
    by (cases "createScopedWakelock junk now wakeup st") (auto simp: createScopedWakelock_def on_wake_def split: prod.splits)
  have p: "SubHal_post v cv junk now i avail ok now' (events, wakeup) st =
      HalProxyCallback_postEvents (int i) avail ok now' events wl (on_wake (\<lambda>_. w) st)"
    unfolding wrapped_post [OF assms(1), of v] by (simp add: SubHal_post_def c)
  show ?thesis
  proof (cases "events = [] \<or> \<not> wk_mThreadsRun w")
    case True
    then have "SubHal_post v cv junk now i avail ok now' (events, wakeup) st =
        on_wake (\<lambda>_. ScopedWakelock_destroy decrementRefCountAndMaybeReleaseWakelock wl w) st"
      unfolding p HalProxyCallback_postEvents_def by (auto simp: on_wake_def)
    then show ?thesis by blast
  next
    case False
    have "known (hp_mSensors (on_wake (\<lambda>_. w) st)) (map (tag_event (int i)) events)" using assms(2) by simp
    from processEvents_known [OF this] show ?thesis
      using False unfolding p HalProxyCallback_postEvents_def by (auto simp: ScopedWakelock_move_def)
  qed
qed

lemma post_sub_hals [simp]: "hp_mSubHalList (postEventsToMessageQueue avail ok now events n wl st) = hp_mSubHalList st"
  by (simp add: postEventsToMessageQueue_def Let_def)

lemma SubHal_post_queue:
  assumes "layout_preserving cv" "known (hp_mSensors st) (map (tag_event (int i)) events)" "queue_inv st"
    and "subseq (hp_written st @ remaining st) p"
    and st': "st' = SubHal_post v cv junk now i avail ok now' (events, wakeup) st"
  shows "queue_inv st' \<and> hp_mSubHalList st' = hp_mSubHalList st \<and> hp_mSensors st' = hp_mSensors st
    \<and> set (pending_events st') \<subseteq> set (pending_events st) \<union> set (map (tag_event (int i)) events)
    \<and> set (hp_written st') \<subseteq> set (hp_written st) \<union> set (map (tag_event (int i)) events)
    \<and> subseq (hp_written st' @ remaining st') (p @ map (tag_event (int i)) events)"
  using SubHal_post_cases [OF assms(1,2), of v junk now avail ok now' wakeup]
proof (elim disjE exE)
  fix w assume "SubHal_post v cv junk now i avail ok now' (events, wakeup) st = on_wake w st"
  then have "st' = on_wake w st" by (simp add: st')
  then show ?thesis
    using assms(3,4) view_facts [OF view_wake [of w st]] by (auto intro: subseq_order.trans)
next
  fix w n wl
  assume a: "SubHal_post v cv junk now i avail ok now' (events, wakeup) st
      = queue_step (Q_post avail ok now' (map (tag_event (int i)) events) n wl) (on_wake w st)"
  define k where "k = direct_writes avail ok (map (tag_event (int i)) events) (on_wake w st)"
  have st'': "st' = postEventsToMessageQueue avail ok now' (map (tag_event (int i)) events) n wl (on_wake w st)"
    using a by (simp add: st')
  note f = post_fields [OF st'' k_def] and v = view_facts [OF view_wake [of w st]]
  have "queue_inv (on_wake w st)" "subseq (hp_written (on_wake w st) @ remaining (on_wake w st)) p"
    using assms(3,4) v by simp_all
  note o = queue_inv_step [OF this(1), of "Q_post avail ok now' (map (tag_event (int i)) events) n wl"]
    queue_step_order [OF this, of "Q_post avail ok now' (map (tag_event (int i)) events) n wl"]
  have "hp_mSubHalList st' = hp_mSubHalList st" by (simp add: st'')
  then show ?thesis
    using o by (auto simp: st'' [symmetric] f(1,7) pending_events_def f(2) dest: in_set_takeD in_set_dropD split: if_splits)
qed

section \<open>The invariant of the system\<close>

definition posts_of :: "nat \<Rightarrow> ('s, 'e) multi_hal \<Rightarrow> (Event list \<times> bool) list" where
  "posts_of i m = sb_posted (snd (hp_mSubHalList (mh_proxy m) ! i))"

text \<open>The posts of sub-HAL \<open>i\<close> that were handed over, in that order, as the proxy saw them.\<close>

definition handed_posts :: "nat \<Rightarrow> ('s, 'e) multi_hal \<Rightarrow> Event list list" where
  "handed_posts i m = map snd (filter (\<lambda>e. fst e = i) (mh_log m))"

definition tagged :: "nat \<Rightarrow> (Event list \<times> bool) list \<Rightarrow> Event list list" where
  "tagged i posts = map (\<lambda>post. map (tag_event (int i)) (fst post)) posts"

definition system_inv where
  "system_inv hms conv sys sz z start sensors m \<longleftrightarrow>
     posting.all_sub_hals hms conv sys sz z start (mh_proxy m)
     \<and> length (hp_mSubHalList (mh_proxy m)) = length (mh_handed m)
     \<and> queue_inv (mh_proxy m)
     \<and> hp_mSensors (mh_proxy m) = sensors
     \<and> known sensors (pending_events (mh_proxy m)) \<and> known sensors (hp_written (mh_proxy m))
     \<and> subseq (hp_written (mh_proxy m) @ remaining (mh_proxy m)) (concat (map snd (mh_log m)))
     \<and> (\<forall>i<length (mh_handed m). mh_handed m ! i \<le> length (posts_of i m)
          \<and> handed_posts i m = tagged i (take (mh_handed m ! i) (posts_of i m)))
     \<and> (\<forall>e\<in>set (mh_log m). fst e < length (mh_handed m))"

text \<open>The sub-HALs at the start: nothing posted, and the proxy lists their sensors.\<close>

definition start_ok :: "nat \<Rightarrow> (nat \<Rightarrow> ('s, 'e) bosch_sub_hal) \<Rightarrow> (int, SensorInfo) stdmap \<Rightarrow> bool" where
  "start_ok n start sensors \<longleftrightarrow>
     (\<forall>i<n. sm_ok (sb_mSensors (start i)) \<and> sb_posted (start i) = []
        \<and> (\<forall>info\<in>set (SubHal_getSensorsList (start i)).
             sm_find (setSubHalIndex (si_sensorHandle info) (int i)) sensors \<noteq> None))"

lemma since_start_posts:
  assumes "start_ok n start sensors" "i < n" "since_start hms conv sys sz z start i ops s"
    and "(events, wakeup) \<in> set (sb_posted s)"
  shows "own_post (SubHal_getSensorsList (start i)) (events, wakeup)"
    "known sensors (map (tag_event (int i)) events)"
proof -
  show o: "own_post (SubHal_getSensorsList (start i)) (events, wakeup)"
    using assms by (auto simp: since_start_def sub_emits_def start_ok_def list_all_iff)
  then show "known sensors (map (tag_event (int i)) events)"
    using assms(1,2) by (fastforce simp: known_def own_post_def sensor_post_def start_ok_def)
qed

lemma posting_here:
  assumes "posting.all_sub_hals hms conv sys sz z start st"
  shows "posting.all_sub_hals hms conv sys sz z (\<lambda>i. snd (hp_mSubHalList st ! i)) st"
  using assms by (fastforce simp: posting.all_sub_hals_def since_start_def)

lemma posts_grow:
  assumes "posting.all_sub_hals hms conv sys sz z start st" "start_ok (length (hp_mSubHalList st)) start sensors"
    and "i < length (hp_mSubHalList st)"
  shows "\<exists>posts. sb_posted (snd (hp_mSubHalList (proxy_step hms conv sys sz z cv op st) ! i))
      = sb_posted (snd (hp_mSubHalList st ! i)) @ posts"
proof -
  obtain ops s where i: "hp_mSubHalList st ! i = (ops, s)" by (meson surj_pair)
  have "since_start hms conv sys sz z start i ops s" by (rule posting.all_sub_hals_nth [OF assms(1,3) i])
  then have ok: "sm_ok (sb_mSensors s)"
    using assms(2,3) by (auto simp: since_start_def sub_emits_def start_ok_def)
  obtain ops' s' where i': "hp_mSubHalList (proxy_step hms conv sys sz z cv op st) ! i = (ops', s')" by (meson surj_pair)
  have "since_start hms conv sys sz z (\<lambda>i. snd (hp_mSubHalList st ! i)) i ops' s'"
    by (rule posting.all_sub_hals_nth [OF posting_proxy_step [OF posting_here [OF assms(1)]] _ i'])
       (simp add: proxy_step_length assms(3))
  then show ?thesis using ok by (auto simp: since_start_def sub_emits_def i i')
qed

lemma take_append_le: "n \<le> length xs \<Longrightarrow> take n (xs @ ys) = take n xs"
  by simp

lemma system_inv_call:
  assumes "system_inv hms conv sys sz z start sensors m" "start_ok (length (mh_handed m)) start sensors"
  shows "system_inv hms conv sys sz z start sensors (system_step hms conv sys sz z cv ver (Y_call op) m)"
proof -
  define st where "st = mh_proxy m"
  define st' where "st' = proxy_step hms conv sys sz z cv op st"
  have inv: "posting.all_sub_hals hms conv sys sz z start st" "length (hp_mSubHalList st) = length (mh_handed m)"
    "queue_inv st" "hp_mSensors st = sensors" "known sensors (pending_events st)" "known sensors (hp_written st)"
    "subseq (hp_written st @ remaining st) (concat (map snd (mh_log m)))"
    "\<And>i. i < length (mh_handed m) \<Longrightarrow> mh_handed m ! i \<le> length (posts_of i m)
          \<and> handed_posts i m = tagged i (take (mh_handed m ! i) (posts_of i m))"
    "\<forall>e\<in>set (mh_log m). fst e < length (mh_handed m)"
    using assms(1) by (simp_all add: system_inv_def st_def)
  have "queue_view st' = queue_view st \<or> (queue_empty st' \<and> hp_written st' = [] \<and> hp_mSensors st' = hp_mSensors st)"
    by (rule proxy_step_queue [OF inv(3) _ st'_def]) (simp add: inv)
  then have q: "queue_inv st'" "hp_mSensors st' = sensors" "known sensors (pending_events st')"
    "known sensors (hp_written st')" "subseq (hp_written st' @ remaining st') (concat (map snd (mh_log m)))"
    using inv view_facts [of st' st] queue_empty_inv [of st'] by (auto simp: queue_empty_def pending_events_def)
  have posts: "mh_handed m ! i \<le> length (sb_posted (snd (hp_mSubHalList st' ! i)))
      \<and> handed_posts i m = tagged i (take (mh_handed m ! i) (sb_posted (snd (hp_mSubHalList st' ! i))))"
    if i: "i < length (mh_handed m)" for i
  proof -
    have "start_ok (length (hp_mSubHalList st)) start sensors" using assms(2) inv(2) by simp
    from posts_grow [OF inv(1) this, of i cv op] obtain posts
      where "sb_posted (snd (hp_mSubHalList st' ! i)) = posts_of i m @ posts"
      using i inv(2) by (auto simp: st'_def posts_of_def st_def)
    then show ?thesis using inv(8) [OF i] by simp
  qed
  show ?thesis
    using posting_proxy_step [OF inv(1), of cv op] q posts
    by (simp add: system_inv_def st_def [symmetric] st'_def [symmetric] posts_of_def handed_posts_def inv(2,9))
       (simp add: st'_def proxy_step_length inv(2))
qed

lemma system_inv_queue:
  assumes "system_inv hms conv sys sz z start sensors m"
    and "queue_inv st'" "hp_mSubHalList st' = hp_mSubHalList (mh_proxy m)" "hp_mSensors st' = sensors"
    and "set (pending_events st') \<subseteq> set (pending_events (mh_proxy m))"
    and "set (hp_written st') \<subseteq> set (hp_written (mh_proxy m)) \<union> set (pending_events (mh_proxy m))"
    and "subseq (hp_written st' @ remaining st') (concat (map snd (mh_log m)))"
  shows "system_inv hms conv sys sz z start sensors (m\<lparr>mh_proxy := st'\<rparr>)"
proof -
  have "known sensors (pending_events st')" "known sensors (hp_written st')"
    using assms(1,5,6) by (auto simp: system_inv_def known_def)
  moreover have "posting.all_sub_hals hms conv sys sz z start st'"
    using assms(1,3) posting.all_sub_hals_cong by (metis system_inv_def)
  ultimately show ?thesis
    using assms by (simp add: system_inv_def posts_of_def handed_posts_def)
qed

lemma system_inv_step:
  assumes "system_inv hms conv sys sz z start sensors m" "start_ok (length (mh_handed m)) start sensors"
    and "layout_preserving cv"
  shows "system_inv hms conv sys sz z start sensors (system_step hms conv sys sz z cv ver a m)"
proof -
  define st where "st = mh_proxy m"
  have inv: "queue_inv st" "hp_mSensors st = sensors" "known (hp_mSensors st) (pending_events st)"
    "subseq (hp_written st @ remaining st) (concat (map snd (mh_log m)))"
    using assms(1) by (simp_all add: system_inv_def st_def)
  have queue: "queue_inv (queue_step b st)" "subseq (hp_written (queue_step b st) @ remaining (queue_step b st))
      (concat (map snd (mh_log m)) @ op_events b)" for b
    using queue_inv_step [OF inv(1)] queue_step_order [OF inv(1,4)] by blast+
  show ?thesis
  proof (cases a)
    case (Y_call op)
    then show ?thesis using system_inv_call [OF assms(1,2)] by simp
  next
    case (Y_take n)
    then show ?thesis
      using system_inv_queue [OF assms(1), of "handlePendingWrites_take n st"] queue [of "Q_take n"] pending_take [of n st]
        inv(2) by (simp add: st_def pending_events_def handlePendingWrites_take_def split: list.splits)
  next
    case (Y_write ok)
    then show ?thesis
      using system_inv_queue [OF assms(1), of "handlePendingWrites_write ok st"] queue [of "Q_write ok"]
        pending_write [OF inv(3), of ok] inv(2) by (simp add: st_def pending_events_def)
  next
    case Y_finish
    then show ?thesis
      using system_inv_queue [OF assms(1), of "handlePendingWrites_finish st"] queue [of Q_finish]
        pending_finish [of st] inv(2) by (simp add: st_def)
  next
    case (Y_wakelock_round now now')
    then show ?thesis
      using system_inv_queue [OF assms(1), of "on_wake (\<lambda>w. snd (handleWakelocks_round now now' w)) st"]
        view_facts [OF view_wake [of "\<lambda>w. snd (handleWakelocks_round now now' w)" st]] inv by (simp add: st_def)
  next
    case (Y_wakelock_read result)
    then show ?thesis
      using system_inv_queue [OF assms(1), of "on_wake (handleWakelocks_read result) st"]
        view_facts [OF view_wake [of "handleWakelocks_read result" st]] inv by (simp add: st_def)
  next
    case (Y_post i junk now avail ok now')
    show ?thesis
    proof (cases "outstanding_post i m")
      case None
      then show ?thesis using assms(1) by (simp add: Y_post)
    next
      case (Some post)
      obtain events wakeup where post: "post = (events, wakeup)" by fastforce
      have i: "i < length (hp_mSubHalList st)" "i < length (mh_handed m)" "mh_handed m ! i < length (posts_of i m)"
        "post = posts_of i m ! (mh_handed m ! i)"
        using Some by (auto simp: outstanding_post_def Let_def posts_of_def st_def split: if_splits)
      obtain ops s where s: "hp_mSubHalList st ! i = (ops, s)" by (meson surj_pair)
      have "since_start hms conv sys sz z start i ops s"
        using posting.all_sub_hals_nth [OF _ i(1) s] assms(1) by (simp add: system_inv_def st_def)
      moreover have "(events, wakeup) \<in> set (sb_posted s)"
        using nth_mem [OF i(3)] i(4) s by (simp add: post posts_of_def st_def)
      ultimately have k: "known (hp_mSensors st) (map (tag_event (int i)) events)"
        using since_start_posts(2) [OF assms(2) i(2)] inv(2) by simp
      define st' where "st' = SubHal_post (ver i) cv junk now i avail ok now' (events, wakeup) st"
      note q = SubHal_post_queue [OF assms(3) k inv(1,4) st'_def]
      have step: "system_step hms conv sys sz z cv ver a m = m\<lparr>mh_proxy := st',
          mh_handed := (mh_handed m)[i := Suc (mh_handed m ! i)],
          mh_log := mh_log m @ [(i, map (tag_event (int i)) events)]\<rparr>"
        using Some by (simp add: Y_post post st'_def st_def)
      have "known sensors (pending_events st')" "known sensors (hp_written st')"
        using q k assms(1) by (auto simp: system_inv_def known_def st_def)
      moreover have "posting.all_sub_hals hms conv sys sz z start st'"
        using assms(1) q posting.all_sub_hals_cong by (metis system_inv_def st_def)
      moreover have "(mh_handed m)[i := Suc (mh_handed m ! i)] ! j \<le> length (posts_of j m)
          \<and> map snd (filter (\<lambda>e. fst e = j) (mh_log m @ [(i, map (tag_event (int i)) events)]))
              = tagged j (take ((mh_handed m)[i := Suc (mh_handed m ! i)] ! j) (posts_of j m))"
        if j: "j < length (mh_handed m)" for j
      proof -
        have h: "mh_handed m ! j \<le> length (posts_of j m)"
          "map snd (filter (\<lambda>e. fst e = j) (mh_log m)) = tagged j (take (mh_handed m ! j) (posts_of j m))"
          using assms(1) j by (simp_all add: system_inv_def handed_posts_def)
        show ?thesis
        proof (cases "j = i")
          case True
          have "take (Suc (mh_handed m ! i)) (posts_of i m) = take (mh_handed m ! i) (posts_of i m) @ [(events, wakeup)]"
            using i(3,4) by (simp add: take_Suc_conv_app_nth post)
          then show ?thesis using h i(2,3) True by (simp add: tagged_def)
        qed (use h j in simp)
      qed
      moreover have "posts_of j (m\<lparr>mh_proxy := st', mh_handed := x, mh_log := y\<rparr>) = posts_of j m" for j x y
        using q by (simp add: posts_of_def st_def)
      ultimately show ?thesis
        using assms(1) q i(2) unfolding step system_inv_def handed_posts_def by (simp add: st_def)
    qed
  qed
qed

section \<open>The start\<close>

lemma fresh_sensors:
  "SubHal_AddSensors read ds st = Inr s \<Longrightarrow> sb_mNextHandle st = int n + 1 \<Longrightarrow> n + length ds < 2 ^ 24 \<Longrightarrow>
   sm_ok (sb_mSensors st) \<Longrightarrow>
   \<forall>(k, v)\<in>set (sb_mSensors st). si_sensorHandle (hs_mSensorInfo v) = k \<and> subHalIndexIsClear k \<Longrightarrow>
   sm_ok (sb_mSensors s) \<and> sb_posted s = sb_posted st
   \<and> (\<forall>(k, v)\<in>set (sb_mSensors s). si_sensorHandle (hs_mSensorInfo v) = k \<and> subHalIndexIsClear k)"
proof (induction ds arbitrary: st n)
  case (Cons d ds)
  let ?info = "sensor_info_of (sb_mNextHandle st) d"
  obtain l where l: "subhal_readSensorsConfigFromXml read = Some l"
    using Cons.prems(1) by (auto simp: Let_def split: option.splits)
  define st1 where "st1 = st\<lparr>sb_mNextHandle := i32 (sb_mNextHandle st + 1),
      sb_mSensors := sm_put (si_sensorHandle ?info) (SubSensor_init ?info
        (subhal_getSensorConfiguration l (si_name ?info) (si_type ?info))) (sb_mSensors st)\<rparr>"
  have h: "si_sensorHandle ?info = int n + 1" using Cons.prems(2) by (simp add: sensor_info_of_def SensorInfo_init_def)
  have c: "subHalIndexIsClear (int n + 1)" using Cons.prems(3) by (simp add: subHalIndexIsClear_iff)
  have "i32 (2 + int n) = 2 + int n" using Cons.prems(3) by (intro i32_id) auto
  then have n: "sb_mNextHandle st1 = int (Suc n) + 1" using Cons.prems(2) by (simp add: st1_def)
  have "hs_mSensorInfo (SubSensor_init ?info cfg) = ?info" for cfg by (simp add: SubSensor_init_def Sensor_init_def)
  then have "\<forall>(k, v)\<in>set (sb_mSensors st1). si_sensorHandle (hs_mSensorInfo v) = k \<and> subHalIndexIsClear k"
    using Cons.prems(4,5) h c by (auto simp: st1_def set_sm_put)
  moreover have "SubHal_AddSensors read ds st1 = Inr s" using Cons.prems(1) l by (simp add: Let_def st1_def)
  moreover have "sm_ok (sb_mSensors st1)" "sb_posted st1 = sb_posted st" using Cons.prems(4) by (simp_all add: st1_def)
  ultimately show ?case using Cons.IH [of st1 "Suc n"] n Cons.prems(3) by simp
qed simp

definition fresh_sub_hal :: "('s, 'e) bosch_sub_hal \<Rightarrow> bool" where
  "fresh_sub_hal s \<longleftrightarrow>
     (\<exists>read ds hal. SubHal_AddSensors read ds (SubHal_init hal) = Inr s \<and> length ds < 2 ^ 24)"

lemma fresh_facts:
  assumes "fresh_sub_hal s"
  shows "sm_ok (sb_mSensors s)" "sb_posted s = []"
    "\<And>info. info \<in> set (SubHal_getSensorsList s) \<Longrightarrow> subHalIndexIsClear (si_sensorHandle info)"
    "\<And>info info'. info \<in> set (SubHal_getSensorsList s) \<Longrightarrow> info' \<in> set (SubHal_getSensorsList s) \<Longrightarrow>
       si_sensorHandle info = si_sensorHandle info' \<Longrightarrow> info = info'"
proof -
  obtain read ds and hal :: 'a where a: "SubHal_AddSensors read ds (SubHal_init hal) = Inr s" "length ds < 2 ^ 24"
    using assms by (auto simp: fresh_sub_hal_def)
  have f: "sm_ok (sb_mSensors s)" "sb_posted s = []"
    "\<forall>(k, v)\<in>set (sb_mSensors s). si_sensorHandle (hs_mSensorInfo v) = k \<and> subHalIndexIsClear k"
    using fresh_sensors [OF a(1), of 0] a(2) by (simp_all add: SubHal_init_def)
  then show "sm_ok (sb_mSensors s)" "sb_posted s = []" by simp_all
  show "subHalIndexIsClear (si_sensorHandle info)" if "info \<in> set (SubHal_getSensorsList s)" for info
    using that f(3) by (auto simp: SubHal_getSensorsList_def sm_values_def)
  show "info = info'" if own: "info \<in> set (SubHal_getSensorsList s)" "info' \<in> set (SubHal_getSensorsList s)"
    "si_sensorHandle info = si_sensorHandle info'" for info info'
  proof -
    obtain k v k' v' where v: "(k, v) \<in> set (sb_mSensors s)" "info = hs_mSensorInfo v"
      "(k', v') \<in> set (sb_mSensors s)" "info' = hs_mSensorInfo v'"
      using own(1,2) by (auto simp: SubHal_getSensorsList_def sm_values_def)
    then have "si_sensorHandle info = k" "si_sensorHandle info' = k'" using f(3) by blast+
    then have "k = k'" using own(3) by simp
    then show ?thesis using sm_in_set_find [OF f(1) v(1)] sm_in_set_find [OF f(1) v(3)] v(2,4) by simp
  qed
qed

lemma fresh_keys:
  "fresh_sub_hal s \<Longrightarrow> (k, v) \<in> set (sb_mSensors s) \<Longrightarrow> si_sensorHandle (hs_mSensorInfo v) = k"
  using fresh_sensors [of _ _ "SubHal_init _" s 0] by (fastforce simp: fresh_sub_hal_def SubHal_init_def)

lemma init_queue: "queue_empty (HalProxy_init now now' subHals) \<and> hp_written (HalProxy_init now now' subHals) = []"
proof -
  have one: "queue_empty (load_sensor i s st) = queue_empty st \<and> hp_written (load_sensor i s st) = hp_written st" for i s and st :: "'a hal_proxy"
    by (simp add: load_sensor_def queue_empty_def Let_def split: prod.split)
  have sensors: "queue_empty (fold (load_sensor i) ss st) = queue_empty st \<and> hp_written (fold (load_sensor i) ss st) = hp_written st"
    for i ss and st :: "'a hal_proxy"
    by (induction ss arbitrary: st) (simp_all add: one)
  have "queue_empty (load_sub_hal i st) = queue_empty st \<and> hp_written (load_sub_hal i st) = hp_written st" for i and st :: "'a hal_proxy"
    using only_sub_hals_call [of st i sh_getSensorsList] view_sub_hals [of st "snd (on_sub_hal i sh_getSensorsList st)"]
    by (simp add: load_sub_hal_unfold sensors) (simp add: queue_view_def queue_empty_def)
  then have "queue_empty (fold load_sub_hal is st) = queue_empty st \<and> hp_written (fold load_sub_hal is st) = hp_written st"
    for "is" and st :: "'a hal_proxy"
    by (induction "is" arbitrary: st) simp_all
  then show ?thesis by (simp add: HalProxy_init_def initializeSensorList_def) (simp add: queue_empty_def)
qed

definition fresh_system ::
  "(int \<Rightarrow> 's hal_methods) \<Rightarrow> (Event \<Rightarrow> 'e) \<Rightarrow> ashmem \<Rightarrow> nat \<Rightarrow> 'e
     \<Rightarrow> (('s, 'e) bosch_sub_hal sub_hal \<times> ('s, 'e) bosch_sub_hal) list \<Rightarrow> bool" where
  "fresh_system hms conv sys sz z subHals \<longleftrightarrow>
     (\<forall>(ops, s)\<in>set subHals. (\<exists>env. ops = bosch_ops hms conv sys sz z env) \<and> fresh_sub_hal s)"

lemma fresh_nth:
  assumes "fresh_system hms conv sys sz z subHals" "i < length subHals"
  shows "\<exists>env. fst (subHals ! i) = bosch_ops hms conv sys sz z env" "fresh_sub_hal (snd (subHals ! i))"
    "fst (sh_getSensorsList (fst (subHals ! i)) (snd (subHals ! i))) = SubHal_getSensorsList (snd (subHals ! i))"
  using assms nth_mem [OF assms(2)] unfolding fresh_system_def by (fastforce simp: bosch_ops_def)+

lemma fresh_list:
  assumes "fresh_system hms conv sys sz z subHals"
  shows "hp_mSubHalList (HalProxy_init now now' subHals) = subHals"
  by (rule HalProxy_init_list) (use assms in \<open>auto simp: fresh_system_def bosch_ops_def\<close>)

lemma fresh_start_ok:
  assumes "fresh_system hms conv sys sz z subHals"
  shows "start_ok (length subHals) (\<lambda>i. snd (subHals ! i)) (hp_mSensors (HalProxy_init now now' subHals))"
  unfolding start_ok_def
proof (intro allI impI conjI ballI)
  fix i info
  assume i: "i < length subHals"
  show "sm_ok (sb_mSensors (snd (subHals ! i)))" "sb_posted (snd (subHals ! i)) = []"
    by (rule fresh_facts [OF fresh_nth(2) [OF assms i]])+
  assume "info \<in> set (SubHal_getSensorsList (snd (subHals ! i)))"
  then show "sm_find (setSubHalIndex (si_sensorHandle info) (int i)) (hp_mSensors (HalProxy_init now now' subHals)) \<noteq> None"
    using fresh_facts(3) [OF fresh_nth(2) [OF assms i]]
    by (intro initializeSensorList_complete i) (simp_all add: fresh_nth(3) [OF assms i])
qed

lemma system_init_inv:
  assumes "fresh_system hms conv sys sz z subHals"
  shows "system_inv hms conv sys sz z (\<lambda>i. snd (subHals ! i)) (hp_mSensors (HalProxy_init now now' subHals))
    (system_init now now' subHals)"
proof -
  have "posting.all_sub_hals hms conv sys sz z (\<lambda>i. snd (subHals ! i)) (HalProxy_init now now' subHals)"
    using fresh_nth(1) [OF assms]
    by (auto simp: posting.all_sub_hals_def fresh_list [OF assms] since_start_def split: prod.split) (metis fst_conv)
  then show ?thesis
    using init_queue [of now now' subHals] queue_empty_inv [of "HalProxy_init now now' subHals"]
    by (auto simp: system_inv_def system_init_def fresh_list [OF assms] pending_events_def queue_empty_def
        handed_posts_def tagged_def)
qed

lemma system_run_inv:
  assumes "system_inv hms conv sys sz z start sensors m" "start_ok n start sensors" "length (mh_handed m) = n"
    and "layout_preserving cv"
  shows "system_inv hms conv sys sz z start sensors (fold (system_step hms conv sys sz z cv ver) xs m)
    \<and> length (mh_handed (fold (system_step hms conv sys sz z cv ver) xs m)) = n"
  using assms(1,3)
proof (induction xs arbitrary: m)
  case (Cons x xs)
  have "length (mh_handed (system_step hms conv sys sz z cv ver x m)) = length (mh_handed m)"
    by (cases x) (simp_all split: option.split)
  moreover have "system_inv hms conv sys sz z start sensors (system_step hms conv sys sz z cv ver x m)"
    using Cons.prems assms(2,4) by (intro system_inv_step) simp_all
  ultimately show ?case using Cons by simp
qed simp

section \<open>Properties\<close>


lemma wake_up_merged: "has_flag (f AND u32 (NOT direct_flags)) FLAG_WAKE_UP = has_flag f FLAG_WAKE_UP"
proof -
  have "u32 (NOT direct_flags) AND FLAG_WAKE_UP = FLAG_WAKE_UP" by (simp add: u32_def direct_flags_def flag_defs)
  then show ?thesis by (simp add: has_flag_def and.assoc)
qed

text \<open>The proxy's entry for a sensor of sub-HAL \<open>i\<close>: under the tagged handle, with the same wake-up flag.\<close>

lemma merged_entry:
  assumes "fresh_system hms conv sys sz z subHals" "length subHals \<le> 128" "i < length subHals"
    and "info \<in> set (SubHal_getSensorsList (snd (subHals ! i)))"
  shows "\<exists>entry. sm_find (setSubHalIndex (si_sensorHandle info) (int i)) (hp_mSensors (HalProxy_init now now' subHals)) = Some entry
    \<and> has_flag (si_flags entry) FLAG_WAKE_UP = has_flag (si_flags info) FLAG_WAKE_UP"
proof -
  define lst where "lst = (\<lambda>i. fst (sh_getSensorsList (fst (subHals ! i)) (snd (subHals ! i))))"
  note l = HalProxy_init_listed [OF refl lst_def, of now now']
  have lst: "lst j = SubHal_getSensorsList (snd (subHals ! j))" if "j < length subHals" for j
    unfolding lst_def by (rule fresh_nth(3) [OF assms(1) that])
  note f = fresh_facts [OF fresh_nth(2) [OF assms(1)]]
  have clear: "subHalIndexIsClear (si_sensorHandle info)" by (rule f(3) [OF assms(3,4)])
  then obtain entry where e: "sm_find (setSubHalIndex (si_sensorHandle info) (int i)) (hp_mSensors (HalProxy_init now now' subHals)) = Some entry"
    using conjunct2 [OF l, rule_format, OF assms(3), of info] assms(3,4) lst by auto
  then obtain d where "entry_of lst (length subHals) d (setSubHalIndex (si_sensorHandle info) (int i), entry)"
    using conjunct1 [OF l] sm_find_in_set [OF e] unfolding list_inv_def by blast
  then obtain j sensor where j: "j < length subHals" "sensor \<in> set (lst j)" "subHalIndexIsClear (si_sensorHandle sensor)"
    "setSubHalIndex (si_sensorHandle info) (int i) = setSubHalIndex (si_sensorHandle sensor) (int j)"
    "si_flags entry = si_flags sensor \<or> si_flags entry = si_flags sensor AND u32 (NOT direct_flags)"
    unfolding entry_of_def by auto
  have same: "si_sensorHandle sensor = si_sensorHandle info" and i: "j = i"
  proof -
    have "0 \<le> int i" "int i < 128" "0 \<le> int j" "int j < 128" using j(1) assms(2,3) by simp_all
    from iffD1 [OF set_inj [OF clear j(3) this] j(4)]
    show "si_sensorHandle sensor = si_sensorHandle info" "j = i" by simp_all
  qed
  have "sensor \<in> set (SubHal_getSensorsList (snd (subHals ! i)))" using j(2) unfolding i lst [OF assms(3)] .
  then have "sensor = info" using assms(4) same by (rule f(4) [OF assms(3)])
  then have "si_flags entry = si_flags info \<or> si_flags entry = si_flags info AND u32 (NOT direct_flags)"
    using j(5) by simp
  then have "has_flag (si_flags entry) FLAG_WAKE_UP = has_flag (si_flags info) FLAG_WAKE_UP"
    by (elim disjE) (simp_all only: wake_up_merged)
  then show ?thesis using e by blast
qed

text \<open>C5: in the same system, with at most 128 sub-HALs, no post adds a sensor to the proxy's list (see
  \<open>postEvents_inserts_phantom_sensor\<close> for dynamic sensors), every event in the queue or pending has the
  handle of a sensor on that list, and the assertion of \<^verbatim>\<open>postEvents\<close> holds of every post: the wake
  lock it comes with is locked exactly when it has wake-up events.\<close>

theorem bosch_sub_hals_comply:
  assumes "layout_preserving cv" and "fresh_system hms conv sys sz z subHals" and "length subHals \<le> 128"
    and "m = fold (system_step hms conv sys sz z cv ver) xs (system_init now now' subHals)"
  shows "hp_mSensors (mh_proxy m) = hp_mSensors (HalProxy_init now now' subHals)
       \<and> (\<forall>ev\<in>set (hp_written (mh_proxy m) @ remaining (mh_proxy m)).
            sm_find (ev_sensorHandle ev) (hp_mSensors (mh_proxy m)) \<noteq> None)
       \<and> (\<forall>i<length subHals. \<forall>(events, wakeup)\<in>set (posts_of i m). events \<noteq> [] \<longrightarrow>
            (0 < snd (fst (processEvents (int i) events (mh_proxy m)))) = wakeup)"
proof -
  define start where "start = (\<lambda>i. snd (subHals ! i))"
  define sensors where "sensors = hp_mSensors (HalProxy_init now now' subHals)"
  have ok: "start_ok (length subHals) start sensors"
    unfolding start_def sensors_def by (rule fresh_start_ok [OF assms(2)])
  have inv: "system_inv hms conv sys sz z start sensors m" "length (mh_handed m) = length subHals"
    using system_run_inv [OF system_init_inv [OF assms(2)] fresh_start_ok [OF assms(2)] _ assms(1), of now now' ver xs]
    by (simp_all add: assms(4) start_def sensors_def system_init_def)
  have "known sensors (hp_written (mh_proxy m) @ remaining (mh_proxy m))"
    using inv(1) known_subset [OF _ set_remaining] by (auto simp: system_inv_def)
  moreover have "(0 < snd (fst (processEvents (int i) events (mh_proxy m)))) = wakeup"
    if i: "i < length subHals" and post: "(events, wakeup) \<in> set (posts_of i m)" and ne: "events \<noteq> []" for i events wakeup
  proof -
    obtain ops s where s: "hp_mSubHalList (mh_proxy m) ! i = (ops, s)" by (meson surj_pair)
    have since: "since_start hms conv sys sz z start i ops s"
      using posting.all_sub_hals_nth [OF _ _ s] inv i by (simp add: system_inv_def)
    have mem: "(events, wakeup) \<in> set (sb_posted s)" using post s by (simp add: posts_of_def)
    note o = since_start_posts [OF ok i since mem]
    obtain info where info: "info \<in> set (SubHal_getSensorsList (snd (subHals ! i)))" "sensor_post info (events, wakeup)"
      using o(1) by (auto simp: own_post_def start_def)
    obtain entry where entry: "sm_find (setSubHalIndex (si_sensorHandle info) (int i)) sensors = Some entry"
      "has_flag (si_flags entry) FLAG_WAKE_UP = has_flag (si_flags info) FLAG_WAKE_UP"
      using merged_entry [OF assms(2,3) i info(1), of now now'] by (auto simp: sensors_def)
    have "snd (fst (processEvents (int i) events (mh_proxy m)))
        = length (filter (\<lambda>ev. has_flag (si_flags (the (sm_find (ev_sensorHandle ev) sensors))) FLAG_WAKE_UP)
            (map (tag_event (int i)) events))"
      using processEvents_known [of "mh_proxy m" "int i" events] o(2) inv(1) by (simp add: system_inv_def)
    also have "\<dots> = (if wakeup then length events else 0)"
      using info(2) entry by (auto simp: sensor_post_def filter_empty_conv intro!: filter_True filter_False)
    finally show ?thesis using ne by simp
  qed
  ultimately show ?thesis
    using inv(1) by (auto simp: system_inv_def known_def sensors_def)
qed

section \<open>An example\<close>

definition example_subs where
  "example_subs = [(example_bosch, example_sub), (example_bosch, example_sub)]"

definition example_system :: "(unit, int) multi_hal" where
  "example_system = fold (system_step (\<lambda>_. silent) ev_timestamp example_ashmem 104 0 example_convert (\<lambda>_. HAL_2_0))
     [Y_call (X_activate 16777217 True), Y_post 1 0 1 10 True 2]
     (system_init 0 0 example_subs)"

lemma example_fresh: "fresh_system (\<lambda>_. silent) ev_timestamp example_ashmem 104 0 example_subs"
proof -
  have "fresh_sub_hal example_sub"
    unfolding fresh_sub_hal_def using example_sub_eq
    by (intro exI [of _ example_xml] exI [of _ "[example_data]"] exI [of _ "()"]) simp
  then show ?thesis by (auto simp: fresh_system_def example_subs_def example_bosch_def)
qed

lemma example_system_handed:
  "mh_handed example_system = [0, 1] \<and> length (mh_log example_system) = 1"
proof -
  obtain config where e: "example_sub = (SubHal_init ())\<lparr>sb_mNextHandle := i32 2,
     sb_mSensors := [(1, Sensor_init (sensor_info_of 1 example_data) config)]\<rparr>"
    using example_sub_record by blast
  define st where "st = HalProxy_init 0 0 example_subs"
  have l: "hp_mSubHalList st = example_subs" unfolding st_def by (rule fresh_list [OF example_fresh])
  have h: "extractSubHalIndex 16777217 = 1" "clearSubHalIndex 16777217 = 1"
    using extract_set [of 1 1] clear_set [of 1 1] by (simp_all add: example_handles)
  have a: "sh_activate example_bosch = SubHal_activate (\<lambda>_. silent) ev_timestamp (\<lambda>_. 0)"
    by (simp add: example_bosch_def bosch_ops_def)
  define s' where "s' = snd (SubHal_activate (\<lambda>_. silent) ev_timestamp (\<lambda>_. 0) 1 True example_sub)"
  have s': "length (sb_posted s') = 1"
    by (simp add: s'_def e SubHal_activate_def SubHal_init_def sub_call_def sub_env_def sub_sensor_eqs Sensor_activate_def
        Sensor_init_def sendAdditionalInfoReport_def additional_info_frames_def Let_def emit_def on_hal_def
        SubHal_postEvents_def split: prod.split)
  have p: "hp_mSubHalList (snd (HalProxy_activate 16777217 True st)) = [(example_bosch, example_sub), (example_bosch, s')]"
    by (simp add: HalProxy_activate_def isSubHalIndexValid_def l h example_subs_def getSubHalForSensorHandle_def
        on_sub_hal_def a s'_def split: prod.split)
  have q: "sb_posted example_sub = []" by (simp add: e SubHal_init_def)
  obtain post where post: "sb_posted s' = [post]" using s' by (auto simp: length_Suc_conv)
  define st1 where "st1 = snd (HalProxy_activate 16777217 True st)"
  define m1 where "m1 = \<lparr>mh_proxy = st1, mh_handed = [0, 0], mh_log = []\<rparr>"
  have o1: "outstanding_post 1 m1 = Some post"
    by (simp add: m1_def outstanding_post_def st1_def p post)
  have "system_step (\<lambda>_. silent) ev_timestamp example_ashmem 104 0 example_convert (\<lambda>_. HAL_2_0)
      (Y_call (X_activate 16777217 True)) (system_init 0 0 example_subs) = m1"
    unfolding m1_def st1_def st_def by (simp add: system_init_def) (simp add: example_subs_def)
  then show ?thesis using o1 by (simp add: example_system_def) (simp add: m1_def)
qed


theorem bosch_sub_hals_comply_witness:
  "hp_mSensors (mh_proxy example_system) = hp_mSensors (HalProxy_init 0 0 example_subs)"
  using bosch_sub_hals_comply [OF example_layout example_fresh _ example_system_def] by (simp add: example_subs_def)

end
