(* ===== verification/Front_Ends.thy ===== *)
theory Front_Ends
  imports Multi_Hal Aidl_Service Hal_Proxy_Aidl
begin

text \<open>
  The HIDL front ends of the service and of the proxy (\<^verbatim>\<open>2.0/SensorsHalV2_0.h\<close>,
  \<^verbatim>\<open>2.1/SensorsV2_1.cpp\<close>, the two \<^verbatim>\<open>initialize\<close> of \<^verbatim>\<open>HalProxy.cpp\<close>), and what
  all front ends have in common: the list of sensors.
\<close>

section \<open>The service as HIDL 2.0 and as HIDL 2.1\<close>

definition SensorsHalV2_0_getSensorsList :: "convertV2_1 \<Rightarrow> ('s, 'e) sensors \<Rightarrow> SensorInfo list" where
  "SensorsHalV2_0_getSensorsList cv st =
     map (\<lambda>sensor. convertToOldSensorInfo cv (hs_mSensorInfo sensor)) (sm_values (ss_mSensors st))"

definition SensorsV2_1_getSensorsList :: "convertV2_1 \<Rightarrow> ('s, 'e) sensors \<Rightarrow> SensorInfo list" where
  "SensorsV2_1_getSensorsList cv st =
     map (\<lambda>sensor. convertToOldSensorInfo cv (hs_mSensorInfo sensor))
       (filter (\<lambda>sensor. si_type (hs_mSensorInfo sensor) \<noteq> ST_HINGE_ANGLE) (sm_values (ss_mSensors st)))"

definition SensorsV2_1_getSensorsList_2_1 :: "('s, 'e) sensors \<Rightarrow> SensorInfo list" where
  "SensorsV2_1_getSensorsList_2_1 st = map hs_mSensorInfo (sm_values (ss_mSensors st))"

definition SensorsV2_1_injectSensorData_2_1 :: "convertV2_1 \<Rightarrow> Event \<Rightarrow> ('s, 'e) sensors \<Rightarrow> hal_result" where
  "SensorsV2_1_injectSensorData_2_1 cv event = Sensors_injectSensorData (convertToOldEvent cv event)"

text \<open>\<^verbatim>\<open>initialize\<close> hands the caller's callback on; \<^verbatim>\<open>initialize_2_1\<close> a wrapper made with
  \<^verbatim>\<open>new\<close>, which is not null even when the callback in it is.\<close>

definition Sensors_initialize ::
  "(int \<Rightarrow> 's hal_methods) \<Rightarrow> 'e sensors_os \<Rightarrow> (nat \<Rightarrow> int) \<Rightarrow> bool \<Rightarrow> bool \<Rightarrow> ('s, 'e) sensors
     \<Rightarrow> hal_result \<times> ('s, 'e) sensors" where
  "Sensors_initialize hms os clk callback flag = Sensors_initializeBase hms os clk callback flag"

definition SensorsV2_1_initialize_2_1 ::
  "(int \<Rightarrow> 's hal_methods) \<Rightarrow> 'e sensors_os \<Rightarrow> (nat \<Rightarrow> int) \<Rightarrow> bool \<Rightarrow> bool \<Rightarrow> ('s, 'e) sensors
     \<Rightarrow> hal_result \<times> ('s, 'e) sensors" where
  "SensorsV2_1_initialize_2_1 hms os clk sensorsCallback flag =
     (let mCallbackWrapper = True in Sensors_initializeBase hms os clk mCallbackWrapper flag)"

text \<open>The wrapper, for a callback given by its method.\<close>

definition ISensorsCallbackWrapper_onDynamicSensorsConnected ::
  "convertV2_1 \<Rightarrow> (SensorInfo list \<Rightarrow> 'r) \<Rightarrow> SensorInfo list \<Rightarrow> 'r" where
  "ISensorsCallbackWrapper_onDynamicSensorsConnected cv mCallback sensorInfos =
     mCallback (convertToNewSensorInfos cv sensorInfos)"

definition ISensorsCallbackWrapper_onDynamicSensorsDisconnected :: "(int list \<Rightarrow> 'r) \<Rightarrow> int list \<Rightarrow> 'r" where
  "ISensorsCallbackWrapper_onDynamicSensorsDisconnected mCallback sensorHandles =
     mCallback sensorHandles"

section \<open>The proxy's initialisation in either version\<close>

text \<open>Here both versions wrap the callback; the wrapper is never null.\<close>

definition HalProxy_initialize ::
  "bool \<Rightarrow> bool \<Rightarrow> bool \<Rightarrow> bool \<Rightarrow> bool \<Rightarrow> int \<Rightarrow> int \<Rightarrow> 's hal_proxy \<Rightarrow> hal_result \<times> 's hal_proxy" where
  "HalProxy_initialize sensorsCallback event_flag wake_flag ok running now now' =
     (let dynamicCallback = True in HalProxy_initializeCommon dynamicCallback event_flag wake_flag ok running now now')"

definition HalProxy_initialize_2_1 ::
  "bool \<Rightarrow> bool \<Rightarrow> bool \<Rightarrow> bool \<Rightarrow> bool \<Rightarrow> int \<Rightarrow> int \<Rightarrow> 's hal_proxy \<Rightarrow> hal_result \<times> 's hal_proxy" where
  "HalProxy_initialize_2_1 sensorsCallback event_flag wake_flag ok running now now' =
     (let dynamicCallback = True in HalProxy_initializeCommon dynamicCallback event_flag wake_flag ok running now now')"

text \<open>So a null callback, which \<^verbatim>\<open>initialize\<close> of HIDL 2.0 refuses, is accepted by the other three.\<close>

lemma null_callback_accepted:
  "fst (Sensors_initialize hms os clk False True sv) = R_BAD_VALUE"
  "fst (SensorsV2_1_initialize_2_1 hms os clk False True sv) = R_OK"
  "HalProxy_initialize False ef wflag ok running now now' st = HalProxy_initialize True ef wflag ok running now now' st"
  "HalProxy_initialize_2_1 False ef wflag ok running now now' st = HalProxy_initialize_2_1 True ef wflag ok running now now' st"
  by (simp_all add: Sensors_initialize_def SensorsV2_1_initialize_2_1_def Sensors_initializeBase_def Let_def
      HalProxy_initialize_def HalProxy_initialize_2_1_def)

section \<open>The list of sensors\<close>

lemma sm_put_last: "\<forall>k'\<in>fst ` set m. k' < k \<Longrightarrow> sm_put k v m = m @ [(k, v)]"
  by (induction k v m rule: sm_put.induct) auto

text \<open>The service numbers its sensors from 1, in the order in which they are available.\<close>

lemma AddSensors_list:
  assumes "AddSensors read ds st = Inr s" "ss_mNextHandle st = int n + 1" "int n + int (length ds) < 2 ^ 24"
    and "\<forall>k\<in>fst ` set (ss_mSensors st). k \<le> int n"
  shows "map hs_mSensorInfo (sm_values (ss_mSensors s)) =
    map hs_mSensorInfo (sm_values (ss_mSensors st)) @ map (\<lambda>(i, d). sensor_info_of (int i + 1) d) (zip [n..<n + length ds] ds)"
  using assms
proof (induction ds arbitrary: st n)
  case (Cons d ds)
  let ?info = "sensor_info_of (ss_mNextHandle st) d"
  obtain l where l: "readSensorsConfigFromXml read = Some l"
    using Cons.prems(1) by (auto simp: Let_def split: option.splits)
  define sensor where "sensor = Sensor_init ?info (getSensorConfiguration l (si_name ?info) (si_type ?info))"
  define st1 where "st1 = st\<lparr>ss_mNextHandle := i32 (ss_mNextHandle st + 1),
      ss_mSensors := sm_put (si_sensorHandle ?info) sensor (ss_mSensors st)\<rparr>"
  have h: "si_sensorHandle ?info = int n + 1" using Cons.prems(2) by (simp add: sensor_info_of_def SensorInfo_init_def)
  have p: "ss_mSensors st1 = ss_mSensors st @ [(int n + 1, sensor)]"
    unfolding st1_def h using Cons.prems(4) by (simp add: sm_put_last zle_add1_eq_le)
  have "i32 (2 + int n) = 2 + int n" using Cons.prems(3) by (intro i32_id) auto
  then have n: "ss_mNextHandle st1 = int (Suc n) + 1" using Cons.prems(2) by (simp add: st1_def)
  have i: "hs_mSensorInfo sensor = sensor_info_of (int n + 1) d" using Cons.prems(2) by (simp add: sensor_def Sensor_init_def)
  have "AddSensors read ds st1 = Inr s" using Cons.prems(1) l by (simp add: Let_def st1_def sensor_def)
  moreover have "\<forall>k\<in>fst ` set (ss_mSensors st1). k \<le> int (Suc n)" using Cons.prems(4) by (auto simp: p)
  moreover have "int (Suc n) + int (length ds) < 2 ^ 24" using Cons.prems(3) by simp
  ultimately have "map hs_mSensorInfo (sm_values (ss_mSensors s)) = map hs_mSensorInfo (sm_values (ss_mSensors st1))
      @ map (\<lambda>(i, d). sensor_info_of (int i + 1) d) (zip [Suc n..<Suc n + length ds] ds)"
    using Cons.IH n by blast
  moreover have "zip [n..<n + length (d # ds)] (d # ds) = (n, d) # zip [Suc n..<Suc n + length ds] ds"
    by (simp add: upt_conv_Cons del: upt_Suc)
  ultimately show ?case by (simp add: p sm_values_def i del: upt_Suc)
qed (simp add: sm_values_def)

text \<open>The proxy over one Bosch sub-HAL keeps the sensors as they are.\<close>

lemma single_load:
  assumes "\<forall>info\<in>set infos. subHalIndexIsClear (si_sensorHandle info)"
    and "hp_mDirectChannelSubHal st = None \<or> hp_mDirectChannelSubHal st = Some 0"
  shows "hp_mSensors (fold (load_sensor 0) infos st)
      = fold (\<lambda>info. sm_put (si_sensorHandle info) info) infos (hp_mSensors st)"
  using assms
proof (induction infos arbitrary: st)
  case (Cons info infos)
  have z: "setSubHalIndex (si_sensorHandle info) 0 = si_sensorHandle info"
    using Cons.prems(1) setSubHalIndex_add [of "si_sensorHandle info" 0] by simp
  obtain d where d: "load_sensor 0 info st = st\<lparr>hp_mDirectChannelSubHal := d,
      hp_mSensors := sm_put (si_sensorHandle info) info (hp_mSensors st)\<rparr>" "d = None \<or> d = Some 0"
    using Cons.prems by (cases "has_flag (si_flags info) direct_flags") (auto simp: load_sensor_def z setDirectChannelFlags_def Let_def)
  show ?case using Cons.IH [of "load_sensor 0 info st"] Cons.prems(1) d by simp
qed simp

lemma fold_put_sorted:
  assumes "sorted_wrt (<) (map fst m @ map key infos)"
  shows "fold (\<lambda>info. sm_put (key info) info) infos m = m @ map (\<lambda>info. (key info, info)) infos"
  using assms
proof (induction infos arbitrary: m)
  case (Cons info infos)
  then have "sm_put (key info) info m = m @ [(key info, info)]"
    by (intro sm_put_last) (auto simp: sorted_wrt_append)
  then show ?case using Cons by simp
qed simp

lemma single_list:
  assumes "fresh_sub_hal sb"
  shows "getSensorsList_2_1 (HalProxy_init now now' [(bosch_ops hms conv sys sz z env, sb)]) = SubHal_getSensorsList sb"
proof -
  have a: "sh_getSensorsList (bosch_ops hms conv sys sz z env) sb = (SubHal_getSensorsList sb, sb)"
    by (simp add: bosch_ops_def)
  have k: "map si_sensorHandle (SubHal_getSensorsList sb) = map fst (sb_mSensors sb)"
    using fresh_keys [OF assms] by (auto simp: SubHal_getSensorsList_def sm_values_def)
  have "sorted_wrt (<) (map si_sensorHandle (SubHal_getSensorsList sb))"
    using fresh_facts(1) [OF assms] unfolding k by (simp add: sm_ok_def)
  then show ?thesis
    using fresh_facts(3) [OF assms]
    by (simp add: getSensorsList_2_1_def HalProxy_init_def initializeSensorList_def load_sub_hal_def on_sub_hal_def a
        single_load fold_put_sorted [of "[]"] sm_values_def comp_def)
qed

text \<open>C11: whichever front end the framework uses, it is told the same sensors: the service over HIDL 2.0, HIDL
  2.1 or AIDL and the multi-HAL with the Bosch sub-HAL over HIDL or AIDL all list, in the order in which
  the sensors were found to be available and numbered from 1, the description of each of them, converted
  to the older type where the interface has it (no Bosch sensor is a hinge sensor, which 2.1 hides from 2.0).\<close>

theorem front_ends_list_same_sensors:
  assumes "AddSensors read ds (Sensors_init hal) = Inr (sv :: ('s, sensors_event_t) sensors)"
    and "AidlService_AddSensors read ds (AidlService_init hal) = Inr sa"
    and "SubHal_AddSensors read ds (SubHal_init hal) = Inr sb" and "length ds < 2 ^ 24"
    and "st = HalProxy_init now now' [(bosch_ops hms conv sys sz z env, sb)]"
    and "infos = map (\<lambda>(i, d). sensor_info_of (int i + 1) d) (zip [0..<length ds] ds)"
  shows "SensorsV2_1_getSensorsList_2_1 sv = infos \<and> AidlService_getSensorsList sa = infos
       \<and> getSensorsList_2_1 st = infos
       \<and> HalProxyAidl_getSensorsList st = (Aidl_ok, map convertSensorInfo infos)
       \<and> SensorsHalV2_0_getSensorsList cv sv = map (convertToOldSensorInfo cv) infos
       \<and> SensorsV2_1_getSensorsList cv sv = map (convertToOldSensorInfo cv) infos
       \<and> getSensorsList cv st = map (convertToOldSensorInfo cv) infos"
proof -
  have l: "map hs_mSensorInfo (sm_values (ss_mSensors sv)) = infos"
    using AddSensors_list [OF assms(1), of 0] assms(4,6) by (simp add: Sensors_init_def sm_values_def)
  have sa: "sa = upf False False sv" using assms(1,2) by (simp add: init_up add_up)
  obtain sv' where "AddSensors read ds (Sensors_init hal) = Inr sv'" "sub_rel sb sv'"
    using sim_add [OF sub_rel_init assms(3)] by blast
  then have b: "SubHal_getSensorsList sb = infos"
    using AddSensors_list [of read ds "Sensors_init hal" sv' 0] assms(4,6)
    by (simp add: SubHal_getSensorsList_def sub_rel_find Sensors_init_def sm_values_def)
  have "fresh_sub_hal sb" using assms(3,4) by (auto simp: fresh_sub_hal_def)
  from single_list [OF this] have p: "getSensorsList_2_1 st = infos" unfolding assms(5) b .
  have "bst_int (sd_type d) \<noteq> ST_HINGE_ANGLE" for d :: SensorData by (cases "sd_type d") (simp_all add: ST_HINGE_ANGLE_def)
  then have hinge: "\<forall>info\<in>set infos. si_type info \<noteq> ST_HINGE_ANGLE"
    by (auto simp: assms(6) sensor_info_of_def SensorInfo_init_def)
  then have "filter (\<lambda>sensor. si_type (hs_mSensorInfo sensor) \<noteq> ST_HINGE_ANGLE) (sm_values (ss_mSensors sv)) = sm_values (ss_mSensors sv)"
    unfolding l [symmetric] by (intro filter_True) simp
  moreover have "filter (\<lambda>s. si_type s \<noteq> ST_HINGE_ANGLE) infos = infos" using hinge by (intro filter_True) simp
  ultimately show ?thesis
    using l p by (auto simp: SensorsV2_1_getSensorsList_2_1_def AidlService_getSensorsList_def sa upf_def sensors.defs
        HalProxyAidl_getSensorsList_def SensorsHalV2_0_getSensorsList_def SensorsV2_1_getSensorsList_def
        getSensorsList_def getSensorsList_2_1_def)
qed

theorem front_ends_list_same_sensors_witness:
  "getSensorsList_2_1 (HalProxy_init 0 0 [(example_bosch, example_sub)]) = [sensor_info_of 1 example_data]"
proof -
  obtain sv where sv: "AddSensors example_xml [example_data] (Sensors_init () :: (unit, sensors_event_t) sensors) = Inr sv"
    by (simp add: example_xml_def readSensorsConfigFromXml_def gSensorConfigLocationList_def Let_def)
  then obtain sa where sa: "AidlService_AddSensors example_xml [example_data] (AidlService_init ()) = Inr sa"
    by (simp add: init_up add_up)
  show ?thesis
    using front_ends_list_same_sensors [OF sv sa example_sub_eq _ refl refl, of 0 0 "\<lambda>_. silent" ev_timestamp
        example_ashmem 104 0 "\<lparr>be_clk = (\<lambda>_. 0), be_junk = 0\<rparr>", folded example_bosch_def] by simp
qed

end
