(* ===== verification/Direct_Reader.thy ===== *)
theory Direct_Reader
  imports Aidl_Service Hal_Proxy_Aidl
begin

text \<open>
  The reading side of a direct channel: the shared memory of the test suites
  (\<^verbatim>\<open>aidl/vts/SensorsAidlTestSharedMemory.h\<close>, and \<^verbatim>\<open>parseEvents\<close> of
  \<^verbatim>\<open>aidl/vts/functional/BoschHalSensorManagerV1_0TargetTest.cpp\<close>). Memory is a list of bytes; the
  ring buffer of theory \<open>Direct_Channel\<close> is laid out in it with the documented format of
  \<^verbatim>\<open>sensors_event_t\<close> (104 bytes, little endian). The theorem is that a reader that remembers how many
  events it has seen gets every event of the writer once and in order, as long as it is not overrun.
\<close>

section \<open>Bytes\<close>

type_synonym byte = "8 word"

fun le_read :: "byte list \<Rightarrow> int" where
  "le_read [] = 0"
| "le_read (b # bs) = uint b + 256 * le_read bs"

fun le_write :: "nat \<Rightarrow> int \<Rightarrow> byte list" where
  "le_write 0 v = []"
| "le_write (Suc n) v = word_of_int v # le_write n (v div 256)"

lemma length_le_write [simp]: "length (le_write n v) = n"
  by (induction n arbitrary: v) simp_all

lemma le_read_write: "le_read (le_write n v) = v mod 256 ^ n"
proof (induction n arbitrary: v)
  case (Suc n)
  have "uint (word_of_int v :: byte) = v mod 256" by (simp add: uint_word_of_int)
  moreover have "v mod (256 * 256 ^ n) = v mod 256 + 256 * (v div 256 mod 256 ^ n)"
    using zmod_zmult2_eq [of "256 ^ n" v 256] by simp
  ultimately show ?case by (simp add: Suc)
qed simp

text \<open>A value of \<open>n\<close> bytes at an address, unsigned; the signed readings of the code convert it.\<close>

definition mem_read :: "nat \<Rightarrow> byte list \<Rightarrow> nat \<Rightarrow> int" where
  "mem_read n mem addr = le_read (take n (drop addr mem))"

section \<open>Parsing\<close>

definition kEventSize :: nat where "kEventSize = 104"
definition kOffsetSize :: nat where "kOffsetSize = 0"
definition kOffsetToken :: nat where "kOffsetToken = 4"
definition kOffsetType :: nat where "kOffsetType = 8"
definition kOffsetAtomicCounter :: nat where "kOffsetAtomicCounter = 12"
definition kOffsetTimestamp :: nat where "kOffsetTimestamp = 16"
definition kOffsetData :: nat where "kOffsetData = 24"

lemmas format_defs = kEventSize_def kOffsetSize_def kOffsetToken_def kOffsetType_def kOffsetAtomicCounter_def
  kOffsetTimestamp_def kOffsetData_def

text \<open>One event, with its 16 words of data.\<close>

definition parse_event :: "byte list \<Rightarrow> nat \<Rightarrow> aidl_event" where
  "parse_event mem offset =
     \<lparr>ae_timestamp = i64 (mem_read 8 mem (offset + kOffsetTimestamp)),
      ae_sensorHandle = i32 (mem_read 4 mem (offset + kOffsetToken)),
      ae_sensorType = i32 (mem_read 4 mem (offset + kOffsetType)),
      ae_payload = A_data (map (\<lambda>i. word_of_int (mem_read 4 mem (offset + kOffsetData + 4 * i))) [0..<16])\<rparr>"

text \<open>The loop, for either way to make an event of the bytes. A slot of another size empties the result.\<close>

function parseEvents_loop ::
  "(byte list \<Rightarrow> nat \<Rightarrow> 'ev) \<Rightarrow> byte list \<Rightarrow> int \<Rightarrow> nat \<Rightarrow> 'ev list \<Rightarrow> 'ev list" where
  "parseEvents_loop conv mem lastCounter offset events =
     (if offset + kEventSize \<le> length mem
      then let atomicCounter = mem_read 4 mem (offset + kOffsetAtomicCounter) in
           if atomicCounter \<le> lastCounter then events
           else if i32 (mem_read 4 mem (offset + kOffsetSize)) \<noteq> int kEventSize then []
           else parseEvents_loop conv mem atomicCounter (offset + kEventSize) (events @ [conv mem offset])
      else events)"
  by pat_completeness auto
termination
  by (relation "measure (\<lambda>(conv, mem, lastCounter, offset, events). length mem - offset)")
    (auto simp: kEventSize_def)

declare parseEvents_loop.simps [simp del]

definition SensorsAidlTestSharedMemory_parseEvents :: "byte list \<Rightarrow> int \<Rightarrow> nat \<Rightarrow> aidl_event list" where
  "SensorsAidlTestSharedMemory_parseEvents mBuffer lastCounter offset =
     parseEvents_loop parse_event mBuffer lastCounter offset []"

text \<open>The other test makes events with \<^verbatim>\<open>convertFromSensorEvent\<close>, a function of the platform.\<close>

definition SensorManagerTest_parseEvents :: "(byte list \<Rightarrow> 'ev) \<Rightarrow> byte list \<Rightarrow> 'ev list" where
  "SensorManagerTest_parseEvents convertFromSensorEvent buf =
     parseEvents_loop (\<lambda>mem offset. convertFromSensorEvent (take kEventSize (drop offset mem))) buf (-1) 0 []"

section \<open>The memory object\<close>

text \<open>What the platform answers: \<^verbatim>\<open>native_handle_create\<close>, \<^verbatim>\<open>ashmem_create_region\<close>, \<^verbatim>\<open>mmap\<close>
  (\<open>None\<close> is \<^verbatim>\<open>MAP_FAILED\<close>), and the graphics allocator (a handle and an address).\<close>

record memory_os =
  mo_native_handle_create :: bool
  mo_ashmem_create_region :: "nat \<Rightarrow> int"
  mo_mmap :: "nat \<Rightarrow> int \<Rightarrow> byte list option"
  mo_gralloc_initialized :: bool
  mo_gralloc_allocate :: "nat \<Rightarrow> bool \<times> byte list option"

datatype test_buffer = Null_buffer | Failed_mapping | Buffer "byte list"

record test_memory =
  tm_mType :: shared_mem_type
  tm_mNativeHandle :: bool
  tm_mSize :: nat
  tm_mBuffer :: test_buffer

text \<open>\<open>junk\<close>: the member \<^verbatim>\<open>mNativeHandle\<close>, which has no initialiser, is not null. After a failed
  mapping \<open>buffer\<close> is not null either.\<close>

definition SensorsAidlTestSharedMemory_new :: "memory_os \<Rightarrow> bool \<Rightarrow> shared_mem_type \<Rightarrow> nat \<Rightarrow> test_memory" where
  "SensorsAidlTestSharedMemory_new os junk type bytes =
     (let (handle, buffer) =
            (case type of
               MT_ASHMEM \<Rightarrow>
                 if mo_native_handle_create os
                 then let fd = mo_ashmem_create_region os bytes in
                      if fd > 0
                      then (case mo_mmap os bytes fd of
                              Some mem \<Rightarrow> (True, Buffer mem) | None \<Rightarrow> (False, Failed_mapping))
                      else (False, Null_buffer)
                 else (False, Null_buffer)
             | MT_GRALLOC \<Rightarrow>
                 if mo_gralloc_initialized os
                 then (case mo_gralloc_allocate os bytes of
                         (h, b) \<Rightarrow> (h, case b of Some mem \<Rightarrow> Buffer mem | None \<Rightarrow> Null_buffer))
                 else (False, Null_buffer)
             | MT_OTHER n \<Rightarrow> (False, Null_buffer))
      in if buffer \<noteq> Null_buffer
         then \<lparr>tm_mType = type, tm_mNativeHandle = handle, tm_mSize = bytes, tm_mBuffer = buffer\<rparr>
         else \<lparr>tm_mType = type, tm_mNativeHandle = junk, tm_mSize = 0, tm_mBuffer = Null_buffer\<rparr>)"

definition SensorsAidlTestSharedMemory_create ::
  "memory_os \<Rightarrow> bool \<Rightarrow> shared_mem_type \<Rightarrow> nat \<Rightarrow> test_memory option" where
  "SensorsAidlTestSharedMemory_create os junk type bytes =
     (if bytes = 0 \<or> bytes \<ge> 128 * 1024 * 1024 then None
      else let m = SensorsAidlTestSharedMemory_new os junk type bytes in
           if tm_mSize m \<noteq> bytes \<or> tm_mBuffer m = Null_buffer then None else Some m)"

definition SensorsAidlTestSharedMemory_getSharedMemInfo :: "test_memory \<Rightarrow> shared_mem_type \<times> shared_mem_format \<times> int \<times> bool" where
  "SensorsAidlTestSharedMemory_getSharedMemInfo m =
     (tm_mType m, MF_SENSORS_EVENT, i32 (int (tm_mSize m)), tm_mNativeHandle m)"

datatype memory_action = Unmap nat | Close_handle | Delete_handle | Free_gralloc

definition SensorsAidlTestSharedMemory_destroy :: "test_memory \<Rightarrow> memory_action list \<times> test_memory" where
  "SensorsAidlTestSharedMemory_destroy m =
     (case tm_mType m of
        MT_ASHMEM \<Rightarrow>
          if tm_mSize m \<noteq> 0
          then ([Unmap (tm_mSize m), Close_handle, Delete_handle],
                m\<lparr>tm_mBuffer := Null_buffer, tm_mNativeHandle := False, tm_mSize := 0\<rparr>)
          else ([], m)
      | MT_GRALLOC \<Rightarrow>
          if tm_mSize m \<noteq> 0 then ([Free_gralloc], m\<lparr>tm_mNativeHandle := False, tm_mSize := 0\<rparr>) else ([], m)
      | MT_OTHER n \<Rightarrow> ([], m))"

text \<open>So the check for null in \<^verbatim>\<open>create\<close> does not see a failed mapping.\<close>

lemma create_accepts_failed_mapping:
  assumes "mo_native_handle_create os" "mo_ashmem_create_region os bytes > 0"
    and "mo_mmap os bytes (mo_ashmem_create_region os bytes) = None" "0 < bytes" "bytes < 128 * 1024 * 1024"
  shows "\<exists>m. SensorsAidlTestSharedMemory_create os junk MT_ASHMEM bytes = Some m \<and> tm_mBuffer m = Failed_mapping"
  using assms by (simp add: SensorsAidlTestSharedMemory_create_def SensorsAidlTestSharedMemory_new_def Let_def)

section \<open>The format of the slots\<close>

text \<open>\<^verbatim>\<open>sensors_event_t\<close> of \<^verbatim>\<open>hardware/sensors.h\<close>: four 32-bit fields (version, sensor, type,
  and \<^verbatim>\<open>reserved0\<close> with the counter), the timestamp, 16 words of data, flags and three reserved words.
  \<open>f\<close> is the encoding of \<^verbatim>\<open>float\<close>; the status of a vector is its fourth word.\<close>

fun data_words :: "(real \<Rightarrow> 32 word) \<Rightarrow> sensors_event_data \<Rightarrow> 32 word list" where
  "data_words f (Uncalibrated x y z bx by bz) = map f [x, y, z, bx, by, bz] @ replicate 10 0"
| "data_words f (Acceleration x y z status) = map f [x, y, z] @ word_of_int (status mod 256) # replicate 12 0"

definition slot_bytes :: "(real \<Rightarrow> 32 word) \<Rightarrow> sensors_event_t \<times> int \<Rightarrow> byte list" where
  "slot_bytes f slot =
     (case slot of (ev, counter) \<Rightarrow>
        le_write 4 (int (se_version ev)) @ le_write 4 (se_sensor ev) @ le_write 4 (se_type ev) @ le_write 4 counter
        @ le_write 8 (se_timestamp ev) @ concat (map (\<lambda>w. le_write 4 (uint w)) (data_words f (se_data ev)))
        @ replicate 16 0)"

text \<open>The mapped region: the slots, and what does not fill another slot.\<close>

definition region :: "(real \<Rightarrow> 32 word) \<Rightarrow> sensors_event_t lockfree_buffer \<Rightarrow> byte list \<Rightarrow> byte list" where
  "region f b rest = concat (map (slot_bytes f) (lb_mData b)) @ rest"

lemma length_data_words [simp]: "length (data_words f d) = 16"
  by (cases d) simp_all

lemma length_concat_const: "\<forall>x\<in>set xs. length (g x) = c \<Longrightarrow> length (concat (map g xs)) = c * length xs"
  by (induction xs) simp_all

lemma drop_concat_const:
  "\<forall>x\<in>set xs. length (g x) = c \<Longrightarrow> i < length xs \<Longrightarrow> k \<le> c \<Longrightarrow>
     drop (c * i + k) (concat (map g xs) @ rest) = drop k (g (xs ! i)) @ concat (map g (drop (Suc i) xs)) @ rest"
proof (induction xs arbitrary: i)
  case (Cons x xs)
  then show ?case by (cases i) simp_all
qed simp

lemma length_slot_bytes [simp]: "length (slot_bytes f slot) = 104"
  by (simp add: slot_bytes_def length_concat_const [where c = 4] split: prod.split)

lemma mem_read_region:
  assumes "i < length (lb_mData b)" "k + n \<le> 104"
  shows "mem_read n (region f b rest) (104 * i + k) = mem_read n (slot_bytes f (lb_mData b ! i)) k"
proof -
  have "drop (104 * i + k) (region f b rest) = drop k (slot_bytes f (lb_mData b ! i)) @
      concat (map (slot_bytes f) (drop (Suc i) (lb_mData b))) @ rest"
    unfolding region_def using assms by (intro drop_concat_const) simp_all
  then show ?thesis using assms(2) by (simp add: mem_read_def)
qed

text \<open>The fields of a slot.\<close>

lemma slot_fields:
  "mem_read 4 (slot_bytes f (ev, c)) 0 = int (se_version ev) mod 2 ^ 32"
  "mem_read 4 (slot_bytes f (ev, c)) 4 = se_sensor ev mod 2 ^ 32"
  "mem_read 4 (slot_bytes f (ev, c)) 8 = se_type ev mod 2 ^ 32"
  "mem_read 4 (slot_bytes f (ev, c)) 12 = c mod 2 ^ 32"
  "mem_read 8 (slot_bytes f (ev, c)) 16 = se_timestamp ev mod 2 ^ 64"
  by (simp_all add: mem_read_def slot_bytes_def le_read_write)

lemma slot_data:
  assumes "i < 16"
  shows "word_of_int (mem_read 4 (slot_bytes f (ev, c)) (24 + 4 * i)) = data_words f (se_data ev) ! i"
proof -
  let ?w = "data_words f (se_data ev)"
  have "drop (24 + 4 * i) (slot_bytes f (ev, c)) =
      drop (4 * i + 0) (concat (map (\<lambda>w. le_write 4 (uint w)) ?w) @ replicate 16 0)"
    by (simp add: slot_bytes_def)
  also have "\<dots> = drop 0 (le_write 4 (uint (?w ! i))) @ concat (map (\<lambda>w. le_write 4 (uint w)) (drop (Suc i) ?w))
      @ replicate 16 0"
    using assms by (intro drop_concat_const) simp_all
  finally show ?thesis using uint_lt2p [of "?w ! i"] by (simp add: mem_read_def le_read_write)
qed

text \<open>Events that fit the fields; those of \<^verbatim>\<open>writeToDirectBuffer\<close> have the size in the version.\<close>

definition event_fits :: "sensors_event_t \<Rightarrow> bool" where
  "event_fits ev \<longleftrightarrow> se_version ev = kEventSize \<and> is_i32 (se_sensor ev) \<and> is_i32 (se_type ev) \<and> is_i64 (se_timestamp ev)"

definition seen_event :: "(real \<Rightarrow> 32 word) \<Rightarrow> sensors_event_t \<Rightarrow> aidl_event" where
  "seen_event f ev = \<lparr>ae_timestamp = se_timestamp ev, ae_sensorHandle = se_sensor ev, ae_sensorType = se_type ev,
     ae_payload = A_data (data_words f (se_data ev))\<rparr>"

lemma i32_mod: "is_i32 v \<Longrightarrow> i32 (v mod 4294967296) = v"
  using i32_id [of v] signed_take_bit_take_bit [of 31 32 v] by (simp add: i32_def take_bit_eq_mod)

lemma i64_mod: "is_i64 v \<Longrightarrow> i64 (v mod 18446744073709551616) = v"
  using i64_id [of v] signed_take_bit_take_bit [of 63 64 v] by (simp add: i64_def take_bit_eq_mod)

lemma parse_event_slot:
  assumes "i < length (lb_mData b)" "lb_mData b ! i = (ev, c)" "event_fits ev"
  shows "parse_event (region f b rest) (104 * i) = seen_event f ev"
proof -
  note r = mem_read_region [OF assms(1), unfolded assms(2)]
  have "map (\<lambda>k. word_of_int (mem_read 4 (region f b rest) (104 * i + 24 + 4 * k))) [0..<16] = data_words f (se_data ev)"
    by (rule nth_equalityI) (simp_all add: add.assoc r slot_data)
  then show ?thesis
    using assms(3) r [of 4 4] r [of 8 4] r [of 16 8]
    by (simp add: parse_event_def seen_event_def format_defs slot_fields i32_mod i64_mod event_fits_def)
qed

section \<open>The reader gets what was written\<close>

lemma i32_counter: "i32 a mod 4294967296 = a mod 4294967296"
  using take_bit_signed_take_bit [of 32 31 a] by (simp add: i32_def take_bit_eq_mod)

text \<open>The counters the reader sees: of the slot of a written event, and of the slot the writer is about to use.\<close>

lemma ring_counter:
  assumes "ring n evs b" "k < length evs" "length evs \<le> k + n" "length evs < 2 ^ 32"
  shows "mem_read 4 (region f b rest) (104 * (k mod n) + 12) = int k + 1"
proof -
  have "lb_mData b ! (k mod n) = (evs ! k, i32 (int k + 1))" "k mod n < length (lb_mData b)"
    using assms(1-3) by (simp_all add: ring_def)
  then show ?thesis using assms(2,4) by (simp add: mem_read_region slot_fields i32_counter)
qed

lemma next_counter:
  assumes "ring n evs b" "length evs < 2 ^ 32"
  shows "mem_read 4 (region f b rest) (104 * (length evs mod n) + 12) \<le> int (length evs)"
proof (cases "length evs < n")
  case True
  obtain e c where e: "lb_mData b ! length evs = (e, c)" by fastforce
  then have "c = 0" "length evs < length (lb_mData b)" using assms(1) True by (force simp: ring_def)+
  then show ?thesis using True by (simp add: mem_read_region e slot_fields)
next
  case False
  have "0 < n" using assms(1) by (simp add: ring_def)
  moreover have "(length evs - n) mod n = length evs mod n" using False by (simp add: le_mod_geq)
  ultimately show ?thesis using ring_counter [OF assms(1), of "length evs - n" f rest] False assms(2) by simp
qed

lemma parseEvents_loop_ring:
  assumes "ring n evs b" "\<forall>ev\<in>set evs. event_fits ev" "length evs < 2 ^ 32" "length rest < 104"
    and "j \<le> length evs" "length evs \<le> j + n" "p = j mod n"
    and "if j < length evs then lastCounter \<le> int j else lastCounter = int j"
  shows "parseEvents_loop parse_event (region f b rest) lastCounter (104 * p) acc
       = acc @ map (seen_event f) (take (n - p) (drop j evs))"
  using assms(5-8)
proof (induction "n - p" arbitrary: j p lastCounter acc rule: less_induct)
  case less
  have n: "0 < n" "lb_mSize b = n" "length (lb_mData b) = n" using assms(1) by (simp_all add: ring_def)
  have p: "p < n" using less.prems(3) n(1) by simp
  have len: "length (region f b rest) = 104 * n + length rest"
    by (simp add: region_def length_concat_const [where c = 104] n(3))
  have inside: "104 * p + 104 \<le> length (region f b rest)" using p by (simp add: len)
  show ?case
  proof (cases "j < length evs")
    case False
    then have "mem_read 4 (region f b rest) (104 * p + 12) \<le> lastCounter"
      using next_counter [OF assms(1,3), of f rest] less.prems by simp
    then show ?thesis using False inside
      by (subst parseEvents_loop.simps) (simp add: kEventSize_def kOffsetAtomicCounter_def)
  next
    case True
    have slot: "lb_mData b ! p = (evs ! j, i32 (int j + 1))"
      using assms(1) True less.prems(2,3) by (simp add: ring_def)
    have fits: "event_fits (evs ! j)" using assms(2) True by simp
    have c: "mem_read 4 (region f b rest) (104 * p + 12) = int j + 1"
      using ring_counter [OF assms(1) True less.prems(2) assms(3)] less.prems(3) by simp
    have "mem_read 4 (region f b rest) (104 * p + 0) = int kEventSize"
      using fits p n(3) by (simp add: mem_read_region [of p b 0 4, simplified] slot slot_fields event_fits_def kEventSize_def)
    then have v: "i32 (mem_read 4 (region f b rest) (104 * p + kOffsetSize)) = int kEventSize"
      by (simp add: kEventSize_def kOffsetSize_def i32_id)
    have e: "parse_event (region f b rest) (104 * p) = seen_event f (evs ! j)"
      using parse_event_slot [OF _ slot fits] p n(3) by simp
    have step: "parseEvents_loop parse_event (region f b rest) lastCounter (104 * p) acc =
        parseEvents_loop parse_event (region f b rest) (int j + 1) (104 * Suc p) (acc @ [seen_event f (evs ! j)])"
      unfolding parseEvents_loop.simps [of parse_event "region f b rest" lastCounter] Let_def v e
        kOffsetAtomicCounter_def c
      using inside less.prems(4) True by (simp add: kEventSize_def add.commute)
    have d: "drop j evs = evs ! j # drop (Suc j) evs" using True by (rule Cons_nth_drop_Suc [symmetric])
    show ?thesis
    proof (cases "Suc p = n")
      case True
      then have "\<not> 104 * Suc p + 104 \<le> length (region f b rest)" using assms(4) by (simp add: len)
      then have "parseEvents_loop parse_event (region f b rest) (int j + 1) (104 * Suc p) (acc @ [seen_event f (evs ! j)])
          = acc @ [seen_event f (evs ! j)]"
        by (subst parseEvents_loop.simps) (simp add: kEventSize_def)
      moreover have "n - p = 1" using True by simp
      ultimately show ?thesis unfolding step d by simp
    next
      case False
      then have p': "Suc p = Suc j mod n" "n - Suc p < n - p" using p less.prems(3) by (simp_all add: mod_Suc)
      have "parseEvents_loop parse_event (region f b rest) (int j + 1) (104 * Suc p) (acc @ [seen_event f (evs ! j)])
          = (acc @ [seen_event f (evs ! j)]) @ map (seen_event f) (take (n - Suc p) (drop (Suc j) evs))"
        using \<open>j < length evs\<close> less.prems(2) by (intro less.hyps [OF p'(2) _ _ p'(1)]) auto
      moreover have "n - p = Suc (n - Suc p)" using p by simp
      ultimately show ?thesis unfolding step d by simp
    qed
  qed
qed

text \<open>C27: a reader that knows how many events it has seen, and asks for the events behind the last of them,
  first to the end of the memory and then, if it has got there, from its start, gets every event written since
  once and in order, with its time, sensor, type and data as they were written, provided the writer has not
  written more events since than the memory holds.\<close>

theorem reader_gets_every_event:
  assumes "0 < bytes div kEventSize" "n = bytes div kEventSize" "length rest < kEventSize"
    and "evs = concat batches" "\<forall>ev\<in>set evs. event_fits ev" "length evs < 2 ^ 32"
    and "b = fold LockfreeBuffer_write batches (LockfreeBuffer kEventSize zero bytes)"
    and "k \<le> length evs" "length evs \<le> k + n"
    and "front = SensorsAidlTestSharedMemory_parseEvents (region f b rest) (int k) (kEventSize * (k mod n))"
    and "back = (if length front = n - k mod n
                 then SensorsAidlTestSharedMemory_parseEvents (region f b rest) (int (k + length front)) 0 else [])"
  shows "front @ back = map (seen_event f) (drop k evs)"
proof -
  have r: "ring n evs b"
    using ring_writes [OF ring_fresh [OF assms(1), of zero], of batches] assms(2,4,7) by simp
  then have n: "0 < n" by (simp add: ring_def)
  note loop = parseEvents_loop_ring [OF r assms(5,6) assms(3) [unfolded kEventSize_def]]
  have front: "front = map (seen_event f) (take (n - k mod n) (drop k evs))"
    using loop [of k "k mod n" "int k" f "[]"] assms(8,9)
    by (simp add: assms(10) SensorsAidlTestSharedMemory_parseEvents_def kEventSize_def)
  show ?thesis
  proof (cases "length front = n - k mod n")
    case False
    then have "length (drop k evs) \<le> n - k mod n" by (auto simp: front min_def split: if_splits)
    then show ?thesis using False by (simp add: front assms(11))
  next
    case True
    let ?k = "k + (n - k mod n)"
    have "k mod n < n" using n by simp
    moreover have "?k = k div n * n + n" using \<open>k mod n < n\<close> div_mult_mod_eq [of k n] by linarith
    ultimately have "?k mod n = 0" by simp
    moreover have "?k \<le> length evs" using True assms(8) by (simp add: front)
    ultimately have "back = map (seen_event f) (take n (drop ?k evs))"
      using loop [of ?k 0 "int ?k" f "[]"] assms(9) True
      by (simp add: assms(11) SensorsAidlTestSharedMemory_parseEvents_def)
    moreover have "take n (drop ?k evs) = drop ?k evs" using assms(9) by simp
    moreover have "drop k evs = take (n - k mod n) (drop k evs) @ drop ?k evs"
      using append_take_drop_id [of "n - k mod n" "drop k evs"] by (simp add: add.commute)
    ultimately show ?thesis unfolding front by (metis map_append)
  qed
qed

definition witness_event :: "int \<Rightarrow> sensors_event_t" where
  "witness_event t = \<lparr>se_version = 104, se_sensor = 1, se_type = 1, se_timestamp = t, se_data = Acceleration 0 0 0 3\<rparr>"

text \<open>Five events in two batches over a ring of three slots; the reader has seen two of them.\<close>

theorem reader_gets_every_event_witness:
  "let b = fold LockfreeBuffer_write [[witness_event 1, witness_event 2], [witness_event 3, witness_event 4, witness_event 5]]
             (LockfreeBuffer kEventSize (witness_event 0) 312);
       mem = region (\<lambda>_. 7) b [1, 2, 3];
       front = SensorsAidlTestSharedMemory_parseEvents mem (int 2) (kEventSize * (2 mod 3));
       back = (if length front = 3 - 2 mod 3
               then SensorsAidlTestSharedMemory_parseEvents mem (int (2 + length front)) 0 else [])
   in map ae_timestamp (front @ back) = [3, 4, 5]"
proof -
  let ?evs = "map witness_event [1, 2, 3, 4, 5]"
  have fits: "\<forall>ev\<in>set ?evs. event_fits ev"
    by (simp add: event_fits_def witness_event_def kEventSize_def)
  have seen: "map ae_timestamp (map (seen_event (\<lambda>_. 7)) (drop 2 ?evs)) = [3, 4, 5]"
    by (simp add: seen_event_def witness_event_def)
  show ?thesis unfolding Let_def
    by (subst reader_gets_every_event [where bytes = 312 and evs = ?evs and f = "\<lambda>_. 7",
          OF _ _ _ _ fits _ refl _ _ refl refl]) (simp_all only: seen, simp_all add: kEventSize_def)
qed

section \<open>The check of the time stamps\<close>

text \<open>\<open>lastValue\<close> is set at the first element only.\<close>

fun isIncreasing_loop :: "('ev \<Rightarrow> int) \<Rightarrow> 'ev list \<Rightarrow> 'ev option \<Rightarrow> bool" where
  "isIncreasing_loop getField [] lastValue = True"
| "isIncreasing_loop getField (x # xs) None = isIncreasing_loop getField xs (Some x)"
| "isIncreasing_loop getField (x # xs) (Some v) =
     (if getField x < getField v then False else isIncreasing_loop getField xs (Some v))"

definition isIncreasing :: "('ev \<Rightarrow> int) \<Rightarrow> 'ev list \<Rightarrow> bool" where
  "isIncreasing getField xs = isIncreasing_loop getField xs None"

text \<open>So it does not see a time stamp that goes back, as long as it stays behind the first one.\<close>

lemma isIncreasing_loop_iff: "isIncreasing_loop g xs (Some v) \<longleftrightarrow> (\<forall>x\<in>set xs. g v \<le> g x)"
  by (induction xs) auto

lemma isIncreasing_first: "isIncreasing g (x # xs) \<longleftrightarrow> (\<forall>y\<in>set xs. g x \<le> g y)"
  by (simp add: isIncreasing_def isIncreasing_loop_iff)

lemma isIncreasing_accepts_decreasing: "isIncreasing id [1, 3, 2] \<and> \<not> sorted [1, 3, 2 :: int]"
  by (simp add: isIncreasing_first)

end
