(* ===== verification/Vts_Lists.thy ===== *)
theory Vts_Lists
  imports Front_Ends
begin

text \<open>
  The tests of the sensor list of the AIDL test suite
  (\<^verbatim>\<open>aidl/vts/BoschAidlHalSensorsTargetTest.cpp\<close>): functions from the list to whether every
  expectation holds. The theorem is that the list of the service passes them on every device. (Fields have
  the names of the HIDL record: \<open>si_minDelay\<close> is \<^verbatim>\<open>minDelayUs\<close>.)
\<close>

section \<open>Types and report modes\<close>

definition DEVICE_PRIVATE_BASE :: int where "DEVICE_PRIVATE_BASE = 65536"

definition INT32_MAX :: int where "INT32_MAX = 2147483647"

text \<open>The strings of \<^verbatim>\<open>hardware/sensors.h\<close> for the types the test knows; others fail.\<close>

definition checked_type_string :: "int \<Rightarrow> string option" where
  "checked_type_string type =
     (if type = 1 then Some ''android.sensor.accelerometer''
      else if type = 38 then Some ''android.sensor.accelerometer_limited_axes''
      else if type = 40 then Some ''android.sensor.accelerometer_limited_axes_uncalibrated''
      else if type = 35 then Some ''android.sensor.accelerometer_uncalibrated''
      else if type = 4 then Some ''android.sensor.gyroscope''
      else if type = 39 then Some ''android.sensor.gyroscope_limited_axes''
      else if type = 41 then Some ''android.sensor.gyroscope_limited_axes_uncalibrated''
      else if type = 16 then Some ''android.sensor.gyroscope_uncalibrated''
      else None)"

definition assertTypeMatchStringType :: "int \<Rightarrow> string \<Rightarrow> bool" where
  "assertTypeMatchStringType type stringType \<longleftrightarrow>
     (if type \<ge> DEVICE_PRIVATE_BASE then True else checked_type_string type = Some stringType)"

text \<open>The types in the order of the \<^verbatim>\<open>switch\<close>, by their numbers in \<^verbatim>\<open>SensorType\<close>.\<close>

definition expectedReportModeForType :: "int \<Rightarrow> int" where
  "expectedReportModeForType type =
     (if type \<in> set [1, 38, 35, 40, 4, 39, 2, 3, 6, 9, 10, 11, 14, 15, 16, 41, 20, 28, 31, 42]
      then FLAG_CONTINUOUS_MODE
      else if type \<in> set [5, 8, 12, 13, 21, 27, 19, 34] then FLAG_ON_CHANGE_MODE
      else if type \<in> set [17, 23, 24, 25, 30, 29] then FLAG_ONE_SHOT_MODE
      else if type \<in> set [18, 22, 26, 32] then FLAG_SPECIAL_REPORTING_MODE
      else INT32_MAX)"

definition assertTypeMatchReportMode :: "int \<Rightarrow> int \<Rightarrow> bool" where
  "assertTypeMatchReportMode type reportMode \<longleftrightarrow>
     (if type \<ge> DEVICE_PRIVATE_BASE then True
      else let expected = expectedReportModeForType type in expected = INT32_MAX \<or> expected = reportMode)"

definition assertDelayMatchReportMode :: "int \<Rightarrow> int \<Rightarrow> int \<Rightarrow> bool" where
  "assertDelayMatchReportMode minDelayUs maxDelayUs reportMode \<longleftrightarrow>
     (if reportMode = FLAG_CONTINUOUS_MODE then 0 < minDelayUs \<and> 0 \<le> maxDelayUs
      else if reportMode = FLAG_ON_CHANGE_MODE then 0 \<le> minDelayUs \<and> 0 \<le> maxDelayUs
      else if reportMode = FLAG_ONE_SHOT_MODE then -1 = minDelayUs \<and> 0 = maxDelayUs
      else reportMode = FLAG_SPECIAL_REPORTING_MODE)"

definition extractReportMode :: "int \<Rightarrow> int" where
  "extractReportMode flag =
     flag AND (((FLAG_CONTINUOUS_MODE OR FLAG_ON_CHANGE_MODE) OR FLAG_ONE_SHOT_MODE) OR FLAG_SPECIAL_REPORTING_MODE)"

section \<open>The tests\<close>

text \<open>The expectations on one sensor, but for its name being new.\<close>

definition SensorInfo_valid :: "SensorInfo \<Rightarrow> bool" where
  "SensorInfo_valid info \<longleftrightarrow>
     (if si_type info \<ge> DEVICE_PRIVATE_BASE then si_typeAsString info \<noteq> []
      else if si_typeAsString info \<noteq> [] then assertTypeMatchStringType (si_type info) (si_typeAsString info)
      else True)
     \<and> si_name info \<noteq> [] \<and> si_vendor info \<noteq> []
     \<and> 0 \<le> si_power info \<and> 0 < si_maxRange info
     \<and> \<not> (si_type info = ST_ADDITIONAL_INFO \<or> si_type info = ST_META_DATA)
     \<and> si_fifoMaxEventCount info \<ge> si_fifoReservedEventCount info
     \<and> assertTypeMatchReportMode (si_type info) (extractReportMode (si_flags info))
     \<and> si_minDelay info \<le> si_maxDelay info
     \<and> assertDelayMatchReportMode (si_minDelay info) (si_maxDelay info) (extractReportMode (si_flags info))"

fun SensorListValid_loop :: "SensorInfo list \<Rightarrow> (int \<Rightarrow> string list) \<Rightarrow> bool" where
  "SensorListValid_loop [] sensorTypeNameMap = True"
| "SensorListValid_loop (info # infos) sensorTypeNameMap =
     (let v = sensorTypeNameMap (si_type info);
          isUniqueName = si_name info \<notin> set v
      in SensorInfo_valid info \<and> isUniqueName
         \<and> SensorListValid_loop infos
             (if isUniqueName then sensorTypeNameMap(si_type info := v @ [si_name info]) else sensorTypeNameMap))"

definition SensorListValid :: "SensorInfo list \<Rightarrow> bool" where
  "SensorListValid sensorInfoList = SensorListValid_loop sensorInfoList (\<lambda>_. [])"

definition SensorListContainsBoschSensor :: "SensorInfo list \<Rightarrow> bool" where
  "SensorListContainsBoschSensor sensorInfoList =
     list_all (\<lambda>sensor. si_vendor sensor = ''Robert Bosch GmbH'') sensorInfoList"

text \<open>\<^verbatim>\<open>std::regex_match\<close> with the pattern \<^verbatim>\<open>SMI[0-9]+ BOSCH .* Sensor\<close>; the dot of an ECMAScript
  expression matches any character but the ends of a line.\<close>

definition matches_dot :: "char \<Rightarrow> bool" where
  "matches_dot c \<longleftrightarrow> c \<noteq> CHR 0x0A \<and> c \<noteq> CHR 0x0D"

definition match_smiPattern :: "string \<Rightarrow> bool" where
  "match_smiPattern s =
     (let digits = takeWhile is_digit (drop 3 s);
          rest = dropWhile is_digit (drop 3 s);
          mid = take (length rest - 14) (drop 7 rest)
      in take 3 s = ''SMI'' \<and> digits \<noteq> [] \<and> rest = '' BOSCH '' @ mid @ '' Sensor'' \<and> list_all matches_dot mid)"

definition ConfigCheck :: "SensorInfo list \<Rightarrow> bool" where
  "ConfigCheck sensorInfoList =
     list_all (\<lambda>sensor. match_smiPattern (si_name sensor) \<and> si_vendor sensor = ''Robert Bosch GmbH'') sensorInfoList"

section \<open>What the tests say\<close>

text \<open>The pattern as a set of strings.\<close>

lemma match_smiPattern_iff:
  "match_smiPattern s \<longleftrightarrow> (\<exists>digits mid. s = ''SMI'' @ digits @ '' BOSCH '' @ mid @ '' Sensor''
     \<and> digits \<noteq> [] \<and> list_all is_digit digits \<and> list_all matches_dot mid)"
proof
  assume m: "match_smiPattern s"
  define mid where "mid = take (length (dropWhile is_digit (drop 3 s)) - 14) (drop 7 (dropWhile is_digit (drop 3 s)))"
  have "s = take 3 s @ takeWhile is_digit (drop 3 s) @ dropWhile is_digit (drop 3 s)" by simp
  also have "\<dots> = ''SMI'' @ takeWhile is_digit (drop 3 s) @ '' BOSCH '' @ mid @ '' Sensor''"
    using m unfolding match_smiPattern_def Let_def mid_def by auto
  finally have "s = ''SMI'' @ takeWhile is_digit (drop 3 s) @ '' BOSCH '' @ mid @ '' Sensor''" .
  moreover have "list_all is_digit (takeWhile is_digit (drop 3 s))"
    by (auto simp: list_all_iff dest: set_takeWhileD)
  ultimately show "\<exists>digits mid. s = ''SMI'' @ digits @ '' BOSCH '' @ mid @ '' Sensor''
     \<and> digits \<noteq> [] \<and> list_all is_digit digits \<and> list_all matches_dot mid"
    using m unfolding match_smiPattern_def Let_def mid_def by blast
next
  assume "\<exists>digits mid. s = ''SMI'' @ digits @ '' BOSCH '' @ mid @ '' Sensor''
     \<and> digits \<noteq> [] \<and> list_all is_digit digits \<and> list_all matches_dot mid"
  then obtain digits mid where s: "s = ''SMI'' @ digits @ '' BOSCH '' @ mid @ '' Sensor''"
    and d: "digits \<noteq> []" "\<forall>c\<in>set digits. is_digit c" and mid: "list_all matches_dot mid"
    by (auto simp: list_all_iff)
  have sp: "\<not> is_digit CHR '' ''" by (simp add: is_digit_def)
  have d3: "drop 3 s = digits @ CHR '' '' # (''BOSCH '' @ mid @ '' Sensor'')" by (simp add: s)
  have "takeWhile is_digit (drop 3 s) = digits" "dropWhile is_digit (drop 3 s) = CHR '' '' # (''BOSCH '' @ mid @ '' Sensor'')"
    unfolding d3 using d(2) sp by (simp_all only: takeWhile_append2 dropWhile_append2 takeWhile.simps dropWhile.simps if_False append_Nil2)
  moreover have "take 3 s = ''SMI''" by (simp add: s)
  ultimately show "match_smiPattern s" using d(1) mid by (simp add: match_smiPattern_def)
qed

text \<open>The list is valid when each sensor is and no two have the same type and the same name.\<close>

lemma fun_upd_names:
  "(\<forall>i\<in>A. f i \<notin> set ((m(t := m t @ [n])) (g i))) \<longleftrightarrow>
     (\<forall>i\<in>A. f i \<notin> set (m (g i))) \<and> (t, n) \<notin> (\<lambda>i. (g i, f i)) ` A"
  by auto

lemma SensorListValid_loop_iff:
  "SensorListValid_loop infos m \<longleftrightarrow>
     list_all SensorInfo_valid infos \<and> distinct (map (\<lambda>i. (si_type i, si_name i)) infos)
     \<and> (\<forall>i\<in>set infos. si_name i \<notin> set (m (si_type i)))"
proof (induction infos arbitrary: m)
  case (Cons info infos)
  show ?case
  proof (cases "si_name info \<in> set (m (si_type info))")
    case False
    then have "SensorListValid_loop (info # infos) m \<longleftrightarrow> SensorInfo_valid info
        \<and> SensorListValid_loop infos (m(si_type info := m (si_type info) @ [si_name info]))"
      by (simp add: Let_def)
    then show ?thesis using False unfolding Cons.IH fun_upd_names by (simp, blast)
  qed (simp add: Let_def)
qed simp

lemma SensorListValid_iff:
  "SensorListValid infos \<longleftrightarrow>
     list_all SensorInfo_valid infos \<and> distinct (map (\<lambda>i. (si_type i, si_name i)) infos)"
  by (simp add: SensorListValid_def SensorListValid_loop_iff)

section \<open>The sensors of the repository\<close>

text \<open>\<^verbatim>\<open>getSensorData\<close> of an element of the list of available sensors.\<close>

definition sensor_ref_data :: "SensorList \<Rightarrow> sensor_ref \<Rightarrow> SensorData" where
  "sensor_ref_data sl r =
     (case r of Core_ref i \<Rightarrow> mSensorData (mSensorList sl ! i)
      | Composite_ref i \<Rightarrow> cs_mSensorData (mCompositeSensorList sl ! i))"

definition available_data :: "sysfs \<Rightarrow> float_ops \<Rightarrow> SensorData list" where
  "available_data fs fo =
     (case getAvailableSensors fs (SensorList_init fo) of (sl, refs) \<Rightarrow> map (sensor_ref_data sl) refs)"

definition all_refs :: "sensor_ref list" where
  "all_refs = map Core_ref [0..<12] @ map Composite_ref [0..<6]"

lemma available_cores_data:
  "map mSensorData (fst (available_cores fs k cores device)) = map mSensorData cores"
  by (induction cores arbitrary: k device) (simp_all add: SensorCore_setDevice_def case_prod_unfold)

lemma available_refs:
  "distinct (snd (getAvailableSensors fs (SensorList_init fo)))
   \<and> set (snd (getAvailableSensors fs (SensorList_init fo))) \<subseteq> set all_refs"
  unfolding getAvailableSensors_refs
  by (cases "present fs ''smi330''"; cases "present fs ''smi240''"; cases "present fs ''smi230acc''";
      cases "present fs ''smi230gyro''") (simp_all add: all_refs_def)

lemma available_ref_data:
  assumes "r \<in> set all_refs"
  shows "sensor_ref_data (fst (getAvailableSensors fs (SensorList_init fo))) r = sensor_ref_data (SensorList_init fo) r"
proof -
  let ?sl = "SensorList_init fo" and ?cores = "fst (available_cores fs 0 (mSensorList (SensorList_init fo)) [])"
  have sl: "fst (getAvailableSensors fs ?sl) = ?sl\<lparr>mSensorList := ?cores\<rparr>"
    by (simp add: getAvailableSensors_def split: prod.split)
  have len: "length (mSensorList ?sl) = 12" using arg_cong [OF SensorList_driver_names, of length] by simp
  note data = available_cores_data [of fs 0 "mSensorList ?sl" "[]"]
  have len': "length ?cores = 12" using arg_cong [OF data, of length] len by simp
  have "mSensorData (?cores ! i) = mSensorData (mSensorList ?sl ! i)" if "i < 12" for i
    using arg_cong [OF data, of "\<lambda>xs. xs ! i"] len len' that by simp
  then show ?thesis using assms by (auto simp: sl sensor_ref_data_def all_refs_def)
qed

text \<open>The eighteen descriptions.\<close>

lemmas description_defs = Smi330Acc_def Smi330Gyro_def Smi240Acc_def Smi240Gyro_def Smi230Acc_def Smi230Gyro_def
  Smi330AccUncalibrated_def Smi330GyroUncalibrated_def Smi240AccUncalibrated_def
  Smi240GyroUncalibrated_def Smi230AccUncalibrated_def Smi230GyroUncalibrated_def
  composite_of_def Smi330Gravity_def Smi330LinearAcc_def Smi240Gravity_def Smi240LinearAcc_def
  Smi230Gravity_def Smi230LinearAcc_def CompositeSensorCore_init_def SensorData_init_def

definition all_data :: "float_ops \<Rightarrow> SensorData list" where
  "all_data fo = map (sensor_ref_data (SensorList_init fo)) all_refs"

lemma all_data_eq:
  "all_data fo = SensorList_descriptions fo @ map cs_mSensorData (mCompositeSensorList (SensorList_init fo))"
proof -
  have 1: "length (SensorList_descriptions fo) = 12" "length (mCompositeSensorList (SensorList_init fo)) = 6"
    by (simp_all add: SensorList_descriptions_def SensorList_init_def Let_def)
  have 2: "mSensorData (mSensorList (SensorList_init fo) ! i) = SensorList_descriptions fo ! i" if "i < 12" for i
    using that 1 by (simp add: SensorList_init_def Let_def SensorCore_new_def SensorCore_init_def)
  show ?thesis
    by (rule nth_equalityI)
       (auto simp: all_data_def all_refs_def sensor_ref_data_def nth_append 1 2)
qed

lemma all_names:
  "map (\<lambda>d. (sd_type d, sd_sensorName d)) (all_data fo) =
     [(ACCEL, ''SMI330 BOSCH Accelerometer Sensor''), (GYRO, ''SMI330 BOSCH Gyroscope Sensor''),
      (ACCEL, ''SMI240 BOSCH Accelerometer Sensor''), (GYRO, ''SMI240 BOSCH Gyroscope Sensor''),
      (ACCEL, ''SMI230 BOSCH Accelerometer Sensor''), (GYRO, ''SMI230 BOSCH Gyroscope Sensor''),
      (ACCEL_UNCALIBRATED, ''SMI330 BOSCH Accelerometer Uncalibrated Sensor''),
      (GYRO_UNCALIBRATED, ''SMI330 BOSCH Gyroscope Uncalibrated Sensor''),
      (ACCEL_UNCALIBRATED, ''SMI240 BOSCH Accelerometer Uncalibrated Sensor''),
      (GYRO_UNCALIBRATED, ''SMI240 BOSCH Gyroscope Uncalibrated Sensor''),
      (ACCEL_UNCALIBRATED, ''SMI230 BOSCH Accelerometer Uncalibrated Sensor''),
      (GYRO_UNCALIBRATED, ''SMI230 BOSCH Gyroscope Uncalibrated Sensor''),
      (GRAVITY, ''SMI330 BOSCH Gravity Sensor''), (LINEAR_ACCEL, ''SMI330 BOSCH Linear Accelerometer Sensor''),
      (GRAVITY, ''SMI240 BOSCH Gravity Sensor''), (LINEAR_ACCEL, ''SMI240 BOSCH Linear Accelerometer Sensor''),
      (GRAVITY, ''SMI230 BOSCH Gravity Sensor''), (LINEAR_ACCEL, ''SMI230 BOSCH Linear Accelerometer Sensor'')]"
  unfolding all_data_eq
  by (simp add: SensorList_descriptions_def SensorList_init_def Let_def description_defs)

lemma all_vendors:
  "\<forall>d\<in>set (all_data fo). sd_vendor d = ''Robert Bosch GmbH'' \<and> sd_reportMode d = CONTINUOUS"
  unfolding all_data_eq
  by (simp add: SensorList_descriptions_def SensorList_init_def Let_def description_defs)

lemma all_delays: "\<forall>d\<in>set (all_data fo). 0 < sd_minDelayUs d \<and> sd_minDelayUs d \<le> sd_maxDelayUs d"
  unfolding all_data_eq
  by (simp add: SensorList_descriptions_def SensorList_init_def Let_def description_defs)

text \<open>Rounding does not go below a power of two, because it is monotone and powers of two are exact.\<close>

definition rounds_above_powers :: "float_ops \<Rightarrow> bool" where
  "rounds_above_powers fo \<longleftrightarrow>
     (\<forall>k\<le>20. \<forall>x. 1 / 2 ^ k \<le> x \<longrightarrow> 1 / 2 ^ k \<le> fp32 fo x \<and> 1 / 2 ^ k \<le> fp64 fo x)"

lemma rounds_atleast:
  assumes "rounds_above_powers fo" "k \<le> 20" "1 / 2 ^ k \<le> x"
  shows "1 / 2 ^ k \<le> fp32 fo x" "1 / 2 ^ k \<le> fp64 fo x"
  using assms unfolding rounds_above_powers_def by blast+

lemma acceleration_positive:
  assumes "rounds_above_powers fo" "1 \<le> g"
  shows "0 < gravityToAcceleration fo g"
proof -
  have "1 \<le> fp32 fo 9.80665" using rounds_atleast(1) [OF assms(1), of 0] by simp
  then have "1 \<le> g * fp32 fo 9.80665" using mult_mono [of 1 g 1] assms(2) by simp
  then have "1 \<le> fp32 fo (g * fp32 fo 9.80665)" using rounds_atleast(1) [OF assms(1), of 0] by simp
  then show ?thesis by (simp add: gravityToAcceleration_def)
qed

lemma rad_positive:
  assumes "rounds_above_powers fo" "1 \<le> d"
  shows "0 < degreeToRad fo d"
proof -
  have "1 \<le> fp64 fo M_PI" using rounds_atleast(2) [OF assms(1), of 0] by (simp add: M_PI_def)
  then have "1 \<le> d * fp64 fo M_PI" using mult_mono [of 1 d 1] assms(2) by simp
  then have "1 \<le> fp64 fo (d * fp64 fo M_PI)" using rounds_atleast(2) [OF assms(1), of 0] by simp
  then have "1 / 2 ^ 8 \<le> fp64 fo (d * fp64 fo M_PI) / 180" by simp
  then have "1 / 2 ^ 8 \<le> degreeToRad fo d"
    unfolding degreeToRad_def by (intro rounds_atleast [OF assms(1)]) simp_all
  then show ?thesis by (rule less_le_trans [rotated]) simp
qed

lemma power_positive:
  assumes "rounds_above_powers fo" "1 / 8 \<le> p"
  shows "1 / 8 \<le> fp32 fo p"
  using rounds_atleast(1) [OF assms(1), of 3 p] assms(2) by simp

lemma all_positive:
  assumes "rounds_above_powers fo"
  shows "\<forall>d\<in>set (all_data fo). 0 \<le> sd_power d \<and> 0 < sd_range d"
proof -
  note acc = acceleration_positive [OF assms] and rad = rad_positive [OF assms] and pow = power_positive [OF assms]
  have p: "0 \<le> fp32 fo x" if "1 / 8 \<le> x" for x using pow [OF that] by simp
  have sum: "0 \<le> fp32 fo (fp32 fo x + fp32 fo y)" if "1 / 8 \<le> x" "1 / 8 \<le> y" for x y
    using pow [OF that(1)] pow [OF that(2)] by (intro p) simp
  show ?thesis
    unfolding all_data_eq
    by (simp add: SensorList_descriptions_def SensorList_init_def Let_def description_defs acc rad p sum
        sum [of x x for x, folded mult_2])
qed

lemma continuous_flags: "report_mode_flags CONTINUOUS 0 = 1216"
  by (simp add: report_mode_flags_def flag_defs)

lemma shipped_info_valid:
  assumes "rounds_above_powers fo" "d \<in> set (all_data fo)"
  shows "SensorInfo_valid (sensor_info_of h d)"
proof -
  have f: "sd_reportMode d = CONTINUOUS" "sd_vendor d = ''Robert Bosch GmbH''" "0 \<le> sd_power d" "0 < sd_range d"
    "0 < sd_minDelayUs d" "sd_minDelayUs d \<le> sd_maxDelayUs d"
    using assms(2) all_vendors [of fo] all_positive [OF assms(1)] all_delays [of fo] by auto
  have "(sd_type d, sd_sensorName d) \<in> set (map (\<lambda>d. (sd_type d, sd_sensorName d)) (all_data fo))"
    using assms(2) by force
  then have "sd_type d \<noteq> BST_NONE" "sd_sensorName d \<noteq> []" unfolding all_names by auto
  then show ?thesis
    using f by (cases "sd_type d")
      (simp_all add: SensorInfo_valid_def sensor_info_of_def SensorInfo_init_def continuous_flags DEVICE_PRIVATE_BASE_def
        st_defs assertTypeMatchReportMode_def expectedReportModeForType_def assertDelayMatchReportMode_def
        extractReportMode_def flag_defs)
qed

lemma shipped_name_matches:
  assumes "d \<in> set (all_data fo)"
  shows "match_smiPattern (sd_sensorName d)"
proof -
  have "(sd_type d, sd_sensorName d) \<in> set (map (\<lambda>d. (sd_type d, sd_sensorName d)) (all_data fo))"
    using assms by force
  then show ?thesis unfolding all_names
    by (auto simp: match_smiPattern_def is_digit_def matches_dot_def)
qed

text \<open>The list of a service, for descriptions numbered from 1.\<close>

definition numbered :: "SensorData list \<Rightarrow> SensorInfo list" where
  "numbered ds = map (\<lambda>(i, d). sensor_info_of (int i + 1) d) (zip [0..<length ds] ds)"

lemma numbered_proj: "(\<And>h d. g (sensor_info_of h d) = k d) \<Longrightarrow> map g (numbered ds) = map k ds"
  unfolding numbered_def map_map comp_def case_prod_unfold by (simp add: map_snd_zip [of "[0..<length ds]" ds, folded map_map] flip: map_map [unfolded comp_def])

lemma in_numbered: "info \<in> set (numbered ds) \<Longrightarrow> \<exists>h. \<exists>d\<in>set ds. info = sensor_info_of h d"
  by (auto simp: numbered_def dest: set_zip_rightD)

lemma AidlService_list:
  assumes "AidlService_AddSensors read ds (AidlService_init hal) = Inr st" "length ds < 2 ^ 24"
  shows "AidlService_getSensorsList st = numbered ds"
proof -
  obtain sv where sv: "AddSensors read ds (Sensors_init hal :: ('a, sensors_event_t) sensors) = Inr sv" "st = upf False False sv"
    using assms(1) by (auto simp: init_up add_up split: sum.splits)
  show ?thesis
    using AddSensors_list [OF sv(1), of 0] assms(2)
    by (simp add: sv(2) AidlService_getSensorsList_def numbered_def Sensors_init_def sm_values_def)
qed

lemma available_data_facts:
  "set (available_data fs fo) \<subseteq> set (all_data fo)"
  "distinct (map (\<lambda>d. (sd_type d, sd_sensorName d)) (available_data fs fo))"
  "length (available_data fs fo) < 2 ^ 24"
proof -
  define refs where "refs = snd (getAvailableSensors fs (SensorList_init fo))"
  let ?data = "sensor_ref_data (SensorList_init fo)"
  have refs: "distinct refs" "set refs \<subseteq> set all_refs" using available_refs by (simp_all add: refs_def)
  have ds: "available_data fs fo = map ?data refs"
    using refs(2) by (auto simp: available_data_def case_prod_unfold refs_def available_ref_data)
  show "set (available_data fs fo) \<subseteq> set (all_data fo)"
    using refs(2) by (auto simp: ds all_data_def)
  have "distinct (map (\<lambda>d. (sd_type d, sd_sensorName d)) (all_data fo))" unfolding all_names by simp
  then have "inj_on (\<lambda>r. (sd_type (?data r), sd_sensorName (?data r))) (set all_refs)"
    by (simp add: all_data_def distinct_map comp_def)
  then show "distinct (map (\<lambda>d. (sd_type d, sd_sensorName d)) (available_data fs fo))"
    using refs by (auto simp: ds distinct_map comp_def intro: inj_on_subset)
  have "length refs = card (set refs)" using refs(1) by (simp add: distinct_card)
  also have "\<dots> \<le> card (set all_refs)" using refs(2) by (simp add: card_mono)
  also have "\<dots> \<le> length all_refs" by (rule card_length)
  finally show "length (available_data fs fo) < 2 ^ 24" by (simp add: ds all_refs_def)
qed

lemma shipped_list_valid:
  assumes "rounds_above_powers fo" "ds = available_data fs fo"
    and "AidlService_AddSensors read ds (AidlService_init hal) = Inr st"
  shows "SensorListValid (AidlService_getSensorsList st) \<and> SensorListContainsBoschSensor (AidlService_getSensorsList st)
       \<and> ConfigCheck (AidlService_getSensorsList st)"
proof -
  let ?l = "AidlService_getSensorsList st"
  note avail = available_data_facts [of fs fo, folded assms(2)]
  have l: "?l = numbered ds" by (rule AidlService_list [OF assms(3) avail(3)])
  have "list_all SensorInfo_valid ?l"
    using shipped_info_valid [OF assms(1)] avail(1) by (auto simp: l list_all_iff dest!: in_numbered)
  moreover have "map (\<lambda>i. (si_type i, si_name i)) ?l = map (\<lambda>d. (bst_int (sd_type d), sd_sensorName d)) ds"
    unfolding l by (rule numbered_proj) (simp add: sensor_info_of_def SensorInfo_init_def)
  moreover have "distinct (map (\<lambda>d. (bst_int (sd_type d), sd_sensorName d)) ds)"
    using avail(2) by (auto simp: distinct_map inj_on_def dest: bst_int_inj)
  moreover have "si_vendor i = ''Robert Bosch GmbH'' \<and> match_smiPattern (si_name i)" if "i \<in> set ?l" for i
    using that avail(1) all_vendors [of fo] shipped_name_matches
    by (fastforce simp: l sensor_info_of_def SensorInfo_init_def dest!: in_numbered)
  ultimately show ?thesis
    by (simp add: SensorListValid_iff SensorListContainsBoschSensor_def ConfigCheck_def list_all_iff)
qed

text \<open>the list of sensors that the AIDL service makes of the devices it finds passes the tests of the
  vendor's compliance suite for it, whatever devices are there: valid types, ranges, delays and report
  modes, no two sensors of the same type and name, and Bosch's names throughout.\<close>

theorem shipped_sensors_pass_list_tests:
  assumes "rounds_above_powers fo" "ds = available_data fs fo"
    and "AidlService_AddSensors read ds (AidlService_init hal) = Inr st"
  shows "SensorListValid (AidlService_getSensorsList st) \<and> SensorListContainsBoschSensor (AidlService_getSensorsList st)
       \<and> ConfigCheck (AidlService_getSensorsList st)"
  by (rule shipped_list_valid [OF assms])

text \<open>A device with one SMI330.\<close>

definition smi330_fs :: sysfs where
  "smi330_fs = \<lparr>fs_files = (\<lambda>f. if f = ''/sys/bus/iio/devices/iio:device0/name'' then Some ''smi330'' else None),
     fs_writable = (\<lambda>_. True), fs_iio_dir = Some [''iio:device0''], fs_log = []\<rparr>"

lemma smi330_present:
  "present smi330_fs ''smi330''" "\<not> present smi330_fs ''smi240''"
  "\<not> present smi330_fs ''smi230acc''" "\<not> present smi330_fs ''smi230gyro''"
  by (simp_all add: present_def isSensorAvailable_def smi330_fs_def is_iio_device_def is_digit_def
      ReadHandler_read_def ReadHandler_def iioPath_def)

lemma smi330_count: "length (available_data smi330_fs fo) = 6"
  using arg_cong [OF getAvailableSensors_refs [of smi330_fs fo], of length]
  by (simp add: available_data_def case_prod_unfold smi330_present)

lemma add_example: "\<exists>st. AddSensors example_xml ds (sv :: ('s, 'e) sensors) = Inr st"
  by (induction ds arbitrary: sv)
     (simp_all add: example_xml_def readSensorsConfigFromXml_def gSensorConfigLocationList_def Let_def)

lemma aidl_add_example: "\<exists>st. AidlService_AddSensors example_xml ds (AidlService_init hal) = Inr st"
proof -
  obtain sv where "AddSensors example_xml ds (Sensors_init hal :: ('a, sensors_event_t) sensors) = Inr sv"
    using add_example by blast
  then show ?thesis by (simp add: init_up add_up)
qed

theorem shipped_sensors_pass_list_tests_witness:
  "\<exists>st. AidlService_AddSensors example_xml (available_data smi330_fs \<lparr>fp32 = id, fp64 = id\<rparr>) (AidlService_init ()) = Inr st
     \<and> length (AidlService_getSensorsList st) = 6 \<and> SensorListValid (AidlService_getSensorsList st)"
proof -
  let ?fo = "\<lparr>fp32 = id, fp64 = id\<rparr>"
  obtain st where st: "AidlService_AddSensors example_xml (available_data smi330_fs ?fo) (AidlService_init ()) = Inr st"
    using aidl_add_example [of "available_data smi330_fs ?fo" "()"] ..
  have fo: "rounds_above_powers ?fo" by (simp add: rounds_above_powers_def)
  have "AidlService_getSensorsList st = numbered (available_data smi330_fs ?fo)"
    by (rule AidlService_list [OF st available_data_facts(3)])
  then have "length (AidlService_getSensorsList st) = 6" by (simp add: numbered_def smi330_count)
  with st shipped_sensors_pass_list_tests [OF fo refl st] show ?thesis by (intro exI [of _ st]) simp
qed

end
