(* ===== verification/Vts_Target.thy ===== *)
theory Vts_Target
  imports Vts_Lists Direct_Reader
begin

text \<open>
  The tests of the AIDL suite that call the service
  (\<^verbatim>\<open>aidl/vts/BoschAidlHalSensorsTargetTest.cpp\<close>, \<^verbatim>\<open>SensorsAidlEnvironment.cpp\<close>), over any
  implementation of \<^verbatim>\<open>ISensors\<close> given by its methods: the fixture, the callback that counts
  events, and the tests as programs that record a failure. An implementation that dies returns \<open>Inl\<close>,
  and so does the test. Theory \<open>Vts_Contract\<close> states what an implementation must promise for the tests to
  pass. The tests that measure time or the position of the device are not here.
\<close>

section \<open>The interface\<close>

text \<open>\<open>'st\<close> is the type of a status: of the binder here, and \<^verbatim>\<open>Result\<close> for the HIDL services.
  \<open>is_background\<close>: what the service's own threads do before the given call. \<open>is_events\<close>: what
  has been read from the event queue. \<open>is_memory\<close>: the bytes of a registered channel's memory, which
  held the given bytes before.\<close>

type_synonym shared_mem_info = "shared_mem_type \<times> shared_mem_format \<times> int \<times> bool"

record ('s, 'st) isensors =
  is_initialize :: "'s \<Rightarrow> cpp_exception + 'st \<times> 's"
  is_getSensorsList :: "'s \<Rightarrow> 'st \<times> SensorInfo list"
  is_activate :: "int \<Rightarrow> bool \<Rightarrow> 's \<Rightarrow> cpp_exception + 'st \<times> 's"
  is_batch :: "int \<Rightarrow> int \<Rightarrow> int \<Rightarrow> 's \<Rightarrow> cpp_exception + 'st \<times> 's"
  is_flush :: "int \<Rightarrow> 's \<Rightarrow> cpp_exception + 'st \<times> 's"
  is_setOperationMode :: "operation_mode \<Rightarrow> 's \<Rightarrow> 'st"
  is_injectSensorData :: "Event \<Rightarrow> 's \<Rightarrow> 'st"
  is_registerDirectChannel :: "shared_mem_info \<Rightarrow> 's \<Rightarrow> cpp_exception + ('st \<times> int option) \<times> 's"
  is_unregisterDirectChannel :: "int \<Rightarrow> 's \<Rightarrow> cpp_exception + 'st \<times> 's"
  is_configDirectReport :: "int \<Rightarrow> int \<Rightarrow> rate_level \<Rightarrow> 's \<Rightarrow> cpp_exception + ('st \<times> int option) \<times> 's"
  is_background :: "nat \<Rightarrow> 's \<Rightarrow> cpp_exception + 's"
  is_events :: "'s \<Rightarrow> Event list"
  is_memory :: "'s \<Rightarrow> int \<Rightarrow> byte list \<Rightarrow> byte list"

text \<open>The numbers of \<^verbatim>\<open>binder_exception_t\<close>.\<close>

fun getExceptionCode :: "aidl_status \<Rightarrow> int" where
  "getExceptionCode Aidl_ok = 0"
| "getExceptionCode (Aidl_exception EX_SECURITY) = -1"
| "getExceptionCode (Aidl_exception EX_ILLEGAL_ARGUMENT) = -3"
| "getExceptionCode (Aidl_exception EX_UNSUPPORTED_OPERATION) = -7"
| "getExceptionCode (Aidl_service_specific n) = -8"
| "getExceptionCode (Aidl_exception EX_TRANSACTION_FAILED) = -129"

text \<open>The fixture, with the service it calls.\<close>

record 's vts =
  vs_service :: 's
  vs_calls :: nat
  vs_failed :: bool
  vs_mSensorHandles :: "int list"
  vs_mDirectChannelHandles :: "int list"

definition vts_call ::
  "('s, 'st) isensors \<Rightarrow> ('s \<Rightarrow> cpp_exception + 'a \<times> 's) \<Rightarrow> 's vts \<Rightarrow> cpp_exception + 'a \<times> 's vts" where
  "vts_call sv f st =
     and_then (is_background sv (vs_calls st) (vs_service st)) (\<lambda>s.
     and_then (f s) (\<lambda>(r, s').
     Inr (r, st\<lparr>vs_service := s', vs_calls := Suc (vs_calls st)\<rparr>)))"

text \<open>\<^verbatim>\<open>EXPECT\<close> records a failure; \<^verbatim>\<open>ASSERT\<close> also returns, which the tests write out.\<close>

definition EXPECT :: "bool \<Rightarrow> 's vts \<Rightarrow> 's vts" where
  "EXPECT holds st = (if holds then st else st\<lparr>vs_failed := True\<rparr>)"

text \<open>A function of its own: its \<^verbatim>\<open>ASSERT\<close> does not end the test.\<close>

definition checkIsOk :: "aidl_status \<Rightarrow> 's vts \<Rightarrow> 's vts" where
  "checkIsOk status = EXPECT (status = Aidl_ok)"

section \<open>\<^verbatim>\<open>EventCallback\<close>\<close>

record event_callback =
  ec_mFlushMap :: "(int, int) stdmap"
  ec_mEventMap :: "(int, Event list) stdmap"

definition EventCallback_init :: event_callback where
  "EventCallback_init = \<lparr>ec_mFlushMap = [], ec_mEventMap = []\<rparr>"

definition EventCallback_reset :: "event_callback \<Rightarrow> event_callback" where
  "EventCallback_reset cb = cb\<lparr>ec_mFlushMap := [], ec_mEventMap := []\<rparr>"

text \<open>The only event of type \<^verbatim>\<open>META_DATA\<close> is the flush-complete event.\<close>

definition flush_complete :: "Event \<Rightarrow> bool" where
  "flush_complete event \<longleftrightarrow> ev_sensorType event = ST_META_DATA \<and> ev_payload event = P_flush_complete"

definition EventCallback_onEvent :: "Event \<Rightarrow> event_callback \<Rightarrow> event_callback" where
  "EventCallback_onEvent event cb =
     (let h = ev_sensorHandle event in
      if flush_complete event
      then cb\<lparr>ec_mFlushMap := sm_put h (i32 (fst (sm_subscript 0 h (ec_mFlushMap cb)) + 1)) (ec_mFlushMap cb)\<rparr>
      else if ev_sensorType event \<noteq> ST_ADDITIONAL_INFO
      then cb\<lparr>ec_mEventMap := sm_put h (fst (sm_subscript [] h (ec_mEventMap cb)) @ [event]) (ec_mEventMap cb)\<rparr>
      else cb)"

definition EventCallback_getFlushCount :: "int \<Rightarrow> event_callback \<Rightarrow> int" where
  "EventCallback_getFlushCount h cb = fst (sm_subscript 0 h (ec_mFlushMap cb))"

definition EventCallback_getEvents :: "int \<Rightarrow> event_callback \<Rightarrow> Event list" where
  "EventCallback_getEvents h cb = fst (sm_subscript [] h (ec_mEventMap cb))"

definition flushesReceived :: "SensorInfo list \<Rightarrow> int \<Rightarrow> event_callback \<Rightarrow> bool" where
  "flushesReceived sensorsToWaitFor numCallsToFlush cb =
     list_all (\<lambda>sensor. \<not> EventCallback_getFlushCount (si_sensorHandle sensor) cb < numCallsToFlush) sensorsToWaitFor"

definition eventsReceived :: "SensorInfo list \<Rightarrow> event_callback \<Rightarrow> bool" where
  "eventsReceived sensorsToWaitFor cb =
     list_all (\<lambda>sensor. length (EventCallback_getEvents (si_sensorHandle sensor) cb) \<noteq> 0) sensorsToWaitFor"

text \<open>A callback that was registered when \<open>start\<close> events had been read. The environment reads on while a
  test waits, so that it has everything that was written.\<close>

definition callback_since :: "('s, 'st) isensors \<Rightarrow> nat \<Rightarrow> 's vts \<Rightarrow> event_callback" where
  "callback_since sv start st =
     fold EventCallback_onEvent (drop start (is_events sv (vs_service st))) EventCallback_init"

text \<open>What it counts.\<close>

definition flushes :: "int \<Rightarrow> Event list \<Rightarrow> nat" where
  "flushes h events = length (filter (\<lambda>ev. flush_complete ev \<and> ev_sensorHandle ev = h) events)"

lemma flushes_simps [simp]:
  "flushes h [] = 0" "flushes h (ev # evs) = (if flush_complete ev \<and> ev_sensorHandle ev = h then 1 else 0) + flushes h evs"
  "flushes h (evs @ evs') = flushes h evs + flushes h evs'"
  by (simp_all add: flushes_def)

lemma getFlushCount_counts:
  "EventCallback_getFlushCount h cb = i32 (int n) \<Longrightarrow>
   EventCallback_getFlushCount h (fold EventCallback_onEvent events cb) = i32 (int (n + flushes h events))"
proof (induction events arbitrary: cb n)
  case (Cons ev events)
  have "EventCallback_getFlushCount h (EventCallback_onEvent ev cb)
      = i32 (int (n + (if flush_complete ev \<and> ev_sensorHandle ev = h then 1 else 0)))"
    using Cons.prems i32_i32_add [of "int n" 1]
    by (auto simp: EventCallback_getFlushCount_def EventCallback_onEvent_def Let_def add.commute split: option.splits)
  from Cons.IH [OF this] show ?case by (simp add: add.assoc)
qed simp

lemma callback_flushCount:
  "EventCallback_getFlushCount h (callback_since sv start st)
     = i32 (int (flushes h (drop start (is_events sv (vs_service st)))))"
  using getFlushCount_counts [of h EventCallback_init 0]
  by (simp add: callback_since_def EventCallback_getFlushCount_def EventCallback_init_def i32_id)

section \<open>The fixture\<close>

definition vts_getSensorsList :: "('s, aidl_status) isensors \<Rightarrow> 's vts \<Rightarrow> cpp_exception + SensorInfo list \<times> 's vts" where
  "vts_getSensorsList sv st =
     and_then (vts_call sv (\<lambda>s. Inr (is_getSensorsList sv s, s)) st)
       (\<lambda>((status, sensorInfoList), st1). Inr (sensorInfoList, checkIsOk status st1))"

definition vts_activate :: "('s, 'st) isensors \<Rightarrow> int \<Rightarrow> bool \<Rightarrow> 's vts \<Rightarrow> cpp_exception + 'st \<times> 's vts" where
  "vts_activate sv sensorHandle enable st =
     vts_call sv (is_activate sv sensorHandle enable)
       (if enable then st\<lparr>vs_mSensorHandles := List.insert sensorHandle (vs_mSensorHandles st)\<rparr> else st)"

definition vts_batch :: "('s, 'st) isensors \<Rightarrow> int \<Rightarrow> int \<Rightarrow> int \<Rightarrow> 's vts \<Rightarrow> cpp_exception + 'st \<times> 's vts" where
  "vts_batch sv sensorHandle samplingPeriodNs maxReportLatencyNs =
     vts_call sv (is_batch sv sensorHandle samplingPeriodNs maxReportLatencyNs)"

definition vts_flush :: "('s, 'st) isensors \<Rightarrow> int \<Rightarrow> 's vts \<Rightarrow> cpp_exception + 'st \<times> 's vts" where
  "vts_flush sv sensorHandle = vts_call sv (is_flush sv sensorHandle)"

text \<open>\<open>junk\<close>: the handle when the service has not written it.\<close>

definition vts_registerDirectChannel ::
  "('s, aidl_status) isensors \<Rightarrow> int \<Rightarrow> shared_mem_info \<Rightarrow> 's vts \<Rightarrow> cpp_exception + (aidl_status \<times> int) \<times> 's vts" where
  "vts_registerDirectChannel sv junk mem st =
     and_then (vts_call sv (is_registerDirectChannel sv mem) st) (\<lambda>((status, aidlReturn), st1).
       let channelHandle = (case aidlReturn of Some c \<Rightarrow> c | None \<Rightarrow> junk) in
       Inr ((status, channelHandle),
            if status = Aidl_ok
            then st1\<lparr>vs_mDirectChannelHandles := List.insert channelHandle (vs_mDirectChannelHandles st1)\<rparr> else st1))"

definition vts_unregisterDirectChannel ::
  "('s, 'st) isensors \<Rightarrow> int \<Rightarrow> 's vts \<Rightarrow> cpp_exception + 'st \<times> 's vts" where
  "vts_unregisterDirectChannel sv channelHandle = vts_call sv (is_unregisterDirectChannel sv channelHandle)"

text \<open>\<open>reportToken\<close>: the value of the variable before, which stays when the service does not write it.\<close>

definition vts_configDirectReport ::
  "('s, aidl_status) isensors \<Rightarrow> int \<Rightarrow> int \<Rightarrow> rate_level \<Rightarrow> int \<Rightarrow> 's vts \<Rightarrow> cpp_exception + (aidl_status \<times> int) \<times> 's vts" where
  "vts_configDirectReport sv sensorHandle channelHandle rate reportToken st =
     and_then (vts_call sv (is_configDirectReport sv sensorHandle channelHandle rate) st)
       (\<lambda>((status, ret), st1). Inr ((status, case ret of Some t \<Rightarrow> t | None \<Rightarrow> reportToken), st1))"

definition getInvalidSensorHandle :: "('s, aidl_status) isensors \<Rightarrow> 's vts \<Rightarrow> cpp_exception + int \<times> 's vts" where
  "getInvalidSensorHandle sv st =
     and_then (vts_getSensorsList sv st) (\<lambda>(sensors, st1).
       Inr (i32 (fold (\<lambda>sensor maxHandle. max maxHandle (si_sensorHandle sensor)) sensors 0 + 1), st1))"

definition isValidType :: "int \<Rightarrow> bool" where
  "isValidType sensorType \<longleftrightarrow> sensorType > 0"

definition activateAllSensors :: "('s, aidl_status) isensors \<Rightarrow> bool \<Rightarrow> 's vts \<Rightarrow> cpp_exception + 's vts" where
  "activateAllSensors sv enable st =
     and_then (vts_getSensorsList sv st) (\<lambda>(sensors, st1).
       fold_exc (\<lambda>sensorInfo st.
         if isValidType (si_type sensorInfo)
         then and_then (vts_batch sv (si_sensorHandle sensorInfo) (si_minDelay sensorInfo) 0 st) (\<lambda>(status, st).
              and_then (vts_activate sv (si_sensorHandle sensorInfo) enable (checkIsOk status st)) (\<lambda>(status, st).
              Inr (checkIsOk status st)))
         else Inr st) sensors st1)"

definition getNonOneShotSensors :: "SensorInfo list \<Rightarrow> SensorInfo list" where
  "getNonOneShotSensors = filter (\<lambda>info. extractReportMode (si_flags info) \<noteq> FLAG_ONE_SHOT_MODE)"

definition getNonOneShotAndNonSpecialSensors :: "SensorInfo list \<Rightarrow> SensorInfo list" where
  "getNonOneShotAndNonSpecialSensors =
     filter (\<lambda>info. let reportMode = extractReportMode (si_flags info) in
       reportMode \<noteq> FLAG_ONE_SHOT_MODE \<and> reportMode \<noteq> FLAG_SPECIAL_REPORTING_MODE)"

definition getNonOneShotAndNonOnChangeAndNonSpecialSensors :: "SensorInfo list \<Rightarrow> SensorInfo list" where
  "getNonOneShotAndNonOnChangeAndNonSpecialSensors =
     filter (\<lambda>info. let reportMode = extractReportMode (si_flags info) in
       reportMode \<noteq> FLAG_ONE_SHOT_MODE \<and> reportMode \<noteq> FLAG_ON_CHANGE_MODE \<and> reportMode \<noteq> FLAG_SPECIAL_REPORTING_MODE)"

definition getOneShotSensors :: "SensorInfo list \<Rightarrow> SensorInfo list" where
  "getOneShotSensors = filter (\<lambda>info. extractReportMode (si_flags info) = FLAG_ONE_SHOT_MODE)"

definition getInjectEventSensors :: "SensorInfo list \<Rightarrow> SensorInfo list" where
  "getInjectEventSensors = filter (\<lambda>info. has_flag (si_flags info) FLAG_DATA_INJECTION)"

text \<open>\<^verbatim>\<open>resetHal\<close>: the status of \<^verbatim>\<open>initialize\<close> is dropped. Without success the pointer to the
  service is null, which the fixture asserts it is not.\<close>

fun stop_each :: "('s, aidl_status) isensors \<Rightarrow> SensorInfo list \<Rightarrow> 's vts \<Rightarrow> cpp_exception + bool \<times> 's vts" where
  "stop_each sv [] st = Inr (True, st)"
| "stop_each sv (i # sensorList) st =
     and_then (vts_call sv (is_activate sv (si_sensorHandle i) False) st) (\<lambda>(status, st1).
       if status \<noteq> Aidl_ok then Inr (False, st1) else stop_each sv sensorList st1)"

definition resetHal :: "('s, aidl_status) isensors \<Rightarrow> 's vts \<Rightarrow> cpp_exception + bool \<times> 's vts" where
  "resetHal sv st =
     and_then (vts_call sv (is_initialize sv) st) (\<lambda>(_, st1).
     and_then (vts_call sv (\<lambda>s. Inr (is_getSensorsList sv s, s)) st1) (\<lambda>((status, sensorList), st2).
       if status \<noteq> Aidl_ok then Inr (False, st2) else stop_each sv sensorList st2))"

definition vts_TearDown :: "('s, aidl_status) isensors \<Rightarrow> 's vts \<Rightarrow> cpp_exception + 's vts" where
  "vts_TearDown sv st =
     and_then (fold_exc (\<lambda>h st. and_then (vts_activate sv h False st) (\<lambda>(_, st). Inr st)) (vs_mSensorHandles st) st)
       (\<lambda>st1. Inr (st1\<lparr>vs_mSensorHandles := []\<rparr>))"

section \<open>The tests\<close>

subsection \<open>Flushing\<close>

text \<open>The body of \<^verbatim>\<open>runFlushTest\<close>, of either suite: they differ in the period of \<^verbatim>\<open>batch\<close> and in
  what is expected of the status.\<close>

fun flush_calls :: "('s, 'st) isensors \<Rightarrow> int \<Rightarrow> ('st \<Rightarrow> bool) \<Rightarrow> nat \<Rightarrow> 's vts \<Rightarrow> cpp_exception + 's vts" where
  "flush_calls sv sensorHandle expected 0 st = Inr st"
| "flush_calls sv sensorHandle expected (Suc n) st =
     and_then (vts_flush sv sensorHandle st) (\<lambda>(status, st1).
       flush_calls sv sensorHandle expected n (EXPECT (expected status) st1))"

fun check_counts :: "event_callback \<Rightarrow> int \<Rightarrow> SensorInfo list \<Rightarrow> 's vts \<Rightarrow> 's vts" where
  "check_counts callback expectedFlushCount [] st = st"
| "check_counts callback expectedFlushCount (sensor # sensors) st =
     (if EventCallback_getFlushCount (si_sensorHandle sensor) callback \<noteq> expectedFlushCount then EXPECT False st
      else check_counts callback expectedFlushCount sensors st)"

definition flush_run ::
  "('s, 'st) isensors \<Rightarrow> (SensorInfo \<Rightarrow> int) \<Rightarrow> ('st \<Rightarrow> bool) \<Rightarrow> SensorInfo list \<Rightarrow> bool \<Rightarrow> nat \<Rightarrow> int \<Rightarrow> 's vts
     \<Rightarrow> cpp_exception + 's vts" where
  "flush_run sv period expected sensors activateSensor flushCalls expectedFlushCount st =
     (let start = length (is_events sv (vs_service st)) in
      and_then (fold_exc (\<lambda>sensor st.
           and_then (vts_batch sv (si_sensorHandle sensor) (period sensor) 0 st) (\<lambda>(_, st).
           and_then (vts_activate sv (si_sensorHandle sensor) activateSensor st) (\<lambda>(_, st).
           flush_calls sv (si_sensorHandle sensor) expected flushCalls st))) sensors st) (\<lambda>st1.
      and_then (fold_exc (\<lambda>sensor st.
           and_then (vts_activate sv (si_sensorHandle sensor) False st) (\<lambda>(_, st). Inr st)) sensors st1) (\<lambda>st2.
      Inr (check_counts (callback_since sv start st2) expectedFlushCount sensors st2))))"

definition runFlushTest ::
  "('s, aidl_status) isensors \<Rightarrow> SensorInfo list \<Rightarrow> bool \<Rightarrow> nat \<Rightarrow> int \<Rightarrow> bool \<Rightarrow> 's vts \<Rightarrow> cpp_exception + 's vts" where
  "runFlushTest sv sensors activateSensor flushCalls expectedFlushCount expectedResult =
     flush_run sv si_maxDelay (\<lambda>status. (status = Aidl_ok) = expectedResult) sensors activateSensor flushCalls
       expectedFlushCount"

definition runSingleFlushTest ::
  "('s, aidl_status) isensors \<Rightarrow> SensorInfo list \<Rightarrow> bool \<Rightarrow> int \<Rightarrow> bool \<Rightarrow> 's vts \<Rightarrow> cpp_exception + 's vts" where
  "runSingleFlushTest sv sensors activateSensor = runFlushTest sv sensors activateSensor 1"

definition test_FlushSensor :: "('s, aidl_status) isensors \<Rightarrow> 's vts \<Rightarrow> cpp_exception + 's vts" where
  "test_FlushSensor sv st =
     and_then (vts_getSensorsList sv st) (\<lambda>(l, st1).
       let sensors = getNonOneShotSensors l in
       if length sensors = 0 then Inr st1
       else and_then (runSingleFlushTest sv sensors True 1 True st1) (runFlushTest sv sensors True 5 5 True))"

definition test_FlushOneShotSensor :: "('s, aidl_status) isensors \<Rightarrow> 's vts \<Rightarrow> cpp_exception + 's vts" where
  "test_FlushOneShotSensor sv st =
     and_then (vts_getSensorsList sv st) (\<lambda>(l, st1).
       let sensors = getOneShotSensors l in
       if length sensors = 0 then Inr st1 else runSingleFlushTest sv sensors True 0 False st1)"

definition test_FlushInactiveSensor :: "('s, aidl_status) isensors \<Rightarrow> 's vts \<Rightarrow> cpp_exception + 's vts" where
  "test_FlushInactiveSensor sv st =
     and_then (vts_getSensorsList sv st) (\<lambda>(l, st1).
       if length (getNonOneShotSensors l) = 0
       then and_then (vts_getSensorsList sv st1) (\<lambda>(l, st2).
              if length (getOneShotSensors l) = 0 then Inr st2
              else runSingleFlushTest sv (getOneShotSensors l) False 0 False st2)
       else runSingleFlushTest sv (getNonOneShotSensors l) False 0 False st1)"

subsection \<open>Modes and injection\<close>

definition vts_setOperationMode :: "('s, 'st) isensors \<Rightarrow> operation_mode \<Rightarrow> 's vts \<Rightarrow> cpp_exception + 'st \<times> 's vts" where
  "vts_setOperationMode sv mode = vts_call sv (\<lambda>s. Inr (is_setOperationMode sv mode s, s))"

definition test_SetOperationMode :: "('s, aidl_status) isensors \<Rightarrow> 's vts \<Rightarrow> cpp_exception + 's vts" where
  "test_SetOperationMode sv st =
     and_then (vts_getSensorsList sv st) (\<lambda>(l, st1).
       if length (getInjectEventSensors l) > 0
       then and_then (vts_setOperationMode sv OM_NORMAL st1) (\<lambda>(status, st2).
              if status \<noteq> Aidl_ok then Inr (EXPECT False st2)
              else and_then (vts_setOperationMode sv OM_DATA_INJECTION st2) (\<lambda>(status, st3).
                if status \<noteq> Aidl_ok then Inr (EXPECT False st3)
                else and_then (vts_setOperationMode sv OM_NORMAL st3) (\<lambda>(status, st4).
                  Inr (EXPECT (status = Aidl_ok) st4))))
       else and_then (vts_setOperationMode sv OM_DATA_INJECTION st1) (\<lambda>(status, st2).
              let errorCode = getExceptionCode status in
              Inr (EXPECT (errorCode = getExceptionCode (Aidl_exception EX_UNSUPPORTED_OPERATION)
                           \<or> errorCode = getExceptionCode (Aidl_exception EX_ILLEGAL_ARGUMENT)) st2)))"

text \<open>\<open>now\<close>: the two time stamps.\<close>

fun inject_each :: "('s, aidl_status) isensors \<Rightarrow> int \<times> int \<Rightarrow> SensorInfo list \<Rightarrow> 's vts \<Rightarrow> cpp_exception + bool \<times> 's vts" where
  "inject_each sv now [] st = Inr (True, st)"
| "inject_each sv now (i # sensors) st =
     and_then (vts_call sv (\<lambda>s. Inr (is_injectSensorData sv \<lparr>ev_timestamp = fst now, ev_sensorHandle = si_sensorHandle i,
         ev_sensorType = ST_ADDITIONAL_INFO, ev_payload = P_none\<rparr> s, s)) st) (\<lambda>(status, st1).
       if status \<noteq> Aidl_ok then Inr (False, EXPECT False st1)
       else and_then (vts_call sv (\<lambda>s. Inr (is_injectSensorData sv \<lparr>ev_timestamp = snd now, ev_sensorHandle = si_sensorHandle i,
         ev_sensorType = si_type i, ev_payload = P_vec3 1 2 3 ACCURACY_HIGH\<rparr> s, s)) st1) (\<lambda>(status, st2).
         if status \<noteq> Aidl_ok then Inr (False, EXPECT False st2) else inject_each sv now sensors st2))"

fun check_injected :: "int \<Rightarrow> event_callback \<Rightarrow> SensorInfo list \<Rightarrow> bool" where
  "check_injected now callback [] = True"
| "check_injected now callback (i # sensors) =
     (case EventCallback_getEvents (si_sensorHandle i) callback of
        [lastEvent] \<Rightarrow> ev_sensorType lastEvent = si_type i \<and> ev_timestamp lastEvent = now
          \<and> ev_payload lastEvent = P_vec3 1 2 3 ACCURACY_HIGH \<and> check_injected now callback sensors
      | _ \<Rightarrow> False)"

definition test_InjectSensorEventData :: "('s, aidl_status) isensors \<Rightarrow> int \<times> int \<Rightarrow> 's vts \<Rightarrow> cpp_exception + 's vts" where
  "test_InjectSensorEventData sv now st =
     and_then (vts_getSensorsList sv st) (\<lambda>(l, st1).
       let sensors = getInjectEventSensors l in
       if length sensors = 0 then Inr st1
       else and_then (vts_setOperationMode sv OM_DATA_INJECTION st1) (\<lambda>(status, st2).
         if status \<noteq> Aidl_ok then Inr (EXPECT False st2)
         else let start = length (is_events sv (vs_service st2)) in
           and_then (inject_each sv now sensors st2) (\<lambda>(go_on, st3).
             if \<not> go_on then Inr st3
             else if \<not> check_injected (snd now) (callback_since sv start st3) sensors then Inr (EXPECT False st3)
             else and_then (vts_setOperationMode sv OM_NORMAL st3) (\<lambda>(status, st4). Inr (EXPECT (status = Aidl_ok) st4)))))"

subsection \<open>Activating and batching\<close>

definition test_Batch :: "('s, aidl_status) isensors \<Rightarrow> 's vts \<Rightarrow> cpp_exception + 's vts" where
  "test_Batch sv st =
     and_then (vts_getSensorsList sv st) (\<lambda>(l, st).
       if length l = 0 then Inr st
       else and_then (activateAllSensors sv False st) (\<lambda>st.
         and_then (vts_getSensorsList sv st) (\<lambda>(l, st).
         and_then (fold_exc (\<lambda>sensor st.
             let samplingPeriodNs =
                   (if extractReportMode (si_flags sensor) = FLAG_ONE_SHOT_MODE then 0 else si_minDelay sensor) in
             and_then (vts_batch sv (si_sensorHandle sensor) samplingPeriodNs 0 st) (\<lambda>(status, st).
             and_then (vts_activate sv (si_sensorHandle sensor) True (checkIsOk status st)) (\<lambda>(_, st).
             and_then (vts_batch sv (si_sensorHandle sensor) (si_maxDelay sensor) 0 st) (\<lambda>(status, st).
             Inr (checkIsOk status st))))) l st) (\<lambda>st.
         and_then (activateAllSensors sv False st) (\<lambda>st.
         and_then (vts_getSensorsList sv st) (\<lambda>(l, st).
         and_then (getInvalidSensorHandle sv st) (\<lambda>(h, st).
         and_then (vts_batch sv h (si_minDelay (hd l)) 0 st) (\<lambda>(status, st).
           Inr (EXPECT (getExceptionCode status = getExceptionCode (Aidl_exception EX_ILLEGAL_ARGUMENT)) st)))))))))"

definition test_Activate :: "('s, aidl_status) isensors \<Rightarrow> 's vts \<Rightarrow> cpp_exception + 's vts" where
  "test_Activate sv st =
     and_then (vts_getSensorsList sv st) (\<lambda>(l, st).
       if length l = 0 then Inr st
       else and_then (vts_getSensorsList sv st) (\<lambda>(l, st).
         and_then (fold_exc (\<lambda>sensor st.
             let h = si_sensorHandle sensor in
             and_then (vts_batch sv h (si_minDelay sensor) 0 st) (\<lambda>(status, st).
             and_then (vts_activate sv h True (checkIsOk status st)) (\<lambda>(status, st).
             and_then (vts_activate sv h True (checkIsOk status st)) (\<lambda>(status, st).
             and_then (vts_activate sv h False (checkIsOk status st)) (\<lambda>(status, st).
             and_then (vts_activate sv h False (checkIsOk status st)) (\<lambda>(status, st).
             Inr (checkIsOk status st))))))) l st) (\<lambda>st.
         and_then (getInvalidSensorHandle sv st) (\<lambda>(invalidHandle, st).
         and_then (vts_activate sv invalidHandle True st) (\<lambda>(status, st).
           if getExceptionCode status \<noteq> getExceptionCode (Aidl_exception EX_ILLEGAL_ARGUMENT)
           then Inr (EXPECT False st)
           else and_then (vts_activate sv invalidHandle False st) (\<lambda>(status, st).
             Inr (EXPECT (getExceptionCode status = getExceptionCode (Aidl_exception EX_ILLEGAL_ARGUMENT)) st)))))))"

subsection \<open>Direct channels\<close>

definition isDirectChannelTypeSupported :: "SensorInfo \<Rightarrow> shared_mem_type \<Rightarrow> bool" where
  "isDirectChannelTypeSupported sensor type =
     (case type of
        MT_ASHMEM \<Rightarrow> si_flags sensor AND FLAG_DIRECT_CHANNEL_ASHMEM \<noteq> 0
      | MT_GRALLOC \<Rightarrow> si_flags sensor AND 2048 \<noteq> 0
      | MT_OTHER n \<Rightarrow> False)"

definition isDirectReportRateSupported :: "SensorInfo \<Rightarrow> rate_level \<Rightarrow> bool" where
  "isDirectReportRateSupported sensor rate =
     (let r = drop_bit FLAG_SHIFT_DIRECT_REPORT (u32 (si_flags sensor AND FLAG_MASK_DIRECT_REPORT))
      in r \<ge> u32 (rate_level_int rate))"

fun queryDirectChannelSupport_loop :: "shared_mem_type \<Rightarrow> SensorInfo list \<Rightarrow> bool \<times> bool \<Rightarrow> bool \<times> bool" where
  "queryDirectChannelSupport_loop memType [] res = res"
| "queryDirectChannelSupport_loop memType (curSensor # sensors) (supportsSharedMemType, supportsAnyDirectChannel) =
     (let a = supportsSharedMemType \<or> isDirectChannelTypeSupported curSensor memType;
          b = supportsAnyDirectChannel \<or> isDirectChannelTypeSupported curSensor MT_ASHMEM
              \<or> isDirectChannelTypeSupported curSensor MT_GRALLOC
      in if a \<and> b then (a, b) else queryDirectChannelSupport_loop memType sensors (a, b))"

definition queryDirectChannelSupport ::
  "('s, aidl_status) isensors \<Rightarrow> shared_mem_type \<Rightarrow> 's vts \<Rightarrow> cpp_exception + (bool \<times> bool) \<times> 's vts" where
  "queryDirectChannelSupport sv memType st =
     and_then (vts_getSensorsList sv st) (\<lambda>(l, st1).
       Inr (queryDirectChannelSupport_loop memType l (False, False), st1))"

text \<open>An \<^verbatim>\<open>ASSERT\<close> of a helper ends the helper: here the handle of the channel is then not handed back.
  Filling the memory of a failed mapping is undefined.\<close>

definition verifyRegisterDirectChannel ::
  "('s, aidl_status) isensors \<Rightarrow> int \<Rightarrow> test_memory \<Rightarrow> int \<Rightarrow> bool \<Rightarrow> bool \<Rightarrow> 's vts \<Rightarrow> cpp_exception + int \<times> 's vts" where
  "verifyRegisterDirectChannel sv junk mem directChannelHandle supportsSharedMemType supportsAnyDirectChannel st =
     (if supportsSharedMemType \<and> (tm_mBuffer mem = Null_buffer \<or> tm_mBuffer mem = Failed_mapping)
      then Inl Undefined_behaviour
      else and_then (vts_registerDirectChannel sv junk (SensorsAidlTestSharedMemory_getSharedMemInfo mem) st)
       (\<lambda>((status, channelHandle), st1).
         if supportsSharedMemType
         then if status \<noteq> Aidl_ok \<or> \<not> channelHandle > 0 then Inr (directChannelHandle, EXPECT False st1)
              else if list_all (\<lambda>b. b = 0) (is_memory sv (vs_service st1) channelHandle (replicate (tm_mSize mem) 0xFF))
              then Inr (channelHandle, st1) else Inr (directChannelHandle, EXPECT False st1)
         else let error = getExceptionCode (Aidl_exception
                    (if supportsAnyDirectChannel then EX_ILLEGAL_ARGUMENT else EX_UNSUPPORTED_OPERATION)) in
              if getExceptionCode status \<noteq> error then Inr (directChannelHandle, EXPECT False st1)
              else Inr (channelHandle, st1)))"

definition checkRateLevel ::
  "('s, aidl_status) isensors \<Rightarrow> SensorInfo \<Rightarrow> int \<Rightarrow> rate_level \<Rightarrow> int \<Rightarrow> 's vts \<Rightarrow> cpp_exception + int \<times> 's vts" where
  "checkRateLevel sv sensor directChannelHandle rateLevel reportToken st =
     and_then (vts_configDirectReport sv (si_sensorHandle sensor) directChannelHandle rateLevel reportToken st)
       (\<lambda>((status, token), st1).
         Inr (token,
           if isDirectReportRateSupported sensor rateLevel
           then EXPECT (status = Aidl_ok \<and> (rateLevel \<noteq> RL_STOP \<longrightarrow> token > 0)) st1
           else EXPECT (getExceptionCode status = getExceptionCode (Aidl_exception EX_ILLEGAL_ARGUMENT)) st1))"

definition verifyConfigure ::
  "('s, aidl_status) isensors \<Rightarrow> SensorInfo \<Rightarrow> shared_mem_type \<Rightarrow> int \<Rightarrow> bool \<Rightarrow> 's vts \<Rightarrow> cpp_exception + 's vts" where
  "verifyConfigure sv sensor memType directChannelHandle supportsAnyDirectChannel st =
     (if isDirectChannelTypeSupported sensor memType
      then and_then (checkRateLevel sv sensor directChannelHandle RL_NORMAL 0 st) (\<lambda>(token, st).
           and_then (checkRateLevel sv sensor directChannelHandle RL_FAST token st) (\<lambda>(token, st).
           and_then (checkRateLevel sv sensor directChannelHandle RL_VERY_FAST token st) (\<lambda>(token, st).
           and_then (checkRateLevel sv sensor directChannelHandle RL_STOP token st) (\<lambda>(token, st).
           and_then (vts_configDirectReport sv (-1) directChannelHandle RL_NORMAL token st) (\<lambda>((status, token), st).
             if getExceptionCode status \<noteq> getExceptionCode (Aidl_exception EX_ILLEGAL_ARGUMENT)
             then Inr (EXPECT False st)
             else and_then (vts_configDirectReport sv (-1) directChannelHandle RL_STOP token st)
                    (\<lambda>((status, token), st). Inr (EXPECT (status = Aidl_ok) st)))))))
      else and_then (vts_configDirectReport sv (si_sensorHandle sensor) directChannelHandle RL_NORMAL 0 st)
             (\<lambda>((status, token), st).
               Inr (EXPECT (getExceptionCode status = getExceptionCode (Aidl_exception
                 (if supportsAnyDirectChannel then EX_ILLEGAL_ARGUMENT else EX_UNSUPPORTED_OPERATION))) st)))"

definition verifyUnregisterDirectChannel ::
  "('s, aidl_status) isensors \<Rightarrow> int \<Rightarrow> bool \<Rightarrow> 's vts \<Rightarrow> cpp_exception + 's vts" where
  "verifyUnregisterDirectChannel sv channelHandle supportsAnyDirectChannel st =
     and_then (vts_unregisterDirectChannel sv channelHandle st) (\<lambda>(status, st1).
       Inr (EXPECT (getExceptionCode status =
         (if supportsAnyDirectChannel then getExceptionCode Aidl_ok
          else getExceptionCode (Aidl_exception EX_UNSUPPORTED_OPERATION))) st1))"

text \<open>The memory of the test comes from the platform, \<open>mo\<close>.\<close>

definition verifyDirectChannel ::
  "('s, aidl_status) isensors \<Rightarrow> memory_os \<Rightarrow> int \<Rightarrow> shared_mem_type \<Rightarrow> 's vts \<Rightarrow> cpp_exception + 's vts" where
  "verifyDirectChannel sv mo junk memType st =
     and_then (queryDirectChannelSupport sv memType st) (\<lambda>((supportsSharedMemType, supportsAnyDirectChannel), st).
       if supportsSharedMemType
       then (case SensorsAidlTestSharedMemory_create mo (junk \<noteq> 0) memType (1 * kEventSize) of
               None \<Rightarrow> Inr (EXPECT False st)
             | Some mem \<Rightarrow>
                 and_then (vts_getSensorsList sv st) (\<lambda>(l, st).
                 fold_exc (\<lambda>sensor st.
                   and_then (verifyRegisterDirectChannel sv junk mem 0 supportsSharedMemType supportsAnyDirectChannel st)
                     (\<lambda>(directChannelHandle, st).
                   and_then (verifyConfigure sv sensor memType directChannelHandle supportsAnyDirectChannel st) (\<lambda>st.
                   verifyUnregisterDirectChannel sv directChannelHandle supportsAnyDirectChannel st))) l st))
       else Inr st)"

section \<open>The suite\<close>

datatype vts_test =
    SensorListValid_test | SensorListContainsBoschSensor_test | ConfigCheck_test
  | SetOperationMode_test | InjectSensorEventData_test
  | FlushSensor_test | FlushOneShotSensor_test | FlushInactiveSensor_test
  | Batch_test | Activate_test | DirectChannelAshmem_test | DirectChannelGralloc_test

definition list_test :: "('s, aidl_status) isensors \<Rightarrow> (SensorInfo list \<Rightarrow> bool) \<Rightarrow> 's vts \<Rightarrow> cpp_exception + 's vts" where
  "list_test sv check st = and_then (vts_getSensorsList sv st) (\<lambda>(l, st1). Inr (EXPECT (check l) st1))"

fun vts_body :: "('s, aidl_status) isensors \<Rightarrow> memory_os \<Rightarrow> int \<Rightarrow> int \<times> int \<Rightarrow> vts_test \<Rightarrow> 's vts \<Rightarrow> cpp_exception + 's vts" where
  "vts_body sv mo junk now SensorListValid_test = list_test sv SensorListValid"
| "vts_body sv mo junk now SensorListContainsBoschSensor_test = list_test sv SensorListContainsBoschSensor"
| "vts_body sv mo junk now ConfigCheck_test = list_test sv ConfigCheck"
| "vts_body sv mo junk now SetOperationMode_test = test_SetOperationMode sv"
| "vts_body sv mo junk now InjectSensorEventData_test = test_InjectSensorEventData sv now"
| "vts_body sv mo junk now FlushSensor_test = test_FlushSensor sv"
| "vts_body sv mo junk now FlushOneShotSensor_test = test_FlushOneShotSensor sv"
| "vts_body sv mo junk now FlushInactiveSensor_test = test_FlushInactiveSensor sv"
| "vts_body sv mo junk now Batch_test = test_Batch sv"
| "vts_body sv mo junk now Activate_test = test_Activate sv"
| "vts_body sv mo junk now DirectChannelAshmem_test = verifyDirectChannel sv mo junk MT_ASHMEM"
| "vts_body sv mo junk now DirectChannelGralloc_test = verifyDirectChannel sv mo junk MT_GRALLOC"

text \<open>A test is run in a new fixture. The body is not run when the set-up fails.\<close>

definition vts_run_test :: "('s, aidl_status) isensors \<Rightarrow> memory_os \<Rightarrow> int \<Rightarrow> int \<times> int \<Rightarrow> vts_test \<Rightarrow> 's vts \<Rightarrow> cpp_exception + 's vts" where
  "vts_run_test sv mo junk now t st =
     and_then (resetHal sv (st\<lparr>vs_mSensorHandles := [], vs_mDirectChannelHandles := []\<rparr>)) (\<lambda>(succeed, st1).
       if \<not> succeed then Inr (EXPECT False st1)
       else and_then (vts_body sv mo junk now t st1) (vts_TearDown sv))"

definition vts_run :: "('s, aidl_status) isensors \<Rightarrow> memory_os \<Rightarrow> int \<Rightarrow> int \<times> int \<Rightarrow> vts_test list \<Rightarrow> 's \<Rightarrow> cpp_exception + 's vts" where
  "vts_run sv mo junk now tests s =
     fold_exc (vts_run_test sv mo junk now) tests
       \<lparr>vs_service = s, vs_calls = 0, vs_failed = False, vs_mSensorHandles = [], vs_mDirectChannelHandles = []\<rparr>"

end
