(* ===== verification/Vts_Contract.thy ===== *)
theory Vts_Contract
  imports Vts_Target
begin

text \<open>
  What an implementation of \<^verbatim>\<open>ISensors\<close> must promise so that the compliance tests pass (locale
  \<open>isensors_contract\<close>), for either type of status, and what follows for a call of a test. The assertions are
  total: the calls return.
\<close>

section \<open>Total correctness of a call\<close>

text \<open>\<open>returns r Q\<close>: the program returns, with a result and a state in \<open>Q\<close>.\<close>

definition returns :: "'x + 'a \<Rightarrow> ('a \<Rightarrow> bool) \<Rightarrow> bool" where
  "returns r Q \<longleftrightarrow> (case r of Inl ex \<Rightarrow> False | Inr v \<Rightarrow> Q v)"

lemma returns_Inr [simp]: "returns (Inr v) Q = Q v"
  by (simp add: returns_def)

lemma returns_and_then [simp]: "returns (and_then r k) Q = returns r (\<lambda>v. returns (k v) Q)"
  by (simp add: returns_def and_then_def split: sum.split)

lemma returns_mono: "returns r P \<Longrightarrow> (\<And>v. P v \<Longrightarrow> Q v) \<Longrightarrow> returns r Q"
  by (simp add: returns_def split: sum.splits)

lemma returnsD: "returns r Q \<Longrightarrow> \<exists>v. r = Inr v \<and> Q v"
  by (simp add: returns_def split: sum.splits)

text \<open>A loop, with an assertion that may speak of the elements that are left.\<close>

lemma returns_fold:
  assumes "I xs s" "\<And>x xs s. I (x # xs) s \<Longrightarrow> returns (f x s) (I xs)"
  shows "returns (fold_exc f xs s) (I [])"
  using assms(1)
proof (induction xs arbitrary: s)
  case (Cons x xs)
  show ?case using assms(2) [OF Cons.prems] by (auto intro: returns_mono Cons.IH)
qed simp

lemma EXPECT_True [simp]: "EXPECT True st = st"
  by (simp add: EXPECT_def)

lemma checkIsOk_ok [simp]: "checkIsOk Aidl_ok st = st"
  by (simp add: checkIsOk_def)

section \<open>What a service must promise\<close>

text \<open>Sensors as Bosch's services list them: continuous, with shared memory at the normal rate.\<close>

definition bosch_info :: "SensorInfo \<Rightarrow> bool" where
  "bosch_info info \<longleftrightarrow> si_flags info = 1216 \<and> si_type info \<noteq> ST_META_DATA \<and> 0 < si_sensorHandle info \<and> si_sensorHandle info \<le> 2 ^ 30"

lemma bosch_info_facts:
  assumes "bosch_info info"
  shows "extractReportMode (si_flags info) = 0" "isDirectChannelTypeSupported info MT_ASHMEM"
    "\<not> isDirectChannelTypeSupported info MT_GRALLOC" "\<not> has_flag (si_flags info) FLAG_DATA_INJECTION"
    "isDirectReportRateSupported info RL_NORMAL" "\<not> isDirectReportRateSupported info RL_FAST"
    "\<not> isDirectReportRateSupported info RL_VERY_FAST" "isDirectReportRateSupported info RL_STOP"
  using assms
  by (simp_all add: bosch_info_def extractReportMode_def flag_defs isDirectChannelTypeSupported_def has_flag_def
      isDirectReportRateSupported_def u32_def)

definition quiet :: "Event list \<Rightarrow> Event list \<Rightarrow> bool" where
  "quiet before after \<longleftrightarrow> (\<exists>evs. after = before @ evs \<and> (\<forall>h. flushes h evs = 0))"

lemma max_handle:
  "fold (\<lambda>sensor m. max m (si_sensorHandle sensor)) l (m :: int) \<ge> m
   \<and> (\<forall>i\<in>set l. si_sensorHandle i \<le> fold (\<lambda>sensor m. max m (si_sensorHandle sensor)) l m)
   \<and> (\<forall>b. m \<le> b \<longrightarrow> (\<forall>i\<in>set l. si_sensorHandle i \<le> b) \<longrightarrow> fold (\<lambda>sensor m. max m (si_sensorHandle sensor)) l m \<le> b)"
proof (induction l arbitrary: m)
  case (Cons i l)
  then show ?case by (fastforce dest: spec [of _ "max m (si_sensorHandle i)"])
qed simp

text \<open>\<open>keeps s s'\<close>: the sensors that are enabled and the channels that are open are the same, and no
  flush has been reported.\<close>

locale isensors_contract =
  fixes sv :: "('s, 'st) isensors" and inv :: "'s \<Rightarrow> bool" and infos :: "SensorInfo list"
    and enabled :: "'s \<Rightarrow> int \<Rightarrow> bool" and open_channel :: "'s \<Rightarrow> int \<Rightarrow> bool" and room :: "'s \<Rightarrow> nat"
    and good_memory :: "shared_mem_info \<Rightarrow> bool" and keeps :: "'s \<Rightarrow> 's \<Rightarrow> bool"
    and ok bad bad_flush :: 'st
  assumes statuses: "bad \<noteq> ok" "bad_flush \<noteq> ok"
    and keepsD: "keeps s s' \<Longrightarrow> enabled s' = enabled s \<and> open_channel s' = open_channel s \<and> room s' = room s
             \<and> quiet (is_events sv s) (is_events sv s')"
    and bosch: "inv s \<Longrightarrow> list_all bosch_info infos \<and> distinct (map si_sensorHandle infos)"
    and positive: "inv s \<Longrightarrow> open_channel s c \<Longrightarrow> 0 < c"
    and listed: "inv s \<Longrightarrow> is_getSensorsList sv s = (ok, infos)"
    and background: "inv s \<Longrightarrow> returns (is_background sv n s) (\<lambda>s'. inv s' \<and> keeps s s')"
    and initialize: "inv s \<Longrightarrow> returns (is_initialize sv s) (\<lambda>(status, s'). inv s' \<and> room s' = room s
             \<and> (\<forall>c. \<not> open_channel s' c))"
    and activate: "inv s \<Longrightarrow> h \<in> si_sensorHandle ` set infos \<Longrightarrow> returns (is_activate sv h en s) (\<lambda>(status, s').
             status = ok \<and> inv s' \<and> enabled s' = (enabled s)(h := en) \<and> open_channel s' = open_channel s
             \<and> room s' = room s \<and> quiet (is_events sv s) (is_events sv s'))"
    and activate_unknown: "inv s \<Longrightarrow> h \<notin> si_sensorHandle ` set infos \<Longrightarrow>
             is_activate sv h en s = Inr (bad, s)"
    and batch: "inv s \<Longrightarrow> returns (is_batch sv h p 0 s) (\<lambda>(status, s').
             status = (if h \<in> si_sensorHandle ` set infos then ok else bad)
             \<and> inv s' \<and> keeps s s')"
    and flush_on: "inv s \<Longrightarrow> h \<in> si_sensorHandle ` set infos \<Longrightarrow> enabled s h \<Longrightarrow> returns (is_flush sv h s) (\<lambda>(status, s').
             status = ok \<and> inv s' \<and> enabled s' = enabled s \<and> open_channel s' = open_channel s \<and> room s' = room s
             \<and> (\<exists>evs. is_events sv s' = is_events sv s @ evs \<and> (\<forall>h'. flushes h' evs = (if h' = h then 1 else 0))))"
    and flush_off: "inv s \<Longrightarrow> h \<in> si_sensorHandle ` set infos \<Longrightarrow> \<not> enabled s h \<Longrightarrow> returns (is_flush sv h s) (\<lambda>(status, s').
             status = bad_flush \<and> inv s' \<and> keeps s s')"
    and flush_unknown: "inv s \<Longrightarrow> h \<notin> si_sensorHandle ` set infos \<Longrightarrow> is_flush sv h s = Inr (bad, s)"
    and injection: "inv s \<Longrightarrow> infos \<noteq> [] \<Longrightarrow>
             is_setOperationMode sv OM_DATA_INJECTION s = bad"
    and register: "inv s \<Longrightarrow> 0 < room s \<Longrightarrow> good_memory mem \<Longrightarrow> returns (is_registerDirectChannel sv mem s)
             (\<lambda>((status, ret), s'). \<exists>c. status = ok \<and> ret = Some c \<and> 0 < c \<and> inv s' \<and> open_channel s' c
                \<and> enabled s' = enabled s \<and> room s = Suc (room s') \<and> quiet (is_events sv s) (is_events sv s')
                \<and> list_all (\<lambda>b. b = 0) (is_memory sv s' c (replicate kEventSize 0xFF)))"
    and config: "inv s \<Longrightarrow> open_channel s c \<Longrightarrow> info \<in> set infos \<Longrightarrow> rate \<in> {RL_STOP, RL_NORMAL, RL_FAST, RL_VERY_FAST} \<Longrightarrow>
             returns (is_configDirectReport sv (si_sensorHandle info) c rate s) (\<lambda>((status, ret), s').
               (if isDirectReportRateSupported info rate then status = ok \<and> (\<exists>t. ret = Some t \<and> 0 < t)
                else status = bad) \<and> inv s' \<and> keeps s s')"
    and config_unknown: "inv s \<Longrightarrow> \<not> open_channel s c \<Longrightarrow> returns (is_configDirectReport sv h c rate s) (\<lambda>((status, ret), s').
               status = bad \<and> inv s' \<and> keeps s s')"
    and config_all: "inv s \<Longrightarrow> open_channel s c \<Longrightarrow> returns (is_configDirectReport sv (-1) c rate s) (\<lambda>((status, ret), s').
               status = (if rate = RL_STOP then ok else bad) \<and> inv s' \<and> keeps s s')"
    and unregister: "inv s \<Longrightarrow> returns (is_unregisterDirectChannel sv c s) (\<lambda>(status, s').
             status = ok \<and> inv s' \<and> enabled s' = enabled s \<and> room s' = room s \<and> quiet (is_events sv s) (is_events sv s'))"
begin

text \<open>The assertion of the test programs: no failure yet, room for \<open>n\<close> registrations, the enabled sensors,
  an open channel, and the flushes reported since the first \<open>k\<close> events.\<close>

definition holds :: "nat \<Rightarrow> nat \<Rightarrow> (int \<Rightarrow> nat) \<Rightarrow> (int \<Rightarrow> bool) \<Rightarrow> int option \<Rightarrow> 's vts \<Rightarrow> bool" where
  "holds n k cnt en c st \<longleftrightarrow>
     (let s = vs_service st in
      inv s \<and> \<not> vs_failed st \<and> n \<le> room s \<and> k \<le> length (is_events sv s)
      \<and> (\<forall>h. flushes h (drop k (is_events sv s)) = cnt h) \<and> enabled s = en
      \<and> (case c of None \<Rightarrow> True | Some c \<Rightarrow> open_channel s c))"

lemma quiet_flushes:
  "quiet es es' \<Longrightarrow> k \<le> length es \<Longrightarrow> k \<le> length es' \<and> flushes h (drop k es') = flushes h (drop k es)"
  by (auto simp: quiet_def)

lemma quiet_trans: "quiet a b \<Longrightarrow> quiet b c \<Longrightarrow> quiet a c"
  unfolding quiet_def by (metis add_0 append_assoc flushes_simps(3))

lemma holds_keeps: "holds n k cnt en c st \<Longrightarrow> inv s' \<Longrightarrow> keeps (vs_service st) s' \<Longrightarrow>
    holds n k cnt en c (st\<lparr>vs_service := s', vs_calls := m\<rparr>)"
  using quiet_flushes by (auto simp: holds_def Let_def dest!: keepsD split: option.splits)

text \<open>A call whose effect is known.\<close>

lemma call_returns:
  assumes "holds n k cnt en c st"
    and "\<And>s. inv s \<Longrightarrow> n \<le> room s \<Longrightarrow> k \<le> length (is_events sv s) \<Longrightarrow> (\<forall>h. flushes h (drop k (is_events sv s)) = cnt h) \<Longrightarrow>
           enabled s = en \<Longrightarrow> (case c of None \<Rightarrow> True | Some c \<Rightarrow> open_channel s c) \<Longrightarrow>
           returns (f s) (\<lambda>(r, s'). P r s' \<and> inv s' \<and> n' \<le> room s' \<and> k \<le> length (is_events sv s')
             \<and> (\<forall>h. flushes h (drop k (is_events sv s')) = cnt' h) \<and> enabled s' = en'
             \<and> (case c' r of None \<Rightarrow> True | Some c \<Rightarrow> open_channel s' c))"
  shows "returns (vts_call sv f st) (\<lambda>(r, st'). P r (vs_service st') \<and> holds n' k cnt' en' (c' r) st')"
proof -
  have inv: "inv (vs_service st)" using assms(1) by (simp add: holds_def Let_def)
  have "returns (f s) (\<lambda>(r, s'). P r s' \<and> holds n' k cnt' en' (c' r) (st\<lparr>vs_service := s', vs_calls := Suc (vs_calls st)\<rparr>))"
    if s: "inv s" "keeps (vs_service st) s" for s
  proof -
    have "holds n k cnt en c (st\<lparr>vs_service := s, vs_calls := vs_calls st\<rparr>)"
      using assms(1) s by (rule holds_keeps)
    then have h: "n \<le> room s" "k \<le> length (is_events sv s)" "\<forall>h. flushes h (drop k (is_events sv s)) = cnt h"
      "enabled s = en" "case c of None \<Rightarrow> True | Some c \<Rightarrow> open_channel s c" "\<not> vs_failed st"
      by (simp_all add: holds_def Let_def)
    show ?thesis
      using assms(2) [OF s(1) h(1-5)] by (rule returns_mono) (auto simp: holds_def Let_def h(6))
  qed
  then show ?thesis unfolding vts_call_def
    by (auto intro!: returns_mono [OF background [OF inv]] simp: case_prod_unfold)
qed

lemma holds_handles [simp]:
  "holds n k cnt en c (st\<lparr>vs_mSensorHandles := hs\<rparr>) = holds n k cnt en c st"
  "holds n k cnt en c (st\<lparr>vs_mDirectChannelHandles := hs\<rparr>) = holds n k cnt en c st"
  by (simp_all add: holds_def Let_def)

lemma holds_forget: "holds n k cnt en c st \<Longrightarrow> holds n k cnt en None st"
  by (simp add: holds_def Let_def)

lemma known_bosch: "holds n k cnt en c st \<Longrightarrow> list_all bosch_info infos \<and> distinct (map si_sensorHandle infos)"
  by (auto simp: holds_def Let_def dest: bosch)

text \<open>What a call that keeps everything leaves.\<close>

lemma keeps_post:
  assumes "keeps s s'" "n \<le> room s" "k \<le> length (is_events sv s)"
    "\<forall>h. flushes h (drop k (is_events sv s)) = cnt h" "enabled s = en"
    "case c of None \<Rightarrow> True | Some c \<Rightarrow> open_channel s c"
  shows "n \<le> room s' \<and> k \<le> length (is_events sv s') \<and> (\<forall>h. flushes h (drop k (is_events sv s')) = cnt h)
    \<and> enabled s' = en \<and> (case c of None \<Rightarrow> True | Some c \<Rightarrow> open_channel s' c)"
  using assms quiet_flushes [of "is_events sv s" "is_events sv s'" k] keepsD [OF assms(1)]
  by (auto split: option.splits)

lemma keeping_call:
  assumes "holds n k cnt en c st"
    and "\<And>s. inv s \<Longrightarrow> enabled s = en \<Longrightarrow> (case c of None \<Rightarrow> True | Some c \<Rightarrow> open_channel s c) \<Longrightarrow>
           returns (f s) (\<lambda>(r, s'). P r \<and> inv s' \<and> keeps s s')"
  shows "returns (vts_call sv f st) (\<lambda>(r, st'). P r \<and> holds n k cnt en c st')"
  by (rule call_returns [where c' = "\<lambda>_. c", OF assms(1)])
     (rule returns_mono [OF assms(2)], auto dest: keeps_post)

lemma list_call:
  assumes "holds n k cnt en c st"
  shows "returns (vts_call sv (\<lambda>s. Inr (is_getSensorsList sv s, s)) st)
      (\<lambda>(r, st'). r = (ok, infos) \<and> holds n k cnt en c st')"
  by (rule call_returns [where c' = "\<lambda>_. c", OF assms]) (auto simp: listed split: option.splits)

lemma activate_returns:
  assumes "holds n k cnt en c st" "h \<in> si_sensorHandle ` set infos"
  shows "returns (vts_activate sv h b st) (\<lambda>(status, st'). status = ok \<and> holds n k cnt (en(h := b)) c st')"
proof -
  have "returns (vts_call sv (is_activate sv h b) st')
      (\<lambda>(status, st'). status = ok \<and> holds n k cnt (en(h := b)) c st')" if "holds n k cnt en c st'" for st'
    by (rule call_returns [where c' = "\<lambda>_. c", OF that])
       (rule returns_mono [OF activate [OF _ assms(2)]], auto dest: quiet_flushes split: option.splits)
  then show ?thesis using assms(1) by (simp add: vts_activate_def)
qed

lemma activate_unknown_returns:
  assumes "holds n k cnt en c st" "h \<notin> si_sensorHandle ` set infos"
  shows "returns (vts_activate sv h b st) (\<lambda>(status, st'). status = bad \<and> holds n k cnt en c st')"
proof -
  have "returns (vts_call sv (is_activate sv h b) st')
      (\<lambda>(status, st'). status = bad \<and> holds n k cnt en c st')" if "holds n k cnt en c st'" for st'
    by (rule call_returns [where c' = "\<lambda>_. c", OF that]) (simp add: activate_unknown [OF _ assms(2)])
  then show ?thesis using assms(1) by (simp add: vts_activate_def)
qed

lemma batch_returns:
  assumes "holds n k cnt en c st"
  shows "returns (vts_batch sv h p 0 st) (\<lambda>(status, st').
     status = (if h \<in> si_sensorHandle ` set infos then ok else bad)
     \<and> holds n k cnt en c st')"
  unfolding vts_batch_def by (rule keeping_call [OF assms]) (rule batch)

lemma flush_on_returns:
  assumes "holds n k cnt en c st" "h \<in> si_sensorHandle ` set infos" "en h"
  shows "returns (vts_flush sv h st) (\<lambda>(status, st'). status = ok \<and> holds n k (cnt(h := Suc (cnt h))) en c st')"
  unfolding vts_flush_def
proof (rule call_returns [where c' = "\<lambda>_. c", OF assms(1)])
  fix s assume s: "inv s" "n \<le> room s" "k \<le> length (is_events sv s)" "\<forall>h. flushes h (drop k (is_events sv s)) = cnt h"
    "enabled s = en" "case c of None \<Rightarrow> True | Some c \<Rightarrow> open_channel s c"
  have "enabled s h" using s(5) assms(3) by simp
  from flush_on [OF s(1) assms(2) this] s(2-6)
  show "returns (is_flush sv h s) (\<lambda>(r, s'). r = ok \<and> inv s' \<and> n \<le> room s' \<and> k \<le> length (is_events sv s')
      \<and> (\<forall>h'. flushes h' (drop k (is_events sv s')) = (cnt(h := Suc (cnt h))) h') \<and> enabled s' = en
      \<and> (case c of None \<Rightarrow> True | Some c \<Rightarrow> open_channel s' c))"
    by (elim returns_mono) (auto split: option.splits)
qed

lemma flush_off_returns:
  assumes "holds n k cnt en c st" "h \<in> si_sensorHandle ` set infos" "\<not> en h"
  shows "returns (vts_flush sv h st) (\<lambda>(status, st'). status = bad_flush \<and> holds n k cnt en c st')"
  unfolding vts_flush_def using assms(3) by (intro keeping_call [OF assms(1)] flush_off [OF _ assms(2)]) auto

lemma injection_returns:
  assumes "holds n k cnt en c st" "infos \<noteq> []"
  shows "returns (vts_setOperationMode sv OM_DATA_INJECTION st)
      (\<lambda>(status, st'). status = bad \<and> holds n k cnt en c st')"
  unfolding vts_setOperationMode_def
  by (rule call_returns [where c' = "\<lambda>_. c", OF assms(1)]) (simp add: injection [OF _ assms(2)])

lemma register_call:
  assumes "holds (Suc n) k cnt en c st" "good_memory mem"
  shows "returns (vts_call sv (is_registerDirectChannel sv mem) st) (\<lambda>(r, st').
      (\<exists>c. r = (ok, Some c) \<and> 0 < c \<and> list_all (\<lambda>b. b = 0) (is_memory sv (vs_service st') c (replicate kEventSize 0xFF)))
      \<and> holds n k cnt en (snd r) st')"
proof (rule call_returns [where c' = snd and P = "\<lambda>r s'. \<exists>c. r = (ok, Some c) \<and> 0 < c
      \<and> list_all (\<lambda>b. b = 0) (is_memory sv s' c (replicate kEventSize 0xFF))", OF assms(1)])
  fix s assume s: "inv s" "Suc n \<le> room s" "k \<le> length (is_events sv s)"
    "\<forall>h. flushes h (drop k (is_events sv s)) = cnt h" "enabled s = en"
  from register [OF s(1) _ assms(2)] s(2)
  have "returns (is_registerDirectChannel sv mem s)
     (\<lambda>((status, ret), s'). \<exists>c. status = ok \<and> ret = Some c \<and> 0 < c \<and> inv s' \<and> open_channel s' c
        \<and> enabled s' = enabled s \<and> room s = Suc (room s') \<and> quiet (is_events sv s) (is_events sv s')
        \<and> list_all (\<lambda>b. b = 0) (is_memory sv s' c (replicate kEventSize 0xFF)))" by simp
  then show "returns (is_registerDirectChannel sv mem s) (\<lambda>(r, s'). (\<exists>c. r = (ok, Some c) \<and> 0 < c
      \<and> list_all (\<lambda>b. b = 0) (is_memory sv s' c (replicate kEventSize 0xFF)))
      \<and> inv s' \<and> n \<le> room s' \<and> k \<le> length (is_events sv s')
      \<and> (\<forall>h. flushes h (drop k (is_events sv s')) = cnt h) \<and> enabled s' = en
      \<and> (case snd r of None \<Rightarrow> True | Some c \<Rightarrow> open_channel s' c))"
    using s(2-5) by (elim returns_mono) (auto dest: quiet_flushes)
qed

lemma config_call:
  assumes "holds n k cnt en (Some c) st" "info \<in> set infos" "rate \<in> {RL_STOP, RL_NORMAL, RL_FAST, RL_VERY_FAST}"
  shows "returns (vts_call sv (is_configDirectReport sv (si_sensorHandle info) c rate) st) (\<lambda>(r, st').
      (if isDirectReportRateSupported info rate then fst r = ok \<and> (\<exists>t. snd r = Some t \<and> 0 < t)
       else fst r = bad) \<and> holds n k cnt en (Some c) st')"
  by (rule keeping_call [OF assms(1)])
     (rule returns_mono [OF config [OF _ _ assms(2,3)]], auto)

lemma config_all_call:
  assumes "holds n k cnt en (Some c) st"
  shows "returns (vts_call sv (is_configDirectReport sv (-1) c rate) st) (\<lambda>(r, st').
      fst r = (if rate = RL_STOP then ok else bad) \<and> holds n k cnt en (Some c) st')"
  by (rule keeping_call [OF assms]) (rule returns_mono [OF config_all], auto)

lemma flush_unknown_returns:
  assumes "holds n k cnt en c st" "h \<notin> si_sensorHandle ` set infos"
  shows "returns (vts_flush sv h st) (\<lambda>(status, st'). status = bad \<and> holds n k cnt en c st')"
  unfolding vts_flush_def
  by (rule call_returns [where c' = "\<lambda>_. c", OF assms(1)]) (simp add: flush_unknown [OF _ assms(2)])

lemma unregister_call:
  assumes "holds n k cnt en (Some c) st"
  shows "returns (vts_call sv (is_unregisterDirectChannel sv c) st) (\<lambda>(status, st'). status = ok \<and> holds n k cnt en None st')"
  by (rule call_returns [where c' = "\<lambda>_. None", OF assms])
     (rule returns_mono [OF unregister], auto dest: quiet_flushes)

text \<open>The same without the flushes.\<close>

definition okay :: "nat \<Rightarrow> 's vts \<Rightarrow> bool" where
  "okay n st \<longleftrightarrow> inv (vs_service st) \<and> \<not> vs_failed st \<and> n \<le> room (vs_service st)"

lemma okay_holds: "okay n st \<Longrightarrow> holds n (length (is_events sv (vs_service st))) (\<lambda>_. 0) (enabled (vs_service st)) None st"
  by (simp add: okay_def holds_def Let_def)

lemma holds_okay: "holds n k cnt en c st \<Longrightarrow> okay n st"
  by (simp add: okay_def holds_def Let_def)

lemma okay_less: "okay n st \<Longrightarrow> m \<le> n \<Longrightarrow> okay m st"
  by (simp add: okay_def)

lemma okay_handles [simp]:
  "okay n (st\<lparr>vs_mSensorHandles := hs\<rparr>) = okay n st" "okay n (st\<lparr>vs_mDirectChannelHandles := hs\<rparr>) = okay n st"
  by (simp_all add: okay_def)

lemma okay_bosch: "okay n st \<Longrightarrow> i \<in> set infos \<Longrightarrow> bosch_info i"
  using bosch by (auto simp: okay_def list_all_iff)

lemma okay_list: "okay n st \<Longrightarrow> returns (vts_call sv (\<lambda>s. Inr (is_getSensorsList sv s, s)) st)
    (\<lambda>(r, st'). r = (ok, infos) \<and> okay n st')"
  using list_call [OF okay_holds] by (rule returns_mono) (auto dest: holds_okay)

lemma okay_activate: "okay n st \<Longrightarrow> returns (vts_activate sv h b st) (\<lambda>(status, st').
    status = (if h \<in> si_sensorHandle ` set infos then ok else bad) \<and> okay n st')"
  using activate_returns [OF okay_holds, of n st h b] activate_unknown_returns [OF okay_holds, of n st h b]
  by (cases "h \<in> si_sensorHandle ` set infos") (auto elim!: returns_mono dest: holds_okay)

lemma okay_batch: "okay n st \<Longrightarrow> returns (vts_batch sv h p 0 st) (\<lambda>(status, st').
    status = (if h \<in> si_sensorHandle ` set infos then ok else bad) \<and> okay n st')"
  using batch_returns [OF okay_holds, of n st h p] by (rule returns_mono) (auto dest: holds_okay)

lemma okay_mode: "okay n st \<Longrightarrow> infos \<noteq> [] \<Longrightarrow>
    returns (vts_setOperationMode sv OM_DATA_INJECTION st) (\<lambda>(status, st'). status = bad \<and> okay n st')"
  using injection_returns [OF okay_holds] by (rule returns_mono) (auto dest: holds_okay)

lemma okay_call:
  assumes "okay n st" "\<And>s. inv s \<Longrightarrow> n \<le> room s \<Longrightarrow> returns (f s) (\<lambda>(r, s'). P r \<and> inv s' \<and> n \<le> room s')"
  shows "returns (vts_call sv f st) (\<lambda>(r, st'). P r \<and> okay n st')"
proof -
  have s: "inv (vs_service st)" "n \<le> room (vs_service st)" "\<not> vs_failed st" using assms(1) by (simp_all add: okay_def)
  have "returns (f s') (\<lambda>(r, s''). P r \<and> okay n (st\<lparr>vs_service := s'', vs_calls := m\<rparr>))"
    if "inv s'" "keeps (vs_service st) s'" for s' m
    using assms(2) [OF that(1)] s keepsD [OF that(2)] by (auto simp: okay_def elim!: returns_mono)
  then show ?thesis unfolding vts_call_def
    by (auto intro!: returns_mono [OF background [OF s(1)]] simp: case_prod_unfold)
qed

lemma no_special_sensors:
  assumes "okay n st"
  shows "getInjectEventSensors infos = []" "getOneShotSensors infos = []" "getNonOneShotSensors infos = infos"
  using okay_bosch [OF assms] bosch_info_facts
  by (auto simp: getInjectEventSensors_def getOneShotSensors_def getNonOneShotSensors_def FLAG_ONE_SHOT_MODE_def
      filter_empty_conv filter_id_conv)

lemma flush_calls_returns:
  assumes "holds n k cnt en c st" "h \<in> si_sensorHandle ` set infos" "en h = b" "expected (if b then ok else bad_flush)"
  shows "returns (flush_calls sv h expected m st) (holds n k (cnt(h := cnt h + (if b then m else 0))) en c)"
  using assms(1)
proof (induction m arbitrary: cnt st)
  case (Suc m)
  show ?case
  proof (cases b)
    case True
    have "returns (flush_calls sv h expected m st') (holds n k (cnt(h := cnt h + Suc m)) en c)"
      if "holds n k (cnt(h := Suc (cnt h))) en c st'" for st'
    proof -
      have e: "(cnt(h := Suc (cnt h)))(h := (cnt(h := Suc (cnt h))) h + (if b then m else 0)) = cnt(h := cnt h + Suc m)"
        using True by auto
      from Suc.IH [OF that, unfolded e] True show ?thesis by (simp add: fun_upd_def)
    qed
    then show ?thesis
      using True assms(2-4) Suc.prems by (auto simp: fun_upd_def intro!: returns_mono [OF flush_on_returns])
  next
    case False
    then show ?thesis
      using assms(2-4) False Suc.prems Suc.IH by (auto intro!: returns_mono [OF flush_off_returns])
  qed
qed simp

lemma check_counts_pass:
  "\<forall>i\<in>set sensors. EventCallback_getFlushCount (si_sensorHandle i) callback = e \<Longrightarrow> check_counts callback e sensors st = st"
  by (induction sensors) auto

lemma flush_run_returns:
  assumes "okay n st" "m < 2 ^ 31" "expected (if b then ok else bad_flush)"
  shows "returns (flush_run sv period expected infos b m (if b then int m else 0) st) (okay n)"
proof -
  let ?k = "length (is_events sv (vs_service st))"
  let ?e = "if b then m else 0"
  define cnt where "cnt = (\<lambda>done h. if h \<in> si_sensorHandle ` set (done :: SensorInfo list) then ?e else 0)"
  define I where "I = (\<lambda>xs st. \<exists>done en. infos = done @ xs \<and> holds n ?k (cnt done) en None st)"
  define J where "J = (\<lambda>xs st. set xs \<subseteq> set infos \<and> (\<exists>en. holds n ?k (cnt infos) en None st))"
  have dist: "distinct (map si_sensorHandle infos)" using known_bosch [OF okay_holds [OF assms(1)]] by simp
  have start: "I infos st"
    using okay_holds [OF assms(1)] by (auto simp: I_def cnt_def intro!: exI [of _ "[]"])
  have step: "returns (and_then (vts_batch sv (si_sensorHandle x) (period x) 0 st) (\<lambda>(_, st).
           and_then (vts_activate sv (si_sensorHandle x) b st) (\<lambda>(_, st).
           flush_calls sv (si_sensorHandle x) expected m st))) (I xs)" if pre: "I (x # xs) st" for x xs st
  proof -
    obtain dn en where d: "infos = dn @ x # xs" and h: "holds n ?k (cnt dn) en None st" using pre by (auto simp: I_def)
    let ?h = "si_sensorHandle x"
    have x: "?h \<in> si_sensorHandle ` set infos" "?h \<notin> si_sensorHandle ` set dn" using d dist by auto
    have "(cnt dn)(?h := cnt dn ?h + ?e) = cnt (dn @ [x])" using x(2) by (auto simp: cnt_def)
    then have "returns (flush_calls sv ?h expected m st') (I xs)" if "holds n ?k (cnt dn) (en(?h := b)) None st'" for st'
      using flush_calls_returns [OF that x(1), where b = b and m = m and expected = expected] assms(3) d
      by (auto elim!: returns_mono simp: I_def intro!: exI [of _ "dn @ [x]"])
    then show ?thesis using h x(1)
      by (auto intro!: returns_mono [OF batch_returns] returns_mono [OF activate_returns])
  qed
  have off: "returns (and_then (vts_activate sv (si_sensorHandle x) False st) (\<lambda>(_, st). Inr st)) (J xs)"
    if "J (x # xs) st" for x xs st
    using that by (auto simp: J_def intro!: returns_mono [OF activate_returns])
  have final: "check_counts (callback_since sv ?k st) (if b then int m else 0) infos st = st \<and> okay n st" if pre: "J [] st" for st
  proof -
    obtain en where h: "holds n ?k (cnt infos) en None st" using pre by (auto simp: J_def)
    have "EventCallback_getFlushCount (si_sensorHandle i) (callback_since sv ?k st) = (if b then int m else 0)"
      if "i \<in> set infos" for i
      using h that assms(2) i32_id [of "int m"] i32_id [of 0]
      by (simp add: callback_flushCount holds_def Let_def cnt_def image_iff) fastforce
    then show ?thesis using h by (auto intro: check_counts_pass holds_okay)
  qed
  have mid: "J infos st" if "I [] st" for st using that by (auto simp: I_def J_def)
  have "returns (fold_exc (\<lambda>sensor st. and_then (vts_activate sv (si_sensorHandle sensor) False st) (\<lambda>(_, st). Inr st)) infos st1)
      (\<lambda>st2. okay n (check_counts (callback_since sv ?k st2) (if b then int m else 0) infos st2))" if "I [] st1" for st1
    by (rule returns_mono [OF returns_fold [where I = J, OF mid [OF that] off]]) (use final in auto)
  then show ?thesis unfolding flush_run_def Let_def returns_and_then returns_Inr
    by (intro returns_mono [OF returns_fold [where I = I, OF start step]])
qed

text \<open>Flushing a sensor that does not exist.\<close>

lemma flush_calls_unknown:
  assumes "holds n k cnt en c st" "h \<notin> si_sensorHandle ` set infos" "expected bad"
  shows "returns (flush_calls sv h expected m st) (holds n k cnt en c)"
  using assms(1)
  by (induction m arbitrary: st) (auto simp: assms(3) intro!: returns_mono [OF flush_unknown_returns [OF _ assms(2)]])

lemma flush_run_unknown:
  assumes "okay n st" "si_sensorHandle x \<notin> si_sensorHandle ` set infos" "expected bad"
  shows "returns (flush_run sv period expected [x] False m 0 st) (okay n)"
proof -
  let ?k = "length (is_events sv (vs_service st))"
  have final: "okay n (check_counts (callback_since sv ?k st') 0 [x] st')" if "holds n ?k (\<lambda>_. 0) en None st'" for st' en
    using that i32_id [of 0] by (simp add: callback_flushCount holds_def okay_def Let_def)
  then show ?thesis unfolding flush_run_def Let_def
    by (auto simp del: check_counts.simps
        intro!: returns_mono [OF batch_returns [OF okay_holds [OF assms(1)]]] returns_mono [OF activate_unknown_returns]
        returns_mono [OF flush_calls_unknown] final assms(2,3))
qed

end

end
