(* ===== verification/Vts_Suite.thy ===== *)
theory Vts_Suite
  imports Vts_Contract
begin

text \<open>
  The tests of theory \<open>Vts_Target\<close>, verified against the contract: once for every implementation of the AIDL
  interface.
\<close>

locale aidl_contract =
  isensors_contract sv inv infos enabled open_channel room good_memory keeps
    Aidl_ok "Aidl_exception EX_ILLEGAL_ARGUMENT" "Aidl_service_specific ERROR_BAD_VALUE"
  for sv :: "('s, aidl_status) isensors" and inv infos enabled open_channel room good_memory keeps
begin

text \<open>The calls of the fixture.\<close>

lemma getSensorsList_returns: "okay n st \<Longrightarrow> returns (vts_getSensorsList sv st) (\<lambda>(l, st'). l = infos \<and> okay n st')"
  unfolding vts_getSensorsList_def by (auto intro!: returns_mono [OF okay_list])

lemma register_returns:
  assumes "holds (Suc n) k cnt en c st" "good_memory mem"
  shows "returns (vts_registerDirectChannel sv junk mem st) (\<lambda>((status, c'), st'). status = Aidl_ok \<and> 0 < c'
     \<and> holds n k cnt en (Some c') st' \<and> list_all (\<lambda>b. b = 0) (is_memory sv (vs_service st') c' (replicate kEventSize 0xFF)))"
  unfolding vts_registerDirectChannel_def using register_call [OF assms] by (auto simp: Let_def elim!: returns_mono)

lemma config_returns:
  assumes "holds n k cnt en (Some c) st" "info \<in> set infos" "rate \<in> {RL_STOP, RL_NORMAL, RL_FAST, RL_VERY_FAST}"
  shows "returns (vts_configDirectReport sv (si_sensorHandle info) c rate token st) (\<lambda>((status, token'), st').
     (if isDirectReportRateSupported info rate then status = Aidl_ok \<and> 0 < token'
      else status = Aidl_exception EX_ILLEGAL_ARGUMENT) \<and> holds n k cnt en (Some c) st')"
  unfolding vts_configDirectReport_def using config_call [OF assms] by (auto elim!: returns_mono split: if_splits)

lemma config_all_returns:
  assumes "holds n k cnt en (Some c) st"
  shows "returns (vts_configDirectReport sv (-1) c rate token st) (\<lambda>((status, token'), st').
     status = (if rate = RL_STOP then Aidl_ok else Aidl_exception EX_ILLEGAL_ARGUMENT) \<and> holds n k cnt en (Some c) st')"
  unfolding vts_configDirectReport_def using config_all_call [OF assms, of rate] by (auto elim!: returns_mono)

lemma unregister_returns:
  assumes "holds n k cnt en (Some c) st"
  shows "returns (vts_unregisterDirectChannel sv c st) (\<lambda>(status, st'). status = Aidl_ok \<and> holds n k cnt en None st')"
  unfolding vts_unregisterDirectChannel_def using unregister_call [OF assms] by (auto elim!: returns_mono)

lemma okay_invalid: "okay n st \<Longrightarrow>
    returns (getInvalidSensorHandle sv st) (\<lambda>(h, st'). h \<notin> si_sensorHandle ` set infos \<and> okay n st')"
proof -
  assume ok: "okay n st"
  let ?m = "fold (\<lambda>sensor m. max m (si_sensorHandle sensor)) infos 0"
  have "\<forall>i\<in>set infos. si_sensorHandle i \<le> 2 ^ 30" using okay_bosch [OF ok] by (auto simp: bosch_info_def)
  then have "0 \<le> ?m \<and> ?m \<le> 2 ^ 30" using max_handle [where m = 0 and l = infos] by auto
  then have "i32 (?m + 1) = ?m + 1" by (intro i32_id) auto
  moreover have "si_sensorHandle i \<le> ?m" if "i \<in> set infos" for i
    using max_handle [where m = 0 and l = infos] that by auto
  then have "?m + 1 \<notin> si_sensorHandle ` set infos" by force
  ultimately show ?thesis unfolding getInvalidSensorHandle_def
    by (auto intro!: returns_mono [OF getSensorsList_returns [OF ok]])
qed

lemma okay_activateAll: "okay n st \<Longrightarrow> returns (activateAllSensors sv b st) (okay n)"
proof -
  assume ok: "okay n st"
  define I where "I = (\<lambda>xs st. set xs \<subseteq> set infos \<and> okay n st)"
  have "returns (fold_exc (\<lambda>sensorInfo st.
         if isValidType (si_type sensorInfo)
         then and_then (vts_batch sv (si_sensorHandle sensorInfo) (si_minDelay sensorInfo) 0 st) (\<lambda>(status, st).
              and_then (vts_activate sv (si_sensorHandle sensorInfo) b (checkIsOk status st)) (\<lambda>(status, st).
              Inr (checkIsOk status st)))
         else Inr st) infos st1) (okay n)" if "okay n st1" for st1
  proof (rule returns_mono [OF returns_fold [where I = I]])
    show "I infos st1" using that by (simp add: I_def)
  qed (auto simp: I_def intro!: returns_mono [OF okay_batch] returns_mono [OF okay_activate])
  then show ?thesis unfolding activateAllSensors_def by (auto intro!: returns_mono [OF getSensorsList_returns [OF ok]])
qed

lemma passes_Activate:
  assumes "okay n st"
  shows "returns (test_Activate sv st) (okay n)"
proof -
  define I where "I = (\<lambda>xs st. set xs \<subseteq> set infos \<and> okay n st)"
  have loop: "returns (fold_exc (\<lambda>sensor st.
             let h = si_sensorHandle sensor in
             and_then (vts_batch sv h (si_minDelay sensor) 0 st) (\<lambda>(status, st).
             and_then (vts_activate sv h True (checkIsOk status st)) (\<lambda>(status, st).
             and_then (vts_activate sv h True (checkIsOk status st)) (\<lambda>(status, st).
             and_then (vts_activate sv h False (checkIsOk status st)) (\<lambda>(status, st).
             and_then (vts_activate sv h False (checkIsOk status st)) (\<lambda>(status, st).
             Inr (checkIsOk status st))))))) infos st1) (okay n)" if "okay n st1" for st1
  proof (rule returns_mono [OF returns_fold [where I = I]])
    show "I infos st1" using that by (simp add: I_def)
  qed (auto simp: I_def Let_def intro!: returns_mono [OF okay_batch] returns_mono [OF okay_activate])
  show ?thesis unfolding test_Activate_def
    by (auto intro!: returns_mono [OF getSensorsList_returns] returns_mono [OF loop] returns_mono [OF okay_invalid]
        returns_mono [OF okay_activate] assms)
qed

lemma passes_Batch:
  assumes "okay n st"
  shows "returns (test_Batch sv st) (okay n)"
proof -
  define I where "I = (\<lambda>xs st. set xs \<subseteq> set infos \<and> okay n st)"
  have loop: "returns (fold_exc (\<lambda>sensor st.
             let samplingPeriodNs =
                   (if extractReportMode (si_flags sensor) = FLAG_ONE_SHOT_MODE then 0 else si_minDelay sensor) in
             and_then (vts_batch sv (si_sensorHandle sensor) samplingPeriodNs 0 st) (\<lambda>(status, st).
             and_then (vts_activate sv (si_sensorHandle sensor) True (checkIsOk status st)) (\<lambda>(_, st).
             and_then (vts_batch sv (si_sensorHandle sensor) (si_maxDelay sensor) 0 st) (\<lambda>(status, st).
             Inr (checkIsOk status st))))) infos st1) (okay n)" if "okay n st1" for st1
  proof (rule returns_mono [OF returns_fold [where I = I]])
    show "I infos st1" using that by (simp add: I_def)
  qed (auto simp: I_def Let_def intro!: returns_mono [OF okay_batch] returns_mono [OF okay_activate])
  show ?thesis unfolding test_Batch_def
    by (auto intro!: returns_mono [OF getSensorsList_returns] returns_mono [OF okay_activateAll] returns_mono [OF loop [unfolded Let_def]]
        returns_mono [OF okay_invalid] returns_mono [OF okay_batch] assms)
qed

lemma passes_SetOperationMode:
  assumes "okay n st" "infos \<noteq> []"
  shows "returns (test_SetOperationMode sv st) (okay n)"
proof -
  note mode = okay_mode [OF _ assms(2)]
  show ?thesis unfolding test_SetOperationMode_def
    by (auto simp: no_special_sensors Let_def intro!: returns_mono [OF getSensorsList_returns] returns_mono [OF mode] assms(1))
qed

lemma passes_Inject: "okay n st \<Longrightarrow> returns (test_InjectSensorEventData sv now st) (okay n)"
  unfolding test_InjectSensorEventData_def
  by (auto simp: no_special_sensors Let_def intro!: returns_mono [OF getSensorsList_returns])

lemma passes_FlushOneShot: "okay n st \<Longrightarrow> returns (test_FlushOneShotSensor sv st) (okay n)"
  unfolding test_FlushOneShotSensor_def
  by (auto simp: no_special_sensors Let_def intro!: returns_mono [OF getSensorsList_returns])

lemma passes_list_test: "okay n st \<Longrightarrow> check infos \<Longrightarrow> returns (list_test sv check st) (okay n)"
  unfolding list_test_def by (auto intro!: returns_mono [OF getSensorsList_returns])

lemma passes_flush_run:
  assumes "okay n st" "m < 2 ^ 31"
  shows "returns (runFlushTest sv infos b m (if b then int m else 0) b st) (okay n)"
  unfolding runFlushTest_def by (rule flush_run_returns [OF assms]) simp

lemma passes_FlushSensor:
  assumes "okay n st"
  shows "returns (test_FlushSensor sv st) (okay n)"
proof -
  have 1: "returns (runFlushTest sv infos True 1 1 True st) (okay n)" if "okay n st" for st
    using passes_flush_run [OF that, of 1 True] by simp
  have 5: "returns (runFlushTest sv infos True 5 5 True st) (okay n)" if "okay n st" for st
    using passes_flush_run [OF that, of 5 True] by simp
  show ?thesis
    unfolding test_FlushSensor_def runSingleFlushTest_def
    by (auto simp: no_special_sensors Let_def simp del: One_nat_def
        intro!: returns_mono [OF getSensorsList_returns] returns_mono [OF 1] 5 assms)
qed

lemma passes_FlushInactive: "okay n st \<Longrightarrow> returns (test_FlushInactiveSensor sv st) (okay n)"
  unfolding test_FlushInactiveSensor_def runSingleFlushTest_def
  using passes_flush_run [of n _ 1 False]
  by (auto simp: no_special_sensors getOneShotSensors_def Let_def simp del: One_nat_def intro!: returns_mono [OF getSensorsList_returns])

lemma rate_level_returns:
  assumes "holds n k cnt en (Some c) st" "info \<in> set infos" "rate \<in> {RL_STOP, RL_NORMAL, RL_FAST, RL_VERY_FAST}"
  shows "returns (checkRateLevel sv info c rate token st) (\<lambda>(token', st'). holds n k cnt en (Some c) st')"
  unfolding checkRateLevel_def
  by (auto intro!: returns_mono [OF config_returns [OF assms]] split: if_splits)

lemma configure_returns:
  assumes "holds n k cnt en (Some c) st" "info \<in> set infos"
  shows "returns (verifyConfigure sv info MT_ASHMEM c True st) (holds n k cnt en (Some c))"
proof -
  have "isDirectChannelTypeSupported info MT_ASHMEM"
    using known_bosch [OF assms(1)] assms(2) by (auto simp: list_all_iff bosch_info_facts)
  then show ?thesis
    using assms unfolding verifyConfigure_def
    by (auto intro!: returns_mono [OF rate_level_returns] returns_mono [OF config_all_returns])
qed

lemma query_loop:
  assumes "list_all bosch_info l"
  shows "queryDirectChannelSupport_loop MT_ASHMEM l (False, False) = (l \<noteq> [], l \<noteq> [])"
    "fst (queryDirectChannelSupport_loop MT_GRALLOC l (False, b)) = False"
proof -
  show "queryDirectChannelSupport_loop MT_ASHMEM l (False, False) = (l \<noteq> [], l \<noteq> [])"
    using assms by (cases l) (simp_all add: bosch_info_facts)
  show "fst (queryDirectChannelSupport_loop MT_GRALLOC l (False, b)) = False"
    using assms by (induction l arbitrary: b) (simp_all add: bosch_info_facts)
qed

lemma query_returns:
  assumes "okay n st"
  shows "returns (queryDirectChannelSupport sv MT_ASHMEM st) (\<lambda>(r, st'). r = (infos \<noteq> [], infos \<noteq> []) \<and> okay n st')"
    "returns (queryDirectChannelSupport sv MT_GRALLOC st) (\<lambda>(r, st'). \<not> fst r \<and> okay n st')"
proof -
  have l: "list_all bosch_info infos" using okay_bosch [OF assms] by (simp add: list_all_iff)
  show "returns (queryDirectChannelSupport sv MT_ASHMEM st) (\<lambda>(r, st'). r = (infos \<noteq> [], infos \<noteq> []) \<and> okay n st')"
    "returns (queryDirectChannelSupport sv MT_GRALLOC st) (\<lambda>(r, st'). \<not> fst r \<and> okay n st')"
    unfolding queryDirectChannelSupport_def
    by (auto simp: query_loop [OF l] intro!: returns_mono [OF getSensorsList_returns [OF assms]])
qed

lemma passes_Gralloc: "okay n st \<Longrightarrow> returns (verifyDirectChannel sv mo junk MT_GRALLOC st) (okay n)"
  unfolding verifyDirectChannel_def by (auto intro!: returns_mono [OF query_returns(2)])

lemma register_test_returns:
  assumes "okay (Suc n) st" "good_memory (SensorsAidlTestSharedMemory_getSharedMemInfo mem)" "tm_mSize mem = kEventSize"
    and "tm_mBuffer mem = Buffer bs"
  shows "returns (verifyRegisterDirectChannel sv junk mem 0 True True st)
     (\<lambda>(c, st'). \<exists>k cnt en. holds n k cnt en (Some c) st')"
  unfolding verifyRegisterDirectChannel_def
  by (auto simp: assms(3,4) intro!: returns_mono [OF register_returns [OF okay_holds [OF assms(1)] assms(2)]]) blast

lemma passes_Ashmem:
  assumes "okay (length infos + n) st"
    and "SensorsAidlTestSharedMemory_create mo (junk \<noteq> 0) MT_ASHMEM kEventSize = Some mem"
    and "good_memory (SensorsAidlTestSharedMemory_getSharedMemInfo mem)" "tm_mSize mem = kEventSize"
    and "tm_mBuffer mem = Buffer bs"
  shows "returns (verifyDirectChannel sv mo junk MT_ASHMEM st) (okay n)"
proof -
  define I where "I = (\<lambda>xs st. set xs \<subseteq> set infos \<and> okay (length xs + n) st)"
  have step: "returns (and_then (verifyRegisterDirectChannel sv junk mem 0 True True st) (\<lambda>(c, st).
      and_then (verifyConfigure sv x MT_ASHMEM c True st) (\<lambda>st. verifyUnregisterDirectChannel sv c True st))) (I xs)"
    if "I (x # xs) st" for x xs st
  proof -
    have st: "okay (Suc (length xs + n)) st" "x \<in> set infos" "set xs \<subseteq> set infos" using that by (simp_all add: I_def)
    have "returns (verifyUnregisterDirectChannel sv c True st') (I xs)"
      if "holds (length xs + n) k cnt en (Some c) st'" for k cnt en c st'
      unfolding verifyUnregisterDirectChannel_def
      using st(3) by (auto simp: I_def intro!: returns_mono [OF unregister_returns [OF that]] dest: holds_okay)
    then show ?thesis
      using st(2) by (auto intro!: returns_mono [OF register_test_returns [OF st(1) assms(3-5)]]
          returns_mono [OF configure_returns])
  qed
  have loop: "returns (fold_exc (\<lambda>sensor st.
      and_then (verifyRegisterDirectChannel sv junk mem 0 True True st) (\<lambda>(c, st).
      and_then (verifyConfigure sv sensor MT_ASHMEM c True st) (\<lambda>st. verifyUnregisterDirectChannel sv c True st))) infos st1)
      (okay n)" if "okay (length infos + n) st1" for st1
    by (rule returns_mono [OF returns_fold [where I = I, OF _ step]]) (use that in \<open>simp_all add: I_def\<close>)
  show ?thesis unfolding verifyDirectChannel_def
    by (auto simp: assms(2) intro!: returns_mono [OF query_returns(1) [OF assms(1)]] returns_mono [OF getSensorsList_returns] loop
        dest: okay_less)
qed

text \<open>Setting up and tearing down.\<close>

lemma stop_each_returns:
  "set l \<subseteq> set infos \<Longrightarrow> okay n st \<Longrightarrow> returns (stop_each sv l st) (\<lambda>(r, st'). r \<and> okay n st')"
proof (induction l arbitrary: st)
  case (Cons i l)
  have "returns (vts_call sv (is_activate sv (si_sensorHandle i) False) st) (\<lambda>(status, st'). status = Aidl_ok \<and> okay n st')"
    using Cons.prems(1) by (intro okay_call [OF Cons.prems(2)])
      (auto intro!: returns_mono [OF activate])
  then show ?case using Cons.prems(1) Cons.IH by (auto elim!: returns_mono)
qed simp

lemma reset_returns:
  assumes "okay n st"
  shows "returns (resetHal sv st) (\<lambda>(r, st'). r \<and> okay n st')"
proof -
  have init: "returns (vts_call sv (is_initialize sv) st) (\<lambda>(r, st'). True \<and> okay n st')"
    by (rule okay_call [OF assms]) (auto intro!: returns_mono [OF initialize])
  show ?thesis unfolding resetHal_def
    by (auto intro!: returns_mono [OF init] returns_mono [OF okay_list] stop_each_returns)
qed

lemma tear_down_returns:
  assumes "okay n st"
  shows "returns (vts_TearDown sv st) (okay n)"
proof -
  have "returns (fold_exc (\<lambda>h st. and_then (vts_activate sv h False st) (\<lambda>(_, st). Inr st)) hs st) (okay n)" for hs
    by (rule returns_mono [OF returns_fold [where I = "\<lambda>_. okay n"]])
       (auto intro!: assms returns_mono [OF okay_activate])
  then show ?thesis unfolding vts_TearDown_def by (auto elim!: returns_mono)
qed

text \<open>The suite passes.\<close>

lemma suite_passes:
  assumes "inv s" "infos \<noteq> []" "SensorListValid infos" "SensorListContainsBoschSensor infos" "ConfigCheck infos"
    and "SensorsAidlTestSharedMemory_create mo (junk \<noteq> 0) MT_ASHMEM kEventSize = Some mem"
    and "good_memory (SensorsAidlTestSharedMemory_getSharedMemInfo mem)" "tm_mBuffer mem = Buffer bs"
    and "length tests * length infos \<le> room s"
  shows "returns (vts_run sv mo junk now tests s) (\<lambda>st. \<not> vs_failed st)"
proof -
  define I where "I = (\<lambda>tests :: vts_test list. okay (length tests * length infos))"
  have size: "tm_mSize mem = kEventSize"
    using assms(6) by (auto simp: SensorsAidlTestSharedMemory_create_def Let_def split: if_splits)
  have body: "returns (vts_body sv mo junk now t st) (okay n)" if "okay (length infos + n) st" for t st n
  proof -
    have "okay n st" using that by (rule okay_less) simp
    then show ?thesis
      using passes_Ashmem [OF that assms(6,7) size assms(8)] assms(2-5)
      by (cases t) (auto intro: passes_Activate passes_Batch passes_SetOperationMode passes_Inject passes_FlushOneShot
          passes_FlushSensor passes_FlushInactive passes_list_test passes_Gralloc)
  qed
  have step: "returns (vts_run_test sv mo junk now t st) (I ts)" if "I (t # ts) st" for t ts st
  proof -
    have "okay (length infos + length ts * length infos) (st\<lparr>vs_mSensorHandles := [], vs_mDirectChannelHandles := []\<rparr>)"
      using that by (simp add: I_def)
    then show ?thesis unfolding vts_run_test_def
      by (auto simp: I_def intro!: returns_mono [OF reset_returns] returns_mono [OF body] tear_down_returns)
  qed
  have start: "I tests \<lparr>vs_service = s, vs_calls = 0, vs_failed = False, vs_mSensorHandles = [], vs_mDirectChannelHandles = []\<rparr>"
    using assms(1,9) by (simp add: I_def okay_def)
  show ?thesis unfolding vts_run_def
    by (rule returns_mono [OF returns_fold [where I = I, OF start step]]) (auto simp: I_def okay_def)
qed

end

end
