(* ===== verification/Vts_Ready.thy ===== *)
theory Vts_Ready
  imports Vts_Contract Sub_Events
begin

text \<open>
  What the calls of the compliance tests do to a service that lists Bosch's sensors, in the terms of the
  contract: which sensors are enabled, which channels are open, which flushes are reported. (On the HIDL
  service; the AIDL service is the same, call by call.)
\<close>

section \<open>What a call changes\<close>

definition enabled_sensor :: "('s, 'e, 'z) sensors_scheme \<Rightarrow> int \<Rightarrow> bool" where
  "enabled_sensor b h = (case sm_find h (ss_mSensors b) of Some s \<Rightarrow> hs_mIsEnabled s | None \<Rightarrow> False)"

definition listed_infos :: "('s, 'e, 'z) sensors_scheme \<Rightarrow> SensorInfo list" where
  "listed_infos b = map hs_mSensorInfo (sm_values (ss_mSensors b))"

definition has_channel :: "('s, 'e, 'z) sensors_scheme \<Rightarrow> int \<Rightarrow> bool" where
  "has_channel b c \<longleftrightarrow> sm_find c (ss_mDirectChannels b) \<noteq> None"

definition posted :: "sensor_output list \<Rightarrow> Event list" where
  "posted outs = concat (map fst (log_posts outs))"

lemma posted_simps [simp]:
  "posted [] = []" "posted (outs @ outs') = posted outs @ posted outs'"
  "posted (Post_events evs w # outs) = evs @ posted outs" "posted (Write_direct evs p # outs) = posted outs"
  by (simp_all add: posted_def)

lemma delivered:
  assumes "\<forall>evs. os_fmq_write os evs"
  shows "ss_mSensors (fold (deliver os busy) outs b) = ss_mSensors b
    \<and> ss_written (fold (deliver os busy) outs b) = ss_written b @ posted outs
    \<and> ss_mNextChannelHandle (fold (deliver os busy) outs b) = ss_mNextChannelHandle b
    \<and> map fst (ss_mDirectChannels (fold (deliver os busy) outs b)) = map fst (ss_mDirectChannels b)"
proof (induction outs arbitrary: b)
  case (Cons out outs)
  have "ss_mSensors (deliver os busy out b) = ss_mSensors b
    \<and> ss_written (deliver os busy out b) = ss_written b @ posted [out]
    \<and> ss_mNextChannelHandle (deliver os busy out b) = ss_mNextChannelHandle b
    \<and> map fst (ss_mDirectChannels (deliver os busy out b)) = map fst (ss_mDirectChannels b)"
  proof (cases out)
    case (Write_direct evs p)
    have "ss_mSensors (fold (\<lambda>event st. st\<lparr>ss_mDirectChannels := sm_map (f event) (ss_mDirectChannels st)\<rparr>) evs b) = ss_mSensors b
      \<and> ss_written (fold (\<lambda>event st. st\<lparr>ss_mDirectChannels := sm_map (f event) (ss_mDirectChannels st)\<rparr>) evs b) = ss_written b
      \<and> ss_mNextChannelHandle (fold (\<lambda>event st. st\<lparr>ss_mDirectChannels := sm_map (f event) (ss_mDirectChannels st)\<rparr>) evs b) = ss_mNextChannelHandle b
      \<and> map fst (ss_mDirectChannels (fold (\<lambda>event st. st\<lparr>ss_mDirectChannels := sm_map (f event) (ss_mDirectChannels st)\<rparr>) evs b))
        = map fst (ss_mDirectChannels b)" for f
      by (induction evs arbitrary: b) simp_all
    from this [of "\<lambda>event _. channel_event os p event"] Write_direct show ?thesis
      by (simp add: Sensors_writeToDirectBuffer_def)
  qed (use assms in \<open>simp add: Sensors_postEvents_def Let_def\<close>)
  then show ?case using Cons.IH [of "deliver os busy out b"] by (cases out) simp_all
qed simp

lemma keys_has_channel: "map fst m = map fst m' \<Longrightarrow> (sm_find c m = None) = (sm_find c m' = None)"
  unfolding sm_find_None_iff by (metis list.set_map)

text \<open>A call on one sensor that keeps its description.\<close>

lemma call_effect:
  fixes b :: "('s, 'e) sensors" and busy :: bool
  assumes "sm_ok (ss_mSensors b)" "sm_find h (ss_mSensors b) = Some s" "keeps_data f" "\<forall>evs. os_fmq_write os evs"
  defines "b' \<equiv> call_sensor os busy h s f b"
  shows "listed_infos b' = listed_infos b" "has_channel b' = has_channel b"
    "ss_mNextChannelHandle b' = ss_mNextChannelHandle b"
    "enabled_sensor b' = (enabled_sensor b)(h := hs_mIsEnabled (fst (f (s, sensor_env_of b))))"
    "ss_written b' = ss_written b @ posted (se_log (snd (f (s, sensor_env_of b))))"
proof -
  obtain s' e' where f: "f (s, sensor_env_of b) = (s', e')" by (meson surj_pair)
  have info: "hs_mSensorInfo s' = hs_mSensorInfo s" using keeps_dataD(2) [OF assms(3), of "(s, sensor_env_of b)"] f by simp
  let ?b = "b\<lparr>ss_mSensors := sm_put h s' (ss_mSensors b), ss_hal := se_hal e', ss_lastTemperature := se_lastTemperature e'\<rparr>"
  have b': "b' = fold (deliver os busy) (se_log e') ?b" by (simp add: b'_def call_sensor_def f)
  note d = delivered [OF assms(4), of busy "se_log e'" ?b, folded b']
  show "listed_infos b' = listed_infos b"
    using d infos_put [OF assms(1,2), of hs_mSensorInfo s'] info by (simp add: listed_infos_def)
  show "has_channel b' = has_channel b"
    using d keys_has_channel [of "ss_mDirectChannels b'" "ss_mDirectChannels b"] by (auto simp: has_channel_def)
  show "ss_mNextChannelHandle b' = ss_mNextChannelHandle b" using d by simp
  show "enabled_sensor b' = (enabled_sensor b)(h := hs_mIsEnabled (fst (f (s, sensor_env_of b))))"
    using d by (auto simp: enabled_sensor_def fun_eq_iff f)
  show "ss_written b' = ss_written b @ posted (se_log (snd (f (s, sensor_env_of b))))" using d by (simp add: f)
qed

text \<open>\<open>same b b'\<close>: the same sensors, enabled or not, the same channels, and no flush was reported.\<close>

definition same :: "('s, 'e, 'z) sensors_scheme \<Rightarrow> ('s, 'e, 'z) sensors_scheme \<Rightarrow> bool" where
  "same b b' \<longleftrightarrow>
     listed_infos b' = listed_infos b \<and> has_channel b' = has_channel b
     \<and> ss_mNextChannelHandle b' = ss_mNextChannelHandle b \<and> enabled_sensor b' = enabled_sensor b
     \<and> quiet (ss_written b) (ss_written b')"

lemma quiet_refl [simp]: "quiet es es" "(\<forall>h. flushes h evs = 0) \<Longrightarrow> quiet es (es @ evs)"
  by (auto simp: quiet_def)

lemma quiet_append: "quiet a b \<Longrightarrow> quiet b c \<Longrightarrow> quiet a c"
  unfolding quiet_def by (metis add_0 append_assoc flushes_simps(3))

lemma same_refl [simp]: "same b b"
  by (simp add: same_def)

lemma same_trans: "same b b1 \<Longrightarrow> same b1 b2 \<Longrightarrow> same b b2"
  unfolding same_def by (auto intro: quiet_append)

lemma same_call:
  fixes b :: "('s, 'e) sensors"
  assumes "sm_ok (ss_mSensors b)" "sm_find h (ss_mSensors b) = Some s" "keeps_data f" "\<forall>evs. os_fmq_write os evs"
    and "hs_mIsEnabled (fst (f (s, sensor_env_of b))) = hs_mIsEnabled s"
    and "\<forall>h. flushes h (posted (se_log (snd (f (s, sensor_env_of b))))) = 0"
  shows "same b (call_sensor os busy h s f b)"
  unfolding same_def call_effect [OF assms(1-4)] using assms(2,5,6)
  by (auto simp: enabled_sensor_def fun_eq_iff)

text \<open>What the operations of a sensor put out.\<close>

lemma info_report_effect:
  "fst (sendAdditionalInfoReport hm clk st) = fst st"
  "flushes h (posted (se_log (snd (sendAdditionalInfoReport hm clk st)))) = flushes h (posted (se_log (snd st)))"
proof -
  have "flushes h (map (\<lambda>(i, frame). \<lparr>ev_timestamp = clk i, ev_sensorHandle = g, ev_sensorType = ST_ADDITIONAL_INFO,
      ev_payload = P_additional frame\<rparr>) xs) = 0" for g and xs :: "(nat \<times> AdditionalInfo) list"
    by (induction xs) (auto simp: flush_complete_def)
  then show "flushes h (posted (se_log (snd (sendAdditionalInfoReport hm clk st)))) = flushes h (posted (se_log (snd st)))"
    by (simp add: sendAdditionalInfoReport_def Let_def emit_def split: prod.split)
  show "fst (sendAdditionalInfoReport hm clk st) = fst st"
    by (simp add: sendAdditionalInfoReport_def Let_def split: prod.split)
qed

lemma activate_effect:
  "hs_mIsEnabled (fst (Sensor_activate hm clk en st)) = en"
  "flushes h (posted (se_log (snd (Sensor_activate hm clk en st)))) = flushes h (posted (se_log (snd st)))"
  by (auto simp: Sensor_activate_def Let_def info_report_effect on_hal_def split: prod.split)

lemma flush_effect:
  assumes "\<not> has_flag (si_flags (hs_mSensorInfo s)) FLAG_ONE_SHOT_MODE"
  shows "fst (snd (Sensor_flush hm clk junk (s, e))) = s"
    "flushes h (posted (se_log (snd (snd (Sensor_flush hm clk junk (s, e)))))) =
       flushes h (posted (se_log e)) + (if hs_mIsEnabled s \<and> si_sensorHandle (hs_mSensorInfo s) = h then 1 else 0)"
    "fst (Sensor_flush hm clk junk (s, e)) = (if hs_mIsEnabled s then R_OK else R_BAD_VALUE)"
  using assms by (auto simp: Sensor_flush_def Let_def info_report_effect emit_def flush_complete_def)

lemma reading_events_type:
  "ev \<in> set (fst (reading_events fo info t vs)) \<Longrightarrow> ev_sensorType ev = si_type info"
proof (induction vs arbitrary: t)
  case (Cons v vs)
  have "ev_sensorType (fst (reading_event fo info t v)) = si_type info"
    by (simp add: reading_event_def Let_def)
  then show ?case using Cons by (auto simp: case_prod_unfold)
qed simp

lemma no_flushes: "\<forall>ev\<in>set evs. ev_sensorType ev \<noteq> ST_META_DATA \<Longrightarrow> flushes h evs = 0"
  by (induction evs) (auto simp: flush_complete_def)

lemma round_effect:
  assumes "si_type (hs_mSensorInfo s) \<noteq> ST_META_DATA"
  shows "hs_mIsEnabled (fst (snd (Sensor_run_round fo hm t1 t2 (s, e)))) = hs_mIsEnabled s"
    "flushes h (posted (se_log (snd (snd (Sensor_run_round fo hm t1 t2 (s, e)))))) = flushes h (posted (se_log e))"
proof -
  define evs where "evs = fst (Sensor_readEvents fo hm (s, e))"
  have "ev_sensorType ev = si_type (hs_mSensorInfo s)" if "ev \<in> set evs" for ev
    using that reading_events_type by (auto simp: evs_def Sensor_readEvents_def case_prod_unfold)
  then have evs: "flushes h evs = 0" by (intro no_flushes) (use assms in auto)
  obtain t where r: "Sensor_readEvents fo hm (s, e) = (evs, (s, e\<lparr>se_lastTemperature := t\<rparr>))"
    unfolding evs_def Sensor_readEvents_def by (simp add: case_prod_unfold)
  show "hs_mIsEnabled (fst (snd (Sensor_run_round fo hm t1 t2 (s, e)))) = hs_mIsEnabled s"
    "flushes h (posted (se_log (snd (snd (Sensor_run_round fo hm t1 t2 (s, e)))))) = flushes h (posted (se_log e))"
    by (simp_all add: Sensor_run_round_def r Let_def emit_def evs)
qed

lemma fresh_log [simp]: "se_log (sensor_env_of b) = []"
  by (simp add: sensor_env_of_def)

section \<open>The calls\<close>

text \<open>A service whose sensors are \<open>infos\<close>, as the tests need it.\<close>

definition vts_ready :: "SensorInfo list \<Rightarrow> ('s, sensors_event_t) sensors \<Rightarrow> bool" where
  "vts_ready infos b \<longleftrightarrow>
     sane b \<and> service_inv b \<and> listed_infos b = infos \<and> list_all bosch_info infos
     \<and> 0 < ss_mNextChannelHandle b \<and> ss_mNextChannelHandle b < 2 ^ 31
     \<and> (\<forall>c. has_channel b c \<longrightarrow> 0 < c \<and> c < ss_mNextChannelHandle b)"

lemma ready_same:
  "vts_ready infos b \<Longrightarrow> same b b' \<Longrightarrow> sane b' \<Longrightarrow> service_inv b' \<Longrightarrow> vts_ready infos b'"
  by (simp add: vts_ready_def same_def)

lemma ready_handles:
  assumes "vts_ready infos b"
  shows "h \<in> si_sensorHandle ` set infos \<longleftrightarrow> sm_find h (ss_mSensors b) \<noteq> None" "distinct (map si_sensorHandle infos)"
proof -
  have inv: "service_inv b" and l: "infos = map hs_mSensorInfo (sm_values (ss_mSensors b))"
    using assms by (simp_all add: vts_ready_def listed_infos_def)
  then have ok: "sm_ok (ss_mSensors b)" by (simp add: service_inv_def)
  have "si_sensorHandle (hs_mSensorInfo (snd e)) = fst e" if "e \<in> set (ss_mSensors b)" for e
    using inv sm_in_set_find [OF ok, of "fst e" "snd e"] that by (simp add: service_inv_def)
  then have k: "map si_sensorHandle infos = map fst (ss_mSensors b)" by (simp add: l sm_values_def)
  show "distinct (map si_sensorHandle infos)" unfolding k using ok by (rule sm_ok_distinct)
  show "h \<in> si_sensorHandle ` set infos \<longleftrightarrow> sm_find h (ss_mSensors b) \<noteq> None"
    unfolding sm_find_dom using arg_cong [OF k, of set] by simp
qed

lemma ready_sensor:
  assumes "vts_ready infos b" "sm_find h (ss_mSensors b) = Some s"
  shows "bosch_info (hs_mSensorInfo s)" "si_sensorHandle (hs_mSensorInfo s) = h" "hs_mSensorInfo s \<in> set infos"
    "sm_ok (ss_mSensors b)" "sane_sensor s"
proof -
  show "hs_mSensorInfo s \<in> set infos"
    using assms sm_find_in_set [OF assms(2)] by (force simp: vts_ready_def listed_infos_def sm_values_def)
  then show "bosch_info (hs_mSensorInfo s)" using assms(1) by (auto simp: vts_ready_def list_all_iff)
  show "si_sensorHandle (hs_mSensorInfo s) = h" "sm_ok (ss_mSensors b)" "sane_sensor s"
    using assms by (simp_all add: vts_ready_def service_inv_def sane_def)
qed

lemma activate_ready:
  fixes b :: "('s, sensors_event_t) sensors" and hms :: "int \<Rightarrow> 's hal_methods" and clk :: "nat \<Rightarrow> int" and en :: bool
  assumes "vts_ready infos b" "h \<in> si_sensorHandle ` set infos" "\<forall>evs. os_fmq_write os evs" "aidl_os sz os"
  defines "b' \<equiv> snd (Sensors_activate hms os clk h en b)"
  shows "vts_ready infos b'" "fst (Sensors_activate hms os clk h en b) = R_OK"
    "enabled_sensor b' = (enabled_sensor b)(h := en)" "has_channel b' = has_channel b"
    "ss_mNextChannelHandle b' = ss_mNextChannelHandle b" "quiet (ss_written b) (ss_written b')"
proof -
  obtain s where s: "sm_find h (ss_mSensors b) = Some s" using ready_handles(1) [OF assms(1)] assms(2) by auto
  have b': "b' = call_sensor os False h s (Sensor_activate (hms h) clk en) b"
    by (simp add: b'_def Sensors_activate_def s)
  note e = call_effect [OF ready_sensor(4) [OF assms(1) s] s keeps_data_ops(1) assms(3), of False "hms h" clk en, folded b']
  show "fst (Sensors_activate hms os clk h en b) = R_OK" by (simp add: Sensors_activate_def s)
  show 1: "enabled_sensor b' = (enabled_sensor b)(h := en)" "has_channel b' = has_channel b"
    "ss_mNextChannelHandle b' = ss_mNextChannelHandle b" "quiet (ss_written b) (ss_written b')"
    using e by (simp_all add: activate_effect)
  have "sane b'" "service_inv b'" unfolding b'_def
    using activate_up [OF assms(4), of b hms clk h en] assms(1) activate_inv_service [of b]
    by (simp_all add: vts_ready_def)
  then show "vts_ready infos b'" using assms(1) 1 e(1) by (simp add: vts_ready_def)
qed

lemma batch_ready:
  assumes "vts_ready infos b" "\<forall>evs. os_fmq_write os evs" "aidl_os sz os"
  shows "vts_ready infos (snd (Sensors_batch hms os h p 0 b))" "same b (snd (Sensors_batch hms os h p 0 b))"
    "fst (Sensors_batch hms os h p 0 b) = (if h \<in> si_sensorHandle ` set infos then R_OK else R_BAD_VALUE)"
proof -
  show same: "same b (snd (Sensors_batch hms os h p 0 b))"
  proof (cases "sm_find h (ss_mSensors b)")
    case (Some s)
    have en: "hs_mIsEnabled (fst (Sensor_batch hm p l st)) = hs_mIsEnabled (fst st)" for hm l and st :: "'a sensor_state"
      by (cases st) (simp add: Sensor_batch_def Let_def)
    show ?thesis
      using same_call [OF ready_sensor(4) [OF assms(1) Some] Some keeps_data_ops(2) assms(2), of "hms h" p 0 False]
      by (simp add: Sensors_batch_def Some log_ops(1) en)
  qed (simp add: Sensors_batch_def)
  have "sane (snd (Sensors_batch hms os h p 0 b))" "service_inv (snd (Sensors_batch hms os h p 0 b))"
    using batch_up [OF assms(3), of b hms h p 0] assms(1) batch_inv_service [of b] by (simp_all add: vts_ready_def)
  then show "vts_ready infos (snd (Sensors_batch hms os h p 0 b))" by (rule ready_same [OF assms(1) same])
  show "fst (Sensors_batch hms os h p 0 b) = (if h \<in> si_sensorHandle ` set infos then R_OK else R_BAD_VALUE)"
    using ready_handles(1) [OF assms(1), of h] by (auto simp: Sensors_batch_def split: option.split)
qed

lemma poll_ready:
  assumes "vts_ready infos b" "\<forall>evs. os_fmq_write os evs" "aidl_os sz os" "sane_hal hms"
  shows "vts_ready infos (Sensors_poll hms os fo busy t1 t2 h b) \<and> same b (Sensors_poll hms os fo busy t1 t2 h b)"
proof -
  have same: "same b (Sensors_poll hms os fo busy t1 t2 h b)"
  proof (cases "sm_find h (ss_mSensors b)")
    case (Some s)
    have "si_type (hs_mSensorInfo s) \<noteq> ST_META_DATA" using ready_sensor(1) [OF assms(1) Some] by (simp add: bosch_info_def)
    note r = round_effect [OF this]
    show ?thesis
      using same_call [OF ready_sensor(4) [OF assms(1) Some] Some keeps_data_ops(4) assms(2)]
      by (simp add: Sensors_poll_def Some r)
  qed (simp add: Sensors_poll_def)
  have "sane (Sensors_poll hms os fo busy t1 t2 h b)" "service_inv (Sensors_poll hms os fo busy t1 t2 h b)"
    using poll_up [OF assms(3) _ assms(4), of b fo busy t1 t2 h] assms(1) poll_inv_service [of b]
    by (simp_all add: vts_ready_def)
  then show ?thesis using same ready_same [OF assms(1) same] by simp
qed

lemma flush_ready:
  fixes b :: "('s, sensors_event_t) sensors" and hms :: "int \<Rightarrow> 's hal_methods" and clk :: "nat \<Rightarrow> int" and junk :: int
  assumes "vts_ready infos b" "h \<in> si_sensorHandle ` set infos" "\<forall>evs. os_fmq_write os evs"
  defines "b' \<equiv> snd (Sensors_flush hms os clk junk h b)"
  shows "vts_ready infos b'" "fst (Sensors_flush hms os clk junk h b) = (if enabled_sensor b h then R_OK else R_BAD_VALUE)"
    "enabled_sensor b' = enabled_sensor b" "has_channel b' = has_channel b"
    "ss_mNextChannelHandle b' = ss_mNextChannelHandle b"
    "\<exists>evs. ss_written b' = ss_written b @ evs \<and> (\<forall>h'. flushes h' evs = (if enabled_sensor b h \<and> h' = h then 1 else 0))"
proof -
  obtain s where s: "sm_find h (ss_mSensors b) = Some s" using ready_handles(1) [OF assms(1)] assms(2) by auto
  have one_shot: "\<not> has_flag (si_flags (hs_mSensorInfo s)) FLAG_ONE_SHOT_MODE"
    using ready_sensor(1) [OF assms(1) s] by (simp add: bosch_info_def flag_defs has_flag_def)
  note f = flush_effect [OF one_shot]
  have b': "b' = call_sensor os False h s (\<lambda>s. snd (Sensor_flush (hms h) clk junk s)) b"
    by (simp add: b'_def Sensors_flush_def s)
  note e = call_effect [OF ready_sensor(4) [OF assms(1) s] s keeps_data_ops(3) assms(3), of False "hms h" clk junk, folded b']
  have en: "enabled_sensor b h = hs_mIsEnabled s" by (simp add: enabled_sensor_def s)
  show "fst (Sensors_flush hms os clk junk h b) = (if enabled_sensor b h then R_OK else R_BAD_VALUE)"
    by (simp add: Sensors_flush_def s f(3) en)
  show 1: "enabled_sensor b' = enabled_sensor b" "has_channel b' = has_channel b"
    "ss_mNextChannelHandle b' = ss_mNextChannelHandle b"
    using e by (auto simp: f(1) en fun_eq_iff)
  show "\<exists>evs. ss_written b' = ss_written b @ evs \<and> (\<forall>h'. flushes h' evs = (if enabled_sensor b h \<and> h' = h then 1 else 0))"
    using e(5) f(2) [where e = "sensor_env_of b"] ready_sensor(2) [OF assms(1) s] en
    by (intro exI conjI) auto
  have "ss_mSensors b' = sm_put h s (ss_mSensors b)"
    by (simp add: b' call_sensor_def case_prod_unfold delivered [OF assms(3)] f(1))
  then have "sane b'" using assms(1) ready_sensor(5) [OF assms(1) s] by (auto simp: vts_ready_def sane_def split: if_splits)
  moreover have "service_inv b'" unfolding b'_def using assms(1) flush_inv_service [of b] by (simp add: vts_ready_def)
  ultimately show "vts_ready infos b'" using assms(1) 1 e(1) by (simp add: vts_ready_def)
qed

text \<open>Calls on sensors that post nothing.\<close>

lemma same_on:
  assumes "sm_ok (ss_mSensors b)" "keeps_data f" "\<forall>evs. os_fmq_write os evs"
    and "\<And>st. se_log (snd (f st)) = se_log (snd st)" "\<And>st. hs_mIsEnabled (fst (f st)) = hs_mIsEnabled (fst st)"
  shows "same b (on_sensor os h f b)"
proof (cases "sm_find h (ss_mSensors b)")
  case (Some s)
  show ?thesis using same_call [OF assms(1) Some assms(2,3), of False] by (simp add: on_sensor_def Some assms(4,5))
qed (simp add: on_sensor_def)

lemma on_sensor_ok: "sm_ok (ss_mSensors b) \<Longrightarrow> sm_ok (ss_mSensors (on_sensor os h f b))"
  by (simp add: on_sensor_def call_sensor_facts split: option.split)

lemma same_fold:
  assumes "sm_ok (ss_mSensors b)"
    and "\<And>x b. sm_ok (ss_mSensors b) \<Longrightarrow> same b (f x b) \<and> sm_ok (ss_mSensors (f x b))"
  shows "same b (fold f xs b) \<and> sm_ok (ss_mSensors (fold f xs b))"
  using assms(1)
proof (induction xs arbitrary: b)
  case (Cons x xs)
  have "same b (f x b)" "sm_ok (ss_mSensors (f x b))" using assms(2) [OF Cons.prems, of x] by simp_all
  then show ?case using Cons.IH [of "f x b"] same_trans [of b "f x b"] by simp
qed simp

lemma same_rates [simp]: "same b (set_rate c h p b)" "same b (add_channel_handle c h b)"
  by (simp_all add: same_def set_rate_def add_channel_handle_def listed_infos_def has_channel_def enabled_sensor_def
      fun_eq_iff)

lemma rates_sensors [simp]:
  "ss_mSensors (set_rate c h p b) = ss_mSensors b" "ss_mSensors (add_channel_handle c h b) = ss_mSensors b"
  by (simp_all add: set_rate_def add_channel_handle_def)

lemma channel_ops_same:
  assumes "sm_ok (ss_mSensors b)" "\<forall>evs. os_fmq_write os evs"
  shows "same b (on_sensor os h (Sensor_stopDirectChannel hm c) b)" "same b (on_sensor os h (Sensor_addDirectChannel hm c p) b)"
    "same b (on_sensor os h (Sensor_removeDirectChannel hm c) b)"
  using assms
  by (auto intro!: same_on keeps_data_ops stopDirectChannel_facts addDirectChannel_facts removeDirectChannel_facts)

lemma config_ready:
  assumes "vts_ready infos b" "\<forall>evs. os_fmq_write os evs" "aidl_os sz os"
  shows "vts_ready infos (snd (Sensors_configDirectReport hms os h c rate b))
    \<and> same b (snd (Sensors_configDirectReport hms os h c rate b))"
proof -
  have ok: "sm_ok (ss_mSensors b)" using assms(1) by (simp add: vts_ready_def service_inv_def)
  have stops: "same b (fold (\<lambda>h st. if sm_find h (ss_mSensors st) = None then st
       else on_sensor os h (Sensor_stopDirectChannel (hms h) c) (set_rate c h 0 st)) hs b)" for hs
    by (rule conjunct1 [OF same_fold [OF ok]])
       (auto simp: on_sensor_ok assms(2) intro: same_trans [OF same_rates(1) channel_ops_same(1)])
  have add: "same b (on_sensor os h (Sensor_addDirectChannel (hms h) c ns) (add_channel_handle c h (set_rate c h ns b)))" for ns
    using ok assms(2)
    by (intro same_trans [OF same_rates(1) same_trans [OF same_rates(2) channel_ops_same(2)]]) simp_all
  have same: "same b (snd (Sensors_configDirectReport hms os h c rate b))"
    by (auto simp: Sensors_configDirectReport_def Let_def stops add split: option.split)
  have "sane (snd (Sensors_configDirectReport hms os h c rate b))"
    "service_inv (snd (Sensors_configDirectReport hms os h c rate b))"
    using config_up [OF assms(3), of b hms h c rate] assms(1) config_inv_service [of b] by (auto simp: vts_ready_def)
  then show ?thesis using same ready_same [OF assms(1) same] by simp
qed

lemma removes_same:
  assumes "sm_ok (ss_mSensors b)" "\<forall>evs. os_fmq_write os evs"
  shows "same b (fold (\<lambda>h. on_sensor os h (Sensor_removeDirectChannel (hms h) c)) hs b)
    \<and> sm_ok (ss_mSensors (fold (\<lambda>h. on_sensor os h (Sensor_removeDirectChannel (hms h) c)) hs b))"
  by (rule same_fold [OF assms(1)]) (simp add: channel_ops_same assms(2) on_sensor_ok)

text \<open>\<open>fewer b b'\<close>: the same, but for channels that are closed.\<close>

definition fewer :: "('s, 'e, 'z) sensors_scheme \<Rightarrow> ('s, 'e, 'z) sensors_scheme \<Rightarrow> bool" where
  "fewer b b' \<longleftrightarrow> same (b\<lparr>ss_mDirectChannels := []\<rparr>) (b'\<lparr>ss_mDirectChannels := []\<rparr>)
     \<and> (\<forall>c. has_channel b' c \<longrightarrow> has_channel b c)"

lemma ready_fewer:
  "vts_ready infos b \<Longrightarrow> fewer b b' \<Longrightarrow> sane b' \<Longrightarrow> service_inv b' \<Longrightarrow> vts_ready infos b'"
  by (auto simp: vts_ready_def same_def fewer_def listed_infos_def)

lemma same_fewer: "same b b' \<Longrightarrow> fewer b b'"
  by (simp add: fewer_def same_def listed_infos_def has_channel_def enabled_sensor_def fun_eq_iff)

lemma unregister_ready:
  assumes "vts_ready infos b" "\<forall>evs. os_fmq_write os evs" "aidl_os sz os"
  shows "vts_ready infos (snd (Sensors_unregisterDirectChannel hms os c b))
    \<and> fewer b (snd (Sensors_unregisterDirectChannel hms os c b))"
proof -
  have ok: "sm_ok (ss_mSensors b)" using assms(1) by (simp add: vts_ready_def service_inv_def)
  have erase: "fewer b (b'\<lparr>ss_mDirectChannels := sm_erase c (ss_mDirectChannels b')\<rparr>)" if "same b b'" for b'
    using same_fewer [OF that] by (auto simp: fewer_def has_channel_def same_def listed_infos_def enabled_sensor_def fun_eq_iff)
  have fewer: "fewer b (snd (Sensors_unregisterDirectChannel hms os c b))"
    by (auto simp: Sensors_unregisterDirectChannel_def Let_def removes_same [OF ok assms(2)] intro!: erase split: option.split)
  have "sane (snd (Sensors_unregisterDirectChannel hms os c b))" "service_inv (snd (Sensors_unregisterDirectChannel hms os c b))"
    using unregister_up [OF assms(3), of b hms c] assms(1) unregister_inv_service [of b] by (simp_all add: vts_ready_def)
  then show ?thesis using fewer ready_fewer [OF assms(1) fewer] by simp
qed

text \<open>Starting again.\<close>

definition same_list :: "('s, 'e, 'z) sensors_scheme \<Rightarrow> ('s, 'e, 'z) sensors_scheme \<Rightarrow> bool" where
  "same_list b b' \<longleftrightarrow> listed_infos b' = listed_infos b \<and> ss_mNextChannelHandle b' = ss_mNextChannelHandle b
     \<and> sm_ok (ss_mSensors b')"

lemma same_list_on:
  assumes "sm_ok (ss_mSensors b)" "keeps_data f" "\<forall>evs. os_fmq_write os evs"
  shows "same_list b (on_sensor os h f b)"
proof (cases "sm_find h (ss_mSensors b)")
  case (Some s)
  then show ?thesis
    using call_effect [OF assms(1) Some assms(2,3), of False] assms(1)
    by (simp add: on_sensor_def same_list_def call_sensor_facts)
qed (use assms in \<open>simp add: on_sensor_def same_list_def\<close>)

lemma same_list_fold:
  assumes "sm_ok (ss_mSensors b)" "\<And>x b. sm_ok (ss_mSensors b) \<Longrightarrow> same_list b (f x b)"
  shows "same_list b (fold f xs b)"
  using assms(1)
proof (induction xs arbitrary: b)
  case (Cons x xs)
  have "same_list b (f x b)" by (rule assms(2) [OF Cons.prems])
  then show ?case using Cons.IH [of "f x b"] by (simp add: same_list_def)
qed (simp add: same_list_def)

lemma initialize_ready:
  fixes b :: "('s, sensors_event_t) sensors" and hms :: "int \<Rightarrow> 's hal_methods" and clk :: "nat \<Rightarrow> int"
  assumes "vts_ready infos b" "\<forall>evs. os_fmq_write os evs"
  defines "b' \<equiv> snd (Sensors_initializeBase hms os clk True True b)"
  shows "vts_ready infos b'" "ss_mNextChannelHandle b' = ss_mNextChannelHandle b"
    "fst (Sensors_initializeBase hms os clk True True b) = R_OK" "\<not> has_channel b' c"
proof -
  have ok: "sm_ok (ss_mSensors b)" using assms(1) by (simp add: vts_ready_def service_inv_def)
  define b1 where "b1 = fold (\<lambda>h. on_sensor os h (Sensor_activate (hms h) clk False)) (sm_keys (ss_mSensors b)) b"
  define b3 where "b3 = fold (\<lambda>(c, ch). fold (\<lambda>h. on_sensor os h (Sensor_removeDirectChannel (hms h) c)) (dc_sensorHandles ch))
      (ss_mDirectChannels b1) (b1\<lparr>ss_mReadWakeLockQueueRun := False\<rparr>)"
  have 1: "same_list b b1" unfolding b1_def
    by (rule same_list_fold [OF ok]) (rule same_list_on [OF _ keeps_data_ops(1) assms(2)])
  then have "same_list (b1\<lparr>ss_mReadWakeLockQueueRun := False\<rparr>) b3" unfolding b3_def
    by (intro same_list_fold)
       (auto simp: same_list_def [of b] intro!: same_list_fold same_list_on keeps_data_ops assms(2))
  with 1 have "same_list b b3" by (simp add: same_list_def listed_infos_def)
  moreover have b': "b' = b3\<lparr>ss_mDirectChannels := [], ss_written := [], ss_mReadWakeLockQueueRun := True\<rparr>"
    by (simp add: b'_def Sensors_initializeBase_def Let_def b1_def b3_def)
  ultimately have l: "listed_infos b' = listed_infos b" "ss_mNextChannelHandle b' = ss_mNextChannelHandle b"
    by (simp_all add: same_list_def listed_infos_def)
  show "ss_mNextChannelHandle b' = ss_mNextChannelHandle b" by (rule l(2))
  show "fst (Sensors_initializeBase hms os clk True True b) = R_OK" by (simp add: Sensors_initializeBase_def Let_def)
  show "\<not> has_channel b' c" by (simp add: b' has_channel_def)
  have "sane b'" "service_inv b'" unfolding b'_def
    using assms(1) sane_initialize [of b]
      conjunct1 [OF Sensors_initialize_resets [OF _ prod.collapse [symmetric], of b hms os clk True True]]
    by (simp_all add: vts_ready_def)
  then show "vts_ready infos b'"
    using assms(1) l by (simp add: vts_ready_def has_channel_def b')
qed

section \<open>The platform\<close>

text \<open>What the platform must do: memory of one event can be mapped, the event queue does not fill up,
  the sensors are read, and the number 0 is encoded by zeros.\<close>

definition vts_platform ::
  "(int \<Rightarrow> 's hal_methods) \<Rightarrow> sensors_event_t sensors_os \<Rightarrow> ashmem \<Rightarrow> int \<Rightarrow> (real \<Rightarrow> 32 word) \<Rightarrow> bool" where
  "vts_platform hms os sys fd f \<longleftrightarrow>
     aidl_os kEventSize os \<and> sane_hal hms \<and> (\<forall>evs. os_fmq_write os evs) \<and> f 0 = 0
     \<and> ashmem_valid sys fd \<and> ashmem_get_size_region sys fd = int kEventSize \<and> ashmem_mmap sys kEventSize fd = Mapped"

definition event_memory :: "shared_mem_info \<Rightarrow> bool" where
  "event_memory mem \<longleftrightarrow> (case mem of (type, format, bytes, handle) \<Rightarrow> type = MT_ASHMEM \<and> bytes = int kEventSize)"

text \<open>The bytes of a channel's memory, which held \<open>before\<close>.\<close>

definition channel_memory :: "(real \<Rightarrow> 32 word) \<Rightarrow> ('s, sensors_event_t, 'z) sensors_scheme \<Rightarrow> int \<Rightarrow> byte list \<Rightarrow> byte list" where
  "channel_memory f st c before =
     (case sm_find c (ss_mDirectChannels st) of None \<Rightarrow> before
      | Some ch \<Rightarrow> (case dc_mBuffer ch of None \<Rightarrow> before
          | Some b \<Rightarrow> region f b (drop (kEventSize * lb_mSize b) before)))"

text \<open>A channel of one event, and the service with it.\<close>

definition test_channel :: "int \<Rightarrow> sensors_event_t direct_channel" where
  "test_channel fd = (DirectChannelBase_init fd)\<lparr>dc_mSize := kEventSize, dc_mBase := True,
     dc_mBuffer := Some (LockfreeBuffer kEventSize zero_event kEventSize)\<rparr>"

definition with_channel :: "int \<Rightarrow> ('s, sensors_event_t) sensors \<Rightarrow> ('s, sensors_event_t) sensors" where
  "with_channel fd b = b\<lparr>ss_mNextChannelHandle := ss_mNextChannelHandle b + 1,
     ss_mDirectChannels := sm_put (ss_mNextChannelHandle b) (test_channel fd) (ss_mDirectChannels b)\<rparr>"

lemma register_ready:
  fixes b :: "('s, sensors_event_t) sensors"
  assumes "vts_ready infos b" "vts_platform hms os sys fd f" "ss_mNextChannelHandle b + 1 < 2 ^ 31"
  defines "n \<equiv> ss_mNextChannelHandle b"
  shows "AshmemDirectChannel sys kEventSize zero_event \<lparr>mem_fd = fd, mem_size = kEventSize\<rparr> = Inr (test_channel fd)"
    "DirectChannelBase_isValid (test_channel fd)"
    "Sensors_registerDirectChannel sys kEventSize zero_event True (Some \<lparr>mem_fd = fd, mem_size = kEventSize\<rparr>) b
      = Inr ((R_OK, n), with_channel fd b)"
    "vts_ready infos (with_channel fd b)" "0 < n" "has_channel (with_channel fd b) n"
    "ss_mNextChannelHandle (with_channel fd b) = n + 1" "enabled_sensor (with_channel fd b) = enabled_sensor b"
    "ss_written (with_channel fd b) = ss_written b
     \<and> list_all (\<lambda>b. b = 0) (channel_memory f (with_channel fd b) n (replicate kEventSize 0xFF))"
    "i32 (n + 1) = n + 1" "sm_find n (ss_mDirectChannels b) = None"
proof -
  show n: "0 < n" "i32 (n + 1) = n + 1" "sm_find n (ss_mDirectChannels b) = None"
    using assms(1,3) by (auto simp: n_def vts_ready_def has_channel_def intro!: i32_id)
  have "u64 (int kEventSize) = int kEventSize" by (simp add: u64_def take_bit_eq_mod kEventSize_def)
  then show ch: "AshmemDirectChannel sys kEventSize zero_event \<lparr>mem_fd = fd, mem_size = kEventSize\<rparr> = Inr (test_channel fd)"
    using assms(2) by (simp add: AshmemDirectChannel_def vts_platform_def Let_def test_channel_def)
  show valid: "DirectChannelBase_isValid (test_channel fd)" by (simp add: DirectChannelBase_isValid_def test_channel_def)
  show call: "Sensors_registerDirectChannel sys kEventSize zero_event True (Some \<lparr>mem_fd = fd, mem_size = kEventSize\<rparr>) b
      = Inr ((R_OK, n), with_channel fd b)"
    by (simp add: Sensors_registerDirectChannel_def ch valid Let_def with_channel_def n(2,3) flip: n_def)
  then have "service_inv (with_channel fd b)" using assms(1) register_inv_service by (fastforce simp: vts_ready_def)
  then show "vts_ready infos (with_channel fd b)"
    using assms(1,3) by (auto simp: vts_ready_def sane_def with_channel_def listed_infos_def has_channel_def)
  show "has_channel (with_channel fd b) n" "ss_mNextChannelHandle (with_channel fd b) = n + 1"
    "enabled_sensor (with_channel fd b) = enabled_sensor b"
    by (simp_all add: with_channel_def has_channel_def enabled_sensor_def fun_eq_iff n_def)
  have "list_all (\<lambda>b. b = 0) (slot_bytes f (zero_event, 0))"
    using assms(2) by (simp add: slot_bytes_def zero_event_def vts_platform_def eval_nat_numeral)
  moreover have "channel_memory f (with_channel fd b) n (replicate kEventSize 0xFF) = slot_bytes f (zero_event, 0)"
    by (simp add: channel_memory_def with_channel_def test_channel_def LockfreeBuffer_def region_def kEventSize_def n_def)
  ultimately show "ss_written (with_channel fd b) = ss_written b
     \<and> list_all (\<lambda>b. b = 0) (channel_memory f (with_channel fd b) n (replicate kEventSize 0xFF))"
    by (simp add: with_channel_def)
qed

end
