(* ===== verification/Vts_Aidl.thy ===== *)
theory Vts_Aidl
  imports Vts_Suite Vts_Ready
begin

text \<open>
  The AIDL service keeps the contract of the compliance tests (interpretations of \<open>isensors_contract\<close> and
  \<open>aidl_contract\<close>), while its sensors' threads poll as they like between the calls. So it passes the tests.
\<close>

section \<open>The AIDL service under test\<close>

text \<open>\<open>fd\<close>: the descriptor that the binder makes of the test's handle. \<open>sched\<close>: the rounds of the
  sensors' threads before each call, as a sensor, whether it finds the channels locked, and its clock.\<close>

definition aidl_isensors ::
  "(int \<Rightarrow> 's hal_methods) \<Rightarrow> sensors_event_t sensors_os \<Rightarrow> float_ops \<Rightarrow> (nat \<Rightarrow> int) \<Rightarrow> ashmem \<Rightarrow> int
     \<Rightarrow> (nat \<Rightarrow> (int \<times> bool \<times> int \<times> int) list) \<Rightarrow> (real \<Rightarrow> 32 word) \<Rightarrow> ('s sensors_aidl, aidl_status) isensors" where
  "aidl_isensors hms os fo clk sys fd sched f =
     \<lparr>is_initialize = AidlService_initialize hms os kEventSize clk True True,
      is_getSensorsList = (\<lambda>st. (Aidl_ok, AidlService_getSensorsList st)),
      is_activate = AidlService_activate hms os kEventSize clk,
      is_batch = AidlService_batch hms os kEventSize,
      is_flush = AidlService_flush hms os kEventSize clk,
      is_setOperationMode = AidlService_setOperationMode,
      is_injectSensorData = AidlService_injectSensorData,
      is_registerDirectChannel = (\<lambda>(type, format, bytes, handle).
        AidlService_registerDirectChannel sys kEventSize zero_event (type = MT_ASHMEM) \<lparr>mem_fd = fd, mem_size = nat bytes\<rparr>),
      is_unregisterDirectChannel = AidlService_unregisterDirectChannel hms os kEventSize,
      is_configDirectReport = AidlService_configDirectReport hms os kEventSize,
      is_background = (\<lambda>n. fold_exc (\<lambda>(h, busy, t1, t2). AidlService_poll hms os kEventSize fo busy t1 t2 h) (sched n)),
      is_events = ss_written,
      is_memory = channel_memory f\<rparr>"

definition aidl_ready ::
  "(int \<Rightarrow> 's hal_methods) \<Rightarrow> sensors_event_t sensors_os \<Rightarrow> ashmem \<Rightarrow> int \<Rightarrow> (real \<Rightarrow> 32 word) \<Rightarrow> SensorInfo list
     \<Rightarrow> 's sensors_aidl \<Rightarrow> bool" where
  "aidl_ready hms os sys fd f infos st \<longleftrightarrow> vts_platform hms os sys fd f \<and> (\<exists>b. st = up b \<and> vts_ready infos b)"

definition aidl_room :: "'s sensors_aidl \<Rightarrow> nat" where
  "aidl_room st = nat (2 ^ 31 - 1 - ss_mNextChannelHandle st)"

lemma up_views [simp]:
  "enabled_sensor (up b) = enabled_sensor b" "has_channel (up b) = has_channel b"
  "same (up b) (up b') = same b b'" "aidl_room (up b) = nat (2 ^ 31 - 1 - ss_mNextChannelHandle b)"
  "channel_memory f (up b) = channel_memory f b"
  "AidlService_getSensorsList (up b) = listed_infos b"
  by (simp_all add: enabled_sensor_def has_channel_def same_def listed_infos_def aidl_room_def
      AidlService_getSensorsList_def channel_memory_def fun_eq_iff)

lemma aidl_result_simps [simp]:
  "aidl_result R_OK = Aidl_ok" "aidl_result R_BAD_VALUE = Aidl_exception EX_ILLEGAL_ARGUMENT"
  by (simp_all add: aidl_result_def)

subsection \<open>It keeps the contract\<close>

lemma readyE:
  assumes "aidl_ready hms os sys fd f infos st"
  obtains b where "st = up b" "vts_ready infos b" "\<forall>evs. os_fmq_write os evs" "aidl_os kEventSize os" "sane_hal hms"
    "vts_platform hms os sys fd f" "sane b"
  using assms by (auto simp: aidl_ready_def vts_platform_def vts_ready_def)

lemma readyI: "vts_platform hms os sys fd f \<Longrightarrow> vts_ready infos b \<Longrightarrow> aidl_ready hms os sys fd f infos (up b)"
  by (auto simp: aidl_ready_def)

lemma background_law:
  assumes "aidl_ready hms os sys fd f infos st"
  shows "returns (fold_exc (\<lambda>(h, busy, t1, t2). AidlService_poll hms os kEventSize fo busy t1 t2 h) rounds st)
           (\<lambda>st'. aidl_ready hms os sys fd f infos st' \<and> same st st')"
proof -
  have step: "returns ((\<lambda>(h, busy, t1, t2). AidlService_poll hms os kEventSize fo busy t1 t2 h) r st')
      (\<lambda>st''. aidl_ready hms os sys fd f infos st'' \<and> same st st'')"
    if "aidl_ready hms os sys fd f infos st' \<and> same st st'" for r st'
  proof -
    from that obtain b' where b': "st' = up b'" "vts_ready infos b'" "\<forall>evs. os_fmq_write os evs" "aidl_os kEventSize os"
      "sane_hal hms" "vts_platform hms os sys fd f" "sane b'" by (auto elim: readyE)
    obtain h busy t1 t2 where r: "r = (h, busy, t1, t2)" by (cases r)
    have p: "AidlService_poll hms os kEventSize fo busy t1 t2 h (up b') = Inr (up (Sensors_poll hms os fo busy t1 t2 h b'))"
      using poll_up [OF b'(4,7,5)] by blast
    have "same st (up b')" using that b'(1) by simp
    moreover have "same (up b') (up (Sensors_poll hms os fo busy t1 t2 h b'))"
      "aidl_ready hms os sys fd f infos (up (Sensors_poll hms os fo busy t1 t2 h b'))"
      using poll_ready [OF b'(2-5)] readyI [OF b'(6)] by simp_all
    ultimately show ?thesis unfolding r b'(1) prod.case p returns_Inr using same_trans by blast
  qed
  show ?thesis
    by (rule returns_mono [OF returns_fold [where I = "\<lambda>_ st'. aidl_ready hms os sys fd f infos st' \<and> same st st'", OF _ step]])
       (use assms in simp_all)
qed

lemma register_law:
  assumes "aidl_ready hms os sys fd f infos st" "0 < aidl_room st" "event_memory mem"
  shows "returns (is_registerDirectChannel (aidl_isensors hms os fo clk sys fd sched f) mem st)
     (\<lambda>((status, ret), st'). \<exists>c. status = Aidl_ok \<and> ret = Some c \<and> 0 < c \<and> aidl_ready hms os sys fd f infos st'
        \<and> has_channel st' c \<and> enabled_sensor st' = enabled_sensor st \<and> aidl_room st = Suc (aidl_room st')
        \<and> quiet (ss_written st) (ss_written st')
        \<and> list_all (\<lambda>b. b = 0) (is_memory (aidl_isensors hms os fo clk sys fd sched f) st' c (replicate kEventSize 0xFF)))"
proof -
  obtain b where b: "st = up b" "vts_ready infos b" "vts_platform hms os sys fd f"
    using assms(1) by (auto elim: readyE)
  obtain format handle where mem: "mem = (MT_ASHMEM, format, int kEventSize, handle)"
    using assms(3) by (auto simp: event_memory_def split: prod.splits)
  define n where "n = ss_mNextChannelHandle b"
  have less: "n + 1 < 2 ^ 31" using assms(2) by (simp add: b(1) n_def)
  note r = register_ready [OF b(2,3) less [unfolded n_def], folded n_def]
  have call: "is_registerDirectChannel (aidl_isensors hms os fo clk sys fd sched f) mem (up b)
      = Inr ((Aidl_ok, Some n), up (with_channel fd b))"
    using r(1,2,10,11) by (simp add: aidl_isensors_def mem AidlService_registerDirectChannel_def Let_def with_channel_def flip: n_def)
  have room: "nat (2 ^ 31 - 1 - n) = Suc (nat (2 ^ 31 - 1 - (n + 1)))" using less by linarith
  show ?thesis
    unfolding b(1) call returns_Inr prod.case
    using r(4-9) room readyI [OF b(3) r(4)] by (intro exI [of _ n]) (simp add: aidl_isensors_def flip: n_def)
qed

lemma activate_law:
  assumes "aidl_ready hms os sys fd f infos st" "h \<in> si_sensorHandle ` set infos"
  shows "returns (AidlService_activate hms os kEventSize clk h en st) (\<lambda>(status, st').
     status = Aidl_ok \<and> aidl_ready hms os sys fd f infos st' \<and> enabled_sensor st' = (enabled_sensor st)(h := en)
     \<and> has_channel st' = has_channel st \<and> aidl_room st' = aidl_room st \<and> quiet (ss_written st) (ss_written st'))"
proof -
  obtain b where b: "st = up b" "vts_ready infos b" "\<forall>evs. os_fmq_write os evs" "aidl_os kEventSize os"
    "vts_platform hms os sys fd f" "sane b" using assms(1) by (rule readyE)
  note a = activate_ready [OF b(2) assms(2) b(3,4), of hms clk en]
  have eq: "AidlService_activate hms os kEventSize clk h en (up b)
      = Inr (Aidl_ok, up (snd (Sensors_activate hms os clk h en b)))"
    using activate_up [OF b(4,6)] by (simp add: a(2))
  show ?thesis unfolding b(1) eq using a readyI [OF b(5) a(1)] by simp
qed

lemma batch_law:
  assumes "aidl_ready hms os sys fd f infos st"
  shows "returns (AidlService_batch hms os kEventSize h p 0 st) (\<lambda>(status, st').
     status = (if h \<in> si_sensorHandle ` set infos then Aidl_ok else Aidl_exception EX_ILLEGAL_ARGUMENT)
     \<and> aidl_ready hms os sys fd f infos st' \<and> same st st')"
proof -
  obtain b where b: "st = up b" "vts_ready infos b" "\<forall>evs. os_fmq_write os evs" "aidl_os kEventSize os"
    "vts_platform hms os sys fd f" "sane b" using assms by (rule readyE)
  note a = batch_ready [OF b(2-4), of hms h p]
  show ?thesis using batch_up [OF b(4,6), of hms h p 0] a readyI [OF b(5) a(1)] by (simp add: b(1))
qed

lemma flush_status:
  assumes "aidl_os sz os" "sane b" "sm_find h (ss_mSensors b) \<noteq> None"
  shows "AidlService_flush hms os sz clk h (up b) =
    Inr (aidl_flush_status (fst (Sensors_flush hms os clk 0 h b)), up (snd (Sensors_flush hms os clk 0 h b)))"
proof -
  obtain s where s: "sm_find h (ss_mSensors b) = Some s" using assms(3) by auto
  then have "sane_sensor s" using assms(2) by (simp add: sane_def)
  then show ?thesis
    using s call_up [where f = "\<lambda>s. snd (Sensor_flush (hms h) clk 0 s)", OF assms(1) flush_outputs, of False h s b]
    by (simp add: AidlService_flush_def Sensors_flush_def AidlSensor_flush_cases sane_sensor_def)
qed

lemma flush_law:
  assumes "aidl_ready hms os sys fd f infos st" "h \<in> si_sensorHandle ` set infos"
  shows "returns (AidlService_flush hms os kEventSize clk h st) (\<lambda>(status, st').
     status = (if enabled_sensor st h then Aidl_ok else Aidl_service_specific ERROR_BAD_VALUE) \<and> aidl_ready hms os sys fd f infos st'
     \<and> enabled_sensor st' = enabled_sensor st \<and> has_channel st' = has_channel st \<and> aidl_room st' = aidl_room st
     \<and> (\<not> enabled_sensor st h \<longrightarrow> same st st')
     \<and> (\<exists>evs. ss_written st' = ss_written st @ evs
          \<and> (\<forall>h'. flushes h' evs = (if enabled_sensor st h \<and> h' = h then 1 else 0))))"
proof -
  obtain b where b: "st = up b" "vts_ready infos b" "\<forall>evs. os_fmq_write os evs" "aidl_os kEventSize os"
    "vts_platform hms os sys fd f" "sane b" using assms(1) by (rule readyE)
  let ?b' = "snd (Sensors_flush hms os clk 0 h b)"
  note a = flush_ready [OF b(2) assms(2) b(3), of hms clk 0]
  note status = flush_status [OF b(4,6) assms(2) [unfolded ready_handles(1) [OF b(2)]], of hms clk]
  have "listed_infos ?b' = listed_infos b" using a(1) b(2) by (simp add: vts_ready_def)
  then have "same b ?b'" if "\<not> enabled_sensor b h"
    using that a(3-6) by (auto simp: same_def quiet_def)
  then show ?thesis
    unfolding b(1) status using a(3-6) readyI [OF b(5) a(1)] by (simp add: a(2) aidl_flush_status_def)
qed

lemma config_status:
  assumes "vts_ready infos b" "has_channel b c" "info \<in> set infos" "rate \<in> {RL_STOP, RL_NORMAL, RL_FAST, RL_VERY_FAST}"
    and "aidl_os sz os"
  shows "\<exists>status ret st'. AidlService_configDirectReport hms os sz (si_sensorHandle info) c rate (up b) = Inr ((status, ret), st')
     \<and> (if isDirectReportRateSupported info rate then status = Aidl_ok \<and> (\<exists>t. ret = Some t \<and> 0 < t)
        else status = Aidl_exception EX_ILLEGAL_ARGUMENT)"
proof -
  let ?h = "si_sensorHandle info"
  have info: "bosch_info info" using assms(1,3) by (simp add: vts_ready_def list_all_iff)
  have h: "0 < ?h" using info by (simp add: bosch_info_def)
  obtain s where s: "sm_find ?h (ss_mSensors b) = Some s" using ready_handles(1) [OF assms(1), of ?h] assms(3) by auto
  have flags: "si_flags (hs_mSensorInfo s) = 1216" using ready_sensor(1) [OF assms(1) s] by (simp add: bosch_info_def)
  obtain ch where ch: "sm_find c (ss_mDirectChannels b) = Some ch" using assms(2) by (auto simp: has_channel_def)
  have max: "i32 (drop_bit FLAG_SHIFT_DIRECT_REPORT (1216 AND FLAG_MASK_DIRECT_REPORT)) = 1" "has_flag 1216 FLAG_DIRECT_CHANNEL_ASHMEM"
    "i32 (drop_bit FLAG_SHIFT_DIRECT_REPORT 1216 AND drop_bit FLAG_SHIFT_DIRECT_REPORT FLAG_MASK_DIRECT_REPORT) = 1"
    by (simp_all add: flag_defs has_flag_def i32_def)
  have add: "\<exists>st'. on_aidl_sensor os sz ?h (Sensor_addDirectChannel (hms ?h) c ns)
      (aidl_add_handle c ?h (aidl_set_rate c ?h ns (up b))) = Inr st'" for ns
    using on_sensor_up [OF assms(5) _ keeps_data_ops(6) addDirectChannel_facts(4),
        of "add_channel_handle c ?h (set_rate c ?h ns b)" ?h "hms ?h" c ns] assms(1)
    by (simp add: vts_ready_def)
  have some: "\<exists>st'. AidlService_configDirectReport hms os sz ?h c rate (up b) = Inr ((Aidl_ok, Some ?h), st')"
    if "aidl_rate_of_level 1 rate = Some ns" for ns
    using add [of ns] that h by (auto simp: AidlService_configDirectReport_def ch s flags max Let_def aidl_sensor_eqs)
  have none: "AidlService_configDirectReport hms os sz ?h c rate (up b) = Inr ((Aidl_exception EX_ILLEGAL_ARGUMENT, None), up b)"
    if "aidl_rate_of_level 1 rate = None"
    using that h by (auto simp: AidlService_configDirectReport_def ch s flags max Let_def)
  note supported = bosch_info_facts(5-8) [OF info]
  have level: "aidl_rate_of_level 1 RL_STOP = Some 0" "aidl_rate_of_level 1 RL_NORMAL = Some 20000000"
    "aidl_rate_of_level 1 RL_FAST = None" "aidl_rate_of_level 1 RL_VERY_FAST = None"
    by (simp_all add: aidl_rate_of_level_def)
  show ?thesis using assms(4) some none h by (auto simp: supported level)
qed

lemma config_law:
  assumes "aidl_ready hms os sys fd f infos st" "has_channel st c" "info \<in> set infos"
    "rate \<in> {RL_STOP, RL_NORMAL, RL_FAST, RL_VERY_FAST}"
  shows "returns (AidlService_configDirectReport hms os kEventSize (si_sensorHandle info) c rate st) (\<lambda>((status, ret), st').
     (if isDirectReportRateSupported info rate then status = Aidl_ok \<and> (\<exists>t. ret = Some t \<and> 0 < t)
      else status = Aidl_exception EX_ILLEGAL_ARGUMENT) \<and> aidl_ready hms os sys fd f infos st' \<and> same st st')"
proof -
  obtain b where b: "st = up b" "vts_ready infos b" "\<forall>evs. os_fmq_write os evs" "aidl_os kEventSize os"
    "vts_platform hms os sys fd f" "sane b" using assms(1) by (rule readyE)
  have c: "has_channel b c" using assms(2) by (simp add: b(1))
  obtain status ret where s: "AidlService_configDirectReport hms os kEventSize (si_sensorHandle info) c rate (up b)
       = Inr ((status, ret), up (snd (Sensors_configDirectReport hms os (si_sensorHandle info) c rate b)))"
    "if isDirectReportRateSupported info rate then status = Aidl_ok \<and> (\<exists>t. ret = Some t \<and> 0 < t)
      else status = Aidl_exception EX_ILLEGAL_ARGUMENT"
    using config_status [OF b(2) c assms(3,4) b(4), of hms] config_up [OF b(4,6), of hms "si_sensorHandle info" c rate] by auto
  have a: "vts_ready infos (snd (Sensors_configDirectReport hms os (si_sensorHandle info) c rate b))"
    "same b (snd (Sensors_configDirectReport hms os (si_sensorHandle info) c rate b))"
    using config_ready [OF b(2-4), of hms] by simp_all
  show ?thesis unfolding b(1) s(1) using s(2) a(2) readyI [OF b(5) a(1)] by simp
qed

lemma config_all_law:
  assumes "aidl_ready hms os sys fd f infos st" "has_channel st c"
  shows "returns (AidlService_configDirectReport hms os kEventSize (-1) c rate st) (\<lambda>((status, ret), st').
     status = (if rate = RL_STOP then Aidl_ok else Aidl_exception EX_ILLEGAL_ARGUMENT)
     \<and> aidl_ready hms os sys fd f infos st' \<and> same st st')"
proof -
  obtain b where b: "st = up b" "vts_ready infos b" "\<forall>evs. os_fmq_write os evs" "aidl_os kEventSize os"
    "vts_platform hms os sys fd f" "sane b" using assms(1) by (rule readyE)
  have "\<forall>i\<in>set infos. 0 < si_sensorHandle i" using b(2) by (auto simp: vts_ready_def list_all_iff bosch_info_def)
  then have "- 1 \<notin> si_sensorHandle ` set infos" by force
  then have none: "sm_find (- 1) (ss_mSensors b) = None" using ready_handles(1) [OF b(2), of "- 1"] by simp
  have a: "vts_ready infos (snd (Sensors_configDirectReport hms os (- 1) c rate b))"
    "same b (snd (Sensors_configDirectReport hms os (- 1) c rate b))"
    using config_ready [OF b(2-4), of hms] by simp_all
  obtain ret where "AidlService_configDirectReport hms os kEventSize (- 1) c rate (up b)
      = Inr ((aidl_result (fst (fst (Sensors_configDirectReport hms os (- 1) c rate b))), ret),
             up (snd (Sensors_configDirectReport hms os (- 1) c rate b)))"
    using config_up [OF b(4,6), of hms "- 1" c rate] by blast
  moreover have "fst (fst (Sensors_configDirectReport hms os (- 1) c rate b)) = (if rate = RL_STOP then R_OK else R_BAD_VALUE)"
    using assms(2) none by (auto simp: Sensors_configDirectReport_def b(1) has_channel_def)
  ultimately show ?thesis unfolding b(1) using a(2) readyI [OF b(5) a(1)] by simp
qed

lemma unregister_law:
  assumes "aidl_ready hms os sys fd f infos st"
  shows "returns (AidlService_unregisterDirectChannel hms os kEventSize c st) (\<lambda>(status, st').
     status = Aidl_ok \<and> aidl_ready hms os sys fd f infos st' \<and> enabled_sensor st' = enabled_sensor st
     \<and> aidl_room st' = aidl_room st \<and> quiet (ss_written st) (ss_written st'))"
proof -
  obtain b where b: "st = up b" "vts_ready infos b" "\<forall>evs. os_fmq_write os evs" "aidl_os kEventSize os"
    "vts_platform hms os sys fd f" "sane b" using assms by (rule readyE)
  have a: "vts_ready infos (snd (Sensors_unregisterDirectChannel hms os c b))"
    "fewer b (snd (Sensors_unregisterDirectChannel hms os c b))"
    using unregister_ready [OF b(2-4), of hms c] by simp_all
  show ?thesis
    using unregister_up [OF b(4,6), of hms c] readyI [OF b(5) a(1)] a(2)
    by (simp add: b(1) fewer_def same_def enabled_sensor_def fun_eq_iff)
qed

lemma initialize_law:
  assumes "aidl_ready hms os sys fd f infos st"
  shows "returns (AidlService_initialize hms os kEventSize clk True True st) (\<lambda>(status, st').
     aidl_ready hms os sys fd f infos st' \<and> aidl_room st' = aidl_room st \<and> (\<forall>c. \<not> has_channel st' c))"
proof -
  obtain b where b: "st = up b" "vts_ready infos b" "\<forall>evs. os_fmq_write os evs" "aidl_os kEventSize os"
    "vts_platform hms os sys fd f" "sane b" using assms by (rule readyE)
  note a = initialize_ready [OF b(2,3), of hms clk]
  show ?thesis using readyI [OF b(5) a(1)] by (simp add: b(1) initialize_up a(2,4))
qed

lemma injection_law:
  assumes "aidl_ready hms os sys fd f infos st" "infos \<noteq> []"
  shows "AidlService_setOperationMode OM_DATA_INJECTION st = Aidl_exception EX_ILLEGAL_ARGUMENT"
proof -
  have last: "xs \<noteq> [] \<Longrightarrow> fold (\<lambda>x r. c) xs (r :: aidl_status) = c" for xs :: "Sensor list" and c r
    by (induction xs arbitrary: r) (auto, metis fold_simps(1))
  obtain b where b: "st = up b" "vts_ready infos b" using assms(1) by (rule readyE)
  then have "sm_values (ss_mSensors st) \<noteq> []" using assms(2) by (auto simp: vts_ready_def listed_infos_def)
  then show ?thesis by (simp add: AidlService_setOperationMode_def AidlSensor_setOperationMode_def last)
qed

lemma same_service:
  "aidl_ready hms os sys fd f infos st \<Longrightarrow> sm_find h (ss_mSensors st) = None \<longleftrightarrow> h \<notin> si_sensorHandle ` set infos"
  by (erule readyE) (simp add: ready_handles(1))

interpretation aidl: isensors_contract "aidl_isensors hms os fo clk sys fd sched f"
  "aidl_ready hms os sys fd f infos" infos enabled_sensor has_channel aidl_room event_memory same
  Aidl_ok "Aidl_exception EX_ILLEGAL_ARGUMENT" "Aidl_service_specific ERROR_BAD_VALUE"
  for hms :: "int \<Rightarrow> 's hal_methods" and os fo clk sys fd sched f infos
proof (unfold_locales, goal_cases)
  case (3 s s')
  then show ?case by (simp add: same_def aidl_room_def aidl_isensors_def)
next
  case (4 s)
  then obtain b where "s = up b" "vts_ready infos b" by (rule readyE)
  then show ?case using ready_handles(2) [of infos b] by (simp add: vts_ready_def)
next
  case (5 s c)
  from 5(1) obtain b where "s = up b" "vts_ready infos b" by (rule readyE)
  then show ?case using 5(2) by (simp add: vts_ready_def)
next
  case (6 s)
  then obtain b where "s = up b" "vts_ready infos b" by (rule readyE)
  then show ?case by (simp add: aidl_isensors_def vts_ready_def)
next
  case (7 s n)
  then show ?case using background_law [of hms os sys fd f infos s fo "sched n"] by (simp add: aidl_isensors_def)
next
  case (8 s)
  then show ?case using initialize_law by (simp add: aidl_isensors_def)
next
  case (9 s h en)
  then show ?case using activate_law by (simp add: aidl_isensors_def)
next
  case (10 s h en)
  then show ?case using same_service [of hms os sys fd f infos s h] by (simp add: aidl_isensors_def AidlService_activate_def)
next
  case (11 s h p)
  then show ?case unfolding aidl_isensors_def isensors.simps by (rule batch_law)
next
  case (12 s h)
  then show ?case using flush_law [of hms os sys fd f infos s h clk] by (auto simp: aidl_isensors_def elim!: returns_mono)
next
  case (13 s h)
  then show ?case using flush_law [of hms os sys fd f infos s h clk] by (auto simp: aidl_isensors_def elim!: returns_mono)
next
  case (14 s h)
  then show ?case using same_service [of hms os sys fd f infos s h] by (simp add: aidl_isensors_def AidlService_flush_def)
next
  case (15 s)
  then show ?case using injection_law by (simp add: aidl_isensors_def)
next
  case (16 s mem)
  then show ?case using register_law [of hms os sys fd f infos s mem fo clk sched] by (simp add: aidl_isensors_def)
next
  case (17 s c info rate)
  then show ?case using config_law [of hms os sys fd f infos s c info rate] by (simp add: aidl_isensors_def)
next
  case (18 s c h rate)
  then show ?case by (simp add: aidl_isensors_def AidlService_configDirectReport_def has_channel_def)
next
  case (19 s c rate)
  then show ?case using config_all_law [of hms os sys fd f infos s c rate] by (simp add: aidl_isensors_def)
next
  case (20 s c)
  then show ?case using unregister_law [of hms os sys fd f infos s c] by (simp add: aidl_isensors_def)
qed simp_all

interpretation aidl_tests: aidl_contract "aidl_isensors hms os fo clk sys fd sched f"
  "aidl_ready hms os sys fd f infos" infos enabled_sensor has_channel aidl_room event_memory same
  for hms :: "int \<Rightarrow> 's hal_methods" and os fo clk sys fd sched f infos
  by (rule aidl_contract.intro) (rule aidl.isensors_contract_axioms)

section \<open>The tests pass\<close>

lemma added_ready:
  assumes "rounds_above_powers fo" "ds = available_data fs fo" "AddSensors read ds (Sensors_init hal) = Inr b"
    and "\<forall>h s. sm_find h (ss_mSensors b) = Some s \<longrightarrow> placement_in_range (hs_mConfig s)"
  shows "vts_ready (numbered ds) b" "ss_mNextChannelHandle b = 1"
proof -
  note avail = available_data_facts [of fs fo, folded assms(2)]
  have next_one: "ss_mNextChannelHandle b' = ss_mNextChannelHandle b0" if "AddSensors read xs b0 = Inr b'"
    for xs and b0 b' :: "('a, sensors_event_t) sensors"
    using that by (induction xs arbitrary: b0) (auto simp: Let_def split: option.splits)
  show n: "ss_mNextChannelHandle b = 1" using next_one [OF assms(3)] by (simp add: Sensors_init_def)
  have l: "listed_infos b = numbered ds"
    using AddSensors_list [OF assms(3), of 0] avail(3)
    by (simp add: listed_infos_def numbered_def Sensors_init_def sm_values_def)
  have delays: "\<forall>d\<in>set ds. sd_minDelayUs d \<le> sd_maxDelayUs d" using all_delays [of fo] avail(1) by auto
  have inv: "service_inv b" "ss_mDirectChannels b = []"
    using AddSensors_inv [OF assms(3) Sensors_init_inv _ delays] by (simp_all add: Sensors_init_def)
  have bosch: "bosch_info info \<and> si_type info \<noteq> ST_AMBIENT_TEMPERATURE" if "info \<in> set (numbered ds)" for info
  proof -
    from that obtain i where i: "i < length ds" "info = sensor_info_of (int i + 1) (ds ! i)"
      by (auto simp: numbered_def set_zip)
    then have d: "ds ! i \<in> set (all_data fo)" using avail(1) nth_mem [OF i(1)] by blast
    then have "(sd_type (ds ! i), sd_sensorName (ds ! i)) \<in> set (map (\<lambda>d. (sd_type d, sd_sensorName d)) (all_data fo))"
      by force
    then have "bst_int (sd_type (ds ! i)) \<noteq> ST_META_DATA" "bst_int (sd_type (ds ! i)) \<noteq> ST_AMBIENT_TEMPERATURE"
      unfolding all_names by (auto simp: st_defs)
    moreover have "sd_reportMode (ds ! i) = CONTINUOUS" using d all_vendors [of fo] by blast
    ultimately show ?thesis
      using i avail(3) by (simp add: bosch_info_def sensor_info_of_def SensorInfo_init_def continuous_flags)
  qed
  have "sane b" unfolding sane_def sane_sensor_def
  proof (intro allI impI conjI)
    fix h s assume s: "sm_find h (ss_mSensors b) = Some s"
    then show "placement_in_range (hs_mConfig s)" using assms(4) by blast
    have "hs_mSensorInfo s \<in> set (listed_infos b)"
      using sm_find_in_set [OF s] by (force simp: listed_infos_def sm_values_def)
    then show "si_type (hs_mSensorInfo s) \<noteq> ST_AMBIENT_TEMPERATURE" using bosch by (simp add: l)
  qed
  then show "vts_ready (numbered ds) b"
    using inv bosch l n by (simp add: vts_ready_def has_channel_def list_all_iff)
qed

lemma event_memory_create:
  assumes "SensorsAidlTestSharedMemory_create mo junk MT_ASHMEM kEventSize = Some mem"
  shows "event_memory (SensorsAidlTestSharedMemory_getSharedMemInfo mem)"
proof -
  have "tm_mType mem = MT_ASHMEM" "tm_mSize mem = kEventSize"
    using assms by (auto simp: SensorsAidlTestSharedMemory_create_def SensorsAidlTestSharedMemory_new_def Let_def
        split: if_splits option.splits)
  then show ?thesis
    by (simp add: event_memory_def SensorsAidlTestSharedMemory_getSharedMemInfo_def kEventSize_def i32_def)
qed


text \<open>A platform with one SMI330.\<close>

definition vts_ashmem :: ashmem where
  "vts_ashmem = \<lparr>ashmem_valid = (\<lambda>_. True), ashmem_get_size_region = (\<lambda>_. 104), ashmem_mmap = (\<lambda>_ _. Mapped)\<rparr>"

definition vts_memory :: memory_os where
  "vts_memory = \<lparr>mo_native_handle_create = True, mo_ashmem_create_region = (\<lambda>_. 7),
     mo_mmap = (\<lambda>n _. Some (replicate n 0)), mo_gralloc_initialized = False, mo_gralloc_allocate = (\<lambda>_. (False, None))\<rparr>"

lemma vts_example_platform: "vts_platform (\<lambda>_. reading_hal) aidl_example_os vts_ashmem fd (\<lambda>_. 0)"
  by (simp add: vts_platform_def aidl_os_def aidl_example_os_def sane_hal_def reading_hal_def vts_ashmem_def kEventSize_def)

lemma example_configs:
  assumes "AddSensors example_xml ds b = Inr b'" "\<forall>h s. sm_find h (ss_mSensors b) = Some s \<longrightarrow> hs_mConfig s = None"
  shows "\<forall>h s. sm_find h (ss_mSensors b') = Some s \<longrightarrow> hs_mConfig s = None"
  using assms
proof (induction ds arbitrary: b)
  case (Cons d ds)
  let ?info = "sensor_info_of (ss_mNextHandle b) d"
  have xml: "readSensorsConfigFromXml example_xml = Some []"
    by (simp add: example_xml_def readSensorsConfigFromXml_def gSensorConfigLocationList_def)
  have "AddSensors example_xml ds (b\<lparr>ss_mNextHandle := i32 (ss_mNextHandle b + 1),
      ss_mSensors := sm_put (si_sensorHandle ?info) (Sensor_init ?info None) (ss_mSensors b)\<rparr>) = Inr b'"
    using Cons.prems(1) by (simp add: xml Let_def)
  then show ?case
  proof (rule Cons.IH, intro allI impI)
    fix h s assume a: "sm_find h (ss_mSensors (b\<lparr>ss_mNextHandle := i32 (ss_mNextHandle b + 1),
      ss_mSensors := sm_put (si_sensorHandle ?info) (Sensor_init ?info None) (ss_mSensors b)\<rparr>)) = Some s"
    show "hs_mConfig s = None"
    proof (cases "h = si_sensorHandle ?info")
      case True
      then have "s = Sensor_init ?info None" using a by simp
      then show ?thesis by (simp add: Sensor_init_def)
    next
      case False
      then have "sm_find h (ss_mSensors b) = Some s" using a by simp
      then show ?thesis using Cons.prems(2) by blast
    qed
  qed
qed simp


text \<open>Without a sensor the service accepts the mode of data injection, and the test of the modes fails.\<close>

lemma no_sensor_fails_modes:
  assumes "ss_mSensors st = []" "\<not> vs_failed vs" "vs_service vs = st" "\<forall>n. sched n = []"
  shows "returns (test_SetOperationMode (aidl_isensors hms os fo clk sys fd sched f) vs) vs_failed"
proof -
  have "AidlService_getSensorsList st = []" "AidlService_setOperationMode OM_DATA_INJECTION st = Aidl_ok"
    using assms(1) by (simp_all add: AidlService_getSensorsList_def AidlService_setOperationMode_def sm_values_def)
  then show ?thesis
    using assms(3,4) by (simp add: test_SetOperationMode_def vts_getSensorsList_def vts_call_def aidl_isensors_def
        vts_setOperationMode_def getInjectEventSensors_def EXPECT_def checkIsOk_def)
qed

end
