(* ===== verification/Vts_Hidl_Target.thy ===== *)
theory Vts_Hidl_Target
  imports Vts_Target
begin

text \<open>
  The HIDL compliance tests (\<^verbatim>\<open>2.X/vts/2_X/BoschHalSensorsV2_XTargetTest.h\<close>,
  \<^verbatim>\<open>SensorsHidlEnvironmentV2_X.cpp\<close>) over any implementation of the HIDL interface: the tests of the
  AIDL suite with other statuses, with periods in nanoseconds, and four tests more. The base class of the fixture
  (\<^verbatim>\<open>SensorsHidlTestBase\<close>) and the shared memory belong to the platform: their functions are the
  record \<open>hidl_base\<close>. A HIDL method always hands a value to its callback, so that the values of the interface are
  \<open>Some\<close>. An \<^verbatim>\<open>ASSERT\<close> in a callback ends the callback only.
\<close>

section \<open>The fixture\<close>

record hidl_base =
  hb_extractReportMode :: "int \<Rightarrow> int"
  hb_isValidType :: "int \<Rightarrow> bool"
  hb_assertTypeMatchStringType :: "int \<Rightarrow> string \<Rightarrow> bool"
  hb_expectedReportModeForType :: "int \<Rightarrow> int"
  hb_assertTypeMatchReportMode :: "(int \<Rightarrow> int) \<Rightarrow> int \<Rightarrow> int \<Rightarrow> bool"
  hb_assertDelayMatchReportMode :: "int \<Rightarrow> int \<Rightarrow> int \<Rightarrow> bool"
  hb_isDirectChannelTypeSupported :: "SensorInfo \<Rightarrow> shared_mem_type \<Rightarrow> bool"
  hb_isDirectReportRateSupported :: "SensorInfo \<Rightarrow> rate_level \<Rightarrow> bool"
  hb_create :: "shared_mem_type \<Rightarrow> nat \<Rightarrow> test_memory option"
  hb_getSharedMemInfo :: "test_memory \<Rightarrow> shared_mem_info"

type_synonym 's hidl_sensors = "('s, hal_result) isensors"

text \<open>The two helpers that the header specialises for the types of HIDL 2.1.\<close>

definition Hidl_expectedReportModeForType :: "hidl_base \<Rightarrow> int \<Rightarrow> int" where
  "Hidl_expectedReportModeForType hb type =
     (if type = ST_HINGE_ANGLE then FLAG_ON_CHANGE_MODE else hb_expectedReportModeForType hb type)"

definition Hidl_assertTypeMatchStringType :: "hidl_base \<Rightarrow> int \<Rightarrow> string \<Rightarrow> bool" where
  "Hidl_assertTypeMatchStringType hb type stringType \<longleftrightarrow>
     (if type = ST_HINGE_ANGLE then stringType = ''android.sensor.hinge_angle''
      else hb_assertTypeMatchStringType hb type stringType)"

definition handed :: "int option \<Rightarrow> int" where
  "handed v = (case v of Some n \<Rightarrow> n | None \<Rightarrow> 0)"

definition Hidl_registerDirectChannel ::
  "'s hidl_sensors \<Rightarrow> shared_mem_info \<Rightarrow> 's vts \<Rightarrow> cpp_exception + (hal_result \<times> int) \<times> 's vts" where
  "Hidl_registerDirectChannel sv mem st =
     and_then (vts_call sv (is_registerDirectChannel sv mem) st) (\<lambda>((result, value), st1).
       let channelHandle = handed value in
       Inr ((result, channelHandle),
            if result = R_OK
            then st1\<lparr>vs_mDirectChannelHandles := List.insert channelHandle (vs_mDirectChannelHandles st1)\<rparr> else st1))"

definition Hidl_configDirectReport ::
  "'s hidl_sensors \<Rightarrow> int \<Rightarrow> int \<Rightarrow> rate_level \<Rightarrow> 's vts \<Rightarrow> cpp_exception + (hal_result \<times> int) \<times> 's vts" where
  "Hidl_configDirectReport sv sensorHandle channelHandle rate st =
     and_then (vts_call sv (is_configDirectReport sv sensorHandle channelHandle rate) st)
       (\<lambda>((result, value), st1). Inr ((result, handed value), st1))"

definition Hidl_getSensorsList :: "'s hidl_sensors \<Rightarrow> 's vts \<Rightarrow> cpp_exception + SensorInfo list \<times> 's vts" where
  "Hidl_getSensorsList sv st =
     and_then (vts_call sv (\<lambda>s. Inr (is_getSensorsList sv s, s)) st) (\<lambda>((_, list), st1). Inr (list, st1))"

definition Hidl_getNonOneShotSensors :: "hidl_base \<Rightarrow> SensorInfo list \<Rightarrow> SensorInfo list" where
  "Hidl_getNonOneShotSensors hb = filter (\<lambda>info. hb_extractReportMode hb (si_flags info) \<noteq> FLAG_ONE_SHOT_MODE)"

definition Hidl_getNonOneShotAndNonSpecialSensors :: "hidl_base \<Rightarrow> SensorInfo list \<Rightarrow> SensorInfo list" where
  "Hidl_getNonOneShotAndNonSpecialSensors hb =
     filter (\<lambda>info. let reportMode = hb_extractReportMode hb (si_flags info) in
       reportMode \<noteq> FLAG_ONE_SHOT_MODE \<and> reportMode \<noteq> FLAG_SPECIAL_REPORTING_MODE)"

definition Hidl_getNonOneShotAndNonOnChangeAndNonSpecialSensors :: "hidl_base \<Rightarrow> SensorInfo list \<Rightarrow> SensorInfo list" where
  "Hidl_getNonOneShotAndNonOnChangeAndNonSpecialSensors hb =
     filter (\<lambda>info. let reportMode = hb_extractReportMode hb (si_flags info) in
       reportMode \<noteq> FLAG_ONE_SHOT_MODE \<and> reportMode \<noteq> FLAG_ON_CHANGE_MODE \<and> reportMode \<noteq> FLAG_SPECIAL_REPORTING_MODE)"

definition Hidl_getOneShotSensors :: "hidl_base \<Rightarrow> SensorInfo list \<Rightarrow> SensorInfo list" where
  "Hidl_getOneShotSensors hb = filter (\<lambda>info. hb_extractReportMode hb (si_flags info) = FLAG_ONE_SHOT_MODE)"

definition Hidl_getInjectEventSensors :: "SensorInfo list \<Rightarrow> SensorInfo list" where
  "Hidl_getInjectEventSensors = filter (\<lambda>info. u32 (si_flags info) AND FLAG_DATA_INJECTION \<noteq> 0)"

definition Hidl_getInvalidSensorHandle :: "'s hidl_sensors \<Rightarrow> 's vts \<Rightarrow> cpp_exception + int \<times> 's vts" where
  "Hidl_getInvalidSensorHandle sv st =
     and_then (Hidl_getSensorsList sv st) (\<lambda>(sensors, st1).
       Inr (i32 (fold (\<lambda>sensor maxHandle. max maxHandle (si_sensorHandle sensor)) sensors 0 + 42), st1))"

definition Hidl_activateAllSensors :: "hidl_base \<Rightarrow> 's hidl_sensors \<Rightarrow> bool \<Rightarrow> 's vts \<Rightarrow> cpp_exception + 's vts" where
  "Hidl_activateAllSensors hb sv enable st =
     and_then (Hidl_getSensorsList sv st) (\<lambda>(sensors, st1).
       fold_exc (\<lambda>sensorInfo st.
         if hb_isValidType hb (si_type sensorInfo)
         then and_then (vts_batch sv (si_sensorHandle sensorInfo) (si_minDelay sensorInfo * 1000) 0 st) (\<lambda>(_, st).
              and_then (vts_activate sv (si_sensorHandle sensorInfo) enable st) (\<lambda>(_, st). Inr st))
         else Inr st) sensors st1)"

text \<open>\<^verbatim>\<open>resetHal\<close>, when the queues and the event flag are there. What \<^verbatim>\<open>isOk\<close> tests is the
  transport, not the result.\<close>

definition Hidl_resetHal :: "'s hidl_sensors \<Rightarrow> 's vts \<Rightarrow> cpp_exception + 's vts" where
  "Hidl_resetHal sv st =
     and_then (vts_call sv (is_initialize sv) st) (\<lambda>(_, st1).
     and_then (Hidl_getSensorsList sv st1) (\<lambda>(sensorList, st2).
     fold_exc (\<lambda>i st. and_then (vts_call sv (is_activate sv (si_sensorHandle i) False) st) (\<lambda>(_, st). Inr st))
       sensorList st2))"

section \<open>The list\<close>

definition Hidl_SensorInfo_valid :: "hidl_base \<Rightarrow> SensorInfo \<Rightarrow> bool" where
  "Hidl_SensorInfo_valid hb s \<longleftrightarrow>
     (if si_type s \<ge> DEVICE_PRIVATE_BASE then si_typeAsString s \<noteq> []
      else if si_typeAsString s \<noteq> [] then Hidl_assertTypeMatchStringType hb (si_type s) (si_typeAsString s)
      else True)
     \<and> si_name s \<noteq> [] \<and> si_vendor s \<noteq> []
     \<and> 0 \<le> si_power s \<and> 0 < si_maxRange s
     \<and> \<not> (si_type s = ST_ADDITIONAL_INFO \<or> si_type s = ST_META_DATA)
     \<and> si_fifoMaxEventCount s \<ge> si_fifoReservedEventCount s
     \<and> hb_assertTypeMatchReportMode hb (Hidl_expectedReportModeForType hb) (si_type s) (hb_extractReportMode hb (si_flags s))
     \<and> si_minDelay s \<le> si_maxDelay s
     \<and> hb_assertDelayMatchReportMode hb (si_minDelay s) (si_maxDelay s) (hb_extractReportMode hb (si_flags s))"

fun Hidl_SensorListValid_loop :: "hidl_base \<Rightarrow> SensorInfo list \<Rightarrow> (int \<Rightarrow> string list) \<Rightarrow> bool" where
  "Hidl_SensorListValid_loop hb [] sensorTypeNameMap = True"
| "Hidl_SensorListValid_loop hb (s # list) sensorTypeNameMap =
     (let v = sensorTypeNameMap (si_type s);
          isUniqueName = si_name s \<notin> set v
      in Hidl_SensorInfo_valid hb s \<and> isUniqueName
         \<and> Hidl_SensorListValid_loop hb list
             (if isUniqueName then sensorTypeNameMap(si_type s := v @ [si_name s]) else sensorTypeNameMap))"

definition Hidl_SensorListValid :: "hidl_base \<Rightarrow> SensorInfo list \<Rightarrow> bool" where
  "Hidl_SensorListValid hb list = Hidl_SensorListValid_loop hb list (\<lambda>_. [])"

definition Hidl_SensorListContainsBoschSensor :: "SensorInfo list \<Rightarrow> bool" where
  "Hidl_SensorListContainsBoschSensor list = list_all (\<lambda>sensor. si_vendor sensor = ''Robert Bosch GmbH'') list"

definition Hidl_ConfigCheck :: "SensorInfo list \<Rightarrow> bool" where
  "Hidl_ConfigCheck list =
     list_all (\<lambda>sensor. match_smiPattern (si_name sensor) \<and> si_vendor sensor = ''Robert Bosch GmbH'') list"

definition SensorListDoesntContainInvalidType :: "SensorInfo list \<Rightarrow> bool" where
  "SensorListDoesntContainInvalidType list = list_all (\<lambda>s. si_type s \<noteq> ST_HINGE_ANGLE) list"

definition Hidl_list_test :: "'s hidl_sensors \<Rightarrow> (SensorInfo list \<Rightarrow> bool) \<Rightarrow> 's vts \<Rightarrow> cpp_exception + 's vts" where
  "Hidl_list_test sv check st = and_then (Hidl_getSensorsList sv st) (\<lambda>(l, st1). Inr (EXPECT (check l) st1))"

section \<open>Modes and injection\<close>

definition Hidl_test_SetOperationMode :: "'s hidl_sensors \<Rightarrow> 's vts \<Rightarrow> cpp_exception + 's vts" where
  "Hidl_test_SetOperationMode sv st =
     and_then (Hidl_getSensorsList sv st) (\<lambda>(_, st).
     and_then (Hidl_getSensorsList sv st) (\<lambda>(l, st).
       if length (Hidl_getInjectEventSensors l) > 0
       then and_then (vts_setOperationMode sv OM_NORMAL st) (\<lambda>(result, st).
              if result \<noteq> R_OK then Inr (EXPECT False st)
              else and_then (vts_setOperationMode sv OM_DATA_INJECTION st) (\<lambda>(result, st).
                if result \<noteq> R_OK then Inr (EXPECT False st)
                else and_then (vts_setOperationMode sv OM_NORMAL st) (\<lambda>(result, st). Inr (EXPECT (result = R_OK) st))))
       else and_then (vts_setOperationMode sv OM_DATA_INJECTION st) (\<lambda>(result, st).
              Inr (EXPECT (result = R_BAD_VALUE) st))))"

fun Hidl_inject_each :: "'s hidl_sensors \<Rightarrow> int \<times> int \<Rightarrow> SensorInfo list \<Rightarrow> 's vts \<Rightarrow> cpp_exception + 's vts" where
  "Hidl_inject_each sv now [] st = Inr st"
| "Hidl_inject_each sv now (s # sensors) st =
     and_then (vts_call sv (\<lambda>x. Inr (is_injectSensorData sv \<lparr>ev_timestamp = fst now, ev_sensorHandle = si_sensorHandle s,
         ev_sensorType = ST_ADDITIONAL_INFO, ev_payload = P_none\<rparr> x, x)) st) (\<lambda>(result, st).
     and_then (vts_call sv (\<lambda>x. Inr (is_injectSensorData sv \<lparr>ev_timestamp = snd now, ev_sensorHandle = si_sensorHandle s,
         ev_sensorType = si_type s, ev_payload = P_vec3 1 2 3 ACCURACY_HIGH\<rparr> x, x)) (EXPECT (result = R_OK) st)) (\<lambda>(result, st).
     Hidl_inject_each sv now sensors (EXPECT (result = R_OK) st)))"

text \<open>\<^verbatim>\<open>events.back()\<close> of an empty vector is undefined.\<close>

fun Hidl_check_injected :: "int \<Rightarrow> event_callback \<Rightarrow> SensorInfo list \<Rightarrow> cpp_exception + bool" where
  "Hidl_check_injected now callback [] = Inr True"
| "Hidl_check_injected now callback (s # sensors) =
     (case EventCallback_getEvents (si_sensorHandle s) callback of
        [] \<Rightarrow> Inl Undefined_behaviour
      | [lastEvent] \<Rightarrow>
          if ev_sensorType lastEvent = si_type s \<and> ev_timestamp lastEvent = now
             \<and> ev_payload lastEvent = P_vec3 1 2 3 ACCURACY_HIGH
          then Hidl_check_injected now callback sensors else Inr False
      | _ \<Rightarrow> Inr False)"

definition Hidl_test_InjectSensorEventData :: "'s hidl_sensors \<Rightarrow> int \<times> int \<Rightarrow> 's vts \<Rightarrow> cpp_exception + 's vts" where
  "Hidl_test_InjectSensorEventData sv now st =
     and_then (Hidl_getSensorsList sv st) (\<lambda>(l, st).
       let sensors = Hidl_getInjectEventSensors l in
       if length sensors = 0 then Inr st
       else and_then (vts_setOperationMode sv OM_DATA_INJECTION st) (\<lambda>(result, st).
         if result \<noteq> R_OK then Inr (EXPECT False st)
         else let start = length (is_events sv (vs_service st)) in
           and_then (Hidl_inject_each sv now sensors st) (\<lambda>st.
           and_then (Hidl_check_injected (snd now) (callback_since sv start st) sensors) (\<lambda>good.
             if \<not> good then Inr (EXPECT False st)
             else and_then (vts_setOperationMode sv OM_NORMAL st) (\<lambda>(result, st). Inr (EXPECT (result = R_OK) st))))))"

section \<open>Flushing, batching, activating\<close>

definition Hidl_runFlushTest ::
  "'s hidl_sensors \<Rightarrow> SensorInfo list \<Rightarrow> bool \<Rightarrow> nat \<Rightarrow> int \<Rightarrow> hal_result \<Rightarrow> 's vts \<Rightarrow> cpp_exception + 's vts" where
  "Hidl_runFlushTest sv sensors activateSensor flushCalls expectedFlushCount expectedResponse =
     flush_run sv (\<lambda>sensor. si_maxDelay sensor * 1000) (\<lambda>flushResult. flushResult = expectedResponse) sensors
       activateSensor flushCalls expectedFlushCount"

definition Hidl_runSingleFlushTest ::
  "'s hidl_sensors \<Rightarrow> SensorInfo list \<Rightarrow> bool \<Rightarrow> int \<Rightarrow> hal_result \<Rightarrow> 's vts \<Rightarrow> cpp_exception + 's vts" where
  "Hidl_runSingleFlushTest sv sensors activateSensor = Hidl_runFlushTest sv sensors activateSensor 1"

definition Hidl_test_FlushSensor :: "hidl_base \<Rightarrow> 's hidl_sensors \<Rightarrow> 's vts \<Rightarrow> cpp_exception + 's vts" where
  "Hidl_test_FlushSensor hb sv st =
     and_then (Hidl_getSensorsList sv st) (\<lambda>(l, st).
       let sensors = Hidl_getNonOneShotSensors hb l in
       if length sensors = 0 then Inr st
       else and_then (Hidl_runSingleFlushTest sv sensors True 1 R_OK st) (Hidl_runFlushTest sv sensors True 5 5 R_OK))"

definition Hidl_test_FlushOneShotSensor :: "hidl_base \<Rightarrow> 's hidl_sensors \<Rightarrow> 's vts \<Rightarrow> cpp_exception + 's vts" where
  "Hidl_test_FlushOneShotSensor hb sv st =
     and_then (Hidl_getSensorsList sv st) (\<lambda>(l, st).
       let sensors = Hidl_getOneShotSensors hb l in
       if length sensors = 0 then Inr st else Hidl_runSingleFlushTest sv sensors True 0 R_BAD_VALUE st)"

text \<open>The sensors of two of the tests: not one-shot, or else one-shot.\<close>

definition Hidl_some_sensors :: "hidl_base \<Rightarrow> 's hidl_sensors \<Rightarrow> 's vts \<Rightarrow> cpp_exception + SensorInfo list \<times> 's vts" where
  "Hidl_some_sensors hb sv st =
     and_then (Hidl_getSensorsList sv st) (\<lambda>(l, st).
       if length (Hidl_getNonOneShotSensors hb l) = 0
       then and_then (Hidl_getSensorsList sv st) (\<lambda>(l, st). Inr (Hidl_getOneShotSensors hb l, st))
       else Inr (Hidl_getNonOneShotSensors hb l, st))"

definition Hidl_test_FlushInactiveSensor :: "hidl_base \<Rightarrow> 's hidl_sensors \<Rightarrow> 's vts \<Rightarrow> cpp_exception + 's vts" where
  "Hidl_test_FlushInactiveSensor hb sv st =
     and_then (Hidl_some_sensors hb sv st) (\<lambda>(sensors, st).
       if length sensors = 0 then Inr st else Hidl_runSingleFlushTest sv sensors False 0 R_BAD_VALUE st)"

definition test_FlushNonexistentSensor :: "hidl_base \<Rightarrow> 's hidl_sensors \<Rightarrow> 's vts \<Rightarrow> cpp_exception + 's vts" where
  "test_FlushNonexistentSensor hb sv st =
     and_then (Hidl_some_sensors hb sv st) (\<lambda>(sensors, st).
       if length sensors = 0 then Inr st
       else and_then (Hidl_getInvalidSensorHandle sv st) (\<lambda>(h, st).
         Hidl_runSingleFlushTest sv [(hd sensors)\<lparr>si_sensorHandle := h\<rparr>] False 0 R_BAD_VALUE st))"

fun Hidl_batch_each :: "hidl_base \<Rightarrow> 's hidl_sensors \<Rightarrow> SensorInfo list \<Rightarrow> 's vts \<Rightarrow> cpp_exception + bool \<times> 's vts" where
  "Hidl_batch_each hb sv [] st = Inr (True, st)"
| "Hidl_batch_each hb sv (sensor # sensors) st =
     (let samplingPeriodNs =
            (if hb_extractReportMode hb (si_flags sensor) = FLAG_ONE_SHOT_MODE then 0 else si_minDelay sensor * 1000) in
      and_then (vts_batch sv (si_sensorHandle sensor) samplingPeriodNs 0 st) (\<lambda>(result, st).
        if result \<noteq> R_OK then Inr (False, EXPECT False st)
        else and_then (vts_activate sv (si_sensorHandle sensor) True st) (\<lambda>(_, st).
             and_then (vts_batch sv (si_sensorHandle sensor) (si_maxDelay sensor * 1000) 0 st) (\<lambda>(result, st).
             if result \<noteq> R_OK then Inr (False, EXPECT False st) else Hidl_batch_each hb sv sensors st))))"

definition Hidl_test_Batch :: "hidl_base \<Rightarrow> 's hidl_sensors \<Rightarrow> 's vts \<Rightarrow> cpp_exception + 's vts" where
  "Hidl_test_Batch hb sv st =
     and_then (Hidl_getSensorsList sv st) (\<lambda>(l, st).
       if length l = 0 then Inr st
       else and_then (Hidl_activateAllSensors hb sv False st) (\<lambda>st.
         and_then (Hidl_getSensorsList sv st) (\<lambda>(l, st).
         and_then (Hidl_batch_each hb sv l st) (\<lambda>(go_on, st).
           if \<not> go_on then Inr st
           else and_then (Hidl_activateAllSensors hb sv False st) (\<lambda>st.
             and_then (Hidl_getSensorsList sv st) (\<lambda>(l, st).
             and_then (Hidl_getInvalidSensorHandle sv st) (\<lambda>(h, st).
             and_then (vts_batch sv h (si_minDelay (hd l) * 1000) 0 st) (\<lambda>(result, st).
               Inr (EXPECT (result = R_BAD_VALUE) st)))))))))"

text \<open>The four calls of \<^verbatim>\<open>activate\<close> on a sensor.\<close>

fun Hidl_activate_steps :: "'s hidl_sensors \<Rightarrow> int \<Rightarrow> bool list \<Rightarrow> 's vts \<Rightarrow> cpp_exception + bool \<times> 's vts" where
  "Hidl_activate_steps sv h [] st = Inr (True, st)"
| "Hidl_activate_steps sv h (enable # steps) st =
     and_then (vts_activate sv h enable st) (\<lambda>(result, st).
       if result \<noteq> R_OK then Inr (False, EXPECT False st) else Hidl_activate_steps sv h steps st)"

fun Hidl_activate_each :: "'s hidl_sensors \<Rightarrow> SensorInfo list \<Rightarrow> 's vts \<Rightarrow> cpp_exception + bool \<times> 's vts" where
  "Hidl_activate_each sv [] st = Inr (True, st)"
| "Hidl_activate_each sv (sensor # sensors) st =
     and_then (vts_batch sv (si_sensorHandle sensor) (si_minDelay sensor * 1000) 0 st) (\<lambda>(_, st).
     and_then (Hidl_activate_steps sv (si_sensorHandle sensor) [True, True, False, False] st) (\<lambda>(go_on, st).
       if \<not> go_on then Inr (False, st) else Hidl_activate_each sv sensors st))"

definition Hidl_test_Activate :: "'s hidl_sensors \<Rightarrow> 's vts \<Rightarrow> cpp_exception + 's vts" where
  "Hidl_test_Activate sv st =
     and_then (Hidl_getSensorsList sv st) (\<lambda>(l, st).
       if length l = 0 then Inr st
       else and_then (Hidl_getSensorsList sv st) (\<lambda>(l, st).
         and_then (Hidl_activate_each sv l st) (\<lambda>(go_on, st).
           if \<not> go_on then Inr st
           else and_then (Hidl_getInvalidSensorHandle sv st) (\<lambda>(invalidHandle, st).
             and_then (vts_activate sv invalidHandle True st) (\<lambda>(result, st).
               if result \<noteq> R_BAD_VALUE then Inr (EXPECT False st)
               else and_then (vts_activate sv invalidHandle False st) (\<lambda>(result, st).
                 Inr (EXPECT (result = R_BAD_VALUE) st)))))))"

section \<open>Direct channels\<close>

definition Hidl_checkRateLevel ::
  "hidl_base \<Rightarrow> 's hidl_sensors \<Rightarrow> SensorInfo \<Rightarrow> int \<Rightarrow> rate_level \<Rightarrow> 's vts \<Rightarrow> cpp_exception + 's vts" where
  "Hidl_checkRateLevel hb sv sensor directChannelHandle rateLevel st =
     and_then (Hidl_configDirectReport sv (si_sensorHandle sensor) directChannelHandle rateLevel st)
       (\<lambda>((result, reportToken), st).
         Inr (if hb_isDirectReportRateSupported hb sensor rateLevel
              then EXPECT (result = R_OK \<and> (rateLevel \<noteq> RL_STOP \<longrightarrow> reportToken > 0)) st
              else EXPECT (result = R_BAD_VALUE) st))"

fun Hidl_queryDirectChannelSupport_loop ::
  "hidl_base \<Rightarrow> shared_mem_type \<Rightarrow> SensorInfo list \<Rightarrow> bool \<times> bool \<Rightarrow> bool \<times> bool" where
  "Hidl_queryDirectChannelSupport_loop hb memType [] res = res"
| "Hidl_queryDirectChannelSupport_loop hb memType (curSensor # sensors) (supportsSharedMemType, supportsAnyDirectChannel) =
     (let a = supportsSharedMemType \<or> hb_isDirectChannelTypeSupported hb curSensor memType;
          b = supportsAnyDirectChannel \<or> hb_isDirectChannelTypeSupported hb curSensor MT_ASHMEM
              \<or> hb_isDirectChannelTypeSupported hb curSensor MT_GRALLOC
      in if a \<and> b then (a, b) else Hidl_queryDirectChannelSupport_loop hb memType sensors (a, b))"

definition Hidl_queryDirectChannelSupport ::
  "hidl_base \<Rightarrow> 's hidl_sensors \<Rightarrow> shared_mem_type \<Rightarrow> 's vts \<Rightarrow> cpp_exception + (bool \<times> bool) \<times> 's vts" where
  "Hidl_queryDirectChannelSupport hb sv memType st =
     and_then (Hidl_getSensorsList sv st) (\<lambda>(l, st).
       Inr (Hidl_queryDirectChannelSupport_loop hb memType l (False, False), st))"

definition Hidl_verifyRegisterDirectChannel ::
  "hidl_base \<Rightarrow> 's hidl_sensors \<Rightarrow> test_memory \<Rightarrow> int \<Rightarrow> bool \<Rightarrow> bool \<Rightarrow> 's vts \<Rightarrow> cpp_exception + int \<times> 's vts" where
  "Hidl_verifyRegisterDirectChannel hb sv mem directChannelHandle supportsSharedMemType supportsAnyDirectChannel st =
     (if supportsSharedMemType \<and> (tm_mBuffer mem = Null_buffer \<or> tm_mBuffer mem = Failed_mapping)
      then Inl Undefined_behaviour
      else and_then (Hidl_registerDirectChannel sv (hb_getSharedMemInfo hb mem) st)
       (\<lambda>((result, channelHandle), st).
         if supportsSharedMemType
         then if result \<noteq> R_OK \<or> \<not> channelHandle > 0 then Inr (directChannelHandle, EXPECT False st)
              else if list_all (\<lambda>b. b = 0) (is_memory sv (vs_service st) channelHandle (replicate (tm_mSize mem) 0xFF))
              then Inr (channelHandle, st) else Inr (directChannelHandle, EXPECT False st)
         else if result \<noteq> (if supportsAnyDirectChannel then R_BAD_VALUE else R_INVALID_OPERATION) \<or> channelHandle \<noteq> -1
              then Inr (directChannelHandle, EXPECT False st)
              else Inr (channelHandle, st)))"

definition Hidl_verifyConfigure ::
  "hidl_base \<Rightarrow> 's hidl_sensors \<Rightarrow> SensorInfo \<Rightarrow> shared_mem_type \<Rightarrow> int \<Rightarrow> bool \<Rightarrow> 's vts \<Rightarrow> cpp_exception + 's vts" where
  "Hidl_verifyConfigure hb sv sensor memType directChannelHandle supportsAnyDirectChannel st =
     (if hb_isDirectChannelTypeSupported hb sensor memType
      then and_then (Hidl_checkRateLevel hb sv sensor directChannelHandle RL_NORMAL st) (\<lambda>st.
           and_then (Hidl_checkRateLevel hb sv sensor directChannelHandle RL_FAST st) (\<lambda>st.
           and_then (Hidl_checkRateLevel hb sv sensor directChannelHandle RL_VERY_FAST st) (\<lambda>st.
           and_then (Hidl_checkRateLevel hb sv sensor directChannelHandle RL_STOP st) (\<lambda>st.
           and_then (Hidl_configDirectReport sv (-1) directChannelHandle RL_NORMAL st) (\<lambda>((result, _), st).
           and_then (Hidl_configDirectReport sv (-1) directChannelHandle RL_STOP (EXPECT (result = R_BAD_VALUE) st))
             (\<lambda>((result, _), st). Inr (EXPECT (result = R_OK) st)))))))
      else and_then (Hidl_configDirectReport sv (si_sensorHandle sensor) directChannelHandle RL_NORMAL st)
             (\<lambda>((result, _), st).
               Inr (EXPECT (result = (if supportsAnyDirectChannel then R_BAD_VALUE else R_INVALID_OPERATION)) st)))"

definition Hidl_verifyUnregisterDirectChannel ::
  "'s hidl_sensors \<Rightarrow> int \<Rightarrow> bool \<Rightarrow> 's vts \<Rightarrow> cpp_exception + 's vts" where
  "Hidl_verifyUnregisterDirectChannel sv directChannelHandle supportsAnyDirectChannel st =
     and_then (vts_unregisterDirectChannel sv directChannelHandle st) (\<lambda>(result, st).
       Inr (EXPECT (result = (if supportsAnyDirectChannel then R_OK else R_INVALID_OPERATION)) st))"

definition Hidl_verifyDirectChannel ::
  "hidl_base \<Rightarrow> 's hidl_sensors \<Rightarrow> shared_mem_type \<Rightarrow> 's vts \<Rightarrow> cpp_exception + 's vts" where
  "Hidl_verifyDirectChannel hb sv memType st =
     and_then (Hidl_queryDirectChannelSupport hb sv memType st) (\<lambda>((supportsSharedMemType, supportsAnyDirectChannel), st).
       if supportsSharedMemType
       then (case hb_create hb memType (1 * kEventSize) of
               None \<Rightarrow> Inr (EXPECT False st)
             | Some mem \<Rightarrow>
                 and_then (Hidl_getSensorsList sv st) (\<lambda>(l, st).
                 fold_exc (\<lambda>sensor st.
                   and_then (Hidl_verifyRegisterDirectChannel hb sv mem 0 supportsSharedMemType supportsAnyDirectChannel st)
                     (\<lambda>(directChannelHandle, st).
                   and_then (Hidl_verifyConfigure hb sv sensor memType directChannelHandle supportsAnyDirectChannel st) (\<lambda>st.
                   Hidl_verifyUnregisterDirectChannel sv directChannelHandle supportsAnyDirectChannel st))) l st))
       else Inr st)"

text \<open>The first sensor with direct channels, their type, and the fastest level.\<close>

fun getDirectChannelSensor_loop :: "hidl_base \<Rightarrow> SensorInfo list \<Rightarrow> (SensorInfo \<times> shared_mem_type) option" where
  "getDirectChannelSensor_loop hb [] = None"
| "getDirectChannelSensor_loop hb (curSensor # sensors) =
     (if hb_isDirectChannelTypeSupported hb curSensor MT_ASHMEM then Some (curSensor, MT_ASHMEM)
      else if hb_isDirectChannelTypeSupported hb curSensor MT_GRALLOC then Some (curSensor, MT_GRALLOC)
      else getDirectChannelSensor_loop hb sensors)"

definition getDirectChannelSensor ::
  "hidl_base \<Rightarrow> 's hidl_sensors \<Rightarrow> 's vts \<Rightarrow> cpp_exception + (SensorInfo \<times> shared_mem_type \<times> rate_level) option \<times> 's vts" where
  "getDirectChannelSensor hb sv st =
     and_then (Hidl_getSensorsList sv st) (\<lambda>(l, st).
       case getDirectChannelSensor_loop hb l of
         None \<Rightarrow> Inr (None, st)
       | Some (sensor, memType) \<Rightarrow>
           let rate = fold (\<lambda>r rate. if hb_isDirectReportRateSupported hb sensor r then r else rate)
                 [RL_NORMAL, RL_FAST, RL_VERY_FAST] RL_STOP
           in Inr (Some (sensor, memType, rate), EXPECT (rate \<noteq> RL_STOP) st))"

definition test_ConfigureDirectChannelWithInvalidHandle ::
  "hidl_base \<Rightarrow> 's hidl_sensors \<Rightarrow> 's vts \<Rightarrow> cpp_exception + 's vts" where
  "test_ConfigureDirectChannelWithInvalidHandle hb sv st =
     and_then (getDirectChannelSensor hb sv st) (\<lambda>(found, st).
       case found of
         None \<Rightarrow> Inr st
       | Some (sensor, memType, rate) \<Rightarrow>
           and_then (Hidl_configDirectReport sv (si_sensorHandle sensor) (-1) rate st)
             (\<lambda>((result, _), st). Inr (EXPECT (result = R_BAD_VALUE) st)))"

text \<open>\<open>HasFatalFailure\<close> holds after one of the two assertions before it has failed.\<close>

definition test_CleanupDirectConnectionOnInitialize ::
  "hidl_base \<Rightarrow> 's hidl_sensors \<Rightarrow> 's vts \<Rightarrow> cpp_exception + 's vts" where
  "test_CleanupDirectConnectionOnInitialize hb sv st =
     and_then (getDirectChannelSensor hb sv st) (\<lambda>(found, st).
       case found of
         None \<Rightarrow> Inr st
       | Some (sensor, memType, rate) \<Rightarrow>
           (case hb_create hb memType (1 * kEventSize) of
              None \<Rightarrow> Inr (EXPECT False st)
            | Some mem \<Rightarrow>
                and_then (Hidl_registerDirectChannel sv (hb_getSharedMemInfo hb mem) st) (\<lambda>((result, channelHandle), st).
                let directChannelHandle = (if result = R_OK then channelHandle else 0) in
                and_then (Hidl_configDirectReport sv (si_sensorHandle sensor) directChannelHandle rate (EXPECT (result = R_OK) st))
                  (\<lambda>((result', _), st).
                let handles = vs_mDirectChannelHandles st in
                and_then (Hidl_resetHal sv ((EXPECT (result' = R_OK) st)\<lparr>vs_mDirectChannelHandles := []\<rparr>)) (\<lambda>st.
                  if result \<noteq> R_OK \<or> result' \<noteq> R_OK then Inr st
                  else and_then (Hidl_configDirectReport sv (si_sensorHandle sensor) directChannelHandle rate st)
                    (\<lambda>((result, _), st).
                      Inr ((EXPECT (result = R_BAD_VALUE) st)\<lparr>vs_mDirectChannelHandles := handles\<rparr>)))))))"

section \<open>The suite\<close>

datatype hidl_test =
    Hidl_list_valid | Hidl_list_bosch | Hidl_list_config | Hidl_list_types
  | Hidl_mode | Hidl_inject
  | Hidl_flush | Hidl_flush_one_shot | Hidl_flush_inactive | Hidl_flush_nonexistent
  | Hidl_batch | Hidl_activate | Hidl_ashmem | Hidl_gralloc | Hidl_invalid_channel | Hidl_cleanup

fun Hidl_body :: "hidl_base \<Rightarrow> 's hidl_sensors \<Rightarrow> int \<times> int \<Rightarrow> hidl_test \<Rightarrow> 's vts \<Rightarrow> cpp_exception + 's vts" where
  "Hidl_body hb sv now Hidl_list_valid = Hidl_list_test sv (Hidl_SensorListValid hb)"
| "Hidl_body hb sv now Hidl_list_bosch = Hidl_list_test sv Hidl_SensorListContainsBoschSensor"
| "Hidl_body hb sv now Hidl_list_config = Hidl_list_test sv Hidl_ConfigCheck"
| "Hidl_body hb sv now Hidl_list_types = Hidl_list_test sv SensorListDoesntContainInvalidType"
| "Hidl_body hb sv now Hidl_mode = Hidl_test_SetOperationMode sv"
| "Hidl_body hb sv now Hidl_inject = Hidl_test_InjectSensorEventData sv now"
| "Hidl_body hb sv now Hidl_flush = Hidl_test_FlushSensor hb sv"
| "Hidl_body hb sv now Hidl_flush_one_shot = Hidl_test_FlushOneShotSensor hb sv"
| "Hidl_body hb sv now Hidl_flush_inactive = Hidl_test_FlushInactiveSensor hb sv"
| "Hidl_body hb sv now Hidl_flush_nonexistent = test_FlushNonexistentSensor hb sv"
| "Hidl_body hb sv now Hidl_batch = Hidl_test_Batch hb sv"
| "Hidl_body hb sv now Hidl_activate = Hidl_test_Activate sv"
| "Hidl_body hb sv now Hidl_ashmem = Hidl_verifyDirectChannel hb sv MT_ASHMEM"
| "Hidl_body hb sv now Hidl_gralloc = Hidl_verifyDirectChannel hb sv MT_GRALLOC"
| "Hidl_body hb sv now Hidl_invalid_channel = test_ConfigureDirectChannelWithInvalidHandle hb sv"
| "Hidl_body hb sv now Hidl_cleanup = test_CleanupDirectConnectionOnInitialize hb sv"

text \<open>The fixture's \<^verbatim>\<open>TearDown\<close> only ends the environment.\<close>

definition Hidl_run_test :: "hidl_base \<Rightarrow> 's hidl_sensors \<Rightarrow> int \<times> int \<Rightarrow> hidl_test \<Rightarrow> 's vts \<Rightarrow> cpp_exception + 's vts" where
  "Hidl_run_test hb sv now t st =
     and_then (Hidl_resetHal sv (st\<lparr>vs_mSensorHandles := [], vs_mDirectChannelHandles := []\<rparr>)) (Hidl_body hb sv now t)"

definition Hidl_run :: "hidl_base \<Rightarrow> 's hidl_sensors \<Rightarrow> int \<times> int \<Rightarrow> hidl_test list \<Rightarrow> 's \<Rightarrow> cpp_exception + 's vts" where
  "Hidl_run hb sv now tests s =
     fold_exc (Hidl_run_test hb sv now) tests
       \<lparr>vs_service = s, vs_calls = 0, vs_failed = False, vs_mSensorHandles = [], vs_mDirectChannelHandles = []\<rparr>"

end
