(* ===== verification/Vts_Hidl_Suite.thy ===== *)
theory Vts_Hidl_Suite
  imports Vts_Contract Vts_Hidl_Target
begin

text \<open>
  The HIDL tests of theory \<open>Vts_Hidl_Target\<close>, verified against the contract, for a base class whose
  functions are what the AIDL suite defines of its own (\<open>hidl_base_ok\<close>).
\<close>

definition hidl_base_ok :: "hidl_base \<Rightarrow> bool" where
  "hidl_base_ok hb \<longleftrightarrow>
     hb_extractReportMode hb = extractReportMode
     \<and> hb_isDirectChannelTypeSupported hb = isDirectChannelTypeSupported
     \<and> hb_isDirectReportRateSupported hb = isDirectReportRateSupported
     \<and> hb_assertDelayMatchReportMode hb = assertDelayMatchReportMode
     \<and> (\<forall>t\<in>{1, 4, 9, 10, 16, 35}. hb_expectedReportModeForType hb t = expectedReportModeForType t)
     \<and> (\<forall>E t m. E t = INT32_MAX \<or> E t = m \<longrightarrow> hb_assertTypeMatchReportMode hb E t m)"

lemma hidl_baseD:
  assumes "hidl_base_ok hb"
  shows "hb_extractReportMode hb = extractReportMode" "hb_isDirectChannelTypeSupported hb = isDirectChannelTypeSupported"
    "hb_isDirectReportRateSupported hb = isDirectReportRateSupported"
  using assms by (simp_all add: hidl_base_ok_def)

locale hidl_contract =
  isensors_contract sv inv infos enabled open_channel room good_memory keeps R_OK R_BAD_VALUE R_BAD_VALUE
  for sv :: "'s hidl_sensors" and inv infos enabled open_channel room good_memory keeps
begin

text \<open>The calls of the fixture.\<close>

lemma hidl_list_returns: "okay n st \<Longrightarrow> returns (Hidl_getSensorsList sv st) (\<lambda>(l, st'). l = infos \<and> okay n st')"
  unfolding Hidl_getSensorsList_def by (auto intro!: returns_mono [OF okay_list])

lemma hidl_register_returns:
  assumes "holds (Suc n) k cnt en c st" "good_memory mem"
  shows "returns (Hidl_registerDirectChannel sv mem st) (\<lambda>((result, c'), st'). result = R_OK \<and> 0 < c'
     \<and> holds n k cnt en (Some c') st' \<and> list_all (\<lambda>b. b = 0) (is_memory sv (vs_service st') c' (replicate kEventSize 0xFF)))"
  unfolding Hidl_registerDirectChannel_def
  using register_call [OF assms] by (auto simp: Let_def handed_def elim!: returns_mono)

lemma hidl_config_returns:
  assumes "holds n k cnt en (Some c) st" "info \<in> set infos" "rate \<in> {RL_STOP, RL_NORMAL, RL_FAST, RL_VERY_FAST}"
  shows "returns (Hidl_configDirectReport sv (si_sensorHandle info) c rate st) (\<lambda>((result, token), st').
     (if isDirectReportRateSupported info rate then result = R_OK \<and> 0 < token else result = R_BAD_VALUE)
     \<and> holds n k cnt en (Some c) st')"
  unfolding Hidl_configDirectReport_def
  using config_call [OF assms] by (auto simp: handed_def elim!: returns_mono split: if_splits)

lemma hidl_config_all_returns:
  assumes "holds n k cnt en (Some c) st"
  shows "returns (Hidl_configDirectReport sv (-1) c rate st) (\<lambda>((result, token), st').
     result = (if rate = RL_STOP then R_OK else R_BAD_VALUE) \<and> holds n k cnt en (Some c) st')"
  unfolding Hidl_configDirectReport_def using config_all_call [OF assms, of rate] by (auto elim!: returns_mono)

lemma hidl_invalid_returns: "okay n st \<Longrightarrow>
    returns (Hidl_getInvalidSensorHandle sv st) (\<lambda>(h, st'). h \<notin> si_sensorHandle ` set infos \<and> okay n st')"
proof -
  assume ok: "okay n st"
  let ?m = "fold (\<lambda>sensor m. max m (si_sensorHandle sensor)) infos 0"
  have "\<forall>i\<in>set infos. si_sensorHandle i \<le> 2 ^ 30" using okay_bosch [OF ok] by (auto simp: bosch_info_def)
  then have "0 \<le> ?m \<and> ?m \<le> 2 ^ 30" using max_handle [where m = 0 and l = infos] by auto
  then have "i32 (?m + 42) = ?m + 42" by (intro i32_id) auto
  moreover have "si_sensorHandle i \<le> ?m" if "i \<in> set infos" for i
    using max_handle [where m = 0 and l = infos] that by auto
  then have "?m + 42 \<notin> si_sensorHandle ` set infos" by force
  ultimately show ?thesis unfolding Hidl_getInvalidSensorHandle_def
    by (auto intro!: returns_mono [OF hidl_list_returns [OF ok]])
qed

lemma hidl_activateAll_returns: "okay n st \<Longrightarrow> returns (Hidl_activateAllSensors hb sv b st) (okay n)"
proof -
  assume ok: "okay n st"
  have "returns (fold_exc (\<lambda>sensorInfo st.
         if hb_isValidType hb (si_type sensorInfo)
         then and_then (vts_batch sv (si_sensorHandle sensorInfo) (si_minDelay sensorInfo * 1000) 0 st) (\<lambda>(_, st).
              and_then (vts_activate sv (si_sensorHandle sensorInfo) b st) (\<lambda>(_, st). Inr st))
         else Inr st) l st1) (okay n)" if "okay n st1" for l st1
    by (rule returns_fold [where I = "\<lambda>_. okay n", OF that])
       (auto intro!: returns_mono [OF okay_batch] returns_mono [OF okay_activate])
  then show ?thesis unfolding Hidl_activateAllSensors_def by (auto intro!: returns_mono [OF hidl_list_returns [OF ok]])
qed

lemma hidl_reset_returns: "okay n st \<Longrightarrow> returns (Hidl_resetHal sv st) (okay n)"
proof -
  assume ok: "okay n st"
  have init: "returns (vts_call sv (is_initialize sv) st) (\<lambda>(r, st'). True \<and> okay n st')"
    by (rule okay_call [OF ok]) (auto intro!: returns_mono [OF initialize])
  have stop: "returns (vts_call sv (is_activate sv h False) st1) (\<lambda>(r, st'). True \<and> okay n st')" if "okay n st1" for h st1
    by (rule okay_call [OF that], cases "h \<in> si_sensorHandle ` set infos")
       (auto simp: activate_unknown intro!: returns_mono [OF activate])
  have "returns (fold_exc (\<lambda>i st. and_then (vts_call sv (is_activate sv (si_sensorHandle i) False) st) (\<lambda>(_, st). Inr st))
       l st1) (okay n)" if "okay n st1" for l st1
    by (rule returns_fold [where I = "\<lambda>_. okay n", OF that]) (auto intro!: returns_mono [OF stop])
  then show ?thesis unfolding Hidl_resetHal_def
    by (auto intro!: returns_mono [OF init] returns_mono [OF hidl_list_returns])
qed

text \<open>The tests.\<close>

lemma hidl_no_special_sensors:
  assumes "okay n st" "hidl_base_ok hb"
  shows "Hidl_getInjectEventSensors infos = []" "Hidl_getOneShotSensors hb infos = []" "Hidl_getNonOneShotSensors hb infos = infos"
proof -
  note b = okay_bosch [OF assms(1)] and e = hidl_baseD [OF assms(2)]
  show "Hidl_getInjectEventSensors infos = []"
    using b by (auto simp: Hidl_getInjectEventSensors_def bosch_info_def u32_def flag_defs filter_empty_conv)
  show "Hidl_getOneShotSensors hb infos = []" "Hidl_getNonOneShotSensors hb infos = infos"
    using b bosch_info_facts(1)
    by (auto simp: Hidl_getOneShotSensors_def Hidl_getNonOneShotSensors_def e FLAG_ONE_SHOT_MODE_def
        filter_empty_conv filter_id_conv)
qed

lemma hidl_passes_list: "okay n st \<Longrightarrow> check infos \<Longrightarrow> returns (Hidl_list_test sv check st) (okay n)"
  unfolding Hidl_list_test_def by (auto intro!: returns_mono [OF hidl_list_returns])

lemma hidl_passes_modes:
  assumes "okay n st" "hidl_base_ok hb" "infos \<noteq> []"
  shows "returns (Hidl_test_SetOperationMode sv st) (okay n)"
  unfolding Hidl_test_SetOperationMode_def
  by (auto simp: hidl_no_special_sensors(1) [OF assms(1,2)] intro!: returns_mono [OF hidl_list_returns]
      returns_mono [OF okay_mode [OF _ assms(3)]] assms(1))

lemma hidl_passes_inject: "okay n st \<Longrightarrow> hidl_base_ok hb \<Longrightarrow> returns (Hidl_test_InjectSensorEventData sv now st) (okay n)"
  unfolding Hidl_test_InjectSensorEventData_def
  by (auto simp: hidl_no_special_sensors(1) Let_def intro!: returns_mono [OF hidl_list_returns])

lemma hidl_flush_returns:
  assumes "okay n st" "m < 2 ^ 31"
  shows "returns (Hidl_runFlushTest sv infos b m (if b then int m else 0) (if b then R_OK else R_BAD_VALUE) st) (okay n)"
  unfolding Hidl_runFlushTest_def by (rule flush_run_returns [OF assms]) simp

lemma hidl_passes_flush:
  assumes "okay n st" "hidl_base_ok hb"
  shows "returns (Hidl_test_FlushSensor hb sv st) (okay n)"
proof -
  have 1: "returns (Hidl_runFlushTest sv infos True 1 1 R_OK st) (okay n)" if "okay n st" for st
    using hidl_flush_returns [OF that, of 1 True] by simp
  have 5: "returns (Hidl_runFlushTest sv infos True 5 5 R_OK st) (okay n)" if "okay n st" for st
    using hidl_flush_returns [OF that, of 5 True] by simp
  show ?thesis
    unfolding Hidl_test_FlushSensor_def Hidl_runSingleFlushTest_def
    by (auto simp: hidl_no_special_sensors(3) [OF assms] Let_def simp del: One_nat_def
        intro!: returns_mono [OF hidl_list_returns] returns_mono [OF 1] 5 assms)
qed

lemma hidl_passes_one_shot: "okay n st \<Longrightarrow> hidl_base_ok hb \<Longrightarrow> returns (Hidl_test_FlushOneShotSensor hb sv st) (okay n)"
  unfolding Hidl_test_FlushOneShotSensor_def
  by (auto simp: hidl_no_special_sensors(2) Let_def intro!: returns_mono [OF hidl_list_returns])

lemma hidl_some_returns:
  assumes "okay n st" "hidl_base_ok hb"
  shows "returns (Hidl_some_sensors hb sv st) (\<lambda>(l, st'). l = infos \<and> okay n st')"
proof -
  have "returns (if length (Hidl_getNonOneShotSensors hb infos) = 0
       then and_then (Hidl_getSensorsList sv st1) (\<lambda>(l, st). Inr (Hidl_getOneShotSensors hb l, st))
       else Inr (Hidl_getNonOneShotSensors hb infos, st1)) (\<lambda>(l, st'). l = infos \<and> okay n st')" if "okay n st1" for st1
    unfolding hidl_no_special_sensors [OF assms]
    by (cases infos) (use that in \<open>auto simp: hidl_no_special_sensors [OF assms] Hidl_getOneShotSensors_def
        intro!: returns_mono [OF hidl_list_returns]\<close>)
  then show ?thesis unfolding Hidl_some_sensors_def by (auto intro!: returns_mono [OF hidl_list_returns [OF assms(1)]])
qed

lemma hidl_passes_inactive:
  assumes "okay n st" "hidl_base_ok hb"
  shows "returns (Hidl_test_FlushInactiveSensor hb sv st) (okay n)"
proof -
  have "returns (Hidl_runFlushTest sv infos False 1 0 R_BAD_VALUE st) (okay n)" if "okay n st" for st
    using hidl_flush_returns [OF that, of 1 False] by simp
  then show ?thesis unfolding Hidl_test_FlushInactiveSensor_def Hidl_runSingleFlushTest_def
    by (auto simp del: One_nat_def intro!: returns_mono [OF hidl_some_returns [OF assms]])
qed

lemma hidl_passes_nonexistent:
  assumes "okay n st" "hidl_base_ok hb"
  shows "returns (test_FlushNonexistentSensor hb sv st) (okay n)"
  unfolding test_FlushNonexistentSensor_def Hidl_runSingleFlushTest_def Hidl_runFlushTest_def
  by (auto simp del: One_nat_def intro!: returns_mono [OF hidl_some_returns [OF assms]]
      returns_mono [OF hidl_invalid_returns] flush_run_unknown)

lemma hidl_batch_each_returns:
  "set l \<subseteq> set infos \<Longrightarrow> okay n st \<Longrightarrow> returns (Hidl_batch_each hb sv l st) (\<lambda>(go_on, st'). go_on \<and> okay n st')"
proof (induction l arbitrary: st)
  case (Cons sensor l)
  then show ?case
    by (auto simp: Let_def intro!: returns_mono [OF okay_batch] returns_mono [OF okay_activate])
qed simp

lemma hidl_passes_batch:
  assumes "okay n st"
  shows "returns (Hidl_test_Batch hb sv st) (okay n)"
  unfolding Hidl_test_Batch_def
  by (auto intro!: returns_mono [OF hidl_list_returns] returns_mono [OF hidl_activateAll_returns]
      returns_mono [OF hidl_batch_each_returns [OF order_refl]] returns_mono [OF hidl_invalid_returns]
      returns_mono [OF okay_batch] assms)

lemma hidl_activate_steps_returns:
  "h \<in> si_sensorHandle ` set infos \<Longrightarrow> okay n st \<Longrightarrow>
   returns (Hidl_activate_steps sv h steps st) (\<lambda>(go_on, st'). go_on \<and> okay n st')"
  by (induction steps arbitrary: st) (auto intro!: returns_mono [OF okay_activate])

lemma hidl_activate_each_returns:
  "set l \<subseteq> set infos \<Longrightarrow> okay n st \<Longrightarrow> returns (Hidl_activate_each sv l st) (\<lambda>(go_on, st'). go_on \<and> okay n st')"
proof (induction l arbitrary: st)
  case (Cons sensor l)
  then show ?case
    by (auto simp del: Hidl_activate_steps.simps
        intro!: returns_mono [OF okay_batch] returns_mono [OF hidl_activate_steps_returns])
qed simp

lemma hidl_passes_activate:
  assumes "okay n st"
  shows "returns (Hidl_test_Activate sv st) (okay n)"
  unfolding Hidl_test_Activate_def
  by (auto intro!: returns_mono [OF hidl_list_returns] returns_mono [OF hidl_activate_each_returns [OF order_refl]]
      returns_mono [OF hidl_invalid_returns] returns_mono [OF okay_activate] assms)

text \<open>Direct channels.\<close>

lemma hidl_rate_returns:
  assumes "holds n k cnt en (Some c) st" "info \<in> set infos" "rate \<in> {RL_STOP, RL_NORMAL, RL_FAST, RL_VERY_FAST}"
    and "hidl_base_ok hb"
  shows "returns (Hidl_checkRateLevel hb sv info c rate st) (holds n k cnt en (Some c))"
  unfolding Hidl_checkRateLevel_def hidl_baseD [OF assms(4)]
  by (auto intro!: returns_mono [OF hidl_config_returns [OF assms(1-3)]] split: if_splits)

lemma hidl_configure_returns:
  assumes "holds n k cnt en (Some c) st" "info \<in> set infos" "hidl_base_ok hb"
  shows "returns (Hidl_verifyConfigure hb sv info MT_ASHMEM c True st) (holds n k cnt en (Some c))"
proof -
  have "isDirectChannelTypeSupported info MT_ASHMEM"
    using known_bosch [OF assms(1)] assms(2) by (auto simp: list_all_iff bosch_info_facts)
  then show ?thesis
    using assms unfolding Hidl_verifyConfigure_def hidl_baseD [OF assms(3)]
    by (auto intro!: returns_mono [OF hidl_rate_returns] returns_mono [OF hidl_config_all_returns])
qed

lemma hidl_query_loop:
  assumes "list_all bosch_info l" "hidl_base_ok hb"
  shows "Hidl_queryDirectChannelSupport_loop hb MT_ASHMEM l (False, False) = (l \<noteq> [], l \<noteq> [])"
    "fst (Hidl_queryDirectChannelSupport_loop hb MT_GRALLOC l (False, b)) = False"
proof -
  note e = hidl_baseD [OF assms(2)]
  show "Hidl_queryDirectChannelSupport_loop hb MT_ASHMEM l (False, False) = (l \<noteq> [], l \<noteq> [])"
    using assms(1) by (cases l) (simp_all add: bosch_info_facts e)
  show "fst (Hidl_queryDirectChannelSupport_loop hb MT_GRALLOC l (False, b)) = False"
    using assms(1) by (induction l arbitrary: b) (simp_all add: bosch_info_facts e)
qed

lemma hidl_query_returns:
  assumes "okay n st" "hidl_base_ok hb"
  shows "returns (Hidl_queryDirectChannelSupport hb sv MT_ASHMEM st) (\<lambda>(r, st'). r = (infos \<noteq> [], infos \<noteq> []) \<and> okay n st')"
    "returns (Hidl_queryDirectChannelSupport hb sv MT_GRALLOC st) (\<lambda>(r, st'). \<not> fst r \<and> okay n st')"
proof -
  have l: "list_all bosch_info infos" using okay_bosch [OF assms(1)] by (simp add: list_all_iff)
  show "returns (Hidl_queryDirectChannelSupport hb sv MT_ASHMEM st) (\<lambda>(r, st'). r = (infos \<noteq> [], infos \<noteq> []) \<and> okay n st')"
    "returns (Hidl_queryDirectChannelSupport hb sv MT_GRALLOC st) (\<lambda>(r, st'). \<not> fst r \<and> okay n st')"
    unfolding Hidl_queryDirectChannelSupport_def
    by (auto simp: hidl_query_loop [OF l assms(2)] intro!: returns_mono [OF hidl_list_returns [OF assms(1)]])
qed

lemma hidl_passes_gralloc:
  "okay n st \<Longrightarrow> hidl_base_ok hb \<Longrightarrow> returns (Hidl_verifyDirectChannel hb sv MT_GRALLOC st) (okay n)"
  unfolding Hidl_verifyDirectChannel_def by (auto intro!: returns_mono [OF hidl_query_returns(2)])

text \<open>The memory of the tests.\<close>

definition hidl_memory :: "hidl_base \<Rightarrow> bool" where
  "hidl_memory hb \<longleftrightarrow> (\<exists>mem bs. hb_create hb MT_ASHMEM kEventSize = Some mem \<and> tm_mSize mem = kEventSize
     \<and> tm_mBuffer mem = Buffer bs \<and> good_memory (hb_getSharedMemInfo hb mem))"

lemma hidl_passes_ashmem:
  assumes "okay (length infos + n) st" "hidl_base_ok hb" "hidl_memory hb"
  shows "returns (Hidl_verifyDirectChannel hb sv MT_ASHMEM st) (okay n)"
proof -
  obtain mem bs where mem: "hb_create hb MT_ASHMEM kEventSize = Some mem" "tm_mSize mem = kEventSize"
    "tm_mBuffer mem = Buffer bs" "good_memory (hb_getSharedMemInfo hb mem)"
    using assms(3) by (auto simp: hidl_memory_def)
  define I where "I = (\<lambda>xs st. set xs \<subseteq> set infos \<and> okay (length xs + n) st)"
  have register: "returns (Hidl_verifyRegisterDirectChannel hb sv mem 0 True True st)
     (\<lambda>(c, st'). \<exists>k cnt en. holds n k cnt en (Some c) st')" if "okay (Suc n) st" for n st
    unfolding Hidl_verifyRegisterDirectChannel_def
    by (auto simp: mem(2,3) intro!: returns_mono [OF hidl_register_returns [OF okay_holds [OF that] mem(4)]]) blast
  have step: "returns (and_then (Hidl_verifyRegisterDirectChannel hb sv mem 0 True True st) (\<lambda>(c, st).
      and_then (Hidl_verifyConfigure hb sv x MT_ASHMEM c True st) (\<lambda>st. Hidl_verifyUnregisterDirectChannel sv c True st))) (I xs)"
    if "I (x # xs) st" for x xs st
  proof -
    have st: "okay (Suc (length xs + n)) st" "x \<in> set infos" "set xs \<subseteq> set infos" using that by (simp_all add: I_def)
    have "returns (Hidl_verifyUnregisterDirectChannel sv c True st') (I xs)"
      if "holds (length xs + n) k cnt en (Some c) st'" for k cnt en c st'
      unfolding Hidl_verifyUnregisterDirectChannel_def vts_unregisterDirectChannel_def
      using st(3) by (auto simp: I_def intro!: returns_mono [OF unregister_call [OF that]] dest: holds_okay)
    then show ?thesis
      using st(2) by (auto intro!: returns_mono [OF register [OF st(1)]]
          returns_mono [OF hidl_configure_returns [OF _ _ assms(2)]])
  qed
  have loop: "returns (fold_exc (\<lambda>sensor st.
      and_then (Hidl_verifyRegisterDirectChannel hb sv mem 0 True True st) (\<lambda>(c, st).
      and_then (Hidl_verifyConfigure hb sv sensor MT_ASHMEM c True st) (\<lambda>st.
      Hidl_verifyUnregisterDirectChannel sv c True st))) infos st1) (okay n)" if "okay (length infos + n) st1" for st1
    by (rule returns_mono [OF returns_fold [where I = I, OF _ step]]) (use that in \<open>simp_all add: I_def\<close>)
  show ?thesis unfolding Hidl_verifyDirectChannel_def
    by (auto simp: mem(1) intro!: returns_mono [OF hidl_query_returns(1) [OF assms(1,2)]]
        returns_mono [OF hidl_list_returns] loop dest: okay_less)
qed

lemma hidl_sensor_returns:
  assumes "okay n st" "hidl_base_ok hb" "infos \<noteq> []"
  shows "returns (getDirectChannelSensor hb sv st)
     (\<lambda>(found, st'). found = Some (hd infos, MT_ASHMEM, RL_NORMAL) \<and> okay n st')"
proof -
  obtain x xs where x: "infos = x # xs" using assms(3) by (auto simp: neq_Nil_conv)
  have "bosch_info x" using okay_bosch [OF assms(1)] by (simp add: x)
  note f = bosch_info_facts [OF this]
  have "getDirectChannelSensor_loop hb infos = Some (hd infos, MT_ASHMEM)"
    by (simp add: x hidl_baseD [OF assms(2)] f)
  then show ?thesis unfolding getDirectChannelSensor_def
    by (auto simp: hidl_baseD [OF assms(2)] x f Let_def intro!: returns_mono [OF hidl_list_returns [OF assms(1)]])
qed

text \<open>A channel that is not open.\<close>

lemma okay_config_unknown:
  assumes "okay n st" "\<And>s. inv s \<Longrightarrow> keeps (vs_service st) s \<Longrightarrow> \<not> open_channel s c"
  shows "returns (Hidl_configDirectReport sv h c rate st) (\<lambda>((result, token), st'). result = R_BAD_VALUE \<and> okay n st')"
proof -
  have s: "inv (vs_service st)" "n \<le> room (vs_service st)" "\<not> vs_failed st" using assms(1) by (simp_all add: okay_def)
  have "returns (is_configDirectReport sv h c rate s') (\<lambda>((result, ret), s'').
      result = R_BAD_VALUE \<and> okay n (st\<lparr>vs_service := s'', vs_calls := m\<rparr>))"
    if "inv s'" "keeps (vs_service st) s'" for s' m
    using s keepsD [OF that(2)]
    by (intro returns_mono [OF config_unknown [OF that(1) assms(2) [OF that]]]) (auto simp: okay_def dest!: keepsD)
  then show ?thesis unfolding Hidl_configDirectReport_def vts_call_def
    by (auto intro!: returns_mono [OF background [OF s(1)]] simp: case_prod_unfold)
qed

lemma hidl_passes_invalid_channel:
  assumes "okay n st" "hidl_base_ok hb" "infos \<noteq> []"
  shows "returns (test_ConfigureDirectChannelWithInvalidHandle hb sv st) (okay n)"
proof -
  have closed: "\<not> open_channel s (-1)" if "inv s" for s using positive [OF that, of "-1"] by auto
  show ?thesis unfolding test_ConfigureDirectChannelWithInvalidHandle_def
    by (auto intro!: returns_mono [OF hidl_sensor_returns [OF assms]] returns_mono [OF okay_config_unknown [OF _ closed]])
qed

text \<open>\<^verbatim>\<open>resetHal\<close> closes every channel.\<close>

lemma closed_call:
  assumes "okay n st \<and> (\<forall>c. \<not> open_channel (vs_service st) c)"
    and "\<And>s. inv s \<Longrightarrow> returns (f s) (\<lambda>(r, s'). inv s' \<and> room s' = room s \<and> open_channel s' = open_channel s)"
  shows "returns (vts_call sv f st) (\<lambda>(r, st'). okay n st' \<and> (\<forall>c. \<not> open_channel (vs_service st') c))"
proof -
  have s: "inv (vs_service st)" "n \<le> room (vs_service st)" "\<not> vs_failed st" "\<forall>c. \<not> open_channel (vs_service st) c"
    using assms(1) by (simp_all add: okay_def)
  show ?thesis unfolding vts_call_def
    using s by (auto intro!: returns_mono [OF background [OF s(1)]] returns_mono [OF assms(2)]
        simp: case_prod_unfold okay_def dest!: keepsD)
qed

lemma hidl_reset_closes:
  assumes "okay n st"
  shows "returns (Hidl_resetHal sv st) (\<lambda>st'. okay n st' \<and> (\<forall>c. \<not> open_channel (vs_service st') c))"
proof -
  define closed where "closed = (\<lambda>st. okay n st \<and> (\<forall>c. \<not> open_channel (vs_service st) c))"
  have s: "inv (vs_service st)" "n \<le> room (vs_service st)" "\<not> vs_failed st" using assms by (simp_all add: okay_def)
  have init: "returns (vts_call sv (is_initialize sv) st) (\<lambda>(r, st'). closed st')"
    unfolding vts_call_def
    using s by (auto intro!: returns_mono [OF background [OF s(1)]] returns_mono [OF initialize]
        simp: case_prod_unfold okay_def closed_def dest!: keepsD)
  have lst: "returns (Hidl_getSensorsList sv st1) (\<lambda>(l, st'). closed st')" if "closed st1" for st1
    unfolding Hidl_getSensorsList_def using that unfolding closed_def
    by (auto intro!: returns_mono [OF closed_call])
  have stop: "returns (vts_call sv (is_activate sv h False) st1) (\<lambda>(r, st'). closed st')" if "closed st1" for h st1
    using that unfolding closed_def
    by (rule closed_call, cases "h \<in> si_sensorHandle ` set infos")
       (auto simp: activate_unknown intro!: returns_mono [OF activate])
  have "returns (fold_exc (\<lambda>i st. and_then (vts_call sv (is_activate sv (si_sensorHandle i) False) st) (\<lambda>(_, st). Inr st))
       l st1) closed" if "closed st1" for l st1
    by (rule returns_fold [where I = "\<lambda>_. closed", OF that]) (auto intro!: returns_mono [OF stop])
  then have "returns (Hidl_resetHal sv st) closed" unfolding Hidl_resetHal_def
    by (auto intro!: returns_mono [OF init] returns_mono [OF lst])
  then show ?thesis unfolding closed_def .
qed

lemma hidl_passes_cleanup:
  assumes "okay (Suc n) st" "hidl_base_ok hb" "infos \<noteq> []" "hidl_memory hb"
  shows "returns (test_CleanupDirectConnectionOnInitialize hb sv st) (okay n)"
proof -
  obtain mem where mem: "hb_create hb MT_ASHMEM kEventSize = Some mem" "good_memory (hb_getSharedMemInfo hb mem)"
    using assms(4) by (auto simp: hidl_memory_def)
  have hd: "hd infos \<in> set infos" using assms(3) by simp
  have normal: "isDirectReportRateSupported (hd infos) RL_NORMAL"
    using okay_bosch [OF assms(1) hd] by (rule bosch_info_facts(5))
  have config: "returns (Hidl_configDirectReport sv (si_sensorHandle (hd infos)) c RL_NORMAL st')
     (\<lambda>((result, token), st'). result = R_OK \<and> okay n st')" if "holds n k cnt en (Some c) st'" for k cnt en c st'
    using hidl_config_returns [OF that hd, of RL_NORMAL] normal by (auto elim!: returns_mono dest: holds_okay)
  have again: "returns (Hidl_configDirectReport sv h c rate st') (\<lambda>((result, token), st'). result = R_BAD_VALUE \<and> okay n st')"
    if "okay n st'" "\<forall>c. \<not> open_channel (vs_service st') c" for h c rate st'
    by (rule okay_config_unknown [OF that(1)]) (use that(2) in \<open>auto dest: keepsD\<close>)
  have reset: "returns (Hidl_resetHal sv (st'\<lparr>vs_mDirectChannelHandles := []\<rparr>))
     (\<lambda>st'. okay n st' \<and> (\<forall>c. \<not> open_channel (vs_service st') c))" if "okay n st'" for st'
    by (rule hidl_reset_closes) (simp add: that)
  have start: "okay (Suc n) st1 \<Longrightarrow> returns (Hidl_registerDirectChannel sv (hb_getSharedMemInfo hb mem) st1)
     (\<lambda>((result, c), st'). result = R_OK \<and> (\<exists>k cnt en. holds n k cnt en (Some c) st'))" for st1
    by (rule returns_mono [OF hidl_register_returns [OF okay_holds mem(2)]]) auto
  show ?thesis unfolding test_CleanupDirectConnectionOnInitialize_def returns_and_then
    apply (rule returns_mono [OF hidl_sensor_returns [OF assms(1-3)]])
    apply (clarsimp simp: mem(1) Let_def)
    apply (rule returns_mono [OF start], assumption)
    apply clarsimp
    apply (rule returns_mono [OF config], assumption)
    apply clarsimp
    apply (rule returns_mono [OF reset], assumption)
    apply clarsimp
    apply (rule returns_mono [OF again], assumption, assumption)
    apply clarsimp
    done
qed

text \<open>The suite passes.\<close>

lemma hidl_suite_passes:
  assumes "inv s" "hidl_base_ok hb" "infos \<noteq> []" "hidl_memory hb"
    and "Hidl_SensorListValid hb infos" "Hidl_SensorListContainsBoschSensor infos" "Hidl_ConfigCheck infos"
    and "SensorListDoesntContainInvalidType infos"
    and "length tests * length infos \<le> room s"
  shows "returns (Hidl_run hb sv now tests s) (\<lambda>st. \<not> vs_failed st)"
proof -
  define I where "I = (\<lambda>tests :: hidl_test list. okay (length tests * length infos))"
  have body: "returns (Hidl_body hb sv now t st) (okay n)" if ok: "okay (length infos + n) st" for t st n
  proof -
    have less: "okay n st" "okay (Suc n) st" using assms(3) by (auto intro!: okay_less [OF ok] simp: Suc_le_eq)
    note passes = hidl_passes_list hidl_passes_modes [OF _ assms(2,3)] hidl_passes_inject [OF _ assms(2)]
      hidl_passes_flush [OF _ assms(2)] hidl_passes_one_shot [OF _ assms(2)] hidl_passes_inactive [OF _ assms(2)]
      hidl_passes_nonexistent [OF _ assms(2)] hidl_passes_batch hidl_passes_activate
      hidl_passes_gralloc [OF _ assms(2)] hidl_passes_invalid_channel [OF _ assms(2,3)]
    show ?thesis
      using less(1) assms(5-8) hidl_passes_ashmem [OF ok assms(2,4)] hidl_passes_cleanup [OF less(2) assms(2-4)]
      by (cases t) (simp_all add: passes)
  qed
  have step: "returns (Hidl_run_test hb sv now t st) (I ts)" if "I (t # ts) st" for t ts st
  proof -
    have "okay (length infos + length ts * length infos) (st\<lparr>vs_mSensorHandles := [], vs_mDirectChannelHandles := []\<rparr>)"
      using that by (simp add: I_def)
    then show ?thesis unfolding Hidl_run_test_def
      by (auto simp: I_def intro!: returns_mono [OF hidl_reset_returns] body)
  qed
  have start: "I tests \<lparr>vs_service = s, vs_calls = 0, vs_failed = False, vs_mSensorHandles = [], vs_mDirectChannelHandles = []\<rparr>"
    using assms(1,9) by (simp add: I_def okay_def)
  show ?thesis unfolding Hidl_run_def
    by (rule returns_mono [OF returns_fold [where I = I, OF start step]]) (auto simp: I_def okay_def)
qed

end

end
