(* ===== verification/Vts_Hidl.thy ===== *)
theory Vts_Hidl
  imports Vts_Hidl_Suite Vts_Aidl
begin

text \<open>
  The HIDL 2.1 service keeps the contract of the compliance tests (interpretations of \<open>isensors_contract\<close> and
  \<open>hidl_contract\<close>), while its sensors' threads poll as they like between the calls. So it passes the tests.
\<close>

section \<open>The HIDL service under test\<close>

text \<open>\<open>junk\<close>: the timestamp of a flush event, which the code does not set. The other arguments are those of
  \<open>aidl_isensors\<close>.\<close>

definition hidl_isensors ::
  "(int \<Rightarrow> 's hal_methods) \<Rightarrow> sensors_event_t sensors_os \<Rightarrow> convertV2_1 \<Rightarrow> float_ops \<Rightarrow> (nat \<Rightarrow> int) \<Rightarrow> int \<Rightarrow> ashmem \<Rightarrow> int
     \<Rightarrow> (nat \<Rightarrow> (int \<times> bool \<times> int \<times> int) list) \<Rightarrow> (real \<Rightarrow> 32 word) \<Rightarrow> ('s, sensors_event_t) sensors hidl_sensors" where
  "hidl_isensors hms os cv fo clk junk sys fd sched f =
     \<lparr>is_initialize = (\<lambda>st. Inr (SensorsV2_1_initialize_2_1 hms os clk True True st)),
      is_getSensorsList = (\<lambda>st. (R_OK, SensorsV2_1_getSensorsList_2_1 st)),
      is_activate = (\<lambda>h en st. Inr (Sensors_activate hms os clk h en st)),
      is_batch = (\<lambda>h p l st. Inr (Sensors_batch hms os h p l st)),
      is_flush = (\<lambda>h st. Inr (Sensors_flush hms os clk junk h st)),
      is_setOperationMode = Sensors_setOperationMode,
      is_injectSensorData = SensorsV2_1_injectSensorData_2_1 cv,
      is_registerDirectChannel = (\<lambda>(type, format, bytes, handle) st.
        and_then (Sensors_registerDirectChannel sys kEventSize zero_event (type = MT_ASHMEM)
            (Some \<lparr>mem_fd = fd, mem_size = nat bytes\<rparr>) st)
          (\<lambda>((result, channelHandle), st). Inr ((result, Some channelHandle), st))),
      is_unregisterDirectChannel = (\<lambda>c st. Inr (Sensors_unregisterDirectChannel hms os c st)),
      is_configDirectReport = (\<lambda>h c rate st.
        let ((result, reportToken), st') = Sensors_configDirectReport hms os h c rate st in Inr ((result, Some reportToken), st')),
      is_background = (\<lambda>n st. Inr (fold (\<lambda>(h, busy, t1, t2). Sensors_poll hms os fo busy t1 t2 h) (sched n) st)),
      is_events = ss_written,
      is_memory = channel_memory f\<rparr>"

definition hidl_ready ::
  "(int \<Rightarrow> 's hal_methods) \<Rightarrow> sensors_event_t sensors_os \<Rightarrow> ashmem \<Rightarrow> int \<Rightarrow> (real \<Rightarrow> 32 word) \<Rightarrow> SensorInfo list
     \<Rightarrow> ('s, sensors_event_t) sensors \<Rightarrow> bool" where
  "hidl_ready hms os sys fd f infos b \<longleftrightarrow> vts_platform hms os sys fd f \<and> vts_ready infos b"

definition hidl_room :: "('s, sensors_event_t) sensors \<Rightarrow> nat" where
  "hidl_room b = nat (2 ^ 31 - 1 - ss_mNextChannelHandle b)"

subsection \<open>It keeps the contract\<close>

lemma hidl_readyD:
  assumes "hidl_ready hms os sys fd f infos b"
  shows "vts_ready infos b" "\<forall>evs. os_fmq_write os evs" "aidl_os kEventSize os" "sane_hal hms" "vts_platform hms os sys fd f"
  using assms by (simp_all add: hidl_ready_def vts_platform_def)

lemma hidl_background_law:
  assumes "hidl_ready hms os sys fd f infos b"
  shows "hidl_ready hms os sys fd f infos (fold (\<lambda>(h, busy, t1, t2). Sensors_poll hms os fo busy t1 t2 h) rounds b)
    \<and> same b (fold (\<lambda>(h, busy, t1, t2). Sensors_poll hms os fo busy t1 t2 h) rounds b)"
  using assms
proof (induction rounds arbitrary: b)
  case (Cons r rounds)
  obtain h busy t1 t2 where r: "r = (h, busy, t1, t2)" by (cases r)
  note d = hidl_readyD [OF Cons.prems]
  have p: "hidl_ready hms os sys fd f infos (Sensors_poll hms os fo busy t1 t2 h b)"
    "same b (Sensors_poll hms os fo busy t1 t2 h b)"
    using poll_ready [OF d(1-4)] d(5) by (simp_all add: hidl_ready_def)
  show ?case using Cons.IH [OF p(1)] same_trans [OF p(2)] by (simp add: r)
qed simp

lemma hidl_service:
  "hidl_ready hms os sys fd f infos b \<Longrightarrow> sm_find h (ss_mSensors b) = None \<longleftrightarrow> h \<notin> si_sensorHandle ` set infos"
  using ready_handles(1) [of infos b h] by (auto simp: hidl_ready_def)

lemma hidl_register_law:
  assumes "hidl_ready hms os sys fd f infos b" "0 < hidl_room b" "event_memory mem"
  shows "returns (is_registerDirectChannel (hidl_isensors hms os cv fo clk junk sys fd sched f) mem b)
     (\<lambda>((result, ret), b'). \<exists>c. result = R_OK \<and> ret = Some c \<and> 0 < c \<and> hidl_ready hms os sys fd f infos b'
        \<and> has_channel b' c \<and> enabled_sensor b' = enabled_sensor b \<and> hidl_room b = Suc (hidl_room b')
        \<and> quiet (ss_written b) (ss_written b')
        \<and> list_all (\<lambda>b. b = 0) (channel_memory f b' c (replicate kEventSize 0xFF)))"
proof -
  obtain format handle where mem: "mem = (MT_ASHMEM, format, int kEventSize, handle)"
    using assms(3) by (auto simp: event_memory_def split: prod.splits)
  have less: "ss_mNextChannelHandle b + 1 < 2 ^ 31" using assms(2) by (simp add: hidl_room_def)
  note d = hidl_readyD [OF assms(1)]
  note r = register_ready [OF d(1,5) less]
  have room: "hidl_room b = Suc (hidl_room (with_channel fd b))" using less r(7) by (simp add: hidl_room_def)
  show ?thesis
    using r(4-9) room d(5) by (simp add: hidl_isensors_def mem r(3) hidl_ready_def)
qed

lemma hidl_config_law:
  assumes "hidl_ready hms os sys fd f infos b" "has_channel b c" "info \<in> set infos"
    "rate \<in> {RL_STOP, RL_NORMAL, RL_FAST, RL_VERY_FAST}"
  shows "fst (Sensors_configDirectReport hms os (si_sensorHandle info) c rate b)
     = (if isDirectReportRateSupported info rate then (R_OK, si_sensorHandle info) else (R_BAD_VALUE, -1))"
    "0 < si_sensorHandle info"
proof -
  let ?h = "si_sensorHandle info"
  note d = hidl_readyD [OF assms(1)]
  have info: "bosch_info info" using d(1) assms(3) by (simp add: vts_ready_def list_all_iff)
  then show h: "0 < ?h" by (simp add: bosch_info_def)
  obtain s where s: "sm_find ?h (ss_mSensors b) = Some s" using ready_handles(1) [OF d(1), of ?h] assms(3) by auto
  have flags: "si_flags (hs_mSensorInfo s) = 1216" using ready_sensor(1) [OF d(1) s] by (simp add: bosch_info_def)
  obtain ch where ch: "sm_find c (ss_mDirectChannels b) = Some ch" using assms(2) by (auto simp: has_channel_def)
  have max: "i32 (drop_bit FLAG_SHIFT_DIRECT_REPORT (1216 AND FLAG_MASK_DIRECT_REPORT)) = 1" "has_flag 1216 FLAG_DIRECT_CHANNEL_ASHMEM"
    "i32 (drop_bit FLAG_SHIFT_DIRECT_REPORT 1216 AND drop_bit FLAG_SHIFT_DIRECT_REPORT FLAG_MASK_DIRECT_REPORT) = 1"
    by (simp_all add: flag_defs has_flag_def i32_def)
  have level: "rate_of_level 1 RL_STOP = Some 0" "rate_of_level 1 RL_NORMAL = Some 20000000"
    "rate_of_level 1 RL_FAST = None" "rate_of_level 1 RL_VERY_FAST = None"
    by (simp_all add: rate_of_level_def)
  show "fst (Sensors_configDirectReport hms os ?h c rate b)
     = (if isDirectReportRateSupported info rate then (R_OK, ?h) else (R_BAD_VALUE, -1))"
    using assms(4) h
    by (auto simp: Sensors_configDirectReport_def ch s flags max Let_def level bosch_info_facts(5-8) [OF info])
qed

lemma hidl_config_all_law:
  assumes "hidl_ready hms os sys fd f infos b" "has_channel b c"
  shows "fst (fst (Sensors_configDirectReport hms os (-1) c rate b)) = (if rate = RL_STOP then R_OK else R_BAD_VALUE)"
proof -
  note d = hidl_readyD [OF assms(1)]
  have "\<forall>i\<in>set infos. 0 < si_sensorHandle i" using d(1) by (auto simp: vts_ready_def list_all_iff bosch_info_def)
  then have "- 1 \<notin> si_sensorHandle ` set infos" by force
  then have "sm_find (- 1) (ss_mSensors b) = None" using hidl_service [OF assms(1), of "- 1"] by simp
  then show ?thesis using assms(2) by (auto simp: Sensors_configDirectReport_def has_channel_def)
qed

lemma hidl_injection_law:
  assumes "hidl_ready hms os sys fd f infos b" "infos \<noteq> []"
  shows "Sensors_setOperationMode OM_DATA_INJECTION b = R_BAD_VALUE"
proof -
  have last: "xs \<noteq> [] \<Longrightarrow> fold (\<lambda>x r. c) xs (r :: hal_result) = c" for xs :: "Sensor list" and c r
    by (induction xs arbitrary: r) (auto, metis fold_simps(1))
  have "sm_values (ss_mSensors b) \<noteq> []" using assms by (auto simp: hidl_ready_def vts_ready_def listed_infos_def)
  then show ?thesis by (simp add: Sensors_setOperationMode_def Sensor_setOperationMode_def last)
qed

lemma hidl_same:
  "hidl_ready hms os sys fd f infos b \<Longrightarrow> vts_ready infos b' \<Longrightarrow> hidl_ready hms os sys fd f infos b'"
  by (simp add: hidl_ready_def)

interpretation hidl: isensors_contract "hidl_isensors hms os cv fo clk junk sys fd sched f"
  "hidl_ready hms os sys fd f infos" infos enabled_sensor has_channel hidl_room event_memory same
  R_OK R_BAD_VALUE R_BAD_VALUE
  for hms :: "int \<Rightarrow> 's hal_methods" and os cv fo clk junk sys fd sched f infos
proof (unfold_locales, goal_cases)
  case (2 s s')
  then show ?case by (simp add: same_def hidl_room_def hidl_isensors_def)
next
  case (3 s)
  then show ?case using ready_handles(2) [of infos s] by (simp add: hidl_ready_def vts_ready_def)
next
  case (4 s c)
  then show ?case by (simp add: hidl_ready_def vts_ready_def)
next
  case (5 s)
  then show ?case by (simp add: hidl_isensors_def hidl_ready_def vts_ready_def SensorsV2_1_getSensorsList_2_1_def listed_infos_def)
next
  case (6 s n)
  then show ?case using hidl_background_law [of hms os sys fd f infos s fo "sched n"] by (simp add: hidl_isensors_def)
next
  case (7 s)
  note d = hidl_readyD [OF 7]
  show ?case using initialize_ready [OF d(1,2), of hms clk] d(5)
    by (simp add: hidl_isensors_def hidl_room_def hidl_ready_def SensorsV2_1_initialize_2_1_def case_prod_unfold)
next
  case (8 s h en)
  note d = hidl_readyD [OF 8(1)]
  show ?case using activate_ready [OF d(1) 8(2) d(2,3), of hms clk en] d(5)
    by (simp add: hidl_isensors_def hidl_room_def hidl_ready_def case_prod_unfold)
next
  case (9 s h en)
  then show ?case using hidl_service [of hms os sys fd f infos s h] by (simp add: hidl_isensors_def Sensors_activate_def)
next
  case (10 s h p)
  note d = hidl_readyD [OF 10]
  show ?case using batch_ready [OF d(1-3), of hms h p] d(5) by (simp add: hidl_isensors_def hidl_ready_def case_prod_unfold)
next
  case (11 s h)
  note d = hidl_readyD [OF 11(1)]
  show ?case using flush_ready [OF d(1) 11(2) d(2), of hms clk junk] d(5) 11(3)
    by (simp add: hidl_isensors_def hidl_room_def hidl_ready_def case_prod_unfold)
next
  case (12 s h)
  note d = hidl_readyD [OF 12(1)]
  note f = flush_ready [OF d(1) 12(2) d(2), of hms clk junk]
  have "listed_infos (snd (Sensors_flush hms os clk junk h s)) = listed_infos s" using f(1) d(1) by (simp add: vts_ready_def)
  then have "same s (snd (Sensors_flush hms os clk junk h s))" using f(3-6) 12(3) by (auto simp: same_def quiet_def)
  then show ?case using f d(5) 12(3) by (simp add: hidl_isensors_def hidl_ready_def case_prod_unfold)
next
  case (13 s h)
  then show ?case using hidl_service [of hms os sys fd f infos s h] by (simp add: hidl_isensors_def Sensors_flush_def)
next
  case (14 s)
  then show ?case using hidl_injection_law by (simp add: hidl_isensors_def)
next
  case (15 s mem)
  then show ?case using hidl_register_law [of hms os sys fd f infos s mem cv fo clk junk sched] by (simp add: hidl_isensors_def)
next
  case (16 s c info rate)
  note d = hidl_readyD [OF 16(1)]
  show ?case using hidl_config_law [OF 16] config_ready [OF d(1-3), of hms "si_sensorHandle info" c rate] d(5)
    by (auto simp: hidl_isensors_def hidl_ready_def case_prod_unfold Let_def)
next
  case (17 s c h rate)
  then show ?case by (simp add: hidl_isensors_def Sensors_configDirectReport_def has_channel_def)
next
  case (18 s c rate)
  note d = hidl_readyD [OF 18(1)]
  show ?case using hidl_config_all_law [OF 18, of rate] config_ready [OF d(1-3), of hms "- 1" c rate] d(5)
    by (auto simp: hidl_isensors_def hidl_ready_def case_prod_unfold Let_def)
next
  case (19 s c)
  note d = hidl_readyD [OF 19]
  have "fst (Sensors_unregisterDirectChannel hms os c s) = R_OK" by (simp add: Sensors_unregisterDirectChannel_def Let_def)
  then show ?case using unregister_ready [OF d(1-3), of hms c] d(5)
    by (simp add: hidl_isensors_def hidl_room_def hidl_ready_def case_prod_unfold fewer_def same_def enabled_sensor_def fun_eq_iff)
qed simp_all

interpretation hidl_tests: hidl_contract "hidl_isensors hms os cv fo clk junk sys fd sched f"
  "hidl_ready hms os sys fd f infos" infos enabled_sensor has_channel hidl_room event_memory same
  for hms :: "int \<Rightarrow> 's hal_methods" and os cv fo clk junk sys fd sched f infos
  by (rule hidl_contract.intro) (rule hidl.isensors_contract_axioms)

section \<open>The tests pass\<close>

lemma shipped_types:
  assumes "d \<in> set (all_data fo)"
  shows "bst_int (sd_type d) \<in> {1, 4, 9, 10, 16, 35}"
proof -
  have "(sd_type d, sd_sensorName d) \<in> set (map (\<lambda>d. (sd_type d, sd_sensorName d)) (all_data fo))"
    using assms by force
  then show ?thesis unfolding all_names by (auto simp: st_defs)
qed

lemma hidl_list_loop:
  assumes "\<forall>i\<in>set l. SensorInfo_valid i \<longrightarrow> Hidl_SensorInfo_valid hb i" "SensorListValid_loop l m"
  shows "Hidl_SensorListValid_loop hb l m"
  using assms by (induction l arbitrary: m) (auto simp: Let_def)

lemma hidl_lists_pass:
  assumes "hidl_base_ok hb" "set ds \<subseteq> set (all_data fo)" "SensorListValid (numbered ds)"
  shows "Hidl_SensorListValid hb (numbered ds)" "SensorListDoesntContainInvalidType (numbered ds)"
proof -
  have types: "si_type i \<in> {1, 4, 9, 10, 16, 35}" "si_typeAsString i = []" if "i \<in> set (numbered ds)" for i
    using in_numbered [OF that] assms(2) shipped_types [of _ fo] by (fastforce simp: sensor_info_of_def SensorInfo_init_def)+
  then show "SensorListDoesntContainInvalidType (numbered ds)"
    by (fastforce simp: SensorListDoesntContainInvalidType_def list_all_iff st_defs)
  have "Hidl_SensorInfo_valid hb i" if i: "i \<in> set (numbered ds)" "SensorInfo_valid i" for i
  proof -
    have "Hidl_expectedReportModeForType hb (si_type i) = expectedReportModeForType (si_type i)"
      using types [OF i(1)] assms(1) by (auto simp: Hidl_expectedReportModeForType_def hidl_base_ok_def st_defs)
    moreover have "assertTypeMatchReportMode (si_type i) (extractReportMode (si_flags i))"
      using i(2) by (simp add: SensorInfo_valid_def)
    moreover have low: "\<not> si_type i \<ge> Vts_Lists.DEVICE_PRIVATE_BASE"
      using types(1) [OF i(1)] by (auto simp: Vts_Lists.DEVICE_PRIVATE_BASE_def)
    ultimately have "Hidl_expectedReportModeForType hb (si_type i) = INT32_MAX
        \<or> Hidl_expectedReportModeForType hb (si_type i) = extractReportMode (si_flags i)"
      by (simp add: assertTypeMatchReportMode_def Let_def)
    then have "hb_assertTypeMatchReportMode hb (Hidl_expectedReportModeForType hb) (si_type i) (extractReportMode (si_flags i))"
      using assms(1) unfolding hidl_base_ok_def by blast
    then show ?thesis
      using i(2) low types(2) [OF i(1)] assms(1)
      by (simp add: Hidl_SensorInfo_valid_def SensorInfo_valid_def hidl_base_ok_def)
  qed
  then show "Hidl_SensorListValid hb (numbered ds)"
    unfolding Hidl_SensorListValid_def
    by (intro hidl_list_loop) (use assms(3) in \<open>simp_all add: SensorListValid_def\<close>)
qed


text \<open>A base class as the platform has it, and a platform with one SMI330.\<close>

definition hidl_example_base :: hidl_base where
  "hidl_example_base =
     \<lparr>hb_extractReportMode = extractReportMode, hb_isValidType = isValidType,
      hb_assertTypeMatchStringType = assertTypeMatchStringType, hb_expectedReportModeForType = expectedReportModeForType,
      hb_assertTypeMatchReportMode = (\<lambda>E t m. E t = INT32_MAX \<or> E t = m), hb_assertDelayMatchReportMode = assertDelayMatchReportMode,
      hb_isDirectChannelTypeSupported = isDirectChannelTypeSupported,
      hb_isDirectReportRateSupported = isDirectReportRateSupported,
      hb_create = SensorsAidlTestSharedMemory_create vts_memory True,
      hb_getSharedMemInfo = SensorsAidlTestSharedMemory_getSharedMemInfo\<rparr>"


end
