(* ===== verification/Spec2Isabelle.thy ===== *)
theory Spec2Isabelle
  imports Sysfs Sensor_Core Smi_Devices Composite_Sensors Direct_Channel Hal_Sensor Sensor_Shutdown
    Sensors_Service Sensors_Invariant Hal_Proxy Handle_Encoding Proxy_Wakelock
    Proxy_Routing Proxy_Queue Sub_Sensor Sub_Hal Proxy_System Aidl_Sensor Aidl_Service
    Convert_Utils Hal_Proxy_Aidl Fusion_Vec Fusion_Mat Fusion_Invert Fusion_Quat Fusion
    Fusion_Shape Fusion_Attitude Fusion_Covariance Fusion_Failure Fusion_Rotation
    Sub_Events Proxy_Versions Multi_Hal Front_Ends Direct_Reader
    Vts_Lists Vts_Target Vts_Contract Vts_Suite Vts_Ready Vts_Aidl
    Vts_Hidl_Target Vts_Hidl_Suite Vts_Hidl
begin

text \<open>
  A verification library for the Bosch MEMS sensors HAL for Android (\<^verbatim>\<open>src/sensors\<close>).

  \<^bold>\<open>The program.\<close> A set of inertial sensors (SMI230, SMI240, SMI330) appears as files in sysfs. A hardware
  layer (\<^verbatim>\<open>hwctl\<close>, \<^verbatim>\<open>core\<close>, \<^verbatim>\<open>sensors\<close>) finds them, sets their power mode and rate, reads
  them, and computes gravity and linear acceleration from accelerometer and gyroscope with an attitude
  filter. One sensor object per sensor (\<^verbatim>\<open>Sensor.cpp\<close>, in three versions) polls the hardware in a
  thread of its own and hands events to a service. There are three such services with the same duties
  (registration, power, batching, flushing, direct channels, wake lock): HIDL 2.0 or 2.1
  (\<^verbatim>\<open>2.X/Sensors.h\<close>), AIDL (\<^verbatim>\<open>aidl/SensorsHalAidl.cpp\<close>) and the sub-HAL
  (\<^verbatim>\<open>multihal/common/SensorsSubHal.cpp\<close>) of a multi-HAL, whose proxy
  (\<^verbatim>\<open>multihal/2.X/HalProxy.cpp\<close>, with an AIDL front in \<^verbatim>\<open>multihal/aidl\<close>) merges sub-HALs of
  several vendors into one service.

  \<^bold>\<open>Conventions.\<close> Definitions have the names of the functions they model (with a prefix where two classes
  have a method of the same name) and are executable. A class is a record of its members, a method a
  function from the state to the result and the new state. A thread is a sequence of rounds of its loop,
  cut where the code releases its lock; the environment (clock readings, what a queue, a system call or a
  file answers) is an argument of the round. What is undefined in C++, aborts or throws is a value
  (\<open>cpp_exception\<close>). Integers are \<open>int\<close> with the conversions \<open>i32\<close>, \<open>i64\<close>, \<open>u32\<close>, \<open>u64\<close> of \<open>Hal_Prelude\<close>
  where the code converts. \<^verbatim>\<open>std::map\<close> is the ordered association list of \<open>Std_Map\<close>, because the
  code iterates in key order. Uninitialised members appear as an argument \<open>junk\<close>.

  \<^bold>\<open>The theories.\<close>
  \<^item> \<open>Hal_Prelude\<close>, \<open>Std_Map\<close>: collections, integer conversions, constants of the HAL interface, maps
    (locale \<open>keyed_store\<close>).
  \<^item> \<open>Sysfs\<close> (\<^verbatim>\<open>hwctl/FileHandler\<close>): files and the search for a device; the number check accepts
    exactly the regular expression of the code, and reading returns what was printed.
  \<^item> \<open>Sensor_Core\<close> (\<^verbatim>\<open>core/SensorCore\<close>, \<^verbatim>\<open>core/ISensorHal.h\<close>): several users of one device;
    power is the disjunction of their requests, the rate the fastest one.
  \<^item> \<open>Smi_Devices\<close> (\<^verbatim>\<open>sensors/SMI230, SMI240, SMI330\<close>): drivers; the loop for the data rate, and
    the shared device of an SMI330.
  \<^item> \<open>Composite_Sensors\<close> (\<^verbatim>\<open>core/CompositeSensors\<close>, \<^verbatim>\<open>sensors/SensorList\<close>): gravity and linear
    acceleration as users of their parts, and the list of available sensors.
  \<^item> \<open>Fusion_Vec\<close>, \<open>Fusion_Mat\<close>, \<open>Fusion_Invert\<close>, \<open>Fusion_Quat\<close> (\<^verbatim>\<open>core/utils/vec.h, mat.h,
    quat.h\<close>), \<open>Fusion\<close> (the filter of \<^verbatim>\<open>CompositeSensors.cpp\<close>), with \<open>Fusion_Shape\<close> (sizes, for
    every arithmetic), \<open>Fusion_Attitude\<close>, \<open>Fusion_Rotation\<close> (the prediction is Rodrigues' formula) and
    \<open>Fusion_Covariance\<close> (exact arithmetic) and \<open>Fusion_Failure\<close>
    (single precision with infinities and NaN). The C++ templates are generic in the element type, and so
    are the definitions: \<open>exact\<close> instantiates them with real numbers, \<open>ieee\<close> with rounded ones. What holds
    in exact arithmetic (inverse, unit quaternion, symmetry) is not claimed of floats.
  \<^item> \<open>Direct_Channel\<close> (\<^verbatim>\<open>core/DirectChannel\<close>): the shared ring buffer refines the list of all events.
  \<^item> \<open>Hal_Types\<close>, \<open>Float_Time\<close>, \<open>Hal_Sensor\<close>, \<open>Sensor_Shutdown\<close> (\<^verbatim>\<open>2.X/Sensor.cpp\<close>): the sensor
    object, its invariant under any calls and polling rounds, deadlines in \<^verbatim>\<open>float\<close>, the destructor as
    a relation between two threads.
  \<^item> \<open>Sensors_Service\<close>, \<open>Sensors_Invariant\<close> (\<^verbatim>\<open>2.X/Sensors.h\<close>): the service; sensors and channels
    agree on who reports where.
  \<^item> \<open>Aidl_Sensor\<close>, \<open>Aidl_Service\<close> (\<^verbatim>\<open>aidl\<close>) and \<open>Sub_Sensor\<close>, \<open>Sub_Hal\<close>
    (\<^verbatim>\<open>multihal/common\<close>): their counterparts, shown to simulate the HIDL service, so that its
    invariants carry over; and where they do not.
  \<^item> \<open>Handle_Encoding\<close>, \<open>Hal_Proxy\<close>, \<open>Proxy_Wakelock\<close>, \<open>Proxy_Routing\<close>, \<open>Proxy_Queue\<close>
    (\<^verbatim>\<open>multihal/2.X\<close>): the proxy over arbitrary sub-HALs (records of their methods): routing by
    handle, modes, merged lists, the reference-counted wake lock (locale \<open>refcounter\<close>), the queue of
    pending events.
  \<^item> \<open>Proxy_System\<close> (locale \<open>sub_hal_contract\<close>, interpreted on the Bosch sub-HAL), \<open>Sub_Events\<close>,
    \<open>Proxy_Versions\<close> and \<open>Multi_Hal\<close>: the multi-HAL as a whole, from \<^verbatim>\<open>hals.conf\<close> to the event queue.
  \<^item> \<open>Convert_Utils\<close>, \<open>Hal_Proxy_Aidl\<close> (\<^verbatim>\<open>multihal/aidl\<close>): conversions of events at bit level, and the
    AIDL front of the proxy.
  \<^item> \<open>Front_Ends\<close> (\<^verbatim>\<open>2.0\<close>, \<^verbatim>\<open>2.1\<close>): the HIDL front ends, and that all front ends list the
    same sensors.
  \<^item> \<open>Direct_Reader\<close> (\<^verbatim>\<open>aidl/vts/SensorsAidlTestSharedMemory.h\<close>): the reader of a direct
    channel over the bytes of the shared memory, and that it gets what the service writes.
  \<^item> \<open>Vts_Lists\<close>, \<open>Vts_Target\<close> (\<^verbatim>\<open>aidl/vts/BoschAidlHalSensorsTargetTest.cpp\<close>): the compliance
    tests as programs over an implementation of \<^verbatim>\<open>ISensors\<close>; \<open>Vts_Contract\<close>: what an implementation must
    promise (locale \<open>isensors_contract\<close>); \<open>Vts_Suite\<close>: that the AIDL tests then pass (locale \<open>aidl_contract\<close>);
    \<open>Vts_Ready\<close>, \<open>Vts_Aidl\<close>: the AIDL service, with its threads polling between the calls, keeps the contract.
  \<^item> \<open>Vts_Hidl_Target\<close>, \<open>Vts_Hidl_Suite\<close> (locale \<open>hidl_contract\<close>), \<open>Vts_Hidl\<close>
    (\<^verbatim>\<open>2.X/vts/2_X/BoschHalSensorsV2_XTargetTest.h\<close>): the HIDL tests, and that the HIDL 2.1 service passes them.

  \<^bold>\<open>Parameters.\<close> Not part of the repository, and therefore arguments of the definitions: the FMQ message
  queues (whether a write succeeds, how much fits), the wake-lock calls, \<^verbatim>\<open>mmap\<close> and file access,
  \<^verbatim>\<open>dlopen\<close> and \<^verbatim>\<open>dlsym\<close>, the generated XML parser, the conversions of \<^verbatim>\<open>convertV2_1.h\<close>
  (assumed to preserve the memory layout, \<open>layout_preserving\<close>) and of \<^verbatim>\<open>convert.h\<close>, the generated HIDL
  and AIDL types (their documented shape is modelled), trigonometric functions and square root of the
  filter's arithmetic, the rounding functions \<open>fp32\<close> and \<open>fp64\<close>.

  \<^bold>\<open>Bounds.\<close> All recursion is total; there is no fuel. The loops of the code end for the reasons the
  definitions show (lists that are traversed, counters that grow to a bound). Handles name at most 128
  sub-HALs (\<open>setSubHalIndex_roundtrip\<close>) with fewer than 2 to the 24 sensors each.

  \<^bold>\<open>Not modelled.\<close>
  \<^item> The \<^verbatim>\<open>main\<close> functions of the services, which register them with the platform.
  \<^item> Of the test programs: the tests that collect events over a time or compare readings with the position
    of the device (\<^verbatim>\<open>CallInitializeTwice\<close>, \<^verbatim>\<open>CleanupConnectionsOnInitialize\<close>,
    \<^verbatim>\<open>NoStaleEvents\<close>, the checks of vectors, \<^verbatim>\<open>functional\<close>), and the base class of the HIDL
    fixture, which belongs to the platform (record \<open>hidl_base\<close>).
  \<^item> Debug output and logging.
  \<^item> The interleaving of two calls inside one critical section, and the memory order of atomics.
  \<^item> The sign of zero in \<^verbatim>\<open>copysign\<close>, and matrices with a layout other than the filter's.
  \<^item> A sub-HAL before its first \<^verbatim>\<open>initialize\<close> and an HIDL service without queues: both have null
    pointers that an activation would follow.
  \<^item> \<open>mJustStarted\<close> and \<open>mSamplingPeriodNs\<close> of a composite sensor have no initialiser in the
    code; the model starts them with \<open>False\<close> and \<open>0\<close>, and the first activation and the first
    batch set them.
\<close>

end
